(* ===== verification/Prelude.thy ===== *)
theory Prelude
  imports Main "HOL-Library.Char_ord" "HOL-Library.List_Lexorder"
begin

section \<open>Shared vocabulary of the development\<close>

text \<open>
  What every component uses: collections of rewrite rules, the shape of a Go validation
  loop (\<open>for _, x := range xs { if err := f(x); err != nil { return err } }\<close>), association
  lists that stand for Go maps, and a few facts on lists and options.
  A Go \<open>error\<close> return is an \<open>option\<close> (\<open>None\<close> is \<open>nil\<close>); a \<open>(T, error)\<close>
  return is a sum, \<open>Inl\<close> the error.
\<close>

named_theorems go_string_simps \<open>rewrite rules for the string functions\<close>
named_theorems decode_simps \<open>definitions of the JSON decoders\<close>
named_theorems plan_frame \<open>what an operation on plans leaves unchanged\<close>

subsection \<open>Validation loops\<close>

fun first_error :: "('a \<Rightarrow> 'e option) \<Rightarrow> 'a list \<Rightarrow> 'e option" where
  "first_error f [] = None"
| "first_error f (x # xs) = (case f x of Some e \<Rightarrow> Some e | None \<Rightarrow> first_error f xs)"

lemma first_error_None_iff [simp]:
  "first_error f xs = None \<longleftrightarrow> (\<forall>x \<in> set xs. f x = None)"
  by (induction xs) (auto split: option.splits)

lemma first_error_Some_in:
  "first_error f xs = Some e \<Longrightarrow> \<exists>x \<in> set xs. f x = Some e"
  by (induction xs) (auto split: option.splits)

text \<open>The same loop with the index, which many messages carry.\<close>

fun first_error_from :: "(nat \<Rightarrow> 'a \<Rightarrow> 'e option) \<Rightarrow> nat \<Rightarrow> 'a list \<Rightarrow> 'e option" where
  "first_error_from f i [] = None"
| "first_error_from f i (x # xs) =
     (case f i x of Some e \<Rightarrow> Some e | None \<Rightarrow> first_error_from f (Suc i) xs)"

lemma first_error_from_None_iff:
  "first_error_from f i xs = None \<longleftrightarrow> (\<forall>k < length xs. f (i + k) (xs ! k) = None)"
proof (induction xs arbitrary: i)
  case Nil
  then show ?case by simp
next
  case (Cons x xs)
  have "(\<forall>k < length (x # xs). f (i + k) ((x # xs) ! k) = None) \<longleftrightarrow>
        f i x = None \<and> (\<forall>k < length xs. f (Suc i + k) (xs ! k) = None)"
    by (auto simp: less_Suc_eq_0_disj)
  with Cons.IH [of "Suc i"] show ?case
    by (auto split: option.splits)
qed

subsection \<open>Go maps as association lists\<close>

text \<open>
  A Go \<open>map[string]T\<close> whose content is inspected or printed is a list of pairs with
  distinct keys; \<open>assoc_put\<close> is \<open>m[k] = v\<close>, \<open>assoc_del\<close> is \<open>delete(m, k)\<close> and
  \<open>map_of\<close> the lookup.
\<close>

definition assoc_put :: "'k \<Rightarrow> 'v \<Rightarrow> ('k \<times> 'v) list \<Rightarrow> ('k \<times> 'v) list" where
  "assoc_put k v m =
     (if k \<in> fst ` set m then map (\<lambda>(k', v'). if k' = k then (k', v) else (k', v')) m
      else m @ [(k, v)])"

definition assoc_del :: "'k \<Rightarrow> ('k \<times> 'v) list \<Rightarrow> ('k \<times> 'v) list" where
  "assoc_del k m = filter (\<lambda>p. fst p \<noteq> k) m"

lemma fst_set_assoc_put [simp]: "fst ` set (assoc_put k v m) = insert k (fst ` set m)"
  by (force simp: assoc_put_def)

lemma map_of_overwrite:
  "k \<in> fst ` set m \<Longrightarrow>
   map_of (map (\<lambda>(k', v'). if k' = k then (k', v) else (k', v')) m) = (map_of m)(k \<mapsto> v)"
proof (induction m)
  case Nil
  then show ?case by simp
next
  case (Cons p m)
  obtain a b where p: "p = (a, b)" by (cases p)
  show ?case
  proof (cases "k \<in> fst ` set m")
    case True
    with Cons.IH show ?thesis by (auto simp: p fun_eq_iff)
  next
    case False
    then have "map (\<lambda>(k', v'). if k' = k then (k', v) else (k', v')) m = m"
      by (induction m) auto
    with False Cons.prems show ?thesis by (auto simp: p fun_eq_iff)
  qed
qed

lemma map_of_append_new:
  "k \<notin> fst ` set m \<Longrightarrow> map_of (m @ [(k, v)]) = (map_of m)(k \<mapsto> v)"
proof (induction m)
  case Nil
  then show ?case by simp
next
  case (Cons p m)
  then show ?case by (cases p) (auto simp: fun_eq_iff simp del: map_of_append)
qed

lemma map_of_assoc_put [simp]: "map_of (assoc_put k v m) = (map_of m)(k \<mapsto> v)"
  by (simp add: assoc_put_def map_of_overwrite map_of_append_new del: map_of_append)

lemma map_of_assoc_del [simp]: "map_of (assoc_del k m) = (map_of m)(k := None)"
  by (induction m) (auto simp: assoc_del_def fun_eq_iff)

lemma distinct_assoc_put:
  "distinct (map fst m) \<Longrightarrow> distinct (map fst (assoc_put k v m))"
proof -
  assume d: "distinct (map fst m)"
  have "map fst (map (\<lambda>(k', v'). if k' = k then (k', v) else (k', v')) m) = map fst m"
    by (induction m) auto
  then have "map fst (assoc_put k v m) = (if k \<in> fst ` set m then map fst m else map fst m @ [k])"
    by (simp add: assoc_put_def)
  with d show ?thesis by simp
qed

lemma distinct_assoc_del:
  "distinct (map fst m) \<Longrightarrow> distinct (map fst (assoc_del k m))"
  by (simp add: assoc_del_def distinct_map_filter)

lemma fst_set_assoc_del [simp]: "fst ` set (assoc_del k m) = fst ` set m - {k}"
  by (auto simp: assoc_del_def)

subsection \<open>Lists\<close>

lemma takeWhile_all_in: "x \<in> set (takeWhile P xs) \<Longrightarrow> P x \<and> x \<in> set xs"
  by (auto dest: set_takeWhileD)

lemma sorted_distinct_sort: "sorted xs \<Longrightarrow> sort xs = (xs :: 'a::linorder list)"
  by (simp add: sorted_sort_id)

lemma nth_find_index:
  assumes "i < length xs" and "xs ! i = x"
  shows "x \<in> set xs"
  using assms by auto

text \<open>The position of the first element with a property, \<open>None\<close> when there is none.\<close>

fun find_index :: "('a \<Rightarrow> bool) \<Rightarrow> 'a list \<Rightarrow> nat option" where
  "find_index P [] = None"
| "find_index P (x # xs) = (if P x then Some 0 else map_option Suc (find_index P xs))"

lemma find_index_Some_iff:
  "find_index P xs = Some i \<longleftrightarrow> i < length xs \<and> P (xs ! i) \<and> (\<forall>j < i. \<not> P (xs ! j))"
proof (induction xs arbitrary: i)
  case Nil
  then show ?case by simp
next
  case (Cons x xs)
  show ?case
  proof (cases i)
    case 0
    then show ?thesis by auto
  next
    case (Suc k)
    then show ?thesis
      using Cons.IH [of k] by (auto simp: less_Suc_eq_0_disj)
  qed
qed

lemma find_index_None_iff [simp]: "find_index P xs = None \<longleftrightarrow> (\<forall>x \<in> set xs. \<not> P x)"
  by (induction xs) auto

lemma find_index_SomeD:
  assumes "find_index P xs = Some i"
  shows "i < length xs" and "P (xs ! i)" and "\<And>j. j < i \<Longrightarrow> \<not> P (xs ! j)"
  using assms by (auto simp: find_index_Some_iff)

end
