(* ===== verification/GoStrings.thy ===== *)
theory GoStrings
  imports Prelude
begin

section \<open>Go strings\<close>

text \<open>
  A Go string is a list of bytes (\<open>string\<close>). The functions of package \<open>strings\<close> that
  the modelled packages call are defined here with the case and white-space tables of
  ASCII: a byte of \<open>128\<close> or more (part of a longer UTF-8 sequence) is neither a space
  nor a cased letter. Comparison of strings is Go's, byte by byte.
\<close>

subsection \<open>Characters\<close>

definition is_space :: "char \<Rightarrow> bool" where
  "is_space c \<longleftrightarrow> c \<in> {CHR 0x09, CHR 0x0A, CHR 0x0B, CHR 0x0C, CHR 0x0D, CHR '' ''}"

definition lower :: "char \<Rightarrow> char" where
  "lower c = (let n = (of_char c :: nat) in if 65 \<le> n \<and> n \<le> 90 then char_of (n + 32) else c)"

definition is_upper :: "char \<Rightarrow> bool" where
  "is_upper c \<longleftrightarrow> (of_char c :: nat) \<in> {65..90}"

definition is_alpha :: "char \<Rightarrow> bool" where
  "is_alpha c \<longleftrightarrow> (let n = (of_char c :: nat) in (65 \<le> n \<and> n \<le> 90) \<or> (97 \<le> n \<and> n \<le> 122))"

definition is_digit :: "char \<Rightarrow> bool" where
  "is_digit c \<longleftrightarrow> (let n = (of_char c :: nat) in 48 \<le> n \<and> n \<le> 57)"

definition is_lower_hex :: "char \<Rightarrow> bool" where
  "is_lower_hex c \<longleftrightarrow>
     (let n = (of_char c :: nat) in (48 \<le> n \<and> n \<le> 57) \<or> (97 \<le> n \<and> n \<le> 102))"

lemma is_space_of_char: "is_space c \<longleftrightarrow> (of_char c :: nat) \<in> {9, 10, 11, 12, 13, 32}"
proof -
  have eq: "c = d \<longleftrightarrow> (of_char c :: nat) = of_char d" for c d :: char
    by simp
  show ?thesis
    unfolding is_space_def by (simp only: insert_iff empty_iff eq) simp
qed

lemma of_char_lower:
  "(of_char (lower c) :: nat) = (let n = of_char c in if 65 \<le> n \<and> n \<le> 90 then n + 32 else n)"
  by (simp add: lower_def Let_def of_char_of)

lemma lower_lower [simp]: "lower (lower c) = lower c"
  by (simp add: lower_def Let_def of_char_of)

lemma is_space_lower [simp]: "is_space (lower c) = is_space c"
  by (auto simp: is_space_of_char of_char_lower Let_def)

subsection \<open>The functions of package strings\<close>

definition ToLower :: "string \<Rightarrow> string" where
  "ToLower s = map lower s"

definition TrimSpace :: "string \<Rightarrow> string" where
  "TrimSpace s = rev (dropWhile is_space (rev (dropWhile is_space s)))"

fun split_space :: "string \<Rightarrow> string list" where
  "split_space [] = [[]]"
| "split_space (c # cs) =
     (if is_space c then [] # split_space cs
      else (case split_space cs of [] \<Rightarrow> [[c]] | w # ws \<Rightarrow> (c # w) # ws))"

definition Fields :: "string \<Rightarrow> string list" where
  "Fields s = filter (\<lambda>w. w \<noteq> []) (split_space s)"

fun Join :: "string list \<Rightarrow> string \<Rightarrow> string" where
  "Join [] sep = []"
| "Join [w] sep = w"
| "Join (w # v # ws) sep = w @ sep @ Join (v # ws) sep"

definition HasPrefix :: "string \<Rightarrow> string \<Rightarrow> bool" where
  "HasPrefix s p \<longleftrightarrow> take (length p) s = p"

definition TrimPrefix :: "string \<Rightarrow> string \<Rightarrow> string" where
  "TrimPrefix s p = (if HasPrefix s p then drop (length p) s else s)"

fun Contains :: "string \<Rightarrow> string \<Rightarrow> bool" where
  "Contains [] sub \<longleftrightarrow> sub = []"
| "Contains (c # cs) sub \<longleftrightarrow> HasPrefix (c # cs) sub \<or> Contains cs sub"

definition EqualFold :: "string \<Rightarrow> string \<Rightarrow> bool" where
  "EqualFold s t \<longleftrightarrow> ToLower s = ToLower t"

text \<open>\<open>len([]rune(s))\<close> and \<open>utf8.RuneCountInString\<close>: every byte but the UTF-8
  continuation bytes (128 to 191) starts a rune of valid text.\<close>

definition RuneCount :: "string \<Rightarrow> nat" where
  "RuneCount s = length (filter (\<lambda>c. \<not> (128 \<le> (of_char c :: nat) \<and> (of_char c :: nat) < 192)) s)"

text \<open>\<open>strings.TrimSpace(value) == ""\<close>, the emptiness test of most validators.\<close>

definition blank :: "string \<Rightarrow> bool" where
  "blank s \<longleftrightarrow> TrimSpace s = []"

lemma lower_literals [simp]:
  "lower (CHR ''a'') = CHR ''a''"
  "lower (CHR ''b'') = CHR ''b''"
  "lower (CHR ''c'') = CHR ''c''"
  "lower (CHR ''d'') = CHR ''d''"
  "lower (CHR ''e'') = CHR ''e''"
  "lower (CHR ''f'') = CHR ''f''"
  "lower (CHR ''g'') = CHR ''g''"
  "lower (CHR ''h'') = CHR ''h''"
  "lower (CHR ''i'') = CHR ''i''"
  "lower (CHR ''j'') = CHR ''j''"
  "lower (CHR ''k'') = CHR ''k''"
  "lower (CHR ''l'') = CHR ''l''"
  "lower (CHR ''m'') = CHR ''m''"
  "lower (CHR ''n'') = CHR ''n''"
  "lower (CHR ''o'') = CHR ''o''"
  "lower (CHR ''p'') = CHR ''p''"
  "lower (CHR ''q'') = CHR ''q''"
  "lower (CHR ''r'') = CHR ''r''"
  "lower (CHR ''s'') = CHR ''s''"
  "lower (CHR ''t'') = CHR ''t''"
  "lower (CHR ''u'') = CHR ''u''"
  "lower (CHR ''v'') = CHR ''v''"
  "lower (CHR ''w'') = CHR ''w''"
  "lower (CHR ''x'') = CHR ''x''"
  "lower (CHR ''y'') = CHR ''y''"
  "lower (CHR ''z'') = CHR ''z''"
  "lower (CHR ''_'') = CHR ''_''"
  "lower (CHR ''0'') = CHR ''0''"
  "lower (CHR ''1'') = CHR ''1''"
  "lower (CHR ''2'') = CHR ''2''"
  "lower (CHR ''3'') = CHR ''3''"
  "lower (CHR ''4'') = CHR ''4''"
  "lower (CHR ''5'') = CHR ''5''"
  "lower (CHR ''6'') = CHR ''6''"
  "lower (CHR ''7'') = CHR ''7''"
  "lower (CHR ''8'') = CHR ''8''"
  "lower (CHR ''9'') = CHR ''9''"
  by (simp_all add: lower_def)

lemma EqualFold_literals:
  "ToLower a = a \<Longrightarrow> ToLower b = b \<Longrightarrow> EqualFold a b = (a = b)"
  by (simp add: EqualFold_def)

lemma ToLower_simps: "ToLower [] = []" "ToLower (c # s) = lower c # ToLower s"
  by (simp_all add: ToLower_def)

lemmas literal_keys [go_string_simps] = EqualFold_literals ToLower_simps

lemma blank_iff: "blank s \<longleftrightarrow> (\<forall>c \<in> set s. is_space c)"
proof -
  have "blank s \<longleftrightarrow> (\<forall>c \<in> set (dropWhile is_space s). is_space c)"
    by (simp add: blank_def TrimSpace_def)
  also have "\<dots> \<longleftrightarrow> (\<forall>c \<in> set s. is_space c)"
    by (metis dropWhile_eq_Nil_conv hd_dropWhile hd_in_set set_dropWhileD)
  finally show ?thesis .
qed

lemma blank_Nil [simp]: "blank []"
  by (simp add: blank_iff)

lemma not_blank_not_Nil: "\<not> blank s \<Longrightarrow> s \<noteq> []"
  by auto

subsection \<open>Trimming\<close>

definition trimmed :: "string \<Rightarrow> bool" where
  "trimmed s \<longleftrightarrow> (s = [] \<or> (\<not> is_space (hd s) \<and> \<not> is_space (last s)))"

lemma dropWhile_hd: "dropWhile P xs = [] \<or> \<not> P (hd (dropWhile P xs))"
  using hd_dropWhile by blast

lemma trimmed_TrimSpace [simp]: "trimmed (TrimSpace s)"
proof -
  define t where "t = dropWhile is_space s"
  define u where "u = dropWhile is_space (rev t)"
  have trim: "TrimSpace s = rev u"
    by (simp add: TrimSpace_def t_def u_def)
  have hu: "u = [] \<or> \<not> is_space (hd u)"
    unfolding u_def by (rule dropWhile_hd)
  have lu: "u \<noteq> [] \<Longrightarrow> \<not> is_space (last u)"
  proof -
    assume ne: "u \<noteq> []"
    have suf: "rev t = takeWhile is_space (rev t) @ u"
      by (simp add: u_def)
    from ne have "last u = last (takeWhile is_space (rev t) @ u)"
      by simp
    then have "last u = last (rev t)"
      by (simp only: suf [symmetric])
    moreover from suf ne have "t \<noteq> []"
      by auto
    moreover from this have "\<not> is_space (hd t)"
      unfolding t_def using dropWhile_hd by blast
    ultimately show ?thesis
      by (simp add: last_rev)
  qed
  show ?thesis
    using hu lu by (auto simp: trim trimmed_def hd_rev last_rev)
qed

lemma TrimSpace_trimmed: "trimmed s \<Longrightarrow> TrimSpace s = s"
proof -
  assume t: "trimmed s"
  show ?thesis
  proof (cases "s = []")
    case True
    then show ?thesis by (simp add: TrimSpace_def)
  next
    case False
    with t have h: "dropWhile is_space s = s"
      by (cases s) (auto simp: trimmed_def)
    have "\<not> is_space (hd (rev s))"
      using False t by (simp add: trimmed_def hd_rev)
    then have r: "dropWhile is_space (rev s) = rev s"
      by (cases "rev s") auto
    show ?thesis by (simp add: TrimSpace_def h r)
  qed
qed

lemma TrimSpace_idem [simp]: "TrimSpace (TrimSpace s) = TrimSpace s"
  by (rule TrimSpace_trimmed) simp

lemma TrimSpace_Nil [simp]: "TrimSpace [] = []"
  by (simp add: TrimSpace_def)

lemma blank_TrimSpace [simp]: "blank (TrimSpace s) = blank s"
  by (simp add: blank_def)

lemma set_TrimSpace: "set (TrimSpace s) \<subseteq> set s"
  unfolding TrimSpace_def by (auto dest!: set_dropWhileD)

subsection \<open>Words and normalised text\<close>

lemma split_space_not_Nil [simp]: "split_space s \<noteq> []"
  by (induction s) (auto split: list.splits)

lemma split_space_no_space: "w \<in> set (split_space s) \<Longrightarrow> c \<in> set w \<Longrightarrow> \<not> is_space c"
  by (induction s arbitrary: w c) (auto split: if_splits list.splits, blast)

lemma Fields_words:
  "w \<in> set (Fields s) \<Longrightarrow> w \<noteq> [] \<and> (\<forall>c \<in> set w. \<not> is_space c)"
  by (auto simp: Fields_def dest: split_space_no_space)

lemma Fields_Nil [simp]: "Fields [] = []"
  by (simp add: Fields_def)

lemma Fields_Cons_space: "is_space c \<Longrightarrow> Fields (c # cs) = Fields cs"
  by (simp add: Fields_def)

lemma split_space_word_app:
  "\<forall>c \<in> set w. \<not> is_space c \<Longrightarrow>
   split_space (w @ s) = (w @ hd (split_space s)) # tl (split_space s)"
  by (induction w) (auto split: list.splits)

lemma Fields_word_sep:
  "\<forall>c \<in> set w. \<not> is_space c \<Longrightarrow> w \<noteq> [] \<Longrightarrow> is_space d \<Longrightarrow> Fields (w @ d # s) = w # Fields s"
  by (simp add: Fields_def split_space_word_app)

lemma Fields_word:
  "\<forall>c \<in> set w. \<not> is_space c \<Longrightarrow> w \<noteq> [] \<Longrightarrow> Fields w = [w]"
  using split_space_word_app [of w "[]"] by (simp add: Fields_def)

lemma Fields_Join:
  "\<forall>w \<in> set ws. w \<noteq> [] \<and> (\<forall>c \<in> set w. \<not> is_space c) \<Longrightarrow> Fields (Join ws '' '') = ws"
proof (induction ws rule: induct_list012)
  case (3 w v ws)
  have sp: "is_space (CHR '' '')" by (simp add: is_space_def)
  from 3 show ?case by (simp add: Fields_word_sep [OF _ _ sp])
qed (auto simp: Fields_word)

lemma Fields_dropWhile: "Fields (dropWhile is_space s) = Fields s"
  by (induction s) (auto simp: Fields_Cons_space)

lemma Fields_snoc_space: "is_space c \<Longrightarrow> Fields (s @ [c]) = Fields s"
proof -
  assume c: "is_space c"
  have "split_space (s @ [c]) = split_space s @ [[]]"
    using c by (induction s) (auto split: list.splits)
  then show ?thesis by (simp add: Fields_def)
qed

lemma Fields_dropWhile_end: "Fields (rev (dropWhile is_space (rev s))) = Fields s"
  by (induction s rule: rev_induct) (auto simp: Fields_snoc_space)

lemma Fields_TrimSpace [simp]: "Fields (TrimSpace s) = Fields s"
  by (simp add: TrimSpace_def Fields_dropWhile Fields_dropWhile_end)

lemma split_space_ToLower: "split_space (map lower s) = map (map lower) (split_space s)"
  by (induction s) (auto split: list.splits)

lemma Fields_ToLower: "Fields (ToLower s) = map ToLower (Fields s)"
  unfolding Fields_def ToLower_def split_space_ToLower
  by (induction "split_space s") (auto simp: filter_map o_def ToLower_def)

lemma ToLower_idem [simp]: "ToLower (ToLower s) = ToLower s"
  by (simp add: ToLower_def)

lemma ToLower_eq_Nil [simp]: "ToLower s = [] \<longleftrightarrow> s = []"
  by (simp add: ToLower_def)

text \<open>
  \<open>strings.ToLower(strings.Join(strings.Fields(strings.TrimSpace(value)), " "))\<close>, written
  out once in package taskplan (\<open>normalize\<close>) and once in package harness
  (\<open>normalizeSemanticText\<close>).
\<close>

definition lower_words :: "string \<Rightarrow> string" where
  "lower_words s = ToLower (Join (Fields (TrimSpace s)) '' '')"

lemma Join_Fields_Nil: "Join ws sep = [] \<Longrightarrow> \<forall>w \<in> set ws. w \<noteq> [] \<Longrightarrow> ws = []"
  by (induction ws sep rule: Join.induct) auto

lemma ToLower_words:
  "\<forall>w \<in> set ws. w \<noteq> [] \<and> (\<forall>c \<in> set w. \<not> is_space c) \<Longrightarrow>
   \<forall>w \<in> set (map ToLower ws). w \<noteq> [] \<and> (\<forall>c \<in> set w. \<not> is_space c)"
  by (auto simp: ToLower_def)

lemma ToLower_Join: "ToLower (Join ws '' '') = Join (map ToLower ws) '' ''"
  by (induction ws rule: induct_list012) (auto simp: ToLower_def lower_def of_char_def)

lemma lower_words_eq: "lower_words s = Join (map ToLower (Fields s)) '' ''"
  by (simp add: lower_words_def ToLower_Join)

lemma lower_words_idem [simp]: "lower_words (lower_words s) = lower_words s"
proof -
  have "\<forall>w \<in> set (map ToLower (Fields s)). w \<noteq> [] \<and> (\<forall>c \<in> set w. \<not> is_space c)"
    by (rule ToLower_words) (use Fields_words in blast)
  then have "Fields (lower_words s) = map ToLower (Fields s)"
    unfolding lower_words_eq by (rule Fields_Join)
  then show ?thesis
    by (simp add: lower_words_eq o_def)
qed

lemma lower_words_TrimSpace [simp]: "lower_words (TrimSpace s) = lower_words s"
  by (simp add: lower_words_eq)

lemma trimmed_Join:
  "\<forall>w \<in> set ws. w \<noteq> [] \<and> (\<forall>c \<in> set w. \<not> is_space c) \<Longrightarrow> trimmed (Join ws '' '')"
proof (induction ws rule: induct_list012)
  case (3 w v ws)
  have "Join (v # ws) '' '' \<noteq> []"
    using Join_Fields_Nil [of "v # ws" "'' ''"] 3 by auto
  with 3 show ?case by (auto simp: trimmed_def)
qed (auto simp: trimmed_def)

lemma trimmed_lower_words [simp]: "trimmed (lower_words s)"
  unfolding lower_words_eq
  by (rule trimmed_Join, rule ToLower_words) (use Fields_words in blast)

lemma TrimSpace_lower_words [simp]: "TrimSpace (lower_words s) = lower_words s"
  by (rule TrimSpace_trimmed) simp

subsection \<open>Prefixes and substrings\<close>

lemma HasPrefix_iff: "HasPrefix s p \<longleftrightarrow> (\<exists>t. s = p @ t)"
  by (metis HasPrefix_def append_eq_conv_conj append_take_drop_id)

lemma Contains_iff: "Contains s sub \<longleftrightarrow> (\<exists>a b. s = a @ sub @ b)"
proof (induction s)
  case Nil
  then show ?case by auto
next
  case (Cons c cs)
  have "(\<exists>a b. c # cs = a @ sub @ b) \<longleftrightarrow>
        (\<exists>b. c # cs = sub @ b) \<or> (\<exists>a b. cs = a @ sub @ b)"
  proof
    assume "\<exists>a b. c # cs = a @ sub @ b"
    then obtain a b where "c # cs = a @ sub @ b" by blast
    then show "(\<exists>b. c # cs = sub @ b) \<or> (\<exists>a b. cs = a @ sub @ b)"
      by (cases a) auto
  next
    assume "(\<exists>b. c # cs = sub @ b) \<or> (\<exists>a b. cs = a @ sub @ b)"
    then show "\<exists>a b. c # cs = a @ sub @ b"
      by (metis append_Cons append_Nil)
  qed
  then show ?case by (simp add: Cons.IH HasPrefix_iff)
qed

lemma Contains_self [simp]: "Contains s s"
  by (metis Contains_iff append_Nil append_Nil2)

lemma Contains_Nil [simp]: "Contains s []"
  by (metis Contains_iff append_Nil)

lemma Contains_append: "Contains s sub \<Longrightarrow> Contains (a @ s @ b) sub"
  by (metis Contains_iff append_assoc)

subsection \<open>Decimal numbers\<close>

text \<open>\<open>fmt.Sprintf("%d", n)\<close>.\<close>

definition digit_char :: "nat \<Rightarrow> char" where
  "digit_char d = char_of (48 + d)"

fun nat_digits :: "nat \<Rightarrow> string" where
  "nat_digits n = (if n < 10 then [digit_char n] else nat_digits (n div 10) @ [digit_char (n mod 10)])"

declare nat_digits.simps [simp del]

definition itoa :: "int \<Rightarrow> string" where
  "itoa i = (if i < 0 then CHR ''-'' # nat_digits (nat (- i)) else nat_digits (nat i))"

definition digits_value :: "string \<Rightarrow> nat" where
  "digits_value s = foldl (\<lambda>n c. 10 * n + (of_char c - 48)) 0 s"

lemma of_char_digit: "d < 10 \<Longrightarrow> (of_char (digit_char d) :: nat) = 48 + d"
  by (simp add: digit_char_def of_char_of)

lemma digits_value_nat_digits [simp]: "digits_value (nat_digits n) = n"
proof (induction n rule: nat_digits.induct)
  case (1 n)
  show ?case
  proof (cases "n < 10")
    case True
    then show ?thesis
      by (simp add: nat_digits.simps [of n] digits_value_def of_char_digit)
  next
    case False
    have "digits_value (nat_digits n) = 10 * digits_value (nat_digits (n div 10)) + n mod 10"
      using False by (simp add: nat_digits.simps [of n] digits_value_def of_char_digit)
    with 1 [OF False] show ?thesis by simp
  qed
qed

lemma nat_digits_not_Nil [simp]: "nat_digits n \<noteq> []"
  by (simp add: nat_digits.simps [of n])

lemma nat_digits_chars: "c \<in> set (nat_digits n) \<Longrightarrow> 48 \<le> (of_char c :: nat) \<and> (of_char c :: nat) \<le> 57"
proof (induction n rule: nat_digits.induct)
  case (1 n)
  then show ?case
    by (auto simp: nat_digits.simps [of n] of_char_digit split: if_splits)
qed

lemma hd_nat_digits: "hd (nat_digits n) \<noteq> CHR ''-''"
proof
  assume "hd (nat_digits n) = CHR ''-''"
  moreover have "hd (nat_digits n) \<in> set (nat_digits n)"
    by simp
  ultimately show False
    using nat_digits_chars [of "CHR ''-''" n] by simp
qed

lemma nat_digits_inject [simp]: "nat_digits m = nat_digits n \<longleftrightarrow> m = n"
  by (metis digits_value_nat_digits)

lemma itoa_inject [simp]: "itoa i = itoa j \<longleftrightarrow> i = j"
  using hd_nat_digits by (auto simp: itoa_def) (metis list.sel(1))+

subsection \<open>Regular expressions\<close>

text \<open>
  The patterns of package regexp that the code compiles, as a small syntax with Go's
  leftmost-first preference: \<open>rx_rests r s\<close> lists what may remain of \<open>s\<close> after a match of \<open>r\<close>
  at its start, the preferred match first (a greedy repetition tries the longest
  match first, an optional part tries to match before it tries to skip).
\<close>

datatype rx =
    Rlit string           \<comment> \<open>a literal under \<open>(?i)\<close>\<close>
  | Rmany1 "char \<Rightarrow> bool"  \<comment> \<open>\<open>[class]+\<close>, greedy\<close>
  | Ropt rx               \<comment> \<open>\<open>(?:r)?\<close>, greedy\<close>
  | Rseq rx rx
  | Ralt rx rx

definition many1_rests :: "(char \<Rightarrow> bool) \<Rightarrow> string \<Rightarrow> string list" where
  "many1_rests P s =
     map (\<lambda>n. drop n s) (rev [1..<Suc (length (takeWhile P s))])"

fun rx_rests :: "rx \<Rightarrow> string \<Rightarrow> string list" where
  "rx_rests (Rlit w) s =
     (if EqualFold (take (length w) s) w then [drop (length w) s] else [])"
| "rx_rests (Rmany1 P) s = many1_rests P s"
| "rx_rests (Ropt r) s = rx_rests r s @ [s]"
| "rx_rests (Rseq a b) s = concat (map (rx_rests b) (rx_rests a s))"
| "rx_rests (Ralt a b) s = rx_rests a s @ rx_rests b s"

text \<open>\<open>^r$\<close> matches the whole text (without \<open>(?m)\<close>, \<open>$\<close> is the end of the text).\<close>

definition rx_full :: "rx \<Rightarrow> string \<Rightarrow> bool" where
  "rx_full r s \<longleftrightarrow> [] \<in> set (rx_rests r s)"

text \<open>\<open>^(r1)r2$\<close>: the text of the group in the preferred match.\<close>

definition rx_group_first :: "rx \<Rightarrow> rx \<Rightarrow> string \<Rightarrow> string option" where
  "rx_group_first r1 r2 s =
     (case find (rx_full r2) (rx_rests r1 s) of
        None \<Rightarrow> None
      | Some rest \<Rightarrow> Some (take (length s - length rest) s))"

text \<open>\<open>^r1(r2)$\<close>: the text of the group is what the preferred match of \<open>r1\<close> leaves.\<close>

definition rx_group_last :: "rx \<Rightarrow> rx \<Rightarrow> string \<Rightarrow> string option" where
  "rx_group_last r1 r2 s = find (rx_full r2) (rx_rests r1 s)"

text \<open>\<open>\s\<close> and \<open>.\<close> (which does not match a newline without \<open>(?s)\<close>).\<close>

definition rx_space :: "char \<Rightarrow> bool" where
  "rx_space c \<longleftrightarrow> c \<in> {CHR 0x09, CHR 0x0A, CHR 0x0C, CHR 0x0D, CHR '' ''}"

definition rx_any :: "char \<Rightarrow> bool" where
  "rx_any c \<longleftrightarrow> c \<noteq> CHR 0x0A"

lemma many1_rests_iff:
  "t \<in> set (many1_rests P s) \<longleftrightarrow> (\<exists>p. p \<noteq> [] \<and> s = p @ t \<and> (\<forall>c \<in> set p. P c))"
proof
  assume "t \<in> set (many1_rests P s)"
  then obtain n where n: "1 \<le> n" "n \<le> length (takeWhile P s)" "t = drop n s"
    by (auto simp: many1_rests_def)
  then have "take n (takeWhile P s @ dropWhile P s) = take n (takeWhile P s)"
    by (simp del: takeWhile_dropWhile_id)
  then have "take n s = take n (takeWhile P s)"
    by simp
  with n have "\<forall>c \<in> set (take n s). P c"
    by (metis in_set_takeD set_takeWhileD)
  moreover from n have "take n s \<noteq> []"
    using length_takeWhile_le [of P s] by auto
  ultimately show "\<exists>p. p \<noteq> [] \<and> s = p @ t \<and> (\<forall>c \<in> set p. P c)"
    using n(3) by (metis append_take_drop_id)
next
  assume "\<exists>p. p \<noteq> [] \<and> s = p @ t \<and> (\<forall>c \<in> set p. P c)"
  then obtain p where p: "p \<noteq> []" "s = p @ t" "\<forall>c \<in> set p. P c" by blast
  then have len: "length p \<le> length (takeWhile P s)"
    by (simp add: takeWhile_append2)
  then have "length p \<in> set (rev [1..<Suc (length (takeWhile P s))])"
    using p(1) by (auto simp: Suc_le_eq)
  moreover have "t = drop (length p) s"
    using p(2) by simp
  ultimately show "t \<in> set (many1_rests P s)"
    unfolding many1_rests_def by auto
qed

end
