(* ===== verification/Json.thy ===== *)
theory Json
  imports GoStrings
begin

section \<open>encoding/json\<close>

text \<open>
  A parsed JSON document, the decoding of \<open>json.Unmarshal\<close> into typed variables and the text
  \<open>json.Marshal\<close> writes. A \<open>json.RawMessage\<close> is a \<open>json option\<close>: \<open>None\<close> is text that is not one
  JSON value (the empty message included).

  Numbers keep the form of their literal, because Go's integer decoders read only integer
  literals: \<open>JInt n\<close> is an integer literal, \<open>JDec m k\<close> a literal with a fraction or an
  exponent, of value \<open>m / 10^k\<close>. A \<open>float64\<close> is the pair of the shortest such decimal.

  A decoder updates the variable it is given, as Go does: \<open>null\<close> leaves a scalar or a
  struct alone and clears a pointer, a slice, a map or an interface; members are read in
  order, their names are matched without regard to case, a repeated member overwrites and a
  member of the wrong type makes the whole call fail. A repeated member that holds an array
  of objects decodes its elements from the zero value.
\<close>

datatype json =
    JNull
  | JBool bool
  | JInt int
  | JDec int nat
  | JStr string
  | JArr "json list"
  | JObj "(string \<times> json) list"

type_synonym raw_message = "json option"
type_synonym f64 = "int \<times> nat"

subsection \<open>Floating-point numbers\<close>

fun norm_dec :: "int \<Rightarrow> nat \<Rightarrow> f64" where
  "norm_dec m 0 = (m, 0)"
| "norm_dec m (Suc k) = (if m mod 10 = 0 then norm_dec (m div 10) k else (m, Suc k))"

definition f64_less :: "f64 \<Rightarrow> f64 \<Rightarrow> bool" where
  "f64_less x y \<longleftrightarrow> fst x * 10 ^ snd y < fst y * 10 ^ snd x"

definition f64_norm :: "f64 \<Rightarrow> bool" where
  "f64_norm x \<longleftrightarrow> snd x = 0 \<or> fst x mod 10 \<noteq> 0"

lemma f64_norm_norm_dec [simp]: "f64_norm (norm_dec m k)"
  by (induction m k rule: norm_dec.induct) (auto simp: f64_norm_def)

lemma norm_dec_id: "f64_norm x \<Longrightarrow> norm_dec (fst x) (snd x) = x"
  by (cases x; cases "snd x") (auto simp: f64_norm_def)

subsection \<open>Decoding\<close>

type_synonym 'a decoder = "json \<Rightarrow> 'a \<Rightarrow> 'a option"

definition dec_string :: "string decoder" where
  "dec_string j cur = (case j of JStr s \<Rightarrow> Some s | JNull \<Rightarrow> Some cur | _ \<Rightarrow> None)"

definition dec_bool :: "bool decoder" where
  "dec_bool j cur = (case j of JBool b \<Rightarrow> Some b | JNull \<Rightarrow> Some cur | _ \<Rightarrow> None)"

text \<open>\<open>int\<close> and \<open>int64\<close> (both 64 bits wide).\<close>

definition in_int64 :: "int \<Rightarrow> bool" where
  "in_int64 n \<longleftrightarrow> - (2 ^ 63) \<le> n \<and> n < 2 ^ 63"

definition dec_int :: "int decoder" where
  "dec_int j cur =
     (case j of JInt n \<Rightarrow> if in_int64 n then Some n else None | JNull \<Rightarrow> Some cur | _ \<Rightarrow> None)"

definition dec_f64 :: "f64 decoder" where
  "dec_f64 j cur =
     (case j of JInt n \<Rightarrow> Some (n, 0) | JDec m k \<Rightarrow> Some (norm_dec m k)
      | JNull \<Rightarrow> Some cur | _ \<Rightarrow> None)"

text \<open>Into an \<open>any\<close>: numbers become \<open>float64\<close>, objects \<open>map[string]any\<close> (here with the keys
  in the order \<open>json.Marshal\<close> writes them, the last of several equal keys kept).\<close>

definition enc_f64 :: "f64 \<Rightarrow> json" where
  "enc_f64 x = (if snd x = 0 then JInt (fst x) else JDec (fst x) (snd x))"

definition map_members :: "(string \<times> 'a) list \<Rightarrow> (string \<times> 'a) list" where
  "map_members ms = fold (\<lambda>p m. assoc_put (fst p) (snd p) m) ms []"

fun anyval :: "json \<Rightarrow> json" where
  "anyval (JDec m k) = enc_f64 (norm_dec m k)"
| "anyval (JArr js) = JArr (map anyval js)"
| "anyval (JObj ms) = JObj (sort_key fst (map_members (map (\<lambda>p. (fst p, anyval (snd p))) ms)))"
| "anyval j = j"

definition dec_any :: "json decoder" where
  "dec_any j cur = Some (anyval j)"

definition dec_raw :: "raw_message decoder" where
  "dec_raw j cur = Some (Some j)"

definition dec_ptr :: "'a decoder \<Rightarrow> 'a \<Rightarrow> 'a option decoder" where
  "dec_ptr d zero j cur =
     (case j of JNull \<Rightarrow> Some None
      | _ \<Rightarrow> map_option Some (d j (case cur of None \<Rightarrow> zero | Some v \<Rightarrow> v)))"

text \<open>A slice whose absence is not told from emptiness, and one where \<open>nil\<close> (\<open>None\<close>) matters.\<close>

definition dec_list :: "'a decoder \<Rightarrow> 'a \<Rightarrow> 'a list decoder" where
  "dec_list d zero j cur =
     (case j of JNull \<Rightarrow> Some [] | JArr js \<Rightarrow> those (map (\<lambda>x. d x zero) js) | _ \<Rightarrow> None)"

definition dec_slice :: "'a decoder \<Rightarrow> 'a \<Rightarrow> 'a list option decoder" where
  "dec_slice d zero j cur =
     (case j of JNull \<Rightarrow> Some None
      | JArr js \<Rightarrow> map_option Some (those (map (\<lambda>x. d x zero) js)) | _ \<Rightarrow> None)"

text \<open>\<open>map[string]T\<close>; decoding into a map adds to what it holds.\<close>

definition dec_map :: "'a decoder \<Rightarrow> 'a \<Rightarrow> (string \<times> 'a) list decoder" where
  "dec_map d zero j cur =
     (case j of JNull \<Rightarrow> Some []
      | JObj ms \<Rightarrow>
          map_option (\<lambda>vs. fold (\<lambda>p m. assoc_put (fst p) (snd p) m) (zip (map fst ms) vs) cur)
            (those (map (\<lambda>p. d (snd p) zero) ms))
      | _ \<Rightarrow> None)"

fun dec_members ::
  "bool \<Rightarrow> (string \<times> 'a decoder) list \<Rightarrow> (string \<times> json) list \<Rightarrow> 'a \<Rightarrow> 'a option" where
  "dec_members strict fs [] r = Some r"
| "dec_members strict fs ((k, v) # ms) r =
     (case find (\<lambda>f. EqualFold (fst f) k) fs of
        None \<Rightarrow> if strict then None else dec_members strict fs ms r
      | Some f \<Rightarrow> (case snd f v r of None \<Rightarrow> None | Some r' \<Rightarrow> dec_members strict fs ms r'))"

definition dec_object :: "bool \<Rightarrow> (string \<times> 'a decoder) list \<Rightarrow> 'a decoder" where
  "dec_object strict fs j cur =
     (case j of JObj ms \<Rightarrow> dec_members strict fs ms cur | JNull \<Rightarrow> Some cur | _ \<Rightarrow> None)"

text \<open>\<open>json.Unmarshal\<close> into a struct, and a decoder after \<open>DisallowUnknownFields\<close>.\<close>

abbreviation dec_struct :: "(string \<times> 'a decoder) list \<Rightarrow> 'a decoder" where
  "dec_struct \<equiv> dec_object False"

abbreviation dec_struct_strict :: "(string \<times> 'a decoder) list \<Rightarrow> 'a decoder" where
  "dec_struct_strict \<equiv> dec_object True"

text \<open>A struct field: its decoder, its selector and its update function.\<close>

definition fld :: "'b decoder \<Rightarrow> ('a \<Rightarrow> 'b) \<Rightarrow> (('b \<Rightarrow> 'b) \<Rightarrow> 'a \<Rightarrow> 'a) \<Rightarrow> 'a decoder" where
  "fld d get upd j r = map_option (\<lambda>v. upd (\<lambda>_. v) r) (d j (get r))"

definition unmarshal :: "'a decoder \<Rightarrow> 'a \<Rightarrow> raw_message \<Rightarrow> 'a option" where
  "unmarshal d zero raw = (case raw of None \<Rightarrow> None | Some j \<Rightarrow> d j zero)"

lemmas decoder_defs [decode_simps] =
  dec_string_def dec_bool_def dec_int_def dec_f64_def dec_any_def dec_raw_def dec_ptr_def
  dec_list_def dec_slice_def dec_map_def dec_object_def fld_def unmarshal_def

lemma unmarshal_None [simp]: "unmarshal d z None = None"
  by (simp add: unmarshal_def)

subsection \<open>Reading a generic document\<close>

text \<open>\<open>m[key]\<close> on a \<open>map[string]any\<close>: a missing key reads as the \<open>nil\<close> interface.\<close>

definition any_get :: "(string \<times> json) list \<Rightarrow> string \<Rightarrow> json" where
  "any_get m k = (case map_of m k of None \<Rightarrow> JNull | Some v \<Rightarrow> v)"

text \<open>\<open>text, _ := value.(string)\<close>.\<close>

definition any_string :: "json \<Rightarrow> string" where
  "any_string j = (case j of JStr s \<Rightarrow> s | _ \<Rightarrow> [])"

definition object_members :: "json \<Rightarrow> (string \<times> json) list" where
  "object_members j = (case j of JObj ms \<Rightarrow> ms | _ \<Rightarrow> [])"

subsection \<open>The text json.Marshal writes\<close>

definition render_char :: "char \<Rightarrow> string" where
  "render_char c = (let n = (of_char c :: nat) in
     if n = 34 then [char_of (92 :: nat), c]
     else if n = 92 then [c, c]
     else if n = 8 then [char_of (92 :: nat), CHR ''b'']
     else if n = 12 then [char_of (92 :: nat), CHR ''f'']
     else if n = 10 then [char_of (92 :: nat), CHR ''n'']
     else if n = 13 then [char_of (92 :: nat), CHR ''r'']
     else if n = 9 then [char_of (92 :: nat), CHR ''t'']
     else if n < 32 \<or> n \<in> {38, 60, 62} then
       char_of (92 :: nat) # ''u00'' @
         [char_of (48 + n div 16),
          (if n mod 16 < 10 then char_of (48 + n mod 16) else char_of (87 + n mod 16))]
     else [c])"

text \<open>The line and paragraph separators (bytes \<open>E2 80 A8\<close>, \<open>E2 80 A9\<close>) are escaped too.\<close>

fun render_chars :: "string \<Rightarrow> string" where
  "render_chars (a # b # c # s) =
     (if (of_char a :: nat) = 226 \<and> (of_char b :: nat) = 128 \<and> (of_char c :: nat) \<in> {168, 169}
      then char_of (92 :: nat) # ''u202'' @ [char_of (of_char c - 112 :: nat)] @ render_chars s
      else render_char a @ render_chars (b # c # s))"
| "render_chars [] = []"
| "render_chars (a # s) = render_char a @ render_chars s"

definition render_string :: "string \<Rightarrow> string" where
  "render_string s = char_of (34 :: nat) # render_chars s @ [char_of (34 :: nat)]"

definition render_dec :: "int \<Rightarrow> nat \<Rightarrow> string" where
  "render_dec m k =
     (let ds = nat_digits (nat \<bar>m\<bar>); n = length ds; sign = (if m < 0 then ''-'' else '''') in
      sign @
      (if k = 0 then
         (if n \<le> 21 then ds
          else hd ds # (if tl ds = [] then [] else CHR ''.'' # tl ds) @ ''e+'' @ nat_digits (n - 1))
       else if k < n then take (n - k) ds @ CHR ''.'' # drop (n - k) ds
       else if k - n < 6 then ''0.'' @ replicate (k - n) (CHR ''0'') @ ds
       else hd ds # (if tl ds = [] then [] else CHR ''.'' # tl ds) @ ''e-'' @ nat_digits (k - n + 1)))"

fun render :: "json \<Rightarrow> string" where
  "render JNull = ''null''"
| "render (JBool b) = (if b then ''true'' else ''false'')"
| "render (JInt i) = itoa i"
| "render (JDec m k) = render_dec m k"
| "render (JStr s) = render_string s"
| "render (JArr js) = CHR ''['' # Join (map render js) '','' @ '']''"
| "render (JObj ms) =
     CHR ''{'' # Join (map (\<lambda>p. render_string (fst p) @ CHR '':'' # render (snd p)) ms) '','' @ ''}''"

text \<open>Struct members with \<open>omitempty\<close>.\<close>

definition omit_empty_string :: "string \<Rightarrow> string \<Rightarrow> (string \<times> json) list" where
  "omit_empty_string k s = (if s = [] then [] else [(k, JStr s)])"

definition omit_zero_int :: "string \<Rightarrow> int \<Rightarrow> (string \<times> json) list" where
  "omit_zero_int k i = (if i = 0 then [] else [(k, JInt i)])"

definition omit_nil :: "string \<Rightarrow> ('a \<Rightarrow> json) \<Rightarrow> 'a option \<Rightarrow> (string \<times> json) list" where
  "omit_nil k enc p = (case p of None \<Rightarrow> [] | Some v \<Rightarrow> [(k, enc v)])"

definition enc_strings :: "string list \<Rightarrow> json" where
  "enc_strings ss = JArr (map JStr ss)"

text \<open>A \<open>nil\<close> slice is written as \<open>null\<close>.\<close>

definition enc_slice :: "('a \<Rightarrow> json) \<Rightarrow> 'a list option \<Rightarrow> json" where
  "enc_slice enc xs = (case xs of None \<Rightarrow> JNull | Some ys \<Rightarrow> JArr (map enc ys))"

subsection \<open>Maps and members\<close>

lemma size_list_members [simp]:
  "size_list (size_prod (\<lambda>_. 0) size) ms = size_list (\<lambda>p. Suc (size (snd p))) ms"
  by (induction ms) auto

lemma distinct_map_members: "distinct (map fst (map_members ms))"
proof -
  have "distinct (map fst m) \<Longrightarrow> distinct (map fst (fold (\<lambda>p m. assoc_put (fst p) (snd p) m) ms m))" for m
    by (induction ms arbitrary: m) (auto simp: distinct_assoc_put)
  then show ?thesis by (simp add: map_members_def)
qed

lemma dec_members_append:
  "dec_members strict fs (ms @ ns) r =
     (case dec_members strict fs ms r of None \<Rightarrow> None | Some r' \<Rightarrow> dec_members strict fs ns r')"
  by (induction strict fs ms r rule: dec_members.induct) (auto split: option.splits)

lemma dec_members_invariant:
  assumes "dec_members strict fs ms r = Some r'" and "P r"
    and "\<And>f v r r'. f \<in> set fs \<Longrightarrow> snd f v r = Some r' \<Longrightarrow> P r \<Longrightarrow> P r'"
  shows "P r'"
  using assms
proof (induction strict fs ms r rule: dec_members.induct)
  case (1 strict fs r)
  then show ?case by simp
next
  case (2 strict fs k v ms r)
  show ?case
  proof (cases "find (\<lambda>f. EqualFold (fst f) k) fs")
    case None
    with 2 show ?thesis by (auto split: if_splits)
  next
    case (Some f)
    then have "f \<in> set fs" by (auto simp: find_Some_iff)
    with Some 2 show ?thesis by (auto split: option.splits)
  qed
qed

lemma those_Some_length: "those xs = Some ys \<Longrightarrow> length ys = length xs"
  by (induction xs arbitrary: ys) (auto split: option.splits)

lemma those_map_Some: "(\<forall>x \<in> set xs. f x = Some (g x)) \<Longrightarrow> those (map f xs) = Some (map g xs)"
  by (induction xs) auto

lemma those_Some_in: "those (map f xs) = Some ys \<Longrightarrow> y \<in> set ys \<Longrightarrow> \<exists>x \<in> set xs. f x = Some y"
  by (induction xs arbitrary: ys) (auto split: option.splits)

subsection \<open>Decoding plain objects\<close>

text \<open>
  The members of a plain object are distinct, and one that a struct would read has exactly the
  name of the field. Of such an object every field is read from its own member alone.
\<close>

definition plain_members :: "string list \<Rightarrow> (string \<times> 'a) list \<Rightarrow> bool" where
  "plain_members names ms \<longleftrightarrow>
     distinct (map fst ms) \<and>
     (\<forall>k \<in> fst ` set ms. \<forall>n \<in> set names. EqualFold n k \<longrightarrow> n = k)"

lemma find_plain:
  assumes "\<forall>n \<in> set (map fst fs). EqualFold n k \<longrightarrow> n = k" and "distinct (map fst fs)"
    and "find (\<lambda>f. EqualFold (fst f) k) fs = Some f"
  shows "f \<in> set fs" and "fst f = k"
  using assms by (auto simp: find_Some_iff)

lemma dec_members_field:
  assumes "dec_members strict fs ms r = Some r'"
    and "plain_members (map fst fs) ms" and "distinct (map fst fs)"
    and "(name, fld d get upd) \<in> set fs"
    and lens: "\<And>x s. get (upd (\<lambda>_. x) s) = x"
    and frame: "\<And>f v s s'. f \<in> set fs \<Longrightarrow> fst f \<noteq> name \<Longrightarrow> snd f v s = Some s' \<Longrightarrow> get s' = get s"
  shows "case map_of ms name of None \<Rightarrow> get r' = get r | Some v \<Rightarrow> d v (get r) = Some (get r')"
  using assms(1,2)
proof (induction ms arbitrary: r)
  case Nil
  then show ?case by simp
next
  case (Cons p ms)
  obtain k v where p: "p = (k, v)" by (cases p)
  from Cons.prems(2) have plain: "plain_members (map fst fs) ms"
    and names: "\<forall>n \<in> set (map fst fs). EqualFold n k \<longrightarrow> n = k"
    and new: "k \<notin> fst ` set ms"
    by (auto simp: plain_members_def p)
  show ?case
  proof (cases "find (\<lambda>f. EqualFold (fst f) k) fs")
    case None
    then have "k \<noteq> name"
      using assms(4) by (auto simp: find_None_iff EqualFold_def)
    with None Cons.prems(1) Cons.IH [OF _ plain] show ?thesis
      by (auto simp: p split: if_splits)
  next
    case (Some f)
    with Cons.prems(1) obtain s where s: "snd f v r = Some s"
      and rest: "dec_members strict fs ms s = Some r'"
      by (auto simp: p split: option.splits)
    note f = find_plain [OF names assms(3) Some]
    show ?thesis
    proof (cases "k = name")
      case True
      with f assms(3,4) have "snd f = fld d get upd"
        by (metis eq_key_imp_eq_value prod.collapse)
      with s have "d v (get r) = Some (get s)"
        by (auto simp: fld_def lens)
      moreover have "get r' = get s"
        using Cons.IH [OF rest plain] new True by (auto simp: map_of_eq_None_iff split: option.splits
          dest: map_of_SomeD intro: rev_image_eqI)
      ultimately show ?thesis by (simp add: p True)
    next
      case False
      with frame [OF f(1) _ s] f(2) have "get s = get r" by simp
      with Cons.IH [OF rest plain] False show ?thesis
        by (auto simp: p split: option.splits)
    qed
  qed
qed

lemma dec_members_total:
  "\<forall>p \<in> set ms. \<forall>f \<in> set fs. EqualFold (fst f) (fst p) \<longrightarrow> (\<forall>s. snd f (snd p) s \<noteq> None) \<Longrightarrow>
   \<exists>r'. dec_members False fs ms r = Some r'"
proof (induction ms arbitrary: r)
  case Nil
  then show ?case by simp
next
  case (Cons p ms)
  have ih: "\<exists>r'. dec_members False fs ms s = Some r'" for s
    by (rule Cons.IH) (use Cons.prems in simp)
  show ?case
  proof (cases "find (\<lambda>f. EqualFold (fst f) (fst p)) fs")
    case None
    with ih show ?thesis by (cases p) simp
  next
    case (Some f)
    then have "f \<in> set fs" "EqualFold (fst f) (fst p)" by (auto simp: find_Some_iff)
    with Cons.prems have "snd f (snd p) r \<noteq> None" by simp
    with Some ih show ?thesis by (cases p) auto
  qed
qed

end
