(* ===== verification/Sha256.thy ===== *)
theory Sha256
  imports GoStrings "HOL-Library.Word"
begin

section \<open>crypto/sha256 and encoding/hex\<close>

text \<open>
  \<open>sha256.Sum256\<close> followed by \<open>hex.EncodeToString\<close>, on the bytes of a string, as FIPS 180-4
  defines it; the round constants are written in decimal. Plan hashes, plan ids, binding ids
  and evidence hashes of the modelled code
  are prefixes of \<open>sha256_hex\<close>. The facts used elsewhere are the length and the alphabet
  of the digest; nothing assumes that the hash is injective.
\<close>

unbundle bit_operations_syntax

type_synonym u32 = "32 word"

definition sha_K :: "u32 list" where
  "sha_K = [
    1116352408, 1899447441, 3049323471, 3921009573, 961987163, 1508970993, 2453635748, 2870763221,
    3624381080, 310598401, 607225278, 1426881987, 1925078388, 2162078206, 2614888103, 3248222580,
    3835390401, 4022224774, 264347078, 604807628, 770255983, 1249150122, 1555081692, 1996064986,
    2554220882, 2821834349, 2952996808, 3210313671, 3336571891, 3584528711, 113926993, 338241895,
    666307205, 773529912, 1294757372, 1396182291, 1695183700, 1986661051, 2177026350, 2456956037,
    2730485921, 2820302411, 3259730800, 3345764771, 3516065817, 3600352804, 4094571909, 275423344,
    430227734, 506948616, 659060556, 883997877, 958139571, 1322822218, 1537002063, 1747873779,
    1955562222, 2024104815, 2227730452, 2361852424, 2428436474, 2756734187, 3204031479,
    3329325298]"

definition sha_init :: "u32 list" where
  "sha_init = [1779033703, 3144134277, 1013904242, 2773480762,
               1359893119, 2600822924, 528734635, 1541459225]"

definition rotr32 :: "nat \<Rightarrow> u32 \<Rightarrow> u32" where
  "rotr32 n w = (drop_bit n w) OR (push_bit (32 - n) w)"

definition small_sigma0 :: "u32 \<Rightarrow> u32" where
  "small_sigma0 x = rotr32 7 x XOR rotr32 18 x XOR drop_bit 3 x"

definition small_sigma1 :: "u32 \<Rightarrow> u32" where
  "small_sigma1 x = rotr32 17 x XOR rotr32 19 x XOR drop_bit 10 x"

definition big_sigma0 :: "u32 \<Rightarrow> u32" where
  "big_sigma0 x = rotr32 2 x XOR rotr32 13 x XOR rotr32 22 x"

definition big_sigma1 :: "u32 \<Rightarrow> u32" where
  "big_sigma1 x = rotr32 6 x XOR rotr32 11 x XOR rotr32 25 x"

text \<open>The message schedule, built with the newest word first.\<close>

fun extend_schedule :: "nat \<Rightarrow> u32 list \<Rightarrow> u32 list" where
  "extend_schedule 0 ws = ws"
| "extend_schedule (Suc n) ws =
     extend_schedule n
       ((small_sigma1 (ws ! 1) + ws ! 6 + small_sigma0 (ws ! 14) + ws ! 15) # ws)"

definition schedule :: "u32 list \<Rightarrow> u32 list" where
  "schedule block = rev (extend_schedule 48 (rev block))"

type_synonym sha_regs = "u32 \<times> u32 \<times> u32 \<times> u32 \<times> u32 \<times> u32 \<times> u32 \<times> u32"

definition sha_round :: "u32 \<times> u32 \<Rightarrow> sha_regs \<Rightarrow> sha_regs" where
  "sha_round kw r = (case (kw, r) of ((k, w), (a, b, c, d, e, f, g, h)) \<Rightarrow>
     let t1 = h + big_sigma1 e + ((e AND f) XOR ((NOT e) AND g)) + k + w;
         t2 = big_sigma0 a + ((a AND b) XOR (a AND c) XOR (b AND c))
     in (t1 + t2, a, b, c, d + t1, e, f, g))"

definition sha_regs_of :: "u32 list \<Rightarrow> sha_regs" where
  "sha_regs_of h = (h ! 0, h ! 1, h ! 2, h ! 3, h ! 4, h ! 5, h ! 6, h ! 7)"

definition sha_compress :: "u32 list \<Rightarrow> u32 list \<Rightarrow> u32 list" where
  "sha_compress h block =
     (case fold sha_round (zip sha_K (schedule block)) (sha_regs_of h) of
        (a, b, c, d, e, f, g, k) \<Rightarrow>
          [h ! 0 + a, h ! 1 + b, h ! 2 + c, h ! 3 + d, h ! 4 + e, h ! 5 + f, h ! 6 + g, h ! 7 + k])"

text \<open>Padding: a one bit, zeros up to 56 modulo 64, the length in bits as eight bytes.\<close>

definition be_bytes :: "nat \<Rightarrow> nat \<Rightarrow> nat list" where
  "be_bytes k n = map (\<lambda>i. (n div 256 ^ (k - 1 - i)) mod 256) [0..<k]"

definition sha_pad :: "nat list \<Rightarrow> nat list" where
  "sha_pad m =
     m @ 128 # replicate ((119 - length m mod 64) mod 64) 0 @ be_bytes 8 (8 * length m)"

fun be_words :: "nat list \<Rightarrow> u32 list" where
  "be_words (a # b # c # d # bs) =
     (push_bit 24 (of_nat a) OR push_bit 16 (of_nat b) OR push_bit 8 (of_nat c) OR of_nat d)
       # be_words bs"
| "be_words _ = []"

fun sha_blocks :: "u32 list \<Rightarrow> u32 list list" where
  "sha_blocks ws = (if ws = [] then [] else take 16 ws # sha_blocks (drop 16 ws))"

declare sha_blocks.simps [simp del]

definition sha256 :: "string \<Rightarrow> u32 list" where
  "sha256 s = foldl sha_compress sha_init (sha_blocks (be_words (sha_pad (map of_char s))))"

definition hex_digit :: "nat \<Rightarrow> char" where
  "hex_digit d = (if d < 10 then char_of (48 + d) else char_of (87 + d))"

definition hex32 :: "u32 \<Rightarrow> string" where
  "hex32 w = map (\<lambda>i. hex_digit (unat (drop_bit (28 - 4 * i) w AND 15))) [0..<8]"

definition sha256_hex :: "string \<Rightarrow> string" where
  "sha256_hex s = concat (map hex32 (sha256 s))"

text \<open>\<open>hex.EncodeToString(sum[:n])\<close>.\<close>

definition sha256_hex_prefix :: "nat \<Rightarrow> string \<Rightarrow> string" where
  "sha256_hex_prefix n s = take (2 * n) (sha256_hex s)"

subsection \<open>The digest\<close>

lemma length_sha_compress [simp]: "length (sha_compress h b) = 8"
  by (simp add: sha_compress_def split: prod.splits)

lemma length_sha256 [simp]: "length (sha256 s) = 8"
proof -
  have "length h = 8 \<Longrightarrow> length (foldl sha_compress h bs) = 8" for h bs
    by (induction bs arbitrary: h) auto
  then show ?thesis
    by (simp add: sha256_def sha_init_def)
qed

lemma length_hex32 [simp]: "length (hex32 w) = 8"
  by (simp add: hex32_def)

lemma length_sha256_hex [simp]: "length (sha256_hex s) = 64"
proof -
  have "length (concat (map hex32 ws)) = 8 * length ws" for ws
    by (induction ws) auto
  then show ?thesis by (simp add: sha256_hex_def)
qed

lemma length_sha256_hex_prefix: "n \<le> 32 \<Longrightarrow> length (sha256_hex_prefix n s) = 2 * n"
  by (simp add: sha256_hex_prefix_def)

lemma is_lower_hex_digit: "d < 16 \<Longrightarrow> is_lower_hex (hex_digit d)"
  by (auto simp: is_lower_hex_def hex_digit_def Let_def of_char_of)

lemma unat_nibble: "unat ((w :: u32) AND 15) < 16"
proof -
  have "w AND 15 \<le> (15 :: u32)" by (rule word_and_le1)
  then show ?thesis by (simp add: word_le_nat_alt)
qed

lemma sha256_hex_alphabet: "c \<in> set (sha256_hex s) \<Longrightarrow> is_lower_hex c"
  by (auto simp: sha256_hex_def hex32_def intro!: is_lower_hex_digit unat_nibble)

lemma hex_not_space: "is_lower_hex c \<Longrightarrow> \<not> is_space c"
  by (auto simp: is_lower_hex_def is_space_of_char Let_def)

lemma sha256_hex_not_blank [simp]: "\<not> blank (sha256_hex s)"
proof
  assume b: "blank (sha256_hex s)"
  have "sha256_hex s \<noteq> []"
    using length_sha256_hex [of s] by (metis length_0_conv zero_neq_numeral)
  then have "hd (sha256_hex s) \<in> set (sha256_hex s)"
    by simp
  with b sha256_hex_alphabet hex_not_space show False
    by (auto simp: blank_iff)
qed

end
