(* ===== verification/BrowserContract.thy ===== *)
theory BrowserContract
  imports Json Sha256
begin

section \<open>Browser contract (internal/browsercontract/types.go)\<close>

text \<open>
  The evidence the Go control plane accepts from the browser worker: candidate references,
  locators, resolved candidates, resolved-target evidence and target bindings, each with
  the \<open>Validate\<close> method of the code, and \<open>NewTargetBinding\<close>, which seals a binding with an
  id and a content hash. \<open>binding_content_ok\<close> states declaratively which bindings
  can be sealed; the lemmas show that the validation loops decide it, that sealing is
  idempotent, and what a sealed binding guarantees to the step that uses it.
\<close>

subsection \<open>Versions and errors\<close>

definition ObservationSchemaVersion :: string where
  "ObservationSchemaVersion = ''browser.observation.v2''"

definition TargetBindingVersion :: string where
  "TargetBindingVersion = ''grounding.target-binding.v1''"

definition ResolvedTargetVersion :: string where
  "ResolvedTargetVersion = ''browser.resolved-target.v1''"

definition CandidateRefVersion :: string where
  "CandidateRefVersion = ''grounding.candidate-ref.v1''"

definition GroundingQueryV1 :: string where
  "GroundingQueryV1 = ''grounding.query.v1''"

definition GroundingQueryV2 :: string where
  "GroundingQueryV2 = ''grounding.query.v2''"

datatype contract_error =
    CandidateReferenceIncomplete
  | RoleLocatorRequiresRole
  | RoleLocatorIncompatible
  | LocatorRequiresValue string
  | LocatorIncompatible string
  | ScopedLocatorIncomplete
  | NestedScopedLocator
  | InScope contract_error
  | InTarget contract_error
  | UnsupportedLocatorKind string
  | ResolvedCandidateSource contract_error
  | ResolvedCandidateIncomplete
  | ResolvedCandidateFrames
  | ResolvedCandidateLocator contract_error
  | ResolvedCandidateXpathInShadow
  | EvidenceIncomplete
  | EvidenceActionStatus
  | EvidenceNotEnabled
  | EvidenceNotEditable
  | EvidenceContextPath
  | EvidenceSourceCandidate contract_error
  | EvidenceLocator contract_error
  | EvidenceXpathInShadow
  | BindingSchema string
  | BindingIncomplete
  | BindingElementRefsNotUnique
  | BindingCandidateInvalid
  | BindingUnknownElement
  | BindingCandidateIdsNotUnique
  | BindingCandidateLocator string contract_error
  | BindingXpathInShadow string
  | SelectedNotUniqueVisible
  | SelectedNotEnabled
  | SelectedAbsent
  | BindingShaMismatch

subsection \<open>Candidate references\<close>

record CandidateRef =
  cr_schema_version :: string
  cr_source_event_seq :: int
  cr_probe_id :: string
  cr_observation_id :: string
  cr_candidate_id :: string

definition zero_CandidateRef :: CandidateRef where
  "zero_CandidateRef = \<lparr>cr_schema_version = [], cr_source_event_seq = 0, cr_probe_id = [],
     cr_observation_id = [], cr_candidate_id = []\<rparr>"

definition dec_CandidateRef :: "CandidateRef decoder" where
  "dec_CandidateRef = dec_struct [
     (''schema_version'', fld dec_string cr_schema_version cr_schema_version_update),
     (''source_event_seq'', fld dec_int cr_source_event_seq cr_source_event_seq_update),
     (''probe_id'', fld dec_string cr_probe_id cr_probe_id_update),
     (''observation_id'', fld dec_string cr_observation_id cr_observation_id_update),
     (''candidate_id'', fld dec_string cr_candidate_id cr_candidate_id_update)]"

definition CandidateRef_Validate :: "CandidateRef \<Rightarrow> contract_error option" where
  "CandidateRef_Validate r =
     (if cr_schema_version r \<noteq> CandidateRefVersion \<or> cr_source_event_seq r < 1 \<or>
         blank (cr_probe_id r) \<or> blank (cr_observation_id r) \<or> blank (cr_candidate_id r)
      then Some CandidateReferenceIncomplete else None)"

subsection \<open>Locators\<close>

datatype LocatorSpec = LocatorSpec
  (ls_kind: string) (ls_role: string) (ls_name: "string option") (ls_value: string)
  (ls_exact: bool) (ls_scope: "LocatorSpec option") (ls_target: "LocatorSpec option")

definition zero_LocatorSpec :: LocatorSpec where
  "zero_LocatorSpec = LocatorSpec [] [] None [] False None None"

definition value_locator_kinds :: "string list" where
  "value_locator_kinds =
     [''label'', ''placeholder'', ''text'', ''test_id'', ''css'', ''xpath'']"

fun LocatorSpec_Validate :: "LocatorSpec \<Rightarrow> contract_error option" where
  "LocatorSpec_Validate (LocatorSpec kind role name val exact scope target) =
     (if kind = ''role'' then
        (if blank role then Some RoleLocatorRequiresRole
         else if scope \<noteq> None \<or> target \<noteq> None \<or> val \<noteq> [] then Some RoleLocatorIncompatible
         else None)
      else if kind \<in> set value_locator_kinds then
        (if blank val then Some (LocatorRequiresValue kind)
         else if scope \<noteq> None \<or> target \<noteq> None \<or> role \<noteq> [] \<or> name \<noteq> None
         then Some (LocatorIncompatible kind)
         else None)
      else if kind = ''scoped'' then
        (case (scope, target) of
           (Some sc, Some tg) \<Rightarrow>
             (if ls_kind sc = ''scoped'' \<or> ls_kind tg = ''scoped'' then Some NestedScopedLocator
              else (case LocatorSpec_Validate sc of
                 Some e \<Rightarrow> Some (InScope e)
               | None \<Rightarrow> (case LocatorSpec_Validate tg of
                     Some e \<Rightarrow> Some (InTarget e)
                   | None \<Rightarrow> None)))
         | _ \<Rightarrow> Some ScopedLocatorIncomplete)
      else Some (UnsupportedLocatorKind kind))"

fun containsKind :: "LocatorSpec \<Rightarrow> string \<Rightarrow> bool" where
  "containsKind (LocatorSpec k role name val exact scope target) kind \<longleftrightarrow>
     k = kind \<or>
     (case scope of None \<Rightarrow> False | Some sc \<Rightarrow> containsKind sc kind) \<or>
     (case target of None \<Rightarrow> False | Some tg \<Rightarrow> containsKind tg kind)"

fun enc_LocatorSpec :: "LocatorSpec \<Rightarrow> json" where
  "enc_LocatorSpec (LocatorSpec kind role name val exact scope target) = JObj (
     [(''kind'', JStr kind)] @ omit_empty_string ''role'' role @ omit_nil ''name'' JStr name @
     omit_empty_string ''value'' val @ [(''exact'', JBool exact)] @
     (case scope of None \<Rightarrow> [] | Some sc \<Rightarrow> [(''scope'', enc_LocatorSpec sc)]) @
     (case target of None \<Rightarrow> [] | Some tg \<Rightarrow> [(''target'', enc_LocatorSpec tg)]))"

text \<open>
  Decoding a locator; the members \<open>scope\<close> and \<open>target\<close> hold locators themselves.
\<close>

function (sequential) dec_LocatorSpec :: "json \<Rightarrow> LocatorSpec \<Rightarrow> LocatorSpec option"
  and dec_LocatorSpec_members ::
    "(string \<times> json) list \<Rightarrow> LocatorSpec \<Rightarrow> LocatorSpec option" where
  "dec_LocatorSpec (JObj ms) r = dec_LocatorSpec_members ms r"
| "dec_LocatorSpec JNull r = Some r"
| "dec_LocatorSpec _ r = None"
| "dec_LocatorSpec_members [] r = Some r"
| "dec_LocatorSpec_members ((k, v) # ms) (LocatorSpec kind role name val exact scope target) =
     (case
       (if EqualFold ''kind'' k then
          map_option (\<lambda>x. LocatorSpec x role name val exact scope target) (dec_string v kind)
        else if EqualFold ''role'' k then
          map_option (\<lambda>x. LocatorSpec kind x name val exact scope target) (dec_string v role)
        else if EqualFold ''name'' k then
          map_option (\<lambda>x. LocatorSpec kind role x val exact scope target)
            (dec_ptr dec_string [] v name)
        else if EqualFold ''value'' k then
          map_option (\<lambda>x. LocatorSpec kind role name x exact scope target) (dec_string v val)
        else if EqualFold ''exact'' k then
          map_option (\<lambda>x. LocatorSpec kind role name val x scope target) (dec_bool v exact)
        else if EqualFold ''scope'' k then
          (if v = JNull then Some (LocatorSpec kind role name val exact None target)
           else map_option (\<lambda>x. LocatorSpec kind role name val exact (Some x) target)
             (dec_LocatorSpec v (case scope of None \<Rightarrow> zero_LocatorSpec | Some s \<Rightarrow> s)))
        else if EqualFold ''target'' k then
          (if v = JNull then Some (LocatorSpec kind role name val exact scope None)
           else map_option (\<lambda>x. LocatorSpec kind role name val exact scope (Some x))
             (dec_LocatorSpec v (case target of None \<Rightarrow> zero_LocatorSpec | Some s \<Rightarrow> s)))
        else Some (LocatorSpec kind role name val exact scope target))
      of None \<Rightarrow> None | Some r' \<Rightarrow> dec_LocatorSpec_members ms r')"
  by pat_completeness auto
termination
  by (relation "measure (\<lambda>x. case x of
        Inl (j, r) \<Rightarrow> size j
      | Inr (ms, r) \<Rightarrow> size_list (\<lambda>p. Suc (size (snd p))) ms)")
    (auto simp: less_Suc_eq)

subsection \<open>Context paths and candidates\<close>

text \<open>The two slices of a context path may be \<open>nil\<close>, which the code tells from empty.\<close>

record ContextPath =
  cp_frames :: "string list option"
  cp_shadow_hosts :: "string list option"

definition zero_ContextPath :: ContextPath where
  "zero_ContextPath = \<lparr>cp_frames = None, cp_shadow_hosts = None\<rparr>"

definition dec_ContextPath :: "ContextPath decoder" where
  "dec_ContextPath = dec_struct [
     (''frames'', fld (dec_slice dec_string []) cp_frames cp_frames_update),
     (''shadow_hosts'', fld (dec_slice dec_string []) cp_shadow_hosts cp_shadow_hosts_update)]"

definition enc_ContextPath :: "ContextPath \<Rightarrow> json" where
  "enc_ContextPath p = JObj [
     (''frames'', enc_slice JStr (cp_frames p)),
     (''shadow_hosts'', enc_slice JStr (cp_shadow_hosts p))]"

text \<open>\<open>len(path.ShadowHosts) > 0\<close>, \<open>len(path.Frames) > 0\<close>.\<close>

definition slice_nonempty :: "'a list option \<Rightarrow> bool" where
  "slice_nonempty s \<longleftrightarrow> (case s of None \<Rightarrow> False | Some xs \<Rightarrow> xs \<noteq> [])"

record LocatorCandidate =
  lc_candidate_id :: string
  lc_element_ref :: string
  lc_context_path :: ContextPath
  lc_locator :: LocatorSpec
  lc_provenance :: string
  lc_observed_count :: int
  lc_visible :: bool
  lc_enabled :: bool
  lc_score :: f64

definition zero_LocatorCandidate :: LocatorCandidate where
  "zero_LocatorCandidate = \<lparr>lc_candidate_id = [], lc_element_ref = [],
     lc_context_path = zero_ContextPath, lc_locator = zero_LocatorSpec, lc_provenance = [],
     lc_observed_count = 0, lc_visible = False, lc_enabled = False, lc_score = (0, 0)\<rparr>"

definition dec_LocatorCandidate :: "LocatorCandidate decoder" where
  "dec_LocatorCandidate = dec_struct [
     (''candidate_id'', fld dec_string lc_candidate_id lc_candidate_id_update),
     (''element_ref'', fld dec_string lc_element_ref lc_element_ref_update),
     (''context_path'', fld dec_ContextPath lc_context_path lc_context_path_update),
     (''locator'', fld dec_LocatorSpec lc_locator lc_locator_update),
     (''provenance'', fld dec_string lc_provenance lc_provenance_update),
     (''observed_count'', fld dec_int lc_observed_count lc_observed_count_update),
     (''visible'', fld dec_bool lc_visible lc_visible_update),
     (''enabled'', fld dec_bool lc_enabled lc_enabled_update),
     (''score'', fld dec_f64 lc_score lc_score_update)]"

definition enc_LocatorCandidate :: "LocatorCandidate \<Rightarrow> json" where
  "enc_LocatorCandidate c = JObj [
     (''candidate_id'', JStr (lc_candidate_id c)),
     (''element_ref'', JStr (lc_element_ref c)),
     (''context_path'', enc_ContextPath (lc_context_path c)),
     (''locator'', enc_LocatorSpec (lc_locator c)),
     (''provenance'', JStr (lc_provenance c)),
     (''observed_count'', JInt (lc_observed_count c)),
     (''visible'', JBool (lc_visible c)),
     (''enabled'', JBool (lc_enabled c)),
     (''score'', enc_f64 (lc_score c))]"

text \<open>\<open>score < 0 || score > 1\<close>.\<close>

definition score_out_of_range :: "f64 \<Rightarrow> bool" where
  "score_out_of_range x \<longleftrightarrow> f64_less x (0, 0) \<or> f64_less (1, 0) x"

subsection \<open>Resolved candidates\<close>

record CandidateElementMetadata =
  md_role :: string
  md_name :: string
  md_description :: string
  md_value :: json          \<comment> \<open>\<open>any\<close>; \<open>JNull\<close> is the \<open>nil\<close> interface\<close>
  md_dom_tag :: string
  md_dom_text :: string
  md_dom_attrs :: "(string \<times> string) list"

record TrustedResolvedCandidate =
  rc_source :: CandidateRef
  rc_page_state_id :: string
  rc_page_state_sha256 :: string
  rc_element_ref :: string
  rc_locator :: LocatorSpec
  rc_context_path :: ContextPath
  rc_provenance :: string
  rc_metadata :: CandidateElementMetadata

definition TrustedResolvedCandidate_Validate ::
  "TrustedResolvedCandidate \<Rightarrow> contract_error option" where
  "TrustedResolvedCandidate_Validate c =
     (case CandidateRef_Validate (rc_source c) of
        Some e \<Rightarrow> Some (ResolvedCandidateSource e)
      | None \<Rightarrow>
        if blank (rc_page_state_id c) \<or> length (rc_page_state_sha256 c) \<noteq> 64 \<or>
           blank (rc_element_ref c) \<or> blank (rc_provenance c) \<or>
           cp_frames (rc_context_path c) = None \<or> cp_shadow_hosts (rc_context_path c) = None
        then Some ResolvedCandidateIncomplete
        else if slice_nonempty (cp_frames (rc_context_path c)) then Some ResolvedCandidateFrames
        else (case LocatorSpec_Validate (rc_locator c) of
            Some e \<Rightarrow> Some (ResolvedCandidateLocator e)
          | None \<Rightarrow>
            if slice_nonempty (cp_shadow_hosts (rc_context_path c)) \<and>
               containsKind (rc_locator c) ''xpath''
            then Some ResolvedCandidateXpathInShadow else None))"

subsection \<open>Resolved-target evidence\<close>

record ResolvedTargetEvidence =
  ev_schema_version :: string
  ev_probe_id :: string
  ev_plan_step_id :: string
  ev_step_index :: int
  ev_action_index :: int
  ev_action :: string
  ev_observation_id :: string
  ev_page_state_id :: string
  ev_page_state_sha256 :: string
  ev_element_ref :: string
  ev_candidate_id :: string
  ev_source_candidate :: "CandidateRef option"
  ev_locator :: LocatorSpec
  ev_context_path :: ContextPath
  ev_provenance :: string
  ev_runtime_match_count :: int
  ev_visible :: bool
  ev_enabled :: bool
  ev_editable :: bool
  ev_score :: f64
  ev_action_status :: string

definition zero_ResolvedTargetEvidence :: ResolvedTargetEvidence where
  "zero_ResolvedTargetEvidence = \<lparr>ev_schema_version = [], ev_probe_id = [],
     ev_plan_step_id = [], ev_step_index = 0, ev_action_index = 0, ev_action = [],
     ev_observation_id = [], ev_page_state_id = [], ev_page_state_sha256 = [],
     ev_element_ref = [], ev_candidate_id = [], ev_source_candidate = None,
     ev_locator = zero_LocatorSpec, ev_context_path = zero_ContextPath, ev_provenance = [],
     ev_runtime_match_count = 0, ev_visible = False, ev_enabled = False, ev_editable = False,
     ev_score = (0, 0), ev_action_status = []\<rparr>"

definition dec_ResolvedTargetEvidence :: "ResolvedTargetEvidence decoder" where
  "dec_ResolvedTargetEvidence = dec_struct [
     (''schema_version'', fld dec_string ev_schema_version ev_schema_version_update),
     (''probe_id'', fld dec_string ev_probe_id ev_probe_id_update),
     (''plan_step_id'', fld dec_string ev_plan_step_id ev_plan_step_id_update),
     (''step_index'', fld dec_int ev_step_index ev_step_index_update),
     (''action_index'', fld dec_int ev_action_index ev_action_index_update),
     (''action'', fld dec_string ev_action ev_action_update),
     (''observation_id'', fld dec_string ev_observation_id ev_observation_id_update),
     (''page_state_id'', fld dec_string ev_page_state_id ev_page_state_id_update),
     (''page_state_sha256'', fld dec_string ev_page_state_sha256 ev_page_state_sha256_update),
     (''element_ref'', fld dec_string ev_element_ref ev_element_ref_update),
     (''candidate_id'', fld dec_string ev_candidate_id ev_candidate_id_update),
     (''source_candidate'', fld (dec_ptr dec_CandidateRef zero_CandidateRef)
        ev_source_candidate ev_source_candidate_update),
     (''locator'', fld dec_LocatorSpec ev_locator ev_locator_update),
     (''context_path'', fld dec_ContextPath ev_context_path ev_context_path_update),
     (''provenance'', fld dec_string ev_provenance ev_provenance_update),
     (''runtime_match_count'', fld dec_int ev_runtime_match_count ev_runtime_match_count_update),
     (''visible'', fld dec_bool ev_visible ev_visible_update),
     (''enabled'', fld dec_bool ev_enabled ev_enabled_update),
     (''editable'', fld dec_bool ev_editable ev_editable_update),
     (''score'', fld dec_f64 ev_score ev_score_update),
     (''action_status'', fld dec_string ev_action_status ev_action_status_update)]"

definition ResolvedTargetEvidence_Validate ::
  "ResolvedTargetEvidence \<Rightarrow> contract_error option" where
  "ResolvedTargetEvidence_Validate e =
     (if ev_schema_version e \<noteq> ResolvedTargetVersion \<or> blank (ev_probe_id e) \<or>
         blank (ev_plan_step_id e) \<or> ev_step_index e < 0 \<or> ev_action_index e < 0 \<or>
         ev_action e \<notin> {''click'', ''input'', ''wait_for''} \<or> blank (ev_observation_id e) \<or>
         blank (ev_page_state_id e) \<or> length (ev_page_state_sha256 e) \<noteq> 64 \<or>
         blank (ev_element_ref e) \<or> blank (ev_candidate_id e) \<or> blank (ev_provenance e) \<or>
         ev_runtime_match_count e \<noteq> 1 \<or> \<not> ev_visible e \<or> score_out_of_range (ev_score e)
      then Some EvidenceIncomplete
      else if ev_action_status e \<notin> {''resolved'', ''succeeded'', ''failed''}
      then Some EvidenceActionStatus
      else if ev_action e \<in> {''click'', ''input''} \<and> \<not> ev_enabled e then Some EvidenceNotEnabled
      else if ev_action e = ''input'' \<and> \<not> ev_editable e then Some EvidenceNotEditable
      else if cp_frames (ev_context_path e) = None \<or> cp_shadow_hosts (ev_context_path e) = None
      then Some EvidenceContextPath
      else (case (case ev_source_candidate e of None \<Rightarrow> None | Some r \<Rightarrow> CandidateRef_Validate r) of
          Some err \<Rightarrow> Some (EvidenceSourceCandidate err)
        | None \<Rightarrow>
          (case LocatorSpec_Validate (ev_locator e) of
             Some err \<Rightarrow> Some (EvidenceLocator err)
           | None \<Rightarrow>
             if slice_nonempty (cp_shadow_hosts (ev_context_path e)) \<and>
                containsKind (ev_locator e) ''xpath''
             then Some EvidenceXpathInShadow else None)))"

subsection \<open>Target bindings\<close>

record TargetBinding =
  tb_schema_version :: string
  tb_binding_id :: string
  tb_plan_id :: string
  tb_plan_version :: int
  tb_plan_step_id :: string
  tb_probe_id :: string
  tb_semantic_target :: string
  tb_action :: string
  tb_page_state_id :: string
  tb_observation_id :: string
  tb_observation_sha256 :: string
  tb_element_refs :: "string list"
  tb_candidates :: "LocatorCandidate list"
  tb_selected_candidate_id :: string
  tb_binding_sha256 :: string

definition enc_TargetBinding :: "TargetBinding \<Rightarrow> json" where
  "enc_TargetBinding b = JObj (
     [(''schema_version'', JStr (tb_schema_version b)),
      (''binding_id'', JStr (tb_binding_id b)),
      (''plan_id'', JStr (tb_plan_id b)),
      (''plan_version'', JInt (tb_plan_version b)),
      (''plan_step_id'', JStr (tb_plan_step_id b))] @
     omit_empty_string ''probe_id'' (tb_probe_id b) @
     [(''semantic_target'', JStr (tb_semantic_target b)),
      (''action'', JStr (tb_action b)),
      (''page_state_id'', JStr (tb_page_state_id b)),
      (''observation_id'', JStr (tb_observation_id b)),
      (''observation_sha256'', JStr (tb_observation_sha256 b)),
      (''element_refs'', enc_strings (tb_element_refs b)),
      (''candidates'', JArr (map enc_LocatorCandidate (tb_candidates b))),
      (''selected_candidate_id'', JStr (tb_selected_candidate_id b)),
      (''binding_sha256'', JStr (tb_binding_sha256 b))])"

definition CalculateSHA256 :: "TargetBinding \<Rightarrow> string" where
  "CalculateSHA256 b = sha256_hex (render (enc_TargetBinding (b\<lparr>tb_binding_sha256 := []\<rparr>)))"

fun check_element_refs :: "string list \<Rightarrow> string list \<Rightarrow> bool" where
  "check_element_refs seen [] = True"
| "check_element_refs seen (r # rs) =
     (if blank r \<or> r \<in> set seen then False else check_element_refs (r # seen) rs)"

text \<open>The loop over the candidates; its result says whether the selected one was met.\<close>

fun check_candidates ::
  "TargetBinding \<Rightarrow> string list \<Rightarrow> bool \<Rightarrow> LocatorCandidate list \<Rightarrow> contract_error + bool" where
  "check_candidates b ids selected [] = Inr selected"
| "check_candidates b ids selected (c # cs) =
     (if blank (lc_candidate_id c) \<or> blank (lc_element_ref c) \<or> blank (lc_provenance c) \<or>
         lc_observed_count c < 0 \<or> score_out_of_range (lc_score c)
      then Inl BindingCandidateInvalid
      else if lc_element_ref c \<notin> set (tb_element_refs b) then Inl BindingUnknownElement
      else if lc_candidate_id c \<in> set ids then Inl BindingCandidateIdsNotUnique
      else (case LocatorSpec_Validate (lc_locator c) of
          Some e \<Rightarrow> Inl (BindingCandidateLocator (lc_candidate_id c) e)
        | None \<Rightarrow>
          if slice_nonempty (cp_shadow_hosts (lc_context_path c)) \<and>
             containsKind (lc_locator c) ''xpath''
          then Inl (BindingXpathInShadow (lc_candidate_id c))
          else if lc_candidate_id c = tb_selected_candidate_id b then
            (if lc_observed_count c \<noteq> 1 \<or> \<not> lc_visible c then Inl SelectedNotUniqueVisible
             else if tb_action b \<in> {''click'', ''input''} \<and> \<not> lc_enabled c
             then Inl SelectedNotEnabled
             else check_candidates b (lc_candidate_id c # ids) True cs)
          else check_candidates b (lc_candidate_id c # ids) selected cs))"

definition TargetBinding_Validate :: "TargetBinding \<Rightarrow> contract_error option" where
  "TargetBinding_Validate b =
     (if tb_schema_version b \<noteq> TargetBindingVersion then Some (BindingSchema (tb_schema_version b))
      else if blank (tb_binding_id b) \<or> blank (tb_plan_id b) \<or> tb_plan_version b < 1 \<or>
        blank (tb_plan_step_id b) \<or> blank (tb_semantic_target b) \<or> blank (tb_action b) \<or>
        blank (tb_page_state_id b) \<or> blank (tb_observation_id b) \<or>
        length (tb_observation_sha256 b) \<noteq> 64 \<or> length (tb_binding_sha256 b) \<noteq> 64 \<or>
        tb_element_refs b = [] \<or> tb_candidates b = []
      then Some BindingIncomplete
      else if \<not> check_element_refs [] (tb_element_refs b) then Some BindingElementRefsNotUnique
      else (case check_candidates b [] False (tb_candidates b) of
          Inl e \<Rightarrow> Some e
        | Inr selected \<Rightarrow>
          if \<not> selected then Some SelectedAbsent
          else if CalculateSHA256 b \<noteq> tb_binding_sha256 b then Some BindingShaMismatch
          else None))"

text \<open>\<open>NewTargetBinding\<close> fills the two slices of every context path before it hashes.\<close>

definition fill_slice :: "'a list option \<Rightarrow> 'a list option" where
  "fill_slice s = Some (case s of None \<Rightarrow> [] | Some xs \<Rightarrow> xs)"

definition fill_context_path :: "LocatorCandidate \<Rightarrow> LocatorCandidate" where
  "fill_context_path c = c\<lparr>lc_context_path :=
     \<lparr>cp_frames = fill_slice (cp_frames (lc_context_path c)),
      cp_shadow_hosts = fill_slice (cp_shadow_hosts (lc_context_path c))\<rparr>\<rparr>"

definition unsealed :: "TargetBinding \<Rightarrow> TargetBinding" where
  "unsealed b = b\<lparr>tb_schema_version := TargetBindingVersion,
     tb_candidates := map fill_context_path (tb_candidates b),
     tb_binding_id := [], tb_binding_sha256 := []\<rparr>"

definition seal_binding :: "TargetBinding \<Rightarrow> TargetBinding" where
  "seal_binding b =
     (let b1 = unsealed b;
          b2 = b1\<lparr>tb_binding_id :=
                 ''binding_'' @ sha256_hex_prefix 12 (render (enc_TargetBinding b1))\<rparr>
      in b2\<lparr>tb_binding_sha256 := CalculateSHA256 b2\<rparr>)"

definition NewTargetBinding :: "TargetBinding \<Rightarrow> contract_error + TargetBinding" where
  "NewTargetBinding b =
     (case TargetBinding_Validate (seal_binding b) of
        Some e \<Rightarrow> Inl e
      | None \<Rightarrow> Inr (seal_binding b))"

subsection \<open>What the validation loops decide\<close>

lemma check_element_refs_iff:
  "check_element_refs seen rs \<longleftrightarrow>
     distinct rs \<and> (\<forall>r \<in> set rs. \<not> blank r) \<and> set rs \<inter> set seen = {}"
  by (induction seen rs rule: check_element_refs.induct) auto

text \<open>One candidate, and the selected one, as the code wants them.\<close>

definition candidate_ok :: "TargetBinding \<Rightarrow> LocatorCandidate \<Rightarrow> bool" where
  "candidate_ok b c \<longleftrightarrow>
     \<not> blank (lc_candidate_id c) \<and> \<not> blank (lc_element_ref c) \<and> \<not> blank (lc_provenance c) \<and>
     0 \<le> lc_observed_count c \<and> \<not> score_out_of_range (lc_score c) \<and>
     lc_element_ref c \<in> set (tb_element_refs b) \<and>
     LocatorSpec_Validate (lc_locator c) = None \<and>
     \<not> (slice_nonempty (cp_shadow_hosts (lc_context_path c)) \<and> containsKind (lc_locator c) ''xpath'')"

definition selectable :: "TargetBinding \<Rightarrow> LocatorCandidate \<Rightarrow> bool" where
  "selectable b c \<longleftrightarrow>
     lc_observed_count c = 1 \<and> lc_visible c \<and>
     (tb_action b \<in> {''click'', ''input''} \<longrightarrow> lc_enabled c)"

lemma check_candidates_iff:
  "check_candidates b ids sel cs = Inr sel' \<longleftrightarrow>
     (\<forall>c \<in> set cs. candidate_ok b c) \<and>
     distinct (map lc_candidate_id cs) \<and> lc_candidate_id ` set cs \<inter> set ids = {} \<and>
     (\<forall>c \<in> set cs. lc_candidate_id c = tb_selected_candidate_id b \<longrightarrow> selectable b c) \<and>
     (sel' \<longleftrightarrow> sel \<or> tb_selected_candidate_id b \<in> lc_candidate_id ` set cs)"
proof (induction b ids sel cs rule: check_candidates.induct)
  case (1 b ids sel)
  then show ?case by auto
next
  case (2 b ids sel c cs)
  show ?case
  proof (cases "candidate_ok b c \<and> lc_candidate_id c \<notin> set ids \<and>
      (lc_candidate_id c = tb_selected_candidate_id b \<longrightarrow> selectable b c)")
    case True
    then have step: "check_candidates b ids sel (c # cs) =
        check_candidates b (lc_candidate_id c # ids)
          (sel \<or> lc_candidate_id c = tb_selected_candidate_id b) cs"
      by (auto simp: candidate_ok_def selectable_def)
    have "check_candidates b (lc_candidate_id c # ids)
        (sel \<or> lc_candidate_id c = tb_selected_candidate_id b) cs = Inr sel' \<longleftrightarrow>
      (\<forall>c \<in> set cs. candidate_ok b c) \<and> distinct (map lc_candidate_id cs) \<and>
      lc_candidate_id ` set cs \<inter> set (lc_candidate_id c # ids) = {} \<and>
      (\<forall>c \<in> set cs. lc_candidate_id c = tb_selected_candidate_id b \<longrightarrow> selectable b c) \<and>
      (sel' \<longleftrightarrow> (sel \<or> lc_candidate_id c = tb_selected_candidate_id b) \<or>
        tb_selected_candidate_id b \<in> lc_candidate_id ` set cs)"
      using True 2
      by (cases "lc_candidate_id c = tb_selected_candidate_id b")
        (auto simp: candidate_ok_def selectable_def)
    then show ?thesis
      unfolding step using True by auto
  next
    case False
    then have "\<not> (\<exists>s. check_candidates b ids sel (c # cs) = Inr s)"
      by (auto simp: candidate_ok_def selectable_def split: option.splits)
    with False show ?thesis by auto
  qed
qed

text \<open>
  The declarative content condition: what a binding must say before it is sealed. It does
  not mention the schema version, the binding id or the two hashes \<open>NewTargetBinding\<close>
  computes itself.
\<close>

definition binding_content_ok :: "TargetBinding \<Rightarrow> bool" where
  "binding_content_ok b \<longleftrightarrow>
     \<not> blank (tb_plan_id b) \<and> 1 \<le> tb_plan_version b \<and> \<not> blank (tb_plan_step_id b) \<and>
     \<not> blank (tb_semantic_target b) \<and> \<not> blank (tb_action b) \<and> \<not> blank (tb_page_state_id b) \<and>
     \<not> blank (tb_observation_id b) \<and> length (tb_observation_sha256 b) = 64 \<and>
     tb_element_refs b \<noteq> [] \<and> distinct (tb_element_refs b) \<and>
     (\<forall>r \<in> set (tb_element_refs b). \<not> blank r) \<and>
     (\<forall>c \<in> set (tb_candidates b). candidate_ok b c) \<and>
     distinct (map lc_candidate_id (tb_candidates b)) \<and>
     (\<exists>c \<in> set (tb_candidates b).
        lc_candidate_id c = tb_selected_candidate_id b \<and> selectable b c)"

lemma selected_iff:
  assumes "distinct (map lc_candidate_id cs)"
  shows "(\<forall>c \<in> set cs. lc_candidate_id c = x \<longrightarrow> P c) \<and> x \<in> lc_candidate_id ` set cs \<longleftrightarrow>
    (\<exists>c \<in> set cs. lc_candidate_id c = x \<and> P c)"
  using assms by (auto simp: distinct_map inj_on_def)

lemma TargetBinding_Validate_iff:
  "TargetBinding_Validate b = None \<longleftrightarrow>
     tb_schema_version b = TargetBindingVersion \<and> \<not> blank (tb_binding_id b) \<and>
     binding_content_ok b \<and> tb_binding_sha256 b = CalculateSHA256 b"
proof -
  have len: "length (CalculateSHA256 b) = 64"
    by (simp add: CalculateSHA256_def)
  have cands: "check_candidates b [] False (tb_candidates b) = Inr True \<longleftrightarrow>
      (\<forall>c \<in> set (tb_candidates b). candidate_ok b c) \<and>
      distinct (map lc_candidate_id (tb_candidates b)) \<and>
      (\<exists>c \<in> set (tb_candidates b).
         lc_candidate_id c = tb_selected_candidate_id b \<and> selectable b c)"
    using selected_iff [of "tb_candidates b" "tb_selected_candidate_id b" "selectable b"]
    by (auto simp: check_candidates_iff)
  have "TargetBinding_Validate b = None \<longleftrightarrow>
      tb_schema_version b = TargetBindingVersion \<and> \<not> blank (tb_binding_id b) \<and>
      \<not> blank (tb_plan_id b) \<and> 1 \<le> tb_plan_version b \<and> \<not> blank (tb_plan_step_id b) \<and>
      \<not> blank (tb_semantic_target b) \<and> \<not> blank (tb_action b) \<and> \<not> blank (tb_page_state_id b) \<and>
      \<not> blank (tb_observation_id b) \<and> length (tb_observation_sha256 b) = 64 \<and>
      length (tb_binding_sha256 b) = 64 \<and> tb_element_refs b \<noteq> [] \<and> tb_candidates b \<noteq> [] \<and>
      check_element_refs [] (tb_element_refs b) \<and>
      check_candidates b [] False (tb_candidates b) = Inr True \<and>
      CalculateSHA256 b = tb_binding_sha256 b"
    unfolding TargetBinding_Validate_def
    by (auto split: sum.splits simp del: check_candidates.simps check_element_refs.simps)
  then show ?thesis
    unfolding cands check_element_refs_iff binding_content_ok_def using len by auto
qed

subsection \<open>Sealing\<close>

lemma fill_slice_idem [simp]: "fill_slice (fill_slice s) = fill_slice s"
  by (simp add: fill_slice_def)

lemma fill_context_path_idem [simp]: "fill_context_path (fill_context_path c) = fill_context_path c"
  by (simp add: fill_context_path_def)

lemma slice_nonempty_fill [simp]: "slice_nonempty (fill_slice s) = slice_nonempty s"
  by (auto simp: slice_nonempty_def fill_slice_def split: option.splits)

lemma fill_context_path_fields [simp]:
  "lc_candidate_id (fill_context_path c) = lc_candidate_id c"
  "lc_element_ref (fill_context_path c) = lc_element_ref c"
  "lc_locator (fill_context_path c) = lc_locator c"
  "lc_provenance (fill_context_path c) = lc_provenance c"
  "lc_observed_count (fill_context_path c) = lc_observed_count c"
  "lc_visible (fill_context_path c) = lc_visible c"
  "lc_enabled (fill_context_path c) = lc_enabled c"
  "lc_score (fill_context_path c) = lc_score c"
  "slice_nonempty (cp_shadow_hosts (lc_context_path (fill_context_path c))) =
   slice_nonempty (cp_shadow_hosts (lc_context_path c))"
  by (simp_all add: fill_context_path_def)

lemma seal_binding_fields [simp]:
  "tb_schema_version (seal_binding b) = TargetBindingVersion"
  "tb_plan_id (seal_binding b) = tb_plan_id b"
  "tb_plan_version (seal_binding b) = tb_plan_version b"
  "tb_plan_step_id (seal_binding b) = tb_plan_step_id b"
  "tb_probe_id (seal_binding b) = tb_probe_id b"
  "tb_semantic_target (seal_binding b) = tb_semantic_target b"
  "tb_action (seal_binding b) = tb_action b"
  "tb_page_state_id (seal_binding b) = tb_page_state_id b"
  "tb_observation_id (seal_binding b) = tb_observation_id b"
  "tb_observation_sha256 (seal_binding b) = tb_observation_sha256 b"
  "tb_element_refs (seal_binding b) = tb_element_refs b"
  "tb_candidates (seal_binding b) = map fill_context_path (tb_candidates b)"
  "tb_selected_candidate_id (seal_binding b) = tb_selected_candidate_id b"
  by (simp_all add: seal_binding_def unsealed_def Let_def)

lemma seal_binding_sha: "tb_binding_sha256 (seal_binding b) = CalculateSHA256 (seal_binding b)"
  by (simp add: seal_binding_def unsealed_def Let_def CalculateSHA256_def)

lemma seal_binding_id_not_blank: "\<not> blank (tb_binding_id (seal_binding b))"
  by (simp add: seal_binding_def Let_def blank_iff is_space_def)

lemma unsealed_seal: "unsealed (seal_binding b) = unsealed b"
  by (cases b) (simp add: seal_binding_def Let_def unsealed_def)

lemma seal_binding_idem: "seal_binding (seal_binding b) = seal_binding b"
  unfolding seal_binding_def [of "seal_binding b"] unsealed_seal
  by (simp add: seal_binding_def)

lemma candidate_ok_seal [simp]:
  "candidate_ok (seal_binding b) (fill_context_path c) = candidate_ok b c"
  by (simp add: candidate_ok_def)

lemma selectable_seal [simp]:
  "selectable (seal_binding b) (fill_context_path c) = selectable b c"
  by (simp add: selectable_def)

lemma binding_content_ok_seal [simp]: "binding_content_ok (seal_binding b) = binding_content_ok b"
  by (simp add: binding_content_ok_def o_def)

lemma Validate_seal_iff: "TargetBinding_Validate (seal_binding b) = None \<longleftrightarrow> binding_content_ok b"
  using seal_binding_id_not_blank seal_binding_sha by (auto simp: TargetBinding_Validate_iff)

lemma NewTargetBinding_Inr_iff:
  "NewTargetBinding b = Inr b' \<longleftrightarrow> binding_content_ok b \<and> b' = seal_binding b"
  using Validate_seal_iff [of b] by (auto simp: NewTargetBinding_def split: option.splits)

subsection \<open>Encoding and decoding\<close>

lemma dec_enc_ContextPath:
  "dec_ContextPath (enc_ContextPath p) zero_ContextPath = Some p"
  by (cases p) (auto simp: dec_ContextPath_def enc_ContextPath_def dec_object_def
    zero_ContextPath_def go_string_simps fld_def dec_slice_def enc_slice_def dec_string_def
    those_map_Some [where g = id] o_def split: option.splits)

lemma dec_enc_f64: "f64_norm x \<Longrightarrow> dec_f64 (enc_f64 x) cur = Some x"
  by (auto simp: dec_f64_def enc_f64_def norm_dec_id) (metis prod.collapse)

lemma option_case_assoc:
  "(case (case x of None \<Rightarrow> None | Some y \<Rightarrow> Some y) of None \<Rightarrow> None | Some y \<Rightarrow> f y) =
   (case x of None \<Rightarrow> None | Some y \<Rightarrow> f y)"
  by (cases x) auto

lemma dec_LocatorSpec_members_Cons:
  "dec_LocatorSpec_members ((k, v) # ms) r =
     (case dec_LocatorSpec_members [(k, v)] r of None \<Rightarrow> None
      | Some r' \<Rightarrow> dec_LocatorSpec_members ms r')"
  by (cases r) (simp only: dec_LocatorSpec_members.simps option_case_assoc cong: option.case_cong)

lemma dec_LocatorSpec_members_append:
  "dec_LocatorSpec_members (ms @ ns) r =
     (case dec_LocatorSpec_members ms r of None \<Rightarrow> None
      | Some r' \<Rightarrow> dec_LocatorSpec_members ns r')"
proof (induction ms arbitrary: r)
  case Nil
  then show ?case by simp
next
  case (Cons p ms)
  obtain k v where p: "p = (k, v)" by (cases p)
  show ?case
    unfolding p append_Cons dec_LocatorSpec_members_Cons [of k v "ms @ ns"]
      dec_LocatorSpec_members_Cons [of k v ms] Cons.IH
    by (cases "dec_LocatorSpec_members [(k, v)] r") simp_all
qed

lemma dec_enc_LocatorSpec: "dec_LocatorSpec (enc_LocatorSpec l) zero_LocatorSpec = Some l"
proof (induction l)
  case (LocatorSpec kind role name val exact scope target)
  have ne: "enc_LocatorSpec x \<noteq> JNull" for x
    by (cases x) simp
  from LocatorSpec show ?case
    by (cases scope; cases target; cases name)
      (auto simp: dec_LocatorSpec_members_append omit_empty_string_def omit_nil_def
        go_string_simps dec_string_def dec_bool_def dec_ptr_def zero_LocatorSpec_def ne)
qed

lemma dec_enc_LocatorCandidate:
  assumes "in_int64 (lc_observed_count c)" and "f64_norm (lc_score c)"
  shows "dec_LocatorCandidate (enc_LocatorCandidate c) zero_LocatorCandidate = Some c"
  using assms
  by (cases c) (simp add: dec_LocatorCandidate_def enc_LocatorCandidate_def dec_object_def
    go_string_simps fld_def dec_string_def dec_bool_def dec_int_def zero_LocatorCandidate_def
    dec_enc_f64 dec_enc_ContextPath dec_enc_LocatorSpec)

end
