(* ===== verification/ObservationValidation.thy ===== *)
theory ObservationValidation
  imports BrowserContract
begin

section \<open>Strict validation of browser observations (internal/browsercontract/observation_validation.go)\<close>

text \<open>
  The worker's observation is decoded field by field with \<open>DisallowUnknownFields\<close> before the
  control plane accepts it. Every function of the file is here with its checks in order; the
  strict structs are records whose pointer fields are options and whose raw fields are raw
  messages.
\<close>

datatype obs_error =
    ObsDecode
  | ObsIncomplete
  | ObsMustBeObject
  | ObsMustBeString
  | ObsMustNotBeEmpty
  | ObsTextTooLong
  | ObsBackendNodeId
  | ObsPreviousSha
  | ObsKindRequired
  | ObsRoleIncomplete
  | ObsValueIncomplete
  | ObsNestedScoped
  | ObsScopedIncomplete
  | ObsUnsupportedKind string
  | ObsIn string obs_error
  | ObsInItem string nat obs_error

subsection \<open>Strict structs\<close>

record strictObservation =
  so_schema_version :: "string option"
  so_probe_id :: raw_message
  so_observation_id :: "string option"
  so_page_state :: raw_message
  so_elements :: "raw_message list option"
  so_relations :: "raw_message list option"
  so_artifact :: raw_message

definition dec_strictObservation :: "strictObservation decoder" where
  "dec_strictObservation = dec_struct_strict [
     (''schema_version'', fld (dec_ptr dec_string []) so_schema_version so_schema_version_update),
     (''probe_id'', fld dec_raw so_probe_id so_probe_id_update),
     (''observation_id'', fld (dec_ptr dec_string []) so_observation_id so_observation_id_update),
     (''page_state'', fld dec_raw so_page_state so_page_state_update),
     (''elements'', fld (dec_ptr (dec_list dec_raw None) []) so_elements so_elements_update),
     (''relations'', fld (dec_ptr (dec_list dec_raw None) []) so_relations so_relations_update),
     (''artifact'', fld dec_raw so_artifact so_artifact_update)]"

definition zero_strictObservation :: strictObservation where
  "zero_strictObservation = \<lparr>so_schema_version = None, so_probe_id = None,
     so_observation_id = None, so_page_state = None, so_elements = None, so_relations = None,
     so_artifact = None\<rparr>"

record strictPageState =
  sp_state_id :: "string option"
  sp_revision :: "int option"
  sp_url :: "string option"
  sp_title :: "string option"
  sp_state_sha256 :: "string option"
  sp_previous_state_sha256 :: raw_message

definition dec_strictPageState :: "strictPageState decoder" where
  "dec_strictPageState = dec_struct_strict [
     (''state_id'', fld (dec_ptr dec_string []) sp_state_id sp_state_id_update),
     (''revision'', fld (dec_ptr dec_int 0) sp_revision sp_revision_update),
     (''url'', fld (dec_ptr dec_string []) sp_url sp_url_update),
     (''title'', fld (dec_ptr dec_string []) sp_title sp_title_update),
     (''state_sha256'', fld (dec_ptr dec_string []) sp_state_sha256 sp_state_sha256_update),
     (''previous_state_sha256'', fld dec_raw sp_previous_state_sha256
        sp_previous_state_sha256_update)]"

definition zero_strictPageState :: strictPageState where
  "zero_strictPageState = \<lparr>sp_state_id = None, sp_revision = None, sp_url = None,
     sp_title = None, sp_state_sha256 = None, sp_previous_state_sha256 = None\<rparr>"

record strictElement =
  se_element_ref :: "string option"
  se_context_path :: raw_message
  se_a11y :: raw_message
  se_dom :: raw_message
  se_runtime :: raw_message
  se_locators :: "raw_message list option"

definition dec_strictElement :: "strictElement decoder" where
  "dec_strictElement = dec_struct_strict [
     (''element_ref'', fld (dec_ptr dec_string []) se_element_ref se_element_ref_update),
     (''context_path'', fld dec_raw se_context_path se_context_path_update),
     (''a11y'', fld dec_raw se_a11y se_a11y_update),
     (''dom'', fld dec_raw se_dom se_dom_update),
     (''runtime'', fld dec_raw se_runtime se_runtime_update),
     (''locators'', fld (dec_ptr (dec_list dec_raw None) []) se_locators se_locators_update)]"

definition zero_strictElement :: strictElement where
  "zero_strictElement = \<lparr>se_element_ref = None, se_context_path = None, se_a11y = None,
     se_dom = None, se_runtime = None, se_locators = None\<rparr>"

record strictContextPath =
  sc_frames :: "string list option"
  sc_shadow_hosts :: "string list option"

definition dec_strictContextPath :: "strictContextPath decoder" where
  "dec_strictContextPath = dec_struct_strict [
     (''frames'', fld (dec_ptr (dec_list dec_string []) []) sc_frames sc_frames_update),
     (''shadow_hosts'', fld (dec_ptr (dec_list dec_string []) []) sc_shadow_hosts
        sc_shadow_hosts_update)]"

record strictA11y =
  sa_role :: "string option"
  sa_name :: "string option"
  sa_description :: raw_message
  sa_value :: raw_message
  sa_states :: "(string \<times> raw_message) list option"
  sa_relations :: "(string \<times> raw_message) list option"

definition dec_strictA11y :: "strictA11y decoder" where
  "dec_strictA11y = dec_struct_strict [
     (''role'', fld (dec_ptr dec_string []) sa_role sa_role_update),
     (''name'', fld (dec_ptr dec_string []) sa_name sa_name_update),
     (''description'', fld dec_raw sa_description sa_description_update),
     (''value'', fld dec_raw sa_value sa_value_update),
     (''states'', fld (dec_ptr (dec_map dec_raw None) []) sa_states sa_states_update),
     (''relations'', fld (dec_ptr (dec_map dec_raw None) []) sa_relations sa_relations_update)]"

record strictDOM =
  sd_backend_node_id :: raw_message
  sd_tag :: "string option"
  sd_attrs :: "(string \<times> string) list option"
  sd_text :: "string option"

definition dec_strictDOM :: "strictDOM decoder" where
  "dec_strictDOM = dec_struct_strict [
     (''backend_node_id'', fld dec_raw sd_backend_node_id sd_backend_node_id_update),
     (''tag'', fld (dec_ptr dec_string []) sd_tag sd_tag_update),
     (''attrs'', fld (dec_ptr (dec_map dec_string []) []) sd_attrs sd_attrs_update),
     (''text'', fld (dec_ptr dec_string []) sd_text sd_text_update)]"

record strictRuntime =
  sr_connected :: "bool option"
  sr_visible :: "bool option"
  sr_enabled :: "bool option"
  sr_editable :: "bool option"

definition dec_strictRuntime :: "strictRuntime decoder" where
  "dec_strictRuntime = dec_struct_strict [
     (''connected'', fld (dec_ptr dec_bool False) sr_connected sr_connected_update),
     (''visible'', fld (dec_ptr dec_bool False) sr_visible sr_visible_update),
     (''enabled'', fld (dec_ptr dec_bool False) sr_enabled sr_enabled_update),
     (''editable'', fld (dec_ptr dec_bool False) sr_editable sr_editable_update)]"

record strictObservedLocator =
  sl_candidate_id :: raw_message
  sl_locator :: raw_message
  sl_provenance :: "string option"
  sl_observed_count :: "int option"

definition dec_strictObservedLocator :: "strictObservedLocator decoder" where
  "dec_strictObservedLocator = dec_struct_strict [
     (''candidate_id'', fld dec_raw sl_candidate_id sl_candidate_id_update),
     (''locator'', fld dec_raw sl_locator sl_locator_update),
     (''provenance'', fld (dec_ptr dec_string []) sl_provenance sl_provenance_update),
     (''observed_count'', fld (dec_ptr dec_int 0) sl_observed_count sl_observed_count_update)]"

record strictRoleLocator =
  srl_kind :: "string option"
  srl_role :: "string option"
  srl_name :: raw_message
  srl_exact :: "bool option"

definition dec_strictRoleLocator :: "strictRoleLocator decoder" where
  "dec_strictRoleLocator = dec_struct_strict [
     (''kind'', fld (dec_ptr dec_string []) srl_kind srl_kind_update),
     (''role'', fld (dec_ptr dec_string []) srl_role srl_role_update),
     (''name'', fld dec_raw srl_name srl_name_update),
     (''exact'', fld (dec_ptr dec_bool False) srl_exact srl_exact_update)]"

record strictValueLocator =
  svl_kind :: "string option"
  svl_value :: "string option"
  svl_exact :: "bool option"

definition dec_strictValueLocator :: "strictValueLocator decoder" where
  "dec_strictValueLocator = dec_struct_strict [
     (''kind'', fld (dec_ptr dec_string []) svl_kind svl_kind_update),
     (''value'', fld (dec_ptr dec_string []) svl_value svl_value_update),
     (''exact'', fld (dec_ptr dec_bool False) svl_exact svl_exact_update)]"

record strictScopedLocator =
  ssl_kind :: "string option"
  ssl_scope :: raw_message
  ssl_target :: raw_message

definition dec_strictScopedLocator :: "strictScopedLocator decoder" where
  "dec_strictScopedLocator = dec_struct_strict [
     (''kind'', fld (dec_ptr dec_string []) ssl_kind ssl_kind_update),
     (''scope'', fld dec_raw ssl_scope ssl_scope_update),
     (''target'', fld dec_raw ssl_target ssl_target_update)]"

record strictRelation =
  sn_kind :: "string option"
  sn_source :: "string option"
  sn_target :: "string option"

definition dec_strictRelation :: "strictRelation decoder" where
  "dec_strictRelation = dec_struct_strict [
     (''kind'', fld (dec_ptr dec_string []) sn_kind sn_kind_update),
     (''source'', fld (dec_ptr dec_string []) sn_source sn_source_update),
     (''target'', fld (dec_ptr dec_string []) sn_target sn_target_update)]"

record strictArtifact =
  sf_uri :: "string option"
  sf_sha256 :: "string option"
  sf_content_bytes :: "int option"

definition dec_strictArtifact :: "strictArtifact decoder" where
  "dec_strictArtifact = dec_struct_strict [
     (''uri'', fld (dec_ptr dec_string []) sf_uri sf_uri_update),
     (''sha256'', fld (dec_ptr dec_string []) sf_sha256 sf_sha256_update),
     (''content_bytes'', fld (dec_ptr dec_int 0) sf_content_bytes sf_content_bytes_update)]"

subsection \<open>Helpers\<close>

text \<open>\<open>decodeStrictJSON\<close>: one value, no unknown member, nothing after it.\<close>

definition decodeStrictJSON :: "'a decoder \<Rightarrow> 'a \<Rightarrow> raw_message \<Rightarrow> obs_error + 'a" where
  "decodeStrictJSON d zero raw =
     (case unmarshal d zero raw of None \<Rightarrow> Inl ObsDecode | Some v \<Rightarrow> Inr v)"

definition isJSONNull :: "raw_message \<Rightarrow> bool" where
  "isJSONNull raw \<longleftrightarrow> raw = Some JNull"

definition nonEmpty :: "string option \<Rightarrow> bool" where
  "nonEmpty v \<longleftrightarrow> (case v of None \<Rightarrow> False | Some s \<Rightarrow> \<not> blank s)"

definition validSHA256 :: "string \<Rightarrow> bool" where
  "validSHA256 v \<longleftrightarrow> length v = 64 \<and> list_all is_lower_hex v"

definition validateOptionalString :: "raw_message \<Rightarrow> obs_error option" where
  "validateOptionalString raw =
     (if raw = None \<or> isJSONNull raw then None
      else (case unmarshal dec_string [] raw of None \<Rightarrow> Some ObsMustBeString | Some _ \<Rightarrow> None))"

definition validateOptionalNonEmptyString :: "raw_message \<Rightarrow> obs_error option" where
  "validateOptionalNonEmptyString raw =
     (if raw = None \<or> isJSONNull raw then None
      else (case unmarshal dec_string [] raw of
          None \<Rightarrow> Some ObsMustBeString
        | Some v \<Rightarrow> if blank v then Some ObsMustNotBeEmpty else None))"

definition within :: "string \<Rightarrow> obs_error option \<Rightarrow> obs_error option" where
  "within path e = map_option (ObsIn path) e"

lemma within_None [simp]: "within p e = None \<longleftrightarrow> e = None"
  by (simp add: within_def)

subsection \<open>Locators\<close>

definition dec_kind_discriminator :: "string option decoder" where
  "dec_kind_discriminator = dec_struct [
     (''kind'', \<lambda>j cur. dec_ptr dec_string [] j cur)]"

function validateLocatorJSON :: "raw_message \<Rightarrow> bool \<Rightarrow> obs_error option" where
  "validateLocatorJSON raw allowScoped =
     (if isJSONNull raw then Some ObsMustBeObject
      else (case unmarshal dec_kind_discriminator None raw of
        None \<Rightarrow> Some ObsDecode
      | Some None \<Rightarrow> Some ObsKindRequired
      | Some (Some kind) \<Rightarrow>
        if kind = ''role'' then
          (case decodeStrictJSON dec_strictRoleLocator
              \<lparr>srl_kind = None, srl_role = None, srl_name = None, srl_exact = None\<rparr> raw of
             Inl e \<Rightarrow> Some e
           | Inr l \<Rightarrow>
             if \<not> nonEmpty (srl_role l) \<or> srl_exact l = None then Some ObsRoleIncomplete
             else validateOptionalString (srl_name l))
        else if kind \<in> set value_locator_kinds then
          (case decodeStrictJSON dec_strictValueLocator
              \<lparr>svl_kind = None, svl_value = None, svl_exact = None\<rparr> raw of
             Inl e \<Rightarrow> Some e
           | Inr l \<Rightarrow>
             if \<not> nonEmpty (svl_value l) \<or> svl_exact l = None then Some ObsValueIncomplete
             else None)
        else if kind = ''scoped'' then
          (if \<not> allowScoped then Some ObsNestedScoped
           else (case decodeStrictJSON dec_strictScopedLocator
                \<lparr>ssl_kind = None, ssl_scope = None, ssl_target = None\<rparr> raw of
               Inl e \<Rightarrow> Some e
             | Inr l \<Rightarrow>
               if ssl_scope l = None \<or> ssl_target l = None then Some ObsScopedIncomplete
               else (case validateLocatorJSON (ssl_scope l) False of
                   Some e \<Rightarrow> Some (ObsIn ''scope'' e)
                 | None \<Rightarrow> within ''target'' (validateLocatorJSON (ssl_target l) False))))
        else Some (ObsUnsupportedKind kind)))"
  by pat_completeness auto
termination
  by (relation "measure (\<lambda>(raw, allowScoped). if allowScoped then 1 else 0)") auto

declare validateLocatorJSON.simps [simp del]

definition validateObservedLocator :: "raw_message \<Rightarrow> obs_error option" where
  "validateObservedLocator raw =
     (if isJSONNull raw then Some ObsMustBeObject
      else (case decodeStrictJSON dec_strictObservedLocator
          \<lparr>sl_candidate_id = None, sl_locator = None, sl_provenance = None,
           sl_observed_count = None\<rparr> raw of
        Inl e \<Rightarrow> Some e
      | Inr c \<Rightarrow>
        (case within ''candidate_id'' (validateOptionalNonEmptyString (sl_candidate_id c)) of
           Some e \<Rightarrow> Some e
         | None \<Rightarrow>
           if sl_locator c = None \<or> \<not> nonEmpty (sl_provenance c) \<or>
              (case sl_observed_count c of None \<Rightarrow> True | Some n \<Rightarrow> n < 0)
           then Some ObsIncomplete
           else within ''locator'' (validateLocatorJSON (sl_locator c) True))))"

subsection \<open>Elements\<close>

definition validateContextPath :: "raw_message \<Rightarrow> obs_error option" where
  "validateContextPath raw =
     (if isJSONNull raw then Some ObsMustBeObject
      else (case decodeStrictJSON dec_strictContextPath
          \<lparr>sc_frames = None, sc_shadow_hosts = None\<rparr> raw of
        Inl e \<Rightarrow> Some e
      | Inr p \<Rightarrow> if sc_frames p = None \<or> sc_shadow_hosts p = None then Some ObsIncomplete
          else None))"

definition validateA11y :: "raw_message \<Rightarrow> obs_error option" where
  "validateA11y raw =
     (case decodeStrictJSON dec_strictA11y
        \<lparr>sa_role = None, sa_name = None, sa_description = None, sa_value = None,
         sa_states = None, sa_relations = None\<rparr> raw of
        Inl e \<Rightarrow> Some e
      | Inr f \<Rightarrow>
        if sa_role f = None \<or> sa_name f = None \<or> sa_states f = None \<or> sa_relations f = None
        then Some ObsIncomplete
        else within ''description'' (validateOptionalString (sa_description f)))"

definition validateDOM :: "raw_message \<Rightarrow> obs_error option" where
  "validateDOM raw =
     (case decodeStrictJSON dec_strictDOM
        \<lparr>sd_backend_node_id = None, sd_tag = None, sd_attrs = None, sd_text = None\<rparr> raw of
        Inl e \<Rightarrow> Some e
      | Inr f \<Rightarrow>
        (case (sd_tag f, sd_attrs f, sd_text f) of
           (Some _, Some _, Some text) \<Rightarrow>
             if 256 < RuneCount text then Some ObsTextTooLong
             else if sd_backend_node_id f \<noteq> None \<and> \<not> isJSONNull (sd_backend_node_id f) then
               (case unmarshal dec_int 0 (sd_backend_node_id f) of
                  None \<Rightarrow> Some ObsBackendNodeId | Some _ \<Rightarrow> None)
             else None
         | _ \<Rightarrow> Some ObsIncomplete))"

definition validateRuntime :: "raw_message \<Rightarrow> obs_error option" where
  "validateRuntime raw =
     (if isJSONNull raw then Some ObsMustBeObject
      else (case decodeStrictJSON dec_strictRuntime
          \<lparr>sr_connected = None, sr_visible = None, sr_enabled = None, sr_editable = None\<rparr> raw of
        Inl e \<Rightarrow> Some e
      | Inr r \<Rightarrow>
        if sr_connected r = None \<or> sr_visible r = None \<or> sr_enabled r = None \<or>
           sr_editable r = None
        then Some ObsIncomplete else None))"

definition validateObservationElement :: "raw_message \<Rightarrow> obs_error option" where
  "validateObservationElement raw =
     (if isJSONNull raw then Some ObsMustBeObject
      else (case decodeStrictJSON dec_strictElement zero_strictElement raw of
        Inl e \<Rightarrow> Some e
      | Inr el \<Rightarrow>
        if \<not> nonEmpty (se_element_ref el) \<or> se_context_path el = None \<or> se_a11y el = None \<or>
           se_dom el = None \<or> se_runtime el = None
        then Some ObsIncomplete
        else (case se_locators el of
          None \<Rightarrow> Some ObsIncomplete
        | Some locators \<Rightarrow>
          (case within ''context_path'' (validateContextPath (se_context_path el)) of
             Some e \<Rightarrow> Some e
           | None \<Rightarrow>
          (case (if isJSONNull (se_a11y el) then None
                 else within ''a11y'' (validateA11y (se_a11y el))) of
             Some e \<Rightarrow> Some e
           | None \<Rightarrow>
          (case (if isJSONNull (se_dom el) then None
                 else within ''dom'' (validateDOM (se_dom el))) of
             Some e \<Rightarrow> Some e
           | None \<Rightarrow>
          (case within ''runtime'' (validateRuntime (se_runtime el)) of
             Some e \<Rightarrow> Some e
           | None \<Rightarrow>
             first_error_from
               (\<lambda>i l. map_option (ObsInItem ''locators'' i) (validateObservedLocator l))
               0 locators)))))))"

subsection \<open>The observation\<close>

definition validatePageState :: "raw_message \<Rightarrow> obs_error option" where
  "validatePageState raw =
     (if isJSONNull raw then Some ObsMustBeObject
      else (case decodeStrictJSON dec_strictPageState zero_strictPageState raw of
        Inl e \<Rightarrow> Some e
      | Inr p \<Rightarrow>
        if \<not> nonEmpty (sp_state_id p) \<or>
           (case sp_revision p of None \<Rightarrow> True | Some n \<Rightarrow> n < 1) \<or>
           sp_url p = None \<or> sp_title p = None \<or>
           (case sp_state_sha256 p of None \<Rightarrow> True | Some s \<Rightarrow> \<not> validSHA256 s)
        then Some ObsIncomplete
        else if sp_previous_state_sha256 p \<noteq> None \<and> \<not> isJSONNull (sp_previous_state_sha256 p)
        then (case unmarshal dec_string [] (sp_previous_state_sha256 p) of
            None \<Rightarrow> Some ObsPreviousSha
          | Some s \<Rightarrow> if validSHA256 s then None else Some ObsPreviousSha)
        else None))"

definition validateObservationRelation :: "raw_message \<Rightarrow> obs_error option" where
  "validateObservationRelation raw =
     (if isJSONNull raw then Some ObsMustBeObject
      else (case decodeStrictJSON dec_strictRelation
          \<lparr>sn_kind = None, sn_source = None, sn_target = None\<rparr> raw of
        Inl e \<Rightarrow> Some e
      | Inr r \<Rightarrow>
        if \<not> nonEmpty (sn_kind r) \<or> \<not> nonEmpty (sn_source r) \<or> \<not> nonEmpty (sn_target r)
        then Some ObsIncomplete else None))"

definition validateObservationArtifact :: "raw_message \<Rightarrow> obs_error option" where
  "validateObservationArtifact raw =
     (case decodeStrictJSON dec_strictArtifact
        \<lparr>sf_uri = None, sf_sha256 = None, sf_content_bytes = None\<rparr> raw of
        Inl e \<Rightarrow> Some e
      | Inr a \<Rightarrow>
        if \<not> nonEmpty (sf_uri a) \<or>
           (case sf_sha256 a of None \<Rightarrow> True | Some s \<Rightarrow> \<not> validSHA256 s) \<or>
           (case sf_content_bytes a of None \<Rightarrow> True | Some n \<Rightarrow> n < 0)
        then Some ObsIncomplete else None)"

definition validateObservationJSON :: "raw_message \<Rightarrow> obs_error option" where
  "validateObservationJSON raw =
     (case decodeStrictJSON dec_strictObservation zero_strictObservation raw of
        Inl e \<Rightarrow> Some (ObsIn ''browser observation'' e)
      | Inr ob \<Rightarrow>
        if so_schema_version ob \<noteq> Some ObservationSchemaVersion \<or>
           \<not> nonEmpty (so_observation_id ob) \<or> so_page_state ob = None
        then Some ObsIncomplete
        else (case (so_elements ob, so_relations ob) of
          (Some elements, Some relations) \<Rightarrow>
            (case within ''probe_id'' (validateOptionalNonEmptyString (so_probe_id ob)) of
               Some e \<Rightarrow> Some e
             | None \<Rightarrow>
            (case within ''page_state'' (validatePageState (so_page_state ob)) of
               Some e \<Rightarrow> Some e
             | None \<Rightarrow>
            (case first_error_from (\<lambda>i x. map_option (ObsInItem ''elements'' i)
                (validateObservationElement x)) 0 elements of
               Some e \<Rightarrow> Some e
             | None \<Rightarrow>
            (case first_error_from (\<lambda>i x. map_option (ObsInItem ''relations'' i)
                (validateObservationRelation x)) 0 relations of
               Some e \<Rightarrow> Some e
             | None \<Rightarrow>
               if so_artifact ob \<noteq> None \<and> \<not> isJSONNull (so_artifact ob)
               then within ''artifact'' (validateObservationArtifact (so_artifact ob))
               else None))))
        | _ \<Rightarrow> Some ObsIncomplete))"

record BrowserObservation =
  bo_schema_version :: string
  bo_probe_id :: string
  bo_observation_id :: string
  bo_page_state :: raw_message
  bo_elements :: raw_message
  bo_relations :: raw_message
  bo_artifact :: raw_message

definition dec_BrowserObservation :: "BrowserObservation decoder" where
  "dec_BrowserObservation = dec_struct [
     (''schema_version'', fld dec_string bo_schema_version bo_schema_version_update),
     (''probe_id'', fld dec_string bo_probe_id bo_probe_id_update),
     (''observation_id'', fld dec_string bo_observation_id bo_observation_id_update),
     (''page_state'', fld dec_raw bo_page_state bo_page_state_update),
     (''elements'', fld dec_raw bo_elements bo_elements_update),
     (''relations'', fld dec_raw bo_relations bo_relations_update),
     (''artifact'', fld dec_raw bo_artifact bo_artifact_update)]"

definition zero_BrowserObservation :: BrowserObservation where
  "zero_BrowserObservation = \<lparr>bo_schema_version = [], bo_probe_id = [], bo_observation_id = [],
     bo_page_state = None, bo_elements = None, bo_relations = None, bo_artifact = None\<rparr>"

definition DecodeObservation :: "raw_message \<Rightarrow> obs_error + BrowserObservation" where
  "DecodeObservation raw =
     (case validateObservationJSON raw of
        Some e \<Rightarrow> Inl e
      | None \<Rightarrow>
        (case unmarshal dec_BrowserObservation zero_BrowserObservation raw of
           None \<Rightarrow> Inl ObsDecode
         | Some ob \<Rightarrow>
           if bo_schema_version ob \<noteq> ObservationSchemaVersion \<or> blank (bo_observation_id ob) \<or>
              bo_page_state ob = None \<or> bo_elements ob = None \<or> bo_relations ob = None
           then Inl ObsIncomplete else Inr ob))"

end
