(* ===== verification/ContractProperties.thy ===== *)
theory ContractProperties
  imports ObservationValidation
begin

section \<open>Properties of the browser contract (internal/browsercontract)\<close>

text \<open>
  What the rest of the control plane relies on: the shape of valid locators, when a target
  binding can be sealed and that sealing is stable, what a valid binding promises about the
  selected candidate, and that candidates survive their way through JSON.
\<close>

subsection \<open>The shape of valid locators\<close>

definition simple_locator :: "LocatorSpec \<Rightarrow> bool" where
  "simple_locator l \<longleftrightarrow> ls_scope l = None \<and> ls_target l = None \<and>
     (if ls_kind l = ''role'' then \<not> blank (ls_role l) \<and> ls_value l = []
      else ls_kind l \<in> set value_locator_kinds \<and> \<not> blank (ls_value l) \<and>
        ls_role l = [] \<and> ls_name l = None)"

definition scoped_locator :: "LocatorSpec \<Rightarrow> bool" where
  "scoped_locator l \<longleftrightarrow> ls_kind l = ''scoped'' \<and>
     pred_option simple_locator (ls_scope l) \<and> pred_option simple_locator (ls_target l) \<and>
     ls_scope l \<noteq> None \<and> ls_target l \<noteq> None"

lemma locator_kinds [simp]:
  "''role'' \<notin> set value_locator_kinds" "''scoped'' \<notin> set value_locator_kinds"
  by (simp_all add: value_locator_kinds_def)

lemma LocatorSpec_Validate_unscoped:
  assumes "ls_kind l \<noteq> ''scoped''"
  shows "LocatorSpec_Validate l = None \<longleftrightarrow> simple_locator l"
  using assms by (cases l) (simp add: simple_locator_def)

lemma simple_locator_unscoped: "simple_locator l \<Longrightarrow> ls_kind l \<noteq> ''scoped''"
  by (auto simp: simple_locator_def split: if_split_asm)

lemma LocatorSpec_Validate_pair:
  "LocatorSpec_Validate (LocatorSpec ''scoped'' role name val exact (Some sc) (Some tg)) = None \<longleftrightarrow>
   simple_locator sc \<and> simple_locator tg"
proof (cases "ls_kind sc = ''scoped'' \<or> ls_kind tg = ''scoped''")
  case True
  then have "\<not> (simple_locator sc \<and> simple_locator tg)"
    using simple_locator_unscoped by blast
  with True show ?thesis by simp
next
  case False
  then show ?thesis
    using LocatorSpec_Validate_unscoped [of sc] LocatorSpec_Validate_unscoped [of tg]
    by (auto split: option.split)
qed

lemma LocatorSpec_Validate_scoped:
  assumes "ls_kind l = ''scoped''"
  shows "LocatorSpec_Validate l = None \<longleftrightarrow> scoped_locator l"
proof (cases "ls_scope l = None \<or> ls_target l = None")
  case True
  then show ?thesis
    using assms by (cases l) (auto simp: scoped_locator_def split: option.split)
next
  case False
  then obtain role name val exact sc tg
    where "l = LocatorSpec ''scoped'' role name val exact (Some sc) (Some tg)"
    using assms by (cases l) auto
  then show ?thesis
    using LocatorSpec_Validate_pair by (simp add: scoped_locator_def del: LocatorSpec_Validate.simps)
qed

text \<open>
  The recursive validation of a locator accepts exactly two shapes: a simple locator, which
  carries the one text its kind needs and no foreign field, and a scoped locator whose scope
  and target are both simple. So no accepted locator nests deeper than once.
\<close>

theorem LocatorSpec_Validate_shapes:
  "LocatorSpec_Validate l = None \<longleftrightarrow> simple_locator l \<or> scoped_locator l"
  using LocatorSpec_Validate_unscoped [of l] LocatorSpec_Validate_scoped [of l]
    simple_locator_unscoped [of l]
  by (auto simp: scoped_locator_def)

subsection \<open>Sealing a target binding\<close>

lemma filter_key_unique:
  assumes "distinct (map key xs)" and "x \<in> set xs"
  shows "filter (\<lambda>y. key y = key x) xs = [x]"
  using assms
proof (induction xs)
  case Nil
  then show ?case by simp
next
  case (Cons y ys)
  then show ?case
    by (cases "x = y") (auto simp: filter_empty_conv image_iff)
qed

text \<open>
  \<open>NewTargetBinding\<close> succeeds exactly on the bindings whose content is in order (identity
  of plan and step, a page state, distinct elements and candidates, one selectable candidate),
  whatever id, hash and schema version they carried before, and then returns the sealed
  binding: the only change to the content is that missing context paths become empty lists.
\<close>

theorem NewTargetBinding_succeeds_iff:
  "NewTargetBinding b = Inr b' \<longleftrightarrow> binding_content_ok b \<and> b' = seal_binding b"
  by (rule NewTargetBinding_Inr_iff)

text \<open>
  Sealing is stable: sealing a sealed binding again succeeds and returns it unchanged, with
  the same binding id and hash.
\<close>

theorem NewTargetBinding_idempotent:
  assumes "NewTargetBinding b = Inr b'"
  shows "NewTargetBinding b' = Inr b'"
  using assms by (auto simp: NewTargetBinding_Inr_iff seal_binding_idem)

text \<open>
  A binding that passes \<open>Validate\<close> selects exactly one of its candidates; this candidate
  belongs to an element of the binding, was observed exactly once, is visible, and is enabled
  when the action is a click or an input; and the hash of the binding covers its content.
\<close>

theorem valid_binding_selects_one:
  assumes "TargetBinding_Validate b = None"
  shows "(\<exists>c. filter (\<lambda>c. lc_candidate_id c = tb_selected_candidate_id b) (tb_candidates b) = [c] \<and>
      lc_element_ref c \<in> set (tb_element_refs b) \<and> lc_observed_count c = 1 \<and> lc_visible c \<and>
      (tb_action b \<in> {''click'', ''input''} \<longrightarrow> lc_enabled c) \<and>
      LocatorSpec_Validate (lc_locator c) = None) \<and>
    CalculateSHA256 b = tb_binding_sha256 b"
proof -
  have content: "binding_content_ok b" and sha: "CalculateSHA256 b = tb_binding_sha256 b"
    using assms by (simp_all add: TargetBinding_Validate_iff)
  then obtain c where c: "c \<in> set (tb_candidates b)"
      "lc_candidate_id c = tb_selected_candidate_id b" "selectable b c"
    and dist: "distinct (map lc_candidate_id (tb_candidates b))" and ok: "candidate_ok b c"
    by (auto simp: binding_content_ok_def)
  have "filter (\<lambda>x. lc_candidate_id x = lc_candidate_id c) (tb_candidates b) = [c]"
    by (rule filter_key_unique [OF dist c(1)])
  then show ?thesis
    using c ok sha by (auto simp: candidate_ok_def selectable_def)
qed

subsection \<open>Candidates as JSON\<close>

text \<open>
  A locator candidate survives its way through JSON: decoding its encoding gives it back,
  with its nested locator, its context path (a missing slice stays missing, an empty one
  stays empty), its count and its score.
\<close>

theorem LocatorCandidate_roundtrip:
  assumes "in_int64 (lc_observed_count c)" and "f64_norm (lc_score c)"
  shows "dec_LocatorCandidate (enc_LocatorCandidate c) zero_LocatorCandidate = Some c"
  by (rule dec_enc_LocatorCandidate [OF assms])

subsection \<open>Witnesses\<close>

definition sample_candidate :: LocatorCandidate where
  "sample_candidate = \<lparr>lc_candidate_id = ''c1'', lc_element_ref = ''e1'',
     lc_context_path = \<lparr>cp_frames = None, cp_shadow_hosts = Some []\<rparr>,
     lc_locator = LocatorSpec ''scoped'' [] None [] True
       (Some (LocatorSpec ''role'' ''form'' (Some ''Login'') [] False None None))
       (Some (LocatorSpec ''css'' [] None ''#go'' False None None)),
     lc_provenance = ''dom'', lc_observed_count = 1, lc_visible = True, lc_enabled = True,
     lc_score = (95, 2)\<rparr>"

definition sample_target_binding :: TargetBinding where
  "sample_target_binding = \<lparr>tb_schema_version = [], tb_binding_id = [], tb_plan_id = ''plan_1'',
     tb_plan_version = 1, tb_plan_step_id = ''s1'', tb_probe_id = [], tb_semantic_target = ''Login'',
     tb_action = ''click'', tb_page_state_id = ''ps1'', tb_observation_id = ''o1'',
     tb_observation_sha256 = replicate 64 (CHR ''a''), tb_element_refs = [''e1''],
     tb_candidates = [sample_candidate], tb_selected_candidate_id = ''c1'', tb_binding_sha256 = []\<rparr>"

lemma sample_content: "binding_content_ok sample_target_binding"
  by (simp add: binding_content_ok_def sample_target_binding_def sample_candidate_def
    candidate_ok_def selectable_def score_out_of_range_def slice_nonempty_def
    value_locator_kinds_def blank_iff is_space_def f64_less_def)

lemma sample_sealed: "NewTargetBinding sample_target_binding = Inr (seal_binding sample_target_binding)"
  using sample_content by (simp add: NewTargetBinding_Inr_iff)

theorem NewTargetBinding_idempotent_witness:
  "NewTargetBinding (seal_binding sample_target_binding) = Inr (seal_binding sample_target_binding)"
  by (rule NewTargetBinding_idempotent [OF sample_sealed])

theorem valid_binding_selects_one_witness:
  "(\<exists>c. filter (\<lambda>c. lc_candidate_id c = tb_selected_candidate_id (seal_binding sample_target_binding))
        (tb_candidates (seal_binding sample_target_binding)) = [c] \<and>
      lc_element_ref c \<in> set (tb_element_refs (seal_binding sample_target_binding)) \<and>
      lc_observed_count c = 1 \<and> lc_visible c) \<and>
    CalculateSHA256 (seal_binding sample_target_binding) =
      tb_binding_sha256 (seal_binding sample_target_binding)"
proof -
  have "TargetBinding_Validate (seal_binding sample_target_binding) = None"
    using sample_content by (simp only: Validate_seal_iff)
  from valid_binding_selects_one [OF this] show ?thesis by blast
qed

theorem LocatorCandidate_roundtrip_witness:
  "dec_LocatorCandidate (enc_LocatorCandidate sample_candidate) zero_LocatorCandidate =
   Some sample_candidate"
  by (rule LocatorCandidate_roundtrip)
    (simp_all add: sample_candidate_def in_int64_def f64_norm_def)

end
