(* ===== verification/GoTime.thy ===== *)
theory GoTime
  imports GoStrings
begin

section \<open>time.Time\<close>

text \<open>
  A \<open>time.Time\<close> in UTC is the number of nanoseconds since the Unix epoch. Only one layout is
  printed by the modelled code, \<open>time.RFC3339Nano\<close> (inside \<open>planID\<close>): the fraction without
  its trailing zeros, the zone as \<open>Z\<close>.
\<close>

type_synonym go_time = int

definition seconds :: "int \<Rightarrow> int" where
  "seconds n = n * 1000000000"

definition pad_digits :: "nat \<Rightarrow> int \<Rightarrow> string" where
  "pad_digits w n = (let s = itoa n in replicate (w - length s) (CHR ''0'') @ s)"

text \<open>The proleptic Gregorian date of a day number (day 0 is 1970-01-01), by 400-year eras.\<close>

definition civil_date :: "int \<Rightarrow> int \<times> int \<times> int" where
  "civil_date day =
     (let z = day + 719468;
          era = z div 146097;
          doe = z mod 146097;
          yoe = (doe - doe div 1460 + doe div 36524 - doe div 146096) div 365;
          doy = doe - (365 * yoe + yoe div 4 - yoe div 100);
          mp = (5 * doy + 2) div 153;
          d = doy - (153 * mp + 2) div 5 + 1;
          m = (if mp < 10 then mp + 3 else mp - 9);
          y = yoe + era * 400 + (if m \<le> 2 then 1 else 0)
      in (y, m, d))"

definition trim_zeros :: "string \<Rightarrow> string" where
  "trim_zeros s = rev (dropWhile (\<lambda>c. c = CHR ''0'') (rev s))"

definition FormatRFC3339Nano :: "go_time \<Rightarrow> string" where
  "FormatRFC3339Nano t =
     (let sec = t div 1000000000; ns = t mod 1000000000;
          day = sec div 86400; sod = sec mod 86400;
          frac = trim_zeros (pad_digits 9 ns)
      in (case civil_date day of (y, m, d) \<Rightarrow>
        pad_digits 4 y @ ''-'' @ pad_digits 2 m @ ''-'' @ pad_digits 2 d @ ''T'' @
        pad_digits 2 (sod div 3600) @ '':'' @ pad_digits 2 (sod mod 3600 div 60) @ '':'' @
        pad_digits 2 (sod mod 60) @ (if frac = [] then [] else ''.'' @ frac) @ ''Z''))"

end
