(* ===== verification/PlanTypes.thy ===== *)
theory PlanTypes
  imports BrowserContract GoTime
begin

section \<open>Task plans: data (internal/taskplan/types.go)\<close>

text \<open>
  The record types of package taskplan, their JSON forms and the errors of the package.
  \<open>clonePlan\<close>, which copies a plan through JSON so that a repository never shares memory
  with its callers, is the identity on these immutable values.
\<close>

definition SchemaVersion :: string where
  "SchemaVersion = ''agent.task_plan.v2''"

datatype Status =
    StatusGrounding | StatusReadyForGeneration | StatusAwaitingApproval | StatusApproved
  | StatusExecuting | StatusCompleted | StatusFailed | StatusBlocked | StatusSuperseded

datatype StepStatus = StepPending | StepGrounded | StepFailed | StepBlocked

text \<open>\<open>SideEffect\<close> stays a string, because requests carry it unchecked.\<close>

type_synonym SideEffect = string

definition SideEffectNone :: SideEffect where "SideEffectNone = ''none''"
definition SideEffectBrowserState :: SideEffect where "SideEffectBrowserState = ''browser_state''"
definition SideEffectExternal :: SideEffect where "SideEffectExternal = ''external_state''"
definition SideEffectUnknown :: SideEffect where "SideEffectUnknown = ''unknown''"

lemmas SideEffect_defs =
  SideEffectNone_def SideEffectBrowserState_def SideEffectExternal_def SideEffectUnknown_def

record Binding =
  bd_plan_id :: string
  bd_version :: int
  bd_sha256 :: string

record EvidenceRef =
  er_tool :: string
  er_event_seq :: int
  er_content_sha256 :: string

record Step =
  st_id :: string
  st_position :: int
  st_intent :: string
  st_action :: string
  st_target :: string
  st_value :: string
  st_trigger :: string
  st_context_key :: string
  st_timeout_ms :: int
  st_expected_occurrences :: int
  st_idempotency :: string
  st_side_effect :: SideEffect
  st_preconditions :: "string list"
  st_completion_conditions :: "string list"
  st_status :: StepStatus
  st_grounding_attempts :: int
  st_evidence :: "EvidenceRef list"
  st_target_binding :: "TargetBinding option"

record Plan =
  pl_id :: string
  pl_schema_version :: string
  pl_run_id :: string
  pl_actor_user_id :: int
  pl_project_id :: int
  pl_version :: int
  pl_goal :: string
  pl_status :: Status
  pl_plan_sha256 :: string
  pl_max_side_effect :: SideEffect
  pl_forbidden_actions :: "string list option"
  pl_steps :: "Step list"
  pl_bound_generation_id :: "int option"
  pl_created_at :: go_time
  pl_updated_at :: go_time

definition Plan_Binding :: "Plan \<Rightarrow> Binding" where
  "Plan_Binding p =
     \<lparr>bd_plan_id = pl_id p, bd_version = pl_version p, bd_sha256 = pl_plan_sha256 p\<rparr>"

definition clonePlan :: "Plan \<Rightarrow> Plan" where
  "clonePlan plan = plan"

subsection \<open>Definitions of plans\<close>

record StepDefinition =
  sdf_id :: string
  sdf_intent :: string
  sdf_action :: string
  sdf_target :: string
  sdf_value :: string
  sdf_trigger :: string
  sdf_context_key :: string
  sdf_timeout_ms :: int
  sdf_expected_occurrences :: int
  sdf_idempotency :: string
  sdf_side_effect :: SideEffect
  sdf_preconditions :: "string list"
  sdf_completion_conditions :: "string list"

record Definition =
  df_goal :: string
  df_max_side_effect :: SideEffect
  df_forbidden_actions :: "string list option"
  df_steps :: "StepDefinition list"

record CreateRequest =
  rq_run_id :: string
  rq_actor_user_id :: int
  rq_project_id :: int
  rq_definition :: Definition

record ResolvedCandidateAuthorization =
  ra_plan_step_id :: string
  ra_action :: string
  ra_candidate :: TrustedResolvedCandidate

definition enc_StepDefinition :: "StepDefinition \<Rightarrow> json" where
  "enc_StepDefinition s = JObj (
     [(''id'', JStr (sdf_id s)), (''intent'', JStr (sdf_intent s)),
      (''action'', JStr (sdf_action s))] @
     omit_empty_string ''target'' (sdf_target s) @
     omit_empty_string ''value'' (sdf_value s) @
     omit_empty_string ''trigger'' (sdf_trigger s) @
     omit_empty_string ''context_key'' (sdf_context_key s) @
     omit_zero_int ''timeout_ms'' (sdf_timeout_ms s) @
     [(''expected_occurrences'', JInt (sdf_expected_occurrences s)),
      (''idempotency'', JStr (sdf_idempotency s)),
      (''side_effect'', JStr (sdf_side_effect s)),
      (''preconditions'', enc_strings (sdf_preconditions s)),
      (''completion_conditions'', enc_strings (sdf_completion_conditions s))])"

definition enc_Definition :: "Definition \<Rightarrow> json" where
  "enc_Definition d = JObj [
     (''goal'', JStr (df_goal d)),
     (''max_side_effect'', JStr (df_max_side_effect d)),
     (''forbidden_actions'', enc_slice JStr (df_forbidden_actions d)),
     (''steps'', JArr (map enc_StepDefinition (df_steps d)))]"

definition enc_Binding :: "Binding \<Rightarrow> json" where
  "enc_Binding b = JObj [
     (''plan_id'', JStr (bd_plan_id b)), (''version'', JInt (bd_version b)),
     (''sha256'', JStr (bd_sha256 b))]"

definition dec_Binding :: "Binding decoder" where
  "dec_Binding = dec_struct [
     (''plan_id'', fld dec_string bd_plan_id bd_plan_id_update),
     (''version'', fld dec_int bd_version bd_version_update),
     (''sha256'', fld dec_string bd_sha256 bd_sha256_update)]"

definition zero_Binding :: Binding where
  "zero_Binding = \<lparr>bd_plan_id = [], bd_version = 0, bd_sha256 = []\<rparr>"

lemma dec_enc_Binding:
  "in_int64 (bd_version b) \<Longrightarrow> dec_Binding (enc_Binding b) zero_Binding = Some b"
  by (cases b) (simp add: dec_Binding_def enc_Binding_def dec_object_def zero_Binding_def
    go_string_simps fld_def dec_string_def dec_int_def)

subsection \<open>Errors\<close>

datatype plan_error =
    PlanNotFound
  | RepositoryFailure string           \<comment> \<open>any other error of a repository\<close>
  | RunIdRequired
  | GoalRequired
  | MaxSideEffectInvalid
  | NoSteps
  | ForbiddenEmpty
  | ForbiddenDuplicate string
  | StepBadId nat
  | StepBadSemantics string
  | StepExceedsMaxSideEffect string
  | StepBadOccurrence string
  | StepBadParameters string string   \<comment> \<open>step id, what the action requires\<close>
  | StepForbidden string
  | RevisionNotAllowed Status
  | PlanRequiredBefore string plan_error
  | ToolRequiresStatus string Status
  | ExecuteRequiresApproval
  | GenerationMismatch
  | ProbeRequiresGrounding string Status
  | PlanStepIdsRequired
  | AllStepsGrounded
  | ExpectedNextStep string string
  | WindowTooLong
  | WindowNotContiguous string string
  | FlowArgumentsInvalid
  | FlowLocatorOrRef
  | FlowSchemaVersion string
  | FlowRefRequiresStep
  | FlowRefInvalid contract_error
  | FlowForbidden
  | FlowRequiresStep string
  | FlowUnknownStep string
  | FlowActionMismatch string string
  | FlowValueMismatch string string
  | FlowSideEffect string SideEffect
  | FlowOutsideWindow string
  | CandidatesRequireGrounding Status
  | CandidateInvalid nat contract_error
  | CandidateUnknownStep string
  | CandidateActionMismatch string string
  | CandidateForbidden string
  | CandidateOccurrences string
  | StepDisappeared string
  | ResultNoGeneration
  | ResultNoStatus
  | ResultNoStrategy
  | ApprovalMismatch
  | BindingMismatch
  | StatusForbidsBinding Status
  | GenerateArgumentsInvalid
  | CaseNotPreserving
  | CaseStepCount nat int
  | CaseStepMismatch nat string
  | CaseStepForbidden nat
  | CaseIndexOutOfRange nat            \<comment> \<open>a Go panic: index out of range\<close>
  | StatusForbidsCompilation Status
  | DraftNotObject
  | DraftNotResearchV2
  | DraftStepsNotArray
  | DraftStepNotObject nat
  | DraftInvalid
  | DraftFieldMismatch nat string string
  | DraftNoIntent nat string
  | DraftCompilerOwned nat string
  | DraftNoBinding string
  | DraftBindingInvalid string contract_error
  | DraftBindingIdMismatch nat string
  | ConditionsDropped nat string
  | CompletionsDropped nat string
  | ConditionNotPreserved nat string string
  | CompletionNotPreserved nat string string
  | InCompiled plan_error             \<comment> \<open>the same complaint about a compiled step\<close>
  | CompiledMismatch
  | CompiledStepCount
  | CompiledBindingInvalid nat

end
