(* ===== verification/PlanDefinition.thy ===== *)
theory PlanDefinition
  imports PlanTypes
begin

section \<open>Plan definitions and their carry-over (internal/taskplan/service.go)\<close>

text \<open>
  \<open>validateDefinition\<close> turns a submitted definition into its canonical form or rejects it;
  \<open>semanticHash\<close> and \<open>planID\<close> name the result; \<open>carryForwardGrounding\<close> and
  \<open>rebindCarriedTargetBindings\<close> move the grounding of unchanged steps to the next version of
  a plan. \<open>canonical_definition\<close> states declaratively what a validated definition is; the
  lemmas show that the canonical definitions are exactly the results and the fixed points of
  \<open>validateDefinition\<close>, and what carrying over keeps.
\<close>

subsection \<open>Vocabulary of steps\<close>

text \<open>\<open>normalize\<close>: trimmed, with single spaces between the words, in lower case.\<close>

abbreviation normalize :: "string \<Rightarrow> string" where
  "normalize \<equiv> lower_words"

definition slice_items :: "'a list option \<Rightarrow> 'a list" where
  "slice_items xs = (case xs of None \<Rightarrow> [] | Some ys \<Rightarrow> ys)"

lemma slice_items_simps [simp]: "slice_items None = []" "slice_items (Some xs) = xs"
  by (simp_all add: slice_items_def)

definition step_id_char :: "char \<Rightarrow> bool" where
  "step_id_char c \<longleftrightarrow> is_alpha c \<or> is_digit c \<or> c = CHR ''_'' \<or> c = CHR ''-''"

definition stepIDPattern :: "string \<Rightarrow> bool" where
  "stepIDPattern s \<longleftrightarrow>
     s \<noteq> [] \<and> is_alpha (hd s) \<and> list_all step_id_char (tl s) \<and> length (tl s) \<le> 63"

definition validAction :: "string \<Rightarrow> bool" where
  "validAction value \<longleftrightarrow> value \<in> {''goto'', ''click'', ''input'', ''wait_for'',
     ''assert_text'', ''assert_url_contains'', ''capture_text''}"

definition sideEffectRank :: "SideEffect \<Rightarrow> int" where
  "sideEffectRank value =
     (if value = SideEffectNone then 0
      else if value = SideEffectBrowserState then 1
      else if value = SideEffectExternal then 2
      else if value = SideEffectUnknown then 3
      else -1)"

definition validSideEffect :: "SideEffect \<Rightarrow> bool" where
  "validSideEffect value \<longleftrightarrow> sideEffectRank value \<ge> 0"

definition cleanStrings :: "string list \<Rightarrow> string list" where
  "cleanStrings values = filter (\<lambda>v. v \<noteq> []) (map TrimSpace values)"

definition forbidden :: "string list \<Rightarrow> string \<Rightarrow> bool" where
  "forbidden rules value = list_ex (Contains (normalize value)) rules"

text \<open>
  What an action demands of its parameters. \<open>goto\<close> and \<open>input\<close> change the state of the browser
  and can be repeated, the waiting, asserting and capturing actions change nothing; \<open>click\<close> is
  free.
\<close>

definition validateActionParameters :: "StepDefinition \<Rightarrow> string option" where
  "validateActionParameters step =
     (let action = sdf_action step;
          repeatable = (\<lambda>effect. sdf_idempotency step = ''idempotent'' \<and> sdf_side_effect step = effect);
          timeout = (if sdf_timeout_ms step < 0
            then Some ''timeout_ms must not be negative'' else None)
      in
      if action = ''goto'' then
        (if sdf_value step = [] then Some ''goto requires value''
         else if \<not> repeatable SideEffectBrowserState
         then Some ''goto must be idempotent with browser_state side effect''
         else timeout)
      else if action = ''click'' then
        (if sdf_target step = [] then Some ''click requires target'' else timeout)
      else if action = ''input'' then
        (if sdf_target step = [] then Some ''input requires target''
         else if sdf_trigger step \<noteq> [] \<and> sdf_trigger step \<noteq> ''Enter'' \<and> sdf_trigger step \<noteq> ''Tab''
         then Some ''input trigger must be Enter or Tab''
         else if \<not> repeatable SideEffectBrowserState
         then Some ''input must be idempotent with browser_state side effect''
         else timeout)
      else if action = ''wait_for'' then
        (if sdf_target step = [] then Some ''wait_for requires target''
         else if \<not> repeatable SideEffectNone
         then Some ''wait_for must be idempotent with no side effect''
         else timeout)
      else if action = ''assert_text'' then
        (if sdf_target step = [] \<or> sdf_value step = []
         then Some ''assert_text requires target and value''
         else if \<not> repeatable SideEffectNone
         then Some ''assert_text must be idempotent with no side effect''
         else timeout)
      else if action = ''assert_url_contains'' then
        (if sdf_target step = [] \<or> sdf_value step = []
         then Some ''assert_url_contains requires target and value''
         else if \<not> repeatable SideEffectNone
         then Some ''assert_url_contains must be idempotent with no side effect''
         else timeout)
      else if action = ''capture_text'' then
        (if sdf_target step = [] \<or> sdf_context_key step = []
         then Some ''capture_text requires target and context_key''
         else if \<not> repeatable SideEffectNone
         then Some ''capture_text must be idempotent with no side effect''
         else timeout)
      else timeout)"

subsection \<open>Validation of a definition\<close>

text \<open>The loop over \<open>forbidden_actions\<close>; \<open>seen\<close> is the map \<open>forbiddenSeen\<close>.\<close>

fun normalizeForbidden :: "string list \<Rightarrow> string list \<Rightarrow> plan_error + string list" where
  "normalizeForbidden seen [] = Inr []"
| "normalizeForbidden seen (rule # rules) =
     (if normalize rule = [] then Inl ForbiddenEmpty
      else if normalize rule \<in> set seen then Inl (ForbiddenDuplicate (normalize rule))
      else (case normalizeForbidden (normalize rule # seen) rules of
          Inl e \<Rightarrow> Inl e
        | Inr rest \<Rightarrow> Inr (normalize rule # rest)))"

definition trimStep :: "StepDefinition \<Rightarrow> StepDefinition" where
  "trimStep step = step\<lparr>
     sdf_id := TrimSpace (sdf_id step),
     sdf_intent := TrimSpace (sdf_intent step),
     sdf_action := normalize (sdf_action step),
     sdf_target := TrimSpace (sdf_target step),
     sdf_value := TrimSpace (sdf_value step),
     sdf_trigger := TrimSpace (sdf_trigger step),
     sdf_context_key := TrimSpace (sdf_context_key step)\<rparr>"

text \<open>One round of the loop over the steps, after the fields are trimmed.\<close>

definition validateStep ::
  "SideEffect \<Rightarrow> string list \<Rightarrow> string list \<Rightarrow> nat \<Rightarrow> StepDefinition
   \<Rightarrow> plan_error + StepDefinition" where
  "validateStep maximum rules seen index source =
     (let trimmed = trimStep source;
          id = sdf_id trimmed;
          step = (if sdf_expected_occurrences trimmed = 0
            then trimmed\<lparr>sdf_expected_occurrences := 1\<rparr> else trimmed)
      in
      if \<not> stepIDPattern id \<or> id \<in> set seen then Inl (StepBadId index)
      else if sdf_intent step = [] \<or> \<not> validAction (sdf_action step) \<or>
              \<not> validSideEffect (sdf_side_effect step)
      then Inl (StepBadSemantics id)
      else if sideEffectRank (sdf_side_effect step) > sideEffectRank maximum
      then Inl (StepExceedsMaxSideEffect id)
      else if sdf_expected_occurrences step < 1 \<or>
              (sdf_idempotency step \<noteq> ''idempotent'' \<and> sdf_idempotency step \<noteq> ''non_idempotent'')
      then Inl (StepBadOccurrence id)
      else (case validateActionParameters step of
          Some message \<Rightarrow> Inl (StepBadParameters id message)
        | None \<Rightarrow>
          if forbidden rules (sdf_action step @ '' '' @ sdf_target step @ '' '' @ sdf_intent step)
          then Inl (StepForbidden id)
          else Inr (step\<lparr>
            sdf_preconditions := cleanStrings (sdf_preconditions step),
            sdf_completion_conditions := cleanStrings (sdf_completion_conditions step)\<rparr>)))"

fun validateSteps ::
  "SideEffect \<Rightarrow> string list \<Rightarrow> string list \<Rightarrow> nat \<Rightarrow> StepDefinition list
   \<Rightarrow> plan_error + StepDefinition list" where
  "validateSteps maximum rules seen index [] = Inr []"
| "validateSteps maximum rules seen index (source # sources) =
     (case validateStep maximum rules seen index source of
        Inl e \<Rightarrow> Inl e
      | Inr step \<Rightarrow>
        (case validateSteps maximum rules (sdf_id step # seen) (Suc index) sources of
           Inl e \<Rightarrow> Inl e
         | Inr steps \<Rightarrow> Inr (step # steps)))"

definition validateDefinition :: "Definition \<Rightarrow> plan_error + Definition" where
  "validateDefinition source =
     (let goal = TrimSpace (df_goal source) in
      if goal = [] then Inl GoalRequired
      else if \<not> validSideEffect (df_max_side_effect source) then Inl MaxSideEffectInvalid
      else if df_steps source = [] then Inl NoSteps
      else (case normalizeForbidden [] (slice_items (df_forbidden_actions source)) of
          Inl e \<Rightarrow> Inl e
        | Inr rules \<Rightarrow>
          (case validateSteps (df_max_side_effect source) (sort rules) [] 0 (df_steps source) of
             Inl e \<Rightarrow> Inl e
           | Inr steps \<Rightarrow> Inr (source\<lparr>
               df_goal := goal,
               df_forbidden_actions := map_option (\<lambda>_. sort rules) (df_forbidden_actions source),
               df_steps := steps\<rparr>))))"

subsection \<open>Names of plans\<close>

definition semanticHash :: "Definition \<Rightarrow> string" where
  "semanticHash definition =
     sha256_hex (render (JObj [(''schema_version'', JStr SchemaVersion),
                               (''definition'', enc_Definition definition)]))"

definition planID :: "string \<Rightarrow> string \<Rightarrow> go_time \<Rightarrow> string" where
  "planID run_id hash now =
     ''plan_'' @ sha256_hex_prefix 16
       (run_id @ [CHR 0x00] @ hash @ [CHR 0x00] @ FormatRFC3339Nano now)"

subsection \<open>Carrying the grounding of a previous version over\<close>

definition requiresTargetBinding :: "string \<Rightarrow> bool" where
  "requiresTargetBinding action \<longleftrightarrow> action \<in> {''click'', ''input'', ''capture_text''}"

definition step_grounded :: "Step \<Rightarrow> bool" where
  "step_grounded step \<longleftrightarrow> st_status step = StepGrounded \<and>
     \<not> (requiresTargetBinding (st_action step) \<and> st_target_binding step = None)"

definition allGrounded :: "Step list \<Rightarrow> bool" where
  "allGrounded steps = list_all step_grounded steps"

definition sameStepSemantics :: "Step \<Rightarrow> Step \<Rightarrow> bool" where
  "sameStepSemantics left right \<longleftrightarrow>
     st_action left = st_action right \<and>
     st_target left = st_target right \<and>
     st_value left = st_value right \<and>
     st_trigger left = st_trigger right \<and>
     st_context_key left = st_context_key right \<and>
     st_timeout_ms left = st_timeout_ms right \<and>
     st_expected_occurrences left = st_expected_occurrences right \<and>
     st_idempotency left = st_idempotency right \<and>
     st_side_effect left = st_side_effect right \<and>
     st_preconditions left = st_preconditions right \<and>
     st_completion_conditions left = st_completion_conditions right"

text \<open>\<open>previousByID\<close>: of several steps with one id the last stays in the map.\<close>

definition previousByID :: "Step list \<Rightarrow> string \<Rightarrow> Step option" where
  "previousByID steps = map_of (rev (map (\<lambda>s. (st_id s, s)) steps))"

definition carryStep :: "(string \<Rightarrow> Step option) \<Rightarrow> Step \<Rightarrow> Step" where
  "carryStep previous step =
     (case previous (st_id step) of
        None \<Rightarrow> step
      | Some old \<Rightarrow>
        if st_status old \<noteq> StepGrounded \<or> \<not> sameStepSemantics old step then step
        else step\<lparr>
          st_status := StepGrounded,
          st_grounding_attempts := st_grounding_attempts old,
          st_evidence := st_evidence old,
          st_target_binding := (case st_target_binding old of
              None \<Rightarrow> st_target_binding step | Some b \<Rightarrow> Some b)\<rparr>)"

definition carryForwardGrounding :: "Plan \<Rightarrow> Plan \<Rightarrow> Plan" where
  "carryForwardGrounding next previous =
     (let steps = map (carryStep (previousByID (pl_steps previous))) (pl_steps next) in
      next\<lparr>pl_steps := steps,
           pl_status := (if allGrounded steps then StatusReadyForGeneration else pl_status next)\<rparr>)"

text \<open>
  A binding names its plan, so it is sealed again for the new version. A binding that cannot
  be sealed is dropped and its step becomes pending again. The flag says whether a
  binding was sealed.
\<close>

definition rebound :: "Plan \<Rightarrow> Step \<Rightarrow> TargetBinding \<Rightarrow> TargetBinding" where
  "rebound plan step binding = binding\<lparr>
     tb_plan_id := pl_id plan, tb_plan_version := pl_version plan, tb_plan_step_id := st_id step\<rparr>"

definition rebindStep :: "Plan \<Rightarrow> Step \<Rightarrow> Step \<times> bool" where
  "rebindStep plan step =
     (case st_target_binding step of
        None \<Rightarrow> (step, False)
      | Some binding \<Rightarrow>
        (case NewTargetBinding (rebound plan step binding) of
           Inl _ \<Rightarrow> (step\<lparr>st_target_binding := None, st_status := StepPending\<rparr>, False)
         | Inr sealed \<Rightarrow> (step\<lparr>st_target_binding := Some sealed\<rparr>, True)))"

definition rebindCarriedTargetBindings :: "Plan \<Rightarrow> Plan \<times> bool" where
  "rebindCarriedTargetBindings plan =
     (plan\<lparr>pl_steps := map (\<lambda>s. fst (rebindStep plan s)) (pl_steps plan)\<rparr>,
      list_ex (\<lambda>s. snd (rebindStep plan s)) (pl_steps plan))"

subsection \<open>Canonical definitions\<close>

text \<open>
  What a validated definition is, stated without the order in which the code checks it.
\<close>

definition canonical_rules :: "string list \<Rightarrow> bool" where
  "canonical_rules rules \<longleftrightarrow>
     sorted rules \<and> distinct rules \<and> (\<forall>r \<in> set rules. r \<noteq> [] \<and> normalize r = r)"

definition canonical_step :: "SideEffect \<Rightarrow> string list \<Rightarrow> StepDefinition \<Rightarrow> bool" where
  "canonical_step maximum rules step \<longleftrightarrow>
     trimStep step = step \<and> stepIDPattern (sdf_id step) \<and> sdf_intent step \<noteq> [] \<and>
     validAction (sdf_action step) \<and> validSideEffect (sdf_side_effect step) \<and>
     sideEffectRank (sdf_side_effect step) \<le> sideEffectRank maximum \<and>
     1 \<le> sdf_expected_occurrences step \<and>
     sdf_idempotency step \<in> {''idempotent'', ''non_idempotent''} \<and>
     validateActionParameters step = None \<and>
     \<not> forbidden rules (sdf_action step @ '' '' @ sdf_target step @ '' '' @ sdf_intent step) \<and>
     cleanStrings (sdf_preconditions step) = sdf_preconditions step \<and>
     cleanStrings (sdf_completion_conditions step) = sdf_completion_conditions step"

definition canonical_definition :: "Definition \<Rightarrow> bool" where
  "canonical_definition d \<longleftrightarrow>
     trimmed (df_goal d) \<and> df_goal d \<noteq> [] \<and> validSideEffect (df_max_side_effect d) \<and>
     df_steps d \<noteq> [] \<and> canonical_rules (slice_items (df_forbidden_actions d)) \<and>
     (\<forall>step \<in> set (df_steps d).
        canonical_step (df_max_side_effect d) (slice_items (df_forbidden_actions d)) step) \<and>
     distinct (map sdf_id (df_steps d))"

lemma normalizeForbidden_Inr:
  "normalizeForbidden seen rules = Inr rules' \<Longrightarrow>
     distinct rules' \<and> set rules' \<inter> set seen = {} \<and>
     (\<forall>r \<in> set rules'. r \<noteq> [] \<and> normalize r = r)"
proof (induction seen rules arbitrary: rules' rule: normalizeForbidden.induct)
  case (1 seen)
  then show ?case by simp
next
  case (2 seen rule rules)
  from 2(2) obtain rest where new: "normalize rule \<noteq> []" "normalize rule \<notin> set seen"
    and rest: "normalizeForbidden (normalize rule # seen) rules = Inr rest"
    and eq: "rules' = normalize rule # rest"
    by (auto split: if_splits sum.splits)
  from 2(1) [OF new rest] new show ?case
    unfolding eq by auto
qed

lemma normalizeForbidden_canonical:
  "distinct rules \<Longrightarrow> set rules \<inter> set seen = {} \<Longrightarrow>
   (\<forall>r \<in> set rules. r \<noteq> [] \<and> normalize r = r) \<Longrightarrow> normalizeForbidden seen rules = Inr rules"
  by (induction seen rules rule: normalizeForbidden.induct) auto

lemma cleanStrings_idem [simp]: "cleanStrings (cleanStrings vs) = cleanStrings vs"
  by (induction vs) (auto simp: cleanStrings_def)

lemma trimStep_idem [simp]: "trimStep (trimStep s) = trimStep s"
  by (simp add: trimStep_def)

lemma stepIDPattern_not_Nil: "stepIDPattern s \<Longrightarrow> s \<noteq> []"
  by (simp add: stepIDPattern_def)

lemma validateActionParameters_cong:
  "validateActionParameters (s\<lparr>sdf_preconditions := p, sdf_completion_conditions := c\<rparr>) =
   validateActionParameters s"
  by (cases s) (simp only: validateActionParameters_def StepDefinition.select_convs
    StepDefinition.update_convs)

lemma validateStep_Inr:
  assumes "validateStep maximum rules seen index source = Inr step"
  shows "canonical_step maximum rules step \<and> sdf_id step \<notin> set seen"
  using assms
  by (auto simp: validateStep_def canonical_step_def Let_def validateActionParameters_cong
      trimStep_def split: if_splits option.splits)

lemma validateStep_canonical:
  assumes "canonical_step maximum rules step" and "sdf_id step \<notin> set seen"
  shows "validateStep maximum rules seen index step = Inr step"
  using assms by (auto simp: validateStep_def canonical_step_def Let_def)

lemma validateSteps_Inr:
  "validateSteps maximum rules seen index sources = Inr steps \<Longrightarrow>
     length steps = length sources \<and> (\<forall>s \<in> set steps. canonical_step maximum rules s) \<and>
     distinct (map sdf_id steps) \<and> sdf_id ` set steps \<inter> set seen = {}"
proof (induction maximum rules seen index sources arbitrary: steps rule: validateSteps.induct)
  case (1 maximum rules seen index)
  then show ?case by simp
next
  case (2 maximum rules seen index source sources)
  from 2(2) obtain s rest where s: "validateStep maximum rules seen index source = Inr s"
    and rest: "validateSteps maximum rules (sdf_id s # seen) (Suc index) sources = Inr rest"
    and steps: "steps = s # rest"
    by (auto split: sum.splits)
  from validateStep_Inr [OF s] 2(1) [OF s rest] show ?case
    unfolding steps by auto
qed

lemma validateSteps_canonical:
  "(\<forall>s \<in> set steps. canonical_step maximum rules s) \<Longrightarrow> distinct (map sdf_id steps) \<Longrightarrow>
   sdf_id ` set steps \<inter> set seen = {} \<Longrightarrow>
   validateSteps maximum rules seen index steps = Inr steps"
proof (induction steps arbitrary: seen index)
  case Nil
  then show ?case by simp
next
  case (Cons s steps)
  from Cons.prems have "validateStep maximum rules seen index s = Inr s"
    by (intro validateStep_canonical) auto
  moreover from Cons.prems
  have "validateSteps maximum rules (sdf_id s # seen) (Suc index) steps = Inr steps"
    by (intro Cons.IH) auto
  ultimately show ?case by simp
qed

lemma validateDefinition_canonical:
  assumes "validateDefinition d = Inr d'"
  shows "canonical_definition d'"
proof -
  from assms obtain rules steps where
    goal: "TrimSpace (df_goal d) \<noteq> []" and maximum: "validSideEffect (df_max_side_effect d)"
    and ne: "df_steps d \<noteq> []"
    and rules: "normalizeForbidden [] (slice_items (df_forbidden_actions d)) = Inr rules"
    and steps: "validateSteps (df_max_side_effect d) (sort rules) [] 0 (df_steps d) = Inr steps"
    and d': "d' = d\<lparr>df_goal := TrimSpace (df_goal d),
      df_forbidden_actions := map_option (\<lambda>_. sort rules) (df_forbidden_actions d),
      df_steps := steps\<rparr>"
    by (auto simp: validateDefinition_def Let_def split: if_splits sum.splits)
  have items: "slice_items (map_option (\<lambda>_. sort rules) (df_forbidden_actions d)) = sort rules"
    using rules by (cases "df_forbidden_actions d") auto
  have "canonical_rules (sort rules)"
    using normalizeForbidden_Inr [OF rules] by (auto simp: canonical_rules_def)
  with validateSteps_Inr [OF steps] goal maximum ne show ?thesis
    unfolding d' by (auto simp: canonical_definition_def items)
qed

lemma canonical_validateDefinition:
  assumes "canonical_definition d"
  shows "validateDefinition d = Inr d"
proof -
  let ?rules = "slice_items (df_forbidden_actions d)"
  from assms have rules: "canonical_rules ?rules"
    and steps: "\<forall>s \<in> set (df_steps d). canonical_step (df_max_side_effect d) ?rules s"
      "distinct (map sdf_id (df_steps d))"
    and goal: "TrimSpace (df_goal d) = df_goal d" "df_goal d \<noteq> []"
    and rest: "validSideEffect (df_max_side_effect d)" "df_steps d \<noteq> []"
    by (auto simp: canonical_definition_def TrimSpace_trimmed)
  from rules have "normalizeForbidden [] ?rules = Inr ?rules"
    by (intro normalizeForbidden_canonical) (auto simp: canonical_rules_def)
  moreover from rules have sorted: "sort ?rules = ?rules"
    by (simp add: canonical_rules_def sorted_sort_id)
  moreover from steps have
    "validateSteps (df_max_side_effect d) ?rules [] 0 (df_steps d) = Inr (df_steps d)"
    by (intro validateSteps_canonical) auto
  moreover have "map_option (\<lambda>_. ?rules) (df_forbidden_actions d) = df_forbidden_actions d"
    by (cases "df_forbidden_actions d") auto
  ultimately show ?thesis
    using goal rest by (simp add: validateDefinition_def)
qed

text \<open>
  C29. \<open>validateDefinition\<close> accepts into exactly the canonical definitions: a definition is the
  result of validating some submission if and only if its goal and maximum are set, its
  forbidden rules are normalised, sorted and without duplicates, its step ids match the
  pattern and are distinct, and every step is trimmed, stays within the maximal side effect,
  occurs at least once, satisfies the demands of its action and touches no forbidden rule.
\<close>

theorem validateDefinition_results:
  "(\<exists>d. validateDefinition d = Inr d') \<longleftrightarrow> canonical_definition d'"
  using validateDefinition_canonical canonical_validateDefinition by blast

text \<open>
  Validating is idempotent: a definition that passed passes again, unchanged, so its
  semantic hash does not depend on how often it is submitted.
\<close>

theorem validateDefinition_idempotent:
  assumes "validateDefinition d = Inr d'"
  shows "validateDefinition d' = Inr d'"
  using assms by (intro canonical_validateDefinition validateDefinition_canonical)

definition sample_step_definition :: StepDefinition where
  "sample_step_definition = \<lparr>sdf_id = '' s1'', sdf_intent = ''Open the page '',
     sdf_action = '' GOTO'', sdf_target = [], sdf_value = ''/home'', sdf_trigger = [],
     sdf_context_key = [], sdf_timeout_ms = 0, sdf_expected_occurrences = 0,
     sdf_idempotency = ''idempotent'', sdf_side_effect = ''browser_state'',
     sdf_preconditions = [], sdf_completion_conditions = [''  '', ''Home is visible'']\<rparr>"

definition sample_definition :: Definition where
  "sample_definition = \<lparr>df_goal = '' Log in'', df_max_side_effect = ''browser_state'',
     df_forbidden_actions = Some [''Pay  now'', ''delete''], df_steps = [sample_step_definition]\<rparr>"

definition canonical_sample :: Definition where
  "canonical_sample = \<lparr>df_goal = ''Log in'', df_max_side_effect = ''browser_state'',
     df_forbidden_actions = Some [''delete'', ''pay now''],
     df_steps = [sample_step_definition\<lparr>sdf_id := ''s1'', sdf_intent := ''Open the page'',
       sdf_action := ''goto'', sdf_expected_occurrences := 1,
       sdf_completion_conditions := [''Home is visible'']\<rparr>]\<rparr>"

lemma validate_sample: "validateDefinition sample_definition = Inr canonical_sample"
  by code_simp

theorem validateDefinition_idempotent_witness:
  "validateDefinition canonical_sample = Inr canonical_sample"
  by (rule validateDefinition_idempotent [OF validate_sample])

end
