(* ===== verification/PlanConditions.thy ===== *)
theory PlanConditions
  imports PlanDefinition
begin

section \<open>Conditions of plan steps (internal/taskplan/condition.go)\<close>

text \<open>
  How a plan's condition strings are read, how the structured conditions of a DSL step are
  read, and the check that a compiled step keeps every condition of its plan step. The
  regular expressions are terms of the matcher of theory \<open>GoStrings\<close>, which follows Go's
  preference for the leftmost, greediest match.
\<close>

subsection \<open>Intents\<close>

record ConditionIntent =
  ci_kind :: string
  ci_target :: string
  ci_value :: string

abbreviation intent :: "string \<Rightarrow> string \<Rightarrow> string \<Rightarrow> ConditionIntent" where
  "intent kind target val \<equiv> \<lparr>ci_kind = kind, ci_target = target, ci_value = val\<rparr>"

abbreviation spaces :: rx where
  "spaces \<equiv> Rmany1 rx_space"

definition url_contains_head :: rx where
  "url_contains_head = Rseq (Rlit ''url'') (Rseq spaces (Rseq (Rlit ''contains'') spaces))"

definition urlChangesPattern :: rx where
  "urlChangesPattern = Rseq (Rlit ''url'') (Rseq spaces (Rseq (Rlit ''change'') (Ropt (Rlit ''s''))))"

definition visible_tail :: rx where
  "visible_tail = Rseq spaces (Rseq (Ropt (Rseq (Rlit ''is'') spaces)) (Rlit ''visible''))"

definition gone_tail :: rx where
  "gone_tail = Rseq spaces (Rseq (Ropt (Rseq (Rlit ''is'') spaces))
     (Ralt (Rlit ''gone'') (Rseq (Rlit ''not'') (Rseq spaces (Rlit ''visible'')))))"

definition pageLoadsPattern :: rx where
  "pageLoadsPattern = Rseq (Ropt (Rseq (Rmany1 rx_any) spaces))
     (Rseq (Rlit ''page'') (Rseq spaces
       (Ralt (Rseq (Rlit ''load'') (Ropt (Rlit ''s'')))
         (Ralt (Rlit ''loaded'') (Ralt (Rlit ''ready'') (Rlit ''appears''))))))"

definition parseConditionIntent :: "string \<Rightarrow> ConditionIntent" where
  "parseConditionIntent raw =
     (let normalized = TrimSpace raw in
      if normalized = [] then intent ''free_text'' [] normalized
      else case rx_group_last url_contains_head (Rmany1 rx_any) normalized of
        Some val \<Rightarrow> intent ''url_contains'' [] (TrimSpace val)
      | None \<Rightarrow>
        if rx_full urlChangesPattern normalized then intent ''url_changes'' [] []
        else if rx_full pageLoadsPattern normalized then intent ''page_fact'' [] []
        else (case rx_group_first (Rmany1 rx_any) visible_tail normalized of
          Some target \<Rightarrow> intent ''text_visible'' (TrimSpace target) []
        | None \<Rightarrow> (case rx_group_first (Rmany1 rx_any) gone_tail normalized of
              Some target \<Rightarrow> intent ''text_gone'' (TrimSpace target) []
            | None \<Rightarrow> intent ''free_text'' [] normalized)))"

definition dslConditionIntent :: "(string \<times> json) list \<Rightarrow> ConditionIntent" where
  "dslConditionIntent condition =
     (let kind = TrimSpace (any_string (any_get condition ''type''));
          val = TrimSpace (any_string (any_get condition ''value''))
      in if kind = ''text_visible'' then intent ''text_visible'' val val
         else if kind = ''text_gone'' then intent ''text_gone'' val val
         else if kind = ''url_contains'' then intent ''url_contains'' [] val
         else if kind = ''url_changes'' then intent ''url_changes'' [] []
         else if kind \<in> {''dom_changed'', ''value_changed'', ''network_request''}
         then intent ''page_fact'' [] []
         else intent ''free_text'' [] val)"

definition matchesIntent :: "ConditionIntent \<Rightarrow> ConditionIntent \<Rightarrow> bool" where
  "matchesIntent dsl planned =
     (if ci_kind planned = ''free_text'' then True
      else if ci_kind planned = ''page_fact''
      then ci_kind dsl \<in> {''page_fact'', ''url_changes'', ''url_contains''}
      else if ci_kind dsl \<noteq> ci_kind planned then False
      else if ci_kind planned = ''url_contains''
      then ci_value planned \<noteq> [] \<and>
        (Contains (ci_value dsl) (ci_value planned) \<or> Contains (ci_value planned) (ci_value dsl))
      else True)"

subsection \<open>Conditions of a DSL step\<close>

fun condition_objects :: "json list \<Rightarrow> ConditionIntent list" where
  "condition_objects [] = []"
| "condition_objects (JObj m # entries) = dslConditionIntent m # condition_objects entries"
| "condition_objects (_ # entries) = condition_objects entries"

definition dslConditionList :: "(string \<times> json) list \<Rightarrow> string \<Rightarrow> ConditionIntent list" where
  "dslConditionList step field =
     (case any_get step field of JArr raw \<Rightarrow> condition_objects raw | _ \<Rightarrow> [])"

definition anyMatches :: "ConditionIntent list \<Rightarrow> ConditionIntent \<Rightarrow> bool" where
  "anyMatches conditions planned = list_ex (\<lambda>c. matchesIntent c planned) conditions"

definition condition_kept :: "ConditionIntent list \<Rightarrow> string \<Rightarrow> bool" where
  "condition_kept conditions raw \<longleftrightarrow>
     ci_kind (parseConditionIntent raw) = ''free_text'' \<or>
     anyMatches conditions (parseConditionIntent raw)"

definition validateConditionPreservation ::
  "(string \<times> json) list \<Rightarrow> Step \<Rightarrow> nat \<Rightarrow> plan_error option" where
  "validateConditionPreservation step planned index =
     (let dslPre = dslConditionList step ''preconditions'';
          dslPost = dslConditionList step ''postconditions''
      in
      if st_preconditions planned \<noteq> [] \<and> dslPre = []
      then Some (ConditionsDropped index (st_id planned))
      else if st_completion_conditions planned \<noteq> [] \<and> dslPost = []
      then Some (CompletionsDropped index (st_id planned))
      else (case first_error (\<lambda>raw. if condition_kept dslPre raw then None
              else Some (ConditionNotPreserved index (st_id planned) raw)) (st_preconditions planned) of
          Some e \<Rightarrow> Some e
        | None \<Rightarrow> first_error (\<lambda>raw. if condition_kept dslPost raw then None
              else Some (CompletionNotPreserved index (st_id planned) raw))
            (st_completion_conditions planned)))"

text \<open>
  The contract in one formula: in each direction the step declares a condition if the plan
  does, and every plan condition of a recognised kind has a counterpart.
\<close>

definition conditions_preserved :: "string list \<Rightarrow> ConditionIntent list \<Rightarrow> bool" where
  "conditions_preserved planned declared \<longleftrightarrow>
     (planned \<noteq> [] \<longrightarrow> declared \<noteq> []) \<and>
     (\<forall>raw \<in> set planned. condition_kept declared raw)"

lemma validateConditionPreservation_iff:
  "validateConditionPreservation step planned index = None \<longleftrightarrow>
     conditions_preserved (st_preconditions planned) (dslConditionList step ''preconditions'') \<and>
     conditions_preserved (st_completion_conditions planned)
       (dslConditionList step ''postconditions'')"
  by (auto simp: validateConditionPreservation_def conditions_preserved_def Let_def
      split: option.splits if_splits dest!: first_error_Some_in)

lemma conditions_preserved_append:
  assumes "conditions_preserved planned declared"
  shows "conditions_preserved planned (declared @ others)"
  using assms by (auto simp: conditions_preserved_def condition_kept_def anyMatches_def)

definition validateCompiledConditions ::
  "nat \<Rightarrow> (string \<times> json) list list \<Rightarrow> (string \<times> json) list list \<Rightarrow> Step \<Rightarrow> plan_error option"
  where
  "validateCompiledConditions index preconditions postconditions expected =
     (let dslPre = map dslConditionIntent preconditions;
          dslPost = map dslConditionIntent postconditions;
          id = st_id expected
      in
      if st_preconditions expected \<noteq> [] \<and> dslPre = []
      then Some (InCompiled (ConditionsDropped index id))
      else if st_completion_conditions expected \<noteq> [] \<and> dslPost = []
      then Some (InCompiled (CompletionsDropped index id))
      else (case first_error (\<lambda>raw. if condition_kept dslPre raw then None
              else Some (InCompiled (ConditionNotPreserved index id raw))) (st_preconditions expected) of
          Some e \<Rightarrow> Some e
        | None \<Rightarrow> first_error (\<lambda>raw. if condition_kept dslPost raw then None
              else Some (InCompiled (CompletionNotPreserved index id raw)))
            (st_completion_conditions expected)))"

lemma validateCompiledConditions_iff:
  "validateCompiledConditions index pre post expected = None \<longleftrightarrow>
     conditions_preserved (st_preconditions expected) (map dslConditionIntent pre) \<and>
     conditions_preserved (st_completion_conditions expected) (map dslConditionIntent post)"
  by (auto simp: validateCompiledConditions_def conditions_preserved_def Let_def
      split: option.splits if_splits dest!: first_error_Some_in)

subsection \<open>What the patterns match\<close>

fun rx_lang :: "rx \<Rightarrow> string \<Rightarrow> bool" where
  "rx_lang (Rlit w) p \<longleftrightarrow> EqualFold p w"
| "rx_lang (Rmany1 P) p \<longleftrightarrow> p \<noteq> [] \<and> (\<forall>c \<in> set p. P c)"
| "rx_lang (Ropt r) p \<longleftrightarrow> rx_lang r p \<or> p = []"
| "rx_lang (Rseq a b) p \<longleftrightarrow> (\<exists>u v. p = u @ v \<and> rx_lang a u \<and> rx_lang b v)"
| "rx_lang (Ralt a b) p \<longleftrightarrow> rx_lang a p \<or> rx_lang b p"

lemma rx_lang_SeqE:
  assumes "rx_lang (Rseq a b) p"
  obtains u v where "p = u @ v" and "rx_lang a u" and "rx_lang b v"
  using assms by auto

lemma rx_lang_SeqI: "rx_lang a u \<Longrightarrow> rx_lang b v \<Longrightarrow> rx_lang (Rseq a b) (u @ v)"
  by auto

lemma EqualFold_length: "EqualFold p w \<Longrightarrow> length p = length w"
  by (metis EqualFold_def ToLower_def length_map)

lemma rx_rests_iff: "t \<in> set (rx_rests r s) \<longleftrightarrow> (\<exists>p. s = p @ t \<and> rx_lang r p)"
proof (induction r arbitrary: s t)
  case (Rlit w)
  show ?case
  proof
    assume "t \<in> set (rx_rests (Rlit w) s)"
    then have "t = drop (length w) s" "EqualFold (take (length w) s) w"
      by (auto split: if_splits)
    then show "\<exists>p. s = p @ t \<and> rx_lang (Rlit w) p"
      by (metis append_take_drop_id rx_lang.simps(1))
  next
    assume "\<exists>p. s = p @ t \<and> rx_lang (Rlit w) p"
    then obtain p where "s = p @ t" "EqualFold p w" by auto
    then show "t \<in> set (rx_rests (Rlit w) s)"
      using EqualFold_length [of p w] by simp
  qed
next
  case (Rmany1 P)
  then show ?case by (auto simp: many1_rests_iff)
next
  case (Ropt r)
  then show ?case by auto
next
  case (Rseq a b)
  have "t \<in> set (rx_rests (Rseq a b) s) \<longleftrightarrow>
      (\<exists>x. x \<in> set (rx_rests a s) \<and> t \<in> set (rx_rests b x))"
    by auto
  also have "\<dots> \<longleftrightarrow> (\<exists>x u v. s = u @ x \<and> rx_lang a u \<and> x = v @ t \<and> rx_lang b v)"
    unfolding Rseq.IH by blast
  also have "\<dots> \<longleftrightarrow> (\<exists>p. s = p @ t \<and> rx_lang (Rseq a b) p)"
  proof
    assume "\<exists>x u v. s = u @ x \<and> rx_lang a u \<and> x = v @ t \<and> rx_lang b v"
    then obtain u v where "s = (u @ v) @ t" "rx_lang a u" "rx_lang b v" by auto
    then show "\<exists>p. s = p @ t \<and> rx_lang (Rseq a b) p" by (blast intro: rx_lang_SeqI)
  next
    assume "\<exists>p. s = p @ t \<and> rx_lang (Rseq a b) p"
    then obtain u v where "s = u @ (v @ t)" "rx_lang a u" "rx_lang b v"
      by (auto simp del: rx_lang.simps elim!: rx_lang_SeqE)
    then show "\<exists>x u v. s = u @ x \<and> rx_lang a u \<and> x = v @ t \<and> rx_lang b v" by blast
  qed
  finally show ?case .
next
  case (Ralt a b)
  then show ?case by auto
qed

lemma rx_full_iff: "rx_full r s \<longleftrightarrow> rx_lang r s"
  by (simp add: rx_full_def rx_rests_iff)

lemma rx_group_first_None_iff:
  "rx_group_first r1 r2 s = None \<longleftrightarrow> \<not> rx_lang (Rseq r1 r2) s"
proof -
  have "rx_group_first r1 r2 s = None \<longleftrightarrow> (\<forall>t \<in> set (rx_rests r1 s). \<not> rx_lang r2 t)"
    using find_None_iff [of "rx_full r2" "rx_rests r1 s"]
    by (auto simp: rx_group_first_def rx_full_iff split: option.splits)
  then show ?thesis by (auto simp: rx_rests_iff)
qed

lemma rx_lang_visible_tail:
  "rx_lang gone_tail w \<Longrightarrow> (\<forall>c \<in> set w. rx_any c) \<Longrightarrow>
   (\<exists>u. ToLower w = u @ ''gone'') \<or>
   (\<exists>u v. w = u @ v \<and> (\<forall>c \<in> set u. rx_any c) \<and> rx_lang visible_tail v)"
proof -
  assume w: "rx_lang gone_tail w" "\<forall>c \<in> set w. rx_any c"
  then obtain a b c where parts: "w = a @ b @ c"
    and c: "rx_lang (Rlit ''gone'') c \<or>
      rx_lang (Rseq (Rlit ''not'') (Rseq spaces (Rlit ''visible''))) c"
    unfolding gone_tail_def by (elim rx_lang_SeqE) (auto simp del: rx_lang.simps(1,2,3,4))
  show ?thesis
  proof (cases "rx_lang (Rlit ''gone'') c")
    case True
    then have "ToLower w = ToLower (a @ b) @ ''gone''"
      by (simp add: parts EqualFold_def ToLower_def)
    then show ?thesis by blast
  next
    case False
    with c obtain n sp v where "c = n @ sp @ v" and sp: "rx_lang spaces sp"
      and v: "rx_lang (Rlit ''visible'') v"
      by (auto elim!: rx_lang_SeqE simp del: rx_lang.simps)
    then have "w = (a @ b @ n) @ (sp @ v)" by (simp add: parts)
    moreover have "rx_lang visible_tail (sp @ v)"
      unfolding visible_tail_def
      by (rule rx_lang_SeqI [OF sp]) (use v in auto)
    ultimately show ?thesis using w(2) by (intro disjI2 exI [of _ "a @ b @ n"] exI [of _ "sp @ v"]) auto
  qed
qed

text \<open>
  On a single line, only a condition that ends in the word ``gone'' is read as asking for
  something to disappear: the alternative ``not visible'' of \<open>gonePattern\<close> is never reached,
  because \<open>visiblePattern\<close> is tried first and matches every such text.
\<close>

theorem text_gone_only_by_gone:
  assumes "\<forall>c \<in> set raw. rx_any c"
    and "ci_kind (parseConditionIntent raw) = ''text_gone''"
  shows "\<exists>u. ToLower (TrimSpace raw) = u @ ''gone''"
proof -
  let ?s = "TrimSpace raw"
  have line: "\<forall>c \<in> set ?s. rx_any c"
    using assms(1) set_TrimSpace by blast
  from assms(2) have novisible: "\<not> rx_lang (Rseq (Rmany1 rx_any) visible_tail) ?s"
    and "rx_group_first (Rmany1 rx_any) gone_tail ?s \<noteq> None"
    unfolding rx_group_first_None_iff [symmetric]
    by (auto simp: parseConditionIntent_def Let_def split: if_splits option.splits)
  then obtain p w where s: "?s = p @ w" and p: "p \<noteq> []" and w: "rx_lang gone_tail w"
    unfolding rx_group_first_None_iff by auto
  have "\<not> (\<exists>u v. w = u @ v \<and> (\<forall>c \<in> set u. rx_any c) \<and> rx_lang visible_tail v)"
  proof
    assume "\<exists>u v. w = u @ v \<and> (\<forall>c \<in> set u. rx_any c) \<and> rx_lang visible_tail v"
    then obtain u v where "w = u @ v" "rx_lang visible_tail v" by blast
    with s p line have "rx_lang (Rseq (Rmany1 rx_any) visible_tail) ?s"
      unfolding rx_lang.simps(4) [of "Rmany1 rx_any"]
      by (intro exI [of _ "p @ u"] exI [of _ v]) auto
    with novisible show False ..
  qed
  with rx_lang_visible_tail [OF w] line s obtain u where "ToLower w = u @ ''gone''" by auto
  then have "ToLower ?s = (ToLower p @ u) @ ''gone''" by (simp add: s ToLower_def)
  then show ?thesis by blast
qed

theorem text_gone_only_by_gone_witness:
  "\<exists>u. ToLower (TrimSpace ''Spinner is gone'') = u @ ''gone''"
  by (rule text_gone_only_by_gone) code_simp+

end
