(* ===== verification/PlanCompiler.thy ===== *)
theory PlanCompiler
  imports PlanConditions
begin

section \<open>Compiling a draft into an executable case (internal/taskplan/compiler.go)\<close>

text \<open>
  The agent writes a DSL draft for an approved plan. \<open>CompileDraftCase\<close> checks that every draft
  step repeats its plan step, adds what only the plan may supply (the semantic target, the
  locator candidates and the observation of the binding) and emits the case;
  \<open>validateCompiledCaseSemantics\<close> re-checks a compiled case, \<open>validateCaseSemantics\<close> checks
  cases of the older profiles. A Go map that is changed is an association list; \<open>marshal_map\<close>
  sorts the keys as \<open>json.Marshal\<close> does.
\<close>

subsection \<open>Values of a draft\<close>

definition stringValue :: "json \<Rightarrow> string" where
  "stringValue j = TrimSpace (any_string j)"

text \<open>\<open>int(float64)\<close> cuts the fraction off.\<close>

definition intValue :: "json \<Rightarrow> int" where
  "intValue j = (case j of JInt n \<Rightarrow> n | JDec m k \<Rightarrow> sgn m * (\<bar>m\<bar> div 10 ^ k) | _ \<Rightarrow> 0)"

definition marshal_map :: "(string \<times> json) list \<Rightarrow> json" where
  "marshal_map m = JObj (sort_key fst m)"

definition expandedPlanSteps :: "Step list \<Rightarrow> Step list" where
  "expandedPlanSteps steps =
     concat (map (\<lambda>s. replicate (nat (st_expected_occurrences s)) s) steps)"

subsection \<open>The semantic checks of a step\<close>

record planStepCheck =
  ck_field :: string
  ck_actual :: string
  ck_expected :: string

abbreviation check :: "string \<Rightarrow> string \<Rightarrow> string \<Rightarrow> planStepCheck" where
  "check field actual expected \<equiv> \<lparr>ck_field = field, ck_actual = actual, ck_expected = expected\<rparr>"

definition planStepSemanticChecks ::
  "string \<Rightarrow> string \<Rightarrow> string \<Rightarrow> string \<Rightarrow> string \<Rightarrow> int \<Rightarrow> string \<Rightarrow> string \<Rightarrow> Step
   \<Rightarrow> planStepCheck list" where
  "planStepSemanticChecks plan_step_id action val trigger context_key timeout idempotency
     side_effect expected =
     [check ''plan_step_id'' plan_step_id (st_id expected),
      check ''action'' (normalize action) (st_action expected),
      check ''value'' (TrimSpace val) (st_value expected),
      check ''trigger'' trigger (st_trigger expected),
      check ''context_key'' context_key (st_context_key expected),
      check ''idempotency'' idempotency (st_idempotency expected),
      check ''side_effect'' side_effect (st_side_effect expected)] @
     (if st_timeout_ms expected > 0
      then [check ''timeout_ms'' (itoa timeout) (itoa (st_timeout_ms expected))] else [])"

definition firstPlanStepMismatch :: "planStepCheck list \<Rightarrow> planStepCheck option" where
  "firstPlanStepMismatch checks = find (\<lambda>c. ck_actual c \<noteq> ck_expected c) checks"

subsection \<open>Checking a draft step\<close>

definition compiler_owned :: "string list" where
  "compiler_owned = [''semantic_target'', ''locator_candidates'', ''probe_id'', ''observation_id'',
     ''observation_sha256'', ''page_state_id'', ''selected_candidate_id'']"

definition draft_checks :: "(string \<times> json) list \<Rightarrow> Step \<Rightarrow> planStepCheck list" where
  "draft_checks step planned = planStepSemanticChecks
     (stringValue (any_get step ''plan_step_id''))
     (stringValue (any_get step ''action''))
     (stringValue (any_get step ''value''))
     (stringValue (any_get step ''trigger''))
     (stringValue (any_get step ''context_key''))
     (intValue (any_get step ''timeout_ms''))
     (stringValue (any_get step ''idempotency''))
     (stringValue (any_get step ''side_effect''))
     planned"

definition draft_binding_error ::
  "(string \<times> json) list \<Rightarrow> Step \<Rightarrow> nat \<Rightarrow> plan_error option" where
  "draft_binding_error step planned index =
     (let named = stringValue (any_get step ''target_binding_id'') in
      if requiresTargetBinding (st_action planned) then
        (case st_target_binding planned of
           None \<Rightarrow> Some (DraftNoBinding (st_id planned))
         | Some b \<Rightarrow> (case TargetBinding_Validate b of
               Some e \<Rightarrow> Some (DraftBindingInvalid (st_id planned) e)
             | None \<Rightarrow> if named \<noteq> tb_binding_id b
                 then Some (DraftBindingIdMismatch index (st_id planned)) else None))
      else (case st_target_binding planned of
          None \<Rightarrow> None
        | Some b \<Rightarrow> if named \<noteq> [] \<and> named \<noteq> tb_binding_id b
            then Some (DraftBindingIdMismatch index (st_id planned)) else None))"

definition compileDraftStep :: "(string \<times> json) list \<Rightarrow> Step \<Rightarrow> nat \<Rightarrow> plan_error option" where
  "compileDraftStep step planned index =
     (case firstPlanStepMismatch (draft_checks step planned) of
        Some c \<Rightarrow> Some (DraftFieldMismatch index (st_id planned) (ck_field c))
      | None \<Rightarrow>
        if stringValue (any_get step ''intent'') = [] then Some (DraftNoIntent index (st_id planned))
        else (case find (\<lambda>field. map_of step field \<noteq> None) compiler_owned of
            Some field \<Rightarrow> Some (DraftCompilerOwned index field)
          | None \<Rightarrow> (case draft_binding_error step planned index of
                Some e \<Rightarrow> Some e
              | None \<Rightarrow> validateConditionPreservation step planned index)))"

subsection \<open>Compilation\<close>

text \<open>What the compiler writes into a step, and the observation binding it lists.\<close>

definition put_all :: "(string \<times> json) list \<Rightarrow> (string \<times> json) list \<Rightarrow> (string \<times> json) list" where
  "put_all news step = fold (\<lambda>p m. assoc_put (fst p) (snd p) m) news step"

definition binding_fields :: "TargetBinding \<Rightarrow> (string \<times> json) list" where
  "binding_fields b =
     (if tb_probe_id b \<noteq> [] then
        [(''probe_id'', JStr (tb_probe_id b)),
         (''observation_id'', JStr (tb_observation_id b)),
         (''observation_sha256'', JStr (tb_observation_sha256 b)),
         (''page_state_id'', JStr (tb_page_state_id b)),
         (''selected_candidate_id'', JStr (tb_selected_candidate_id b))] else []) @
     [(''locator_candidates'', JArr (map enc_LocatorCandidate (tb_candidates b)))]"

definition injectStep :: "(string \<times> json) list \<Rightarrow> Step \<Rightarrow> (string \<times> json) list" where
  "injectStep step planned =
     put_all
       ((if st_target planned \<noteq> [] then [(''semantic_target'', JStr (st_target planned))] else []) @
        (case st_target_binding planned of None \<Rightarrow> [] | Some b \<Rightarrow> binding_fields b))
       (assoc_del ''target'' step)"

definition observationBinding :: "TargetBinding \<Rightarrow> json" where
  "observationBinding b = marshal_map (
     [(''binding_id'', JStr (tb_binding_id b)),
      (''binding_sha256'', JStr (tb_binding_sha256 b)),
      (''observation_id'', JStr (tb_observation_id b)),
      (''observation_sha256'', JStr (tb_observation_sha256 b))] @
     (if tb_probe_id b \<noteq> [] then
        [(''probe_id'', JStr (tb_probe_id b)), (''page_state_id'', JStr (tb_page_state_id b))]
      else []))"

definition addObservation :: "string list \<times> json list \<Rightarrow> Step \<Rightarrow> string list \<times> json list" where
  "addObservation so planned =
     (case st_target_binding planned of
        None \<Rightarrow> so
      | Some b \<Rightarrow> if tb_binding_id b \<in> set (fst so) then so
          else (tb_binding_id b # fst so, snd so @ [observationBinding b]))"

text \<open>The loop over the steps of the draft; \<open>so\<close> holds \<open>seenBinding\<close> and \<open>observationBindings\<close>.\<close>

fun compileSteps ::
  "nat \<Rightarrow> json list \<Rightarrow> Step list \<Rightarrow> string list \<times> json list
   \<Rightarrow> plan_error + (json list \<times> json list)" where
  "compileSteps index (raw # raws) (planned # plans) so =
     (case raw of
        JObj step \<Rightarrow>
          (case compileDraftStep step planned index of
             Some e \<Rightarrow> Inl e
           | None \<Rightarrow>
             (case compileSteps (Suc index) raws plans (addObservation so planned) of
                Inl e \<Rightarrow> Inl e
              | Inr (steps, observations) \<Rightarrow>
                  Inr (marshal_map (injectStep step planned) # steps, observations)))
      | _ \<Rightarrow> Inl (DraftStepNotObject index))"
| "compileSteps index _ _ so = Inr ([], snd so)"

definition compileCase :: "Plan \<Rightarrow> Binding \<Rightarrow> raw_message \<Rightarrow> plan_error + json" where
  "compileCase plan binding raw =
     (if binding \<noteq> Plan_Binding plan then Inl BindingMismatch
      else if pl_status plan \<noteq> StatusReadyForGeneration
      then Inl (StatusForbidsCompilation (pl_status plan))
      else case map_option anyval raw of
        Some (JObj candidate) \<Rightarrow>
          if any_get candidate ''profile'' \<noteq> JStr ''research-v2'' then Inl DraftNotResearchV2
          else (case any_get candidate ''steps'' of
              JArr steps \<Rightarrow>
                let planned = expandedPlanSteps (pl_steps plan) in
                if length steps \<noteq> length planned
                then Inl (CaseStepCount (length steps) (int (length planned)))
                else (case compileSteps 0 steps planned ([], []) of
                    Inl e \<Rightarrow> Inl e
                  | Inr (compiled, observations) \<Rightarrow>
                      Inr (marshal_map (put_all
                        [(''steps'', JArr compiled), (''plan_binding'', enc_Binding binding),
                         (''observation_bindings'', JArr observations)] candidate)))
            | _ \<Rightarrow> Inl DraftStepsNotArray)
      | _ \<Rightarrow> Inl DraftNotObject)"

subsection \<open>Checking a draft before it is compiled\<close>

record DraftCase =
  dc_profile :: string
  dc_steps :: "(string \<times> json) list list"

definition dec_DraftCase :: "DraftCase decoder" where
  "dec_DraftCase = dec_struct [
     (''profile'', fld dec_string dc_profile dc_profile_update),
     (''steps'', fld (dec_list (dec_map dec_any JNull) []) dc_steps dc_steps_update)]"

fun compileDraftSteps :: "nat \<Rightarrow> (string \<times> json) list list \<Rightarrow> Step list \<Rightarrow> plan_error option" where
  "compileDraftSteps index (step # steps) (planned # plans) =
     (case compileDraftStep step planned index of
        Some e \<Rightarrow> Some e
      | None \<Rightarrow> compileDraftSteps (Suc index) steps plans)"
| "compileDraftSteps index _ _ = None"

definition validateDraftCaseSemantics :: "Plan \<Rightarrow> raw_message \<Rightarrow> plan_error option" where
  "validateDraftCaseSemantics plan raw =
     (case unmarshal dec_DraftCase \<lparr>dc_profile = [], dc_steps = []\<rparr> raw of
        None \<Rightarrow> Some DraftInvalid
      | Some candidate \<Rightarrow>
        if dc_profile candidate \<noteq> ''research-v2'' then Some DraftInvalid
        else let planned = expandedPlanSteps (pl_steps plan) in
          if length (dc_steps candidate) \<noteq> length planned
          then Some (CaseStepCount (length (dc_steps candidate)) (int (length planned)))
          else compileDraftSteps 0 (dc_steps candidate) planned)"

subsection \<open>Checking a compiled case\<close>

record CompiledStep =
  cs_plan_step_id :: string
  cs_action :: string
  cs_intent :: string
  cs_semantic_target :: string
  cs_target_binding_id :: string
  cs_probe_id :: string
  cs_observation_id :: string
  cs_observation_sha256 :: string
  cs_page_state_id :: string
  cs_selected_candidate_id :: string
  cs_locator_candidates :: "LocatorCandidate list option"
  cs_value :: string
  cs_trigger :: string
  cs_context_key :: string
  cs_timeout_ms :: int
  cs_idempotency :: string
  cs_side_effect :: string
  cs_preconditions :: "(string \<times> json) list list"
  cs_postconditions :: "(string \<times> json) list list"

definition zero_CompiledStep :: CompiledStep where
  "zero_CompiledStep = \<lparr>cs_plan_step_id = [], cs_action = [], cs_intent = [],
     cs_semantic_target = [], cs_target_binding_id = [], cs_probe_id = [], cs_observation_id = [],
     cs_observation_sha256 = [], cs_page_state_id = [], cs_selected_candidate_id = [],
     cs_locator_candidates = None, cs_value = [], cs_trigger = [], cs_context_key = [],
     cs_timeout_ms = 0, cs_idempotency = [], cs_side_effect = [], cs_preconditions = [],
     cs_postconditions = []\<rparr>"

definition CompiledStep_fields :: "(string \<times> CompiledStep decoder) list" where
  "CompiledStep_fields = [
     (''plan_step_id'', fld dec_string cs_plan_step_id cs_plan_step_id_update),
     (''action'', fld dec_string cs_action cs_action_update),
     (''intent'', fld dec_string cs_intent cs_intent_update),
     (''semantic_target'', fld dec_string cs_semantic_target cs_semantic_target_update),
     (''target_binding_id'', fld dec_string cs_target_binding_id cs_target_binding_id_update),
     (''probe_id'', fld dec_string cs_probe_id cs_probe_id_update),
     (''observation_id'', fld dec_string cs_observation_id cs_observation_id_update),
     (''observation_sha256'', fld dec_string cs_observation_sha256 cs_observation_sha256_update),
     (''page_state_id'', fld dec_string cs_page_state_id cs_page_state_id_update),
     (''selected_candidate_id'',
        fld dec_string cs_selected_candidate_id cs_selected_candidate_id_update),
     (''locator_candidates'', fld (dec_slice dec_LocatorCandidate zero_LocatorCandidate)
        cs_locator_candidates cs_locator_candidates_update),
     (''value'', fld dec_string cs_value cs_value_update),
     (''trigger'', fld dec_string cs_trigger cs_trigger_update),
     (''context_key'', fld dec_string cs_context_key cs_context_key_update),
     (''timeout_ms'', fld dec_int cs_timeout_ms cs_timeout_ms_update),
     (''idempotency'', fld dec_string cs_idempotency cs_idempotency_update),
     (''side_effect'', fld dec_string cs_side_effect cs_side_effect_update),
     (''preconditions'', fld (dec_list (dec_map dec_any JNull) [])
        cs_preconditions cs_preconditions_update),
     (''postconditions'', fld (dec_list (dec_map dec_any JNull) [])
        cs_postconditions cs_postconditions_update)]"

definition dec_CompiledStep :: "CompiledStep decoder" where
  "dec_CompiledStep = dec_struct CompiledStep_fields"

record CompiledCase =
  cc_profile :: string
  cc_plan_binding :: Binding
  cc_steps :: "CompiledStep list"

definition CompiledCase_fields :: "(string \<times> CompiledCase decoder) list" where
  "CompiledCase_fields = [
     (''profile'', fld dec_string cc_profile cc_profile_update),
     (''plan_binding'', fld dec_Binding cc_plan_binding cc_plan_binding_update),
     (''steps'', fld (dec_list dec_CompiledStep zero_CompiledStep) cc_steps cc_steps_update)]"

definition dec_CompiledCase :: "CompiledCase decoder" where
  "dec_CompiledCase = dec_struct CompiledCase_fields"

definition zero_CompiledCase :: CompiledCase where
  "zero_CompiledCase = \<lparr>cc_profile = [], cc_plan_binding = zero_Binding, cc_steps = []\<rparr>"

definition sameCandidates :: "LocatorCandidate list option \<Rightarrow> LocatorCandidate list \<Rightarrow> bool" where
  "sameCandidates left right \<longleftrightarrow>
     render (enc_slice enc_LocatorCandidate left) = render (JArr (map enc_LocatorCandidate right))"

definition compiled_checks :: "CompiledStep \<Rightarrow> Step \<Rightarrow> planStepCheck list" where
  "compiled_checks step expected =
     planStepSemanticChecks (cs_plan_step_id step) (cs_action step) (cs_value step) (cs_trigger step)
       (cs_context_key step) (cs_timeout_ms step) (cs_idempotency step) (cs_side_effect step) expected @
     [check ''semantic_target'' (cs_semantic_target step) (st_target expected)]"

definition compiled_binding_ok :: "CompiledStep \<Rightarrow> Step \<Rightarrow> bool" where
  "compiled_binding_ok step expected \<longleftrightarrow>
     (case st_target_binding expected of
        None \<Rightarrow> False
      | Some b \<Rightarrow>
          cs_target_binding_id step = tb_binding_id b \<and> cs_probe_id step = tb_probe_id b \<and>
          cs_observation_id step = tb_observation_id b \<and>
          cs_observation_sha256 step = tb_observation_sha256 b \<and>
          cs_page_state_id step = tb_page_state_id b \<and>
          cs_selected_candidate_id step = tb_selected_candidate_id b \<and>
          sameCandidates (cs_locator_candidates step) (tb_candidates b))"

definition validateCompiledStep :: "nat \<Rightarrow> CompiledStep \<Rightarrow> Step \<Rightarrow> plan_error option" where
  "validateCompiledStep index step expected =
     (case firstPlanStepMismatch (compiled_checks step expected) of
        Some c \<Rightarrow> Some (InCompiled (DraftFieldMismatch index (st_id expected) (ck_field c)))
      | None \<Rightarrow>
        if TrimSpace (cs_intent step) = []
        then Some (InCompiled (DraftNoIntent index (st_id expected)))
        else (case validateCompiledConditions index (cs_preconditions step) (cs_postconditions step)
              expected of
            Some e \<Rightarrow> Some e
          | None \<Rightarrow> if requiresTargetBinding (st_action expected) \<and> \<not> compiled_binding_ok step expected
              then Some (CompiledBindingInvalid index) else None))"

fun validateCompiledSteps :: "nat \<Rightarrow> CompiledStep list \<Rightarrow> Step list \<Rightarrow> plan_error option" where
  "validateCompiledSteps index (step # steps) (expected # plans) =
     (case validateCompiledStep index step expected of
        Some e \<Rightarrow> Some e
      | None \<Rightarrow> validateCompiledSteps (Suc index) steps plans)"
| "validateCompiledSteps index _ _ = None"

definition validateCompiledCaseSemantics :: "Plan \<Rightarrow> raw_message \<Rightarrow> plan_error option" where
  "validateCompiledCaseSemantics plan raw =
     (case unmarshal dec_CompiledCase zero_CompiledCase raw of
        None \<Rightarrow> Some CompiledMismatch
      | Some candidate \<Rightarrow>
        if cc_profile candidate \<noteq> ''research-v2'' \<or> cc_plan_binding candidate \<noteq> Plan_Binding plan
        then Some CompiledMismatch
        else let planned = expandedPlanSteps (pl_steps plan) in
          if length (cc_steps candidate) \<noteq> length planned then Some CompiledStepCount
          else validateCompiledSteps 0 (cc_steps candidate) planned)"

subsection \<open>Cases of the older profiles\<close>

record CaseStep =
  xs_action :: string
  xs_intent :: string
  xs_target :: string
  xs_value :: string
  xs_trigger :: string
  xs_context_key :: string
  xs_timeout_ms :: int
  xs_idempotency :: string
  xs_side_effect :: string

definition dec_CaseStep :: "CaseStep decoder" where
  "dec_CaseStep = dec_struct [
     (''action'', fld dec_string xs_action xs_action_update),
     (''intent'', fld dec_string xs_intent xs_intent_update),
     (''target'', fld dec_string xs_target xs_target_update),
     (''value'', fld dec_string xs_value xs_value_update),
     (''trigger'', fld dec_string xs_trigger xs_trigger_update),
     (''context_key'', fld dec_string xs_context_key xs_context_key_update),
     (''timeout_ms'', fld dec_int xs_timeout_ms xs_timeout_ms_update),
     (''idempotency'', fld dec_string xs_idempotency xs_idempotency_update),
     (''side_effect'', fld dec_string xs_side_effect xs_side_effect_update)]"

definition zero_CaseStep :: CaseStep where
  "zero_CaseStep = \<lparr>xs_action = [], xs_intent = [], xs_target = [], xs_value = [],
     xs_trigger = [], xs_context_key = [], xs_timeout_ms = 0, xs_idempotency = [],
     xs_side_effect = []\<rparr>"

text \<open>The sum \<open>expectedCount\<close> is an \<open>int\<close> of 64 bits and wraps.\<close>

definition wrap64 :: "int \<Rightarrow> int" where
  "wrap64 n = (n + 2 ^ 63) mod 2 ^ 64 - 2 ^ 63"

definition expectedCount :: "Step list \<Rightarrow> int" where
  "expectedCount steps = foldl (\<lambda>n s. wrap64 (n + st_expected_occurrences s)) 0 steps"

definition preservesStep :: "CaseStep \<Rightarrow> Step \<Rightarrow> bool" where
  "preservesStep step planned \<longleftrightarrow>
     normalize (xs_action step) = st_action planned \<and>
     normalize (xs_intent step) = normalize (st_intent planned) \<and>
     normalize (xs_target step) = normalize (st_target planned) \<and>
     TrimSpace (xs_value step) = st_value planned \<and>
     xs_trigger step = st_trigger planned \<and>
     xs_context_key step = st_context_key planned \<and>
     xs_timeout_ms step = st_timeout_ms planned \<and>
     xs_idempotency step = st_idempotency planned \<and>
     xs_side_effect step = st_side_effect planned"

text \<open>
  The two nested loops; \<open>index\<close> is \<open>dslIndex\<close> and \<open>steps\<close> the part of the case from there on. When the
  part is used up, \<open>candidate.Steps[dslIndex]\<close> panics.
\<close>

function preserveLoop ::
  "string list \<Rightarrow> nat \<Rightarrow> int \<Rightarrow> Step list \<Rightarrow> CaseStep list \<Rightarrow> plan_error option" where
  "preserveLoop rules index occurrence [] steps = None"
| "preserveLoop rules index occurrence (planned # plans) steps =
     (if \<not> occurrence < st_expected_occurrences planned
      then preserveLoop rules index 0 plans steps
      else (case steps of
          [] \<Rightarrow> Some (CaseIndexOutOfRange index)
        | step # others \<Rightarrow>
            if \<not> preservesStep step planned then Some (CaseStepMismatch index (st_id planned))
            else if forbidden rules (xs_action step @ '' '' @ xs_target step @ '' '' @ xs_intent step)
            then Some (CaseStepForbidden index)
            else preserveLoop rules (Suc index) (occurrence + 1) (planned # plans) others))"
  by pat_completeness auto
termination
  by (relation "measure (\<lambda>(_, _, _, plans, steps). length plans + length steps)") auto

definition validateCaseSemantics :: "Plan \<Rightarrow> raw_message \<Rightarrow> plan_error option" where
  "validateCaseSemantics plan raw =
     (case unmarshal (dec_struct [(''steps'', dec_list dec_CaseStep zero_CaseStep)]) [] raw of
        None \<Rightarrow> Some CaseNotPreserving
      | Some steps \<Rightarrow>
        if int (length steps) \<noteq> expectedCount (pl_steps plan)
        then Some (CaseStepCount (length steps) (expectedCount (pl_steps plan)))
        else preserveLoop (slice_items (pl_forbidden_actions plan)) 0 0 (pl_steps plan) steps)"

definition dec_profile :: "string decoder" where
  "dec_profile = dec_struct [(''profile'', dec_string)]"

definition validateCaseOfPlan ::
  "(Plan \<Rightarrow> raw_message \<Rightarrow> plan_error option) \<Rightarrow> Plan \<Rightarrow> raw_message \<Rightarrow> plan_error option" where
  "validateCaseOfPlan research plan raw =
     (if unmarshal dec_profile [] raw = Some ''research-v2'' then research plan raw
      else validateCaseSemantics plan raw)"

record GenerationRequest =
  gr_plan_binding :: Binding
  gr_case :: raw_message

definition dec_GenerationRequest :: "GenerationRequest decoder" where
  "dec_GenerationRequest = dec_struct [
     (''plan_binding'', fld dec_Binding gr_plan_binding gr_plan_binding_update),
     (''case'', fld dec_raw gr_case gr_case_update)]"

definition validateGenerationArguments :: "Plan \<Rightarrow> raw_message \<Rightarrow> plan_error option" where
  "validateGenerationArguments plan arguments =
     (case unmarshal dec_GenerationRequest \<lparr>gr_plan_binding = zero_Binding, gr_case = None\<rparr> arguments of
        None \<Rightarrow> Some GenerateArgumentsInvalid
      | Some request \<Rightarrow>
        if gr_plan_binding request \<noteq> Plan_Binding plan then Some GenerationMismatch
        else validateCaseOfPlan validateDraftCaseSemantics plan (gr_case request))"

end
