(* ===== verification/PlanRepository.thy ===== *)
theory PlanRepository
  imports PlanDefinition
begin

section \<open>Repositories of plans (internal/taskplan: Repository, MemoryRepository)\<close>

text \<open>
  The interface \<open>Repository\<close> of the plan service is a record of operations on a state. The
  locale \<open>plan_repository\<close> holds the laws the service relies on; the repository in memory
  satisfies them. An operation returns the state also when it fails.
\<close>

subsection \<open>The interface\<close>

record 's plan_repo =
  repo_create :: "Plan \<Rightarrow> 's \<Rightarrow> (plan_error + Plan) \<times> 's"
  repo_current :: "'s \<Rightarrow> string \<Rightarrow> plan_error + Plan"
  repo_save :: "Plan \<Rightarrow> 's \<Rightarrow> plan_error option \<times> 's"

text \<open>
  What a save may change of a stored plan: its status, its steps, its bound generation and its
  time of update.
\<close>

definition same_plan :: "Plan \<Rightarrow> Plan \<Rightarrow> bool" where
  "same_plan p q \<longleftrightarrow>
     pl_id p = pl_id q \<and> pl_schema_version p = pl_schema_version q \<and>
     pl_run_id p = pl_run_id q \<and> pl_actor_user_id p = pl_actor_user_id q \<and>
     pl_project_id p = pl_project_id q \<and> pl_version p = pl_version q \<and>
     pl_goal p = pl_goal q \<and> pl_plan_sha256 p = pl_plan_sha256 q \<and>
     pl_max_side_effect p = pl_max_side_effect q \<and>
     pl_forbidden_actions p = pl_forbidden_actions q \<and> pl_created_at p = pl_created_at q"

lemma same_plan_refl [simp]: "same_plan p p"
  by (simp add: same_plan_def)

lemma same_plan_trans: "same_plan p q \<Longrightarrow> same_plan q r \<Longrightarrow> same_plan p r"
  by (simp add: same_plan_def)

lemma same_plan_sym: "same_plan p q \<Longrightarrow> same_plan q p"
  by (simp add: same_plan_def)

lemma same_plan_update [simp]:
  "same_plan (p\<lparr>pl_status := s\<rparr>) q = same_plan p q"
  "same_plan (p\<lparr>pl_steps := ss\<rparr>) q = same_plan p q"
  "same_plan (p\<lparr>pl_bound_generation_id := g\<rparr>) q = same_plan p q"
  "same_plan (p\<lparr>pl_updated_at := t\<rparr>) q = same_plan p q"
  by (simp_all add: same_plan_def)

text \<open>
  The laws. \<open>inv\<close> is the invariant of the repository, \<open>ids s run\<close> the plan ids it has used for
  a run. A created plan needs a fresh id (the service takes it from a hash of the run, the
  content and the time); only the current plan is saved.
\<close>

locale plan_repository =
  fixes repo :: "'s plan_repo"
    and inv :: "'s \<Rightarrow> bool"
    and ids :: "'s \<Rightarrow> string \<Rightarrow> string set"
  assumes current_known:
      "inv s \<Longrightarrow> repo_current repo s run = Inr p \<Longrightarrow>
         pl_run_id p = run \<and> pl_id p \<in> ids s run \<and> 1 \<le> pl_version p"
    and current_error:
      "inv s \<Longrightarrow> repo_current repo s run = Inl e \<Longrightarrow> e = PlanNotFound"
    and create:
      "inv s \<Longrightarrow> pl_id p \<notin> ids s (pl_run_id p) \<Longrightarrow>
         \<exists>s'. repo_create repo p s =
             (Inr (p\<lparr>pl_version := (case repo_current repo s (pl_run_id p) of
                 Inl _ \<Rightarrow> 1 | Inr q \<Rightarrow> pl_version q + 1)\<rparr>), s') \<and>
           inv s' \<and>
           repo_current repo s' (pl_run_id p) =
             Inr (p\<lparr>pl_version := (case repo_current repo s (pl_run_id p) of
                 Inl _ \<Rightarrow> 1 | Inr q \<Rightarrow> pl_version q + 1)\<rparr>) \<and>
           (\<forall>run. run \<noteq> pl_run_id p \<longrightarrow> repo_current repo s' run = repo_current repo s run)"
    and save:
      "inv s \<Longrightarrow> repo_current repo s (pl_run_id p) = Inr q \<Longrightarrow> same_plan p q \<Longrightarrow>
         \<exists>s'. repo_save repo p s = (None, s') \<and> inv s' \<and>
           repo_current repo s' (pl_run_id p) = Inr p \<and>
           (\<forall>run. run \<noteq> pl_run_id p \<longrightarrow> repo_current repo s' run = repo_current repo s run)"
begin

lemma save_current:
  assumes "inv s" and "repo_current repo s run = Inr q" and "same_plan p q"
  obtains s' where "repo_save repo p s = (None, s')" and "inv s'"
    and "repo_current repo s' run = Inr p"
    and "\<And>r. r \<noteq> run \<Longrightarrow> repo_current repo s' r = repo_current repo s r"
proof -
  from assms have "pl_run_id p = run"
    using current_known by (auto simp: same_plan_def)
  with save [OF assms(1), of p q] assms that show ?thesis by blast
qed

lemma create_current:
  assumes "inv s" and "pl_id p \<notin> ids s (pl_run_id p)"
  obtains v s' where "repo_create repo p s = (Inr (p\<lparr>pl_version := v\<rparr>), s')" and "inv s'"
    and "repo_current repo s' (pl_run_id p) = Inr (p\<lparr>pl_version := v\<rparr>)"
    and "\<And>r. r \<noteq> pl_run_id p \<Longrightarrow> repo_current repo s' r = repo_current repo s r"
    and "v = (case repo_current repo s (pl_run_id p) of Inl _ \<Rightarrow> 1 | Inr q \<Rightarrow> pl_version q + 1)"
    and "1 \<le> v"
proof -
  have "1 \<le> (case repo_current repo s (pl_run_id p) of Inl _ \<Rightarrow> 1 | Inr q \<Rightarrow> pl_version q + 1)"
    using current_known [OF assms(1), of "pl_run_id p"] by (fastforce split: sum.splits)
  with create [OF assms] that show ?thesis by blast
qed

end

subsection \<open>The repository in memory\<close>

text \<open>\<open>plans map[string][]Plan\<close>: the versions of every run, oldest first.\<close>

type_synonym memory_plans = "string \<Rightarrow> Plan list"

definition mem_CreateVersion :: "Plan \<Rightarrow> memory_plans \<Rightarrow> (plan_error + Plan) \<times> memory_plans" where
  "mem_CreateVersion plan m =
     (let versions = m (pl_run_id plan);
          old = (if versions = [] then []
            else butlast versions @ [(last versions)\<lparr>pl_status := StatusSuperseded\<rparr>]);
          created = plan\<lparr>pl_version := int (length versions) + 1\<rparr>
      in (Inr (clonePlan created), m(pl_run_id plan := old @ [clonePlan created])))"

definition mem_GetCurrent :: "memory_plans \<Rightarrow> string \<Rightarrow> plan_error + Plan" where
  "mem_GetCurrent m run_id =
     (let versions = m run_id in
      if versions = [] then Inl PlanNotFound else Inr (clonePlan (last versions)))"

definition mem_Save :: "Plan \<Rightarrow> memory_plans \<Rightarrow> plan_error option \<times> memory_plans" where
  "mem_Save plan m =
     (let versions = m (pl_run_id plan) in
      case find_index (\<lambda>v. pl_id v = pl_id plan) versions of
        None \<Rightarrow> (Some PlanNotFound, m)
      | Some index \<Rightarrow> (None, m(pl_run_id plan := versions[index := clonePlan plan])))"

definition memory_repo :: "memory_plans plan_repo" where
  "memory_repo = \<lparr>repo_create = mem_CreateVersion, repo_current = mem_GetCurrent,
     repo_save = mem_Save\<rparr>"

definition NewMemoryRepository :: memory_plans where
  "NewMemoryRepository = (\<lambda>_. [])"

text \<open>
  The invariant: the versions of a run are numbered from 1, carry distinct ids, and all but the
  last are superseded.
\<close>

definition versions_ok :: "string \<Rightarrow> Plan list \<Rightarrow> bool" where
  "versions_ok run vs \<longleftrightarrow>
     distinct (map pl_id vs) \<and> (\<forall>i < length vs. pl_version (vs ! i) = int i + 1) \<and>
     (\<forall>p \<in> set vs. pl_run_id p = run) \<and>
     (\<forall>p \<in> set (butlast vs). pl_status p = StatusSuperseded)"

definition memory_inv :: "memory_plans \<Rightarrow> bool" where
  "memory_inv m \<longleftrightarrow> (\<forall>run. versions_ok run (m run))"

definition memory_ids :: "memory_plans \<Rightarrow> string \<Rightarrow> string set" where
  "memory_ids m run = pl_id ` set (m run)"

lemma versions_ok_last:
  assumes "versions_ok run vs" and "vs \<noteq> []"
  shows "pl_version (last vs) = int (length vs)"
proof -
  from assms have "pl_version (vs ! (length vs - 1)) = int (length vs - 1) + 1"
    unfolding versions_ok_def by (metis diff_less length_greater_0_conv zero_less_one)
  with assms(2) show ?thesis by (simp add: last_conv_nth of_nat_diff Suc_le_eq)
qed

lemma versions_ok_snoc_iff:
  "versions_ok run (ws @ [w]) \<longleftrightarrow>
     distinct (map pl_id ws) \<and> pl_id w \<notin> pl_id ` set ws \<and>
     (\<forall>i < length ws. pl_version (ws ! i) = int i + 1) \<and>
     pl_version w = int (length ws) + 1 \<and>
     (\<forall>p \<in> set ws. pl_run_id p = run \<and> pl_status p = StatusSuperseded) \<and> pl_run_id w = run"
  by (auto simp: versions_ok_def nth_append less_Suc_eq)

lemma versions_ok_append:
  assumes "versions_ok run vs" and "vs \<noteq> []" and "pl_id p \<notin> pl_id ` set vs"
    and "pl_run_id p = run" and "pl_version p = int (length vs) + 1"
  shows "versions_ok run ((butlast vs @ [(last vs)\<lparr>pl_status := StatusSuperseded\<rparr>]) @ [p])"
proof -
  obtain ws w where vs: "vs = ws @ [w]"
    using assms(2) by (metis append_butlast_last_id)
  from assms(1) have "versions_ok run (ws @ [w\<lparr>pl_status := StatusSuperseded\<rparr>])"
    and "\<forall>p \<in> set ws. pl_status p = StatusSuperseded"
    by (auto simp: vs versions_ok_snoc_iff)
  then show ?thesis
    unfolding versions_ok_snoc_iff [of run _ p] using assms(3-5)
    by (auto simp: vs versions_ok_snoc_iff nth_append less_Suc_eq)
qed

lemma versions_ok_single:
  "pl_run_id p = run \<Longrightarrow> pl_version p = 1 \<Longrightarrow> versions_ok run [p]"
  by (simp add: versions_ok_def)

lemma find_index_last:
  assumes "distinct (map f vs)" and "vs \<noteq> []" and "f (last vs) = x"
  shows "find_index (\<lambda>v. f v = x) vs = Some (length vs - 1)"
proof -
  have "f (vs ! j) \<noteq> x" if "j < length vs - 1" for j
  proof -
    from that have "map f vs ! j \<noteq> map f vs ! (length vs - 1)"
      using assms(1) by (subst nth_eq_iff_index_eq) auto
    with that assms(2,3) show ?thesis by (simp add: last_conv_nth)
  qed
  with assms(2,3) show ?thesis
    by (auto simp: find_index_Some_iff last_conv_nth)
qed

lemma versions_ok_replace_last:
  assumes "versions_ok run vs" and "vs \<noteq> []" and "same_plan p (last vs)"
  shows "versions_ok run (vs[length vs - 1 := p])"
proof -
  obtain ws w where vs: "vs = ws @ [w]"
    using assms(2) by (metis append_butlast_last_id)
  show ?thesis
    using assms by (simp add: vs versions_ok_snoc_iff same_plan_def)
qed

interpretation memory: plan_repository memory_repo memory_inv memory_ids
proof unfold_locales
  fix s run p
  assume "memory_inv s" and "repo_current memory_repo s run = Inr p"
  then have ok: "versions_ok run (s run)" and ne: "s run \<noteq> []" and p: "p = last (s run)"
    by (auto simp: memory_inv_def memory_repo_def mem_GetCurrent_def clonePlan_def Let_def
        split: if_splits)
  then show "pl_run_id p = run \<and> pl_id p \<in> memory_ids s run \<and> 1 \<le> pl_version p"
    using versions_ok_last [OF ok ne] by (auto simp: versions_ok_def memory_ids_def Suc_le_eq)
next
  fix s run e
  assume "repo_current memory_repo s run = Inl e"
  then show "e = PlanNotFound"
    by (auto simp: memory_repo_def mem_GetCurrent_def Let_def split: if_splits)
next
  fix s and p :: Plan
  assume inv: "memory_inv s" and fresh: "pl_id p \<notin> memory_ids s (pl_run_id p)"
  let ?vs = "s (pl_run_id p)"
  let ?v = "case repo_current memory_repo s (pl_run_id p) of
      Inl _ \<Rightarrow> 1 | Inr q \<Rightarrow> pl_version q + 1"
  let ?s' = "snd (mem_CreateVersion p s)"
  from inv have ok: "versions_ok (pl_run_id p) ?vs" by (simp add: memory_inv_def)
  have v: "?v = int (length ?vs) + 1"
    using versions_ok_last [OF ok]
    by (cases "?vs = []") (auto simp: memory_repo_def mem_GetCurrent_def clonePlan_def Let_def)
  have new: "versions_ok (pl_run_id p) (?s' (pl_run_id p))"
    using versions_ok_append [OF ok, of "p\<lparr>pl_version := int (length ?vs) + 1\<rparr>"] fresh
    by (cases "?vs = []")
      (auto simp: mem_CreateVersion_def clonePlan_def Let_def memory_ids_def versions_ok_single)
  with inv have "memory_inv ?s'"
    by (auto simp: memory_inv_def mem_CreateVersion_def Let_def)
  then show "\<exists>s'. repo_create memory_repo p s = (Inr (p\<lparr>pl_version := ?v\<rparr>), s') \<and> memory_inv s' \<and>
      repo_current memory_repo s' (pl_run_id p) = Inr (p\<lparr>pl_version := ?v\<rparr>) \<and>
      (\<forall>run. run \<noteq> pl_run_id p \<longrightarrow>
        repo_current memory_repo s' run = repo_current memory_repo s run)"
    unfolding v by (intro exI [of _ ?s'])
      (auto simp: memory_repo_def mem_CreateVersion_def mem_GetCurrent_def clonePlan_def Let_def)
next
  fix s and p q :: Plan
  assume inv: "memory_inv s" and cur: "repo_current memory_repo s (pl_run_id p) = Inr q"
    and same: "same_plan p q"
  let ?vs = "s (pl_run_id p)"
  let ?s' = "s(pl_run_id p := ?vs[length ?vs - 1 := p])"
  from inv have ok: "versions_ok (pl_run_id p) ?vs" by (simp add: memory_inv_def)
  from cur have ne: "?vs \<noteq> []" and q: "q = last ?vs"
    by (auto simp: memory_repo_def mem_GetCurrent_def clonePlan_def Let_def split: if_splits)
  have "find_index (\<lambda>v. pl_id v = pl_id p) ?vs = Some (length ?vs - 1)"
    using ok ne same q by (intro find_index_last) (auto simp: versions_ok_def same_plan_def)
  then have save: "repo_save memory_repo p s = (None, ?s')"
    by (simp add: memory_repo_def mem_Save_def Let_def clonePlan_def)
  have "versions_ok (pl_run_id p) (?vs[length ?vs - 1 := p])"
    using versions_ok_replace_last [OF ok ne] same q by simp
  with inv have "memory_inv ?s'" by (auto simp: memory_inv_def)
  with save ne show "\<exists>s'. repo_save memory_repo p s = (None, s') \<and> memory_inv s' \<and>
      repo_current memory_repo s' (pl_run_id p) = Inr p \<and>
      (\<forall>run. run \<noteq> pl_run_id p \<longrightarrow>
        repo_current memory_repo s' run = repo_current memory_repo s run)"
    by (intro exI [of _ ?s'])
      (auto simp: memory_repo_def mem_GetCurrent_def clonePlan_def Let_def last_list_update)
qed

lemma memory_inv_new [simp]: "memory_inv NewMemoryRepository"
  by (simp add: memory_inv_def NewMemoryRepository_def versions_ok_def)

end
