(* ===== verification/PlanGrounding.thy ===== *)
theory PlanGrounding
  imports PlanDefinition
begin

section \<open>Grounding a plan in exploration results (internal/taskplan/service.go)\<close>

text \<open>
  Before a plan is compiled every step is grounded: the agent explores the page with the
  tools \<open>explore_page\<close> and \<open>explore_flow\<close> for a window of the next pending steps. This theory
  models what the control plane checks before such a call (the window, the owners of the
  probe actions) and what it reads from the result (evidence texts and target bindings).
\<close>

subsection \<open>The window of an exploration\<close>

definition stepByID :: "Step list \<Rightarrow> string \<Rightarrow> Step option" where
  "stepByID steps i = find (\<lambda>s. st_id s = i) steps"

definition planStepIndex :: "Step list \<Rightarrow> string \<Rightarrow> nat option" where
  "planStepIndex steps i = find_index (\<lambda>s. st_id s = i) steps"

definition planStepIDs :: "raw_message \<Rightarrow> plan_error + string list" where
  "planStepIDs arguments =
     (case unmarshal (dec_struct [(''plan_step_ids'', dec_list dec_string [])]) [] arguments of
        None \<Rightarrow> Inl PlanStepIdsRequired
      | Some ids \<Rightarrow> if ids = [] then Inl PlanStepIdsRequired else Inr ids)"

definition stepIDs :: "Step list \<Rightarrow> string list" where
  "stepIDs steps = map st_id steps"

definition pendingStepIDs :: "Plan \<Rightarrow> string list" where
  "pendingStepIDs plan = map st_id (filter (\<lambda>s. st_status s \<noteq> StepGrounded) (pl_steps plan))"

text \<open>The loop that compares the submitted ids with the plan from the first pending step on.\<close>

fun window_mismatch :: "string list \<Rightarrow> Step list \<Rightarrow> plan_error option" where
  "window_mismatch (i # ids) (step # steps) =
     (if st_id step \<noteq> i then Some (WindowNotContiguous (st_id step) i)
      else window_mismatch ids steps)"
| "window_mismatch _ _ = None"

definition contiguousPendingSteps :: "Plan \<Rightarrow> string list \<Rightarrow> plan_error + Step list" where
  "contiguousPendingSteps plan ids =
     (case find_index (\<lambda>s. st_status s \<noteq> StepGrounded) (pl_steps plan) of
        None \<Rightarrow> Inl AllStepsGrounded
      | Some first \<Rightarrow>
        (case ids of
           [] \<Rightarrow> Inl (CaseIndexOutOfRange 0)
         | i # _ \<Rightarrow>
           if planStepIndex (pl_steps plan) i \<noteq> Some first
           then Inl (ExpectedNextStep (st_id (pl_steps plan ! first)) i)
           else if first + length ids > length (pl_steps plan) then Inl WindowTooLong
           else (case window_mismatch ids (drop first (pl_steps plan)) of
               Some e \<Rightarrow> Inl e
             | None \<Rightarrow> Inr (take (length ids) (drop first (pl_steps plan))))))"

subsection \<open>Probe actions\<close>

record ProbeCondition =
  pc_type :: string
  pc_expected :: string

record ProbeAction =
  pa_plan_step_id :: string
  pa_action :: string
  pa_locator :: json
  pa_candidate_ref :: "CandidateRef option"
  pa_value :: string
  pa_condition :: ProbeCondition

record ProbeGroup =
  pg_description :: string
  pg_actions :: "ProbeAction list"

record ProbeFlowRequest =
  pf_schema_version :: string
  pf_steps :: "ProbeGroup list"

definition dec_ProbeAction :: "ProbeAction decoder" where
  "dec_ProbeAction = dec_struct [
     (''plan_step_id'', fld dec_string pa_plan_step_id pa_plan_step_id_update),
     (''action'', fld dec_string pa_action pa_action_update),
     (''locator'', fld dec_any pa_locator pa_locator_update),
     (''candidate_ref'', fld (dec_ptr dec_CandidateRef zero_CandidateRef)
        pa_candidate_ref pa_candidate_ref_update),
     (''value'', fld dec_string pa_value pa_value_update),
     (''condition'', fld (dec_struct [
        (''type'', fld dec_string pc_type pc_type_update),
        (''expected'', fld dec_string pc_expected pc_expected_update)])
        pa_condition pa_condition_update)]"

definition zero_ProbeAction :: ProbeAction where
  "zero_ProbeAction = \<lparr>pa_plan_step_id = [], pa_action = [], pa_locator = JNull,
     pa_candidate_ref = None, pa_value = [], pa_condition = \<lparr>pc_type = [], pc_expected = []\<rparr>\<rparr>"

definition dec_ProbeGroup :: "ProbeGroup decoder" where
  "dec_ProbeGroup = dec_struct [
     (''description'', fld dec_string pg_description pg_description_update),
     (''actions'', fld (dec_list dec_ProbeAction zero_ProbeAction) pg_actions pg_actions_update)]"

definition dec_ProbeFlowRequest :: "ProbeFlowRequest decoder" where
  "dec_ProbeFlowRequest = dec_struct [
     (''schema_version'', fld dec_string pf_schema_version pf_schema_version_update),
     (''steps'', fld (dec_list dec_ProbeGroup \<lparr>pg_description = [], pg_actions = []\<rparr>)
        pf_steps pf_steps_update)]"

definition probeActionMatches :: "string \<Rightarrow> string \<Rightarrow> bool" where
  "probeActionMatches planned actual =
     (let planned = normalize planned; actual = normalize actual in
      planned = actual \<or>
      actual = ''wait_for'' \<and>
        (requiresTargetBinding planned \<or>
         planned \<in> {''assert_text'', ''assert_url_contains'', ''capture_text''}))"

definition probeValueMatches :: "Step \<Rightarrow> string \<Rightarrow> string \<Rightarrow> bool" where
  "probeValueMatches step action val =
     (if normalize action = ''wait_for'' \<and> normalize (st_action step) \<noteq> ''wait_for'' then True
      else st_value step = [] \<or> TrimSpace (st_value step) = TrimSpace val)"

definition probeActionKey :: "int \<Rightarrow> int \<Rightarrow> string" where
  "probeActionKey step_index action_index = itoa step_index @ '':'' @ itoa action_index"

text \<open>
  One probe action: \<open>None\<close> when it belongs to no step of the window (a free wait, or an action
  of a step that is grounded already).
\<close>

definition candidate_ref_error :: "string \<Rightarrow> ProbeAction \<Rightarrow> plan_error option" where
  "candidate_ref_error version action =
     (case pa_candidate_ref action of
        None \<Rightarrow> None
      | Some ref \<Rightarrow>
        if version \<noteq> GroundingQueryV2 then Some (FlowSchemaVersion (pa_plan_step_id action))
        else if pa_plan_step_id action = [] then Some FlowRefRequiresStep
        else map_option FlowRefInvalid (CandidateRef_Validate ref))"

definition probe_value :: "ProbeAction \<Rightarrow> string" where
  "probe_value action =
     (if pa_value action = [] \<and> EqualFold (pc_type (pa_condition action)) ''value_equals''
      then pc_expected (pa_condition action) else pa_value action)"

definition probeActionOwner ::
  "Plan \<Rightarrow> Step list \<Rightarrow> string \<Rightarrow> string \<Rightarrow> ProbeAction \<Rightarrow> plan_error + string option" where
  "probeActionOwner plan pending version description action =
     (let val = probe_value action; waits = (normalize (pa_action action) = ''wait_for'') in
      if (pa_locator action = JNull) = (pa_candidate_ref action = None) then Inl FlowLocatorOrRef
      else case candidate_ref_error version action of
        Some e \<Rightarrow> Inl e
      | None \<Rightarrow>
        if forbidden (slice_items (pl_forbidden_actions plan))
             (pa_action action @ '' '' @ val @ '' '' @ description)
        then Inl FlowForbidden
        else if pa_plan_step_id action = [] then
          (if \<not> waits then Inl (FlowRequiresStep (pa_action action)) else Inr None)
        else (case stepByID (pl_steps plan) (pa_plan_step_id action) of
            None \<Rightarrow> Inl (FlowUnknownStep (pa_plan_step_id action))
          | Some matched \<Rightarrow>
            if \<not> probeActionMatches (st_action matched) (pa_action action)
            then Inl (FlowActionMismatch (pa_action action) (pa_plan_step_id action))
            else if (normalize (pa_action action) \<noteq> ''click'' \<or> pa_candidate_ref action = None) \<and>
              \<not> probeValueMatches matched (pa_action action) val
            then Inl (FlowValueMismatch val (pa_plan_step_id action))
            else if \<not> waits \<and>
              (st_side_effect matched = SideEffectExternal \<or> st_side_effect matched = SideEffectUnknown)
            then Inl (FlowSideEffect (st_id matched) (st_side_effect matched))
            else if st_status matched = StepGrounded then Inr None
            else if stepByID pending (st_id matched) = None
            then Inl (FlowOutsideWindow (pa_plan_step_id action))
            else Inr (Some (st_id matched))))"

text \<open>The loops over the groups and the actions; the map grows under the keys \<open>group:action\<close>.\<close>

fun groupActionOwners ::
  "Plan \<Rightarrow> Step list \<Rightarrow> string \<Rightarrow> string \<Rightarrow> nat \<Rightarrow> nat \<Rightarrow> ProbeAction list
   \<Rightarrow> (string \<times> string) list \<Rightarrow> plan_error + (string \<times> string) list" where
  "groupActionOwners plan pending version description i j [] owners = Inr owners"
| "groupActionOwners plan pending version description i j (action # actions) owners =
     (case probeActionOwner plan pending version description action of
        Inl e \<Rightarrow> Inl e
      | Inr None \<Rightarrow>
          groupActionOwners plan pending version description i (Suc j) actions owners
      | Inr (Some owner) \<Rightarrow>
          groupActionOwners plan pending version description i (Suc j) actions
            (assoc_put (probeActionKey (int i) (int j)) owner owners))"

fun flowActionOwners ::
  "Plan \<Rightarrow> Step list \<Rightarrow> string \<Rightarrow> nat \<Rightarrow> ProbeGroup list
   \<Rightarrow> (string \<times> string) list \<Rightarrow> plan_error + (string \<times> string) list" where
  "flowActionOwners plan pending version i [] owners = Inr owners"
| "flowActionOwners plan pending version i (g # groups) owners =
     (case groupActionOwners plan pending version (pg_description g) i 0 (pg_actions g) owners of
        Inl e \<Rightarrow> Inl e
      | Inr owners' \<Rightarrow> flowActionOwners plan pending version (Suc i) groups owners')"

definition mapProbeActionOwners ::
  "Plan \<Rightarrow> Step list \<Rightarrow> raw_message \<Rightarrow> plan_error + (string \<times> string) list" where
  "mapProbeActionOwners plan pending arguments =
     (case unmarshal dec_ProbeFlowRequest \<lparr>pf_schema_version = [], pf_steps = []\<rparr> arguments of
        None \<Rightarrow> Inl FlowArgumentsInvalid
      | Some request \<Rightarrow>
          flowActionOwners plan pending (pf_schema_version request) 0 (pf_steps request) [])"

definition authorizeExploration :: "Plan \<Rightarrow> string \<Rightarrow> raw_message \<Rightarrow> plan_error option" where
  "authorizeExploration plan tool arguments =
     (if pl_status plan \<noteq> StatusGrounding then Some (ProbeRequiresGrounding tool (pl_status plan))
      else (case planStepIDs arguments of
          Inl e \<Rightarrow> Some e
        | Inr ids \<Rightarrow> (case contiguousPendingSteps plan ids of
              Inl e \<Rightarrow> Some e
            | Inr steps \<Rightarrow>
              if tool \<noteq> ''explore_flow'' then None
              else (case mapProbeActionOwners plan steps arguments of
                  Inl e \<Rightarrow> Some e
                | Inr _ \<Rightarrow> None))))"

subsection \<open>Evidence in the result of an exploration\<close>

definition semanticTargetMatches :: "string \<Rightarrow> string \<Rightarrow> bool" where
  "semanticTargetMatches planned actual =
     (let planned = normalize planned; actual = normalize actual in
      planned = actual \<or>
      (3 \<le> RuneCount planned \<and> 3 \<le> RuneCount actual \<and>
       (Contains planned actual \<or> Contains actual planned)))"

definition isSelectorTarget :: "string \<Rightarrow> bool" where
  "isSelectorTarget target =
     list_ex (HasPrefix (TrimSpace target)) [''#'', ''.'', ''['', ''//'', ''css='', ''xpath='']"

fun jsonContainsText :: "json \<Rightarrow> string \<Rightarrow> bool" where
  "jsonContainsText (JStr typed) target = Contains (normalize typed) target"
| "jsonContainsText (JObj typed) target = list_ex (\<lambda>p. jsonContainsText (snd p) target) typed"
| "jsonContainsText (JArr typed) target = list_ex (\<lambda>j. jsonContainsText j target) typed"
| "jsonContainsText _ target = False"

definition resultContainsStepEvidence :: "json \<Rightarrow> Step \<Rightarrow> bool" where
  "resultContainsStepEvidence decoded step =
     (list_ex (\<lambda>expected. normalize expected \<noteq> [] \<and> jsonContainsText decoded (normalize expected))
        [st_target step, st_value step] \<or>
      (st_action step = ''goto'' \<and> jsonContainsText decoded (normalize (st_intent step))))"

record EvidenceAction =
  ea_action :: string
  ea_target :: string
  ea_status :: string
  ea_phase :: string
  ea_target_evidence :: "json list"

record EvidencePage =
  ep_url :: string
  ep_status :: string
  ep_a11y_nodes :: "json list"
  ep_observation :: json
  ep_actions :: "EvidenceAction list"

text \<open>The result itself has the members of a page (but for the actions) and the pages.\<close>

record EvidenceResult =
  ex_url :: string
  ex_status :: string
  ex_a11y_nodes :: "json list"
  ex_observation :: json
  ex_pages :: "EvidencePage list"

definition dec_EvidenceAction :: "EvidenceAction decoder" where
  "dec_EvidenceAction = dec_struct [
     (''action'', fld dec_string ea_action ea_action_update),
     (''target'', fld dec_string ea_target ea_target_update),
     (''status'', fld dec_string ea_status ea_status_update),
     (''phase'', fld dec_string ea_phase ea_phase_update),
     (''target_evidence'', fld (dec_list dec_any JNull) ea_target_evidence ea_target_evidence_update)]"

definition zero_EvidenceAction :: EvidenceAction where
  "zero_EvidenceAction = \<lparr>ea_action = [], ea_target = [], ea_status = [], ea_phase = [],
     ea_target_evidence = []\<rparr>"

definition dec_EvidencePage :: "EvidencePage decoder" where
  "dec_EvidencePage = dec_struct [
     (''url'', fld dec_string ep_url ep_url_update),
     (''status'', fld dec_string ep_status ep_status_update),
     (''a11y_nodes'', fld (dec_list dec_any JNull) ep_a11y_nodes ep_a11y_nodes_update),
     (''observation_v2'', fld dec_any ep_observation ep_observation_update),
     (''actions'', fld (dec_list dec_EvidenceAction zero_EvidenceAction) ep_actions ep_actions_update)]"

definition zero_EvidencePage :: EvidencePage where
  "zero_EvidencePage = \<lparr>ep_url = [], ep_status = [], ep_a11y_nodes = [], ep_observation = JNull,
     ep_actions = []\<rparr>"

definition dec_EvidenceResult :: "EvidenceResult decoder" where
  "dec_EvidenceResult = dec_struct [
     (''url'', fld dec_string ex_url ex_url_update),
     (''status'', fld dec_string ex_status ex_status_update),
     (''a11y_nodes'', fld (dec_list dec_any JNull) ex_a11y_nodes ex_a11y_nodes_update),
     (''observation_v2'', fld dec_any ex_observation ex_observation_update),
     (''pages'', fld (dec_list dec_EvidencePage zero_EvidencePage) ex_pages ex_pages_update)]"

definition zero_EvidenceResult :: EvidenceResult where
  "zero_EvidenceResult = \<lparr>ex_url = [], ex_status = [], ex_a11y_nodes = [], ex_observation = JNull,
     ex_pages = []\<rparr>"

text \<open>An action of a result that succeeded, seen after it ran.\<close>

definition succeeded_after :: "string \<Rightarrow> string \<Rightarrow> bool" where
  "succeeded_after status phase \<longleftrightarrow> EqualFold status ''success'' \<and> EqualFold phase ''after''"

definition page_evidence :: "EvidencePage \<Rightarrow> json list" where
  "page_evidence page =
     (if \<not> EqualFold (ep_status page) ''error''
      then [JStr (ep_url page), JArr (ep_a11y_nodes page), ep_observation page] else []) @
     concat (map (\<lambda>a.
       if succeeded_after (ea_status a) (ea_phase a)
       then [JStr (ea_action a), JStr (ea_target a), JArr (ea_target_evidence a)] else [])
       (ep_actions page))"

definition successfulExplorationEvidence :: "raw_message \<Rightarrow> json list" where
  "successfulExplorationEvidence raw =
     (case unmarshal dec_EvidenceResult zero_EvidenceResult raw of
        None \<Rightarrow> []
      | Some r \<Rightarrow>
          (if \<not> EqualFold (ex_status r) ''error''
           then [JStr (ex_url r), JArr (ex_a11y_nodes r), ex_observation r] else []) @
          concat (map page_evidence (ex_pages r)))"

text \<open>The keys of the probe actions that succeeded.\<close>

record FlowAction =
  fa_step_index :: int
  fa_action_index :: int
  fa_status :: string
  fa_phase :: string

definition dec_FlowAction :: "FlowAction decoder" where
  "dec_FlowAction = dec_struct [
     (''step_index'', fld dec_int fa_step_index fa_step_index_update),
     (''action_index'', fld dec_int fa_action_index fa_action_index_update),
     (''status'', fld dec_string fa_status fa_status_update),
     (''phase'', fld dec_string fa_phase fa_phase_update)]"

definition dec_flow_pages :: "FlowAction list list decoder" where
  "dec_flow_pages = dec_struct [
     (''pages'', dec_list (dec_struct [
        (''actions'', dec_list dec_FlowAction
           \<lparr>fa_step_index = 0, fa_action_index = 0, fa_status = [], fa_phase = []\<rparr>)]) [])]"

definition successfulFlowActions :: "raw_message \<Rightarrow> string list" where
  "successfulFlowActions raw =
     (case unmarshal dec_flow_pages [] raw of
        None \<Rightarrow> []
      | Some pages \<Rightarrow>
          map (\<lambda>a. probeActionKey (fa_step_index a) (fa_action_index a))
            (filter (\<lambda>a. succeeded_after (fa_status a) (fa_phase a)) (concat pages)))"

subsection \<open>Observed elements\<close>

record observedLocator =
  ol_candidate_id :: string
  ol_locator :: LocatorSpec
  ol_provenance :: string
  ol_observed_count :: int

record observedA11y =
  oa_role :: string
  oa_name :: string

record observedDOM =
  od_tag :: string
  od_attrs :: "(string \<times> string) list"
  od_text :: string

record observedRuntime =
  or_visible :: bool
  or_enabled :: bool
  or_editable :: bool

record observedElement =
  oe_element_ref :: string
  oe_context_path :: ContextPath
  oe_a11y :: "observedA11y option"
  oe_dom :: "observedDOM option"
  oe_runtime :: observedRuntime
  oe_locators :: "observedLocator list"

record observedSnapshot =
  os_schema_version :: string
  os_probe_id :: string
  os_observation_id :: string
  os_state_id :: string
  os_state_sha256 :: string
  os_elements :: "observedElement list"

record observedAction =
  oc_step_index :: int
  oc_action_index :: int
  oc_action :: string
  oc_target :: string
  oc_status :: string
  oc_phase :: string
  oc_resolved_target :: "ResolvedTargetEvidence option"

record observedPage =
  op_observation :: observedSnapshot
  op_actions :: "observedAction list"

record observedFlowResult =
  of_observation :: observedSnapshot
  of_pages :: "observedPage list"

definition dec_observedLocator :: "observedLocator decoder" where
  "dec_observedLocator = dec_struct [
     (''candidate_id'', fld dec_string ol_candidate_id ol_candidate_id_update),
     (''locator'', fld dec_LocatorSpec ol_locator ol_locator_update),
     (''provenance'', fld dec_string ol_provenance ol_provenance_update),
     (''observed_count'', fld dec_int ol_observed_count ol_observed_count_update)]"

definition zero_observedLocator :: observedLocator where
  "zero_observedLocator = \<lparr>ol_candidate_id = [], ol_locator = zero_LocatorSpec,
     ol_provenance = [], ol_observed_count = 0\<rparr>"

definition dec_observedA11y :: "observedA11y decoder" where
  "dec_observedA11y = dec_struct [
     (''role'', fld dec_string oa_role oa_role_update),
     (''name'', fld dec_string oa_name oa_name_update)]"

definition dec_observedDOM :: "observedDOM decoder" where
  "dec_observedDOM = dec_struct [
     (''tag'', fld dec_string od_tag od_tag_update),
     (''attrs'', fld (dec_map dec_string []) od_attrs od_attrs_update),
     (''text'', fld dec_string od_text od_text_update)]"

definition dec_observedRuntime :: "observedRuntime decoder" where
  "dec_observedRuntime = dec_struct [
     (''visible'', fld dec_bool or_visible or_visible_update),
     (''enabled'', fld dec_bool or_enabled or_enabled_update),
     (''editable'', fld dec_bool or_editable or_editable_update)]"

definition dec_observedElement :: "observedElement decoder" where
  "dec_observedElement = dec_struct [
     (''element_ref'', fld dec_string oe_element_ref oe_element_ref_update),
     (''context_path'', fld dec_ContextPath oe_context_path oe_context_path_update),
     (''a11y'', fld (dec_ptr dec_observedA11y \<lparr>oa_role = [], oa_name = []\<rparr>)
        oe_a11y oe_a11y_update),
     (''dom'', fld (dec_ptr dec_observedDOM \<lparr>od_tag = [], od_attrs = [], od_text = []\<rparr>)
        oe_dom oe_dom_update),
     (''runtime'', fld dec_observedRuntime oe_runtime oe_runtime_update),
     (''locators'', fld (dec_list dec_observedLocator zero_observedLocator)
        oe_locators oe_locators_update)]"

definition zero_observedElement :: observedElement where
  "zero_observedElement = \<lparr>oe_element_ref = [], oe_context_path = zero_ContextPath,
     oe_a11y = None, oe_dom = None,
     oe_runtime = \<lparr>or_visible = False, or_enabled = False, or_editable = False\<rparr>,
     oe_locators = []\<rparr>"

definition dec_observedSnapshot :: "observedSnapshot decoder" where
  "dec_observedSnapshot = dec_struct [
     (''schema_version'', fld dec_string os_schema_version os_schema_version_update),
     (''probe_id'', fld dec_string os_probe_id os_probe_id_update),
     (''observation_id'', fld dec_string os_observation_id os_observation_id_update),
     (''page_state'', dec_struct [
        (''state_id'', fld dec_string os_state_id os_state_id_update),
        (''state_sha256'', fld dec_string os_state_sha256 os_state_sha256_update)]),
     (''elements'', fld (dec_list dec_observedElement zero_observedElement)
        os_elements os_elements_update)]"

definition zero_observedSnapshot :: observedSnapshot where
  "zero_observedSnapshot = \<lparr>os_schema_version = [], os_probe_id = [], os_observation_id = [],
     os_state_id = [], os_state_sha256 = [], os_elements = []\<rparr>"

definition dec_observedAction :: "observedAction decoder" where
  "dec_observedAction = dec_struct [
     (''step_index'', fld dec_int oc_step_index oc_step_index_update),
     (''action_index'', fld dec_int oc_action_index oc_action_index_update),
     (''action'', fld dec_string oc_action oc_action_update),
     (''target'', fld dec_string oc_target oc_target_update),
     (''status'', fld dec_string oc_status oc_status_update),
     (''phase'', fld dec_string oc_phase oc_phase_update),
     (''resolved_target'', fld (dec_ptr dec_ResolvedTargetEvidence zero_ResolvedTargetEvidence)
        oc_resolved_target oc_resolved_target_update)]"

definition zero_observedAction :: observedAction where
  "zero_observedAction = \<lparr>oc_step_index = 0, oc_action_index = 0, oc_action = [], oc_target = [],
     oc_status = [], oc_phase = [], oc_resolved_target = None\<rparr>"

definition dec_observedFlowResult :: "observedFlowResult decoder" where
  "dec_observedFlowResult = dec_struct [
     (''observation_v2'', fld dec_observedSnapshot of_observation of_observation_update),
     (''pages'', fld (dec_list (dec_struct [
        (''observation_v2'', fld dec_observedSnapshot op_observation op_observation_update),
        (''actions'', fld (dec_list dec_observedAction zero_observedAction)
           op_actions op_actions_update)])
        \<lparr>op_observation = zero_observedSnapshot, op_actions = []\<rparr>) of_pages of_pages_update)]"

definition zero_observedFlowResult :: observedFlowResult where
  "zero_observedFlowResult = \<lparr>of_observation = zero_observedSnapshot, of_pages = []\<rparr>"

subsection \<open>Target bindings from a flow\<close>

definition buildResolvedTargetBinding ::
  "Plan \<Rightarrow> Step \<Rightarrow> ResolvedTargetEvidence \<Rightarrow> TargetBinding option" where
  "buildResolvedTargetBinding plan step resolved =
     (if ResolvedTargetEvidence_Validate resolved \<noteq> None \<or>
         ev_action_status resolved \<noteq> ''succeeded'' \<or>
         ev_plan_step_id resolved \<noteq> st_id step \<or>
         \<not> probeActionMatches (st_action step) (ev_action resolved)
      then None
      else (case NewTargetBinding
          \<lparr>tb_schema_version = [], tb_binding_id = [],
           tb_plan_id = pl_id plan, tb_plan_version = pl_version plan,
           tb_plan_step_id = st_id step, tb_probe_id = ev_probe_id resolved,
           tb_semantic_target = st_target step, tb_action = st_action step,
           tb_page_state_id = ev_page_state_id resolved,
           tb_observation_id = ev_observation_id resolved,
           tb_observation_sha256 = ev_page_state_sha256 resolved,
           tb_element_refs = [ev_element_ref resolved],
           tb_candidates = [\<lparr>
             lc_candidate_id = ev_candidate_id resolved,
             lc_element_ref = ev_element_ref resolved,
             lc_context_path = ev_context_path resolved,
             lc_locator = ev_locator resolved,
             lc_provenance = ev_provenance resolved,
             lc_observed_count = ev_runtime_match_count resolved,
             lc_visible = ev_visible resolved,
             lc_enabled = ev_enabled resolved,
             lc_score = ev_score resolved\<rparr>],
           tb_selected_candidate_id = ev_candidate_id resolved, tb_binding_sha256 = []\<rparr>
          of Inl _ \<Rightarrow> None | Inr binding \<Rightarrow> Some binding))"

text \<open>One action of one page; \<open>bindings\<close> is the map from step ids to bindings.\<close>

definition derive_binding ::
  "Plan \<Rightarrow> (string \<times> string) list \<Rightarrow> string list \<Rightarrow> observedAction
   \<Rightarrow> (string \<times> TargetBinding) list \<Rightarrow> (string \<times> TargetBinding) list" where
  "derive_binding plan owners successful action bindings =
     (let key = probeActionKey (oc_step_index action) (oc_action_index action);
          owner = (case map_of owners key of None \<Rightarrow> [] | Some i \<Rightarrow> i)
      in
      if key \<notin> set successful \<or> \<not> EqualFold (oc_phase action) ''before'' then bindings
      else (case planStepIndex (pl_steps plan) owner of
          None \<Rightarrow> bindings
        | Some index \<Rightarrow> (case oc_resolved_target action of
              None \<Rightarrow> bindings
            | Some resolved \<Rightarrow>
              (case buildResolvedTargetBinding plan (pl_steps plan ! index) resolved of
                 None \<Rightarrow> bindings
               | Some binding \<Rightarrow> assoc_put owner binding bindings))))"

definition deriveTargetBindings ::
  "Plan \<Rightarrow> (string \<times> string) list \<Rightarrow> raw_message \<Rightarrow> (string \<times> TargetBinding) list" where
  "deriveTargetBindings plan owners raw =
     (case unmarshal dec_observedFlowResult zero_observedFlowResult raw of
        None \<Rightarrow> []
      | Some result \<Rightarrow>
          fold (derive_binding plan owners (successfulFlowActions raw))
            (concat (map op_actions (of_pages result))) [])"

subsection \<open>Target bindings from a page\<close>

definition locatorScore :: "string \<Rightarrow> f64" where
  "locatorScore kind =
     (if kind = ''role'' then (95, 2)
      else if kind = ''label'' then (93, 2)
      else if kind = ''test_id'' then (92, 2)
      else if kind = ''placeholder'' then (9, 1)
      else if kind = ''text'' then (85, 2)
      else if kind = ''css'' then (8, 1)
      else if kind = ''xpath'' then (6, 1)
      else (5, 1))"

definition elementHasExecutableLocator :: "observedElement \<Rightarrow> bool" where
  "elementHasExecutableLocator element =
     list_ex (\<lambda>o'. ol_observed_count o' = 1 \<and> LocatorSpec_Validate (ol_locator o') = None)
       (oe_locators element)"

definition elementHasLocatorValue :: "observedElement \<Rightarrow> string \<Rightarrow> bool" where
  "elementHasLocatorValue element target =
     (let bare = (\<lambda>t. TrimPrefix (TrimPrefix (TrimSpace t) ''css='') ''xpath='') in
      list_ex (\<lambda>o'. bare (ls_value (ol_locator o')) = bare target) (oe_locators element))"

definition element_texts :: "observedElement \<Rightarrow> string list" where
  "element_texts element =
     (case oe_a11y element of None \<Rightarrow> [] | Some a \<Rightarrow> [oa_role a, oa_name a]) @
     (case oe_dom element of None \<Rightarrow> []
      | Some d \<Rightarrow> [od_tag d, od_text d] @
          map (\<lambda>key. case map_of (od_attrs d) key of None \<Rightarrow> [] | Some v \<Rightarrow> v)
            [''aria-label'', ''name'', ''placeholder'', ''title''])"

definition elementMatchesSemanticTarget :: "observedElement \<Rightarrow> string \<Rightarrow> bool" where
  "elementMatchesSemanticTarget element target \<longleftrightarrow>
     normalize target \<noteq> [] \<and>
     list_ex (semanticTargetMatches (normalize target)) (element_texts element)"

definition element_candidate :: "Step \<Rightarrow> string \<Rightarrow> observedElement \<Rightarrow> bool" where
  "element_candidate step actualTarget element \<longleftrightarrow>
     or_visible (oe_runtime element) \<and> or_enabled (oe_runtime element) \<and>
     elementHasExecutableLocator element \<and>
     (st_action step = ''input'' \<longrightarrow> or_editable (oe_runtime element)) \<and>
     (if isSelectorTarget actualTarget then elementHasLocatorValue element actualTarget
      else elementMatchesSemanticTarget element actualTarget \<or>
           elementMatchesSemanticTarget element (st_target step))"

definition element_candidates :: "observedElement \<Rightarrow> LocatorCandidate list" where
  "element_candidates element =
     map (\<lambda>o'. \<lparr>
         lc_candidate_id = ol_candidate_id o', lc_element_ref = oe_element_ref element,
         lc_context_path = oe_context_path element, lc_locator = ol_locator o',
         lc_provenance = ol_provenance o', lc_observed_count = ol_observed_count o',
         lc_visible = or_visible (oe_runtime element), lc_enabled = or_enabled (oe_runtime element),
         lc_score = locatorScore (ls_kind (ol_locator o'))\<rparr>)
       (filter (\<lambda>o'. ol_candidate_id o' \<noteq> [] \<and> ol_observed_count o' = 1) (oe_locators element))"

text \<open>\<open>sort.SliceStable\<close>: higher scores first, then by id.\<close>

definition candidate_before :: "LocatorCandidate \<Rightarrow> LocatorCandidate \<Rightarrow> bool" where
  "candidate_before a b \<longleftrightarrow>
     (if lc_score a \<noteq> lc_score b then f64_less (lc_score b) (lc_score a)
      else lc_candidate_id a < lc_candidate_id b)"

fun insert_stable :: "('a \<Rightarrow> 'a \<Rightarrow> bool) \<Rightarrow> 'a \<Rightarrow> 'a list \<Rightarrow> 'a list" where
  "insert_stable before x [] = [x]"
| "insert_stable before x (y # ys) =
     (if before y x then y # insert_stable before x ys else x # y # ys)"

definition sort_stable :: "('a \<Rightarrow> 'a \<Rightarrow> bool) \<Rightarrow> 'a list \<Rightarrow> 'a list" where
  "sort_stable before xs = foldr (insert_stable before) xs []"

definition buildTargetBinding ::
  "Plan \<Rightarrow> Step \<Rightarrow> string \<Rightarrow> observedSnapshot \<Rightarrow> TargetBinding option" where
  "buildTargetBinding plan step actualTarget observation =
     (if os_schema_version observation \<noteq> ObservationSchemaVersion \<or>
         os_probe_id observation = [] \<or> os_observation_id observation = [] \<or>
         length (os_state_sha256 observation) \<noteq> 64
      then None
      else (case filter (element_candidate step actualTarget) (os_elements observation) of
          [element] \<Rightarrow>
            (case sort_stable candidate_before (element_candidates element) of
               [] \<Rightarrow> None
             | first # others \<Rightarrow>
               (case NewTargetBinding
                   \<lparr>tb_schema_version = [], tb_binding_id = [],
                    tb_plan_id = pl_id plan, tb_plan_version = pl_version plan,
                    tb_plan_step_id = st_id step, tb_probe_id = os_probe_id observation,
                    tb_semantic_target = st_target step, tb_action = st_action step,
                    tb_page_state_id = os_state_id observation,
                    tb_observation_id = os_observation_id observation,
                    tb_observation_sha256 = os_state_sha256 observation,
                    tb_element_refs = [oe_element_ref element],
                    tb_candidates = first # others,
                    tb_selected_candidate_id = lc_candidate_id first, tb_binding_sha256 = []\<rparr>
                  of Inl _ \<Rightarrow> None | Inr binding \<Rightarrow> Some binding))
        | _ \<Rightarrow> None))"

definition derivePageTargetBindings ::
  "Plan \<Rightarrow> Step list \<Rightarrow> raw_message \<Rightarrow> (string \<times> TargetBinding) list" where
  "derivePageTargetBindings plan steps raw =
     (case unmarshal dec_observedFlowResult zero_observedFlowResult raw of
        None \<Rightarrow> []
      | Some result \<Rightarrow>
          fold (\<lambda>step bindings.
              case buildTargetBinding plan step (st_target step) (of_observation result) of
                None \<Rightarrow> bindings | Some binding \<Rightarrow> assoc_put (st_id step) binding bindings)
            steps [])"

subsection \<open>Recording an exploration\<close>

text \<open>What \<open>RecordToolResult\<close> reads from the result of an exploration.\<close>

record ExplorationFacts =
  xf_tool :: string
  xf_event_seq :: int
  xf_sha256 :: string
  xf_evidence :: "json list"
  xf_grounded_actions :: "string list"
  xf_bindings :: "(string \<times> TargetBinding) list"

definition exploration_facts ::
  "Plan \<Rightarrow> Step list \<Rightarrow> string \<Rightarrow> raw_message \<Rightarrow> string \<Rightarrow> raw_message \<Rightarrow> int
   \<Rightarrow> plan_error + ExplorationFacts" where
  "exploration_facts plan pending tool arguments result_text result seq =
     (let facts = \<lparr>xf_tool = tool, xf_event_seq = seq, xf_sha256 = sha256_hex result_text,
            xf_evidence = successfulExplorationEvidence result,
            xf_grounded_actions = [], xf_bindings = []\<rparr>
      in if tool = ''explore_flow'' then
        (case mapProbeActionOwners plan pending arguments of
           Inl e \<Rightarrow> Inl e
         | Inr owners \<Rightarrow> Inr (facts\<lparr>
             xf_grounded_actions := filter (\<lambda>i. i \<noteq> [])
               (map (\<lambda>key. case map_of owners key of None \<Rightarrow> [] | Some i \<Rightarrow> i)
                 (successfulFlowActions result)),
             xf_bindings := deriveTargetBindings plan owners result\<rparr>))
      else Inr (facts\<lparr>xf_bindings := derivePageTargetBindings plan pending result\<rparr>))"

definition groundable :: "ExplorationFacts \<Rightarrow> Step \<Rightarrow> bool" where
  "groundable facts step \<longleftrightarrow>
     \<not> (xf_tool facts = ''explore_flow'' \<and>
        (st_action step = ''click'' \<or> st_action step = ''input'') \<and>
        st_id step \<notin> set (xf_grounded_actions facts)) \<and>
     \<not> (\<not> resultContainsStepEvidence (JArr (xf_evidence facts)) step \<and>
        st_id step \<notin> set (xf_grounded_actions facts)) \<and>
     \<not> (requiresTargetBinding (st_action step) \<and> map_of (xf_bindings facts) (st_id step) = None)"

definition ground_step :: "ExplorationFacts \<Rightarrow> Step \<Rightarrow> Step" where
  "ground_step facts step = step\<lparr>
     st_status := StepGrounded,
     st_grounding_attempts := st_grounding_attempts step + 1,
     st_target_binding := (case map_of (xf_bindings facts) (st_id step) of
         None \<Rightarrow> st_target_binding step | Some binding \<Rightarrow> Some binding),
     st_evidence := st_evidence step @
       [\<lparr>er_tool = xf_tool facts, er_event_seq = xf_event_seq facts,
         er_content_sha256 = xf_sha256 facts\<rparr>]\<rparr>"

text \<open>The loop over the window; it stops at the first step that cannot be grounded.\<close>

fun ground_window :: "ExplorationFacts \<Rightarrow> Step list \<Rightarrow> Step list \<Rightarrow> plan_error + Step list" where
  "ground_window facts [] steps = Inr steps"
| "ground_window facts (pending # window) steps =
     (case planStepIndex steps (st_id pending) of
        None \<Rightarrow> Inl (StepDisappeared (st_id pending))
      | Some index \<Rightarrow>
          if groundable facts (steps ! index)
          then ground_window facts window (steps[index := ground_step facts (steps ! index)])
          else Inr steps)"

definition record_exploration ::
  "Plan \<Rightarrow> string \<Rightarrow> raw_message \<Rightarrow> string \<Rightarrow> raw_message \<Rightarrow> int \<Rightarrow> plan_error + Plan" where
  "record_exploration plan tool arguments result_text result seq =
     (case planStepIDs arguments of
        Inl e \<Rightarrow> Inl e
      | Inr ids \<Rightarrow> (case contiguousPendingSteps plan ids of
            Inl e \<Rightarrow> Inl e
          | Inr pending \<Rightarrow>
            (case exploration_facts plan pending tool arguments result_text result seq of
               Inl e \<Rightarrow> Inl e
             | Inr facts \<Rightarrow> (case ground_window facts pending (pl_steps plan) of
                   Inl e \<Rightarrow> Inl e
                 | Inr steps \<Rightarrow> Inr (plan\<lparr>
                     pl_steps := steps,
                     pl_status := (if allGrounded steps then StatusReadyForGeneration
                       else pl_status plan)\<rparr>)))))"

subsection \<open>Candidates a flow resolved at run time\<close>

definition resolvedCandidateAuthorizationText :: "TrustedResolvedCandidate \<Rightarrow> string" where
  "resolvedCandidateAuthorizationText candidate =
     (let m = rc_metadata candidate in
      Join ([render (enc_LocatorSpec (rc_locator candidate)), rc_element_ref candidate,
             rc_provenance candidate, md_role m, md_name m, md_description m, md_dom_tag m,
             md_dom_text m] @
            (if md_value m \<noteq> JNull then [render (md_value m)] else []) @
            concat (map (\<lambda>p. [fst p, snd p]) (sort_key fst (md_dom_attrs m)))) '' '')"

definition authorizeCandidate :: "Plan \<Rightarrow> nat \<Rightarrow> ResolvedCandidateAuthorization \<Rightarrow> plan_error option" where
  "authorizeCandidate plan index candidate =
     (case TrustedResolvedCandidate_Validate (ra_candidate candidate) of
        Some e \<Rightarrow> Some (CandidateInvalid index e)
      | None \<Rightarrow> (case stepByID (pl_steps plan) (ra_plan_step_id candidate) of
          None \<Rightarrow> Some (CandidateUnknownStep (ra_plan_step_id candidate))
        | Some step \<Rightarrow>
          if \<not> probeActionMatches (st_action step) (ra_action candidate)
          then Some (CandidateActionMismatch (ra_action candidate) (ra_plan_step_id candidate))
          else if forbidden (slice_items (pl_forbidden_actions plan))
            (resolvedCandidateAuthorizationText (ra_candidate candidate))
          then Some (CandidateForbidden (ra_plan_step_id candidate))
          else None))"

definition authorizeCandidates ::
  "Plan \<Rightarrow> ResolvedCandidateAuthorization list \<Rightarrow> plan_error option" where
  "authorizeCandidates plan candidates =
     (if pl_status plan \<noteq> StatusGrounding then Some (CandidatesRequireGrounding (pl_status plan))
      else (case first_error_from (authorizeCandidate plan) 0 candidates of
          Some e \<Rightarrow> Some e
        | None \<Rightarrow> first_error (\<lambda>i. case stepByID (pl_steps plan) i of
              None \<Rightarrow> None
            | Some step \<Rightarrow>
                if int (length (filter (\<lambda>c. ra_plan_step_id c = i) candidates))
                   \<noteq> st_expected_occurrences step
                then Some (CandidateOccurrences i) else None)
            (remdups (map ra_plan_step_id candidates))))"

end
