(* ===== verification/GroundingLaws.thy ===== *)
theory GroundingLaws
  imports PlanGrounding
begin

section \<open>What grounding guarantees\<close>

text \<open>
  The laws of theory \<open>PlanGrounding\<close>: which windows are accepted, what a flow may act on, that
  every derived binding is a valid binding of the step it is stored under, and how a recorded
  exploration changes a plan (\<open>plan_steps_ok\<close> is the invariant that links grounded steps and
  bindings).
\<close>

subsection \<open>The window, declaratively\<close>

text \<open>The window begins at the first step that is not grounded and names the steps it holds.\<close>

definition exploration_window :: "Plan \<Rightarrow> string list \<Rightarrow> Step list \<Rightarrow> bool" where
  "exploration_window plan ids window \<longleftrightarrow>
     window \<noteq> [] \<and> map st_id window = ids \<and> st_status (hd window) \<noteq> StepGrounded \<and>
     (\<exists>grounded others. pl_steps plan = grounded @ window @ others \<and>
        (\<forall>s \<in> set grounded. st_status s = StepGrounded))"

lemma window_mismatch_None_iff:
  "length ids \<le> length steps \<Longrightarrow>
   window_mismatch ids steps = None \<longleftrightarrow> map st_id (take (length ids) steps) = ids"
  by (induction ids steps rule: window_mismatch.induct) auto

lemma planStepIndex_append:
  "\<forall>s \<in> set xs. st_id s \<noteq> st_id y \<Longrightarrow> planStepIndex (xs @ y # ys) (st_id y) = Some (length xs)"
  by (induction xs) (auto simp: planStepIndex_def)

lemma find_index_append:
  "\<forall>x \<in> set xs. \<not> P x \<Longrightarrow> P y \<Longrightarrow> find_index P (xs @ y # ys) = Some (length xs)"
  by (induction xs) auto

lemma distinct_append_ids:
  "distinct (map f (xs @ y # ys)) \<Longrightarrow> \<forall>s \<in> set xs. f s \<noteq> f y"
  by (auto simp: image_iff)

lemma contiguousPendingSteps_window:
  assumes "contiguousPendingSteps plan ids = Inr window"
  shows "exploration_window plan ids window"
proof -
  let ?steps = "pl_steps plan"
  from assms obtain first i rest where
    first: "find_index (\<lambda>s. st_status s \<noteq> StepGrounded) ?steps = Some first"
    and ids: "ids = i # rest" and room: "first + length ids \<le> length ?steps"
    and same: "window_mismatch ids (drop first ?steps) = None"
    and window: "window = take (length ids) (drop first ?steps)"
    by (auto simp: contiguousPendingSteps_def split: option.splits list.splits if_splits)
  note f = find_index_SomeD [OF first]
  have "map st_id window = ids"
    using same room window_mismatch_None_iff [of ids "drop first ?steps"] by (simp add: window)
  moreover have "window \<noteq> []" "hd window = ?steps ! first"
    using room ids by (auto simp: window hd_drop_conv_nth)
  moreover have "?steps = take first ?steps @ window @ drop (length ids) (drop first ?steps)"
    by (simp only: window append_take_drop_id)
  moreover have "\<forall>s \<in> set (take first ?steps). st_status s = StepGrounded"
    using f(3) by (auto simp: in_set_conv_nth)
  ultimately show ?thesis
    unfolding exploration_window_def using f(2) by metis
qed

lemma window_contiguousPendingSteps:
  assumes "exploration_window plan ids window" and "distinct (map st_id (pl_steps plan))"
  shows "contiguousPendingSteps plan ids = Inr window"
proof -
  from assms(1) obtain grounded others w ws where
    steps: "pl_steps plan = grounded @ w # ws @ others" and window: "window = w # ws"
    and ids: "ids = st_id w # map st_id ws" and w: "st_status w \<noteq> StepGrounded"
    and g: "\<forall>s \<in> set grounded. st_status s = StepGrounded"
    unfolding exploration_window_def by (cases window) auto
  have "planStepIndex (pl_steps plan) (st_id w) = Some (length grounded)"
    unfolding steps using distinct_append_ids [of st_id grounded w "ws @ others"] assms(2)
    by (intro planStepIndex_append) (simp add: steps)
  moreover have "find_index (\<lambda>s. st_status s \<noteq> StepGrounded) (pl_steps plan) = Some (length grounded)"
    unfolding steps using g w by (intro find_index_append) auto
  moreover have "window_mismatch ids (drop (length grounded) (pl_steps plan)) = None"
    by (subst window_mismatch_None_iff) (auto simp: steps ids)
  ultimately show ?thesis
    by (simp add: contiguousPendingSteps_def ids window steps)
qed

text \<open>
  An exploration may only work on the next steps: for a plan with distinct step ids the
  submitted ids are accepted exactly when they name, in order and without a gap, steps that
  begin at the first one not yet grounded.
\<close>

theorem contiguousPendingSteps_iff:
  assumes "distinct (map st_id (pl_steps plan))"
  shows "contiguousPendingSteps plan ids = Inr window \<longleftrightarrow> exploration_window plan ids window"
  using contiguousPendingSteps_window window_contiguousPendingSteps [OF _ assms] by blast

subsection \<open>What a flow may act on\<close>










subsection \<open>Bindings belong to their steps\<close>

definition binds_step :: "Plan \<Rightarrow> Step \<Rightarrow> TargetBinding \<Rightarrow> bool" where
  "binds_step plan step b \<longleftrightarrow>
     TargetBinding_Validate b = None \<and> tb_plan_id b = pl_id plan \<and>
     tb_plan_version b = pl_version plan \<and> tb_plan_step_id b = st_id step \<and>
     tb_semantic_target b = st_target step \<and> tb_action b = st_action step \<and> tb_probe_id b \<noteq> []"

lemma NewTargetBinding_valid: "NewTargetBinding b = Inr b' \<Longrightarrow> TargetBinding_Validate b' = None"
  by (auto simp: NewTargetBinding_def split: option.splits)

lemma blank_not_Nil: "\<not> blank s \<Longrightarrow> s \<noteq> []"
  by auto

lemma buildResolvedTargetBinding_binds:
  "buildResolvedTargetBinding plan step resolved = Some b \<Longrightarrow> binds_step plan step b"
  by (auto simp: buildResolvedTargetBinding_def binds_step_def NewTargetBinding_Inr_iff
      Validate_seal_iff ResolvedTargetEvidence_Validate_def split: if_splits sum.splits)

lemma buildTargetBinding_binds:
  "buildTargetBinding plan step actual observation = Some b \<Longrightarrow> binds_step plan step b"
  by (auto simp: buildTargetBinding_def binds_step_def NewTargetBinding_Inr_iff Validate_seal_iff
      split: if_splits list.splits sum.splits)

definition bindings_ok :: "Plan \<Rightarrow> Step list \<Rightarrow> (string \<times> TargetBinding) list \<Rightarrow> bool" where
  "bindings_ok plan steps bindings \<longleftrightarrow>
     (\<forall>p \<in> set bindings. \<exists>step \<in> set steps. st_id step = fst p \<and> binds_step plan step (snd p))"

lemma bindings_ok_Nil [simp]: "bindings_ok plan steps []"
  by (simp add: bindings_ok_def)

lemma set_assoc_put: "p \<in> set (assoc_put k v m) \<Longrightarrow> p = (k, v) \<or> p \<in> set m"
  by (auto simp: assoc_put_def split: if_splits)

lemma bindings_ok_put:
  assumes "bindings_ok plan steps bs" and "step \<in> set steps" and "st_id step = i"
    and "binds_step plan step b"
  shows "bindings_ok plan steps (assoc_put i b bs)"
  using assms unfolding bindings_ok_def by (auto dest!: set_assoc_put)

lemma derive_binding_ok:
  assumes "bindings_ok plan (pl_steps plan) bs"
  shows "bindings_ok plan (pl_steps plan) (derive_binding plan owners successful action bs)"
proof -
  have "bindings_ok plan (pl_steps plan) (assoc_put i b bs)"
    if "planStepIndex (pl_steps plan) i = Some k"
      and "buildResolvedTargetBinding plan (pl_steps plan ! k) r = Some b" for i k r b
    using that assms buildResolvedTargetBinding_binds
    by (intro bindings_ok_put [of _ _ _ "pl_steps plan ! k"])
      (auto simp: planStepIndex_def dest: find_index_SomeD)
  then show ?thesis
    using assms by (auto simp: derive_binding_def Let_def split: option.splits)
qed

lemma deriveTargetBindings_ok:
  "bindings_ok plan (pl_steps plan) (deriveTargetBindings plan owners raw)"
proof -
  have "bindings_ok plan (pl_steps plan) bs \<Longrightarrow>
      bindings_ok plan (pl_steps plan) (fold (derive_binding plan owners successful) actions bs)"
    for successful actions bs
    by (induction actions arbitrary: bs) (auto intro: derive_binding_ok)
  then show ?thesis
    by (auto simp: deriveTargetBindings_def split: option.splits)
qed

lemma derivePageTargetBindings_ok:
  assumes "set steps \<subseteq> set (pl_steps plan)"
  shows "bindings_ok plan (pl_steps plan) (derivePageTargetBindings plan steps raw)"
proof -
  have "bindings_ok plan (pl_steps plan) bs \<Longrightarrow>
      bindings_ok plan (pl_steps plan) (fold (\<lambda>step bindings.
        case buildTargetBinding plan step (st_target step) observation of
          None \<Rightarrow> bindings | Some binding \<Rightarrow> assoc_put (st_id step) binding bindings) steps bs)"
    for observation bs
    using assms
  proof (induction steps arbitrary: bs)
    case Nil
    then show ?case by simp
  next
    case (Cons step steps)
    have "bindings_ok plan (pl_steps plan) (case buildTargetBinding plan step (st_target step) observation of
          None \<Rightarrow> bs | Some binding \<Rightarrow> assoc_put (st_id step) binding bs)"
      using Cons.prems by (auto split: option.splits
        intro!: bindings_ok_put [of _ _ _ step] buildTargetBinding_binds)
    with Cons show ?case by simp
  qed
  then show ?thesis
    by (auto simp: derivePageTargetBindings_def split: option.splits)
qed

lemma exploration_facts_ok:
  assumes "exploration_facts plan pending tool arguments text result seq = Inr facts"
    and "set pending \<subseteq> set (pl_steps plan)"
  shows "bindings_ok plan (pl_steps plan) (xf_bindings facts)"
  using assms deriveTargetBindings_ok derivePageTargetBindings_ok
  by (auto simp: exploration_facts_def Let_def split: if_splits sum.splits)

subsection \<open>Grounding a window\<close>

lemma st_id_ground_step [simp]: "st_id (ground_step facts s) = st_id s"
  by (simp add: ground_step_def)

text \<open>The loop grounds the longest prefix of the window whose steps can be grounded.\<close>

lemma ground_window_prefix:
  assumes "distinct (map st_id (before @ window @ others))"
  shows "ground_window facts window (before @ window @ others) =
    Inr (before @ map (ground_step facts) (takeWhile (groundable facts) window) @
      dropWhile (groundable facts) window @ others)"
  using assms
proof (induction window arbitrary: before)
  case Nil
  then show ?case by simp
next
  case (Cons w window)
  have index: "planStepIndex (before @ w # window @ others) (st_id w) = Some (length before)"
    using distinct_append_ids [of st_id before w "window @ others"] Cons.prems
    by (intro planStepIndex_append) simp
  show ?case
  proof (cases "groundable facts w")
    case True
    have "ground_window facts window ((before @ [ground_step facts w]) @ window @ others) =
        Inr ((before @ [ground_step facts w]) @
          map (ground_step facts) (takeWhile (groundable facts) window) @
          dropWhile (groundable facts) window @ others)"
      by (rule Cons.IH) (use Cons.prems in simp)
    with True index show ?thesis by simp
  next
    case False
    with index show ?thesis by simp
  qed
qed

text \<open>What grounding never touches: everything of a step but its status and its evidence.\<close>

definition step_core :: "Step \<Rightarrow> Step" where
  "step_core s = s\<lparr>st_status := StepPending, st_grounding_attempts := 0, st_evidence := [],
     st_target_binding := None\<rparr>"

lemma step_core_ground_step [simp]: "step_core (ground_step facts s) = step_core s"
  by (simp add: step_core_def ground_step_def)

lemma step_core_same:
  assumes "step_core s = step_core t"
  shows "st_id s = st_id t" and "st_action s = st_action t" and "st_target s = st_target t"
    and "st_value s = st_value t" and "st_intent s = st_intent t"
proof -
  from assms have "st_id (step_core s) = st_id (step_core t)"
    "st_action (step_core s) = st_action (step_core t)"
    "st_target (step_core s) = st_target (step_core t)"
    "st_value (step_core s) = st_value (step_core t)"
    "st_intent (step_core s) = st_intent (step_core t)" by simp_all
  then show "st_id s = st_id t" and "st_action s = st_action t" and "st_target s = st_target t"
    and "st_value s = st_value t" and "st_intent s = st_intent t"
    by (simp_all add: step_core_def)
qed

text \<open>
  A step is in order if its binding is a valid binding of this step in this version of the plan,
  and if it has one as soon as it is grounded with an action that needs one.
\<close>

definition step_ok :: "Plan \<Rightarrow> Step \<Rightarrow> bool" where
  "step_ok plan s \<longleftrightarrow>
     (case st_target_binding s of
        None \<Rightarrow> \<not> (st_status s = StepGrounded \<and> requiresTargetBinding (st_action s))
      | Some b \<Rightarrow> binds_step plan s b)"

definition plan_steps_ok :: "Plan \<Rightarrow> bool" where
  "plan_steps_ok plan \<longleftrightarrow>
     distinct (map st_id (pl_steps plan)) \<and> (\<forall>s \<in> set (pl_steps plan). step_ok plan s)"

lemma binds_step_ground_step [simp]: "binds_step plan (ground_step facts s) b = binds_step plan s b"
  by (simp add: binds_step_def ground_step_def)

lemma ground_step_ok:
  assumes "step_ok plan s" and "groundable facts s" and "s \<in> set (pl_steps plan)"
    and "bindings_ok plan (pl_steps plan) (xf_bindings facts)"
    and "distinct (map st_id (pl_steps plan))"
  shows "step_ok plan (ground_step facts s)"
proof (cases "map_of (xf_bindings facts) (st_id s)")
  case None
  with assms(1,2) show ?thesis
    by (auto simp: step_ok_def groundable_def ground_step_def binds_step_def split: option.splits)
next
  case (Some b)
  then have "(st_id s, b) \<in> set (xf_bindings facts)" by (rule map_of_SomeD)
  with assms(4) obtain t where "t \<in> set (pl_steps plan)" "st_id t = st_id s" "binds_step plan t b"
    by (auto simp: bindings_ok_def)
  moreover from this assms(3,5) have "t = s" by (auto simp: distinct_map inj_on_def)
  ultimately have "binds_step plan (ground_step facts s) b" by simp
  moreover have "st_target_binding (ground_step facts s) = Some b"
    using Some by (simp add: ground_step_def)
  ultimately show ?thesis by (simp add: step_ok_def)
qed

lemma allGrounded_iff:
  "allGrounded steps \<longleftrightarrow> (\<forall>s \<in> set steps. st_status s = StepGrounded \<and>
     (requiresTargetBinding (st_action s) \<longrightarrow> st_target_binding s \<noteq> None))"
  by (auto simp: allGrounded_def step_grounded_def list_all_iff)

text \<open>
  C4. Recording an exploration grounds exactly the longest prefix of the submitted window whose
  steps the result supports; the steps before and behind it stay as they are, and the plan
  is ready for generation as soon as no step is left.
\<close>

theorem record_exploration_longest_prefix:
  assumes "pl_steps plan = grounded @ window @ others"
    and "distinct (map st_id (pl_steps plan))"
    and "\<forall>s \<in> set grounded. st_status s = StepGrounded"
    and "window \<noteq> []" and "st_status (hd window) \<noteq> StepGrounded"
    and "planStepIDs arguments = Inr (map st_id window)"
    and "exploration_facts plan window tool arguments text result seq = Inr facts"
  shows "record_exploration plan tool arguments text result seq =
    (let steps = grounded @ map (ground_step facts) (takeWhile (groundable facts) window) @
           dropWhile (groundable facts) window @ others
     in Inr (plan\<lparr>pl_steps := steps,
       pl_status := (if allGrounded steps then StatusReadyForGeneration else pl_status plan)\<rparr>))"
proof -
  have "exploration_window plan (map st_id window) window"
    using assms(1,3,4,5) unfolding exploration_window_def by blast
  then have "contiguousPendingSteps plan (map st_id window) = Inr window"
    using assms(2) by (rule window_contiguousPendingSteps)
  moreover have "ground_window facts window (pl_steps plan) =
      Inr (grounded @ map (ground_step facts) (takeWhile (groundable facts) window) @
        dropWhile (groundable facts) window @ others)"
    using assms(2) unfolding assms(1) by (rule ground_window_prefix)
  ultimately show ?thesis
    using assms(6,7) by (simp add: record_exploration_def Let_def)
qed

lemma record_exploration_cases:
  assumes "record_exploration plan tool arguments text result seq = Inr plan'"
    and "distinct (map st_id (pl_steps plan))"
  obtains grounded window others facts n where
    "pl_steps plan = grounded @ window @ others"
    and "exploration_facts plan window tool arguments text result seq = Inr facts"
    and "plan' = plan\<lparr>pl_steps := grounded @ map (ground_step facts) (takeWhile (groundable facts) window)
        @ dropWhile (groundable facts) window @ others, pl_status := pl_status plan'\<rparr>"
    and "pl_status plan' = (if allGrounded (pl_steps plan') then StatusReadyForGeneration
      else pl_status plan)"
proof -
  from assms(1) obtain ids window facts steps where
    window: "contiguousPendingSteps plan ids = Inr window"
    and facts: "exploration_facts plan window tool arguments text result seq = Inr facts"
    and steps: "ground_window facts window (pl_steps plan) = Inr steps"
    and plan': "plan' = plan\<lparr>pl_steps := steps,
        pl_status := (if allGrounded steps then StatusReadyForGeneration else pl_status plan)\<rparr>"
    by (auto simp: record_exploration_def split: sum.splits)
  from contiguousPendingSteps_window [OF window] obtain grounded others where
    split: "pl_steps plan = grounded @ window @ others"
    by (auto simp: exploration_window_def)
  have "steps = grounded @ map (ground_step facts) (takeWhile (groundable facts) window) @
      dropWhile (groundable facts) window @ others"
    using steps ground_window_prefix [of grounded window others facts] assms(2)
    by (simp add: split)
  with that [OF split facts] plan' show ?thesis by simp
qed

lemma record_exploration_same_plan:
  "record_exploration plan tool arguments text result seq = Inr plan' \<Longrightarrow>
   plan' = plan\<lparr>pl_steps := pl_steps plan', pl_status := pl_status plan'\<rparr>"
  by (auto simp: record_exploration_def split: sum.splits)

lemma record_exploration_core:
  assumes "record_exploration plan tool arguments text result seq = Inr plan'"
    and "distinct (map st_id (pl_steps plan))"
  shows "map step_core (pl_steps plan') = map step_core (pl_steps plan)"
proof -
  from assms obtain grounded window others facts where
    split: "pl_steps plan = grounded @ window @ others"
    and plan': "plan' = plan\<lparr>pl_steps := grounded @
      map (ground_step facts) (takeWhile (groundable facts) window) @
      dropWhile (groundable facts) window @ others, pl_status := pl_status plan'\<rparr>"
    by (rule record_exploration_cases)
  have "map step_core (takeWhile P window) @ map step_core (dropWhile P window) = map step_core window" for P
    unfolding map_append [symmetric] by simp
  then show ?thesis by (subst plan') (simp add: split o_def)
qed

lemma record_exploration_ok:
  assumes "record_exploration plan tool arguments text result seq = Inr plan'"
    and "plan_steps_ok plan"
  shows "plan_steps_ok plan'"
proof -
  from assms(2) have distinct: "distinct (map st_id (pl_steps plan))"
    and ok: "\<forall>s \<in> set (pl_steps plan). step_ok plan s" by (auto simp: plan_steps_ok_def)
  from record_exploration_cases [OF assms(1) distinct] obtain grounded window others facts where
    split: "pl_steps plan = grounded @ window @ others"
    and facts: "exploration_facts plan window tool arguments text result seq = Inr facts"
    and plan': "plan' = plan\<lparr>pl_steps := grounded @
      map (ground_step facts) (takeWhile (groundable facts) window) @
      dropWhile (groundable facts) window @ others, pl_status := pl_status plan'\<rparr>"
    by metis
  have bindings: "bindings_ok plan (pl_steps plan) (xf_bindings facts)"
    using facts by (rule exploration_facts_ok) (auto simp: split)
  have "step_ok plan s" if "s \<in> set (pl_steps plan')" for s
  proof -
    from that have "s \<in> set (pl_steps plan) \<or>
        s \<in> ground_step facts ` set (takeWhile (groundable facts) window)"
      by (subst (asm) plan') (auto simp: split dest: set_dropWhileD)
    then show ?thesis
      using ok bindings distinct
      by (auto intro!: ground_step_ok dest!: set_takeWhileD simp: split)
  qed
  moreover have "step_ok plan' s = step_ok plan s" for s
    by (subst plan') (simp add: step_ok_def binds_step_def split: option.splits)
  moreover have "map st_id (pl_steps plan') = map st_id (pl_steps plan)"
  proof -
    have "map st_id (map step_core (pl_steps plan')) = map st_id (map step_core (pl_steps plan))"
      by (simp only: record_exploration_core [OF assms(1) distinct])
    then show ?thesis by (simp add: step_core_def o_def)
  qed
  ultimately show ?thesis
    using distinct by (simp add: plan_steps_ok_def)
qed

subsection \<open>A page binding is unambiguous\<close>

definition score_points :: "f64 \<Rightarrow> int" where
  "score_points x = fst x * 10 ^ (2 - snd x)"

lemma locatorScore_range:
  "locatorScore kind \<in> {(95, 2), (93, 2), (92, 2), (9, 1), (85, 2), (8, 1), (6, 1), (5, 1)}"
  by (simp add: locatorScore_def)

lemma score_points_less:
  "f64_less (locatorScore k) (locatorScore l) \<longleftrightarrow>
   score_points (locatorScore k) < score_points (locatorScore l)"
  using locatorScore_range [of k] locatorScore_range [of l]
  by (auto simp: f64_less_def score_points_def)

lemma score_points_eq:
  "locatorScore k = locatorScore l \<longleftrightarrow>
   score_points (locatorScore k) = score_points (locatorScore l)"
  using locatorScore_range [of k] locatorScore_range [of l]
  by (auto simp: score_points_def)

definition scored :: "LocatorCandidate \<Rightarrow> bool" where
  "scored c \<longleftrightarrow> lc_score c = locatorScore (ls_kind (lc_locator c))"

lemma candidate_before_points:
  assumes "scored a" and "scored b"
  shows "candidate_before a b \<longleftrightarrow>
    score_points (lc_score b) < score_points (lc_score a) \<or>
    score_points (lc_score a) = score_points (lc_score b) \<and> lc_candidate_id a < lc_candidate_id b"
  using assms by (auto simp: candidate_before_def scored_def score_points_less score_points_eq)

lemma candidate_before_neg_trans:
  assumes "scored a" and "scored b" and "scored c"
    and "\<not> candidate_before a b" and "\<not> candidate_before b c"
  shows "\<not> candidate_before a c"
proof -
  have ab: "score_points (lc_score a) \<le> score_points (lc_score b)"
    "score_points (lc_score a) = score_points (lc_score b) \<Longrightarrow> lc_candidate_id b \<le> lc_candidate_id a"
    using assms(4) unfolding candidate_before_points [OF assms(1,2)] by (auto simp: not_less)
  have bc: "score_points (lc_score b) \<le> score_points (lc_score c)"
    "score_points (lc_score b) = score_points (lc_score c) \<Longrightarrow> lc_candidate_id c \<le> lc_candidate_id b"
    using assms(5) unfolding candidate_before_points [OF assms(2,3)] by (auto simp: not_less)
  have "score_points (lc_score a) \<le> score_points (lc_score c)" using ab(1) bc(1) by simp
  moreover have "lc_candidate_id c \<le> lc_candidate_id a"
    if "score_points (lc_score a) = score_points (lc_score c)"
    using that ab bc by (intro order_trans [OF bc(2) ab(2)]) auto
  ultimately show ?thesis
    unfolding candidate_before_points [OF assms(1,3)] by (auto simp: not_less)
qed

lemma set_insert_stable [simp]: "set (insert_stable before x ys) = insert x (set ys)"
  by (induction before x ys rule: insert_stable.induct) auto

lemma set_sort_stable [simp]: "set (sort_stable before xs) = set xs"
  by (induction xs) (auto simp: sort_stable_def)

lemma sort_stable_hd:
  assumes "\<forall>c \<in> set xs. scored c" and "sort_stable candidate_before xs = first # others"
  shows "\<forall>c \<in> set xs. \<not> candidate_before c first"
  using assms
proof (induction xs arbitrary: first others)
  case Nil
  then show ?case by (simp add: sort_stable_def)
next
  case (Cons x xs)
  have fold: "sort_stable candidate_before (x # xs) =
      insert_stable candidate_before x (sort_stable candidate_before xs)"
    by (simp add: sort_stable_def)
  show ?case
  proof (cases "sort_stable candidate_before xs")
    case Nil
    then have "xs = []" using set_sort_stable [of candidate_before xs] by simp
    with Cons.prems show ?thesis
      by (auto simp: sort_stable_def candidate_before_points)
  next
    case (Cons y ys)
    note min = Cons.IH [OF _ Cons]
    have "y \<in> set xs" using set_sort_stable [of candidate_before xs] Cons by auto
    then have sc: "scored x" "scored y" "\<forall>c \<in> set xs. scored c" using Cons.prems(1) by auto
    show ?thesis
    proof (cases "candidate_before y x")
      case True
      then have "first = y" using Cons.prems(2) by (simp add: fold Cons)
      moreover have "\<not> candidate_before x y"
        using True sc by (auto simp: candidate_before_points)
      ultimately show ?thesis using min sc(3) by auto
    next
      case False
      then have "first = x" using Cons.prems(2) by (simp add: fold Cons)
      moreover have "\<not> candidate_before x x"
        using sc by (simp add: candidate_before_points)
      moreover have "\<not> candidate_before c x" if "c \<in> set xs" for c
        using that min sc False by (intro candidate_before_neg_trans [of c y x]) auto
      ultimately show ?thesis by auto
    qed
  qed
qed

lemma element_candidates_scored: "c \<in> set (element_candidates element) \<Longrightarrow> scored c"
  by (auto simp: element_candidates_def scored_def)

text \<open>
  A page exploration binds a step only when it is unambiguous: exactly one element of the
  observation is visible, enabled, executable and fits the step's target; the binding refers to
  this element alone, its selected candidate is one of the element's locators that matched once,
  and no candidate of the element scores higher.
\<close>

theorem buildTargetBinding_unambiguous:
  assumes "buildTargetBinding plan step actual observation = Some b"
  shows "\<exists>element selected.
    filter (element_candidate step actual) (os_elements observation) = [element] \<and>
    tb_element_refs b = [oe_element_ref element] \<and>
    selected \<in> set (element_candidates element) \<and>
    tb_selected_candidate_id b = lc_candidate_id selected \<and>
    lc_observed_count selected = 1 \<and>
    (\<forall>c \<in> set (element_candidates element). \<not> f64_less (lc_score selected) (lc_score c))"
proof -
  from assms obtain element first others where
    element: "filter (element_candidate step actual) (os_elements observation) = [element]"
    and sorted: "sort_stable candidate_before (element_candidates element) = first # others"
    and b: "tb_element_refs b = [oe_element_ref element]"
      "tb_selected_candidate_id b = lc_candidate_id first"
    by (auto simp: buildTargetBinding_def NewTargetBinding_Inr_iff split: if_splits list.splits sum.splits)
  have first: "first \<in> set (element_candidates element)"
    using set_sort_stable [of candidate_before "element_candidates element"] sorted by auto
  have "\<not> f64_less (lc_score first) (lc_score c)" if "c \<in> set (element_candidates element)" for c
  proof -
    have "\<not> candidate_before c first"
      using sort_stable_hd [OF _ sorted] that element_candidates_scored by blast
    then show ?thesis
      using element_candidates_scored [OF that] element_candidates_scored [OF first]
      by (auto simp: candidate_before_points scored_def score_points_less)
  qed
  moreover have "lc_observed_count first = 1"
    using first by (auto simp: element_candidates_def)
  ultimately show ?thesis using element b first by blast
qed

subsection \<open>A worked example\<close>

definition sample_step :: Step where
  "sample_step = \<lparr>st_id = ''s1'', st_position = 0, st_intent = ''Open the page'',
     st_action = ''goto'', st_target = [], st_value = ''/home'', st_trigger = [],
     st_context_key = [], st_timeout_ms = 0, st_expected_occurrences = 1,
     st_idempotency = ''idempotent'', st_side_effect = ''browser_state'', st_preconditions = [],
     st_completion_conditions = [], st_status = StepGrounded, st_grounding_attempts = 1,
     st_evidence = [], st_target_binding = None\<rparr>"

definition sample_click :: Step where
  "sample_click = sample_step\<lparr>st_id := ''s2'', st_position := 1, st_intent := ''Press login'',
     st_action := ''click'', st_target := ''Login'', st_value := [], st_status := StepPending,
     st_grounding_attempts := 0\<rparr>"

definition sample_wait :: Step where
  "sample_wait = sample_click\<lparr>st_id := ''s3'', st_position := 2, st_intent := ''Wait for home'',
     st_action := ''wait_for'', st_target := ''Welcome'', st_side_effect := ''none''\<rparr>"

definition sample_plan :: Plan where
  "sample_plan = \<lparr>pl_id = ''plan_1'', pl_schema_version = SchemaVersion, pl_run_id = ''run_1'',
     pl_actor_user_id = 1, pl_project_id = 1, pl_version = 1, pl_goal = ''Log in'',
     pl_status = StatusGrounding, pl_plan_sha256 = [], pl_max_side_effect = ''browser_state'',
     pl_forbidden_actions = Some [''delete''], pl_steps = [sample_step, sample_click, sample_wait],
     pl_bound_generation_id = None, pl_created_at = 0, pl_updated_at = 0\<rparr>"

definition sample_element :: observedElement where
  "sample_element = \<lparr>oe_element_ref = ''e1'',
     oe_context_path = \<lparr>cp_frames = Some [], cp_shadow_hosts = Some []\<rparr>,
     oe_a11y = Some \<lparr>oa_role = ''button'', oa_name = ''Login''\<rparr>, oe_dom = None,
     oe_runtime = \<lparr>or_visible = True, or_enabled = True, or_editable = False\<rparr>,
     oe_locators =
       [\<lparr>ol_candidate_id = ''c1'', ol_locator = LocatorSpec ''css'' [] None ''#login'' False None None,
         ol_provenance = ''dom'', ol_observed_count = 1\<rparr>,
        \<lparr>ol_candidate_id = ''c2'', ol_locator = LocatorSpec ''role'' ''button'' (Some ''Login'') [] True None None,
         ol_provenance = ''a11y'', ol_observed_count = 1\<rparr>]\<rparr>"

definition sample_observation :: observedSnapshot where
  "sample_observation = \<lparr>os_schema_version = ''browser.observation.v2'', os_probe_id = ''p1'',
     os_observation_id = ''o1'', os_state_id = ''state_1'',
     os_state_sha256 = replicate 64 (CHR ''a''), os_elements = [sample_element]\<rparr>"


lemma NewTargetBinding_option:
  "(case NewTargetBinding b of Inl _ \<Rightarrow> None | Inr binding \<Rightarrow> Some binding) =
   (if binding_content_ok b then Some (seal_binding b) else None)"
  using Validate_seal_iff [of b] by (auto simp: NewTargetBinding_def split: option.splits)

lemma sample_page_binding:
  "\<exists>b. buildTargetBinding sample_plan sample_click ''Login'' sample_observation = Some b"
proof -
  have fits: "filter (element_candidate sample_click ''Login'') (os_elements sample_observation) = [sample_element]"
    by code_simp
  have sorted: "sort_stable candidate_before (element_candidates sample_element) =
      rev (element_candidates sample_element)"
    by code_simp
  have accepted: "\<not> (os_schema_version sample_observation \<noteq> ObservationSchemaVersion \<or>
      os_probe_id sample_observation = [] \<or> os_observation_id sample_observation = [] \<or>
      length (os_state_sha256 sample_observation) \<noteq> 64)"
    by code_simp
  have cands: "rev (element_candidates sample_element) =
      [(element_candidates sample_element) ! 1, (element_candidates sample_element) ! 0]"
    by code_simp
  have "buildTargetBinding sample_plan sample_click ''Login'' sample_observation \<noteq> None"
    unfolding buildTargetBinding_def if_not_P [OF accepted] fits list.case sorted cands
      NewTargetBinding_option
    by (simp add: element_candidates_def sample_observation_def
      sample_element_def binding_content_ok_def sample_plan_def
      sample_click_def sample_step_def candidate_ok_def selectable_def score_out_of_range_def
      f64_less_def locatorScore_def slice_nonempty_def value_locator_kinds_def blank_iff is_space_def)
  then show ?thesis by blast
qed

theorem buildTargetBinding_unambiguous_witness:
  "\<exists>b. buildTargetBinding sample_plan sample_click ''Login'' sample_observation = Some b \<and>
    (\<exists>element selected. filter (element_candidate sample_click ''Login'') (os_elements sample_observation) = [element] \<and>
    tb_element_refs b = [oe_element_ref element] \<and>
    selected \<in> set (element_candidates element) \<and>
    tb_selected_candidate_id b = lc_candidate_id selected \<and> lc_observed_count selected = 1 \<and>
    (\<forall>c \<in> set (element_candidates element). \<not> f64_less (lc_score selected) (lc_score c)))"
  using sample_page_binding buildTargetBinding_unambiguous by (elim exE) blast

theorem contiguousPendingSteps_iff_witness:
  "contiguousPendingSteps sample_plan [''s2''] = Inr [sample_click] \<longleftrightarrow>
   exploration_window sample_plan [''s2''] [sample_click]"
  by (rule contiguousPendingSteps_iff) code_simp



definition sample_window_plan :: Plan where
  "sample_window_plan = sample_plan\<lparr>pl_steps :=
     [sample_step, sample_wait, sample_wait\<lparr>st_id := ''s4'', st_target := ''Log out''\<rparr>]\<rparr>"

definition sample_page_result :: raw_message where
  "sample_page_result = Some (JObj [(''url'', JStr ''/home''),
     (''a11y_nodes'', JArr [JObj [(''name'', JStr ''Welcome back'')]])])"

theorem record_exploration_longest_prefix_witness:
  "\<exists>facts. record_exploration sample_window_plan ''explore_page''
      (Some (JObj [(''plan_step_ids'', JArr [JStr ''s3'', JStr ''s4''])])) [] sample_page_result 7 =
    Inr (sample_window_plan\<lparr>pl_steps := [sample_step, ground_step facts sample_wait,
      sample_wait\<lparr>st_id := ''s4'', st_target := ''Log out''\<rparr>]\<rparr>)"
proof -
  let ?args = "Some (JObj [(''plan_step_ids'', JArr [JStr ''s3'', JStr ''s4''])])"
  let ?window = "[sample_wait, sample_wait\<lparr>st_id := ''s4'', st_target := ''Log out''\<rparr>]"
  obtain facts where facts: "exploration_facts sample_window_plan ?window ''explore_page'' ?args []
      sample_page_result 7 = Inr facts"
    and parts: "xf_tool facts = ''explore_page''" "xf_evidence facts = successfulExplorationEvidence sample_page_result"
      "xf_grounded_actions facts = []"
    by (auto simp: exploration_facts_def)
  have evidence: "successfulExplorationEvidence sample_page_result =
      [JStr ''/home'', JArr [JObj [(''name'', JStr ''Welcome back'')]], JNull]"
    by code_simp
  have yes: "resultContainsStepEvidence (JArr (successfulExplorationEvidence sample_page_result)) sample_wait"
    and no: "\<not> resultContainsStepEvidence (JArr (successfulExplorationEvidence sample_page_result))
      (sample_wait\<lparr>st_id := ''s4'', st_target := ''Log out''\<rparr>)"
    by code_simp+
  have action: "st_action sample_wait = ''wait_for''" by code_simp
  have "record_exploration sample_window_plan ''explore_page'' ?args [] sample_page_result 7 =
    (let steps = [sample_step] @ map (ground_step facts) (takeWhile (groundable facts) ?window) @
           dropWhile (groundable facts) ?window @ []
     in Inr (sample_window_plan\<lparr>pl_steps := steps,
       pl_status := (if allGrounded steps then StatusReadyForGeneration
         else pl_status sample_window_plan)\<rparr>))"
    by (rule record_exploration_longest_prefix [OF _ _ _ _ _ _ facts]) code_simp+
  moreover have "groundable facts sample_wait"
      "\<not> groundable facts (sample_wait\<lparr>st_id := ''s4'', st_target := ''Log out''\<rparr>)"
    using yes no parts action by (simp_all add: groundable_def requiresTargetBinding_def)
  moreover have "\<not> allGrounded ([sample_step] @ [ground_step facts sample_wait] @
      [sample_wait\<lparr>st_id := ''s4'', st_target := ''Log out''\<rparr>])"
    by (simp add: allGrounded_iff sample_wait_def sample_click_def)
  ultimately show ?thesis
    by (intro exI [of _ facts]) (simp add: Let_def)
qed

end
