(* ===== verification/PlanService.thy ===== *)
theory PlanService
  imports PlanRepository PlanCompiler GroundingLaws
begin

section \<open>The plan service (internal/taskplan/service.go)\<close>

text \<open>
  The operations of \<open>Service\<close> over a repository: creating a version of a plan, authorising a
  tool call, recording its result or failure, approving a generation, marking a plan failed or
  blocked, and compiling and validating cases. What an operation does to the current plan is
  a pure function; the operation reads the plan, applies it and saves. The clock is an
  argument. A tool result comes as its text (hashed as evidence) and as its parsed content.
\<close>

subsection \<open>Creating a version\<close>

definition new_step :: "nat \<Rightarrow> StepDefinition \<Rightarrow> Step" where
  "new_step index d = \<lparr>st_id = sdf_id d, st_position = int index, st_intent = sdf_intent d,
     st_action = sdf_action d, st_target = sdf_target d, st_value = sdf_value d,
     st_trigger = sdf_trigger d, st_context_key = sdf_context_key d,
     st_timeout_ms = sdf_timeout_ms d, st_expected_occurrences = sdf_expected_occurrences d,
     st_idempotency = sdf_idempotency d, st_side_effect = sdf_side_effect d,
     st_preconditions = sdf_preconditions d,
     st_completion_conditions = sdf_completion_conditions d,
     st_status = StepPending, st_grounding_attempts = 0, st_evidence = [],
     st_target_binding = None\<rparr>"

definition new_plan :: "CreateRequest \<Rightarrow> Definition \<Rightarrow> go_time \<Rightarrow> Plan" where
  "new_plan request d now =
     (let hash = semanticHash d in
      \<lparr>pl_id = planID (rq_run_id request) hash now, pl_schema_version = SchemaVersion,
       pl_run_id = rq_run_id request, pl_actor_user_id = rq_actor_user_id request,
       pl_project_id = rq_project_id request, pl_version = 0, pl_goal = df_goal d,
       pl_status = StatusGrounding, pl_plan_sha256 = hash,
       pl_max_side_effect = df_max_side_effect d,
       pl_forbidden_actions = df_forbidden_actions d,
       pl_steps = map (\<lambda>(i, s). new_step i s) (enumerate 0 (df_steps d)),
       pl_bound_generation_id = None, pl_created_at = now, pl_updated_at = now\<rparr>)"

text \<open>The end of \<open>CreateVersion\<close>: store the plan, then seal the carried bindings for it.\<close>

definition store_version :: "'s plan_repo \<Rightarrow> Plan \<Rightarrow> 's \<Rightarrow> (plan_error + Plan) \<times> 's" where
  "store_version repo plan s =
     (case repo_create repo plan s of
        (Inl e, s1) \<Rightarrow> (Inl e, s1)
      | (Inr created, s1) \<Rightarrow>
          (let (bound, changed) = rebindCarriedTargetBindings created in
           if changed then
             (case repo_save repo bound s1 of
                (Some e, s2) \<Rightarrow> (Inl e, s2)
              | (None, s2) \<Rightarrow> (Inr bound, s2))
           else (Inr bound, s1)))"

definition CreateVersion ::
  "'s plan_repo \<Rightarrow> go_time \<Rightarrow> CreateRequest \<Rightarrow> 's \<Rightarrow> (plan_error + Plan) \<times> 's" where
  "CreateVersion repo now request s =
     (if blank (rq_run_id request) then (Inl RunIdRequired, s)
      else case validateDefinition (rq_definition request) of
        Inl e \<Rightarrow> (Inl e, s)
      | Inr d \<Rightarrow>
        (let plan = new_plan request d now in
         case repo_current repo s (rq_run_id request) of
           Inr previous \<Rightarrow>
             if pl_plan_sha256 previous = semanticHash d then (Inr previous, s)
             else store_version repo (carryForwardGrounding plan previous) s
         | Inl e \<Rightarrow>
             if e \<noteq> PlanNotFound then (Inl e, s) else store_version repo plan s))"

subsection \<open>Authorising a tool call\<close>

definition dec_generation_id :: "int decoder" where
  "dec_generation_id = dec_struct [(''generation_id'', dec_int)]"

definition revision_allowed :: "Status \<Rightarrow> bool" where
  "revision_allowed status \<longleftrightarrow>
     status \<notin> {StatusApproved, StatusExecuting, StatusCompleted}"

definition authorize_plan :: "Plan \<Rightarrow> string \<Rightarrow> raw_message \<Rightarrow> plan_error option" where
  "authorize_plan plan tool arguments =
     (if tool \<in> {''explore_page'', ''explore_flow''} then authorizeExploration plan tool arguments
      else if tool = ''generate_dsl'' then
        (if pl_status plan \<noteq> StatusReadyForGeneration
         then Some (ToolRequiresStatus tool (pl_status plan))
         else validateGenerationArguments plan arguments)
      else if tool = ''execute_dsl'' then
        (case pl_bound_generation_id plan of
           None \<Rightarrow> Some ExecuteRequiresApproval
         | Some generation \<Rightarrow>
             if pl_status plan \<noteq> StatusApproved then Some ExecuteRequiresApproval
             else if unmarshal dec_generation_id 0 arguments \<noteq> Some generation
             then Some GenerationMismatch else None)
      else if tool = ''get_report'' then
        (if pl_status plan \<noteq> StatusExecuting
         then Some (ToolRequiresStatus tool (pl_status plan)) else None)
      else if tool = ''fix_and_retry'' then
        (if pl_status plan \<noteq> StatusFailed
         then Some (ToolRequiresStatus tool (pl_status plan)) else None)
      else None)"

definition Authorize ::
  "'s plan_repo \<Rightarrow> 's \<Rightarrow> string \<Rightarrow> string \<Rightarrow> raw_message \<Rightarrow> plan_error option" where
  "Authorize repo s run_id tool arguments =
     (if tool = ''set_task_plan'' then
        (case repo_current repo s run_id of
           Inl e \<Rightarrow> if e = PlanNotFound then None else Some e
         | Inr current \<Rightarrow>
             if revision_allowed (pl_status current) then None
             else Some (RevisionNotAllowed (pl_status current)))
      else (case repo_current repo s run_id of
          Inl e \<Rightarrow>
            if e = PlanNotFound \<and> tool = ''ask_user_question'' then None
            else Some (PlanRequiredBefore tool e)
        | Inr plan \<Rightarrow> authorize_plan plan tool arguments))"

definition AuthorizeResolvedCandidates ::
  "'s plan_repo \<Rightarrow> 's \<Rightarrow> string \<Rightarrow> ResolvedCandidateAuthorization list \<Rightarrow> plan_error option" where
  "AuthorizeResolvedCandidates repo s run_id candidates =
     (case repo_current repo s run_id of
        Inl e \<Rightarrow> Some e
      | Inr plan \<Rightarrow> authorizeCandidates plan candidates)"

subsection \<open>Recording results and failures\<close>

definition set_pending :: "Step \<Rightarrow> Step" where
  "set_pending step = step\<lparr>st_status := StepPending\<rparr>"

definition record_result ::
  "Plan \<Rightarrow> string \<Rightarrow> raw_message \<Rightarrow> string \<Rightarrow> raw_message \<Rightarrow> int \<Rightarrow> plan_error + Plan" where
  "record_result plan tool arguments result_text result seq =
     (if tool \<in> {''explore_page'', ''explore_flow''}
      then record_exploration plan tool arguments result_text result seq
      else if tool = ''generate_dsl'' then
        (case unmarshal dec_generation_id 0 result of
           None \<Rightarrow> Inl ResultNoGeneration
         | Some generation \<Rightarrow>
             if generation < 1 then Inl ResultNoGeneration
             else Inr (plan\<lparr>pl_bound_generation_id := Some generation,
               pl_status := StatusAwaitingApproval\<rparr>))
      else if tool = ''execute_dsl'' then Inr (plan\<lparr>pl_status := StatusExecuting\<rparr>)
      else if tool = ''get_report'' then
        (case unmarshal (dec_struct [(''status'', dec_string)]) [] result of
           None \<Rightarrow> Inl ResultNoStatus
         | Some status \<Rightarrow> Inr (
             if status = ''passed'' then plan\<lparr>pl_status := StatusCompleted\<rparr>
             else if status \<in> {''failed'', ''cancelled'', ''needs_intervention''}
             then plan\<lparr>pl_status := StatusFailed\<rparr> else plan))
      else if tool = ''fix_and_retry'' then
        (case unmarshal (dec_struct [(''strategy'', dec_string)]) [] result of
           None \<Rightarrow> Inl ResultNoStrategy
         | Some strategy \<Rightarrow>
             (let freed = plan\<lparr>pl_bound_generation_id := None\<rparr> in Inr (
             if strategy = ''re_explore''
             then freed\<lparr>pl_status := StatusGrounding, pl_steps := map set_pending (pl_steps freed)\<rparr>
             else if strategy = ''regenerate_dsl'' then freed\<lparr>pl_status := StatusReadyForGeneration\<rparr>
             else if strategy = ''wait_execution'' then freed\<lparr>pl_status := StatusExecuting\<rparr>
             else freed\<lparr>pl_status := StatusBlocked\<rparr>)))
      else Inr plan)"

text \<open>The end of most operations: the time of the update, and the save.\<close>

definition save_updated :: "'s plan_repo \<Rightarrow> go_time \<Rightarrow> Plan \<Rightarrow> 's \<Rightarrow> plan_error option \<times> 's" where
  "save_updated repo now plan s = repo_save repo (plan\<lparr>pl_updated_at := now\<rparr>) s"

definition RecordToolResult ::
  "'s plan_repo \<Rightarrow> go_time \<Rightarrow> string \<Rightarrow> string \<Rightarrow> raw_message \<Rightarrow> string \<Rightarrow> raw_message \<Rightarrow> int \<Rightarrow> 's
   \<Rightarrow> plan_error option \<times> 's" where
  "RecordToolResult repo now run_id tool arguments result_text result seq s =
     (if tool \<in> {''set_task_plan'', ''ask_user_question'', ''validate_page_elements''} then (None, s)
      else case repo_current repo s run_id of
        Inl e \<Rightarrow> (Some e, s)
      | Inr plan \<Rightarrow>
        (case record_result plan tool arguments result_text result seq of
           Inl e \<Rightarrow> (Some e, s)
         | Inr plan' \<Rightarrow> save_updated repo now plan' s))"

definition record_failure :: "Plan \<Rightarrow> string \<Rightarrow> string \<Rightarrow> Plan" where
  "record_failure plan tool message =
     (if tool = ''generate_dsl'' then
        (let normalized = normalize message;
             named = (\<lambda>step. st_target step \<noteq> [] \<and> Contains normalized (normalize (st_target step)))
         in
         if Contains normalized ''locator preflight'' \<or> Contains normalized ''matched 0 elements'' \<or>
            Contains normalized ''evidence''
         then plan\<lparr>pl_status := StatusGrounding,
           pl_steps := (if list_ex named (pl_steps plan)
             then map (\<lambda>step. if named step then set_pending step else step) (pl_steps plan)
             else map set_pending (pl_steps plan))\<rparr>
         else plan)
      else if tool = ''execute_dsl'' then plan\<lparr>pl_status := StatusFailed\<rparr>
      else plan)"

definition RecordToolFailure ::
  "'s plan_repo \<Rightarrow> go_time \<Rightarrow> string \<Rightarrow> string \<Rightarrow> string \<Rightarrow> 's \<Rightarrow> plan_error option \<times> 's" where
  "RecordToolFailure repo now run_id tool message s =
     (case repo_current repo s run_id of
        Inl e \<Rightarrow> (if e = PlanNotFound then None else Some e, s)
      | Inr plan \<Rightarrow> save_updated repo now (record_failure plan tool message) s)"

subsection \<open>Approval and terminal states\<close>

definition Approve ::
  "'s plan_repo \<Rightarrow> go_time \<Rightarrow> string \<Rightarrow> int \<Rightarrow> 's \<Rightarrow> plan_error option \<times> 's" where
  "Approve repo now run_id generation s =
     (case repo_current repo s run_id of
        Inl e \<Rightarrow> (Some e, s)
      | Inr plan \<Rightarrow>
        if pl_status plan \<noteq> StatusAwaitingApproval \<or>
           pl_bound_generation_id plan \<noteq> Some generation
        then (Some ApprovalMismatch, s)
        else save_updated repo now (plan\<lparr>pl_status := StatusApproved\<rparr>) s)"

definition markTerminal ::
  "'s plan_repo \<Rightarrow> go_time \<Rightarrow> string \<Rightarrow> Status \<Rightarrow> 's \<Rightarrow> plan_error option \<times> 's" where
  "markTerminal repo now run_id status s =
     (case repo_current repo s run_id of
        Inl e \<Rightarrow> (if e = PlanNotFound then None else Some e, s)
      | Inr plan \<Rightarrow>
        if pl_status plan = StatusCompleted \<or> pl_status plan = StatusSuperseded then (None, s)
        else save_updated repo now (plan\<lparr>pl_status := status\<rparr>) s)"

definition MarkFailed :: "'s plan_repo \<Rightarrow> go_time \<Rightarrow> string \<Rightarrow> 's \<Rightarrow> plan_error option \<times> 's" where
  "MarkFailed repo now run_id s = markTerminal repo now run_id StatusFailed s"

definition MarkBlocked :: "'s plan_repo \<Rightarrow> go_time \<Rightarrow> string \<Rightarrow> 's \<Rightarrow> plan_error option \<times> 's" where
  "MarkBlocked repo now run_id s = markTerminal repo now run_id StatusBlocked s"

subsection \<open>Cases\<close>

definition CompileDraftCase ::
  "'s plan_repo \<Rightarrow> 's \<Rightarrow> string \<Rightarrow> Binding \<Rightarrow> raw_message \<Rightarrow> plan_error + (json \<times> Plan)" where
  "CompileDraftCase repo s run_id binding raw =
     (case repo_current repo s run_id of
        Inl e \<Rightarrow> Inl e
      | Inr plan \<Rightarrow> (case compileCase plan binding raw of
          Inl e \<Rightarrow> Inl e
        | Inr compiled \<Rightarrow> Inr (compiled, plan)))"

definition ValidateGenerationBinding ::
  "'s plan_repo \<Rightarrow> 's \<Rightarrow> string \<Rightarrow> Binding \<Rightarrow> raw_message \<Rightarrow> plan_error + Plan" where
  "ValidateGenerationBinding repo s run_id binding raw =
     (case repo_current repo s run_id of
        Inl e \<Rightarrow> Inl e
      | Inr plan \<Rightarrow>
        if binding \<noteq> Plan_Binding plan then Inl BindingMismatch
        else if pl_status plan \<notin>
          {StatusReadyForGeneration, StatusAwaitingApproval, StatusApproved, StatusExecuting}
        then Inl (StatusForbidsBinding (pl_status plan))
        else (case validateCaseOfPlan validateCompiledCaseSemantics plan raw of
            Some e \<Rightarrow> Inl e
          | None \<Rightarrow> Inr plan))"

end
