(* ===== verification/PlanLifecycle.thy ===== *)
theory PlanLifecycle
  imports PlanService
begin

section \<open>The life of a plan\<close>

text \<open>
  What the events of a run do to its current plan, as a state machine: \<open>plan_step\<close> is the
  abstract specification of the service (no repository, no storage). The invariant
  \<open>plan_ok\<close> links the content of a plan with its hash, its grounded steps with their
  bindings and its status with the bound generation.
\<close>

subsection \<open>The content of a plan\<close>

definition step_definition :: "Step \<Rightarrow> StepDefinition" where
  "step_definition s = \<lparr>sdf_id = st_id s, sdf_intent = st_intent s, sdf_action = st_action s,
     sdf_target = st_target s, sdf_value = st_value s, sdf_trigger = st_trigger s,
     sdf_context_key = st_context_key s, sdf_timeout_ms = st_timeout_ms s,
     sdf_expected_occurrences = st_expected_occurrences s, sdf_idempotency = st_idempotency s,
     sdf_side_effect = st_side_effect s, sdf_preconditions = st_preconditions s,
     sdf_completion_conditions = st_completion_conditions s\<rparr>"

definition plan_definition :: "Plan \<Rightarrow> Definition" where
  "plan_definition p = \<lparr>df_goal = pl_goal p, df_max_side_effect = pl_max_side_effect p,
     df_forbidden_actions = pl_forbidden_actions p,
     df_steps = map step_definition (pl_steps p)\<rparr>"

definition content_kept :: "Plan \<Rightarrow> Plan \<Rightarrow> bool" where
  "content_kept p p' \<longleftrightarrow>
     same_plan p' p \<and> map step_core (pl_steps p') = map step_core (pl_steps p)"

lemma step_definition_core: "step_definition (step_core s) = step_definition s"
  by (simp add: step_definition_def step_core_def)

lemma step_definition_cong:
  "map step_core ss = map step_core ts \<Longrightarrow> map step_definition ss = map step_definition ts"
proof -
  assume "map step_core ss = map step_core ts"
  then have "map step_definition (map step_core ss) = map step_definition (map step_core ts)"
    by simp
  then show ?thesis by (simp add: step_definition_core o_def)
qed

lemma content_kept_definition: "content_kept p p' \<Longrightarrow> plan_definition p' = plan_definition p"
  by (auto simp: content_kept_def plan_definition_def same_plan_def intro: step_definition_cong)

lemma content_kept_binding: "content_kept p p' \<Longrightarrow> Plan_Binding p' = Plan_Binding p"
  by (simp add: content_kept_def same_plan_def Plan_Binding_def)

lemma content_kept_refl [simp]: "content_kept p p"
  by (simp add: content_kept_def)

lemma content_kept_trans: "content_kept p q \<Longrightarrow> content_kept q r \<Longrightarrow> content_kept p r"
  by (auto simp: content_kept_def intro: same_plan_trans)

lemma content_kept_update [simp]:
  "content_kept p (p'\<lparr>pl_status := st\<rparr>) = content_kept p p'"
  "content_kept p (p'\<lparr>pl_bound_generation_id := g\<rparr>) = content_kept p p'"
  "content_kept p (p'\<lparr>pl_updated_at := t\<rparr>) = content_kept p p'"
  by (simp_all add: content_kept_def)

lemma step_core_set_pending [simp]: "step_core (set_pending s) = step_core s"
  by (simp add: step_core_def set_pending_def)

lemma content_kept_steps:
  "content_kept p (p\<lparr>pl_steps := map f (pl_steps p)\<rparr>)" if "\<And>s. step_core (f s) = step_core s"
  using that by (simp add: content_kept_def)

subsection \<open>The invariant\<close>

definition plan_ok :: "Plan \<Rightarrow> bool" where
  "plan_ok p \<longleftrightarrow>
     plan_steps_ok p \<and> canonical_definition (plan_definition p) \<and>
     pl_plan_sha256 p = semanticHash (plan_definition p) \<and>
     \<not> blank (pl_id p) \<and> 1 \<le> pl_version p \<and>
     (pl_status p \<in> {StatusAwaitingApproval, StatusApproved} \<longrightarrow> pl_bound_generation_id p \<noteq> None)"

lemma step_ok_cong:
  "pl_id p' = pl_id p \<Longrightarrow> pl_version p' = pl_version p \<Longrightarrow> step_ok p' s = step_ok p s"
  by (auto simp: step_ok_def binds_step_def split: option.splits)

lemma step_ok_set_pending: "step_ok p s \<Longrightarrow> step_ok p (set_pending s)"
  by (auto simp: step_ok_def set_pending_def binds_step_def split: option.splits)

lemma plan_steps_ok_map:
  assumes "plan_steps_ok p" and "\<And>s. st_id (f s) = st_id s" and "\<And>s. step_ok p s \<Longrightarrow> step_ok p (f s)"
    and "pl_steps p' = map f (pl_steps p)" and "pl_id p' = pl_id p" and "pl_version p' = pl_version p"
  shows "plan_steps_ok p'"
  using assms by (auto simp: plan_steps_ok_def o_def step_ok_cong [of p' p])

lemma set_pending_id [simp]: "st_id (set_pending s) = st_id s"
  by (simp add: set_pending_def)

lemma plan_steps_ok_relaxed:
  assumes "plan_steps_ok p" and "pl_steps p' = map f (pl_steps p)" and "\<forall>s. f s \<in> {s, set_pending s}"
    and "pl_id p' = pl_id p" and "pl_version p' = pl_version p"
  shows "plan_steps_ok p'"
proof (rule plan_steps_ok_map [OF assms(1) _ _ assms(2,4,5)])
  show "st_id (f s) = st_id s" for s
    using assms(3) by (metis insertE set_pending_id singletonD)
  show "step_ok p s \<Longrightarrow> step_ok p (f s)" for s
    using assms(3) by (metis insertE step_ok_set_pending singletonD)
qed

lemma plan_ok_kept:
  assumes "plan_ok p" and "content_kept p p'" and "plan_steps_ok p'"
    and "pl_status p' \<in> {StatusAwaitingApproval, StatusApproved} \<longrightarrow> pl_bound_generation_id p' \<noteq> None"
  shows "plan_ok p'"
  using assms content_kept_definition [OF assms(2)]
  by (simp add: plan_ok_def content_kept_def same_plan_def)

lemma plan_ok_distinct: "plan_ok p \<Longrightarrow> distinct (map st_id (pl_steps p))"
  by (simp add: plan_ok_def plan_steps_ok_def)

lemma record_result_kept:
  assumes "record_result p tool arguments text result seq = Inr p'"
    and "distinct (map st_id (pl_steps p))"
  shows "content_kept p p'"
proof (cases "tool \<in> {''explore_page'', ''explore_flow''}")
  case True
  with assms have explore: "record_exploration p tool arguments text result seq = Inr p'"
    by (auto simp: record_result_def)
  have "same_plan p' p"
    by (subst record_exploration_same_plan [OF explore]) simp
  with record_exploration_core [OF explore assms(2)] show ?thesis
    by (simp add: content_kept_def)
next
  case False
  with assms(1) show ?thesis
    by (auto simp: record_result_def Let_def content_kept_def same_plan_def
      split: if_splits option.splits)
qed

lemma record_result_ok:
  assumes "record_result p tool arguments text result seq = Inr p'" and "plan_ok p"
  shows "plan_ok p'"
proof (cases "tool \<in> {''explore_page'', ''explore_flow''}")
  case True
  with assms have explore: "record_exploration p tool arguments text result seq = Inr p'"
    by (auto simp: record_result_def)
  have frame: "p' = p\<lparr>pl_steps := pl_steps p', pl_status := pl_status p'\<rparr>"
    by (rule record_exploration_same_plan [OF explore])
  have "pl_status p' \<in> {StatusReadyForGeneration, pl_status p}"
    using explore by (auto simp: record_exploration_def split: sum.splits if_splits)
  moreover have "pl_bound_generation_id p' = pl_bound_generation_id p"
    by (subst frame) simp
  ultimately show ?thesis
    using assms record_exploration_ok [OF explore] record_result_kept [OF assms(1) plan_ok_distinct]
    by (intro plan_ok_kept [OF assms(2)]) (auto simp: plan_ok_def)
next
  case False
  have "\<exists>f. pl_steps p' = map f (pl_steps p) \<and> (\<forall>s. f s \<in> {s, set_pending s})"
  proof (cases "pl_steps p' = pl_steps p")
    case True
    then show ?thesis by (intro exI [of _ "\<lambda>s. s"]) simp
  next
    case changed: False
    with assms(1) False have "pl_steps p' = map set_pending (pl_steps p)"
      by (auto simp: record_result_def Let_def split: if_splits option.splits)
    then show ?thesis by (intro exI [of _ set_pending]) simp
  qed
  then have "plan_steps_ok p'"
    using record_result_kept [OF assms(1) plan_ok_distinct [OF assms(2)]] assms(2)
    by (auto simp: plan_ok_def content_kept_def same_plan_def intro: plan_steps_ok_relaxed)
  moreover have "pl_status p' \<in> {StatusAwaitingApproval, StatusApproved} \<longrightarrow> pl_bound_generation_id p' \<noteq> None"
    using assms False by (auto simp: record_result_def Let_def plan_ok_def split: if_splits option.splits)
  ultimately show ?thesis
    using record_result_kept [OF assms(1) plan_ok_distinct [OF assms(2)]] plan_ok_kept [OF assms(2)]
    by blast
qed

lemma record_failure_kept: "content_kept p (record_failure p tool message)"
  by (auto simp: record_failure_def Let_def content_kept_def same_plan_def o_def)

lemma record_failure_ok:
  assumes "plan_ok p"
  shows "plan_ok (record_failure p tool message)"
proof -
  define f where "f = (\<lambda>s. if st_target s \<noteq> [] \<and>
      Contains (normalize message) (normalize (st_target s)) then set_pending s else s)"
  have "pl_steps (record_failure p tool message) \<in>
      {map (\<lambda>s. s) (pl_steps p), map set_pending (pl_steps p), map f (pl_steps p)}"
    by (simp add: record_failure_def Let_def f_def)
  then have "\<exists>f. pl_steps (record_failure p tool message) = map f (pl_steps p) \<and>
      (\<forall>s. f s \<in> {s, set_pending s})"
  proof (elim insertE emptyE)
    assume "pl_steps (record_failure p tool message) = map f (pl_steps p)"
    then show ?thesis by (intro exI [of _ f]) (simp add: f_def)
  qed (blast | force)+
  then have "plan_steps_ok (record_failure p tool message)"
    using record_failure_kept [of p tool message] assms
    by (auto simp: plan_ok_def content_kept_def same_plan_def intro: plan_steps_ok_relaxed)
  moreover have "pl_status (record_failure p tool message) \<in> {StatusAwaitingApproval, StatusApproved} \<longrightarrow>
      pl_bound_generation_id (record_failure p tool message) \<noteq> None"
    using assms by (auto simp: record_failure_def Let_def plan_ok_def)
  ultimately show ?thesis by (intro plan_ok_kept [OF assms record_failure_kept])
qed

subsection \<open>Carrying the grounding over\<close>

text \<open>A step whose binding, if any, is a valid binding of its action and target.\<close>

definition carried_step :: "Step \<Rightarrow> bool" where
  "carried_step s \<longleftrightarrow> \<not> blank (st_id s) \<and>
     (case st_target_binding s of
        None \<Rightarrow> \<not> (st_status s = StepGrounded \<and> requiresTargetBinding (st_action s))
      | Some b \<Rightarrow> TargetBinding_Validate b = None \<and> tb_semantic_target b = st_target s \<and>
          tb_action b = st_action s \<and> tb_probe_id b \<noteq> [])"

lemma candidate_ok_rebound [simp]: "candidate_ok (rebound p s b) c = candidate_ok b c"
  by (simp add: candidate_ok_def rebound_def)

lemma selectable_rebound [simp]: "selectable (rebound p s b) c = selectable b c"
  by (simp add: selectable_def rebound_def)

lemma binding_content_ok_rebound:
  assumes "binding_content_ok b" and "\<not> blank (pl_id p)" and "1 \<le> pl_version p" and "\<not> blank (st_id s)"
  shows "binding_content_ok (rebound p s b)"
proof -
  have "tb_candidates (rebound p s b) = tb_candidates b" "tb_element_refs (rebound p s b) = tb_element_refs b"
    by (simp_all add: rebound_def)
  with assms show ?thesis
    unfolding binding_content_ok_def candidate_ok_rebound selectable_rebound by (simp add: rebound_def)
qed

lemma rebindStep_ok:
  assumes "carried_step s" and "\<not> blank (pl_id p)" and "1 \<le> pl_version p"
  shows "step_ok p (fst (rebindStep p s))" and "step_core (fst (rebindStep p s)) = step_core s"
    and "st_status (fst (rebindStep p s)) = st_status s"
    and "st_evidence (fst (rebindStep p s)) = st_evidence s"
    and "snd (rebindStep p s) \<longleftrightarrow> st_target_binding s \<noteq> None"
proof -
  have "step_ok p (fst (rebindStep p s)) \<and> step_core (fst (rebindStep p s)) = step_core s \<and>
      st_status (fst (rebindStep p s)) = st_status s \<and>
      st_evidence (fst (rebindStep p s)) = st_evidence s \<and>
      (snd (rebindStep p s) \<longleftrightarrow> st_target_binding s \<noteq> None)"
  proof (cases "st_target_binding s")
    case None
    with assms(1) show ?thesis by (simp add: rebindStep_def step_ok_def carried_step_def)
  next
    case (Some b)
    with assms(1) have b: "TargetBinding_Validate b = None" "tb_semantic_target b = st_target s"
        "tb_action b = st_action s" "tb_probe_id b \<noteq> []" "\<not> blank (st_id s)"
      by (simp_all add: carried_step_def)
    have "binding_content_ok (rebound p s b)"
      using b assms(2,3) by (intro binding_content_ok_rebound) (auto simp: TargetBinding_Validate_iff)
    then have "NewTargetBinding (rebound p s b) = Inr (seal_binding (rebound p s b))"
      and "TargetBinding_Validate (seal_binding (rebound p s b)) = None"
      by (simp_all add: NewTargetBinding_Inr_iff Validate_seal_iff)
    with Some b show ?thesis
      by (simp add: rebindStep_def step_ok_def step_core_def binds_step_def rebound_def)
  qed
  then show "step_ok p (fst (rebindStep p s))" and "step_core (fst (rebindStep p s)) = step_core s"
    and "st_status (fst (rebindStep p s)) = st_status s"
    and "st_evidence (fst (rebindStep p s)) = st_evidence s"
    and "snd (rebindStep p s) \<longleftrightarrow> st_target_binding s \<noteq> None" by simp_all
qed

lemma rebind_ok:
  assumes "\<forall>s \<in> set (pl_steps p). carried_step s" and "\<not> blank (pl_id p)" and "1 \<le> pl_version p"
    and "distinct (map st_id (pl_steps p))"
  shows "plan_steps_ok (fst (rebindCarriedTargetBindings p))"
    and "content_kept p (fst (rebindCarriedTargetBindings p))"
    and "map st_status (pl_steps (fst (rebindCarriedTargetBindings p))) = map st_status (pl_steps p)"
proof -
  note step = rebindStep_ok [OF _ assms(2,3)]
  have core: "map step_core (pl_steps (fst (rebindCarriedTargetBindings p))) = map step_core (pl_steps p)"
    using assms(1) step(2) by (simp add: rebindCarriedTargetBindings_def)
  then show "content_kept p (fst (rebindCarriedTargetBindings p))"
    by (simp add: content_kept_def) (simp add: rebindCarriedTargetBindings_def same_plan_def)
  have "map st_id (map step_core (pl_steps (fst (rebindCarriedTargetBindings p)))) =
      map st_id (map step_core (pl_steps p))" by (simp only: core)
  then have "map st_id (pl_steps (fst (rebindCarriedTargetBindings p))) = map st_id (pl_steps p)"
    by (simp add: step_core_def o_def)
  moreover have "step_ok (fst (rebindCarriedTargetBindings p)) s = step_ok p s" for s
    by (rule step_ok_cong) (simp_all add: rebindCarriedTargetBindings_def)
  moreover have "\<forall>s \<in> set (pl_steps (fst (rebindCarriedTargetBindings p))). step_ok p s"
    using assms(1) step(1) by (auto simp: rebindCarriedTargetBindings_def)
  ultimately show "plan_steps_ok (fst (rebindCarriedTargetBindings p))"
    using assms(4) by (simp add: plan_steps_ok_def)
  show "map st_status (pl_steps (fst (rebindCarriedTargetBindings p))) = map st_status (pl_steps p)"
    using assms(1) step(3) by (simp add: rebindCarriedTargetBindings_def)
qed

lemma previousByID_SomeD:
  "previousByID steps i = Some s \<Longrightarrow> s \<in> set steps \<and> st_id s = i"
  by (auto simp: previousByID_def dest!: map_of_SomeD)

lemma carryStep_carried:
  assumes "\<forall>s \<in> set (pl_steps previous). step_ok previous s" and "\<not> blank (st_id step)"
    and "st_target_binding step = None" and "st_status step = StepPending"
  shows "carried_step (carryStep (previousByID (pl_steps previous)) step)"
proof (cases "previousByID (pl_steps previous) (st_id step)")
  case None
  with assms(2-4) show ?thesis by (simp add: carryStep_def carried_step_def)
next
  case (Some old)
  with assms(1) have "step_ok previous old" by (auto dest: previousByID_SomeD)
  with Some assms(2-4) show ?thesis
    by (auto simp: carryStep_def carried_step_def step_ok_def binds_step_def sameStepSemantics_def
        split: option.splits)
qed

lemma step_core_carryStep [simp]: "step_core (carryStep m step) = step_core step"
  by (simp add: carryStep_def step_core_def split: option.splits)

lemma st_id_carryStep [simp]: "st_id (carryStep m step) = st_id step"
  by (simp add: carryStep_def split: option.splits)

subsection \<open>New plans\<close>

lemma new_plan_definition: "plan_definition (new_plan request d now) = d"
proof -
  have "map step_definition (map (\<lambda>(i, s). new_step i s) (enumerate n ss)) = ss" for n ss
    by (induction ss arbitrary: n) (simp_all add: step_definition_def new_step_def)
  then show ?thesis by (simp add: plan_definition_def new_plan_def Let_def)
qed

lemma new_plan_fields [simp]:
  "pl_run_id (new_plan request d now) = rq_run_id request"
  "pl_plan_sha256 (new_plan request d now) = semanticHash d"
  "pl_status (new_plan request d now) = StatusGrounding"
  "pl_bound_generation_id (new_plan request d now) = None"
  by (simp_all add: new_plan_def Let_def)

lemma new_plan_id_not_blank: "\<not> blank (pl_id (new_plan request d now))"
  by (simp add: new_plan_def Let_def planID_def blank_iff is_space_def)

lemma new_plan_step:
  assumes "s \<in> set (pl_steps (new_plan request d now))"
  shows "st_target_binding s = None" and "st_status s = StepPending" and "st_id s \<in> sdf_id ` set (df_steps d)"
  using assms by (auto simp: new_plan_def Let_def new_step_def in_set_enumerate_eq)

text \<open>The plan that \<open>CreateVersion\<close> hands to the repository, before and after it has a version.\<close>

definition drafted_plan :: "CreateRequest \<Rightarrow> Definition \<Rightarrow> go_time \<Rightarrow> Plan option \<Rightarrow> Plan" where
  "drafted_plan request d now previous =
     (case previous of
        None \<Rightarrow> new_plan request d now
      | Some p \<Rightarrow> carryForwardGrounding (new_plan request d now) p)"

definition versioned_plan :: "CreateRequest \<Rightarrow> Definition \<Rightarrow> go_time \<Rightarrow> Plan option \<Rightarrow> Plan" where
  "versioned_plan request d now previous =
     fst (rebindCarriedTargetBindings ((drafted_plan request d now previous)
       \<lparr>pl_version := (case previous of None \<Rightarrow> 1 | Some p \<Rightarrow> pl_version p + 1)\<rparr>))"

lemma stepIDPattern_not_blank: "stepIDPattern s \<Longrightarrow> \<not> blank s"
  by (cases s) (auto simp: stepIDPattern_def blank_iff is_space_of_char is_alpha_def Let_def)

lemma canonical_ids:
  assumes "canonical_definition d"
  shows "distinct (map sdf_id (df_steps d))" and "\<forall>i \<in> sdf_id ` set (df_steps d). \<not> blank i"
  using assms stepIDPattern_not_blank by (auto simp: canonical_definition_def canonical_step_def)

lemma drafted_plan_core:
  "map step_core (pl_steps (drafted_plan request d now previous)) =
   map step_core (pl_steps (new_plan request d now))"
  "same_plan (drafted_plan request d now previous) (new_plan request d now)"
  by (auto simp: drafted_plan_def carryForwardGrounding_def Let_def same_plan_def o_def
      split: option.splits)

lemma drafted_plan_definition: "plan_definition (drafted_plan request d now previous) = d"
  using content_kept_definition [of "new_plan request d now" "drafted_plan request d now previous"]
    drafted_plan_core by (simp add: content_kept_def new_plan_definition)

lemma map_ids_core: "map step_core ss = map step_core ts \<Longrightarrow> map st_id ss = map st_id ts"
proof -
  assume "map step_core ss = map step_core ts"
  then have "map st_id (map step_core ss) = map st_id (map step_core ts)" by simp
  then show ?thesis by (simp add: step_core_def o_def)
qed

lemma drafted_plan_carried:
  assumes "canonical_definition d" and "\<forall>p. previous = Some p \<longrightarrow> plan_ok p"
  shows "\<forall>s \<in> set (pl_steps (drafted_plan request d now previous)). carried_step s"
    and "distinct (map st_id (pl_steps (drafted_plan request d now previous)))"
proof -
  have id: "\<not> blank (st_id s)" if "s \<in> set (pl_steps (new_plan request d now))" for s
    using new_plan_step(3) [OF that] canonical_ids(2) [OF assms(1)] by blast
  show "\<forall>s \<in> set (pl_steps (drafted_plan request d now previous)). carried_step s"
  proof (cases previous)
    case None
    show ?thesis
    proof
      fix s assume "s \<in> set (pl_steps (drafted_plan request d now previous))"
      then have s: "s \<in> set (pl_steps (new_plan request d now))" by (simp add: None drafted_plan_def)
      from new_plan_step(1,2) [OF s] id [OF s] show "carried_step s" by (simp add: carried_step_def)
    qed
  next
    case (Some p)
    with assms(2) have ok: "\<forall>s \<in> set (pl_steps p). step_ok p s"
      by (simp add: plan_ok_def plan_steps_ok_def)
    show ?thesis
    proof
      fix s assume "s \<in> set (pl_steps (drafted_plan request d now previous))"
      then obtain t where t: "t \<in> set (pl_steps (new_plan request d now))"
        and s: "s = carryStep (previousByID (pl_steps p)) t"
        by (auto simp: Some drafted_plan_def carryForwardGrounding_def Let_def)
      show "carried_step s"
        unfolding s using ok id [OF t] new_plan_step(1,2) [OF t] by (rule carryStep_carried)
    qed
  qed
  have "map sdf_id (df_steps (plan_definition (drafted_plan request d now previous))) =
      map st_id (pl_steps (drafted_plan request d now previous))"
    by (simp add: plan_definition_def step_definition_def o_def)
  then show "distinct (map st_id (pl_steps (drafted_plan request d now previous)))"
    using canonical_ids(1) [OF assms(1)] by (simp add: drafted_plan_definition)
qed

lemma versioned_plan_ok:
  assumes "canonical_definition d" and "\<forall>p. previous = Some p \<longrightarrow> plan_ok p"
  shows "plan_ok (versioned_plan request d now previous)"
    and "plan_definition (versioned_plan request d now previous) = d"
    and "pl_status (versioned_plan request d now previous) \<in>
      {StatusGrounding, StatusReadyForGeneration}"
    and "map st_status (pl_steps (versioned_plan request d now previous)) =
      map st_status (pl_steps (drafted_plan request d now previous))"
proof -
  let ?drafted = "drafted_plan request d now previous"
  let ?v = "case previous of None \<Rightarrow> 1 | Some p \<Rightarrow> pl_version p + 1"
  let ?p = "?drafted\<lparr>pl_version := ?v\<rparr>"
  have v: "1 \<le> ?v" using assms(2) by (auto simp: plan_ok_def split: option.splits)
  have same: "same_plan ?drafted (new_plan request d now)" by (rule drafted_plan_core)
  have nid: "\<not> blank (pl_id ?p)"
    using same new_plan_id_not_blank by (simp add: same_plan_def)
  have carried: "\<forall>s \<in> set (pl_steps ?p). carried_step s" "distinct (map st_id (pl_steps ?p))"
    using drafted_plan_carried [OF assms, of request now] by simp_all
  have v': "1 \<le> pl_version ?p" using v by simp
  note rebind = rebind_ok [OF carried(1) nid v' carried(2), folded versioned_plan_def]
  have "plan_definition ?p = d"
    using drafted_plan_definition [of request d now previous] by (simp add: plan_definition_def)
  then show def: "plan_definition (versioned_plan request d now previous) = d"
    using content_kept_definition [OF rebind(2)] by simp
  have kept: "same_plan (versioned_plan request d now previous) ?p"
    using rebind(2) by (simp add: content_kept_def)
  have status: "pl_status (versioned_plan request d now previous) = pl_status ?drafted"
    "pl_bound_generation_id (versioned_plan request d now previous) = pl_bound_generation_id ?drafted"
    by (simp_all add: versioned_plan_def rebindCarriedTargetBindings_def)
  show st: "pl_status (versioned_plan request d now previous) \<in>
      {StatusGrounding, StatusReadyForGeneration}"
    unfolding status by (auto simp: drafted_plan_def carryForwardGrounding_def Let_def split: option.splits)
  show "plan_ok (versioned_plan request d now previous)"
    using rebind(1) def kept st nid v same assms(1)
    by (auto simp: plan_ok_def same_plan_def)
  show "map st_status (pl_steps (versioned_plan request d now previous)) =
      map st_status (pl_steps ?drafted)"
    using rebind(3) by simp
qed

end
