(* ===== verification/PlanMachine.thy ===== *)
theory PlanMachine
  imports PlanLifecycle
begin

section \<open>The service as a state machine\<close>

text \<open>
  The events a run sends to the plan service. \<open>service_step\<close> performs one on a repository, in
  the order the harness does: a tool call is authorised before its result or failure is
  recorded. \<open>run_step\<close> is the specification: what the event does to the current plan of its
  run. The lemma \<open>service_step_refines\<close>, proved from the laws of a repository alone, says
  that every service step is a step of the specification for its run and leaves the plans of
  all other runs alone.
\<close>

subsection \<open>Events\<close>

datatype plan_event =
    EvRevise go_time CreateRequest
  | EvResult go_time string string raw_message string raw_message int
  | EvFailure go_time string string raw_message string
  | EvApprove go_time string int
  | EvMarkFailed go_time string
  | EvMarkBlocked go_time string

fun event_run :: "plan_event \<Rightarrow> string" where
  "event_run (EvRevise now request) = rq_run_id request"
| "event_run (EvResult now run tool arguments text result seq) = run"
| "event_run (EvFailure now run tool arguments message) = run"
| "event_run (EvApprove now run generation) = run"
| "event_run (EvMarkFailed now run) = run"
| "event_run (EvMarkBlocked now run) = run"

text \<open>
  One event on a repository; the relation holds when the service accepts the event. A new plan
  must get an id the repository has not used (\<open>planID\<close> hashes the run, the content and the time).
\<close>

inductive service_step ::
  "'s plan_repo \<Rightarrow> ('s \<Rightarrow> string \<Rightarrow> string set) \<Rightarrow> plan_event \<Rightarrow> 's \<Rightarrow> 's \<Rightarrow> bool"
  for repo :: "'s plan_repo" and ids :: "'s \<Rightarrow> string \<Rightarrow> string set" where
  revise:
    "Authorize repo s (rq_run_id request) ''set_task_plan'' arguments = None \<Longrightarrow>
     validateDefinition (rq_definition request) = Inr d \<Longrightarrow>
     planID (rq_run_id request) (semanticHash d) now \<notin> ids s (rq_run_id request) \<Longrightarrow>
     CreateVersion repo now request s = (Inr p, s') \<Longrightarrow>
     service_step repo ids (EvRevise now request) s s'"
| result:
    "Authorize repo s run tool arguments = None \<Longrightarrow>
     RecordToolResult repo now run tool arguments text result seq s = (None, s') \<Longrightarrow>
     service_step repo ids (EvResult now run tool arguments text result seq) s s'"
| failure:
    "Authorize repo s run tool arguments = None \<Longrightarrow>
     RecordToolFailure repo now run tool message s = (None, s') \<Longrightarrow>
     service_step repo ids (EvFailure now run tool arguments message) s s'"
| approve:
    "Approve repo now run generation s = (None, s') \<Longrightarrow>
     service_step repo ids (EvApprove now run generation) s s'"
| mark_failed:
    "MarkFailed repo now run s = (None, s') \<Longrightarrow>
     service_step repo ids (EvMarkFailed now run) s s'"
| mark_blocked:
    "MarkBlocked repo now run s = (None, s') \<Longrightarrow>
     service_step repo ids (EvMarkBlocked now run) s s'"

inductive service_trace ::
  "'s plan_repo \<Rightarrow> ('s \<Rightarrow> string \<Rightarrow> string set) \<Rightarrow> 's \<Rightarrow> plan_event list \<Rightarrow> 's \<Rightarrow> bool"
  for repo :: "'s plan_repo" and ids :: "'s \<Rightarrow> string \<Rightarrow> string set" and s0 :: 's where
  trace_start: "service_trace repo ids s0 [] s0"
| trace_step: "service_trace repo ids s0 evs s \<Longrightarrow> service_step repo ids ev s s' \<Longrightarrow>
    service_trace repo ids s0 (evs @ [ev]) s'"

subsection \<open>The specification\<close>

text \<open>The tools whose results do not concern the plan.\<close>

definition plan_neutral_tools :: "string set" where
  "plan_neutral_tools = {''set_task_plan'', ''ask_user_question'', ''validate_page_elements''}"

abbreviation touched :: "go_time \<Rightarrow> Plan \<Rightarrow> Plan" where
  "touched now p \<equiv> p\<lparr>pl_updated_at := now\<rparr>"

inductive plan_step :: "plan_event \<Rightarrow> Plan \<Rightarrow> Plan \<Rightarrow> bool" where
  unchanged: "plan_step ev p p"
| revised:
    "revision_allowed (pl_status p) \<Longrightarrow> validateDefinition (rq_definition request) = Inr d \<Longrightarrow>
     pl_plan_sha256 p \<noteq> semanticHash d \<Longrightarrow>
     plan_step (EvRevise now request) p (versioned_plan request d now (Some p))"
| recorded:
    "authorize_plan p tool arguments = None \<Longrightarrow> tool \<notin> plan_neutral_tools \<Longrightarrow>
     record_result p tool arguments text result seq = Inr p' \<Longrightarrow>
     plan_step (EvResult now run tool arguments text result seq) p (touched now p')"
| failed:
    "authorize_plan p tool arguments = None \<Longrightarrow>
     plan_step (EvFailure now run tool arguments message) p (touched now (record_failure p tool message))"
| approved:
    "pl_status p = StatusAwaitingApproval \<Longrightarrow> pl_bound_generation_id p = Some generation \<Longrightarrow>
     plan_step (EvApprove now run generation) p (touched now (p\<lparr>pl_status := StatusApproved\<rparr>))"
| marked_failed:
    "pl_status p \<notin> {StatusCompleted, StatusSuperseded} \<Longrightarrow>
     plan_step (EvMarkFailed now run) p (touched now (p\<lparr>pl_status := StatusFailed\<rparr>))"
| marked_blocked:
    "pl_status p \<notin> {StatusCompleted, StatusSuperseded} \<Longrightarrow>
     plan_step (EvMarkBlocked now run) p (touched now (p\<lparr>pl_status := StatusBlocked\<rparr>))"

inductive_cases plan_step_elim: "plan_step ev p p'"

inductive run_step :: "plan_event \<Rightarrow> Plan option \<Rightarrow> Plan option \<Rightarrow> bool" where
  no_plan: "run_step ev None None"
| first_plan: "validateDefinition (rq_definition request) = Inr d \<Longrightarrow>
    run_step (EvRevise now request) None (Some (versioned_plan request d now None))"
| next_plan: "plan_step ev p p' \<Longrightarrow> run_step ev (Some p) (Some p')"

inductive_cases run_step_Some: "run_step ev (Some p) q"
inductive_cases run_step_elim: "run_step ev p q"

definition current_plan :: "'s plan_repo \<Rightarrow> 's \<Rightarrow> string \<Rightarrow> Plan option" where
  "current_plan repo s run = (case repo_current repo s run of Inl _ \<Rightarrow> None | Inr p \<Rightarrow> Some p)"

definition plans_ok :: "'s plan_repo \<Rightarrow> 's \<Rightarrow> bool" where
  "plans_ok repo s \<longleftrightarrow> (\<forall>run p. current_plan repo s run = Some p \<longrightarrow> plan_ok p)"

subsection \<open>The invariant of the specification\<close>

lemma plan_ok_touched [simp]: "plan_ok (touched now p) = plan_ok p"
  by (simp add: plan_ok_def plan_definition_def plan_steps_ok_def step_ok_cong [of "touched now p" p])

lemma plan_ok_status:
  "plan_ok p \<Longrightarrow> st \<noteq> StatusAwaitingApproval \<Longrightarrow> st \<noteq> StatusApproved \<or> pl_bound_generation_id p \<noteq> None \<Longrightarrow>
   plan_ok (p\<lparr>pl_status := st\<rparr>)"
  by (auto simp: plan_ok_def plan_definition_def plan_steps_ok_def step_ok_cong [of "p\<lparr>pl_status := st\<rparr>" p])

lemma plan_step_ok: "plan_step ev p p' \<Longrightarrow> plan_ok p \<Longrightarrow> plan_ok p'"
proof (induction rule: plan_step.induct)
  case (revised p request d now)
  then show ?case by (intro versioned_plan_ok) (auto dest: validateDefinition_canonical)
qed (auto intro: record_result_ok record_failure_ok plan_ok_status)

lemma run_step_ok:
  assumes "run_step ev p p'" and "\<forall>q. p = Some q \<longrightarrow> plan_ok q" and "p' = Some q'"
  shows "plan_ok q'"
  using assms
proof (cases rule: run_step.cases)
  case (first_plan request d now)
  with assms(3) show ?thesis
    using versioned_plan_ok(1) [of d None] validateDefinition_canonical by auto
qed (use assms plan_step_ok in \<open>auto\<close>)

text \<open>A step that creates no new version keeps the content of the plan.\<close>

lemma plan_step_kept:
  assumes "plan_step ev p p'" and "plan_ok p" and "pl_version p' = pl_version p"
  shows "content_kept p p'"
  using assms
proof (induction rule: plan_step.induct)
  case (revised p request d now)
  have "pl_version (versioned_plan request d now (Some p)) = pl_version p + 1"
    by (simp add: versioned_plan_def rebindCarriedTargetBindings_def)
  with revised show ?case by simp
next
  case (recorded p tool arguments _ result seq p' now run)
  then show ?case using record_result_kept [OF recorded(3) plan_ok_distinct] by simp
qed (auto intro: record_failure_kept)

subsection \<open>Refinement\<close>

context plan_repository
begin

lemma save_updated_current:
  assumes "inv s" and "repo_current repo s run = Inr q" and "same_plan p q"
    and "save_updated repo now p s = (err, s')"
  shows "err = None" and "inv s'" and "repo_current repo s' run = Inr (touched now p)"
    and "\<forall>r. r \<noteq> run \<longrightarrow> repo_current repo s' r = repo_current repo s r"
proof -
  from assms(3) have "same_plan (touched now p) q" by simp
  from save_current [OF assms(1,2) this] obtain t where
    "repo_save repo (touched now p) s = (None, t)" "inv t"
    "repo_current repo t run = Inr (touched now p)"
    "\<And>r. r \<noteq> run \<Longrightarrow> repo_current repo t r = repo_current repo s r" by blast
  with assms(4) show "err = None" and "inv s'" and "repo_current repo s' run = Inr (touched now p)"
    and "\<forall>r. r \<noteq> run \<longrightarrow> repo_current repo s' r = repo_current repo s r"
    by (auto simp: save_updated_def)
qed

lemma store_version_current:
  assumes "inv s" and "pl_id p \<notin> ids s (pl_run_id p)" and "store_version repo p s = (r, s')"
    and "\<forall>st \<in> set (pl_steps p). carried_step st" and "\<not> blank (pl_id p)"
    and v: "v = (case repo_current repo s (pl_run_id p) of Inl _ \<Rightarrow> 1 | Inr q \<Rightarrow> pl_version q + 1)"
    and bound: "bound = fst (rebindCarriedTargetBindings (p\<lparr>pl_version := v\<rparr>))"
  shows "inv s' \<and> r = Inr bound \<and> repo_current repo s' (pl_run_id p) = Inr bound \<and>
    (\<forall>run. run \<noteq> pl_run_id p \<longrightarrow> repo_current repo s' run = repo_current repo s run)"
proof -
  obtain s1 where create: "repo_create repo p s = (Inr (p\<lparr>pl_version := v\<rparr>), s1)" "inv s1"
      "repo_current repo s1 (pl_run_id p) = Inr (p\<lparr>pl_version := v\<rparr>)"
      "\<And>run. run \<noteq> pl_run_id p \<Longrightarrow> repo_current repo s1 run = repo_current repo s run"
      "1 \<le> v"
    using create_current [OF assms(1,2)] unfolding v by metis
  let ?p = "p\<lparr>pl_version := v\<rparr>"
  show ?thesis
  proof (cases "snd (rebindCarriedTargetBindings ?p)")
    case True
    have "same_plan bound ?p"
      by (simp add: bound rebindCarriedTargetBindings_def)
    from save_current [OF create(2,3) this] obtain s2 where
      "repo_save repo bound s1 = (None, s2)" "inv s2" "repo_current repo s2 (pl_run_id p) = Inr bound"
      "\<And>run. run \<noteq> pl_run_id p \<Longrightarrow> repo_current repo s2 run = repo_current repo s1 run"
      by blast
    with True create assms(3) show ?thesis
      by (auto simp: store_version_def bound split: prod.splits)
  next
    case False
    have "fst (rebindStep ?p st) = st" if "st \<in> set (pl_steps p)" for st
    proof -
      from False that have "\<not> snd (rebindStep ?p st)"
        by (auto simp: rebindCarriedTargetBindings_def list_ex_iff)
      then have "st_target_binding st = None"
        using rebindStep_ok(5) [of st ?p] assms(4,5) that create(5) by simp
      then show ?thesis by (simp add: rebindStep_def)
    qed
    then have "bound = ?p"
      by (simp add: bound rebindCarriedTargetBindings_def map_idI)
    with False create assms(3) show ?thesis
      by (auto simp: store_version_def bound split: prod.splits)
  qed
qed

lemma current_plan_Some: "current_plan repo s run = Some p \<longleftrightarrow> repo_current repo s run = Inr p"
  by (auto simp: current_plan_def split: sum.splits)

lemma current_plan_None:
  "inv s \<Longrightarrow> current_plan repo s run = None \<longleftrightarrow> repo_current repo s run = Inl PlanNotFound"
  using current_error by (auto simp: current_plan_def split: sum.splits)

lemma CreateVersion_refines:
  assumes "inv s" and "plans_ok repo s" and "validateDefinition (rq_definition request) = Inr d"
    and "planID (rq_run_id request) (semanticHash d) now \<notin> ids s (rq_run_id request)"
    and "CreateVersion repo now request s = (Inr p, s')"
  shows "inv s' \<and>
    current_plan repo s' (rq_run_id request) = Some p \<and>
    (case current_plan repo s (rq_run_id request) of
       None \<Rightarrow> p = versioned_plan request d now None
     | Some q \<Rightarrow> if pl_plan_sha256 q = semanticHash d then p = q \<and> s' = s
         else p = versioned_plan request d now (Some q)) \<and>
    (\<forall>run. run \<noteq> rq_run_id request \<longrightarrow> current_plan repo s' run = current_plan repo s run)"
proof -
  let ?run = "rq_run_id request"
  have canonical: "canonical_definition d" using assms(3) by (rule validateDefinition_canonical)
  have store: "inv s' \<and> p = versioned_plan request d now q \<and> repo_current repo s' ?run = Inr p \<and>
      (\<forall>run. run \<noteq> ?run \<longrightarrow> repo_current repo s' run = repo_current repo s run)"
    if "store_version repo (drafted_plan request d now q) s = (Inr p, s')"
      and "current_plan repo s ?run = q" for q
  proof -
    let ?d = "drafted_plan request d now q"
    have ok: "\<forall>p. q = Some p \<longrightarrow> plan_ok p" using assms(2) that(2) by (auto simp: plans_ok_def)
    have same: "same_plan ?d (new_plan request d now)" by (rule drafted_plan_core)
    then have ids: "pl_run_id ?d = ?run" "pl_id ?d = planID ?run (semanticHash d) now"
      by (simp_all add: same_plan_def new_plan_def Let_def)
    have v: "(case q of None \<Rightarrow> 1 | Some p \<Rightarrow> pl_version p + 1) =
        (case repo_current repo s (pl_run_id ?d) of Inl _ \<Rightarrow> 1 | Inr q \<Rightarrow> pl_version q + 1)"
      using that(2) by (auto simp: ids current_plan_def split: sum.splits)
    have "\<not> blank (pl_id ?d)"
      using same new_plan_id_not_blank by (simp add: same_plan_def)
    with store_version_current [OF assms(1) _ that(1) drafted_plan_carried(1) [OF canonical ok] _ v refl]
    show ?thesis using assms(4) by (simp add: ids versioned_plan_def)
  qed
  show ?thesis
  proof (cases "current_plan repo s ?run")
    case None
    then have "repo_current repo s ?run = Inl PlanNotFound"
      using current_plan_None [OF assms(1)] by simp
    with assms(3,5) have "store_version repo (drafted_plan request d now None) s = (Inr p, s')"
      by (auto simp: CreateVersion_def Let_def drafted_plan_def split: if_splits)
    from store [OF this None] None show ?thesis
      by (simp add: current_plan_def)
  next
    case (Some q)
    then have cur: "repo_current repo s ?run = Inr q" by (simp add: current_plan_Some)
    show ?thesis
    proof (cases "pl_plan_sha256 q = semanticHash d")
      case True
      with assms(1,3,5) cur show ?thesis
        by (auto simp: CreateVersion_def Let_def current_plan_def split: if_splits)
    next
      case False
      with assms(3,5) cur have "store_version repo (drafted_plan request d now (Some q)) s = (Inr p, s')"
        by (auto simp: CreateVersion_def Let_def drafted_plan_def split: if_splits)
      from store [OF this Some] Some False show ?thesis
        by (simp add: current_plan_def)
    qed
  qed
qed

lemma CreateVersion_succeeds:
  assumes "inv s" and "plans_ok repo s" and "validateDefinition (rq_definition request) = Inr d"
    and "planID (rq_run_id request) (semanticHash d) now \<notin> ids s (rq_run_id request)"
    and "\<not> blank (rq_run_id request)"
  shows "\<exists>p s'. CreateVersion repo now request s = (Inr p, s')"
proof -
  let ?run = "rq_run_id request"
  let ?q = "current_plan repo s ?run"
  let ?d = "drafted_plan request d now ?q"
  have canonical: "canonical_definition d" using assms(3) by (rule validateDefinition_canonical)
  have ok: "\<forall>p. ?q = Some p \<longrightarrow> plan_ok p" using assms(2) by (auto simp: plans_ok_def)
  have same: "same_plan ?d (new_plan request d now)" by (rule drafted_plan_core)
  then have fields: "pl_run_id ?d = ?run" "pl_id ?d = planID ?run (semanticHash d) now"
    by (simp_all add: same_plan_def new_plan_def Let_def)
  have "\<not> blank (pl_id ?d)" using same new_plan_id_not_blank by (simp add: same_plan_def)
  obtain r s' where rs: "store_version repo ?d s = (r, s')" by (cases "store_version repo ?d s")
  have "\<exists>p. r = Inr p"
    using store_version_current [OF assms(1) _ rs drafted_plan_carried(1) [OF canonical ok]
      \<open>\<not> blank (pl_id ?d)\<close> refl refl] assms(4) by (auto simp: fields)
  then obtain p where store: "store_version repo ?d s = (Inr p, s')" using rs by blast
  show ?thesis
  proof (cases ?q)
    case None
    then have "repo_current repo s ?run = Inl PlanNotFound"
      using current_plan_None [OF assms(1)] by simp
    with store None assms(3,5) show ?thesis
      by (auto simp: CreateVersion_def Let_def drafted_plan_def)
  next
    case (Some q)
    then have "repo_current repo s ?run = Inr q" by (simp add: current_plan_Some)
    with store Some assms(3,5) show ?thesis
      by (auto simp: CreateVersion_def Let_def drafted_plan_def)
  qed
qed

lemma Authorize_plan:
  assumes "Authorize repo s run tool arguments = None" and "current_plan repo s run = Some p"
  shows "(tool = ''set_task_plan'' \<and> revision_allowed (pl_status p)) \<or>
    (tool \<noteq> ''set_task_plan'' \<and> authorize_plan p tool arguments = None)"
  using assms by (auto simp: Authorize_def current_plan_Some split: if_splits)

lemma authorize_set_task_plan [simp]: "authorize_plan p ''set_task_plan'' arguments = None"
  by (simp add: authorize_plan_def)

lemma Authorize_plan_None:
  assumes "Authorize repo s run tool arguments = None" and "current_plan repo s run = Some p"
  shows "authorize_plan p tool arguments = None"
  using Authorize_plan [OF assms] by auto

lemma Authorize_no_plan:
  assumes "inv s" and "Authorize repo s run tool arguments = None" and "current_plan repo s run = None"
  shows "tool = ''set_task_plan'' \<or> tool = ''ask_user_question''"
  using assms current_plan_None [OF assms(1)] by (auto simp: Authorize_def split: if_splits)

text \<open>An operation that saves an update of the current plan.\<close>

lemma update_refines:
  assumes "inv s" and "current_plan repo s run = Some q" and "same_plan p q"
    and "save_updated repo now p s = (None, s')"
  shows "inv s' \<and> current_plan repo s' run = Some (touched now p) \<and>
    (\<forall>r. r \<noteq> run \<longrightarrow> current_plan repo s' r = current_plan repo s r)"
  using save_updated_current [OF assms(1) _ assms(3,4), of run] assms(2)
  by (simp add: current_plan_Some) (simp add: current_plan_def)

lemma markTerminal_refines:
  assumes "inv s" and "markTerminal repo now run st s = (None, s')"
  shows "inv s' \<and> (\<forall>r. r \<noteq> run \<longrightarrow> current_plan repo s' r = current_plan repo s r) \<and>
    (case current_plan repo s run of
       None \<Rightarrow> current_plan repo s' run = None
     | Some p \<Rightarrow> current_plan repo s' run =
         Some (if pl_status p \<in> {StatusCompleted, StatusSuperseded} then p
           else touched now (p\<lparr>pl_status := st\<rparr>)))"
proof (cases "current_plan repo s run")
  case None
  then have "repo_current repo s run = Inl PlanNotFound"
    using current_plan_None [OF assms(1)] by simp
  with assms None show ?thesis by (auto simp: markTerminal_def)
next
  case (Some p)
  then have cur: "repo_current repo s run = Inr p" by (simp add: current_plan_Some)
  show ?thesis
  proof (cases "pl_status p \<in> {StatusCompleted, StatusSuperseded}")
    case True
    with assms cur Some show ?thesis by (auto simp: markTerminal_def)
  next
    case False
    with assms(2) cur have "save_updated repo now (p\<lparr>pl_status := st\<rparr>) s = (None, s')"
      by (simp add: markTerminal_def)
    from update_refines [OF assms(1) Some _ this] False Some show ?thesis by auto
  qed
qed

lemma service_step_refines:
  assumes "service_step repo ids ev s s'" and "inv s" and "plans_ok repo s"
  shows "inv s' \<and> run_step ev (current_plan repo s (event_run ev)) (current_plan repo s' (event_run ev)) \<and>
    (\<forall>run. run \<noteq> event_run ev \<longrightarrow> current_plan repo s' run = current_plan repo s run)"
  using assms
proof (induction rule: service_step.induct)
  case (revise s request arguments d now s' p)
  note step = CreateVersion_refines [OF revise(5,6,2,3,4)]
  show ?case
  proof (cases "current_plan repo s (rq_run_id request)")
    case None
    with step revise(2) show ?thesis by (auto intro: run_step.intros)
  next
    case (Some q)
    with revise(1) have "revision_allowed (pl_status q)"
      using Authorize_plan by blast
    with step revise(2) Some show ?thesis
      by (auto intro: run_step.intros plan_step.intros split: if_splits)
  qed
next
  case (result s run tool arguments now rtext result sq s')
  show ?case
  proof (cases "tool \<in> plan_neutral_tools")
    case True
    with result(2) have "s' = s"
      by (auto simp: RecordToolResult_def plan_neutral_tools_def)
    with result(3) show ?thesis
      by (cases "current_plan repo s run") (auto intro: run_step.intros plan_step.intros)
  next
    case False
    then have "tool \<noteq> ''set_task_plan''" "tool \<noteq> ''ask_user_question''"
      by (auto simp: plan_neutral_tools_def)
    with Authorize_no_plan [OF result(3,1)] obtain p where p: "current_plan repo s run = Some p"
      by (cases "current_plan repo s run") auto
    with False result(2) obtain p' where rec: "record_result p tool arguments rtext result sq = Inr p'"
      and save: "save_updated repo now p' s = (None, s')"
      by (auto simp: RecordToolResult_def plan_neutral_tools_def current_plan_Some split: sum.splits)
    have "plan_ok p" using result(4) p by (simp add: plans_ok_def)
    then have "same_plan p' p"
      using record_result_kept [OF rec plan_ok_distinct] by (simp add: content_kept_def)
    from update_refines [OF result(3) p this save] show ?thesis
      using p Authorize_plan_None [OF result(1) p] False rec
      by (auto intro: run_step.intros plan_step.intros)
  qed
next
  case (failure s run tool arguments now message s')
  show ?case
  proof (cases "current_plan repo s run")
    case None
    then have "repo_current repo s run = Inl PlanNotFound"
      using current_plan_None [OF failure(3)] by simp
    with failure(2,3) None show ?thesis
      by (auto simp: RecordToolFailure_def intro: run_step.intros)
  next
    case (Some p)
    with failure(2) have save: "save_updated repo now (record_failure p tool message) s = (None, s')"
      by (auto simp: RecordToolFailure_def current_plan_Some)
    have "same_plan (record_failure p tool message) p"
      using record_failure_kept [of p tool message] by (simp add: content_kept_def)
    from update_refines [OF failure(3) Some this save] show ?thesis
      using Some Authorize_plan_None [OF failure(1) Some]
      by (auto intro: run_step.intros plan_step.intros)
  qed
next
  case (approve now run generation s s')
  then obtain p where p: "current_plan repo s run = Some p"
    and st: "pl_status p = StatusAwaitingApproval" "pl_bound_generation_id p = Some generation"
    and save: "save_updated repo now (p\<lparr>pl_status := StatusApproved\<rparr>) s = (None, s')"
    by (auto simp: Approve_def current_plan_Some split: sum.splits if_splits)
  from update_refines [OF approve(2) p _ save] show ?case
    using p st by (auto intro: run_step.intros plan_step.intros)
next
  case (mark_failed now run s s')
  from markTerminal_refines [OF mark_failed(2) mark_failed(1) [unfolded MarkFailed_def]] show ?case
    by (cases "current_plan repo s run") (auto intro: run_step.intros plan_step.intros)
next
  case (mark_blocked now run s s')
  from markTerminal_refines [OF mark_blocked(2) mark_blocked(1) [unfolded MarkBlocked_def]] show ?case
    by (cases "current_plan repo s run") (auto intro: run_step.intros plan_step.intros)
qed

lemma service_step_ok:
  assumes "service_step repo ids ev s s'" and "inv s" and "plans_ok repo s"
  shows "inv s'" and "plans_ok repo s'"
proof -
  note step = service_step_refines [OF assms]
  then show "inv s'" by simp
  show "plans_ok repo s'"
    unfolding plans_ok_def
  proof (intro allI impI)
    fix run p assume p: "current_plan repo s' run = Some p"
    show "plan_ok p"
    proof (cases "run = event_run ev")
      case True
      with step p assms(3) show ?thesis
        by (intro run_step_ok [of ev "current_plan repo s run" "Some p"]) (auto simp: plans_ok_def)
    next
      case False
      with step p assms(3) show ?thesis by (auto simp: plans_ok_def)
    qed
  qed
qed

lemma service_trace_ok:
  "service_trace repo ids s0 evs s \<Longrightarrow> inv s0 \<Longrightarrow> plans_ok repo s0 \<Longrightarrow> inv s \<and> plans_ok repo s"
  by (induction rule: service_trace.induct) (auto dest: service_step_ok)

text \<open>Induction along a trace for a property of the current plan of one run.\<close>

lemma service_trace_induct:
  assumes "service_trace repo ids s0 evs s" and "inv s0" and "plans_ok repo s0"
    and "Q [] (current_plan repo s0 run)"
    and "\<And>pre t ev p p'. Q pre p \<Longrightarrow> service_trace repo ids s0 pre t \<Longrightarrow>
      current_plan repo t run = p \<Longrightarrow> event_run ev = run \<Longrightarrow> run_step ev p p' \<Longrightarrow>
      \<forall>q. p = Some q \<longrightarrow> plan_ok q \<Longrightarrow> set (pre @ [ev]) \<subseteq> set evs \<Longrightarrow> Q (pre @ [ev]) p'"
    and "\<And>pre ev p. Q pre p \<Longrightarrow> event_run ev \<noteq> run \<Longrightarrow> Q (pre @ [ev]) p"
  shows "Q evs (current_plan repo s run)"
  using assms(1,4,5)
proof (induction rule: service_trace.induct)
  case trace_start
  then show ?case by simp
next
  case (trace_step evs s ev s')
  have "Q evs (current_plan repo s run)"
  proof (rule trace_step.IH)
    show "Q [] (current_plan repo s0 run)" by (rule trace_step.prems(1))
    fix pre t e p p'
    assume "Q pre p" "service_trace repo ids s0 pre t" "current_plan repo t run = p"
      and "event_run e = run" "run_step e p p'" "\<forall>q. p = Some q \<longrightarrow> plan_ok q"
      and "set (pre @ [e]) \<subseteq> set evs"
    then show "Q (pre @ [e]) p'" by (intro trace_step.prems(2)) auto
  qed
  moreover have ok: "inv s" "plans_ok repo s"
    using service_trace_ok [OF trace_step.hyps(1) assms(2,3)] by simp_all
  moreover note service_step_refines [OF trace_step.hyps(2) ok]
  ultimately show ?case
    using trace_step.prems(2) [of evs "current_plan repo s run" s ev "current_plan repo s' run"]
      assms(6) trace_step.hyps(1)
    by (cases "event_run ev = run") (auto simp: plans_ok_def)
qed

end

end
