(* ===== verification/PlanProperties.thy ===== *)
theory PlanProperties
  imports PlanMachine
begin

section \<open>What the plan service guarantees\<close>

text \<open>
  Properties of the service on the repository in memory, over all traces of accepted events.
  The proofs use the refinement of theory \<open>PlanMachine\<close> and the invariant \<open>plan_ok\<close>.
\<close>

subsection \<open>Steps of the specification\<close>

lemma authorize_plan_status:
  assumes "authorize_plan p tool arguments = None"
  shows "tool \<in> {''explore_page'', ''explore_flow''} \<Longrightarrow> pl_status p = StatusGrounding"
    and "tool = ''generate_dsl'' \<Longrightarrow> pl_status p = StatusReadyForGeneration"
    and "tool = ''execute_dsl'' \<Longrightarrow> pl_status p = StatusApproved \<and>
      (\<exists>g. pl_bound_generation_id p = Some g \<and> unmarshal dec_generation_id 0 arguments = Some g)"
    and "tool = ''get_report'' \<Longrightarrow> pl_status p = StatusExecuting"
    and "tool = ''fix_and_retry'' \<Longrightarrow> pl_status p = StatusFailed"
  using assms
  by (auto simp: authorize_plan_def authorizeExploration_def split: if_splits option.splits sum.splits)

lemma record_exploration_status:
  assumes "record_exploration p tool arguments rtext result seq = Inr p'"
  shows "pl_status p' = pl_status p \<or> (pl_status p' = StatusReadyForGeneration \<and> allGrounded (pl_steps p'))"
  using assms by (auto simp: record_exploration_def split: sum.splits if_splits)

lemma record_result_other:
  assumes "record_result p tool arguments rtext result seq = Inr p'"
    and "tool \<notin> {''explore_page'', ''explore_flow'', ''generate_dsl'', ''execute_dsl'', ''get_report'',
      ''fix_and_retry''}"
  shows "p' = p"
  using assms by (auto simp: record_result_def)

lemma record_failure_other:
  "tool \<notin> {''generate_dsl'', ''execute_dsl''} \<Longrightarrow> record_failure p tool message = p"
  by (simp add: record_failure_def)

text \<open>How an authorised tool call moves the status.\<close>

lemma record_result_status:
  assumes "authorize_plan p tool arguments = None"
    and "record_result p tool arguments rtext result seq = Inr p'"
  shows "(p' = p) \<or>
    (pl_status p = StatusGrounding \<and> (pl_status p' = StatusGrounding \<or>
       pl_status p' = StatusReadyForGeneration \<and> allGrounded (pl_steps p'))) \<or>
    (pl_status p = StatusReadyForGeneration \<and> pl_status p' = StatusAwaitingApproval \<and>
       pl_steps p' = pl_steps p) \<or>
    (pl_status p = StatusApproved \<and> pl_status p' = StatusExecuting \<and> pl_steps p' = pl_steps p) \<or>
    (pl_status p = StatusExecuting \<and> pl_status p' \<in> {StatusCompleted, StatusFailed} \<and>
       pl_steps p' = pl_steps p) \<or>
    (pl_status p = StatusFailed \<and> (pl_status p' \<in> {StatusGrounding, StatusBlocked} \<or>
       pl_status p' \<in> {StatusReadyForGeneration, StatusExecuting} \<and> pl_steps p' = pl_steps p))"
proof (cases "tool \<in> {''explore_page'', ''explore_flow''}")
  case True
  then have "record_exploration p tool arguments rtext result seq = Inr p'"
    using assms(2) by (auto simp: record_result_def)
  with record_exploration_status [OF this] authorize_plan_status(1) [OF assms(1) True] show ?thesis
    by auto
next
  case False
  consider "tool = ''generate_dsl''" | "tool = ''execute_dsl''" | "tool = ''get_report''"
    | "tool = ''fix_and_retry''"
    | "tool \<notin> {''explore_page'', ''explore_flow'', ''generate_dsl'', ''execute_dsl'', ''get_report'',
        ''fix_and_retry''}"
    using False by auto
  then show ?thesis
  proof cases
    case 1
    with assms(2) authorize_plan_status(2) [OF assms(1)] show ?thesis
      by (auto simp: record_result_def split: if_splits option.splits)
  next
    case 2
    with assms(2) authorize_plan_status(3) [OF assms(1)] show ?thesis
      by (auto simp: record_result_def)
  next
    case 3
    with assms(2) authorize_plan_status(4) [OF assms(1)] show ?thesis
      by (auto simp: record_result_def split: if_splits option.splits)
  next
    case 4
    then have failed: "pl_status p = StatusFailed" using authorize_plan_status(5) [OF assms(1)] by simp
    obtain strategy where
      "unmarshal (dec_struct [(''strategy'', dec_string)]) [] result = Some strategy"
      using assms(2) 4 by (auto simp: record_result_def split: option.splits)
    with assms(2) 4 have "pl_status p' \<in> {StatusGrounding, StatusBlocked} \<or>
        pl_status p' \<in> {StatusReadyForGeneration, StatusExecuting} \<and> pl_steps p' = pl_steps p"
      by (simp add: record_result_def Let_def split: if_split_asm) auto
    with failed show ?thesis by simp
  next
    case 5
    from record_result_other [OF assms(2) 5] show ?thesis by simp
  qed
qed

lemma record_failure_status:
  assumes "authorize_plan p tool arguments = None"
  shows "record_failure p tool message = p \<or>
    (pl_status p = StatusReadyForGeneration \<and> pl_status (record_failure p tool message) = StatusGrounding) \<or>
    (pl_status p = StatusApproved \<and> record_failure p tool message = p\<lparr>pl_status := StatusFailed\<rparr>)"
proof (cases "tool \<in> {''generate_dsl'', ''execute_dsl''}")
  case True
  with authorize_plan_status(2,3) [OF assms] show ?thesis
    by (auto simp: record_failure_def Let_def)
next
  case False
  then show ?thesis by (simp add: record_failure_other)
qed

subsection \<open>Invariants of all traces\<close>

lemma plans_ok_new [simp]: "plans_ok memory_repo NewMemoryRepository"
  by (simp add: plans_ok_def current_plan_def memory_repo_def mem_GetCurrent_def NewMemoryRepository_def)

text \<open>
  C2. Every operation of the service refines the specification: on a repository in order, an
  accepted event performs a step of the specification on the current plan of its run, keeps the
  repository in order, and leaves the plans of all other runs as they are.
\<close>

theorem memory_service_refines:
  assumes "service_step memory_repo memory_ids ev s s'"
    and "memory_inv s" and "plans_ok memory_repo s"
  shows "memory_inv s' \<and> plans_ok memory_repo s' \<and>
    run_step ev (current_plan memory_repo s (event_run ev)) (current_plan memory_repo s' (event_run ev)) \<and>
    (\<forall>run. run \<noteq> event_run ev \<longrightarrow> current_plan memory_repo s' run = current_plan memory_repo s run)"
  using memory.service_step_refines [OF assms] memory.service_step_ok [OF assms] by blast

text \<open>
  C3. In every reachable state the current plan of a run is in order: its content is a
  canonical definition and its hash is the hash of this content; every target binding is valid
  and belongs to its step in this very version; every grounded step that needs a binding has one;
  and a plan that awaits approval or is approved has a bound generation.
\<close>

theorem reachable_plans_ok:
  assumes "service_trace memory_repo memory_ids NewMemoryRepository evs s"
    and "current_plan memory_repo s run = Some p"
  shows "plan_ok p"
  using memory.service_trace_ok [OF assms(1) memory_inv_new plans_ok_new] assms(2)
  by (simp add: plans_ok_def)

subsection \<open>Approval before execution\<close>

definition approved_as :: "plan_event list \<Rightarrow> memory_plans \<Rightarrow> string \<Rightarrow> int \<Rightarrow> Plan \<Rightarrow> bool" where
  "approved_as evs s0 run generation p \<longleftrightarrow>
     (\<exists>now pre post s1 p1. evs = pre @ EvApprove now run generation # post \<and>
        service_trace memory_repo memory_ids s0 pre s1 \<and>
        current_plan memory_repo s1 run = Some p1 \<and> pl_status p1 = StatusAwaitingApproval \<and>
        pl_bound_generation_id p1 = Some generation \<and> content_kept p1 p)"

lemma approved_as_snoc:
  "approved_as evs s0 run g p \<Longrightarrow> content_kept p p' \<Longrightarrow> approved_as (evs @ [ev]) s0 run g p'"
proof -
  assume "approved_as evs s0 run g p" and kept: "content_kept p p'"
  then obtain now pre post s1 p1 where
    "evs = pre @ EvApprove now run g # post" "service_trace memory_repo memory_ids s0 pre s1"
    "current_plan memory_repo s1 run = Some p1" "pl_status p1 = StatusAwaitingApproval"
    "pl_bound_generation_id p1 = Some g" "content_kept p1 p"
    unfolding approved_as_def by blast
  moreover from this(1) have "evs @ [ev] = pre @ EvApprove now run g # (post @ [ev])" by simp
  ultimately show ?thesis
    unfolding approved_as_def using content_kept_trans [OF _ kept] by blast
qed

lemma versioned_plan_status:
  assumes "validateDefinition source = Inr d" and "\<forall>p. previous = Some p \<longrightarrow> plan_ok p"
  shows "pl_status (versioned_plan request d now previous) \<in> {StatusGrounding, StatusReadyForGeneration}"
  using versioned_plan_ok(3) [OF validateDefinition_canonical [OF assms(1)] assms(2)] .

lemma first_plan_status:
  "run_step ev None (Some q) \<Longrightarrow> pl_status q \<in> {StatusGrounding, StatusReadyForGeneration}"
  by (erule run_step_elim) (auto dest: versioned_plan_status [where previous = None])

lemma plan_step_approved:
  assumes "plan_step ev p p'" and "plan_ok p" and "pl_status p' = StatusApproved"
  shows "(\<exists>now run g. ev = EvApprove now run g \<and> pl_status p = StatusAwaitingApproval \<and>
      pl_bound_generation_id p = Some g \<and> pl_bound_generation_id p' = Some g \<and> content_kept p p') \<or>
    (pl_status p = StatusApproved \<and> pl_bound_generation_id p' = pl_bound_generation_id p \<and>
      content_kept p p')"
  using assms
proof (cases rule: plan_step.cases)
  case unchanged
  with assms(3) show ?thesis by simp
next
  case (revised request d now)
  with assms(2,3) versioned_plan_status [of _ d "Some p" request now] show ?thesis by auto
next
  case (recorded tool arguments rtext result seq q now run)
  with assms(3) record_result_status [OF recorded(3,5)] show ?thesis by auto
next
  case (failed tool arguments now run message)
  with assms(3) record_failure_status [OF failed(3), of message] show ?thesis by auto
next
  case (approved generation now run)
  then show ?thesis by simp
next
  case (marked_failed now run)
  with assms(3) show ?thesis by simp
next
  case (marked_blocked now run)
  with assms(3) show ?thesis by simp
qed

text \<open>
  C1. Nothing is executed that was not approved: whenever \<open>execute_dsl\<close> is authorised for a
  generation, the trace holds an approval of exactly this generation, given while the plan was
  waiting for approval with this generation bound, and the plan has had the same version,
  content and hash ever since.
\<close>

theorem execution_needs_approval:
  assumes "service_trace memory_repo memory_ids s0 evs s"
    and "memory_inv s0" and "plans_ok memory_repo s0"
    and "\<forall>q. current_plan memory_repo s0 run = Some q \<longrightarrow> pl_status q \<noteq> StatusApproved"
    and "Authorize memory_repo s run ''execute_dsl'' arguments = None"
  shows "\<exists>generation p. unmarshal dec_generation_id 0 arguments = Some generation \<and>
    current_plan memory_repo s run = Some p \<and> approved_as evs s0 run generation p"
proof -
  define Q where "Q evs p \<longleftrightarrow> (\<forall>q. p = Some q \<and> pl_status q = StatusApproved \<longrightarrow>
      (\<exists>g. pl_bound_generation_id q = Some g \<and> approved_as evs s0 run g q))" for evs p
  have "Q evs (current_plan memory_repo s run)"
  proof (rule memory.service_trace_induct [OF assms(1-3)])
    show "Q [] (current_plan memory_repo s0 run)" using assms(4) by (auto simp: Q_def)
  next
    fix pre t ev p p'
    assume pre: "Q pre p" "service_trace memory_repo memory_ids s0 pre t"
      "current_plan memory_repo t run = p" "event_run ev = run" "run_step ev p p'"
      "\<forall>q. p = Some q \<longrightarrow> plan_ok q"
    show "Q (pre @ [ev]) p'"
      unfolding Q_def
    proof (intro allI impI, elim conjE)
      fix q' assume q': "p' = Some q'" "pl_status q' = StatusApproved"
      with pre(5) first_plan_status [of ev q'] obtain q where q: "p = Some q" "plan_step ev q q'"
        by (cases p) (auto elim: run_step_Some)
      with pre(6) have "plan_ok q" by simp
      from plan_step_approved [OF q(2) this q'(2)]
      show "\<exists>g. pl_bound_generation_id q' = Some g \<and> approved_as (pre @ [ev]) s0 run g q'"
      proof (elim disjE exE conjE)
        fix now r g
        assume ev: "ev = EvApprove now r g" "pl_status q = StatusAwaitingApproval"
          "pl_bound_generation_id q = Some g" "pl_bound_generation_id q' = Some g" "content_kept q q'"
        with pre(2-4) q(1) have "approved_as (pre @ [ev]) s0 run g q'"
          unfolding approved_as_def by force
        with ev show ?thesis by blast
      next
        assume "pl_status q = StatusApproved" "pl_bound_generation_id q' = pl_bound_generation_id q"
          "content_kept q q'"
        with pre(1) q(1) show ?thesis by (auto simp: Q_def intro: approved_as_snoc)
      qed
    qed
  next
    fix pre ev p
    assume "Q pre p" "event_run ev \<noteq> run"
    then show "Q (pre @ [ev]) p" by (auto simp: Q_def intro: approved_as_snoc [OF _ content_kept_refl])
  qed
  moreover obtain p where p: "current_plan memory_repo s run = Some p"
    and "authorize_plan p ''execute_dsl'' arguments = None"
    using assms(5) by (auto simp: Authorize_def current_plan_def split: sum.splits if_splits)
  moreover note authorize_plan_status(3) [OF this(2) refl]
  ultimately show ?thesis by (auto simp: Q_def)
qed

subsection \<open>Completed plans\<close>

lemma plan_step_completed:
  assumes "plan_step ev p p'" and "pl_status p = StatusCompleted"
  shows "p' = p \<or> (\<exists>now. p' = touched now p)"
  using assms
proof (cases rule: plan_step.cases)
  case (recorded tool arguments rtext result seq q now run)
  with assms(2) record_result_status [OF recorded(3,5)] show ?thesis by auto
next
  case (failed tool arguments now run message)
  with assms(2) record_failure_status [OF failed(3), of message] show ?thesis by auto
next
  case (revised request d now)
  with assms(2) show ?thesis by (simp add: revision_allowed_def)
next
  case (approved generation now run)
  with assms(2) show ?thesis by simp
next
  case (marked_failed now run)
  with assms(2) show ?thesis by simp
next
  case (marked_blocked now run)
  with assms(2) show ?thesis by simp
qed simp

text \<open>
  C30. Completion is final: once the current plan of a run is completed, no further sequence of
  accepted events replaces it, changes its steps or moves its status; at most its time of
  update changes.
\<close>

theorem completed_is_final:
  assumes "service_trace memory_repo memory_ids s0 evs s"
    and "memory_inv s0" and "plans_ok memory_repo s0"
    and "current_plan memory_repo s0 run = Some p" and "pl_status p = StatusCompleted"
  shows "\<exists>now. current_plan memory_repo s run = Some (touched now p)"
proof -
  define Q where "Q evs q \<longleftrightarrow> (\<exists>now. q = Some (touched now p))" for evs :: "plan_event list" and q :: "Plan option"
  have "Q evs (current_plan memory_repo s run)"
  proof (rule memory.service_trace_induct [OF assms(1-3)])
    have "Some p = Some (touched (pl_updated_at p) p)" by simp
    then show "Q [] (current_plan memory_repo s0 run)"
      unfolding Q_def assms(4) by blast
  next
    fix pre t ev q q'
    assume "Q pre q" and step: "run_step ev q q'"
    then obtain now where q: "q = Some (touched now p)" by (auto simp: Q_def)
    with step obtain p' where p': "q' = Some p'" "plan_step ev (touched now p) p'"
      by (auto elim: run_step_Some)
    have "pl_status (touched now p) = StatusCompleted" using assms(5) by simp
    from plan_step_completed [OF p'(2) this] p'(1) show "Q (pre @ [ev]) q'"
      by (auto simp: Q_def)
  qed (simp add: Q_def)
  then show ?thesis by (simp add: Q_def)
qed

subsection \<open>Leaving the grounding phase\<close>

definition past_grounding :: "Status set" where
  "past_grounding = {StatusReadyForGeneration, StatusAwaitingApproval, StatusApproved,
     StatusExecuting, StatusCompleted, StatusFailed}"

lemma drafted_plan_ready:
  "pl_status (drafted_plan request d now previous) = StatusReadyForGeneration \<Longrightarrow>
   allGrounded (pl_steps (drafted_plan request d now previous))"
  by (auto simp: drafted_plan_def carryForwardGrounding_def Let_def split: option.splits if_splits)

lemma versioned_plan_ready:
  assumes "validateDefinition source = Inr d" and "\<forall>p. previous = Some p \<longrightarrow> plan_ok p"
    and "pl_status (versioned_plan request d now previous) \<in> past_grounding"
  shows "allGrounded (pl_steps (versioned_plan request d now previous))"
proof -
  note ok = versioned_plan_ok [OF validateDefinition_canonical [OF assms(1)] assms(2), of request now]
  have "pl_status (drafted_plan request d now previous) = StatusReadyForGeneration"
    using assms(3) ok(3) by (auto simp: past_grounding_def versioned_plan_def rebindCarriedTargetBindings_def)
  then have "list_all (\<lambda>st. st = StepGrounded) (map st_status (pl_steps (drafted_plan request d now previous)))"
    using drafted_plan_ready by (auto simp: allGrounded_iff list_all_iff)
  then have "\<forall>st \<in> set (map st_status (pl_steps (versioned_plan request d now previous))). st = StepGrounded"
    unfolding ok(4) by (simp add: list_all_iff)
  then have grounded: "\<forall>s \<in> set (pl_steps (versioned_plan request d now previous)). st_status s = StepGrounded"
    by simp
  show ?thesis
    unfolding allGrounded_iff
  proof (intro ballI conjI impI)
    fix s assume s: "s \<in> set (pl_steps (versioned_plan request d now previous))"
    then show "st_status s = StepGrounded" using grounded by blast
    assume "requiresTargetBinding (st_action s)"
    with s grounded ok(1) show "st_target_binding s \<noteq> None"
      by (auto simp: plan_ok_def plan_steps_ok_def step_ok_def split: option.splits)
  qed
qed

lemma record_result_past:
  assumes "authorize_plan p tool arguments = None"
    and "record_result p tool arguments rtext result seq = Inr p'"
    and "pl_status p' \<in> past_grounding"
  shows "allGrounded (pl_steps p') \<or> (pl_status p \<in> past_grounding \<and> pl_steps p' = pl_steps p)"
  using record_result_status [OF assms(1,2)] assms(3)
  by (elim disjE conjE) (auto simp: past_grounding_def)

lemma record_failure_past:
  assumes "authorize_plan p tool arguments = None"
    and "pl_status (record_failure p tool message) \<in> past_grounding"
  shows "pl_status p \<in> past_grounding \<and> pl_steps (record_failure p tool message) = pl_steps p"
  using record_failure_status [OF assms(1), of message] assms(2)
  by (elim disjE conjE) (simp_all add: past_grounding_def)

lemma plan_step_past_grounding:
  assumes "plan_step ev p p'" and "plan_ok p" and "\<forall>now run. ev \<noteq> EvMarkFailed now run"
    and "pl_status p \<in> past_grounding \<longrightarrow> allGrounded (pl_steps p)"
    and "pl_status p' \<in> past_grounding"
  shows "allGrounded (pl_steps p')"
  using assms
proof (cases rule: plan_step.cases)
  case (revised request d now)
  with assms(2,5) versioned_plan_ready [of _ d "Some p" request now] show ?thesis by auto
next
  case (recorded tool arguments rtext result seq q now run)
  from assms(5) have "pl_status q \<in> past_grounding" by (simp add: recorded(2))
  from record_result_past [OF recorded(3,5) this] assms(4) show ?thesis by (auto simp: recorded(2))
next
  case (failed tool arguments now run message)
  from assms(5) have "pl_status (record_failure p tool message) \<in> past_grounding"
    by (simp add: failed(2))
  from record_failure_past [OF failed(3) this] assms(4) show ?thesis by (simp add: failed(2))
next
  case unchanged
  with assms(4,5) show ?thesis by simp
next
  case (approved generation now run)
  with assms(4) show ?thesis by (simp add: past_grounding_def)
next
  case (marked_failed now run)
  with assms(3) show ?thesis by simp
next
  case (marked_blocked now run)
  with assms(5) show ?thesis by (simp add: past_grounding_def)
qed

text \<open>
  No plan leaves the grounding phase half done: as long as a run is not marked failed from
  outside, a plan that is ready for generation, waits for approval, is approved, executes,
  completed or failed has every step grounded, and every step that needs a target binding
  has one.
\<close>

theorem past_grounding_all_grounded:
  assumes "service_trace memory_repo memory_ids s0 evs s"
    and "memory_inv s0" and "plans_ok memory_repo s0"
    and "\<forall>p. current_plan memory_repo s0 run = Some p \<longrightarrow> pl_status p \<notin> past_grounding"
    and "\<forall>now. EvMarkFailed now run \<notin> set evs"
    and "current_plan memory_repo s run = Some p" and "pl_status p \<in> past_grounding"
  shows "allGrounded (pl_steps p)"
proof -
  define Q where "Q evs q \<longleftrightarrow> (\<forall>p. q = Some p \<and> pl_status p \<in> past_grounding \<longrightarrow> allGrounded (pl_steps p))"
    for evs :: "plan_event list" and q :: "Plan option"
  have "Q evs (current_plan memory_repo s run)"
  proof (rule memory.service_trace_induct [OF assms(1-3)])
    show "Q [] (current_plan memory_repo s0 run)" using assms(4) by (auto simp: Q_def)
  next
    fix pre t ev q q'
    assume Q: "Q pre q" and step: "run_step ev q q'" and run: "event_run ev = run"
      and ok: "\<forall>p. q = Some p \<longrightarrow> plan_ok p" and evs: "set (pre @ [ev]) \<subseteq> set evs"
    have nofail: "\<forall>now r. ev \<noteq> EvMarkFailed now r" using evs run assms(5) by auto
    show "Q (pre @ [ev]) q'"
      unfolding Q_def
    proof (intro allI impI, elim conjE)
      fix p' assume p': "q' = Some p'" "pl_status p' \<in> past_grounding"
      from step show "allGrounded (pl_steps p')"
      proof (cases rule: run_step.cases)
        case no_plan
        with p'(1) show ?thesis by simp
      next
        case (first_plan request d now)
        with p' versioned_plan_ready [of _ d None request now] show ?thesis by auto
      next
        case (next_plan p p2)
        with Q p' ok show ?thesis
          using plan_step_past_grounding [of ev p p'] nofail by (auto simp: Q_def)
      qed
    qed
  qed (simp add: Q_def)
  with assms(6,7) show ?thesis by (simp add: Q_def)
qed

subsection \<open>Revising a plan\<close>

text \<open>
  Submitting the content of the current plan again is a no-op: the service returns the
  current plan, with its grounding and status, and stores nothing.
\<close>

theorem resubmission_is_noop:
  assumes "service_trace memory_repo memory_ids NewMemoryRepository evs s"
    and "current_plan memory_repo s run = Some p" and "\<not> blank run"
    and "rq_run_id request = run" and "rq_definition request = plan_definition p"
  shows "CreateVersion memory_repo now request s = (Inr p, s)"
proof -
  have "plan_ok p"
    using memory.service_trace_ok [OF assms(1) memory_inv_new plans_ok_new] assms(2)
    by (simp add: plans_ok_def)
  then have "validateDefinition (rq_definition request) = Inr (plan_definition p)"
    and "pl_plan_sha256 p = semanticHash (plan_definition p)"
    by (auto simp: plan_ok_def assms(5) intro: canonical_validateDefinition)
  moreover have "repo_current memory_repo s run = Inr p"
    using assms(2) by (simp add: memory.current_plan_Some)
  ultimately show ?thesis using assms(3,4) by (simp add: CreateVersion_def)
qed

lemma carryForward_step:
  assumes "distinct (map st_id (pl_steps p))" and "old \<in> set (pl_steps p)"
    and "st_status old = StepGrounded" and "st_id step = st_id old" and "sameStepSemantics old step"
  shows "st_status (carryStep (previousByID (pl_steps p)) step) = StepGrounded"
    and "st_evidence (carryStep (previousByID (pl_steps p)) step) = st_evidence old"
proof -
  have "previousByID (pl_steps p) (st_id step) = Some old"
    unfolding previousByID_def
    by (rule map_of_is_SomeI) (use assms in \<open>auto simp: rev_map [symmetric] distinct_rev o_def\<close>)
  with assms(3,5) show "st_status (carryStep (previousByID (pl_steps p)) step) = StepGrounded"
    and "st_evidence (carryStep (previousByID (pl_steps p)) step) = st_evidence old"
    by (simp_all add: carryStep_def)
qed

lemma sameStepSemantics_core:
  "step_core s = step_core t \<Longrightarrow> sameStepSemantics old s = sameStepSemantics old t"
proof -
  assume "step_core s = step_core t"
  then have "sameStepSemantics old (step_core s) = sameStepSemantics old (step_core t)" by simp
  then show ?thesis by (simp add: sameStepSemantics_def step_core_def)
qed

text \<open>
  C31. Revising a plan costs only the steps that change: either the content is that of the
  current plan and nothing happens, or the new version has the next number, is in order (its
  carried bindings are sealed for this version), says what was submitted, and every step whose
  id and meaning are those of a grounded step of the old version is grounded with the same
  evidence.
\<close>

theorem revision_keeps_grounding:
  assumes "memory_inv s" and "plans_ok memory_repo s"
    and "current_plan memory_repo s (rq_run_id request) = Some p"
    and "validateDefinition (rq_definition request) = Inr d"
    and "planID (rq_run_id request) (semanticHash d) now \<notin> memory_ids s (rq_run_id request)"
    and "CreateVersion memory_repo now request s = (Inr p', s')"
  shows "current_plan memory_repo s' (rq_run_id request) = Some p' \<and>
    (if pl_plan_sha256 p = semanticHash d then p' = p \<and> s' = s
     else pl_version p' = pl_version p + 1 \<and> plan_ok p' \<and> plan_definition p' = d \<and>
       (\<forall>old \<in> set (pl_steps p). \<forall>new \<in> set (pl_steps p').
          st_id new = st_id old \<and> st_status old = StepGrounded \<and> sameStepSemantics old new \<longrightarrow>
          st_status new = StepGrounded \<and> st_evidence new = st_evidence old))"
proof (cases "pl_plan_sha256 p = semanticHash d")
  case True
  with memory.CreateVersion_refines [OF assms(1,2,4,5,6)] assms(3) show ?thesis by auto
next
  case False
  have ok: "plan_ok p" "\<forall>q. Some p = Some q \<longrightarrow> plan_ok q"
    using assms(2,3) by (auto simp: plans_ok_def)
  note step = memory.CreateVersion_refines [OF assms(1,2,4,5,6)]
  then have cur: "current_plan memory_repo s' (rq_run_id request) = Some p'"
    and p': "p' = versioned_plan request d now (Some p)"
    using assms(3) False by auto
  have canonical: "canonical_definition d" using assms(4) by (rule validateDefinition_canonical)
  note new_ok = versioned_plan_ok [OF canonical ok(2), of request now, folded p']
  have version: "pl_version p' = pl_version p + 1"
    by (simp add: p' versioned_plan_def rebindCarriedTargetBindings_def)
  have "st_status new = StepGrounded \<and> st_evidence new = st_evidence old"
    if old: "old \<in> set (pl_steps p)" and new: "new \<in> set (pl_steps p')"
      and same: "st_id new = st_id old" "st_status old = StepGrounded" "sameStepSemantics old new"
    for old new
  proof -
    let ?q = "(drafted_plan request d now (Some p))\<lparr>pl_version := pl_version p + 1\<rparr>"
    from new obtain s0 where s0: "s0 \<in> set (pl_steps (new_plan request d now))"
      and new: "new = fst (rebindStep ?q (carryStep (previousByID (pl_steps p)) s0))"
      by (auto simp: p' versioned_plan_def rebindCarriedTargetBindings_def drafted_plan_def
          carryForwardGrounding_def Let_def)
    let ?c = "carryStep (previousByID (pl_steps p)) s0"
    have "?c \<in> set (pl_steps (drafted_plan request d now (Some p)))"
      using s0 by (auto simp: drafted_plan_def carryForwardGrounding_def Let_def)
    then have "carried_step ?c" using drafted_plan_carried(1) [OF canonical ok(2)] by blast
    moreover have "\<not> blank (pl_id ?q)"
      using drafted_plan_core(2) [of request d now "Some p"] new_plan_id_not_blank
      by (simp add: same_plan_def)
    moreover have "1 \<le> pl_version ?q" using ok(1) by (simp add: plan_ok_def)
    ultimately have r: "step_core new = step_core ?c" "st_status new = st_status ?c"
        "st_evidence new = st_evidence ?c"
      unfolding new by (rule rebindStep_ok)+
    then have core: "step_core new = step_core s0" by simp
    from carryForward_step [OF plan_ok_distinct [OF ok(1)] old same(2), of s0] show ?thesis
      using r same step_core_same(1) [OF core] sameStepSemantics_core [OF core] by simp
  qed
  with cur version new_ok(1,2) False show ?thesis by auto
qed

text \<open>
  Only \<open>set_task_plan\<close> changes what a plan says: any other accepted event leaves the
  plan's identity, version, hash, goal, rules and the semantics of its steps as they are, so a
  plan binding handed to the agent stays valid until the plan is revised.
\<close>

theorem content_is_immutable:
  assumes "service_step memory_repo memory_ids ev s s'"
    and "memory_inv s" and "plans_ok memory_repo s"
    and "current_plan memory_repo s run = Some p" and "\<forall>now request. ev \<noteq> EvRevise now request"
  shows "\<exists>p'. current_plan memory_repo s' run = Some p' \<and> content_kept p p' \<and>
    Plan_Binding p' = Plan_Binding p"
proof (cases "event_run ev = run")
  case False
  with memory.service_step_refines [OF assms(1-3)] assms(4) show ?thesis by auto
next
  case True
  with memory.service_step_refines [OF assms(1-3)] assms(4) obtain p' where
    p': "current_plan memory_repo s' run = Some p'" and step: "plan_step ev p p'"
    by (auto elim: run_step_Some)
  have "plan_ok p" using assms(3,4) by (simp add: plans_ok_def)
  from step have "content_kept p p'"
  proof (cases rule: plan_step.cases)
    case (recorded tool arguments rtext result seq q now r)
    with record_result_kept [OF recorded(5) plan_ok_distinct [OF \<open>plan_ok p\<close>]] show ?thesis by simp
  qed (use assms(5) record_failure_kept in auto)
  with p' content_kept_binding show ?thesis by blast
qed

subsection \<open>A run with a plan of one step\<close>

definition sample_request :: CreateRequest where
  "sample_request = \<lparr>rq_run_id = ''run_1'', rq_actor_user_id = 1, rq_project_id = 1,
     rq_definition = sample_definition\<rparr>"

definition first_plan_of_run :: Plan where
  "first_plan_of_run = versioned_plan sample_request canonical_sample 0 None"

text \<open>The run with the plan in some later state.\<close>

definition run_with :: "Plan \<Rightarrow> memory_plans" where
  "run_with p = NewMemoryRepository(''run_1'' := [p])"

lemma sample_canonical: "canonical_definition canonical_sample"
  using validate_sample by (rule validateDefinition_canonical)

lemma first_plan_ok: "plan_ok first_plan_of_run" "pl_run_id first_plan_of_run = ''run_1''"
    "pl_version first_plan_of_run = 1" "pl_status first_plan_of_run = StatusGrounding"
    "pl_bound_generation_id first_plan_of_run = None"
    "plan_definition first_plan_of_run = canonical_sample"
proof -
  note ok = versioned_plan_ok [OF sample_canonical, of None sample_request 0, folded first_plan_of_run_def]
  show "plan_ok first_plan_of_run" "plan_definition first_plan_of_run = canonical_sample"
    using ok by simp_all
qed (simp_all add: first_plan_of_run_def versioned_plan_def rebindCarriedTargetBindings_def
  drafted_plan_def sample_request_def)

lemma run_with_repo_current [simp]: "repo_current memory_repo (run_with p) ''run_1'' = Inr p"
  by (simp add: memory_repo_def mem_GetCurrent_def clonePlan_def run_with_def)

lemma run_with_current [simp]: "current_plan memory_repo (run_with p) ''run_1'' = Some p"
  by (simp add: current_plan_def memory_repo_def mem_GetCurrent_def clonePlan_def run_with_def)

lemma run_with_ok:
  assumes "plan_ok p" and "pl_run_id p = ''run_1''" and "pl_version p = 1"
  shows "memory_inv (run_with p)" and "plans_ok memory_repo (run_with p)"
  using assms
  by (auto simp: memory_inv_def versions_ok_def run_with_def NewMemoryRepository_def plans_ok_def
      current_plan_def memory_repo_def mem_GetCurrent_def clonePlan_def split: if_splits)

lemma run_with_save [simp]:
  "pl_id q = pl_id p \<Longrightarrow> pl_run_id q = ''run_1'' \<Longrightarrow>
   save_updated memory_repo now q (run_with p) = (None, run_with (touched now q))"
  by (simp add: save_updated_def memory_repo_def mem_Save_def run_with_def clonePlan_def fun_eq_iff)

definition awaiting_plan :: Plan where
  "awaiting_plan = first_plan_of_run\<lparr>pl_bound_generation_id := Some 5,
     pl_status := StatusAwaitingApproval\<rparr>"

lemma awaiting_plan_ok: "plan_ok awaiting_plan" "pl_run_id awaiting_plan = ''run_1''" "pl_version awaiting_plan = 1"
  using first_plan_ok by (auto simp: awaiting_plan_def plan_ok_def plan_definition_def plan_steps_ok_def
    step_ok_def binds_step_def split: option.splits)

lemma approve_awaiting:
  "service_step memory_repo memory_ids (EvApprove 1 ''run_1'' 5) (run_with awaiting_plan)
     (run_with (touched 1 (awaiting_plan\<lparr>pl_status := StatusApproved\<rparr>)))"
  by (rule service_step.approve) (simp add: Approve_def awaiting_plan_def first_plan_ok)

lemma approve_trace:
  "service_trace memory_repo memory_ids (run_with awaiting_plan) [EvApprove 1 ''run_1'' 5]
     (run_with (touched 1 (awaiting_plan\<lparr>pl_status := StatusApproved\<rparr>)))"
  using trace_step [OF trace_start approve_awaiting] by simp

lemmas awaiting_start = run_with_ok [OF awaiting_plan_ok]

lemma first_version: "\<exists>s. service_trace memory_repo memory_ids NewMemoryRepository
    [EvRevise 0 sample_request] s \<and> current_plan memory_repo s ''run_1'' = Some first_plan_of_run"
proof -
  obtain p s where create: "CreateVersion memory_repo 0 sample_request NewMemoryRepository = (Inr p, s)"
    by (simp add: CreateVersion_def sample_request_def validate_sample blank_iff is_space_def
      memory_repo_def mem_GetCurrent_def NewMemoryRepository_def store_version_def mem_CreateVersion_def
      new_plan_def Let_def rebindCarriedTargetBindings_def canonical_sample_def new_step_def
      rebindStep_def clonePlan_def)
  have fresh: "planID ''run_1'' (semanticHash canonical_sample) 0 \<notin> memory_ids NewMemoryRepository ''run_1''"
    by (simp add: memory_ids_def NewMemoryRepository_def)
  have valid: "validateDefinition (rq_definition sample_request) = Inr canonical_sample"
    by (simp add: sample_request_def validate_sample)
  have none: "current_plan memory_repo NewMemoryRepository run = None" for run
    by (simp add: current_plan_def memory_repo_def mem_GetCurrent_def NewMemoryRepository_def)
  have "service_step memory_repo memory_ids (EvRevise 0 sample_request) NewMemoryRepository s"
  proof (rule service_step.revise [OF _ valid _ create])
    show "Authorize memory_repo NewMemoryRepository (rq_run_id sample_request) ''set_task_plan'' None = None"
      by (simp add: Authorize_def memory_repo_def mem_GetCurrent_def NewMemoryRepository_def)
  qed (use fresh in \<open>simp add: sample_request_def\<close>)
  from trace_step [OF trace_start this] have
    "service_trace memory_repo memory_ids NewMemoryRepository [EvRevise 0 sample_request] s"
    by simp
  moreover have "current_plan memory_repo s ''run_1'' = Some first_plan_of_run"
    using memory.CreateVersion_refines [OF memory_inv_new plans_ok_new valid _ create] fresh none
    by (simp add: sample_request_def first_plan_of_run_def)
  ultimately show ?thesis by blast
qed

theorem memory_service_refines_witness:
  "run_step (EvApprove 1 ''run_1'' 5) (Some awaiting_plan)
    (Some (touched 1 (awaiting_plan\<lparr>pl_status := StatusApproved\<rparr>)))"
  using memory_service_refines [OF approve_awaiting awaiting_start] by simp

theorem reachable_plans_ok_witness: "plan_ok first_plan_of_run"
  using first_version reachable_plans_ok by blast

definition execute_arguments :: raw_message where
  "execute_arguments = Some (JObj [(''generation_id'', JInt 5)])"

theorem execution_needs_approval_witness:
  "\<exists>generation p. unmarshal dec_generation_id 0 execute_arguments = Some generation \<and>
    current_plan memory_repo (run_with (touched 1 (awaiting_plan\<lparr>pl_status := StatusApproved\<rparr>))) ''run_1'' = Some p \<and>
    approved_as [EvApprove 1 ''run_1'' 5] (run_with awaiting_plan) ''run_1'' generation p"
proof (rule execution_needs_approval [OF approve_trace awaiting_start])
  have "unmarshal dec_generation_id 0 execute_arguments = Some 5" by code_simp
  then show "Authorize memory_repo (run_with (touched 1 (awaiting_plan\<lparr>pl_status := StatusApproved\<rparr>)))
      ''run_1'' ''execute_dsl'' execute_arguments = None"
    by (simp add: Authorize_def authorize_plan_def awaiting_plan_def)
qed (simp add: awaiting_plan_def)

definition completed_plan :: Plan where
  "completed_plan = first_plan_of_run\<lparr>pl_status := StatusCompleted\<rparr>"

theorem completed_is_final_witness:
  "\<exists>now. current_plan memory_repo (run_with completed_plan) ''run_1'' = Some (touched now completed_plan)"
proof (rule completed_is_final [of "run_with completed_plan" "[EvMarkBlocked 3 ''run_1'']"])
  have step: "service_step memory_repo memory_ids (EvMarkBlocked 3 ''run_1'') (run_with completed_plan)
      (run_with completed_plan)"
    by (rule service_step.mark_blocked) (simp add: MarkBlocked_def markTerminal_def completed_plan_def)
  from trace_step [OF trace_start step]
  show "service_trace memory_repo memory_ids (run_with completed_plan) [EvMarkBlocked 3 ''run_1'']
      (run_with completed_plan)" by simp
  have "plan_ok completed_plan"
    using plan_ok_status [OF first_plan_ok(1), of StatusCompleted] by (simp add: completed_plan_def)
  then show "memory_inv (run_with completed_plan)" "plans_ok memory_repo (run_with completed_plan)"
    by (simp_all add: run_with_ok completed_plan_def first_plan_ok)
qed (simp_all add: completed_plan_def)

theorem resubmission_is_noop_witness:
  "\<exists>s. CreateVersion memory_repo 9 (sample_request\<lparr>rq_definition := canonical_sample\<rparr>) s =
    (Inr first_plan_of_run, s)"
proof -
  obtain s where "service_trace memory_repo memory_ids NewMemoryRepository [EvRevise 0 sample_request] s"
    "current_plan memory_repo s ''run_1'' = Some first_plan_of_run"
    using first_version by blast
  then have "CreateVersion memory_repo 9 (sample_request\<lparr>rq_definition := canonical_sample\<rparr>) s =
      (Inr first_plan_of_run, s)"
    by (rule resubmission_is_noop)
      (simp_all add: sample_request_def first_plan_ok blank_iff is_space_def)
  then show ?thesis by blast
qed

theorem content_is_immutable_witness:
  "\<exists>p'. current_plan memory_repo (run_with (touched 1 (awaiting_plan\<lparr>pl_status := StatusApproved\<rparr>)))
      ''run_1'' = Some p' \<and> content_kept awaiting_plan p' \<and> Plan_Binding p' = Plan_Binding awaiting_plan"
  by (rule content_is_immutable [OF approve_awaiting awaiting_start]) simp_all

definition first_step :: Step where
  "first_step = new_step 0 (hd (df_steps canonical_sample))"

lemma first_plan_steps: "pl_steps first_plan_of_run = [first_step]"
  by (simp add: first_plan_of_run_def versioned_plan_def rebindCarriedTargetBindings_def
    drafted_plan_def new_plan_def Let_def sample_request_def canonical_sample_def first_step_def
    new_step_def rebindStep_def)

definition explore_arguments :: raw_message where
  "explore_arguments = Some (JObj [(''plan_step_ids'', JArr [JStr ''s1''])])"

definition explore_result :: raw_message where
  "explore_result = Some (JObj [(''url'', JStr ''https://shop.test/home'')])"

lemma first_plan_explored:
  "\<exists>p. record_result first_plan_of_run ''explore_page'' explore_arguments [] explore_result 7 = Inr p \<and>
    pl_status p = StatusReadyForGeneration \<and> pl_run_id p = ''run_1'' \<and> pl_id p = pl_id first_plan_of_run"
proof -
  have ids: "planStepIDs explore_arguments = Inr [''s1'']" by code_simp
  have window: "contiguousPendingSteps first_plan_of_run [''s1''] = Inr [first_step]"
    by (simp add: contiguousPendingSteps_def first_plan_steps planStepIndex_def first_step_def
      new_step_def canonical_sample_def sample_step_definition_def)
  obtain facts where facts: "exploration_facts first_plan_of_run [first_step] ''explore_page'' explore_arguments []
      explore_result 7 = Inr facts"
    and parts: "xf_tool facts = ''explore_page''" "xf_evidence facts = successfulExplorationEvidence explore_result"
    by (auto simp: exploration_facts_def)
  have "resultContainsStepEvidence (JArr (successfulExplorationEvidence explore_result)) first_step"
    by code_simp
  moreover have action: "st_action first_step = ''goto''" by code_simp
  ultimately have "groundable facts first_step"
    using parts by (simp add: groundable_def requiresTargetBinding_def)
  then have "ground_window facts [first_step] (pl_steps first_plan_of_run) = Inr [ground_step facts first_step]"
    by (simp add: first_plan_steps planStepIndex_def)
  moreover have "allGrounded [ground_step facts first_step]"
    using action by (simp add: allGrounded_iff ground_step_def requiresTargetBinding_def)
  ultimately show ?thesis
    using ids window facts by (simp add: record_result_def record_exploration_def first_plan_ok)
qed

theorem past_grounding_all_grounded_witness:
  "\<exists>p. record_result first_plan_of_run ''explore_page'' explore_arguments [] explore_result 7 = Inr p \<and>
    pl_status p = StatusReadyForGeneration \<and> allGrounded (pl_steps p)"
proof -
  let ?ev = "EvResult 4 ''run_1'' ''explore_page'' explore_arguments [] explore_result 7"
  obtain p where p: "record_result first_plan_of_run ''explore_page'' explore_arguments [] explore_result 7 = Inr p"
    and status: "pl_status p = StatusReadyForGeneration"
    and id: "pl_run_id p = ''run_1''" "pl_id p = pl_id first_plan_of_run"
    using first_plan_explored by blast
  have "authorize_plan first_plan_of_run ''explore_page'' explore_arguments = None"
    using p by (auto simp: authorize_plan_def authorizeExploration_def first_plan_ok record_result_def
      record_exploration_def split: sum.splits)
  then have "service_step memory_repo memory_ids ?ev (run_with first_plan_of_run) (run_with (touched 4 p))"
    using p id by (intro service_step.result) (simp_all add: Authorize_def RecordToolResult_def)
  from trace_step [OF trace_start this]
  have trace: "service_trace memory_repo memory_ids (run_with first_plan_of_run) [?ev] (run_with (touched 4 p))"
    by simp
  have "allGrounded (pl_steps (touched 4 p))"
    by (rule past_grounding_all_grounded [OF trace, where run = "''run_1''"])
      (simp_all add: run_with_ok first_plan_ok past_grounding_def status)
  with p status show ?thesis by simp
qed

text \<open>The plan after its step was grounded, under an id of its own.\<close>

definition grounded_plan :: Plan where
  "grounded_plan = first_plan_of_run\<lparr>pl_id := ''other'',
     pl_steps := [first_step\<lparr>st_status := StepGrounded\<rparr>]\<rparr>"

definition revised_definition :: Definition where
  "revised_definition = canonical_sample\<lparr>df_goal := ''Log in twice''\<rparr>"

theorem revision_keeps_grounding_witness:
  "\<exists>p' s'. CreateVersion memory_repo 9 (sample_request\<lparr>rq_definition := revised_definition\<rparr>)
      (run_with grounded_plan) = (Inr p', s') \<and>
    current_plan memory_repo s' ''run_1'' = Some p' \<and>
    (if pl_plan_sha256 grounded_plan = semanticHash revised_definition
     then p' = grounded_plan \<and> s' = run_with grounded_plan
     else pl_version p' = 2 \<and> plan_definition p' = revised_definition)"
proof -
  let ?request = "sample_request\<lparr>rq_definition := revised_definition\<rparr>"
  have valid: "validateDefinition (rq_definition ?request) = Inr revised_definition"
    by code_simp
  have "requiresTargetBinding (st_action first_step) = False" by code_simp
  then have ok: "plan_ok grounded_plan"
    using first_plan_ok
    by (simp add: plan_ok_def plan_steps_ok_def grounded_plan_def first_plan_steps plan_definition_def
      step_definition_def step_ok_def first_step_def new_step_def blank_iff is_space_def)
  have inv: "memory_inv (run_with grounded_plan)" "plans_ok memory_repo (run_with grounded_plan)"
    by (rule run_with_ok [OF ok]; simp add: grounded_plan_def first_plan_ok)+
  have fresh: "planID (rq_run_id ?request) (semanticHash revised_definition) 9 \<notin>
      memory_ids (run_with grounded_plan) (rq_run_id ?request)"
    by (simp add: memory_ids_def run_with_def sample_request_def grounded_plan_def planID_def)
  obtain p' s' where create: "CreateVersion memory_repo 9 ?request (run_with grounded_plan) = (Inr p', s')"
    using memory.CreateVersion_succeeds [OF inv valid fresh]
    by (auto simp: sample_request_def blank_iff is_space_def)
  have cur: "current_plan memory_repo (run_with grounded_plan) (rq_run_id ?request) = Some grounded_plan"
    by (simp add: sample_request_def)
  note revision_keeps_grounding [OF inv cur valid fresh create]
  then show ?thesis
    using create by (auto simp: sample_request_def grounded_plan_def first_plan_ok split: if_splits)
qed

end
