(* ===== verification/GoUrl.thy ===== *)
theory GoUrl
  imports GoStrings
begin

section \<open>net/url\<close>

text \<open>
  The part of \<open>url.Parse\<close> that the validation of a test case uses: whether a reference can be
  parsed, its scheme, its escaped path and its query. The rules for the characters of the
  components are those of \<open>shouldEscape\<close> and \<open>unescape\<close>. User and host are checked but not
  kept, the fragment is checked only.
\<close>

datatype url_part = UrlPath | UrlHost | UrlZone | UrlUser | UrlFragment

definition hex_digit :: "char \<Rightarrow> nat option" where
  "hex_digit c = (let n = (of_char c :: nat) in
     if 48 \<le> n \<and> n \<le> 57 then Some (n - 48)
     else if 97 \<le> n \<and> n \<le> 102 then Some (n - 87)
     else if 65 \<le> n \<and> n \<le> 70 then Some (n - 55)
     else None)"

definition shouldEscape :: "url_part \<Rightarrow> char \<Rightarrow> bool" where
  "shouldEscape part c =
     (if is_alpha c \<or> is_digit c then False
      else if part \<in> {UrlHost, UrlZone} \<and> c \<in> set ''!$&()*+,;=:[]<>'' \<union> {CHR 0x22, CHR 0x27}
      then False
      else if c \<in> set ''-_.~'' then False
      else if c \<in> set ''$&+,/:;=?@'' then
        (case part of
           UrlPath \<Rightarrow> c = CHR ''?''
         | UrlUser \<Rightarrow> c \<in> set ''@/?:''
         | UrlFragment \<Rightarrow> False
         | _ \<Rightarrow> True)
      else if part = UrlFragment then c \<notin> set ''!()*''
      else True)"

fun unescape :: "url_part \<Rightarrow> string \<Rightarrow> string option" where
  "unescape part [] = Some []"
| "unescape part (c # s) =
     (if c = CHR ''%'' then
        (case s of
           a # b # t \<Rightarrow>
             (case (hex_digit a, hex_digit b) of
                (Some h, Some l) \<Rightarrow>
                  let d = char_of (16 * h + l) in
                  if part = UrlHost \<and> h < 8 \<and> \<not> (a = CHR ''2'' \<and> b = CHR ''5'') then None
                  else if part = UrlZone \<and> \<not> (a = CHR ''2'' \<and> b = CHR ''5'') \<and> d \<noteq> CHR '' '' \<and>
                    shouldEscape UrlHost d then None
                  else map_option ((#) d) (unescape part t)
              | _ \<Rightarrow> None)
         | _ \<Rightarrow> None)
      else if part \<in> {UrlHost, UrlZone} \<and> (of_char c :: nat) < 128 \<and> shouldEscape part c then None
      else map_option ((#) c) (unescape part s))"

definition upper_hex :: "nat \<Rightarrow> char" where
  "upper_hex n = char_of (if n < 10 then 48 + n else 55 + n)"

definition escape :: "url_part \<Rightarrow> string \<Rightarrow> string" where
  "escape part s = concat (map (\<lambda>c.
     if shouldEscape part c
     then (let n = (of_char c :: nat) in [CHR ''%'', upper_hex (n div 16), upper_hex (n mod 16)])
     else [c]) s)"

definition validEncoded :: "url_part \<Rightarrow> string \<Rightarrow> bool" where
  "validEncoded part s \<longleftrightarrow>
     (\<forall>c \<in> set s. c \<in> set ''!$&()*+,;=:@[]%'' \<union> {CHR 0x27} \<or> \<not> shouldEscape part c)"

text \<open>\<open>strings.Cut\<close> and a cut at the last occurrence, with one-byte separators.\<close>

definition cut :: "char \<Rightarrow> string \<Rightarrow> string \<times> string" where
  "cut sep s = (takeWhile (\<lambda>c. c \<noteq> sep) s, drop 1 (dropWhile (\<lambda>c. c \<noteq> sep) s))"

definition cut_last :: "char \<Rightarrow> string \<Rightarrow> (string \<times> string) option" where
  "cut_last sep s = (if sep \<in> set s then
       Some (rev (drop 1 (dropWhile (\<lambda>c. c \<noteq> sep) (rev s))), rev (takeWhile (\<lambda>c. c \<noteq> sep) (rev s)))
     else None)"

fun cut_zone :: "string \<Rightarrow> string \<times> string" where
  "cut_zone [] = ([], [])"
| "cut_zone (c # s) = (if HasPrefix (c # s) ''%25'' then ([], c # s)
     else (c # fst (cut_zone s), snd (cut_zone s)))"

definition validOptionalPort :: "string \<Rightarrow> bool" where
  "validOptionalPort port \<longleftrightarrow>
     port = [] \<or> (hd port = CHR '':'' \<and> (\<forall>c \<in> set (tl port). is_digit c))"

definition validUserinfo :: "string \<Rightarrow> bool" where
  "validUserinfo s \<longleftrightarrow>
     (\<forall>c \<in> set s. is_alpha c \<or> is_digit c \<or> c \<in> set ''-._:~!$&()*+,;=%@'' \<union> {CHR 0x27})"

definition host_ok :: "string \<Rightarrow> bool" where
  "host_ok host \<longleftrightarrow>
     (if HasPrefix host ''['' then
        (case cut_last (CHR '']'') host of
           None \<Rightarrow> False
         | Some (address, port) \<Rightarrow>
             validOptionalPort port \<and>
             (case cut_zone address of
                (front, []) \<Rightarrow> unescape UrlHost host \<noteq> None
              | (front, zone) \<Rightarrow> unescape UrlHost front \<noteq> None \<and> unescape UrlZone zone \<noteq> None \<and>
                  unescape UrlHost (CHR '']'' # port) \<noteq> None))
      else (case cut_last (CHR '':'') host of
          None \<Rightarrow> True
        | Some (_, port) \<Rightarrow> validOptionalPort (CHR '':'' # port)) \<and>
        unescape UrlHost host \<noteq> None)"

definition authority_ok :: "string \<Rightarrow> bool" where
  "authority_ok authority \<longleftrightarrow>
     (case cut_last (CHR ''@'') authority of
        None \<Rightarrow> host_ok authority
      | Some (userinfo, host) \<Rightarrow>
          host_ok host \<and> validUserinfo userinfo \<and>
          unescape UrlUser (fst (cut (CHR '':'') userinfo)) \<noteq> None \<and>
          unescape UrlUser (snd (cut (CHR '':'') userinfo)) \<noteq> None)"

text \<open>
  The scheme: the letters, digits, \<open>+\<close>, \<open>-\<close> and \<open>.\<close> before the first colon. \<open>None\<close> is the
  error for a missing scheme; a text without a scheme is returned whole.
\<close>

fun scheme_end :: "string \<Rightarrow> nat \<Rightarrow> nat option" where
  "scheme_end [] i = None"
| "scheme_end (c # s) i =
     (if is_alpha c \<or> ((is_digit c \<or> c \<in> set ''+-.'') \<and> i \<noteq> 0) then scheme_end s (Suc i)
      else if c = CHR '':'' then Some i else None)"

definition getScheme :: "string \<Rightarrow> (string \<times> string) option" where
  "getScheme s =
     (case scheme_end s 0 of
        None \<Rightarrow> Some ([], s)
      | Some i \<Rightarrow> if i = 0 then None else Some (take i s, drop (Suc i) s))"

record url =
  url_scheme :: string
  url_path :: string
  url_raw_path :: string
  url_raw_query :: string

definition setPath :: "string \<Rightarrow> url \<Rightarrow> url option" where
  "setPath p u =
     (case unescape UrlPath p of
        None \<Rightarrow> None
      | Some path \<Rightarrow> Some (u\<lparr>url_path := path,
          url_raw_path := (if escape UrlPath path = p then [] else p)\<rparr>))"

definition has_control :: "string \<Rightarrow> bool" where
  "has_control s \<longleftrightarrow> (\<exists>c \<in> set s. (of_char c :: nat) < 32 \<or> (of_char c :: nat) = 127)"

definition url_parse :: "string \<Rightarrow> url option" where
  "url_parse raw =
     (if has_control raw then None
      else if raw = ''*'' then
        Some \<lparr>url_scheme = [], url_path = ''*'', url_raw_path = [], url_raw_query = []\<rparr>
      else (case getScheme raw of
          None \<Rightarrow> None
        | Some (scheme, rest0) \<Rightarrow>
          let (rest, query) = cut (CHR ''?'') rest0;
              u = \<lparr>url_scheme = ToLower scheme, url_path = [], url_raw_path = [], url_raw_query = query\<rparr> in
          if \<not> HasPrefix rest ''/'' \<and> scheme \<noteq> [] then Some u
          else if \<not> HasPrefix rest ''/'' \<and> CHR '':'' \<in> set (fst (cut (CHR ''/'') rest)) then None
          else if HasPrefix rest ''//'' \<and> (scheme \<noteq> [] \<or> \<not> HasPrefix rest ''///'') then
            (let authority = takeWhile (\<lambda>c. c \<noteq> CHR ''/'') (drop 2 rest) in
             if authority_ok authority then setPath (drop (length authority) (drop 2 rest)) u else None)
          else setPath rest u))"

text \<open>\<open>url.Parse\<close>: the fragment is cut off first. A lone \<open>?\<close> at the end leaves no query.\<close>

definition Parse :: "string \<Rightarrow> url option" where
  "Parse raw =
     (case url_parse (fst (cut (CHR ''#'') raw)) of
        None \<Rightarrow> None
      | Some u \<Rightarrow> if unescape UrlFragment (snd (cut (CHR ''#'') raw)) = None then None else Some u)"

definition EscapedPath :: "url \<Rightarrow> string" where
  "EscapedPath u =
     (if url_raw_path u \<noteq> [] \<and> validEncoded UrlPath (url_raw_path u) \<and>
         unescape UrlPath (url_raw_path u) = Some (url_path u)
      then url_raw_path u
      else if url_path u = ''*'' then ''*''
      else escape UrlPath (url_path u))"

text \<open>Parsed paths keep their text when it is a valid encoding.\<close>

lemma EscapedPath_setPath:
  assumes "setPath p u = Some v" and "validEncoded UrlPath p" and "p \<noteq> ''%2A''"
  shows "EscapedPath v = p"
proof -
  from assms(1) obtain path where path: "unescape UrlPath p = Some path"
    and v: "v = u\<lparr>url_path := path, url_raw_path := (if escape UrlPath path = p then [] else p)\<rparr>"
    by (auto simp: setPath_def split: option.splits)
  show ?thesis
  proof (cases "escape UrlPath path = p")
    case True
    moreover have "escape UrlPath ''*'' = ''%2A''" by code_simp
    ultimately show ?thesis using v assms(3) by (auto simp: EscapedPath_def)
  next
    case False
    then have "p \<noteq> []" using path by (auto simp: escape_def)
    with False show ?thesis using v path assms(2) by (simp add: EscapedPath_def)
  qed
qed

end
