(* ===== verification/DslRules.thy ===== *)
theory DslRules
  imports PlanCompiler GoUrl
begin

section \<open>The rules of a test case (internal/dsl/store.go, action_ir.go)\<close>

text \<open>
  The checks the profiles of the DSL share: texts, enumerations, contracts, conditions, locator
  candidates and the parameters of an action. A case is a \<open>map[string]any\<close>: the members of a
  document \<open>json.Unmarshal\<close> read into an \<open>any\<close>. A member that is absent and one that is
  \<open>null\<close> both read as \<open>nil\<close> (\<open>any_get\<close>); where the code asks whether it exists, \<open>map_of\<close>
  does. An error names the place and what is wrong with it.
\<close>

type_synonym obj = "(string \<times> json) list"

datatype dsl_place =
    AtCase
  | AtContract string nat
  | AtStep nat
  | AtCondition nat string nat
  | AtCandidate nat nat

datatype dsl_reason =
    Missing
  | NotObject
  | NotArray
  | NotText
  | NotBoolean
  | TooLong nat
  | Unacceptable
  | UnknownMember

datatype dsl_error =
    DslField dsl_place string dsl_reason
  | UnsupportedAction string
  | UnsupportedPhase string
  | ProfileUnknown
  | ProfileExpected string
  | ActionMetadata nat string
  | PostconditionRequired nat
  | ConditionsRequired nat string
  | RiskNeedsPostcondition nat
  | CrossPagePostcondition nat string
  | AddedByPreflight nat string
  | AddedByCompiler nat string
  | LacksVerifiedEvidence nat
  | UnboundCondition nat string
  | CandidateNotExecutable nat nat
  | CandidateInvalid nat nat
  | CandidateLocator nat nat contract_error
  | DraftMustNotContain string
  | PlanBindingRequired
  | ObservationBindings dsl_error
  | BindingUndecodable
  | BindingIncompleteAt nat
  | BindingPartialLineage nat
  | BindingDuplicated string
  | LineageMismatch nat string
  | VersionMismatch string string string

text \<open>A sequence of checks, each of which returns its error at once.\<close>

definition checks :: "'e option list \<Rightarrow> 'e option" where
  "checks = first_error (\<lambda>e. e)"

lemma checks_None [simp]: "checks es = None \<longleftrightarrow> (\<forall>e \<in> set es. e = None)"
  by (simp add: checks_def)

lemma checked_iff:
  "(case checks es of Some e \<Rightarrow> Inl e | None \<Rightarrow> Inr x) = Inr v \<longleftrightarrow> (\<forall>e \<in> set es. e = None) \<and> v = x"
proof -
  have "(\<forall>e \<in> set es. e = None) \<longleftrightarrow> checks es = None" by simp
  then show ?thesis by (simp only:) (cases "checks es"; auto simp del: checks_None)
qed

definition fails_if :: "bool \<Rightarrow> 'e \<Rightarrow> 'e option" where
  "fails_if b e = (if b then Some e else None)"

lemma fails_if_None [simp]: "fails_if b e = None \<longleftrightarrow> \<not> b"
  by (simp add: fails_if_def)

definition exists_member :: "obj \<Rightarrow> string \<Rightarrow> bool" where
  "exists_member m k \<longleftrightarrow> map_of m k \<noteq> None"

definition is_text :: "json \<Rightarrow> bool" where
  "is_text j \<longleftrightarrow> (case j of JStr _ \<Rightarrow> True | _ \<Rightarrow> False)"

definition is_object :: "json \<Rightarrow> bool" where
  "is_object j \<longleftrightarrow> (case j of JObj _ \<Rightarrow> True | _ \<Rightarrow> False)"

definition is_array :: "json \<Rightarrow> bool" where
  "is_array j \<longleftrightarrow> (case j of JArr _ \<Rightarrow> True | _ \<Rightarrow> False)"

definition is_boolean :: "json \<Rightarrow> bool" where
  "is_boolean j \<longleftrightarrow> (case j of JBool _ \<Rightarrow> True | _ \<Rightarrow> False)"

definition items :: "json \<Rightarrow> json list" where
  "items j = (case j of JArr js \<Rightarrow> js | _ \<Rightarrow> [])"

text \<open>\<open>x, ok := v.(float64); !ok || x < lo || x > hi\<close>, and the test for a whole number.\<close>

definition number_between :: "int \<Rightarrow> int \<Rightarrow> json \<Rightarrow> bool" where
  "number_between lo hi j \<longleftrightarrow>
     (case j of
        JInt n \<Rightarrow> lo \<le> n \<and> n \<le> hi
      | JDec m k \<Rightarrow> \<not> f64_less (m, k) (lo, 0) \<and> \<not> f64_less (hi, 0) (m, k)
      | _ \<Rightarrow> False)"

definition whole_number :: "json \<Rightarrow> bool" where
  "whole_number j \<longleftrightarrow> (case j of JInt n \<Rightarrow> True | JDec m k \<Rightarrow> m mod 10 ^ k = 0 | _ \<Rightarrow> False)"

subsection \<open>Vocabulary\<close>

definition ProfileLegacyV1 :: string where "ProfileLegacyV1 = ''legacy-v1''"
definition ProfileResearchV1 :: string where "ProfileResearchV1 = ''research-v1''"
definition ProfileResearchV2 :: string where "ProfileResearchV2 = ''research-v2''"
definition CanonicalVersionV1 :: string where "CanonicalVersionV1 = ''dsl.canonical.v1''"
definition CanonicalVersionV2 :: string where "CanonicalVersionV2 = ''dsl.canonical.v2''"
definition CanonicalVersionV3 :: string where "CanonicalVersionV3 = ''dsl.canonical.v3''"
definition ValidationPhaseDraft :: string where "ValidationPhaseDraft = ''draft''"
definition ValidationPhaseExecutable :: string where "ValidationPhaseExecutable = ''executable''"

definition supportedActions :: "string list" where
  "supportedActions = [''goto'', ''click'', ''input'', ''wait_for'', ''assert_text'',
     ''assert_url_contains'', ''capture_text'']"

definition variableTypes :: "string list" where
  "variableTypes = [''string'', ''number'', ''boolean'', ''object'', ''array'']"

definition variableSources :: "string list" where
  "variableSources = [''latest_url'', ''error_message'', ''status'', ''last_step_url'',
     ''last_step_page_title'', ''last_step_target'', ''last_step_value'', ''last_step_error_message'']"

definition locatorConfidences :: "string list" where
  "locatorConfidences = [''high'', ''medium'', ''low'']"

definition targetStrategies :: "string list" where
  "targetStrategies = [''css'', ''xpath'', ''data-testid'', ''element_id'', ''tag'']"

definition inputTriggers :: "string list" where "inputTriggers = [''Enter'', ''Tab'']"

definition postconditionTypes :: "string list" where
  "postconditionTypes = [''url_contains'', ''url_changes'', ''text_visible'', ''text_gone'',
     ''element_visible'', ''element_gone'', ''network_request'', ''dom_changed'', ''value_changed'']"

definition idempotencies :: "string list" where
  "idempotencies = [''idempotent'', ''non_idempotent'']"

definition sideEffects :: "string list" where
  "sideEffects = [''none'', ''browser_state'', ''external_state'', ''unknown'']"

definition executableCandidateStrategies :: "string list" where
  "executableCandidateStrategies = [''css'', ''css_selector'', ''xpath'', ''data-testid'', ''data_testid'',
     ''role'', ''text'', ''label'', ''placeholder'', ''element_id'', ''tag'', ''semantic'',
     ''verified_role'', ''verified_role_fuzzy'', ''verified_css'', ''verified_xpath'',
     ''verified_placeholder'', ''verified_placeholder_fuzzy'', ''verified_label'',
     ''verified_label_fuzzy'', ''verified_text'', ''verified_data-testid'',
     ''verified_element_id'', ''a11y_scoped_role_exact'',
     ''a11y_scoped_role_fuzzy'', ''a11y_scoped_text_exact'', ''a11y_scoped_text_fuzzy'']"

text \<open>\<open>^[A-Za-z_][A-Za-z0-9_]*$\<close>.\<close>

definition key_head :: "char \<Rightarrow> bool" where
  "key_head c \<longleftrightarrow> is_alpha c \<or> c = CHR ''_''"

definition validContextKey :: "string \<Rightarrow> bool" where
  "validContextKey s \<longleftrightarrow>
     RuneCount s \<le> 100 \<and> s \<noteq> [] \<and> key_head (hd s) \<and> (\<forall>c \<in> set (tl s). key_head c \<or> is_digit c)"

subsection \<open>Texts and enumerations\<close>

definition validateOptionalText :: "obj \<Rightarrow> string \<Rightarrow> nat \<Rightarrow> dsl_error option" where
  "validateOptionalText object field max_length =
     (case any_get object field of
        JNull \<Rightarrow> None
      | JStr text' \<Rightarrow> fails_if (blank text' \<or> RuneCount text' > max_length)
          (DslField AtCase field Unacceptable)
      | _ \<Rightarrow> Some (DslField AtCase field Unacceptable))"

definition requireText :: "obj \<Rightarrow> string \<Rightarrow> nat \<Rightarrow> dsl_error option" where
  "requireText object field index =
     (case any_get object field of
        JStr text' \<Rightarrow> fails_if (blank text') (DslField (AtStep index) field Missing)
      | _ \<Rightarrow> Some (DslField (AtStep index) field Missing))"

definition requireBoundedText :: "obj \<Rightarrow> string \<Rightarrow> nat \<Rightarrow> nat \<Rightarrow> dsl_error option" where
  "requireBoundedText object field index max_length =
     (case any_get object field of
        JStr text' \<Rightarrow> fails_if (blank text' \<or> RuneCount (TrimSpace text') > max_length)
          (DslField (AtStep index) field (TooLong max_length))
      | _ \<Rightarrow> Some (DslField (AtStep index) field (TooLong max_length)))"

definition validOptionalEnum :: "obj \<Rightarrow> string \<Rightarrow> string list \<Rightarrow> bool" where
  "validOptionalEnum object field allowed \<longleftrightarrow>
     (case any_get object field of JNull \<Rightarrow> True | JStr text' \<Rightarrow> TrimSpace text' \<in> set allowed | _ \<Rightarrow> False)"

definition validRequiredEnum :: "obj \<Rightarrow> string \<Rightarrow> string list \<Rightarrow> bool" where
  "validRequiredEnum object field allowed \<longleftrightarrow>
     (case any_get object field of JStr text' \<Rightarrow> TrimSpace text' \<in> set allowed | _ \<Rightarrow> False)"

text \<open>A member that is \<open>nil\<close> or a string.\<close>

definition optional_text :: "obj \<Rightarrow> string \<Rightarrow> bool" where
  "optional_text object field \<longleftrightarrow> any_get object field = JNull \<or> is_text (any_get object field)"

definition rejectUnknownFields :: "dsl_place \<Rightarrow> obj \<Rightarrow> string list \<Rightarrow> dsl_error option" where
  "rejectUnknownFields place object allowed =
     (case sort (filter (\<lambda>field. field \<notin> set allowed) (map fst object)) of
        [] \<Rightarrow> None
      | field # _ \<Rightarrow> Some (DslField place field UnknownMember))"

lemma rejectUnknownFields_None:
  "rejectUnknownFields place object allowed = None \<longleftrightarrow> fst ` set object \<subseteq> set allowed"
proof -
  have "sort (filter (\<lambda>f. f \<notin> set allowed) (map fst object)) = [] \<longleftrightarrow> fst ` set object \<subseteq> set allowed"
    by (metis (no_types, lifting) filter_empty_conv list.set_map set_sort set_empty subset_code(1)
      sort_key_simps(1))
  then show ?thesis by (auto simp: rejectUnknownFields_def split: list.splits)
qed

subsection \<open>Contracts\<close>

definition validateContract :: "string \<Rightarrow> nat \<Rightarrow> json \<Rightarrow> dsl_error option" where
  "validateContract field index raw =
     (case raw of
        JObj contract \<Rightarrow> checks
          [fails_if (blank (any_string (any_get contract ''name'')) \<or>
             RuneCount (any_string (any_get contract ''name'')) > 100)
             (DslField (AtContract field index) ''name'' Unacceptable),
           fails_if (\<not> validContextKey (TrimSpace (any_string (any_get contract ''context_key''))) \<or>
             TrimSpace (any_string (any_get contract ''value_type'')) \<notin> set variableTypes)
             (DslField (AtContract field index) ''context_key'' Unacceptable),
           fails_if (exists_member contract ''required'' \<and> \<not> is_boolean (any_get contract ''required''))
             (DslField (AtContract field index) ''required'' NotBoolean),
           fails_if (\<not> optional_text contract ''description'')
             (DslField (AtContract field index) ''description'' NotText),
           fails_if (\<not> optional_text contract ''value'')
             (DslField (AtContract field index) ''value'' NotText),
           fails_if (field = ''output_contract'' \<and> \<not> validOptionalEnum contract ''source'' variableSources)
             (DslField (AtContract field index) ''source'' Unacceptable)]
      | _ \<Rightarrow> Some (DslField (AtContract field index) [] NotObject))"

definition validateContracts :: "string \<Rightarrow> json list \<Rightarrow> dsl_error option" where
  "validateContracts field contracts = first_error_from (validateContract field) 0 contracts"

subsection \<open>Conditions\<close>

definition validateCondition :: "nat \<Rightarrow> string \<Rightarrow> nat \<Rightarrow> json \<Rightarrow> dsl_error option" where
  "validateCondition step_index field index raw =
     (case raw of
        JObj condition \<Rightarrow>
          let place = AtCondition step_index field index;
              kind = TrimSpace (any_string (any_get condition ''type'')) in checks
          [fails_if (kind \<notin> set postconditionTypes) (DslField place ''type'' Unacceptable),
           fails_if (kind = ''url_contains'' \<and> blank (any_string (any_get condition ''value'')))
             (DslField place ''value'' Missing),
           fails_if (kind = ''network_request'' \<and> any_get condition ''value'' = JNull \<and>
             any_get condition ''method'' = JNull \<and> any_get condition ''status'' = JNull)
             (DslField place [] Missing),
           fails_if (\<not> optional_text condition ''value'') (DslField place ''value'' NotText),
           (case any_get condition ''method'' of
              JNull \<Rightarrow> None
            | JStr text' \<Rightarrow> fails_if (blank text') (DslField place ''method'' NotText)
            | _ \<Rightarrow> Some (DslField place ''method'' NotText)),
           fails_if (any_get condition ''status'' \<noteq> JNull \<and>
             \<not> (number_between 100 599 (any_get condition ''status'') \<and>
                whole_number (any_get condition ''status'')))
             (DslField place ''status'' Unacceptable),
           fails_if (exists_member condition ''timeout_ms'' \<and>
             \<not> number_between 100 30000 (any_get condition ''timeout_ms''))
             (DslField place ''timeout_ms'' Unacceptable)]
      | _ \<Rightarrow> Some (DslField (AtCondition step_index field index) [] NotObject))"

definition validateConditions :: "nat \<Rightarrow> string \<Rightarrow> json \<Rightarrow> dsl_error option" where
  "validateConditions step_index field raw =
     (case raw of
        JNull \<Rightarrow> None
      | JArr conditions \<Rightarrow> first_error_from (validateCondition step_index field) 0 conditions
      | _ \<Rightarrow> Some (DslField (AtStep step_index) field NotArray))"

subsection \<open>Locator candidates\<close>

definition validateCandidate :: "nat \<Rightarrow> nat \<Rightarrow> json \<Rightarrow> dsl_error option" where
  "validateCandidate step_index index raw =
     (case raw of
        JObj candidate \<Rightarrow> let place = AtCandidate step_index index in checks
          [fails_if (requireText candidate ''strategy'' index \<noteq> None) (DslField place ''strategy'' Missing),
           fails_if (\<not> number_between 0 1 (any_get candidate ''pre_score''))
             (DslField place ''pre_score'' Unacceptable),
           fails_if (\<not> optional_text candidate ''selector'') (DslField place ''selector'' NotText),
           fails_if (\<not> optional_text candidate ''semantic_value'')
             (DslField place ''semantic_value'' NotText),
           fails_if (any_get candidate ''pre_features'' \<noteq> JNull \<and>
             \<not> is_object (any_get candidate ''pre_features'')) (DslField place ''pre_features'' NotObject)]
      | _ \<Rightarrow> Some (DslField (AtCandidate step_index index) [] NotObject))"

definition validateCandidates :: "nat \<Rightarrow> json \<Rightarrow> dsl_error option" where
  "validateCandidates step_index raw =
     (case raw of
        JNull \<Rightarrow> None
      | JArr candidates \<Rightarrow> first_error_from (validateCandidate step_index) 0 candidates
      | _ \<Rightarrow> Some (DslField (AtStep step_index) ''candidates'' NotArray))"

text \<open>
  A click on a link to another page needs a condition on the address that fits the link. The
  link is the first parsable reference with a web scheme, or none, that some candidate verified.
\<close>

definition verified_href :: "json \<Rightarrow> string" where
  "verified_href raw = TrimSpace (any_string (any_get
     (object_members (any_get (object_members raw) ''pre_features'')) ''verified_href''))"

definition cross_page_href :: "string \<Rightarrow> bool" where
  "cross_page_href href \<longleftrightarrow>
     href \<noteq> [] \<and> \<not> HasPrefix href ''#'' \<and>
     (case Parse href of None \<Rightarrow> False | Some u \<Rightarrow> url_scheme u \<in> {[], ''http'', ''https''})"

definition verifiedCrossPageAnchorHref :: "json \<Rightarrow> string" where
  "verifiedCrossPageAnchorHref raw =
     (case filter cross_page_href (map verified_href (items raw)) of [] \<Rightarrow> [] | href # _ \<Rightarrow> href)"

text \<open>
  \<open>fmt.Sprint\<close> of a value. Only strings get here: the conditions have been checked before, so
  the kind of each is a string, and so is the value of one of kind \<open>url_contains\<close>.
\<close>

definition sprint :: "json \<Rightarrow> string" where
  "sprint j = (case j of JStr s \<Rightarrow> s | JNull \<Rightarrow> ''<nil>'' | _ \<Rightarrow> render j)"

definition fits_href :: "string \<Rightarrow> string \<Rightarrow> json \<Rightarrow> bool" where
  "fits_href href target_path raw \<longleftrightarrow>
     (let condition = object_members raw; val = TrimSpace (sprint (any_get condition ''value'')) in
      TrimSpace (sprint (any_get condition ''type'')) = ''url_contains'' \<and> val \<noteq> [] \<and>
      (Contains href val \<or> Contains val href \<or>
       (target_path \<noteq> [] \<and> (Contains target_path val \<or> Contains val target_path))))"

definition hasTargetURLPostcondition :: "json \<Rightarrow> string \<Rightarrow> bool" where
  "hasTargetURLPostcondition raw href \<longleftrightarrow>
     (case Parse href of
        None \<Rightarrow> False
      | Some target \<Rightarrow> list_ex (fits_href href (EscapedPath target @
          (if url_raw_query target \<noteq> [] then CHR ''?'' # url_raw_query target else []))) (items raw))"

subsection \<open>The parameters of an action\<close>

definition action_parameters :: "nat \<Rightarrow> string \<Rightarrow> obj \<Rightarrow> dsl_error option" where
  "action_parameters index action step =
     (if action \<in> {''goto'', ''assert_url_contains''} then requireText step ''value'' index
      else if action \<in> {''click'', ''wait_for''} then requireText step ''target'' index
      else if action \<in> {''input'', ''assert_text''} then checks
        [requireText step ''target'' index,
         fails_if (\<not> is_text (any_get step ''value'') \<or>
           (action = ''assert_text'' \<and> blank (any_string (any_get step ''value''))))
           (DslField (AtStep index) ''value'' Missing)]
      else if action = ''capture_text'' then checks
        [requireText step ''target'' index,
         fails_if (\<not> validContextKey (TrimSpace (any_string (any_get step ''context_key''))))
           (DslField (AtStep index) ''context_key'' Unacceptable)]
      else None)"

definition validateStep :: "nat \<Rightarrow> string \<Rightarrow> obj \<Rightarrow> dsl_error option" where
  "validateStep index action step = checks
     [action_parameters index action step,
      fails_if (\<not> validOptionalEnum step ''locator_confidence'' locatorConfidences)
        (DslField (AtStep index) ''locator_confidence'' Unacceptable),
      fails_if (\<not> validOptionalEnum step ''target_strategy'' targetStrategies)
        (DslField (AtStep index) ''target_strategy'' Unacceptable),
      fails_if (\<not> optional_text step ''page_state'') (DslField (AtStep index) ''page_state'' NotText),
      fails_if (action = ''input'' \<and> \<not> validOptionalEnum step ''trigger'' inputTriggers)
        (DslField (AtStep index) ''trigger'' Unacceptable),
      fails_if (action = ''wait_for'' \<and> exists_member step ''timeout_ms'' \<and>
        \<not> number_between 1 60000 (any_get step ''timeout_ms''))
        (DslField (AtStep index) ''timeout_ms'' Unacceptable),
      validateCandidates index (any_get step ''candidates''),
      validateConditions index ''preconditions'' (any_get step ''preconditions''),
      validateConditions index ''postconditions'' (any_get step ''postconditions''),
      (let href = verifiedCrossPageAnchorHref (any_get step ''candidates'') in
       fails_if (action = ''click'' \<and> href \<noteq> [] \<and>
         \<not> hasTargetURLPostcondition (any_get step ''postconditions'') href)
         (CrossPagePostcondition index href))]"

end
