(* ===== verification/DslCanonical.thy ===== *)
theory DslCanonical
  imports DslRules
begin

section \<open>Canonical cases (internal/dsl/store.go, action_ir.go)\<close>

text \<open>
  The profiles legacy-v1 and research-v1: a case is checked and rewritten to its canonical form,
  with texts trimmed, defaults filled in and unknown members dropped or refused. A map is written
  with its members in order (\<open>marshal_map\<close>).
\<close>

subsection \<open>Canonical parts\<close>

definition trimmedString :: "json \<Rightarrow> string" where
  "trimmedString j = TrimSpace (any_string j)"

definition optionalTrimmedString :: "json \<Rightarrow> json" where
  "optionalTrimmedString j = (if j = JNull then JNull else JStr (trimmedString j))"

definition valueOrDefault :: "obj \<Rightarrow> string \<Rightarrow> json \<Rightarrow> json" where
  "valueOrDefault object field fallback =
     (case map_of object field of Some v \<Rightarrow> v | None \<Rightarrow> fallback)"

definition upper :: "char \<Rightarrow> char" where
  "upper c = (let n = (of_char c :: nat) in if 97 \<le> n \<and> n \<le> 122 then char_of (n - 32) else c)"

definition ToUpper :: "string \<Rightarrow> string" where
  "ToUpper s = map upper s"

text \<open>A member that is written only if the source has it.\<close>

definition if_exists :: "obj \<Rightarrow> string \<Rightarrow> (json \<Rightarrow> json) \<Rightarrow> obj" where
  "if_exists object field f = (case map_of object field of None \<Rightarrow> [] | Some v \<Rightarrow> [(field, f v)])"

definition canonicalContract :: "bool \<Rightarrow> json \<Rightarrow> json" where
  "canonicalContract input item = (let contract = object_members item in marshal_map (
     [(''name'', JStr (trimmedString (any_get contract ''name''))),
      (''context_key'', JStr (trimmedString (any_get contract ''context_key''))),
      (''value_type'', JStr (trimmedString (any_get contract ''value_type''))),
      (''description'', optionalTrimmedString (any_get contract ''description''))] @
     (if input then
        [(''required'', valueOrDefault contract ''required'' (JBool True)),
         (''value'', optionalTrimmedString (any_get contract ''value''))]
      else [(''source'', optionalTrimmedString (any_get contract ''source''))])))"

definition canonicalContracts :: "json \<Rightarrow> bool \<Rightarrow> json" where
  "canonicalContracts raw input = JArr (map (canonicalContract input) (items raw))"

definition canonicalCondition :: "json \<Rightarrow> json" where
  "canonicalCondition item = (let condition = object_members item in marshal_map (
     [(''type'', JStr (trimmedString (any_get condition ''type''))),
      (''value'', optionalTrimmedString (any_get condition ''value'')),
      (''timeout_ms'', valueOrDefault condition ''timeout_ms'' (JInt 3000))] @
     if_exists condition ''method'' (\<lambda>v. JStr (ToUpper (trimmedString v))) @
     if_exists condition ''status'' (\<lambda>v. v)))"

definition canonicalConditions :: "json \<Rightarrow> json" where
  "canonicalConditions raw = JArr (map canonicalCondition (items raw))"

definition canonical_strategy :: "string \<Rightarrow> string" where
  "canonical_strategy strategy =
     (if strategy \<in> {''css_selector'', ''href''} then ''css''
      else if strategy = ''data_testid'' then ''data-testid''
      else if strategy \<in> {''elementId'', ''id''} then ''element_id''
      else if strategy \<in> {''link'', ''button'', ''aria''} then ''role''
      else if strategy = ''name'' then ''tag''
      else strategy)"

definition canonicalCandidate :: "json \<Rightarrow> json" where
  "canonicalCandidate item = (let candidate = object_members item in marshal_map
     [(''strategy'', JStr (canonical_strategy (trimmedString (any_get candidate ''strategy'')))),
      (''selector'', optionalTrimmedString (any_get candidate ''selector'')),
      (''semantic_value'', optionalTrimmedString (any_get candidate ''semantic_value'')),
      (''pre_score'', any_get candidate ''pre_score''),
      (''pre_features'', valueOrDefault candidate ''pre_features'' JNull)])"

definition canonicalCandidates :: "json \<Rightarrow> json" where
  "canonicalCandidates raw = JArr (map canonicalCandidate (items raw))"

subsection \<open>The profile legacy-v1 (store.go)\<close>

definition canonicalOptionalConditions :: "obj \<Rightarrow> obj" where
  "canonicalOptionalConditions step =
     if_exists step ''preconditions'' canonicalConditions @
     if_exists step ''postconditions'' canonicalConditions"

definition canonicalLocatorDefaults :: "obj \<Rightarrow> obj" where
  "canonicalLocatorDefaults step =
     [(''page_state'', optionalTrimmedString (any_get step ''page_state'')),
      (''target_strategy'', optionalTrimmedString (any_get step ''target_strategy'')),
      (''locator_confidence'', optionalTrimmedString (any_get step ''locator_confidence'')),
      (''candidates'', canonicalCandidates (any_get step ''candidates''))] @
     if_exists step ''preconditions'' canonicalConditions @
     [(''postconditions'', canonicalConditions (any_get step ''postconditions''))]"

definition canonicalLocatorFields :: "obj \<Rightarrow> obj" where
  "canonicalLocatorFields step =
     (''target'', JStr (trimmedString (any_get step ''target''))) # canonicalLocatorDefaults step"

definition canonicalStep :: "json \<Rightarrow> json" where
  "canonicalStep item = (let step = object_members item; action = trimmedString (any_get step ''action'') in
     marshal_map ((''action'', JStr action) #
     (if action \<in> {''goto'', ''assert_url_contains''} then
        (''value'', JStr (trimmedString (any_get step ''value''))) # canonicalOptionalConditions step
      else if action \<in> {''click'', ''wait_for'', ''assert_text'', ''capture_text''} then
        canonicalLocatorFields step @
        (if action = ''wait_for''
         then [(''timeout_ms'', valueOrDefault step ''timeout_ms'' (JInt 5000))] else []) @
        (if action = ''assert_text''
         then [(''value'', JStr (trimmedString (any_get step ''value'')))] else []) @
        (if action = ''capture_text''
         then [(''context_key'', JStr (trimmedString (any_get step ''context_key'')))] else [])
      else if action = ''input'' then
        [(''target'', JStr (trimmedString (any_get step ''target''))),
         (''value'', JStr (trimmedString (any_get step ''value''))),
         (''trigger'', optionalTrimmedString (any_get step ''trigger''))] @
        canonicalLocatorDefaults step
      else [])))"

definition canonicalSteps :: "json \<Rightarrow> json" where
  "canonicalSteps raw = JArr (map canonicalStep (items raw))"

definition canonicalCase :: "obj \<Rightarrow> obj" where
  "canonicalCase candidate =
     [(''name'', JStr (trimmedString (any_get candidate ''name''))),
      (''description'', optionalTrimmedString (any_get candidate ''description'')),
      (''base_url'', optionalTrimmedString (any_get candidate ''base_url'')),
      (''input_contract'', canonicalContracts (any_get candidate ''input_contract'') True),
      (''output_contract'', canonicalContracts (any_get candidate ''output_contract'') False),
      (''steps'', canonicalSteps (any_get candidate ''steps''))]"

text \<open>A \<open>map[string]any\<close> read from a message.\<close>

definition as_object :: "raw_message \<Rightarrow> obj option" where
  "as_object raw = (case map_option anyval raw of Some (JObj m) \<Rightarrow> Some m | _ \<Rightarrow> None)"

definition case_name :: "obj \<Rightarrow> string" where
  "case_name candidate = TrimSpace (any_string (any_get candidate ''name''))"

text \<open>
  What every profile checks of a case as a whole. The name is replaced by its trimmed form, absent
  contracts by empty lists; the order is that of research-v1 and research-v2.
\<close>

definition check_heading :: "obj \<Rightarrow> dsl_error option" where
  "check_heading candidate = checks
     [fails_if (case_name candidate = [] \<or> RuneCount (case_name candidate) > 200)
        (DslField AtCase ''name'' Unacceptable),
      validateOptionalText candidate ''description'' 1000,
      validateOptionalText candidate ''base_url'' 500]"

definition with_default_contracts :: "obj \<Rightarrow> obj" where
  "with_default_contracts candidate =
     (let put = (\<lambda>field m. if exists_member m field then m else assoc_put field (JArr []) m) in
      put ''output_contract'' (put ''input_contract''
        (assoc_put ''name'' (JStr (case_name candidate)) candidate)))"

definition check_contracts ::
  "(string \<Rightarrow> json list \<Rightarrow> dsl_error option) \<Rightarrow> obj \<Rightarrow> string \<Rightarrow> dsl_error option" where
  "check_contracts validate candidate field =
     (case map_of candidate field of
        None \<Rightarrow> None
      | Some (JArr contracts) \<Rightarrow> validate field contracts
      | Some _ \<Rightarrow> Some (DslField AtCase field NotArray))"

definition legacy_step :: "nat \<Rightarrow> json \<Rightarrow> dsl_error option" where
  "legacy_step index raw =
     (case raw of
        JObj step \<Rightarrow> let action = any_string (any_get step ''action'') in checks
          [fails_if (action \<notin> set supportedActions) (UnsupportedAction action),
           validateStep index action step]
      | _ \<Rightarrow> Some (DslField (AtStep index) [] NotObject))"

text \<open>\<open>steps, ok := ...; !ok || len(steps) == 0\<close>, then the loop.\<close>

definition check_steps :: "(nat \<Rightarrow> json \<Rightarrow> dsl_error option) \<Rightarrow> obj \<Rightarrow> dsl_error option" where
  "check_steps check_step candidate =
     (case any_get candidate ''steps'' of
        JArr (s # ss) \<Rightarrow> first_error_from check_step 0 (s # ss)
      | _ \<Rightarrow> Some (DslField AtCase ''steps'' Missing))"

definition validateLegacyCase :: "raw_message \<Rightarrow> dsl_error + (json \<times> string)" where
  "validateLegacyCase raw =
     (case as_object raw of
        None \<Rightarrow> if raw = Some JNull then Inl (DslField AtCase ''name'' Unacceptable)
          else Inl (DslField AtCase [] NotObject)
      | Some candidate0 \<Rightarrow>
        let candidate = assoc_del ''_preflight'' candidate0 in
        (case checks [check_heading candidate, check_steps legacy_step candidate,
            check_contracts validateContracts candidate ''input_contract'',
            check_contracts validateContracts candidate ''output_contract''] of
           Some e \<Rightarrow> Inl e
         | None \<Rightarrow>
           let canonical = canonicalCase (with_default_contracts candidate) in
           Inr (marshal_map canonical, any_string (any_get canonical ''base_url''))))"

subsection \<open>The profile research-v1 (action_ir.go)\<close>

definition contractFields :: "string \<Rightarrow> string list" where
  "contractFields field = [''name'', ''context_key'', ''value_type'', ''description''] @
     (if field = ''input_contract'' then [''required'', ''value''] else [''source''])"

definition validateResearchContracts :: "string \<Rightarrow> json list \<Rightarrow> dsl_error option" where
  "validateResearchContracts field contracts = checks
     [first_error_from (\<lambda>index raw. case raw of
        JObj contract \<Rightarrow> rejectUnknownFields (AtContract field index) contract (contractFields field)
      | _ \<Rightarrow> Some (DslField (AtContract field index) [] NotObject)) 0 contracts,
      validateContracts field contracts]"

definition locatorStepFields :: "string list" where
  "locatorStepFields = [''target'', ''page_state'', ''target_strategy'', ''locator_confidence'', ''candidates'']"

definition researchStepFields :: "string \<Rightarrow> string list" where
  "researchStepFields action =
     [''action'', ''intent'', ''preconditions'', ''postconditions'', ''idempotency'', ''side_effect''] @
     (if action \<in> {''goto'', ''assert_url_contains''} then [''target'', ''value'']
      else if action = ''click'' then locatorStepFields
      else if action = ''input'' then locatorStepFields @ [''value'', ''trigger'']
      else if action = ''wait_for'' then locatorStepFields @ [''timeout_ms'']
      else if action = ''assert_text'' then locatorStepFields @ [''value'']
      else if action = ''capture_text'' then locatorStepFields @ [''context_key'']
      else [])"

definition requiredConditionArray :: "nat \<Rightarrow> string \<Rightarrow> obj \<Rightarrow> dsl_error option" where
  "requiredConditionArray step_index field step =
     (case map_of step field of
        None \<Rightarrow> Some (DslField (AtStep step_index) field Missing)
      | Some raw \<Rightarrow> fails_if (\<not> is_array raw) (DslField (AtStep step_index) field NotArray))"

definition conditionFields :: "string list" where
  "conditionFields = [''type'', ''value'', ''method'', ''status'', ''timeout_ms'']"

definition validateResearchConditions :: "nat \<Rightarrow> string \<Rightarrow> json list \<Rightarrow> dsl_error option" where
  "validateResearchConditions step_index field conditions = checks
     [first_error_from (\<lambda>index raw. case raw of
        JObj condition \<Rightarrow> rejectUnknownFields (AtCondition step_index field index) condition conditionFields
      | _ \<Rightarrow> Some (DslField (AtCondition step_index field index) [] NotObject)) 0 conditions,
      validateConditions step_index field (JArr conditions)]"

text \<open>What an action demands of its metadata and of its conditions, in both research profiles.\<close>

definition action_semantics ::
  "nat \<Rightarrow> string \<Rightarrow> obj \<Rightarrow> json list \<Rightarrow> json list \<Rightarrow> dsl_error option" where
  "action_semantics index action step preconditions postconditions =
     (let idempotency = TrimSpace (any_string (any_get step ''idempotency''));
          side_effect = TrimSpace (any_string (any_get step ''side_effect'')) in checks
      [fails_if (action \<in> {''goto'', ''input''} \<and>
         (idempotency \<noteq> ''idempotent'' \<or> side_effect \<noteq> ''browser_state'')) (ActionMetadata index action),
       fails_if (action \<in> {''wait_for'', ''assert_text'', ''assert_url_contains'', ''capture_text''} \<and>
         (idempotency \<noteq> ''idempotent'' \<or> side_effect \<noteq> ''none'')) (ActionMetadata index action),
       fails_if (action = ''goto'' \<and> postconditions = []) (PostconditionRequired index),
       fails_if (action \<in> {''input'', ''click''} \<and> (preconditions = [] \<or> postconditions = []))
         (ConditionsRequired index action),
       fails_if ((idempotency = ''non_idempotent'' \<or> side_effect = ''external_state'' \<or>
         side_effect = ''unknown'') \<and> postconditions = []) (RiskNeedsPostcondition index)])"

definition validateResearchActionSemantics ::
  "nat \<Rightarrow> string \<Rightarrow> obj \<Rightarrow> json list \<Rightarrow> json list \<Rightarrow> dsl_error option" where
  "validateResearchActionSemantics index action step preconditions postconditions = checks
     [(if action \<in> {''goto'', ''assert_url_contains''} then requireText step ''target'' index else None),
      action_semantics index action step preconditions postconditions]"

definition hasVerifiedPreflightProvenance :: "string \<Rightarrow> obj \<Rightarrow> bool" where
  "hasVerifiedPreflightProvenance strategy features \<longleftrightarrow>
     any_get features ''verified'' = JBool True \<and>
     (let source = TrimSpace (any_string (any_get features ''source'')) in
      if HasPrefix strategy ''verified_''
      then source \<in> {''a11y_backend_dom_node'', ''dom_verified_interactive_control'', strategy}
      else if strategy = ''role'' then source = ''a11y_role_exact''
      else if strategy = ''text'' then source = ''a11y_text_exact''
      else if HasPrefix strategy ''a11y_scoped_'' then source = strategy
      else False)"

definition candidateFields :: "string list" where
  "candidateFields = [''strategy'', ''selector'', ''semantic_value'', ''pre_score'', ''pre_features'']"

definition executable_candidate :: "nat \<Rightarrow> nat \<Rightarrow> json \<Rightarrow> dsl_error option" where
  "executable_candidate index candidate_index raw =
     (case raw of
        JObj candidate \<Rightarrow> let place = AtCandidate index candidate_index in checks
          [rejectUnknownFields place candidate candidateFields,
           fails_if (TrimSpace (any_string (any_get candidate ''strategy'')) \<notin>
             set executableCandidateStrategies) (DslField place ''strategy'' Unacceptable),
           fails_if (blank (any_string (any_get candidate ''selector''))) (DslField place ''selector'' Missing)]
      | _ \<Rightarrow> Some (DslField (AtCandidate index candidate_index) [] NotObject))"

definition verified_candidate :: "json \<Rightarrow> bool" where
  "verified_candidate raw \<longleftrightarrow> (let candidate = object_members raw in
     case any_get candidate ''pre_features'' of
       JObj features \<Rightarrow>
         hasVerifiedPreflightProvenance (TrimSpace (any_string (any_get candidate ''strategy''))) features
     | _ \<Rightarrow> False)"

definition validateExecutableLocator :: "nat \<Rightarrow> obj \<Rightarrow> dsl_error option" where
  "validateExecutableLocator index step =
     (if \<not> is_text (any_get step ''locator_confidence'') \<or>
         TrimSpace (any_string (any_get step ''locator_confidence'')) \<notin> {''high'', ''medium''}
      then Some (DslField (AtStep index) ''locator_confidence'' Unacceptable)
      else case any_get step ''candidates'' of
        JArr (c # cs) \<Rightarrow> checks
          [first_error_from (executable_candidate index) 0 (c # cs),
           fails_if (\<not> list_ex verified_candidate (c # cs)) (LacksVerifiedEvidence index)]
      | _ \<Rightarrow> Some (DslField (AtStep index) ''candidates'' Missing))"

definition requiresPreflightCandidates :: "string \<Rightarrow> obj \<Rightarrow> bool" where
  "requiresPreflightCandidates action step \<longleftrightarrow>
     action \<in> {''click'', ''input'', ''capture_text''} \<or>
     \<not> blank (any_string (any_get step ''target_strategy'')) \<or>
     (let target = TrimSpace (trimmedString (any_get step ''target'')) in
      HasPrefix target ''css='' \<or> HasPrefix target ''xpath='' \<or> HasPrefix target ''#'' \<or>
      HasPrefix target ''.'' \<or> HasPrefix target ''//'')"

definition hasPreflightCandidates :: "obj \<Rightarrow> bool" where
  "hasPreflightCandidates step \<longleftrightarrow> items (any_get step ''candidates'') \<noteq> []"

definition phase_checks :: "nat \<Rightarrow> string \<Rightarrow> obj \<Rightarrow> string \<Rightarrow> dsl_error option" where
  "phase_checks index action step phase =
     (if phase = ValidationPhaseDraft then checks
        [fails_if (exists_member step ''candidates'') (AddedByPreflight index ''candidates''),
         fails_if (exists_member step ''locator_confidence'') (AddedByPreflight index ''locator_confidence'')]
      else if requiresPreflightCandidates action step \<or> hasPreflightCandidates step
      then validateExecutableLocator index step else None)"

definition validateResearchStep :: "string \<Rightarrow> nat \<Rightarrow> obj \<Rightarrow> dsl_error option" where
  "validateResearchStep phase index step =
     (let action = any_string (any_get step ''action'');
          preconditions = items (any_get step ''preconditions'');
          postconditions = items (any_get step ''postconditions'') in checks
      [fails_if (action \<notin> set supportedActions) (UnsupportedAction action),
       rejectUnknownFields (AtStep index) step (researchStepFields action),
       requireBoundedText step ''intent'' index 500,
       requiredConditionArray index ''preconditions'' step,
       requiredConditionArray index ''postconditions'' step,
       validateResearchConditions index ''preconditions'' preconditions,
       validateResearchConditions index ''postconditions'' postconditions,
       fails_if (\<not> validRequiredEnum step ''idempotency'' idempotencies)
         (DslField (AtStep index) ''idempotency'' Unacceptable),
       fails_if (\<not> validRequiredEnum step ''side_effect'' sideEffects)
         (DslField (AtStep index) ''side_effect'' Unacceptable),
       validateResearchActionSemantics index action step preconditions postconditions,
       validateStep index action step,
       phase_checks index action step phase])"

definition object_step :: "(nat \<Rightarrow> obj \<Rightarrow> dsl_error option) \<Rightarrow> nat \<Rightarrow> json \<Rightarrow> dsl_error option" where
  "object_step step_error index raw =
     (case raw of JObj step \<Rightarrow> step_error index step | _ \<Rightarrow> Some (DslField (AtStep index) [] NotObject))"

definition canonicalResearchLocatorFields :: "obj \<Rightarrow> obj" where
  "canonicalResearchLocatorFields step =
     [(''target'', JStr (trimmedString (any_get step ''target''))),
      (''page_state'', optionalTrimmedString (any_get step ''page_state'')),
      (''target_strategy'', optionalTrimmedString (any_get step ''target_strategy''))] @
     if_exists step ''locator_confidence'' optionalTrimmedString @
     if_exists step ''candidates'' canonicalCandidates"

definition canonicalResearchStep :: "json \<Rightarrow> json" where
  "canonicalResearchStep raw = (let step = object_members raw; action = trimmedString (any_get step ''action'') in
     marshal_map (
     [(''action'', JStr action),
      (''intent'', JStr (trimmedString (any_get step ''intent''))),
      (''idempotency'', JStr (trimmedString (any_get step ''idempotency''))),
      (''side_effect'', JStr (trimmedString (any_get step ''side_effect''))),
      (''preconditions'', canonicalConditions (any_get step ''preconditions'')),
      (''postconditions'', canonicalConditions (any_get step ''postconditions''))] @
     (if action \<in> {''goto'', ''assert_url_contains''} then
        [(''target'', JStr (trimmedString (any_get step ''target''))),
         (''value'', JStr (trimmedString (any_get step ''value'')))]
      else if action = ''click'' then canonicalResearchLocatorFields step
      else if action = ''input'' then canonicalResearchLocatorFields step @
        [(''value'', JStr (trimmedString (any_get step ''value''))),
         (''trigger'', optionalTrimmedString (any_get step ''trigger''))]
      else if action = ''wait_for'' then canonicalResearchLocatorFields step @
        [(''timeout_ms'', valueOrDefault step ''timeout_ms'' (JInt 5000))]
      else if action = ''assert_text'' then canonicalResearchLocatorFields step @
        [(''value'', JStr (trimmedString (any_get step ''value'')))]
      else if action = ''capture_text'' then canonicalResearchLocatorFields step @
        [(''context_key'', JStr (trimmedString (any_get step ''context_key'')))]
      else [])))"

definition canonicalResearchSteps :: "json \<Rightarrow> json" where
  "canonicalResearchSteps raw = JArr (map canonicalResearchStep (items raw))"

definition canonicalResearchCase :: "obj \<Rightarrow> obj" where
  "canonicalResearchCase candidate =
     [(''profile'', JStr ProfileResearchV1),
      (''name'', JStr (trimmedString (any_get candidate ''name''))),
      (''description'', optionalTrimmedString (any_get candidate ''description'')),
      (''base_url'', optionalTrimmedString (any_get candidate ''base_url'')),
      (''input_contract'', canonicalContracts (any_get candidate ''input_contract'') True),
      (''output_contract'', canonicalContracts (any_get candidate ''output_contract'') False),
      (''steps'', canonicalResearchSteps (any_get candidate ''steps''))]"

record ValidatedCase =
  vc_canonical :: json
  vc_base_url :: string
  vc_profile :: string
  vc_version :: string
  vc_phase :: string

definition researchCaseFields :: "string list" where
  "researchCaseFields = [''profile'', ''name'', ''description'', ''base_url'', ''input_contract'',
     ''output_contract'', ''steps'']"

definition phase_error :: "string \<Rightarrow> dsl_error option" where
  "phase_error phase = fails_if (phase \<noteq> ValidationPhaseDraft \<and> phase \<noteq> ValidationPhaseExecutable)
     (UnsupportedPhase phase)"

definition validateResearchCase :: "raw_message \<Rightarrow> string \<Rightarrow> dsl_error + ValidatedCase" where
  "validateResearchCase raw phase =
     (case phase_error phase of Some e \<Rightarrow> Inl e | None \<Rightarrow>
      (case as_object raw of
        None \<Rightarrow> Inl (DslField AtCase [] NotObject)
      | Some candidate \<Rightarrow>
        (case checks [rejectUnknownFields AtCase candidate researchCaseFields,
            fails_if (any_get candidate ''profile'' \<noteq> JStr ProfileResearchV1) (ProfileExpected ProfileResearchV1),
            check_heading candidate,
            check_contracts validateResearchContracts candidate ''input_contract'',
            check_contracts validateResearchContracts candidate ''output_contract'',
            check_steps (object_step (validateResearchStep phase)) candidate] of
           Some e \<Rightarrow> Inl e
         | None \<Rightarrow>
           let canonical = canonicalResearchCase (with_default_contracts candidate) in
           Inr \<lparr>vc_canonical = marshal_map canonical,
             vc_base_url = any_string (any_get canonical ''base_url''),
             vc_profile = ProfileResearchV1, vc_version = CanonicalVersionV2, vc_phase = phase\<rparr>)))"

end
