(* ===== verification/DslValidation.thy ===== *)
theory DslValidation
  imports DslCanonical
begin

section \<open>Validation of a case (internal/dsl/research_v2.go, action_ir.go)\<close>

text \<open>
  The profile research-v2, whose steps name bindings of the task plan instead of selectors, and
  the entry points that choose the profile. A draft comes from the model; an executable case has
  been compiled and carries the evidence the compiler took from the plan.
\<close>

subsection \<open>Steps of research-v2\<close>

definition v2StepFields :: "string list" where
  "v2StepFields = [''plan_step_id'', ''action'', ''intent'', ''target_binding_id'', ''probe_id'',
     ''observation_id'', ''observation_sha256'', ''page_state_id'', ''selected_candidate_id'',
     ''semantic_target'', ''locator_candidates'', ''value'', ''trigger'', ''context_key'',
     ''timeout_ms'', ''preconditions'', ''postconditions'', ''idempotency'', ''side_effect'', ''target'']"

definition compilerFields :: "string list" where
  "compilerFields = [''semantic_target'', ''locator_candidates'', ''probe_id'', ''observation_id'',
     ''observation_sha256'', ''page_state_id'', ''selected_candidate_id'']"

definition requiresV2TargetBinding :: "string \<Rightarrow> bool" where
  "requiresV2TargetBinding action \<longleftrightarrow>
     action \<in> {''click'', ''input'', ''capture_text'', ''assert_text''}"

definition hasV2Target :: "string \<Rightarrow> bool" where
  "hasV2Target action \<longleftrightarrow>
     action \<in> {''click'', ''input'', ''wait_for'', ''assert_text'', ''capture_text''}"

definition v2StringValue :: "json \<Rightarrow> string" where
  "v2StringValue j = TrimSpace (any_string j)"

definition validHexSHA256 :: "string \<Rightarrow> bool" where
  "validHexSHA256 s \<longleftrightarrow> length s = 64 \<and> (\<forall>c \<in> set s. hex_digit c \<noteq> None)"

definition lineageFields :: "string list" where
  "lineageFields = [''probe_id'', ''observation_id'', ''observation_sha256'', ''page_state_id'']"

definition hasV2Lineage :: "obj \<Rightarrow> bool" where
  "hasV2Lineage step \<longleftrightarrow> list_ex (exists_member step) lineageFields"

definition v2CandidateExists :: "json \<Rightarrow> string \<Rightarrow> bool" where
  "v2CandidateExists raw candidate_id \<longleftrightarrow>
     list_ex (\<lambda>v. v2StringValue (any_get (object_members v) ''candidate_id'') = candidate_id) (items raw)"

definition v2_candidate :: "nat \<Rightarrow> nat \<Rightarrow> json \<Rightarrow> dsl_error option" where
  "v2_candidate index candidate_index raw =
     (case dec_LocatorCandidate raw zero_LocatorCandidate of
        None \<Rightarrow> Some (CandidateInvalid index candidate_index)
      | Some candidate \<Rightarrow>
        if blank (lc_candidate_id candidate) \<or> blank (lc_element_ref candidate) \<or>
           blank (lc_provenance candidate) \<or> lc_observed_count candidate \<noteq> 1 \<or> \<not> lc_visible candidate
        then Some (CandidateNotExecutable index candidate_index)
        else map_option (CandidateLocator index candidate_index) (LocatorSpec_Validate (lc_locator candidate)))"

definition validateV2Candidates :: "nat \<Rightarrow> json \<Rightarrow> dsl_error option" where
  "validateV2Candidates index raw =
     (case raw of
        JArr (c # cs) \<Rightarrow> first_error_from (v2_candidate index) 0 (c # cs)
      | _ \<Rightarrow> Some (DslField (AtStep index) ''locator_candidates'' Missing))"

definition unbound_condition :: "nat \<Rightarrow> json \<Rightarrow> dsl_error option" where
  "unbound_condition index raw =
     (let kind = any_string (any_get (object_members raw) ''type'') in
      fails_if (kind \<in> {''element_visible'', ''element_gone''}) (UnboundCondition index kind))"

definition validateResearchV2ActionFields :: "nat \<Rightarrow> string \<Rightarrow> obj \<Rightarrow> dsl_error option" where
  "validateResearchV2ActionFields index action step = checks
     [(if action = ''goto'' then requireBoundedText step ''value'' index 2000
       else if action = ''input'' then checks
         [fails_if (\<not> is_text (any_get step ''value'')) (DslField (AtStep index) ''value'' NotText),
          fails_if (any_get step ''trigger'' \<notin> {JNull, JStr ''Enter'', JStr ''Tab''})
            (DslField (AtStep index) ''trigger'' Unacceptable)]
       else if action = ''wait_for'' then
         fails_if (exists_member step ''timeout_ms'' \<and> \<not> number_between 1 60000 (any_get step ''timeout_ms''))
           (DslField (AtStep index) ''timeout_ms'' Unacceptable)
       else if action = ''assert_text'' then requireBoundedText step ''value'' index 10000
       else if action = ''assert_url_contains'' then requireBoundedText step ''value'' index 2000
       else if action = ''capture_text'' then requireBoundedText step ''context_key'' index 100
       else None),
      (if requiresV2TargetBinding action then requireBoundedText step ''target_binding_id'' index 64 else None)]"

definition lineage_checks :: "nat \<Rightarrow> obj \<Rightarrow> dsl_error option" where
  "lineage_checks index step =
     (if hasV2Lineage step then checks
        [requireBoundedText step ''probe_id'' index 64,
         requireBoundedText step ''observation_id'' index 64,
         requireBoundedText step ''page_state_id'' index 256,
         requireBoundedText step ''selected_candidate_id'' index 64,
         fails_if (\<not> validHexSHA256 (v2StringValue (any_get step ''observation_sha256'')))
           (DslField (AtStep index) ''observation_sha256'' Unacceptable)]
      else None)"

definition executable_checks :: "nat \<Rightarrow> string \<Rightarrow> obj \<Rightarrow> dsl_error option" where
  "executable_checks index action step = checks
     [(if hasV2Target action then requireBoundedText step ''semantic_target'' index 500 else None),
      (if requiresV2TargetBinding action then checks
        [requireBoundedText step ''target_binding_id'' index 64,
         requireBoundedText step ''semantic_target'' index 500,
         validateV2Candidates index (any_get step ''locator_candidates''),
         (let selected = v2StringValue (any_get step ''selected_candidate_id'') in
          fails_if (selected \<noteq> [] \<and> \<not> v2CandidateExists (any_get step ''locator_candidates'') selected)
            (DslField (AtStep index) ''selected_candidate_id'' Unacceptable)),
         lineage_checks index step]
       else None)]"

definition validateResearchV2Step :: "string \<Rightarrow> nat \<Rightarrow> obj \<Rightarrow> dsl_error option" where
  "validateResearchV2Step phase index step =
     (let action = any_string (any_get step ''action'');
          preconditions = items (any_get step ''preconditions'');
          postconditions = items (any_get step ''postconditions'') in checks
      [fails_if (action \<notin> set supportedActions) (UnsupportedAction action),
       rejectUnknownFields (AtStep index) step v2StepFields,
       requireBoundedText step ''plan_step_id'' index 64,
       requireBoundedText step ''intent'' index 500,
       requiredConditionArray index ''preconditions'' step,
       requiredConditionArray index ''postconditions'' step,
       validateResearchConditions index ''preconditions'' preconditions,
       validateResearchConditions index ''postconditions'' postconditions,
       first_error (unbound_condition index) (preconditions @ postconditions),
       fails_if (\<not> validRequiredEnum step ''idempotency'' idempotencies \<or>
         \<not> validRequiredEnum step ''side_effect'' sideEffects) (ActionMetadata index action),
       validateResearchV2ActionFields index action step,
       action_semantics index action step preconditions postconditions,
       (if phase = ValidationPhaseDraft
        then first_error (\<lambda>field. fails_if (exists_member step field) (AddedByCompiler index field)) compilerFields
        else executable_checks index action step)])"

text \<open>Defaults are written into the conditions and into a waiting step.\<close>

definition default_timeout :: "json \<Rightarrow> json" where
  "default_timeout j = (case j of
     JObj c \<Rightarrow> if exists_member c ''timeout_ms'' then j else marshal_map (assoc_put ''timeout_ms'' (JInt 3000) c)
   | _ \<Rightarrow> j)"

definition default_timeouts :: "string \<Rightarrow> obj \<Rightarrow> obj" where
  "default_timeouts field step =
     (case any_get step field of
        JArr conditions \<Rightarrow> assoc_put field (JArr (map default_timeout conditions)) step
      | _ \<Rightarrow> step)"

definition materializeResearchV2Defaults :: "obj \<Rightarrow> obj" where
  "materializeResearchV2Defaults step0 =
     (let step = default_timeouts ''postconditions'' (default_timeouts ''preconditions'' step0) in
      if any_get step ''action'' = JStr ''wait_for'' \<and> \<not> exists_member step ''timeout_ms''
      then assoc_put ''timeout_ms'' (JInt 5000) step else step)"

subsection \<open>The bindings of an executable case\<close>

record v2ObservationBinding =
  ob_binding_id :: string
  ob_binding_sha256 :: string
  ob_probe_id :: string
  ob_observation_id :: string
  ob_observation_sha256 :: string
  ob_page_state_id :: string

definition zero_v2ObservationBinding :: v2ObservationBinding where
  "zero_v2ObservationBinding = \<lparr>ob_binding_id = [], ob_binding_sha256 = [], ob_probe_id = [],
     ob_observation_id = [], ob_observation_sha256 = [], ob_page_state_id = []\<rparr>"

definition dec_v2ObservationBinding :: "v2ObservationBinding decoder" where
  "dec_v2ObservationBinding = dec_struct
     [(''binding_id'', fld dec_string ob_binding_id ob_binding_id_update),
      (''binding_sha256'', fld dec_string ob_binding_sha256 ob_binding_sha256_update),
      (''probe_id'', fld dec_string ob_probe_id ob_probe_id_update),
      (''observation_id'', fld dec_string ob_observation_id ob_observation_id_update),
      (''observation_sha256'', fld dec_string ob_observation_sha256 ob_observation_sha256_update),
      (''page_state_id'', fld dec_string ob_page_state_id ob_page_state_id_update)]"

definition observation_binding_error :: "nat \<Rightarrow> v2ObservationBinding \<Rightarrow> dsl_error option" where
  "observation_binding_error index b = checks
     [fails_if (blank (ob_binding_id b) \<or> \<not> validHexSHA256 (ob_binding_sha256 b) \<or>
        blank (ob_observation_id b) \<or> \<not> validHexSHA256 (ob_observation_sha256 b)) (BindingIncompleteAt index),
      fails_if ((ob_probe_id b = []) \<noteq> (ob_page_state_id b = [])) (BindingPartialLineage index)]"

text \<open>The loop; the table is \<open>result\<close>, keyed by the id of the binding.\<close>

fun read_bindings ::
  "nat \<Rightarrow> json list \<Rightarrow> (string \<times> v2ObservationBinding) list
   \<Rightarrow> dsl_error + (string \<times> v2ObservationBinding) list" where
  "read_bindings index [] table = Inr table"
| "read_bindings index (raw # raws) table =
     (case dec_v2ObservationBinding raw zero_v2ObservationBinding of
        None \<Rightarrow> Inl BindingUndecodable
      | Some b \<Rightarrow>
        (case observation_binding_error index b of
           Some e \<Rightarrow> Inl e
         | None \<Rightarrow>
           if map_of table (ob_binding_id b) \<noteq> None then Inl (BindingDuplicated (ob_binding_id b))
           else read_bindings (Suc index) raws (assoc_put (ob_binding_id b) b table)))"

definition validateV2ObservationBindings :: "json \<Rightarrow> dsl_error + (string \<times> v2ObservationBinding) list" where
  "validateV2ObservationBindings raw =
     (case raw of
        JArr values' \<Rightarrow> read_bindings 0 values' []
      | _ \<Rightarrow> Inl (DslField AtCase ''observation_bindings'' NotArray))"

definition same_lineage :: "obj \<Rightarrow> v2ObservationBinding \<Rightarrow> bool" where
  "same_lineage step b \<longleftrightarrow>
     hasV2Lineage step \<and> ob_probe_id b \<noteq> [] \<and>
     v2StringValue (any_get step ''probe_id'') = ob_probe_id b \<and>
     v2StringValue (any_get step ''observation_id'') = ob_observation_id b \<and>
     v2StringValue (any_get step ''observation_sha256'') = ob_observation_sha256 b \<and>
     v2StringValue (any_get step ''page_state_id'') = ob_page_state_id b"

definition step_lineage :: "(string \<times> v2ObservationBinding) list \<Rightarrow> nat \<Rightarrow> json \<Rightarrow> dsl_error option" where
  "step_lineage bindings index raw =
     (case raw of
        JObj step \<Rightarrow>
          if \<not> requiresV2TargetBinding (v2StringValue (any_get step ''action'')) then None
          else let binding_id = v2StringValue (any_get step ''target_binding_id'') in
            (case map_of bindings binding_id of
               None \<Rightarrow> Some (DslField (AtStep index) ''target_binding_id'' Unacceptable)
             | Some b \<Rightarrow>
               if \<not> hasV2Lineage step \<and> ob_probe_id b = [] then None
               else fails_if (\<not> same_lineage step b) (LineageMismatch index binding_id))
      | _ \<Rightarrow> None)"

definition validateV2StepLineage :: "json list \<Rightarrow> (string \<times> v2ObservationBinding) list \<Rightarrow> dsl_error option" where
  "validateV2StepLineage steps bindings = first_error_from (step_lineage bindings) 0 steps"

subsection \<open>Cases of research-v2\<close>

definition v2CaseFields :: "string list" where
  "v2CaseFields = [''profile'', ''name'', ''description'', ''base_url'', ''input_contract'',
     ''output_contract'', ''steps'', ''plan_binding'', ''observation_bindings'']"

definition draft_heading :: "string \<Rightarrow> obj \<Rightarrow> dsl_error option" where
  "draft_heading phase candidate =
     (if phase = ValidationPhaseDraft then checks
        [fails_if (exists_member candidate ''plan_binding'') (DraftMustNotContain ''plan_binding''),
         fails_if (exists_member candidate ''observation_bindings'') (DraftMustNotContain ''observation_bindings'')]
      else None)"

definition with_v2_defaults :: "obj \<Rightarrow> obj" where
  "with_v2_defaults candidate =
     assoc_put ''steps'' (JArr (map (\<lambda>s. marshal_map (materializeResearchV2Defaults (object_members s)))
       (items (any_get candidate ''steps'')))) (with_default_contracts candidate)"

definition executable_heading :: "string \<Rightarrow> obj \<Rightarrow> dsl_error option" where
  "executable_heading phase candidate =
     (if phase \<noteq> ValidationPhaseExecutable then None
      else if \<not> is_object (any_get candidate ''plan_binding'') then Some PlanBindingRequired
      else case validateV2ObservationBindings (any_get candidate ''observation_bindings'') of
        Inl e \<Rightarrow> Some (ObservationBindings e)
      | Inr bindings \<Rightarrow> validateV2StepLineage (items (any_get candidate ''steps'')) bindings)"

definition validateResearchV2Case :: "raw_message \<Rightarrow> string \<Rightarrow> dsl_error + ValidatedCase" where
  "validateResearchV2Case raw phase =
     (case phase_error phase of Some e \<Rightarrow> Inl e | None \<Rightarrow>
      (case as_object raw of
        None \<Rightarrow> Inl (DslField AtCase [] NotObject)
      | Some candidate \<Rightarrow>
        let result = with_v2_defaults candidate in
        (case checks [rejectUnknownFields AtCase candidate v2CaseFields,
            fails_if (any_get candidate ''profile'' \<noteq> JStr ProfileResearchV2) (ProfileExpected ProfileResearchV2),
            check_heading candidate,
            check_contracts validateResearchContracts candidate ''input_contract'',
            check_contracts validateResearchContracts candidate ''output_contract'',
            draft_heading phase candidate,
            check_steps (object_step (validateResearchV2Step phase)) candidate,
            executable_heading phase result] of
           Some e \<Rightarrow> Inl e
         | None \<Rightarrow> Inr \<lparr>vc_canonical = marshal_map result,
             vc_base_url = any_string (any_get result ''base_url''),
             vc_profile = ProfileResearchV2, vc_version = CanonicalVersionV3, vc_phase = phase\<rparr>)))"

subsection \<open>Choosing the profile\<close>

text \<open>
  The case has to be an object; without a profile it is of legacy-v1 and kept as it is. (A decoder
  reads one value here: a message that goes on after it is not a single value, \<open>None\<close> in this
  model, and is refused.)
\<close>

definition caseProfile :: "raw_message \<Rightarrow> dsl_error + (string \<times> raw_message)" where
  "caseProfile raw =
     (case as_object raw of
        None \<Rightarrow> Inl (DslField AtCase [] NotObject)
      | Some candidate \<Rightarrow>
        (case map_of candidate ''profile'' of
           None \<Rightarrow> Inr (ProfileLegacyV1, raw)
         | Some (JStr text') \<Rightarrow>
           let profile = TrimSpace text' in
           if profile = ProfileLegacyV1
           then Inr (ProfileLegacyV1, Some (marshal_map (assoc_del ''profile'' candidate)))
           else if profile = ProfileResearchV1 \<or> profile = ProfileResearchV2
           then Inr (profile, Some (marshal_map (assoc_put ''profile'' (JStr profile) candidate)))
           else Inl ProfileUnknown
         | Some _ \<Rightarrow> Inl ProfileUnknown))"

definition validateCase :: "string \<Rightarrow> raw_message \<Rightarrow> dsl_error + ValidatedCase" where
  "validateCase phase raw =
     (case caseProfile raw of
        Inl e \<Rightarrow> Inl e
      | Inr (profile, normalized) \<Rightarrow>
        if profile = ProfileLegacyV1 then
          (case validateLegacyCase normalized of
             Inl e \<Rightarrow> Inl e
           | Inr (canonical, base_url) \<Rightarrow> Inr \<lparr>vc_canonical = canonical, vc_base_url = base_url,
               vc_profile = profile, vc_version = CanonicalVersionV1, vc_phase = phase\<rparr>)
        else if profile = ProfileResearchV2 then validateResearchV2Case normalized phase
        else validateResearchCase normalized phase)"

definition ValidateDraftCase :: "raw_message \<Rightarrow> dsl_error + ValidatedCase" where
  "ValidateDraftCase = validateCase ValidationPhaseDraft"

definition ValidateExecutableCase :: "raw_message \<Rightarrow> dsl_error + ValidatedCase" where
  "ValidateExecutableCase = validateCase ValidationPhaseExecutable"

definition ValidateCase :: "raw_message \<Rightarrow> dsl_error + (json \<times> string)" where
  "ValidateCase raw =
     (case ValidateExecutableCase raw of Inl e \<Rightarrow> Inl e | Inr v \<Rightarrow> Inr (vc_canonical v, vc_base_url v))"

definition ValidateCaseForVersion :: "raw_message \<Rightarrow> string \<Rightarrow> dsl_error + ValidatedCase" where
  "ValidateCaseForVersion raw version =
     (case ValidateExecutableCase raw of
        Inl e \<Rightarrow> Inl e
      | Inr v \<Rightarrow> if vc_version v \<noteq> version then Inl (VersionMismatch (vc_profile v) (vc_version v) version)
          else Inr v)"

definition IsCanonicalVersion :: "string \<Rightarrow> bool" where
  "IsCanonicalVersion version \<longleftrightarrow> version \<in> {CanonicalVersionV1, CanonicalVersionV2, CanonicalVersionV3}"

end
