(* ===== verification/JsonText.thy ===== *)
theory JsonText
  imports Json
begin

section \<open>Reading JSON text\<close>

text \<open>
  The other half of encoding/json: from the text of a document to the document. The code keeps
  tool arguments and tool results as texts in the transcript and parses them again, so the
  harness needs the parser and not only its result. The text is cut into tokens, and the tokens
  are read by an automaton with an explicit stack, as the scanner of Go works; a document may
  nest 10000 deep. Numbers are exact decimals; the text is valid UTF-8.
\<close>

subsection \<open>Tokens\<close>

datatype json_token =
    TokScalar json
  | TokOpenArr
  | TokCloseArr
  | TokOpenObj
  | TokCloseObj
  | TokColon
  | TokComma

definition code_of :: "char \<Rightarrow> nat" where
  "code_of c = of_char c"

definition is_digit :: "char \<Rightarrow> bool" where
  "is_digit c \<longleftrightarrow> 48 \<le> code_of c \<and> code_of c \<le> 57"

definition hex_value :: "char \<Rightarrow> nat option" where
  "hex_value c = (let n = code_of c in
     if 48 \<le> n \<and> n \<le> 57 then Some (n - 48)
     else if 97 \<le> n \<and> n \<le> 102 then Some (n - 87)
     else if 65 \<le> n \<and> n \<le> 70 then Some (n - 55) else None)"

fun hex4 :: "string \<Rightarrow> nat option" where
  "hex4 (a # b # c # d # s) =
     (case (hex_value a, hex_value b, hex_value c, hex_value d) of
        (Some w, Some x, Some y, Some z) \<Rightarrow> Some (4096 * w + 256 * x + 16 * y + z)
      | _ \<Rightarrow> None)"
| "hex4 _ = None"

definition utf8 :: "nat \<Rightarrow> string" where
  "utf8 n = map char_of
     (if n < 128 then [n]
      else if n < 2048 then [192 + n div 64, 128 + n mod 64]
      else if n < 65536 then [224 + n div 4096, 128 + n div 64 mod 64, 128 + n mod 64]
      else [240 + n div 262144, 128 + n div 4096 mod 64, 128 + n div 64 mod 64, 128 + n mod 64])"

text \<open>The second half of a surrogate pair, if the text goes on with one.\<close>

definition low_surrogate :: "nat \<Rightarrow> string \<Rightarrow> nat option" where
  "low_surrogate u s =
     (if 55296 \<le> u \<and> u < 56320 then
        (case s of
           a # b # r \<Rightarrow>
             if code_of a = 92 \<and> b = CHR ''u'' then
               (case hex4 r of
                  Some v \<Rightarrow> if 56320 \<le> v \<and> v < 57344
                    then Some (65536 + 1024 * (u - 55296) + (v - 56320)) else None
                | None \<Rightarrow> None)
             else None
         | _ \<Rightarrow> None)
      else None)"

definition simple_escape :: "char \<Rightarrow> char option" where
  "simple_escape e =
     (if code_of e \<in> {34, 92, 47} then Some e
      else if e = CHR ''b'' then Some (char_of (8 :: nat))
      else if e = CHR ''f'' then Some (char_of (12 :: nat))
      else if e = CHR ''n'' then Some (char_of (10 :: nat))
      else if e = CHR ''r'' then Some (char_of (13 :: nat))
      else if e = CHR ''t'' then Some (char_of (9 :: nat))
      else None)"

definition prepend :: "string \<Rightarrow> (string \<times> string) option \<Rightarrow> (string \<times> string) option" where
  "prepend xs r = map_option (\<lambda>p. (xs @ fst p, snd p)) r"

text \<open>The rest of a string literal, after its opening quote: its value and what follows it.\<close>

fun lex_string :: "string \<Rightarrow> (string \<times> string) option" where
  "lex_string [] = None"
| "lex_string (c # cs) =
     (if code_of c = 34 then Some ([], cs)
      else if code_of c < 32 then None
      else if code_of c \<noteq> 92 then prepend [c] (lex_string cs)
      else (case cs of
          [] \<Rightarrow> None
        | e # ds \<Rightarrow>
          (case simple_escape e of
             Some d \<Rightarrow> prepend [d] (lex_string ds)
           | None \<Rightarrow>
             if e \<noteq> CHR ''u'' then None
             else (case hex4 ds of
                 None \<Rightarrow> None
               | Some u \<Rightarrow>
                 (case low_surrogate u (drop 4 ds) of
                    Some n \<Rightarrow> prepend (utf8 n) (lex_string (drop 10 ds))
                  | None \<Rightarrow> prepend (utf8 (if 55296 \<le> u \<and> u < 57344 then 65533 else u))
                      (lex_string (drop 4 ds)))))))"

text \<open>A number: an integer literal, or one with a fraction or an exponent.\<close>

definition int_part :: "string \<Rightarrow> string" where
  "int_part s = (case s of c # cs \<Rightarrow> if c = CHR ''0'' then [c] else takeWhile is_digit s | [] \<Rightarrow> [])"

definition frac_part :: "string \<Rightarrow> (string \<times> string) option" where
  "frac_part s = (case s of
     c # cs \<Rightarrow> if c = CHR ''.'' then
         (let ds = takeWhile is_digit cs in
          if ds = [] then None else Some (ds, drop (length ds) cs))
       else Some ([], s)
   | [] \<Rightarrow> Some ([], s))"

definition exp_part :: "string \<Rightarrow> (int option \<times> string) option" where
  "exp_part s = (case s of
     c # cs \<Rightarrow> if c = CHR ''e'' \<or> c = CHR ''E'' then
         (let neg = (cs \<noteq> [] \<and> hd cs = CHR ''-'');
              cs' = (if cs \<noteq> [] \<and> (hd cs = CHR ''-'' \<or> hd cs = CHR ''+'') then tl cs else cs);
              ds = takeWhile is_digit cs' in
          if ds = [] then None
          else Some (Some ((if neg then -1 else 1) * int (digits_value ds)), drop (length ds) cs'))
       else Some (None, s)
   | [] \<Rightarrow> Some (None, s))"

definition number_value :: "bool \<Rightarrow> string \<Rightarrow> string \<Rightarrow> int option \<Rightarrow> json" where
  "number_value neg ip fp ex =
     (let m = (if neg then -1 else 1) * int (digits_value (ip @ fp)) in
      if fp = [] \<and> ex = None then JInt m
      else let k = int (length fp) - (case ex of None \<Rightarrow> 0 | Some e \<Rightarrow> e) in
        if 0 \<le> k then JDec m (nat k) else JDec (m * 10 ^ nat (- k)) 0)"

definition lex_number :: "string \<Rightarrow> (json \<times> string) option" where
  "lex_number s =
     (let neg = (s \<noteq> [] \<and> hd s = CHR ''-''); s1 = (if neg then tl s else s); ip = int_part s1 in
      if ip = [] then None
      else case frac_part (drop (length ip) s1) of
        None \<Rightarrow> None
      | Some (fp, s2) \<Rightarrow>
        (case exp_part s2 of
           None \<Rightarrow> None
         | Some (ex, s3) \<Rightarrow> Some (number_value neg ip fp ex, s3)))"

definition punctuation :: "char \<Rightarrow> json_token option" where
  "punctuation c =
     (if c = CHR ''['' then Some TokOpenArr else if c = CHR '']'' then Some TokCloseArr
      else if c = CHR ''{'' then Some TokOpenObj else if c = CHR ''}'' then Some TokCloseObj
      else if c = CHR '':'' then Some TokColon else if c = CHR '','' then Some TokComma else None)"

definition literal_word :: "string \<Rightarrow> (json \<times> nat) option" where
  "literal_word s =
     (if take 4 s = ''true'' then Some (JBool True, 4)
      else if take 5 s = ''false'' then Some (JBool False, 5)
      else if take 4 s = ''null'' then Some (JNull, 4) else None)"

lemma prepend_Some: "prepend xs r = Some (s, rest) \<longleftrightarrow> (\<exists>s'. r = Some (s', rest) \<and> s = xs @ s')"
  by (cases r) (auto simp: prepend_def)

lemma lex_string_shorter: "lex_string s = Some (v, rest) \<Longrightarrow> length rest < length s"
proof (induction s arbitrary: v rest rule: measure_induct_rule [of length])
  case (less s)
  then obtain c cs where s: "s = c # cs" by (cases s) auto
  have ih: "length rest < length t" if "lex_string t = Some (v, rest)" "length t \<le> length cs" for t v rest
    using less.IH [of t] that s by simp
  from less.prems show ?case
    unfolding s
    by (auto simp: prepend_Some split: if_splits list.splits option.splits dest!: ih)
qed

lemma int_part_length: "length (int_part s) \<le> length s"
  by (auto simp: int_part_def length_takeWhile_le split: list.split)

lemma frac_part_length: "frac_part s = Some (fp, rest) \<Longrightarrow> length rest \<le> length s"
  by (auto simp: frac_part_def Let_def split: list.splits if_splits)

lemma exp_part_length: "exp_part s = Some (ex, rest) \<Longrightarrow> length rest \<le> length s"
  by (cases s) (auto simp: exp_part_def Let_def split: if_splits)

lemma lex_number_shorter: "lex_number s = Some (j, rest) \<Longrightarrow> length rest < length s"
proof -
  assume a: "lex_number s = Some (j, rest)"
  let ?s1 = "if s \<noteq> [] \<and> hd s = CHR ''-'' then tl s else s"
  from a obtain fp s2 ex where ip: "int_part ?s1 \<noteq> []"
    and "frac_part (drop (length (int_part ?s1)) ?s1) = Some (fp, s2)" "exp_part s2 = Some (ex, rest)"
    by (auto simp: lex_number_def Let_def split: if_splits option.splits)
  then have "length rest \<le> length (drop (length (int_part ?s1)) ?s1)"
    using order_trans [OF exp_part_length frac_part_length] by blast
  moreover have "0 < length (int_part ?s1)" "length (int_part ?s1) \<le> length ?s1" "length ?s1 \<le> length s"
    using ip int_part_length [of ?s1] by auto
  ultimately show ?thesis unfolding length_drop by linarith
qed

function lex :: "string \<Rightarrow> json_token list option" where
  "lex [] = Some []"
| "lex (c # cs) =
     (if code_of c \<in> {32, 9, 10, 13} then lex cs
      else case punctuation c of
        Some t \<Rightarrow> map_option (Cons t) (lex cs)
      | None \<Rightarrow>
        if code_of c = 34 then
          (case lex_string cs of
             None \<Rightarrow> None
           | Some (s, rest) \<Rightarrow> map_option (Cons (TokScalar (JStr s))) (lex rest))
        else if c = CHR ''-'' \<or> is_digit c then
          (case lex_number (c # cs) of
             None \<Rightarrow> None
           | Some (j, rest) \<Rightarrow> map_option (Cons (TokScalar j)) (lex rest))
        else
          (case literal_word (c # cs) of
             None \<Rightarrow> None
           | Some (j, n) \<Rightarrow> map_option (Cons (TokScalar j)) (lex (drop (n - 1) cs))))"
  by pat_completeness auto
termination
  by (relation "measure length") (auto dest: lex_string_shorter lex_number_shorter)

subsection \<open>Documents\<close>

text \<open>
  The automaton: what it waits for, and the arrays, objects and members it is inside of,
  innermost first (their elements in reverse).
\<close>

datatype json_frame =
    FrameArr "json list"
  | FrameObj "(string \<times> json) list"
  | FrameKey "(string \<times> json) list" string

datatype json_mode =
    WantValue
  | WantFirst
  | WantKey bool
  | WantColon
  | HaveValue json

definition maxNestingDepth :: nat where
  "maxNestingDepth = 10000"

definition open_frame :: "json_mode \<Rightarrow> json_frame \<Rightarrow> json_frame list \<Rightarrow> (json_mode \<times> json_frame list) option" where
  "open_frame m f st = (if length st < maxNestingDepth then Some (m, f # st) else None)"

fun json_step :: "json_token \<Rightarrow> json_mode \<Rightarrow> json_frame list \<Rightarrow> (json_mode \<times> json_frame list) option" where
  "json_step (TokScalar j) WantValue st = Some (HaveValue j, st)"
| "json_step TokOpenArr WantValue st = open_frame WantFirst (FrameArr []) st"
| "json_step TokOpenObj WantValue st = open_frame (WantKey True) (FrameObj []) st"
| "json_step (TokScalar j) WantFirst st = Some (HaveValue j, st)"
| "json_step TokOpenArr WantFirst st = open_frame WantFirst (FrameArr []) st"
| "json_step TokOpenObj WantFirst st = open_frame (WantKey True) (FrameObj []) st"
| "json_step TokCloseArr WantFirst (FrameArr _ # st) = Some (HaveValue (JArr []), st)"
| "json_step (TokScalar (JStr k)) (WantKey _) (FrameObj ms # st) = Some (WantColon, FrameKey ms k # st)"
| "json_step TokCloseObj (WantKey True) (FrameObj _ # st) = Some (HaveValue (JObj []), st)"
| "json_step TokColon WantColon st = Some (WantValue, st)"
| "json_step TokComma (HaveValue v) (FrameArr vs # st) = Some (WantValue, FrameArr (v # vs) # st)"
| "json_step TokCloseArr (HaveValue v) (FrameArr vs # st) = Some (HaveValue (JArr (rev (v # vs))), st)"
| "json_step TokComma (HaveValue v) (FrameKey ms k # st) = Some (WantKey False, FrameObj ((k, v) # ms) # st)"
| "json_step TokCloseObj (HaveValue v) (FrameKey ms k # st) = Some (HaveValue (JObj (rev ((k, v) # ms))), st)"
| "json_step _ _ _ = None"

fun json_run :: "json_token list \<Rightarrow> json_mode \<Rightarrow> json_frame list \<Rightarrow> json option" where
  "json_run [] (HaveValue v) [] = Some v"
| "json_run [] _ _ = None"
| "json_run (t # ts) m st =
     (case json_step t m st of None \<Rightarrow> None | Some (m', st') \<Rightarrow> json_run ts m' st')"

definition parse_json :: "string \<Rightarrow> raw_message" where
  "parse_json s = (case lex s of None \<Rightarrow> None | Some ts \<Rightarrow> json_run ts WantValue [])"

subsection \<open>String literals\<close>

lemma code_of_char_of [simp]: "n < 256 \<Longrightarrow> code_of (char_of n) = n"
  by (simp add: code_of_def of_char_of)

lemma char_of_code_of [simp]: "char_of (code_of c) = c"
  by (simp add: code_of_def)

lemma of_char_eq: "(of_char c :: nat) = n \<Longrightarrow> c = char_of n"
  by (metis char_of_code_of code_of_def)

lemma ascii_chars [simp]: "char_of (34 :: nat) = CHR 0x22" "char_of (48 :: nat) = CHR ''0''"
  "char_of (92 :: nat) = CHR 0x5C"
  "code_of (CHR 0x22) = 34" "code_of (CHR 0x5C) = 92"
  by code_simp+

lemma code_of_less [simp]: "code_of c < 256"
  by (simp add: code_of_def)

lemma hex_value_digit: "d < 10 \<Longrightarrow> hex_value (char_of (48 + d)) = Some d"
  by (simp add: hex_value_def)

lemma hex_value_letter: "10 \<le> d \<Longrightarrow> d < 16 \<Longrightarrow> hex_value (char_of (87 + d)) = Some d"
  by (simp add: hex_value_def)

lemma lex_string_end: "lex_string (CHR 0x22 # rest) = Some ([], rest)"
  by simp

lemma lex_string_plain:
  "code_of c \<noteq> 34 \<Longrightarrow> 32 \<le> code_of c \<Longrightarrow> code_of c \<noteq> 92 \<Longrightarrow>
   lex_string (c # cs) = prepend [c] (lex_string cs)"
  by simp

lemma lex_string_escape:
  "simple_escape e = Some d \<Longrightarrow> lex_string (CHR 0x5C # e # ds) = prepend [d] (lex_string ds)"
  by simp

lemma lex_string_hex:
  "hex4 [a, b, c, d] = Some u \<Longrightarrow> u < 55296 \<Longrightarrow>
   lex_string (CHR 0x5C # CHR ''u'' # a # b # c # d # ds) = prepend (utf8 u) (lex_string ds)"
  by (simp add: low_surrogate_def simple_escape_def code_of_def split: option.splits)

lemma render_char_escape:
  assumes "n \<in> {34, 92, 8, 12, 10, 13, 9 :: nat}"
  shows "\<exists>e. render_char (char_of n) = [CHR 0x5C, e] \<and> simple_escape e = Some (char_of n)"
  using assms by (auto simp: render_char_def Let_def simple_escape_def code_of_def)

lemma lex_string_render_char: "lex_string (render_char c @ t) = prepend [c] (lex_string t)"
proof -
  let ?n = "code_of c"
  have c: "(of_char c :: nat) = ?n" by (simp add: code_of_def)
  consider "?n \<in> {34, 92, 8, 12, 10, 13, 9}" | "?n \<notin> {34, 92, 8, 12, 10, 13, 9}" "?n < 32 \<or> ?n \<in> {38, 60, 62}"
    | "?n \<notin> {34, 92, 38, 60, 62}" "32 \<le> ?n" by force
  then show ?thesis
  proof cases
    case 1
    from render_char_escape [OF this] show ?thesis
      by (auto simp: lex_string_escape simp del: lex_string.simps)
  next
    case 2
    have zero: "hex_value (CHR ''0'') = Some 0"
      by (simp add: hex_value_def code_of_def)
    have high: "hex_value (char_of (48 + ?n div 16)) = Some (?n div 16)"
      using 2(2) by (intro hex_value_digit) auto
    have low: "hex_value (if ?n mod 16 < 10 then char_of (48 + ?n mod 16) else char_of (87 + ?n mod 16)) =
        Some (?n mod 16)"
      by (simp add: hex_value_digit hex_value_letter)
    have "hex4 [CHR ''0'', CHR ''0'', char_of (48 + ?n div 16),
        if ?n mod 16 < 10 then char_of (48 + ?n mod 16) else char_of (87 + ?n mod 16)] = Some ?n"
      by (simp only: hex4.simps zero high low) simp
    moreover have "utf8 ?n = [c]" "?n < 55296"
      using 2(2) by (auto simp: utf8_def)
    ultimately show ?thesis
      using 2 by (auto simp: render_char_def c Let_def lex_string_hex simp del: lex_string.simps)
  next
    case 3
    then show ?thesis
      by (auto simp: render_char_def c Let_def lex_string_plain simp del: lex_string.simps)
  qed
qed

lemma prepend_prepend: "prepend xs (prepend ys r) = prepend (xs @ ys) r"
  by (cases r) (auto simp: prepend_def)

lemma lex_string_render_chars: "lex_string (render_chars s @ CHR 0x22 # rest) = Some (s, rest)"
proof (induction s rule: render_chars.induct)
  case (1 a b c s)
  show ?case
  proof (cases "(of_char a :: nat) = 226 \<and> (of_char b :: nat) = 128 \<and> (of_char c :: nat) \<in> {168, 169}")
    case True
    then have abc: "a = char_of (226 :: nat)" "b = char_of (128 :: nat)" "c \<in> char_of ` {168, 169 :: nat}"
      by (auto dest!: of_char_eq)
    from True have "hex4 [CHR ''2'', CHR ''0'', CHR ''2'', char_of (of_char c - 112 :: nat)] =
        Some (8064 + of_char c)"
      by (auto simp: hex_value_def code_of_def)
    moreover have "utf8 (8064 + of_char c) = [a, b, c]"
      using True abc by (auto simp: utf8_def code_of_def)
    moreover have "8064 + (of_char c :: nat) < 55296" using True by auto
    ultimately show ?thesis
      using True 1(1) by (simp add: lex_string_hex prepend_def del: lex_string.simps)
  next
    case False
    have "render_chars (a # b # c # s) = render_char a @ render_chars (b # c # s)"
      by (simp only: render_chars.simps(1) [of a b c s] False if_False)
    then show ?thesis
      using 1(2) [OF False] by (simp add: lex_string_render_char prepend_def
        del: lex_string.simps render_chars.simps)
  qed
qed (auto simp: lex_string_render_char lex_string_end prepend_def simp del: lex_string.simps)

lemma lex_string_render: "lex (render_string s @ rest) = map_option (Cons (TokScalar (JStr s))) (lex rest)"
  by (simp add: render_string_def code_of_def lex_string_render_chars punctuation_def
    del: lex_string.simps)

subsection \<open>Numbers\<close>

definition number_ends :: "string \<Rightarrow> bool" where
  "number_ends s \<longleftrightarrow> (s = [] \<or> hd s \<in> {CHR '','', CHR '']'', CHR ''}''})"

lemma nat_digits_is_digit: "c \<in> set (nat_digits n) \<Longrightarrow> is_digit c"
  using nat_digits_chars by (simp add: is_digit_def code_of_def)

lemma is_digit_stop: "\<not> is_digit (CHR '','')" "\<not> is_digit (CHR '']'')" "\<not> is_digit (CHR ''}'')"
  by (simp_all add: is_digit_def code_of_def)

lemma takeWhile_digits: "number_ends rest \<Longrightarrow> takeWhile is_digit (nat_digits n @ rest) = nat_digits n"
  using nat_digits_is_digit [of _ n]
  by (cases rest) (auto simp: number_ends_def is_digit_stop takeWhile_append2)

lemma nat_digits_zero: "hd (nat_digits n) = CHR ''0'' \<Longrightarrow> nat_digits n = [CHR ''0'']"
proof (induction n rule: nat_digits.induct)
  case (1 n)
  show ?case
  proof (cases "n < 10")
    case True
    have "of_char (hd (nat_digits n)) = 48 + n"
      using True by (simp add: nat_digits.simps [of n] of_char_digit)
    with 1(2) True show ?thesis by (simp add: nat_digits.simps [of 0] digit_char_def)
  next
    case False
    with 1(2) have "hd (nat_digits (n div 10)) = CHR ''0''"
      by (simp add: nat_digits.simps [of n])
    from 1(1) [OF False this] have "digits_value (nat_digits (n div 10)) = 0"
      by (simp add: digits_value_def)
    with False show ?thesis by simp
  qed
qed

lemma int_part_digits: "number_ends rest \<Longrightarrow> int_part (nat_digits n @ rest) = nat_digits n"
proof -
  assume ends: "number_ends rest"
  obtain c cs where d: "nat_digits n = c # cs" by (cases "nat_digits n") auto
  show ?thesis
  proof (cases "c = CHR ''0''")
    case True
    with nat_digits_zero [of n] d show ?thesis by (simp add: int_part_def)
  next
    case False
    with takeWhile_digits [OF ends, of n] d show ?thesis by (simp add: int_part_def)
  qed
qed

lemma lex_number_itoa: "number_ends rest \<Longrightarrow> lex_number (itoa i @ rest) = Some (JInt i, rest)"
proof -
  assume ends: "number_ends rest"
  then have "frac_part rest = Some ([], rest)" "exp_part rest = Some (None, rest)"
    by (cases rest; auto simp: number_ends_def frac_part_def exp_part_def)+
  moreover have "hd (nat_digits n @ rest) \<noteq> CHR ''-''" for n
    using hd_nat_digits by simp
  ultimately show ?thesis
    using ends by (simp add: itoa_def lex_number_def int_part_digits number_value_def)
qed

lemma number_start:
  assumes "c = CHR ''-'' \<or> is_digit c"
  shows "code_of c \<notin> {32, 9, 10, 13, 34}" and "punctuation c = None"
proof -
  have n: "code_of c = 45 \<or> 48 \<le> code_of c \<and> code_of c \<le> 57"
    using assms by (auto simp: is_digit_def code_of_def)
  then show "code_of c \<notin> {32, 9, 10, 13, 34}" by auto
  have "code_of (CHR ''['') = 91" "code_of (CHR '']'') = 93" "code_of (CHR ''{'') = 123"
    "code_of (CHR ''}'') = 125" "code_of (CHR '':'') = 58" "code_of (CHR '','') = 44"
    by (simp_all add: code_of_def)
  with n have "c \<notin> {CHR ''['', CHR '']'', CHR ''{'', CHR ''}'', CHR '':'', CHR '',''}"
    by auto
  then show "punctuation c = None"
    by (simp add: punctuation_def)
qed

lemma lex_itoa: "number_ends rest \<Longrightarrow>
  lex (itoa i @ rest) = map_option (Cons (TokScalar (JInt i))) (lex rest)"
proof -
  assume ends: "number_ends rest"
  obtain c cs where d: "itoa i = c # cs"
    by (cases "itoa i") (auto simp: itoa_def split: if_splits)
  have "is_digit c" if "nat_digits (nat i) = c # cs"
    using nat_digits_is_digit [of c "nat i"] that by simp
  with d have "c = CHR ''-'' \<or> is_digit c"
    by (auto simp: itoa_def split: if_splits)
  moreover have "code_of c \<notin> {32, 9, 10, 13, 34}" "punctuation c = None"
    using number_start calculation by auto
  ultimately show ?thesis
    using lex_number_itoa [OF ends, of i] by (simp add: d del: lex_string.simps)
qed

text \<open>A fraction in lowest terms, in each of its three forms.\<close>

lemma digits_value_zeros: "digits_value (replicate n (CHR ''0'') @ ds) = digits_value ds"
  by (induction n) (simp_all add: digits_value_def)

lemma frac_part_digits:
  assumes "\<And>c. c \<in> set ds \<Longrightarrow> is_digit c" and "ds \<noteq> []" and "rest = [] \<or> \<not> is_digit (hd rest)"
  shows "frac_part (CHR ''.'' # ds @ rest) = Some (ds, rest)"
proof -
  have "takeWhile is_digit (ds @ rest) = ds"
    using assms by (cases rest) (auto simp: takeWhile_append2)
  with assms(2) show ?thesis by (simp add: frac_part_def)
qed

lemma number_ends_stop: "number_ends rest \<Longrightarrow> rest = [] \<or> \<not> is_digit (hd rest)"
  by (cases rest) (auto simp: number_ends_def is_digit_stop)

lemma exp_part_end: "number_ends rest \<Longrightarrow> exp_part rest = Some (None, rest)"
  by (cases rest) (auto simp: number_ends_def exp_part_def)

lemma exp_part_minus:
  "number_ends rest \<Longrightarrow> exp_part (''e-'' @ nat_digits e @ rest) = Some (Some (- int e), rest)"
  by (simp add: exp_part_def takeWhile_digits)

lemma int_part_front:
  assumes "\<And>c. c \<in> set ip \<Longrightarrow> is_digit c" and "ip \<noteq> []" and "ip = [CHR ''0''] \<or> hd ip \<noteq> CHR ''0''"
    and "t = [] \<or> \<not> is_digit (hd t)"
  shows "int_part (ip @ t) = ip"
proof (cases "ip = [CHR ''0'']")
  case False
  with assms(3) have "hd ip \<noteq> CHR ''0''" by blast
  moreover have "takeWhile is_digit (ip @ t) = ip"
    using assms(1,4) by (cases t) (auto simp: takeWhile_append2)
  ultimately show ?thesis using assms(2) by (cases ip) (auto simp: int_part_def)
qed (simp add: int_part_def)

definition minus_if :: "bool \<Rightarrow> string" where
  "minus_if neg = (if neg then [CHR ''-''] else [])"

lemma lex_number_parts:
  assumes ip: "\<And>c. c \<in> set ip \<Longrightarrow> is_digit c" "ip \<noteq> []" "ip = [CHR ''0''] \<or> hd ip \<noteq> CHR ''0''"
    and t: "t = [] \<or> \<not> is_digit (hd t)"
    and "frac_part t = Some (fp, s2)" and "exp_part s2 = Some (ex, s3)"
  shows "lex_number (minus_if neg @ ip @ t) = Some (number_value neg ip fp ex, s3)"
proof -
  have "hd ip \<noteq> CHR ''-''" using ip(1) [of "hd ip"] ip(2) by (auto simp: is_digit_def code_of_def)
  with assms(5,6) int_part_front [OF ip t] ip(2) show ?thesis
    by (auto simp: lex_number_def minus_if_def)
qed

lemma lex_number_dec:
  assumes ends: "number_ends rest" and "0 < k" and "m mod 10 \<noteq> 0"
  shows "lex_number (render_dec m k @ rest) = Some (JDec m k, rest)"
proof -
  define ds where "ds = nat_digits (nat \<bar>m\<bar>)"
  define n where "n = length ds"
  have m: "m \<noteq> 0" using assms(3) by auto
  have digits: "is_digit c" if "c \<in> set ds" for c using that nat_digits_is_digit by (simp add: ds_def)
  have ne: "ds \<noteq> []" by (simp add: ds_def)
  have "hd ds \<noteq> CHR ''0''"
  proof
    assume "hd ds = CHR ''0''"
    then have "ds = [CHR ''0'']" using nat_digits_zero by (simp add: ds_def)
    then have "digits_value ds = 0" by (simp add: digits_value_def)
    with m show False by (simp add: ds_def)
  qed
  note lead = this
  have val: "digits_value ds = nat \<bar>m\<bar>" by (simp add: ds_def)
  have signed: "(if m < 0 then - 1 else 1) * int (nat \<bar>m\<bar>) = m" by auto
  have dot: "CHR ''.'' # x = [] \<or> \<not> is_digit (hd (CHR ''.'' # x))"
    "''e-'' @ x = [] \<or> \<not> is_digit (hd (''e-'' @ x))" for x
    by (simp_all add: is_digit_def code_of_def)
  have zero: "is_digit (CHR ''0'')" by (simp add: is_digit_def code_of_def)
  have sign: "(if m < 0 then ''-'' else []) = minus_if (m < 0)" by (simp add: minus_if_def)
  consider (point) "k < n" | (small) "\<not> k < n" "k - n < 6" | (exponent) "\<not> k < n" "\<not> k - n < 6" by blast
  then show ?thesis
  proof cases
    case point
    let ?ip = "take (n - k) ds" and ?fp = "drop (n - k) ds"
    have "?ip \<noteq> []" "hd ?ip = hd ds" "?fp \<noteq> []" "length ?fp = k"
      using point ne assms(2) by (auto simp: n_def hd_take)
    moreover have "frac_part (CHR ''.'' # ?fp @ rest) = Some (?fp, rest)"
      using digits calculation number_ends_stop [OF ends] by (intro frac_part_digits) (auto dest: in_set_dropD)
    ultimately have "lex_number (minus_if (m < 0) @ ?ip @ CHR ''.'' # ?fp @ rest) =
        Some (number_value (m < 0) ?ip ?fp None, rest)"
      using digits lead dot(1) [of "?fp @ rest"] exp_part_end [OF ends]
      by (intro lex_number_parts) (auto dest: in_set_takeD)
    moreover have "number_value (m < 0) ?ip ?fp None = JDec m k"
      using \<open>?fp \<noteq> []\<close> \<open>length ?fp = k\<close> signed by (simp add: number_value_def val)
    ultimately show ?thesis
      using point assms(2) by (simp add: render_dec_def Let_def ds_def [symmetric] n_def [symmetric] sign)
  next
    case small
    let ?fp = "replicate (k - n) (CHR ''0'') @ ds"
    have "length ?fp = k" using small by (simp add: n_def)
    moreover have "frac_part (CHR ''.'' # ?fp @ rest) = Some (?fp, rest)"
      using digits zero ne number_ends_stop [OF ends] by (intro frac_part_digits) auto
    then have "lex_number (minus_if (m < 0) @ ''0'' @ CHR ''.'' # ?fp @ rest) =
        Some (number_value (m < 0) ''0'' ?fp None, rest)"
      using dot(1) exp_part_end [OF ends] zero by (intro lex_number_parts) auto
    moreover have "digits_value (''0'' @ ?fp) = nat \<bar>m\<bar>"
      using digits_value_zeros [of "Suc (k - n)" ds] val by simp
    then have "number_value (m < 0) ''0'' ?fp None = JDec m k"
      using \<open>length ?fp = k\<close> signed ne by (simp add: number_value_def)
    ultimately show ?thesis
      using small assms(2) by (simp add: render_dec_def Let_def ds_def [symmetric] n_def [symmetric] sign)
  next
    case exponent
    let ?t = "(if tl ds = [] then [] else CHR ''.'' # tl ds) @ ''e-'' @ nat_digits (k - n + 1) @ rest"
    have cons: "ds = hd ds # tl ds" using ne by simp
    have "frac_part ?t = Some (tl ds, ''e-'' @ nat_digits (k - n + 1) @ rest)"
    proof (cases "tl ds = []")
      case False
      then show ?thesis
        using digits ne dot(2) [of "nat_digits (k - n + 1) @ rest"]
          frac_part_digits [of "tl ds" "''e-'' @ nat_digits (k - n + 1) @ rest"]
        by (auto dest: list.set_sel(2))
    qed (simp add: frac_part_def)
    moreover have "?t = [] \<or> \<not> is_digit (hd ?t)" using dot by auto
    ultimately have "lex_number (minus_if (m < 0) @ [hd ds] @ ?t) =
        Some (number_value (m < 0) [hd ds] (tl ds) (Some (- int (k - n + 1))), rest)"
      using digits lead ne exp_part_minus [OF ends] by (intro lex_number_parts) auto
    moreover have "number_value (m < 0) [hd ds] (tl ds) (Some (- int (k - n + 1))) = JDec m k"
    proof -
      have "length (tl ds) + (k - n + 1) = k" using exponent ne by (cases ds) (auto simp: n_def)
      then have "int (length (tl ds)) - (- int (k - n + 1)) = int k" by linarith
      moreover have "digits_value ([hd ds] @ tl ds) = nat \<bar>m\<bar>" using cons val by simp
      ultimately show ?thesis using signed by (simp add: number_value_def)
    qed
    moreover have "render_dec m k @ rest = minus_if (m < 0) @ [hd ds] @ ?t"
      using exponent assms(2) by (auto simp: render_dec_def Let_def ds_def [symmetric] n_def [symmetric] minus_if_def)
    ultimately show ?thesis by simp
  qed
qed

lemma lex_dec:
  assumes "number_ends rest" and "0 < k" and "m mod 10 \<noteq> 0"
  shows "lex (render_dec m k @ rest) = map_option (Cons (TokScalar (JDec m k))) (lex rest)"
proof -
  have "render_dec m k \<noteq> [] \<and> (hd (render_dec m k) = CHR ''-'' \<or> is_digit (hd (render_dec m k)))"
  proof -
    have "is_digit (hd (nat_digits n))" "is_digit (CHR ''0'')" for n
      using nat_digits_is_digit [of "hd (nat_digits n)" n] by (simp_all add: is_digit_def code_of_def)
    then show ?thesis
      using assms(2) by (auto simp: render_dec_def Let_def hd_append hd_take)
  qed
  then obtain c cs where d: "render_dec m k = c # cs" and "c = CHR ''-'' \<or> is_digit c"
    by (cases "render_dec m k") auto
  moreover have "code_of c \<notin> {32, 9, 10, 13, 34}" "punctuation c = None"
    using number_start calculation(2) by auto
  ultimately show ?thesis
    using lex_number_dec [OF assms] by (simp add: d del: lex_string.simps)
qed

subsection \<open>What is written is read back\<close>

fun with_commas :: "json_token list list \<Rightarrow> json_token list" where
  "with_commas [] = []"
| "with_commas [ts] = ts"
| "with_commas (ts # us # tss) = ts @ TokComma # with_commas (us # tss)"

fun tokens :: "json \<Rightarrow> json_token list" where
  "tokens (JArr js) = TokOpenArr # with_commas (map tokens js) @ [TokCloseArr]"
| "tokens (JObj ms) = TokOpenObj #
     with_commas (map (\<lambda>p. TokScalar (JStr (fst p)) # TokColon # tokens (snd p)) ms) @ [TokCloseObj]"
| "tokens j = [TokScalar j]"

text \<open>
  Documents whose fractions are in lowest terms, as \<open>json.Unmarshal\<close> leaves them, and documents
  without fractions; at most 10000 deep.
\<close>

fun writable :: "json \<Rightarrow> bool" where
  "writable (JDec m k) \<longleftrightarrow> 0 < k \<and> m mod 10 \<noteq> 0"
| "writable (JArr js) \<longleftrightarrow> list_all writable js"
| "writable (JObj ms) \<longleftrightarrow> list_all (\<lambda>p. writable (snd p)) ms"
| "writable j \<longleftrightarrow> True"

fun integral :: "json \<Rightarrow> bool" where
  "integral (JDec m k) = False"
| "integral (JArr js) = list_all integral js"
| "integral (JObj ms) = list_all (\<lambda>p. integral (snd p)) ms"
| "integral j = True"

lemma integral_writable: "integral j \<Longrightarrow> writable j"
  by (induction j rule: integral.induct) (auto simp: list_all_iff)

fun json_depth :: "json \<Rightarrow> nat" where
  "json_depth (JArr js) = Suc (foldr (\<lambda>j. max (json_depth j)) js 0)"
| "json_depth (JObj ms) = Suc (foldr (\<lambda>p. max (json_depth (snd p))) ms 0)"
| "json_depth j = 0"

lemma option_map_Cons_comp: "map_option (Cons t) (map_option ((@) ts) r) = map_option ((@) (t # ts)) r"
  by (cases r) auto

lemma option_map_append_comp: "map_option ((@) us) (map_option ((@) ts) r) = map_option ((@) (us @ ts)) r"
  by (cases r) auto

lemma option_map_append_Cons: "map_option ((@) us) (map_option (Cons t) r) = map_option ((@) (us @ [t])) r"
  by (cases r) auto

lemma lex_punctuation:
  "lex (CHR ''['' # s) = map_option (Cons TokOpenArr) (lex s)"
  "lex (CHR '']'' # s) = map_option (Cons TokCloseArr) (lex s)"
  "lex (CHR ''{'' # s) = map_option (Cons TokOpenObj) (lex s)"
  "lex (CHR ''}'' # s) = map_option (Cons TokCloseObj) (lex s)"
  "lex (CHR '':'' # s) = map_option (Cons TokColon) (lex s)"
  "lex (CHR '','' # s) = map_option (Cons TokComma) (lex s)"
  by (simp_all add: punctuation_def code_of_def)

lemma lex_words:
  "lex (''true'' @ s) = map_option (Cons (TokScalar (JBool True))) (lex s)"
  "lex (''false'' @ s) = map_option (Cons (TokScalar (JBool False))) (lex s)"
  "lex (''null'' @ s) = map_option (Cons (TokScalar JNull)) (lex s)"
  by (simp_all add: punctuation_def code_of_def is_digit_def literal_word_def)

lemma lex_joined:
  assumes "\<And>x rest. x \<in> set xs \<Longrightarrow> number_ends rest \<Longrightarrow>
      lex (f x @ rest) = map_option ((@) (g x)) (lex rest)"
    and "number_ends rest"
  shows "lex (Join (map f xs) '','' @ rest) = map_option ((@) (with_commas (map g xs))) (lex rest)"
  using assms
proof (induction xs rule: induct_list012)
  case 1
  then show ?case by (cases "lex rest") auto
next
  case (3 x y xs)
  have "number_ends (CHR '','' # Join (map f (y # xs)) '','' @ rest)"
    by (simp add: number_ends_def)
  then have "lex (Join (map f (x # y # xs)) '','' @ rest) =
      map_option ((@) (g x)) (lex (CHR '','' # Join (map f (y # xs)) '','' @ rest))"
    using 3(3) [of x] by simp
  also have "\<dots> = map_option ((@) (with_commas (map g (x # y # xs)))) (lex rest)"
    using 3(2) [OF 3(3) 3(4)] by (simp add: lex_punctuation option_map_Cons_comp option_map_append_comp
      del: lex.simps)
  finally show ?case .
qed auto

lemma lex_render:
  "writable j \<Longrightarrow> number_ends rest \<Longrightarrow> lex (render j @ rest) = map_option ((@) (tokens j)) (lex rest)"
proof (induction j arbitrary: rest rule: render.induct)
  case (6 js)
  have close: "number_ends (CHR '']'' # rest)" by (simp add: number_ends_def)
  have "lex (Join (map render js) '','' @ CHR '']'' # rest) =
      map_option ((@) (with_commas (map tokens js))) (lex (CHR '']'' # rest))"
    by (rule lex_joined [OF _ close]) (use 6 in \<open>auto simp: list_all_iff\<close>)
  then show ?case
    by (cases "lex rest") (simp_all add: lex_punctuation del: lex.simps)
next
  case (7 ms)
  have close: "number_ends (CHR ''}'' # rest)" by (simp add: number_ends_def)
  have "lex (Join (map (\<lambda>p. render_string (fst p) @ CHR '':'' # render (snd p)) ms) '','' @ CHR ''}'' # rest) =
      map_option ((@) (with_commas (map (\<lambda>p. TokScalar (JStr (fst p)) # TokColon # tokens (snd p)) ms)))
        (lex (CHR ''}'' # rest))"
    by (rule lex_joined [OF _ close])
      (use 7 in \<open>auto simp: list_all_iff lex_string_render lex_punctuation option_map_Cons_comp simp del: lex.simps\<close>)
  then show ?case
    by (cases "lex rest") (simp_all add: lex_punctuation del: lex.simps)
next
  case (3 i)
  then show ?case
    by (cases "lex rest") (simp_all add: lex_itoa del: lex.simps)
next
  case (4 m k)
  then show ?case
    by (cases "lex rest") (simp_all add: lex_dec del: lex.simps)
next
  case (5 s)
  then show ?case
    by (cases "lex rest") (simp_all add: lex_string_render del: lex.simps)
qed (use lex_words in \<open>auto simp del: lex.simps simp: map_option_case split: option.split\<close>)

lemma json_run_list:
  assumes "\<And>x m st ts. x \<in> set xs \<Longrightarrow> m \<in> {WantValue, WantFirst} \<Longrightarrow> length st \<le> d \<Longrightarrow>
      json_run (tokens x @ ts) m st = json_run ts (HaveValue x) st"
    and "length st < d" and "xs \<noteq> []" and "m \<in> {WantValue, WantFirst}"
  shows "json_run (with_commas (map tokens xs) @ TokCloseArr # ts) m (FrameArr acc # st) =
    json_run ts (HaveValue (JArr (rev acc @ xs))) st"
  using assms
proof (induction xs arbitrary: acc m rule: induct_list012)
  case (3 x y xs)
  have "json_run (with_commas (map tokens (y # xs)) @ TokCloseArr # ts) WantValue (FrameArr (x # acc) # st) =
      json_run ts (HaveValue (JArr (rev (x # acc) @ y # xs))) st"
    by (rule 3(2)) (use 3 in auto)
  with 3 show ?case by simp
qed auto

lemma json_run_members:
  assumes "\<And>p m st ts. p \<in> set ms \<Longrightarrow> m \<in> {WantValue, WantFirst} \<Longrightarrow> length st \<le> d \<Longrightarrow>
      json_run (tokens (snd p) @ ts) m st = json_run ts (HaveValue (snd p)) st"
    and "length st < d" and "ms \<noteq> []"
  shows "json_run (with_commas (map (\<lambda>p. TokScalar (JStr (fst p)) # TokColon # tokens (snd p)) ms)
      @ TokCloseObj # ts) (WantKey b) (FrameObj acc # st) =
    json_run ts (HaveValue (JObj (rev acc @ ms))) st"
  using assms
proof (induction ms arbitrary: acc b rule: induct_list012)
  case (3 p q ms)
  have "json_run (with_commas (map (\<lambda>p. TokScalar (JStr (fst p)) # TokColon # tokens (snd p)) (q # ms))
      @ TokCloseObj # ts) (WantKey False) (FrameObj ((fst p, snd p) # acc) # st) =
      json_run ts (HaveValue (JObj (rev ((fst p, snd p) # acc) @ q # ms))) st"
    by (rule 3(2)) (use 3 in auto)
  with 3 show ?case by simp
qed auto

lemma json_depth_member:
  "x \<in> set xs \<Longrightarrow> f x \<le> foldr (\<lambda>j. max (f j)) xs (0 :: nat)"
  by (induction xs) auto

lemma json_run_tokens:
  "json_depth j + length st \<le> maxNestingDepth \<Longrightarrow> m \<in> {WantValue, WantFirst} \<Longrightarrow>
   json_run (tokens j @ ts) m st = json_run ts (HaveValue j) st"
proof (induction j arbitrary: m st ts rule: tokens.induct)
  case (1 js)
  have member: "json_run (tokens x @ ts') m' st' = json_run ts' (HaveValue x) st'"
    if "x \<in> set js" "m' \<in> {WantValue, WantFirst}" "length st' \<le> Suc (length st)" for x m' st' ts'
    using 1(1) [OF that(1) _ that(2)] json_depth_member [OF that(1), of json_depth] 1(2) that(3) by simp
  have "json_run (with_commas (map tokens js) @ TokCloseArr # ts) WantFirst (FrameArr [] # st) =
      json_run ts (HaveValue (JArr js)) st"
  proof (cases "js = []")
    case False
    from json_run_list [OF member _ False, of "Suc (length st)" st WantFirst ts "[]"] show ?thesis by simp
  qed simp
  with 1(2,3) show ?case by (auto simp: open_frame_def)
next
  case (2 ms)
  have member: "json_run (tokens (snd p) @ ts') m' st' = json_run ts' (HaveValue (snd p)) st'"
    if "p \<in> set ms" "m' \<in> {WantValue, WantFirst}" "length st' \<le> Suc (length st)" for p m' st' ts'
    using 2(1) [OF that(1) _ that(2)] json_depth_member [OF that(1), of "\<lambda>p. json_depth (snd p)"] 2(2) that(3)
    by simp
  have "json_run (with_commas (map (\<lambda>p. TokScalar (JStr (fst p)) # TokColon # tokens (snd p)) ms)
      @ TokCloseObj # ts) (WantKey True) (FrameObj [] # st) = json_run ts (HaveValue (JObj ms)) st"
  proof (cases "ms = []")
    case False
    from json_run_members [OF member _ False, of "Suc (length st)" st ts True "[]"] show ?thesis by simp
  qed simp
  with 2(2,3) show ?case by (auto simp: open_frame_def)
qed auto

lemma parse_render_writable:
  assumes "writable j" and "json_depth j \<le> maxNestingDepth"
  shows "parse_json (render j) = Some j"
proof -
  have "lex (render j) = Some (tokens j)"
    using lex_render [OF assms(1), of "[]"] by (simp add: number_ends_def)
  then show ?thesis
    using json_run_tokens [of j "[]" WantValue "[]"] assms(2) by (simp add: parse_json_def)
qed

lemma parse_render:
  assumes "integral j" and "json_depth j \<le> maxNestingDepth"
  shows "parse_json (render j) = Some j"
  using parse_render_writable [OF integral_writable [OF assms(1)] assms(2)] .

end
