(* ===== verification/DslLaws.thy ===== *)
theory DslLaws
  imports DslValidation JsonText
begin

section \<open>Laws of documents and of the shared checks\<close>

subsection \<open>Documents in normal form\<close>

text \<open>
  What \<open>json.Unmarshal\<close> into an \<open>any\<close> followed by \<open>json.Marshal\<close> leaves alone: numbers in
  lowest terms, objects with distinct names in order.
\<close>

lemma distinct_sort_key: "distinct (map fst ms) \<Longrightarrow> distinct (map fst (sort_key fst ms))"
  by (simp add: distinct_map)

fun normal_json :: "json \<Rightarrow> bool" where
  "normal_json (JDec m k) \<longleftrightarrow> 0 < k \<and> m mod 10 \<noteq> 0"
| "normal_json (JArr js) \<longleftrightarrow> list_all normal_json js"
| "normal_json (JObj ms) \<longleftrightarrow>
     sorted (map fst ms) \<and> distinct (map fst ms) \<and> list_all (\<lambda>p. normal_json (snd p)) ms"
| "normal_json j \<longleftrightarrow> True"

lemma normal_writable: "normal_json j \<Longrightarrow> writable j"
  by (induction j rule: normal_json.induct) (auto simp: list_all_iff)

lemma normal_enc_f64: "f64_norm x \<Longrightarrow> normal_json (enc_f64 x)"
  by (auto simp: enc_f64_def f64_norm_def)

lemma map_members_values: "(k, v) \<in> set (map_members ms) \<Longrightarrow> v \<in> snd ` set ms"
proof -
  have "(k, v) \<in> set (fold (\<lambda>p m. assoc_put (fst p) (snd p) m) ms m) \<Longrightarrow> v \<in> snd ` set ms \<union> snd ` set m" for m
  proof (induction ms arbitrary: m)
    case Nil
    then show ?case by force
  next
    case (Cons p ms)
    from Cons.IH [of "assoc_put (fst p) (snd p) m"] Cons.prems
    have "v \<in> snd ` set ms \<union> snd ` set (assoc_put (fst p) (snd p) m)" by simp
    then show ?case by (auto simp: assoc_put_def split: if_splits)
  qed
  from this [of "[]"] show "(k, v) \<in> set (map_members ms) \<Longrightarrow> v \<in> snd ` set ms"
    by (simp add: map_members_def)
qed

lemma normal_anyval: "normal_json (anyval j)"
proof (induction j rule: anyval.induct)
  case (1 m k)
  then show ?case by (simp add: normal_enc_f64)
next
  case (2 js)
  then show ?case by (auto simp: list_all_iff)
next
  case (3 ms)
  let ?vs = "map_members (map (\<lambda>p. (fst p, anyval (snd p))) ms)"
  have "normal_json v" if "(k, v) \<in> set ?vs" for k v
    using map_members_values [OF that] 3 by auto
  moreover have "distinct (map fst (sort_key fst ?vs))"
    by (rule distinct_sort_key [OF distinct_map_members])
  ultimately show ?case by (auto simp: list_all_iff)
qed simp_all

lemma map_members_of_distinct: "distinct (map fst ms) \<Longrightarrow> map_members ms = ms"
proof -
  have "distinct (map fst (m @ ms)) \<Longrightarrow> fold (\<lambda>p m. assoc_put (fst p) (snd p) m) ms m = m @ ms" for m
  proof (induction ms arbitrary: m)
    case (Cons p ms)
    then have "assoc_put (fst p) (snd p) m = m @ [p]" by (auto simp: assoc_put_def)
    with Cons.IH [of "m @ [p]"] Cons.prems show ?case by simp
  qed simp
  from this [of "[]"] show "distinct (map fst ms) \<Longrightarrow> map_members ms = ms" by (simp add: map_members_def)
qed

lemma norm_dec_normal: "0 < k \<Longrightarrow> m mod 10 \<noteq> 0 \<Longrightarrow> norm_dec m k = (m, k)"
  by (cases k) auto

lemma sort_key_sorted: "sorted (map fst ms) \<Longrightarrow> sort_key fst ms = ms"
  by (simp add: sort_key_id_if_sorted)

lemma anyval_normal: "normal_json j \<Longrightarrow> anyval j = j"
proof (induction j rule: anyval.induct)
  case (1 m k)
  then show ?case by (simp add: norm_dec_normal enc_f64_def)
next
  case (2 js)
  then show ?case by (auto simp: list_all_iff intro: map_idI)
next
  case (3 ms)
  then have "map (\<lambda>p. (fst p, anyval (snd p))) ms = ms"
    by (auto simp: list_all_iff intro!: map_idI)
  with 3(2) show ?case by (simp add: map_members_of_distinct sort_key_sorted)
qed simp_all

lemma as_object_normal: "as_object raw = Some m \<Longrightarrow> normal_json (JObj m)"
proof -
  assume "as_object raw = Some m"
  then obtain j where "anyval j = JObj m"
    by (auto simp: as_object_def split: option.splits json.splits)
  then show "normal_json (JObj m)" using normal_anyval [of j] by simp
qed

lemma as_object_JObj: "normal_json (JObj m) \<Longrightarrow> as_object (Some (JObj m)) = Some m"
  by (simp add: as_object_def anyval_normal del: anyval.simps)

text \<open>A map written with \<open>marshal_map\<close> is determined by its lookups.\<close>

lemma map_of_sort: "distinct (map fst m) \<Longrightarrow> map_of (sort_key fst m) = map_of m"
  by (rule ext) (metis distinct_sort_key map_of_eq_Some_iff not_None_eq set_sort)

lemma marshal_map_cong:
  assumes "distinct (map fst m)" and "distinct (map fst m')" and "map_of m = map_of m'"
  shows "marshal_map m = marshal_map m'"
proof -
  have "set m = set m'"
    using assms by (metis map_of_inject_set)
  moreover have "inj_on fst (set m \<union> set m')"
    using assms(1) calculation by (simp add: distinct_map)
  ultimately have "sort_key fst m = sort_key fst m'"
    using assms(1,2)
    by (intro map_sorted_distinct_set_unique [where f = fst]) (simp_all add: distinct_sort_key)
  then show ?thesis by (simp add: marshal_map_def)
qed

lemma object_members_marshal [simp]: "object_members (marshal_map m) = sort_key fst m"
  by (simp add: marshal_map_def object_members_def)

lemma normal_marshal:
  assumes "distinct (map fst m)" and "\<And>k v. map_of m k = Some v \<Longrightarrow> normal_json v"
  shows "normal_json (marshal_map m)"
  using assms by (force simp: marshal_map_def distinct_sort_key list_all_iff)

lemma marshal_normal: "normal_json (JObj m) \<Longrightarrow> marshal_map m = JObj m"
  by (simp add: marshal_map_def sort_key_sorted)

lemma normal_member: "normal_json (JObj m) \<Longrightarrow> map_of m k = Some v \<Longrightarrow> normal_json v"
  by (auto simp: list_all_iff dest: map_of_SomeD)

lemma normal_distinct: "normal_json (JObj m) \<Longrightarrow> distinct (map fst m)"
  by simp

lemma put_same: "distinct (map fst m) \<Longrightarrow> map_of m k = Some v \<Longrightarrow> assoc_put k v m = m"
  
  by (auto simp: assoc_put_def intro!: map_idI dest: map_of_SomeD eq_key_imp_eq_value
    intro: rev_image_eqI)

lemma normal_put_same:
  "normal_json (JObj m) \<Longrightarrow> map_of m k = Some v \<Longrightarrow> marshal_map (assoc_put k v m) = JObj m"
  by (simp only: put_same [OF normal_distinct] marshal_normal)

text \<open>What of a map the checks look at.\<close>

lemma any_get_map_of: "map_of m = map_of m' \<Longrightarrow> any_get m k = any_get m' k"
  by (simp add: any_get_def)

lemma any_get_put [simp]: "any_get (assoc_put k v m) k' = (if k' = k then v else any_get m k')"
  by (simp add: any_get_def)

lemma any_get_del [simp]: "any_get (assoc_del k m) k' = (if k' = k then JNull else any_get m k')"
  by (simp add: any_get_def)

lemma exists_put [simp]: "exists_member (assoc_put k v m) k' \<longleftrightarrow> k' = k \<or> exists_member m k'"
  by (simp add: exists_member_def)

lemma any_get_sort [simp]: "distinct (map fst m) \<Longrightarrow> any_get (sort_key fst m) k = any_get m k"
  by (simp add: any_get_def map_of_sort)

lemma exists_sort [simp]: "distinct (map fst m) \<Longrightarrow> exists_member (sort_key fst m) k = exists_member m k"
  by (simp add: exists_member_def map_of_sort)

lemma exists_get: "any_get m k \<noteq> JNull \<Longrightarrow> exists_member m k"
  by (auto simp: any_get_def exists_member_def split: option.splits)

lemma rejectUnknownFields_sort [simp]:
  "rejectUnknownFields place (sort_key fst m) allowed = None \<longleftrightarrow> rejectUnknownFields place m allowed = None"
  by (simp add: rejectUnknownFields_None)

lemma first_error_from_map:
  "(\<And>i x. x \<in> set xs \<Longrightarrow> f i x = None \<Longrightarrow> f' i (g x) = None) \<Longrightarrow>
   first_error_from f i xs = None \<Longrightarrow> first_error_from f' i (map g xs) = None"
  by (induction xs arbitrary: i) (auto split: option.splits)

lemma first_error_from_in: "first_error_from f i xs = None \<Longrightarrow> x \<in> set xs \<Longrightarrow> \<exists>k. f k x = None"
  by (induction xs arbitrary: i) (auto split: option.splits)

end
