(* ===== verification/DslV2Laws.thy ===== *)
theory DslV2Laws
  imports DslLaws
begin

section \<open>Canonical cases of research-v2 are fixed points\<close>

subsection \<open>Defaults of conditions and steps\<close>

definition defaulted :: "json \<Rightarrow> json" where
  "defaulted j = (case j of JArr cs \<Rightarrow> JArr (map default_timeout cs) | _ \<Rightarrow> j)"

lemma default_timeout_idem: "normal_json j \<Longrightarrow> default_timeout (default_timeout j) = default_timeout j"
  by (cases j) (auto simp: default_timeout_def marshal_map_def exists_member_def
    map_of_sort distinct_assoc_put)

lemma default_timeout_normal:
  assumes "normal_json j"
  shows "normal_json (default_timeout j)"
proof (cases j)
  case (JObj c)
  then have "normal_json v" if "map_of (assoc_put ''timeout_ms'' (JInt 3000) c) k = Some v" for k v
    using that assms normal_member [of c k v] by (auto split: if_splits)
  then have "normal_json (marshal_map (assoc_put ''timeout_ms'' (JInt 3000) c))"
    using JObj assms by (intro normal_marshal distinct_assoc_put normal_distinct) simp_all
  with JObj assms show ?thesis by (simp add: default_timeout_def)
qed (use assms in \<open>simp_all add: default_timeout_def\<close>)

lemma defaulted_idem: "normal_json j \<Longrightarrow> defaulted (defaulted j) = defaulted j"
  by (cases j) (auto simp: defaulted_def list_all_iff default_timeout_idem)

lemma defaulted_normal: "normal_json j \<Longrightarrow> normal_json (defaulted j)"
  by (cases j) (auto simp: defaulted_def list_all_iff default_timeout_normal)

lemma default_timeouts_get:
  "any_get (default_timeouts field step) k = (if k = field then defaulted (any_get step k) else any_get step k)"
  by (auto simp: default_timeouts_def defaulted_def split: json.splits)

lemma default_timeouts_exists:
  "exists_member (default_timeouts field step) k \<longleftrightarrow> exists_member step k"
  by (auto simp: default_timeouts_def exists_get split: json.splits)

lemma default_timeouts_distinct:
  "distinct (map fst step) \<Longrightarrow> distinct (map fst (default_timeouts field step))"
  by (auto simp: default_timeouts_def distinct_assoc_put split: json.splits)

lemma exists_key: "exists_member m k \<longleftrightarrow> k \<in> fst ` set m"
  by (simp add: exists_member_def map_of_eq_None_iff)

definition waits_by_default :: "obj \<Rightarrow> bool" where
  "waits_by_default step \<longleftrightarrow> any_get step ''action'' = JStr ''wait_for'' \<and> \<not> exists_member step ''timeout_ms''"

lemma materialize_get:
  "any_get (materializeResearchV2Defaults step) k =
     (if k \<in> {''preconditions'', ''postconditions''} then defaulted (any_get step k)
      else if k = ''timeout_ms'' \<and> waits_by_default step then JInt 5000 else any_get step k)"
  by (simp add: materializeResearchV2Defaults_def Let_def default_timeouts_get default_timeouts_exists
    waits_by_default_def)

lemma materialize_exists:
  "exists_member (materializeResearchV2Defaults step) k \<longleftrightarrow>
     exists_member step k \<or> (k = ''timeout_ms'' \<and> waits_by_default step)"
  by (auto simp: materializeResearchV2Defaults_def Let_def default_timeouts_get default_timeouts_exists
    waits_by_default_def)

lemma materialize_distinct:
  "distinct (map fst step) \<Longrightarrow> distinct (map fst (materializeResearchV2Defaults step))"
  by (simp add: materializeResearchV2Defaults_def Let_def default_timeouts_distinct distinct_assoc_put)

lemma map_of_get: "map_of m k = (if exists_member m k then Some (any_get m k) else None)"
  by (simp add: exists_member_def any_get_def split: option.splits)

lemma normal_get: "normal_json (JObj m) \<Longrightarrow> normal_json (any_get m k)"
  using normal_member [of m k] by (auto simp: any_get_def split: option.splits simp del: normal_json.simps(3))

definition final_step :: "json \<Rightarrow> json" where
  "final_step s = marshal_map (materializeResearchV2Defaults (object_members s))"

lemma final_step_normal: "normal_json (JObj s) \<Longrightarrow> normal_json (final_step (JObj s))"
proof -
  assume s: "normal_json (JObj s)"
  have "normal_json v" if "map_of (materializeResearchV2Defaults s) k = Some v" for k v
    using that normal_get [OF s] defaulted_normal
    by (auto simp: map_of_get materialize_get split: if_splits)
  then have "normal_json (marshal_map (materializeResearchV2Defaults s))"
    using s by (intro normal_marshal materialize_distinct normal_distinct)
  then show ?thesis by (simp add: final_step_def object_members_def)
qed

lemma default_timeouts_same:
  assumes "distinct (map fst step)" and "defaulted (any_get step field) = any_get step field"
  shows "default_timeouts field step = step"
proof (cases "any_get step field")
  case (JArr cs)
  with assms(2) have "JArr (map default_timeout cs) = any_get step field" by (simp add: defaulted_def)
  moreover have "map_of step field = Some (any_get step field)"
    using JArr exists_get [of step field] by (simp add: map_of_get)
  ultimately show ?thesis using JArr assms(1) by (simp add: default_timeouts_def put_same)
qed (simp_all add: default_timeouts_def)

lemma materialize_same:
  assumes "normal_json (JObj s)"
  defines "s' \<equiv> sort_key fst (materializeResearchV2Defaults s)"
  shows "materializeResearchV2Defaults s' = s'"
proof -
  note d = materialize_distinct [OF normal_distinct [OF assms(1)]]
  have d': "distinct (map fst s')" using d by (simp add: s'_def distinct_sort_key)
  have get: "any_get s' k = any_get (materializeResearchV2Defaults s) k" for k
    using d by (simp add: s'_def)
  have ex: "exists_member s' k = exists_member (materializeResearchV2Defaults s) k" for k
    using d by (simp add: s'_def)
  have "default_timeouts ''preconditions'' s' = s'" "default_timeouts ''postconditions'' s' = s'"
    using d' defaulted_idem [OF normal_get [OF assms(1)]]
    by (simp_all add: default_timeouts_same get materialize_get)
  moreover have "\<not> (any_get s' ''action'' = JStr ''wait_for'' \<and> \<not> exists_member s' ''timeout_ms'')"
    by (auto simp: get ex materialize_get materialize_exists waits_by_default_def)
  ultimately show ?thesis by (auto simp: materializeResearchV2Defaults_def)
qed

lemma final_step_idem:
  assumes "normal_json (JObj s)"
  shows "final_step (final_step (JObj s)) = final_step (JObj s)"
proof -
  have "final_step (JObj s) = JObj (sort_key fst (materializeResearchV2Defaults s))"
    by (simp add: final_step_def marshal_map_def object_members_def)
  moreover have "sort_key fst (sort_key fst (materializeResearchV2Defaults s)) =
      sort_key fst (materializeResearchV2Defaults s)"
    by (simp add: sort_key_sorted)
  ultimately show ?thesis
    using materialize_same [OF assms] by (simp add: final_step_def marshal_map_def object_members_def)
qed

subsection \<open>The checks accept a step with its defaults\<close>

lemma default_condition_ok:
  assumes "normal_json c" and "validateCondition i f k c = None"
  shows "validateCondition i f k' (default_timeout c) = None"
proof -
  obtain m where c: "c = JObj m" using assms(2) by (cases c) (auto simp: validateCondition_def)
  show ?thesis
  proof (cases "exists_member m ''timeout_ms''")
    case True
    with assms(2) c show ?thesis
      by (simp add: validateCondition_def default_timeout_def Let_def split: json.splits)
  next
    case False
    with assms c show ?thesis
      by (simp add: validateCondition_def default_timeout_def Let_def marshal_map_def
        distinct_assoc_put optional_text_def number_between_def split: json.splits)
  qed
qed

lemma timeout_field: "''timeout_ms'' \<in> set conditionFields"
  by (simp add: conditionFields_def)

lemma default_conditions_ok:
  assumes "list_all normal_json cs" and "validateResearchConditions i f cs = None"
  shows "validateResearchConditions i f (map default_timeout cs) = None"
proof -
  let ?unknown = "\<lambda>index raw. case raw of
        JObj condition \<Rightarrow> rejectUnknownFields (AtCondition i f index) condition conditionFields
      | _ \<Rightarrow> Some (DslField (AtCondition i f index) [] NotObject)"
  have "first_error_from ?unknown 0 (map default_timeout cs) = None"
    using assms(2) unfolding validateResearchConditions_def checks_None
    by (intro first_error_from_map [where f = ?unknown])
      (auto simp: default_timeout_def marshal_map_def rejectUnknownFields_None timeout_field
        split: json.splits if_splits)
  moreover have "first_error_from (validateCondition i f) 0 (map default_timeout cs) = None"
    using assms unfolding validateResearchConditions_def validateConditions_def checks_None
    by (intro first_error_from_map [where f = "validateCondition i f"])
      (auto simp: list_all_iff intro: default_condition_ok)
  ultimately show ?thesis
    by (simp add: validateResearchConditions_def validateConditions_def)
qed

lemma unbound_default: "normal_json c \<Longrightarrow> unbound_condition i (default_timeout c) = unbound_condition i c"
  by (cases c) (auto simp: unbound_condition_def default_timeout_def marshal_map_def object_members_def
    distinct_assoc_put)

lemma lineage_exists:
  "(\<And>k. k \<noteq> ''timeout_ms'' \<Longrightarrow> exists_member s' k = exists_member s k) \<Longrightarrow> hasV2Lineage s' = hasV2Lineage s"
  by (simp add: hasV2Lineage_def lineageFields_def)

lemma text_checks_cong:
  assumes "any_get s' f = any_get s f"
  shows "requireBoundedText s' f i n = requireBoundedText s f i n"
    and "validRequiredEnum s' f allowed = validRequiredEnum s f allowed"
  using assms by (simp_all add: requireBoundedText_def validRequiredEnum_def)

lemma items_defaulted: "items (defaulted j) = map default_timeout (items j)"
  by (cases j) (auto simp: items_def defaulted_def)

lemma is_array_defaulted: "is_array (defaulted j) = is_array j"
  by (cases j) (auto simp: is_array_def defaulted_def)

lemma normal_items: "normal_json j \<Longrightarrow> list_all normal_json (items j)"
  by (cases j) (auto simp: items_def)

definition phase_fields :: "string \<Rightarrow> nat \<Rightarrow> string \<Rightarrow> obj \<Rightarrow> dsl_error option" where
  "phase_fields phase i action step =
     (if phase = ValidationPhaseDraft
      then first_error (\<lambda>field. fails_if (exists_member step field) (AddedByCompiler i field)) compilerFields
      else executable_checks i action step)"

lemma v2_step_iff:
  "validateResearchV2Step phase i s = None \<longleftrightarrow>
     any_string (any_get s ''action'') \<in> set supportedActions \<and>
     rejectUnknownFields (AtStep i) s v2StepFields = None \<and>
     requireBoundedText s ''plan_step_id'' i 64 = None \<and>
     requireBoundedText s ''intent'' i 500 = None \<and>
     requiredConditionArray i ''preconditions'' s = None \<and>
     requiredConditionArray i ''postconditions'' s = None \<and>
     validateResearchConditions i ''preconditions'' (items (any_get s ''preconditions'')) = None \<and>
     validateResearchConditions i ''postconditions'' (items (any_get s ''postconditions'')) = None \<and>
     first_error (unbound_condition i) (items (any_get s ''preconditions'') @
       items (any_get s ''postconditions'')) = None \<and>
     validRequiredEnum s ''idempotency'' idempotencies \<and>
     validRequiredEnum s ''side_effect'' sideEffects \<and>
     validateResearchV2ActionFields i (any_string (any_get s ''action'')) s = None \<and>
     action_semantics i (any_string (any_get s ''action'')) s (items (any_get s ''preconditions''))
       (items (any_get s ''postconditions'')) = None \<and>
     phase_fields phase i (any_string (any_get s ''action'')) s = None"
  unfolding validateResearchV2Step_def Let_def checks_None phase_fields_def by auto

lemma action_fields_default:
  assumes "validateResearchV2ActionFields i a s = None"
    and get: "\<And>k. k \<notin> {''preconditions'', ''postconditions'', ''timeout_ms''} \<Longrightarrow> any_get s' k = any_get s k"
    and "any_get s' ''timeout_ms'' = (if waits_by_default s then JInt 5000 else any_get s ''timeout_ms'')"
    and "exists_member s' ''timeout_ms'' \<longleftrightarrow> exists_member s ''timeout_ms'' \<or> waits_by_default s"
  shows "validateResearchV2ActionFields i a s' = None"
proof -
  have texts: "requireBoundedText s' f i n = requireBoundedText s f i n"
    if "f \<notin> {''preconditions'', ''postconditions'', ''timeout_ms''}" for f n
    using get [OF that] by (rule text_checks_cong)
  have timeout: "exists_member s' ''timeout_ms'' \<and> \<not> number_between 1 60000 (any_get s' ''timeout_ms'') \<longleftrightarrow>
      exists_member s ''timeout_ms'' \<and> \<not> number_between 1 60000 (any_get s ''timeout_ms'')"
    using assms(3,4) by (auto simp: number_between_def waits_by_default_def)
  have "validateResearchV2ActionFields i a s' = validateResearchV2ActionFields i a s"
    by (simp add: validateResearchV2ActionFields_def timeout texts get cong: if_cong)
  with assms(1) show ?thesis by simp
qed

lemma v2_step_with_defaults_ok:
  assumes s: "normal_json (JObj s)" and ok: "validateResearchV2Step phase i s = None"
  defines "s' \<equiv> sort_key fst (materializeResearchV2Defaults s)"
  shows "validateResearchV2Step phase i s' = None"
proof -
  note d = materialize_distinct [OF normal_distinct [OF s]]
  have get: "any_get s' k = (if k \<in> {''preconditions'', ''postconditions''} then defaulted (any_get s k)
      else if k = ''timeout_ms'' \<and> waits_by_default s then JInt 5000 else any_get s k)" for k
    using d by (simp add: s'_def materialize_get)
  have ex: "exists_member s' k \<longleftrightarrow> exists_member s k \<or> (k = ''timeout_ms'' \<and> waits_by_default s)" for k
    using d by (simp add: s'_def materialize_exists)
  have lin: "hasV2Lineage s' = hasV2Lineage s" by (rule lineage_exists) (simp add: ex)
  have norm: "list_all normal_json (items (any_get s k))" for k
    by (rule normal_items [OF normal_get [OF s]])
  have unknown: "rejectUnknownFields (AtStep i) s' v2StepFields = None"
    using ok by (auto simp: validateResearchV2Step_def Let_def rejectUnknownFields_None exists_key [symmetric]
      ex subset_iff) (simp add: v2StepFields_def)
  have arrays: "requiredConditionArray i f s' = requiredConditionArray i f s"
    if "f \<in> {''preconditions'', ''postconditions''}" for f
    using that by (auto simp: requiredConditionArray_def map_of_get ex get is_array_defaulted)
  have items': "items (any_get s' f) = map default_timeout (items (any_get s f))"
    if "f \<in> {''preconditions'', ''postconditions''}" for f
    using that by (auto simp: get items_defaulted)
  have conditions: "validateResearchConditions i f (items (any_get s' f)) = None"
    if "f \<in> {''preconditions'', ''postconditions''}" for f
    using that ok default_conditions_ok [OF norm, of i f] items' [OF that]
    by (auto simp: validateResearchV2Step_def Let_def)
  have unbound: "first_error (unbound_condition i) (items (any_get s' ''preconditions'') @
      items (any_get s' ''postconditions'')) = None"
    using ok norm by (auto simp: validateResearchV2Step_def Let_def items' list_all_iff unbound_default)
  have semantics: "action_semantics i a s' (items (any_get s' ''preconditions''))
      (items (any_get s' ''postconditions'')) =
    action_semantics i a s (items (any_get s ''preconditions'')) (items (any_get s ''postconditions''))" for a
    by (simp add: action_semantics_def get items_defaulted)
  have act: "any_get s' ''action'' = any_get s ''action''" by (simp add: get)
  have "validateResearchV2ActionFields i (any_string (any_get s ''action'')) s = None"
    using ok by (simp add: validateResearchV2Step_def Let_def)
  then have fields': "validateResearchV2ActionFields i (any_string (any_get s ''action'')) s' = None"
    by (rule action_fields_default) (simp_all add: get ex)
  have texts: "requireBoundedText s' f i n = requireBoundedText s f i n"
    "validRequiredEnum s' f allowed = validRequiredEnum s f allowed"
    if "f \<notin> {''preconditions'', ''postconditions'', ''timeout_ms''}" for f n allowed
    using that by (auto intro!: text_checks_cong simp: get)
  have "executable_checks i a s' = executable_checks i a s" for a
    by (simp add: executable_checks_def lineage_checks_def lin texts get cong: if_cong)
  moreover have "first_error (\<lambda>f. fails_if (exists_member s' f) (AddedByCompiler i f)) compilerFields =
      first_error (\<lambda>f. fails_if (exists_member s f) (AddedByCompiler i f)) compilerFields"
    by (simp add: compilerFields_def ex cong: option.case_cong)
  ultimately have phase: "phase_fields phase i a s' = phase_fields phase i a s" for a
    by (simp only: phase_fields_def)
  have kept: "any_string (any_get s ''action'') \<in> set supportedActions"
    "requireBoundedText s ''plan_step_id'' i 64 = None" "requireBoundedText s ''intent'' i 500 = None"
    "requiredConditionArray i ''preconditions'' s = None" "requiredConditionArray i ''postconditions'' s = None"
    "validRequiredEnum s ''idempotency'' idempotencies" "validRequiredEnum s ''side_effect'' sideEffects"
    "action_semantics i (any_string (any_get s ''action'')) s (items (any_get s ''preconditions''))
       (items (any_get s ''postconditions'')) = None"
    "phase_fields phase i (any_string (any_get s ''action'')) s = None"
    using ok unfolding v2_step_iff by - (elim conjE, assumption)+
  show ?thesis
    unfolding v2_step_iff act semantics phase
    by (intro conjI unknown conditions unbound fields' kept; simp add: texts arrays kept)
qed

subsection \<open>The case\<close>

lemma check_heading_cong:
  assumes "case_name m' = case_name m" and "any_get m' ''description'' = any_get m ''description''"
    and "any_get m' ''base_url'' = any_get m ''base_url''"
  shows "check_heading m' = check_heading m"
  using assms by (simp add: check_heading_def validateOptionalText_def)

lemma default_contracts_get:
  "map_of (with_default_contracts m) k =
     (if k = ''name'' then Some (JStr (case_name m))
      else if k \<in> {''input_contract'', ''output_contract''} \<and> map_of m k = None then Some (JArr [])
      else map_of m k)"
  by (auto simp: with_default_contracts_def exists_member_def Let_def)

lemma default_contracts_distinct:
  "distinct (map fst m) \<Longrightarrow> distinct (map fst (with_default_contracts m))"
  by (simp add: with_default_contracts_def Let_def distinct_assoc_put)

lemma empty_contracts_ok: "validateResearchContracts field [] = None" "validateContracts field [] = None"
  by (simp_all add: validateResearchContracts_def validateContracts_def)

lemma check_contracts_default:
  assumes "map_of m' field = (if map_of m field = None then Some (JArr []) else map_of m field)"
    and "validate field [] = None"
  shows "check_contracts validate m' field = None \<longleftrightarrow> check_contracts validate m field = None"
  using assms by (auto simp: check_contracts_def split: option.splits json.splits)

lemma check_steps_iff:
  "check_steps f m = None \<longleftrightarrow> (\<exists>ss. any_get m ''steps'' = JArr ss \<and> ss \<noteq> [] \<and> first_error_from f 0 ss = None)"
proof (cases "any_get m ''steps''")
  case (JArr ss)
  then show ?thesis by (cases ss) (simp_all add: check_steps_def)
qed (simp_all add: check_steps_def)

lemma object_step_ok: "object_step f i raw = None \<longleftrightarrow> (\<exists>s. raw = JObj s \<and> f i s = None)"
  by (cases raw) (simp_all add: object_step_def)

lemma steps_are_objects:
  "first_error_from (object_step f) i ss = None \<Longrightarrow> x \<in> set ss \<Longrightarrow> \<exists>s. x = JObj s"
  by (induction ss arbitrary: i) (auto simp: object_step_ok split: option.splits)

lemma case_name_put: "any_get m' ''name'' = JStr (case_name m) \<Longrightarrow> case_name m' = case_name m"
  by (simp add: case_name_def any_string_def)

definition v2_result :: "obj \<Rightarrow> obj" where
  "v2_result m = sort_key fst (with_v2_defaults m)"

lemma v2_result_get:
  assumes "distinct (map fst m)"
  shows "map_of (v2_result m) k =
     (if k = ''steps'' then Some (JArr (map final_step (items (any_get m ''steps''))))
      else map_of (with_default_contracts m) k)"
  using assms
  by (simp add: v2_result_def with_v2_defaults_def map_of_sort distinct_assoc_put default_contracts_distinct
    final_step_def [abs_def])

lemma v2_result_normal:
  assumes m: "normal_json (JObj m)"
    and steps: "\<And>x. x \<in> set (items (any_get m ''steps'')) \<Longrightarrow> \<exists>s. x = JObj s"
  shows "normal_json (JObj (v2_result m))"
proof -
  have "normal_json (final_step x)" if "x \<in> set (items (any_get m ''steps''))" for x
  proof -
    from steps [OF that] obtain s where "x = JObj s" by blast
    moreover have "normal_json x"
      using that normal_items [OF normal_get [OF m, of "''steps''"]] by (simp add: list_all_iff)
    ultimately show ?thesis using final_step_normal by simp
  qed
  then have "normal_json v" if "map_of (with_v2_defaults m) k = Some v" for k v
    using that normal_member [OF m, of k v]
    by (auto simp: with_v2_defaults_def final_step_def default_contracts_get list_all_iff
      simp del: normal_json.simps(3) split: if_splits)
  then have "normal_json (marshal_map (with_v2_defaults m))"
    using normal_distinct [OF m]
    by (intro normal_marshal) (simp_all add: with_v2_defaults_def distinct_assoc_put default_contracts_distinct)
  then show ?thesis by (simp add: v2_result_def marshal_map_def)
qed

lemma with_default_contracts_same:
  assumes "distinct (map fst m)" and "map_of m ''name'' = Some (JStr (case_name m))"
    and "exists_member m ''input_contract''" and "exists_member m ''output_contract''"
  shows "with_default_contracts m = m"
  using assms by (simp add: with_default_contracts_def put_same)

lemma v2_result_fixed:
  assumes m: "normal_json (JObj m)"
    and steps: "\<And>x. x \<in> set (items (any_get m ''steps'')) \<Longrightarrow> \<exists>s. x = JObj s"
  shows "with_v2_defaults (v2_result m) = v2_result m"
proof -
  note d = normal_distinct [OF m] and get = v2_result_get [OF normal_distinct [OF m]]
  have d': "distinct (map fst (v2_result m))" by (rule normal_distinct [OF v2_result_normal [OF m steps]])
  have name: "case_name (v2_result m) = case_name m"
    by (rule case_name_put) (simp add: any_get_def get default_contracts_get)
  have same: "with_default_contracts (v2_result m) = v2_result m"
    using d' by (intro with_default_contracts_same)
      (auto simp: get default_contracts_get name exists_member_def)
  have "map final_step (map final_step (items (any_get m ''steps''))) = map final_step (items (any_get m ''steps''))"
  proof -
    have "final_step (final_step x) = final_step x" if "x \<in> set (items (any_get m ''steps''))" for x
      using steps [OF that] that final_step_idem normal_items [OF normal_get [OF m, of "''steps''"]]
      by (auto simp: list_all_iff)
    then show ?thesis by simp
  qed
  then have "map_of (v2_result m) ''steps'' =
      Some (JArr (map final_step (items (any_get (v2_result m) ''steps''))))"
    by (simp add: any_get_def get items_def)
  with d' show ?thesis
    by (simp add: with_v2_defaults_def same final_step_def [abs_def, symmetric] put_same)
qed

lemma v2_case_iff:
  assumes "normal_json (JObj m)"
  shows "validateResearchV2Case (Some (JObj m)) phase = Inr v \<longleftrightarrow>
    phase_error phase = None \<and> rejectUnknownFields AtCase m v2CaseFields = None \<and>
    any_get m ''profile'' = JStr ProfileResearchV2 \<and> check_heading m = None \<and>
    check_contracts validateResearchContracts m ''input_contract'' = None \<and>
    check_contracts validateResearchContracts m ''output_contract'' = None \<and>
    draft_heading phase m = None \<and>
    check_steps (object_step (validateResearchV2Step phase)) m = None \<and>
    executable_heading phase (with_v2_defaults m) = None \<and>
    v = \<lparr>vc_canonical = marshal_map (with_v2_defaults m),
      vc_base_url = any_string (any_get (with_v2_defaults m) ''base_url''),
      vc_profile = ProfileResearchV2, vc_version = CanonicalVersionV3, vc_phase = phase\<rparr>"
proof -
  have phase: "(case phase_error phase of Some e \<Rightarrow> Inl e | None \<Rightarrow> r) = Inr v \<longleftrightarrow>
      phase_error phase = None \<and> r = Inr v" for r :: "dsl_error + ValidatedCase"
    by (cases "phase_error phase") simp_all
  show ?thesis
    unfolding validateResearchV2Case_def as_object_JObj [OF assms] Let_def option.case phase checked_iff
    by auto
qed

lemma v2_steps_fixed:
  assumes "normal_json (JObj m)" and "check_steps (object_step (validateResearchV2Step phase)) m = None"
  shows "check_steps (object_step (validateResearchV2Step phase)) (v2_result m) = None"
    and "x \<in> set (items (any_get m ''steps'')) \<Longrightarrow> \<exists>s. x = JObj s"
proof -
  obtain ss where ss: "any_get m ''steps'' = JArr ss" "ss \<noteq> []"
    "first_error_from (object_step (validateResearchV2Step phase)) 0 ss = None"
    using assms(2) unfolding check_steps_iff by blast
  have normal: "list_all normal_json ss" using normal_get [OF assms(1), of "''steps''"] ss(1) by simp
  have "first_error_from (object_step (validateResearchV2Step phase)) 0 (map final_step ss) = None"
  proof (rule first_error_from_map [OF _ ss(3)])
    fix i x
    assume "x \<in> set ss" and "object_step (validateResearchV2Step phase) i x = None"
    moreover from this normal obtain s where "x = JObj s" "normal_json (JObj s)"
      "validateResearchV2Step phase i s = None"
      by (auto simp: object_step_ok list_all_iff)
    ultimately show "object_step (validateResearchV2Step phase) i (final_step x) = None"
      using v2_step_with_defaults_ok by (simp add: final_step_def object_members_def marshal_map_def object_step_def)
  qed
  moreover have "any_get (v2_result m) ''steps'' = JArr (map final_step ss)"
    using v2_result_get [OF normal_distinct [OF assms(1)]] ss(1) by (simp add: any_get_def items_def)
  ultimately show "check_steps (object_step (validateResearchV2Step phase)) (v2_result m) = None"
    using ss(2) by (simp add: check_steps_iff)
  show "x \<in> set (items (any_get m ''steps'')) \<Longrightarrow> \<exists>s. x = JObj s"
    using steps_are_objects [OF ss(3)] by (simp add: ss(1) items_def)
qed

lemma v2_case_fixed:
  assumes m: "normal_json (JObj m)" and ok: "validateResearchV2Case (Some (JObj m)) phase = Inr v"
  shows "validateResearchV2Case (Some (JObj (v2_result m))) phase = Inr v"
    and "vc_canonical v = JObj (v2_result m)" and "normal_json (JObj (v2_result m))"
    and "map_of (v2_result m) ''profile'' = Some (JStr ProfileResearchV2)"
proof -
  note o = ok [unfolded v2_case_iff [OF m]]
  then have steps: "check_steps (object_step (validateResearchV2Step phase)) m = None" by simp
  note objects = v2_steps_fixed(2) [OF m steps]
  show n: "normal_json (JObj (v2_result m))" by (rule v2_result_normal [OF m objects])
  have d: "distinct (map fst (with_v2_defaults m))"
    using normal_distinct [OF m]
    by (simp add: with_v2_defaults_def distinct_assoc_put default_contracts_distinct)
  note get = v2_result_get [OF normal_distinct [OF m]]
  have any: "any_get (v2_result m) k = any_get (with_v2_defaults m) k" for k
    using d by (simp add: v2_result_def)
  have kept: "any_get (v2_result m) k = any_get m k"
    if "k \<notin> {''name'', ''steps'', ''input_contract'', ''output_contract''}" for k
    using that by (simp add: any_get_def get default_contracts_get)
  have kept': "exists_member (v2_result m) k = exists_member m k"
    if "k \<notin> {''name'', ''steps'', ''input_contract'', ''output_contract''}" for k
    using that by (simp add: exists_member_def get default_contracts_get)
  show canonical: "vc_canonical v = JObj (v2_result m)"
    using o by (simp add: v2_result_def marshal_map_def)
  show "map_of (v2_result m) ''profile'' = Some (JStr ProfileResearchV2)"
    using o by (auto simp: get default_contracts_get any_get_def split: option.splits)
  have "case_name (v2_result m) = case_name m"
    by (rule case_name_put) (simp add: any_get_def get default_contracts_get)
  then have heading: "check_heading (v2_result m) = check_heading m"
    by (rule check_heading_cong) (simp_all add: kept)
  have unknown: "rejectUnknownFields AtCase (v2_result m) v2CaseFields = None"
  proof -
    have "k \<in> set v2CaseFields" if "exists_member (v2_result m) k" for k
    proof (cases "k \<in> {''name'', ''steps'', ''input_contract'', ''output_contract''}")
      case True
      then show ?thesis by (auto simp: v2CaseFields_def)
    next
      case False
      then have "exists_member m k" using that kept' by blast
      with o show ?thesis by (auto simp: rejectUnknownFields_None exists_key)
    qed
    then show ?thesis by (auto simp: rejectUnknownFields_None exists_key)
  qed
  have contracts: "check_contracts validateResearchContracts (v2_result m) f = None"
    if "f \<in> {''input_contract'', ''output_contract''}" for f
    using o that by (subst check_contracts_default [where m = m]) (auto simp: get default_contracts_get empty_contracts_ok)
  have fixed: "with_v2_defaults (v2_result m) = v2_result m" by (rule v2_result_fixed [OF m objects])
  have draft: "draft_heading phase (v2_result m) = draft_heading phase m"
    by (simp add: draft_heading_def kept')
  have executable: "executable_heading phase (v2_result m) = executable_heading phase (with_v2_defaults m)"
    by (simp add: executable_heading_def any cong: sum.case_cong)
  show "validateResearchV2Case (Some (JObj (v2_result m))) phase = Inr v"
    unfolding v2_case_iff [OF n] fixed heading draft executable marshal_normal [OF n] any [of "''base_url''"]
    using o unknown contracts v2_steps_fixed(1) [OF m steps] kept [of "''profile''"] canonical
    by (intro conjI) simp_all
qed

subsection \<open>The entry point\<close>

lemma caseProfile_fixed:
  assumes "normal_json (JObj m)" and "map_of m ''profile'' = Some (JStr p)"
    and "p = ProfileResearchV1 \<or> p = ProfileResearchV2"
  shows "caseProfile (Some (JObj m)) = Inr (p, Some (JObj m))"
proof -
  have "TrimSpace p = p" "p \<noteq> ProfileLegacyV1"
    using assms(3) by (auto simp: ProfileResearchV1_def ProfileResearchV2_def ProfileLegacyV1_def
      TrimSpace_def is_space_def)
  with assms show ?thesis
    by (auto simp: caseProfile_def as_object_JObj normal_put_same Let_def simp del: normal_json.simps(3))
qed

lemma caseProfile_cases:
  assumes "caseProfile raw = Inr (p, normalized)"
  obtains (legacy) "p = ProfileLegacyV1"
  | (research) m where "normal_json (JObj m)" and "normalized = Some (JObj m)"
    and "map_of m ''profile'' = Some (JStr p)" and "p = ProfileResearchV1 \<or> p = ProfileResearchV2"
proof -
  from assms obtain c where c: "as_object raw = Some c"
    by (auto simp: caseProfile_def split: option.splits)
  note n = as_object_normal [OF c]
  show thesis
  proof (cases "p = ProfileLegacyV1")
    case False
    with assms c have p: "p = ProfileResearchV1 \<or> p = ProfileResearchV2"
      and norm: "normalized = Some (marshal_map (assoc_put ''profile'' (JStr p) c))"
      by (auto simp: caseProfile_def Let_def split: option.splits json.splits if_splits)
    let ?m = "sort_key fst (assoc_put ''profile'' (JStr p) c)"
    have d: "distinct (map fst (assoc_put ''profile'' (JStr p) c))"
      by (rule distinct_assoc_put [OF normal_distinct [OF n]])
    have "normal_json (marshal_map (assoc_put ''profile'' (JStr p) c))"
      using d normal_member [OF n] by (intro normal_marshal) (auto split: if_splits)
    then have "normal_json (JObj ?m)" by (simp add: marshal_map_def)
    moreover have "map_of ?m ''profile'' = Some (JStr p)" using d by (simp add: map_of_sort)
    moreover have "normalized = Some (JObj ?m)" using norm by (simp add: marshal_map_def)
    ultimately show thesis using research p by blast
  qed (rule legacy)
qed

lemma v2_validated:
  assumes "validateCase phase raw = Inr v" and "vc_profile v = ProfileResearchV2"
  obtains m where "vc_canonical v = JObj m" and "normal_json (JObj m)"
    and "validateResearchV2Case (Some (JObj m)) phase = Inr v"
    and "map_of m ''profile'' = Some (JStr ProfileResearchV2)" and "with_v2_defaults m = m"
proof -
  have different: "ProfileResearchV2 \<noteq> ProfileLegacyV1" "ProfileResearchV1 \<noteq> ProfileLegacyV1"
    "ProfileResearchV1 \<noteq> ProfileResearchV2"
    by (simp_all add: ProfileResearchV1_def ProfileResearchV2_def ProfileLegacyV1_def)
  from assms(1) obtain p normalized where prof: "caseProfile raw = Inr (p, normalized)"
    by (auto simp: validateCase_def split: sum.splits)
  from prof show thesis
  proof (cases rule: caseProfile_cases)
    case legacy
    with assms prof different show thesis by (auto simp: validateCase_def split: sum.splits)
  next
    case (research m)
    have "p = ProfileResearchV2"
      using research assms prof different
      by (auto simp: validateCase_def validateResearchCase_def Let_def split: option.splits)
    with research assms prof different have ok: "validateResearchV2Case (Some (JObj m)) phase = Inr v"
      by (simp add: validateCase_def)
    note fixed = v2_case_fixed [OF research(1) ok]
    have "check_steps (object_step (validateResearchV2Step phase)) m = None"
      using ok by (simp add: v2_case_iff [OF research(1)])
    from v2_result_fixed [OF research(1) v2_steps_fixed(2) [OF research(1) this]] fixed that show thesis by simp
  qed
qed

lemma v2_validate_fixed:
  assumes "validateCase phase raw = Inr v" and "vc_profile v = ProfileResearchV2"
  shows "validateCase phase (Some (vc_canonical v)) = Inr v"
proof -
  from assms obtain m where m: "vc_canonical v = JObj m" "normal_json (JObj m)"
    "validateResearchV2Case (Some (JObj m)) phase = Inr v" "map_of m ''profile'' = Some (JStr ProfileResearchV2)"
    by (rule v2_validated)
  have "caseProfile (Some (JObj m)) = Inr (ProfileResearchV2, Some (JObj m))"
    by (rule caseProfile_fixed [OF m(2,4)]) simp
  moreover have "ProfileResearchV2 \<noteq> ProfileLegacyV1"
    by (simp add: ProfileResearchV2_def ProfileLegacyV1_def)
  ultimately show ?thesis using m(1,3) by (simp add: validateCase_def)
qed

end
