(* ===== verification/DslV1Laws.thy ===== *)
theory DslV1Laws
  imports DslV2Laws
begin

section \<open>Canonical cases of legacy-v1 and research-v1\<close>

subsection \<open>Canonical forms are fixed points\<close>

declare sort_key_simps [simp del]

lemma map_of_filter: "map_of m k = map_option snd (case filter (\<lambda>p. fst p = k) m of [] \<Rightarrow> None | p # _ \<Rightarrow> Some p)"
  by (induction m) auto

lemma map_of_sort_any: "map_of (sort_key fst m) k = map_of m k"
  by (simp add: map_of_filter sort_key_stable)

lemma get_sort [simp]: "any_get (sort_key fst m) k = any_get m k"
  and exists_member_sort [simp]: "exists_member (sort_key fst m) k = exists_member m k"
  by (simp_all add: any_get_def exists_member_def map_of_sort_any)

lemma get_Cons [simp]: "any_get ((k, v) # m) k' = (if k' = k then v else any_get m k')"
  and get_Nil [simp]: "any_get [] k' = JNull"
  and exists_Cons [simp]: "exists_member ((k, v) # m) k' \<longleftrightarrow> k' = k \<or> exists_member m k'"
  and exists_Nil [simp]: "\<not> exists_member [] k'"
  by (simp_all add: any_get_def exists_member_def)

lemma get_append [simp]: "any_get (m @ m') k = (if exists_member m k then any_get m k else any_get m' k)"
  and exists_append [simp]: "exists_member (m @ m') k \<longleftrightarrow> exists_member m k \<or> exists_member m' k"
  by (auto simp: any_get_def exists_member_def map_add_def split: option.splits)

lemma not_exists_get: "\<not> exists_member m k \<Longrightarrow> any_get m k = JNull"
  by (simp add: exists_member_def any_get_def)

lemma get_if_exists [simp]:
  "any_get (if_exists m f g) k = (if k = f \<and> exists_member m f then g (any_get m f) else JNull)"
  and exists_if_exists [simp]: "exists_member (if_exists m f g) k \<longleftrightarrow> k = f \<and> exists_member m f"
  by (cases "map_of m f"; simp add: if_exists_def any_get_def exists_member_def)+

lemma valueOrDefault_get: "valueOrDefault m f d = (if exists_member m f then any_get m f else d)"
  by (simp add: valueOrDefault_def exists_member_def any_get_def split: option.splits)

lemma if_exists_get: "if_exists m f g = (if exists_member m f then [(f, g (any_get m f))] else [])"
  by (simp add: if_exists_def exists_member_def any_get_def split: option.splits)

lemma trimmed_string_idem [simp]: "trimmedString (JStr (trimmedString j)) = trimmedString j"
  by (simp add: trimmedString_def any_string_def)

lemma optional_trimmed_idem [simp]:
  "optionalTrimmedString (optionalTrimmedString j) = optionalTrimmedString j"
  by (simp add: optionalTrimmedString_def)

lemma of_char_upper: "(of_char (upper c) :: nat) = (let n = of_char c in if 97 \<le> n \<and> n \<le> 122 then n - 32 else n)"
proof -
  have "(of_char c :: nat) < 256" by simp
  then have "(of_char c - 32 :: nat) mod 256 = of_char c - 32" by (intro mod_less) linarith
  then show ?thesis by (simp add: upper_def Let_def of_char_of)
qed

lemma upper_upper [simp]: "upper (upper c) = upper c"
proof -
  have "(of_char (upper (upper c)) :: nat) = of_char (upper c)"
    by (auto simp: of_char_upper Let_def)
  then show ?thesis by simp
qed

lemma is_space_upper [simp]: "is_space (upper c) = is_space c"
  by (auto simp: is_space_of_char of_char_upper Let_def)

lemma trimmed_upper: "trimmed s \<Longrightarrow> trimmed (ToUpper s)"
  by (auto simp: trimmed_def ToUpper_def hd_map last_map)

lemma upper_idem [simp]: "ToUpper (ToUpper s) = ToUpper s"
  by (simp add: ToUpper_def)

lemma trimmed_string_upper [simp]:
  "trimmedString (JStr (ToUpper (trimmedString j))) = ToUpper (trimmedString j)"
  by (simp add: trimmedString_def any_string_def TrimSpace_trimmed trimmed_upper)

lemma canonical_strategy_idem: "canonical_strategy (canonical_strategy s) = canonical_strategy s"
  by (simp add: canonical_strategy_def)

lemma trim_canonical_strategy:
  "trimmedString (JStr (canonical_strategy (trimmedString j))) = canonical_strategy (trimmedString j)"
proof -
  have "trimmed (canonical_strategy (trimmedString j))"
    using trimmed_TrimSpace [of "any_string j"]
    unfolding canonical_strategy_def trimmedString_def by (simp add: trimmed_def is_space_def)
  then show ?thesis by (simp add: trimmedString_def any_string_def TrimSpace_trimmed)
qed

lemma canonicalCondition_idem [simp]: "canonicalCondition (canonicalCondition x) = canonicalCondition x"
  unfolding canonicalCondition_def Let_def object_members_marshal
  by (rule arg_cong [where f = marshal_map]) (simp add: valueOrDefault_get if_exists_get)

lemma canonicalCandidate_idem [simp]: "canonicalCandidate (canonicalCandidate x) = canonicalCandidate x"
  unfolding canonicalCandidate_def Let_def object_members_marshal
  by (rule arg_cong [where f = marshal_map])
    (simp add: valueOrDefault_get trim_canonical_strategy canonical_strategy_idem)

lemma canonicalContract_idem [simp]: "canonicalContract b (canonicalContract b x) = canonicalContract b x"
  unfolding canonicalContract_def Let_def object_members_marshal
  by (rule arg_cong [where f = marshal_map]) (simp add: valueOrDefault_get)

lemma items_JArr [simp]: "items (JArr js) = js"
  by (simp add: items_def)

lemma canonical_lists_idem [simp]:
  "canonicalConditions (canonicalConditions j) = canonicalConditions j"
  "canonicalCandidates (canonicalCandidates j) = canonicalCandidates j"
  "canonicalContracts (canonicalContracts j b) b = canonicalContracts j b"
  by (simp_all add: canonicalConditions_def canonicalCandidates_def canonicalContracts_def)

lemma action_cases:
  obtains "a = ''goto''" | "a = ''assert_url_contains''" | "a = ''click''" | "a = ''wait_for''"
  | "a = ''assert_text''" | "a = ''capture_text''" | "a = ''input''" | "a \<notin> set supportedActions"
  by (auto simp: supportedActions_def)

lemmas step_members = canonicalOptionalConditions_def canonicalLocatorFields_def canonicalLocatorDefaults_def
  canonicalResearchLocatorFields_def valueOrDefault_get if_exists_get

lemma trimmed_literals [simp]:
  "trimmedString (JStr ''goto'') = ''goto''"
  "trimmedString (JStr ''assert_url_contains'') = ''assert_url_contains''"
  "trimmedString (JStr ''click'') = ''click''"
  "trimmedString (JStr ''wait_for'') = ''wait_for''"
  "trimmedString (JStr ''assert_text'') = ''assert_text''"
  "trimmedString (JStr ''capture_text'') = ''capture_text''"
  "trimmedString (JStr ''input'') = ''input''"
  by code_simp+

lemma canonicalStep_idem [simp]: "canonicalStep (canonicalStep x) = canonicalStep x"
  unfolding canonicalStep_def Let_def object_members_marshal
proof (rule arg_cong [where f = marshal_map], goal_cases)
  case 1
  show ?case
    by (cases "trimmedString (any_get (object_members x) ''action'')" rule: action_cases)
      (simp_all add: step_members supportedActions_def)
qed

lemma canonicalResearchStep_idem [simp]:
  "canonicalResearchStep (canonicalResearchStep x) = canonicalResearchStep x"
  unfolding canonicalResearchStep_def Let_def object_members_marshal
proof (rule arg_cong [where f = marshal_map], goal_cases)
  case 1
  show ?case
    by (cases "trimmedString (any_get (object_members x) ''action'')" rule: action_cases)
      (simp_all add: step_members supportedActions_def)
qed

lemma canonical_steps_idem [simp]:
  "canonicalSteps (canonicalSteps j) = canonicalSteps j"
  "canonicalResearchSteps (canonicalResearchSteps j) = canonicalResearchSteps j"
  by (simp_all add: canonicalSteps_def canonicalResearchSteps_def)

subsection \<open>The checks accept canonical parts\<close>

text \<open>A condition with an explicit \<open>null\<close> method is excluded: its canonical form is refused.\<close>

definition named_method :: "json \<Rightarrow> bool" where
  "named_method raw \<longleftrightarrow> (let c = object_members raw in
     exists_member c ''method'' \<longrightarrow> any_get c ''method'' \<noteq> JNull)"

lemma blank_upper: "blank (ToUpper s) = blank s"
  by (simp add: blank_iff ToUpper_def)

lemma blank_trimmed [simp]: "blank (trimmedString j) = blank (any_string j)"
  by (simp add: trimmedString_def)

lemma optional_trimmed_null [simp]: "optionalTrimmedString j = JNull \<longleftrightarrow> j = JNull"
  by (simp add: optionalTrimmedString_def)

lemma optional_trimmed_text: "is_text (optionalTrimmedString j) \<longleftrightarrow> j \<noteq> JNull"
  by (simp add: optionalTrimmedString_def is_text_def)

lemma any_string_optional: "any_string (optionalTrimmedString j) = trimmedString j"
  by (auto simp: optionalTrimmedString_def any_string_def trimmedString_def)

lemma trim_trimmed [simp]: "TrimSpace (trimmedString j) = trimmedString j"
  by (simp add: trimmedString_def)

lemma any_string_JStr [simp]: "any_string (JStr s) = s"
  by (simp add: any_string_def)

lemma trim_string: "TrimSpace (any_string j) = trimmedString j"
  by (simp add: trimmedString_def)

lemma canonical_condition_ok:
  assumes "validateCondition i f k raw = None" and "named_method raw"
  shows "validateCondition i f k' (canonicalCondition raw) = None"
proof -
  obtain c where c: "raw = JObj c" using assms(1) by (cases raw) (auto simp: validateCondition_def)
  show ?thesis
  proof (cases "exists_member c ''method''")
    case True
    with assms c obtain t where t: "any_get c ''method'' = JStr t" "\<not> blank t"
      by (cases "any_get c ''method''") (auto simp: validateCondition_def named_method_def object_members_def Let_def)
    with True assms(1) c show ?thesis
      by (simp add: validateCondition_def canonicalCondition_def marshal_map_def object_members_def Let_def
        valueOrDefault_get optional_text_def optional_trimmed_text any_string_optional blank_upper
        number_between_def not_exists_get trim_string)
  next
    case False
    with assms(1) c show ?thesis
      by (cases "exists_member c ''status''") (auto simp: validateCondition_def canonicalCondition_def marshal_map_def object_members_def Let_def
        valueOrDefault_get optional_text_def optional_trimmed_text any_string_optional
        number_between_def not_exists_get trim_string)
  qed
qed

lemma canonical_conditions_ok:
  assumes "validateConditions i f j = None" and "list_all named_method (items j)"
  shows "validateConditions i f (canonicalConditions j) = None"
  using assms
  by (cases j) (auto simp: validateConditions_def canonicalConditions_def items_def list_all_iff
    intro!: first_error_from_map [where f = "validateCondition i f"] canonical_condition_ok)

lemma canonical_candidate_ok:
  assumes "validateCandidate i k raw = None"
  shows "validateCandidate i k' (canonicalCandidate raw) = None"
proof -
  obtain c where c: "raw = JObj c" using assms by (cases raw) (auto simp: validateCandidate_def)
  have "\<not> blank (canonical_strategy (trimmedString (any_get c ''strategy'')))"
    using assms c by (auto simp: validateCandidate_def Let_def requireText_def canonical_strategy_def
      trimmedString_def split: json.splits) (simp_all add: blank_iff is_space_def)
  with assms c show ?thesis
    by (auto simp: validateCandidate_def canonicalCandidate_def marshal_map_def object_members_def Let_def
      requireText_def valueOrDefault_get optional_text_def optional_trimmed_text not_exists_get)
qed

lemma canonical_candidates_ok:
  assumes "validateCandidates i j = None"
  shows "validateCandidates i (canonicalCandidates j) = None"
  using assms
  by (cases j) (auto simp: validateCandidates_def canonicalCandidates_def items_def
    intro!: first_error_from_map [where f = "validateCandidate i"] canonical_candidate_ok)

lemma RuneCount_dropWhile: "RuneCount (dropWhile P s) \<le> RuneCount s"
  by (induction s) (auto simp: RuneCount_def)

lemma RuneCount_rev [simp]: "RuneCount (rev s) = RuneCount s"
  by (simp add: RuneCount_def rev_filter [symmetric])

lemma RuneCount_TrimSpace: "RuneCount (TrimSpace s) \<le> RuneCount s"
  unfolding TrimSpace_def using RuneCount_dropWhile order_trans by (metis RuneCount_rev)

lemma optional_trimmed_source:
  assumes "validOptionalEnum m f allowed" and "any_get m' f = optionalTrimmedString (any_get m f)"
  shows "validOptionalEnum m' f allowed"
  using assms
  by (auto simp: validOptionalEnum_def optionalTrimmedString_def trimmedString_def any_string_def split: json.splits)

lemma canonical_contract_ok:
  assumes ok: "validateContract f k raw = None"
  shows "validateContract f k' (canonicalContract (f = ''input_contract'') raw) = None"
proof -
  obtain c where c: "raw = JObj c" using ok by (cases raw) (auto simp: validateContract_def)
  define m where "m = object_members (canonicalContract (f = ''input_contract'') raw)"
  have m: "canonicalContract (f = ''input_contract'') raw = JObj m"
    by (simp add: m_def canonicalContract_def marshal_map_def object_members_def Let_def)
  have gets: "any_get m ''name'' = JStr (trimmedString (any_get c ''name''))"
      "any_get m ''context_key'' = JStr (trimmedString (any_get c ''context_key''))"
      "any_get m ''value_type'' = JStr (trimmedString (any_get c ''value_type''))"
      "any_get m ''description'' = optionalTrimmedString (any_get c ''description'')"
    and required: "exists_member m ''required'' \<longrightarrow>
      any_get m ''required'' = (if exists_member c ''required'' then any_get c ''required'' else JBool True)"
    and given: "any_get m ''value'' \<in> {JNull, optionalTrimmedString (any_get c ''value'')}"
    and source: "f = ''output_contract'' \<longrightarrow> any_get m ''source'' = optionalTrimmedString (any_get c ''source'')"
    by (auto simp: m_def c canonicalContract_def marshal_map_def object_members_def Let_def valueOrDefault_get)
  have count: "RuneCount (trimmedString j) \<le> 100" if "RuneCount (any_string j) \<le> 100" for j
    using that RuneCount_TrimSpace [of "any_string j"] by (simp add: trimmedString_def)
  from ok have old: "\<not> blank (any_string (any_get c ''name''))" "RuneCount (any_string (any_get c ''name'')) \<le> 100"
      "validContextKey (TrimSpace (any_string (any_get c ''context_key'')))"
      "TrimSpace (any_string (any_get c ''value_type'')) \<in> set variableTypes"
      "exists_member c ''required'' \<longrightarrow> is_boolean (any_get c ''required'')"
      "optional_text c ''description''" "optional_text c ''value''"
      "f = ''output_contract'' \<longrightarrow> validOptionalEnum c ''source'' variableSources"
    unfolding validateContract_def c json.case checked_iff by (auto simp: fails_if_def split: if_splits)
  have "optional_text m ''description''" "optional_text m ''value''"
    using old(6,7) gets(4) given by (auto simp: optional_text_def optional_trimmed_text)
  moreover have "f = ''output_contract'' \<longrightarrow> validOptionalEnum m ''source'' variableSources"
    using old(8) source optional_trimmed_source by blast
  moreover have "exists_member m ''required'' \<longrightarrow> is_boolean (any_get m ''required'')"
    using old(5) required by (auto simp: is_boolean_def)
  ultimately show ?thesis
    using old(1-4) count [OF old(2)]
    unfolding validateContract_def m json.case checked_iff by (auto simp: fails_if_def gets trim_string)
qed

lemma canonical_contracts_ok:
  assumes "validateContracts f cs = None"
  shows "validateContracts f (map (canonicalContract (f = ''input_contract'')) cs) = None"
  using assms unfolding validateContracts_def
  by (intro first_error_from_map [where f = "validateContract f"] canonical_contract_ok)

subsection \<open>The checks accept canonical steps\<close>

text \<open>What a canonical step may make of a member.\<close>

definition kept_text :: "obj \<Rightarrow> obj \<Rightarrow> string \<Rightarrow> bool" where
  "kept_text s s' f \<longleftrightarrow> any_get s' f = JStr (trimmedString (any_get s f))"

definition optional_kept :: "(json \<Rightarrow> json) \<Rightarrow> obj \<Rightarrow> obj \<Rightarrow> string \<Rightarrow> bool" where
  "optional_kept g s s' f \<longleftrightarrow> any_get s' f = JNull \<or> any_get s' f = g (any_get s f)"

lemma requireText_kept:
  "requireText s f i = None \<Longrightarrow> kept_text s s' f \<Longrightarrow> requireText s' f k = None"
  by (auto simp: requireText_def kept_text_def split: json.splits)

definition parameters_kept :: "string \<Rightarrow> obj \<Rightarrow> obj \<Rightarrow> bool" where
  "parameters_kept a s s' \<longleftrightarrow>
     (a \<in> {''goto'', ''assert_url_contains'', ''input'', ''assert_text''} \<longrightarrow> kept_text s s' ''value'') \<and>
     (a \<in> {''click'', ''wait_for'', ''input'', ''assert_text'', ''capture_text''} \<longrightarrow> kept_text s s' ''target'') \<and>
     (a = ''capture_text'' \<longrightarrow> kept_text s s' ''context_key'')"

lemma action_parameters_kept:
  assumes "action_parameters i a s = None" and "parameters_kept a s s'"
  shows "action_parameters i a s' = None"
  using assms requireText_kept [of s "''value''" i s' i] requireText_kept [of s "''target''" i s' i]
  unfolding action_parameters_def parameters_kept_def
  by (cases a rule: action_cases)
    (simp_all add: fails_if_def kept_text_def is_text_def trim_string supportedActions_def split: if_splits)

lemma optional_enum_kept:
  "validOptionalEnum s f allowed \<Longrightarrow> optional_kept optionalTrimmedString s s' f \<Longrightarrow>
   validOptionalEnum s' f allowed"
  using optional_trimmed_source by (auto simp: optional_kept_def validOptionalEnum_def)

lemma optional_text_kept:
  "optional_text s f \<Longrightarrow> optional_kept optionalTrimmedString s s' f \<Longrightarrow> optional_text s' f"
  by (auto simp: optional_text_def optional_kept_def optional_trimmed_text)

lemma features_canonical:
  "any_get (object_members (canonicalCandidate x)) ''pre_features'' = any_get (object_members x) ''pre_features''"
  by (simp add: canonicalCandidate_def Let_def valueOrDefault_get not_exists_get)

lemma verified_href_canonical: "verified_href (canonicalCandidate x) = verified_href x"
  by (simp add: verified_href_def features_canonical)

lemma href_canonical [simp]:
  "verifiedCrossPageAnchorHref (canonicalCandidates j) = verifiedCrossPageAnchorHref j"
  by (simp add: verifiedCrossPageAnchorHref_def canonicalCandidates_def comp_def verified_href_canonical)

lemma href_null [simp]: "verifiedCrossPageAnchorHref JNull = []"
  by (simp add: verifiedCrossPageAnchorHref_def items_def)

lemma trim_url_contains [simp]: "TrimSpace ''url_contains'' = ''url_contains''"
  by code_simp

lemma fits_href_canonical:
  assumes "validateCondition i f k x = None"
  shows "fits_href href path (canonicalCondition x) = fits_href href path x"
proof -
  obtain c where c: "x = JObj c" using assms by (cases x) (auto simp: validateCondition_def)
  from assms c obtain t where t: "any_get c ''type'' = JStr t"
    by (cases "any_get c ''type''")
      (auto simp: validateCondition_def Let_def any_string_def postconditionTypes_def TrimSpace_def)
  show ?thesis
  proof (cases "TrimSpace t = ''url_contains''")
    case True
    with assms c t obtain w where "any_get c ''value'' = JStr w"
      by (cases "any_get c ''value''") (auto simp: validateCondition_def Let_def any_string_def)
    with c t True show ?thesis
      by (simp add: fits_href_def canonicalCondition_def Let_def sprint_def optionalTrimmedString_def
        trimmedString_def any_string_def object_members_def marshal_map_def)
  next
    case False
    with c t show ?thesis
      by (simp add: fits_href_def canonicalCondition_def Let_def sprint_def
        trimmedString_def any_string_def object_members_def marshal_map_def)
  qed
qed

lemma target_url_canonical:
  assumes "validateConditions i f j = None"
  shows "hasTargetURLPostcondition (canonicalConditions j) href = hasTargetURLPostcondition j href"
proof -
  have "list_ex (fits_href href path) (map canonicalCondition (items j)) = list_ex (fits_href href path) (items j)" for path
  proof -
    have "fits_href href path (canonicalCondition x) = fits_href href path x" if "x \<in> set (items j)" for x
      using that assms first_error_from_in [of "validateCondition i f" 0 "items j" x] fits_href_canonical
      by (cases j) (auto simp: validateConditions_def items_def)
    then show ?thesis by (simp add: list_ex_iff)
  qed
  then show ?thesis by (simp add: hasTargetURLPostcondition_def canonicalConditions_def split: option.splits)
qed

definition timeout_kept :: "obj \<Rightarrow> obj \<Rightarrow> bool" where
  "timeout_kept s s' \<longleftrightarrow> (exists_member s' ''timeout_ms'' \<longrightarrow>
     any_get s' ''timeout_ms'' = (if exists_member s ''timeout_ms'' then any_get s ''timeout_ms'' else JInt 5000))"

definition named_methods :: "obj \<Rightarrow> bool" where
  "named_methods s \<longleftrightarrow> list_all named_method (items (any_get s ''preconditions'')) \<and>
     list_all named_method (items (any_get s ''postconditions''))"

lemma validateStep_kept:
  assumes ok: "validateStep i a s = None" and named: "named_methods s"
    and parameters: "parameters_kept a s s'"
    and texts: "\<And>f. f \<in> {''locator_confidence'', ''target_strategy'', ''page_state'', ''trigger''} \<Longrightarrow>
      optional_kept optionalTrimmedString s s' f"
    and timeout: "timeout_kept s s'"
    and candidates: "optional_kept canonicalCandidates s s' ''candidates''"
    and pre: "optional_kept canonicalConditions s s' ''preconditions''"
    and post: "optional_kept canonicalConditions s s' ''postconditions''"
    and click: "a = ''click'' \<Longrightarrow> any_get s' ''postconditions'' = canonicalConditions (any_get s ''postconditions'')"
  shows "validateStep i a s' = None"
proof -
  note o = ok [unfolded validateStep_def Let_def, simplified]
  have c: "validateCandidates i (any_get s' ''candidates'') = None"
    using candidates o canonical_candidates_ok by (auto simp: optional_kept_def validateCandidates_def)
  have conditions: "validateConditions i f (any_get s' f) = None"
    if "optional_kept canonicalConditions s s' f" and "validateConditions i f (any_get s f) = None"
      and "list_all named_method (items (any_get s f))" for f
    using that canonical_conditions_ok by (auto simp: optional_kept_def validateConditions_def)
  have enums: "validOptionalEnum s' ''locator_confidence'' locatorConfidences"
      "validOptionalEnum s' ''target_strategy'' targetStrategies"
      "a = ''input'' \<longrightarrow> validOptionalEnum s' ''trigger'' inputTriggers" "optional_text s' ''page_state''"
    using o texts optional_enum_kept [of s _ _ s'] optional_text_kept [of s _ s']
    by (auto simp: fails_if_def split: if_splits)
  have number: "number_between 1 60000 (JInt 5000)" by code_simp
  have time: "\<not> (a = ''wait_for'' \<and> exists_member s' ''timeout_ms'' \<and>
      \<not> number_between 1 60000 (any_get s' ''timeout_ms''))"
    using o timeout number by (auto simp: timeout_kept_def fails_if_def split: if_splits)
  have href: "\<not> (a = ''click'' \<and> verifiedCrossPageAnchorHref (any_get s' ''candidates'') \<noteq> [] \<and>
      \<not> hasTargetURLPostcondition (any_get s' ''postconditions'') (verifiedCrossPageAnchorHref (any_get s' ''candidates'')))"
  proof (intro notI, elim conjE)
    assume a: "a = ''click''"
      and some: "verifiedCrossPageAnchorHref (any_get s' ''candidates'') \<noteq> []"
      and none: "\<not> hasTargetURLPostcondition (any_get s' ''postconditions'')
        (verifiedCrossPageAnchorHref (any_get s' ''candidates''))"
    have "any_get s' ''candidates'' = canonicalCandidates (any_get s ''candidates'')"
      using candidates some by (auto simp: optional_kept_def)
    moreover have "validateConditions i ''postconditions'' (any_get s ''postconditions'') = None" using o by blast
    ultimately have "verifiedCrossPageAnchorHref (any_get s ''candidates'') \<noteq> []"
        "\<not> hasTargetURLPostcondition (any_get s ''postconditions'')
          (verifiedCrossPageAnchorHref (any_get s ''candidates''))"
      using some none click [OF a] target_url_canonical by simp_all
    moreover have "\<not> (a = ''click'' \<and> verifiedCrossPageAnchorHref (any_get s ''candidates'') \<noteq> [] \<and>
        \<not> hasTargetURLPostcondition (any_get s ''postconditions'')
          (verifiedCrossPageAnchorHref (any_get s ''candidates'')))"
      using o by (simp add: fails_if_def split: if_splits)
    ultimately show False using a by blast
  qed
  have p: "action_parameters i a s' = None"
    using action_parameters_kept [OF _ parameters] o by blast
  have cc: "validateConditions i ''preconditions'' (any_get s' ''preconditions'') = None"
      "validateConditions i ''postconditions'' (any_get s' ''postconditions'') = None"
    using o named conditions [OF pre] conditions [OF post] by (simp_all add: named_methods_def)
  show ?thesis
    unfolding validateStep_def Let_def checks_None
    using p c enums time href cc by (simp add: fails_if_def)
qed

end
