(* ===== verification/DslV1Cases.thy ===== *)
theory DslV1Cases
  imports DslV1Laws
begin

section \<open>Cases of legacy-v1 and research-v1 are fixed points of their validation\<close>

text \<open>
  A validated case of these profiles is validated again to itself, unless a condition has an
  explicit \<open>null\<close> method: the canonical form replaces it by the empty text, which the check of
  conditions refuses.
\<close>

subsection \<open>Canonical documents are in normal form\<close>

lemma normal_map_of: "normal_json (JObj m) \<Longrightarrow> normal_json (any_get m k)"
  by (rule normal_get)

lemma normal_members: "normal_json x \<Longrightarrow> normal_json (any_get (object_members x) k)"
  by (cases x) (auto simp: object_members_def any_get_def intro: normal_get simp del: normal_json.simps(3)
    dest: normal_get [of _ k] split: option.splits)

lemma normal_optional [simp]: "normal_json (optionalTrimmedString j)"
  by (simp add: optionalTrimmedString_def)

lemma normal_default: "normal_json (any_get m f) \<Longrightarrow> normal_json d \<Longrightarrow> normal_json (valueOrDefault m f d)"
  by (simp add: valueOrDefault_get)

lemma normal_marshal_list:
  assumes "distinct (map fst m)" and "list_all (\<lambda>p. normal_json (snd p)) m"
  shows "normal_json (marshal_map m)"
  using assms by (intro normal_marshal) (auto simp: list_all_iff dest!: map_of_SomeD)

lemma normal_canonical_parts:
  "normal_json x \<Longrightarrow> normal_json (canonicalCondition x)"
  "normal_json x \<Longrightarrow> normal_json (canonicalCandidate x)"
  "normal_json x \<Longrightarrow> normal_json (canonicalContract b x)"
  unfolding canonicalCondition_def canonicalCandidate_def canonicalContract_def Let_def
  by (rule normal_marshal_list; simp add: if_exists_get normal_members normal_default)+

lemma normal_canonical_lists:
  assumes "normal_json j"
  shows "normal_json (canonicalConditions j)" "normal_json (canonicalCandidates j)"
    "normal_json (canonicalContracts j b)"
  using normal_items [OF assms] normal_canonical_parts
  by (auto simp: canonicalConditions_def canonicalCandidates_def canonicalContracts_def list_all_iff)

lemma normal_canonical_steps:
  assumes "normal_json x"
  shows "normal_json (canonicalStep x)" "normal_json (canonicalResearchStep x)"
  unfolding canonicalStep_def canonicalResearchStep_def Let_def
  by (rule normal_marshal_list; cases "trimmedString (any_get (object_members x) ''action'')" rule: action_cases;
    auto simp: step_members normal_canonical_lists normal_members assms supportedActions_def)+

subsection \<open>Steps of legacy-v1\<close>

lemma supported_trimmed:
  assumes "any_string j \<in> set supportedActions"
  shows "trimmedString j = any_string j"
proof -
  have "TrimSpace a = a" if "a \<in> set supportedActions" for a
    using that trimmed_literals by (auto simp: supportedActions_def trimmedString_def any_string_def)
  with assms show ?thesis by (simp add: trimmedString_def)
qed

lemma canonical_step_kept:
  assumes "trimmedString (any_get s ''action'') = a" and "s' = object_members (canonicalStep (JObj s))"
  shows "any_get s' ''action'' = JStr a" "parameters_kept a s s'" "timeout_kept s s'"
    "optional_kept canonicalCandidates s s' ''candidates''"
    "optional_kept canonicalConditions s s' ''preconditions''"
    "optional_kept canonicalConditions s s' ''postconditions''"
    "a = ''click'' \<Longrightarrow> any_get s' ''postconditions'' = canonicalConditions (any_get s ''postconditions'')"
    "f \<in> {''locator_confidence'', ''target_strategy'', ''page_state'', ''trigger''} \<Longrightarrow>
      optional_kept optionalTrimmedString s s' f"
  unfolding assms(2) canonicalStep_def Let_def object_members_marshal
  using assms(1)
  by (cases a rule: action_cases; auto simp: step_members parameters_kept_def kept_text_def timeout_kept_def
    optional_kept_def object_members_def supportedActions_def)+

lemma canonical_step_ok:
  assumes "legacy_step i raw = None" and "named_methods (object_members raw)"
  shows "legacy_step i (canonicalStep raw) = None"
proof -
  obtain s where s: "raw = JObj s" using assms(1) by (cases raw) (auto simp: legacy_step_def)
  let ?a = "any_string (any_get s ''action'')"
  from assms(1) s have a: "?a \<in> set supportedActions" and ok: "validateStep i ?a s = None"
    by (auto simp: legacy_step_def Let_def fails_if_def split: if_splits)
  note kept = canonical_step_kept [OF supported_trimmed [OF a] refl]
  have "validateStep i ?a (object_members (canonicalStep raw)) = None"
    unfolding s using assms(2) s kept by (intro validateStep_kept [OF ok]) (simp_all add: object_members_def)
  moreover obtain s' where s': "canonicalStep raw = JObj s'" by (simp add: canonicalStep_def Let_def marshal_map_def)
  ultimately show ?thesis
    using a kept(1) by (simp add: legacy_step_def s [symmetric] object_members_def)
qed

subsection \<open>Steps of research-v1\<close>

definition locator_action :: "string \<Rightarrow> bool" where
  "locator_action a \<longleftrightarrow> a \<in> {''click'', ''input'', ''wait_for'', ''assert_text'', ''capture_text''}"

lemma research_locator_get:
  "any_get (canonicalResearchLocatorFields s) k =
     (if k = ''target'' then JStr (trimmedString (any_get s ''target''))
      else if k = ''page_state'' then optionalTrimmedString (any_get s ''page_state'')
      else if k = ''target_strategy'' then optionalTrimmedString (any_get s ''target_strategy'')
      else if k = ''locator_confidence'' \<and> exists_member s k then optionalTrimmedString (any_get s k)
      else if k = ''candidates'' \<and> exists_member s k then canonicalCandidates (any_get s k)
      else JNull)"
  and research_locator_exists:
  "exists_member (canonicalResearchLocatorFields s) k \<longleftrightarrow>
     k \<in> {''target'', ''page_state'', ''target_strategy''} \<or>
     k \<in> {''locator_confidence'', ''candidates''} \<and> exists_member s k"
  by (auto simp: canonicalResearchLocatorFields_def)

text \<open>What the action adds.\<close>

definition research_extra :: "obj \<Rightarrow> string \<Rightarrow> obj" where
  "research_extra s a =
     (if a \<in> {''goto'', ''assert_url_contains''} then
        [(''target'', JStr (trimmedString (any_get s ''target''))),
         (''value'', JStr (trimmedString (any_get s ''value'')))]
      else if a = ''click'' then canonicalResearchLocatorFields s
      else if a = ''input'' then canonicalResearchLocatorFields s @
        [(''value'', JStr (trimmedString (any_get s ''value''))),
         (''trigger'', optionalTrimmedString (any_get s ''trigger''))]
      else if a = ''wait_for'' then canonicalResearchLocatorFields s @
        [(''timeout_ms'', valueOrDefault s ''timeout_ms'' (JInt 5000))]
      else if a = ''assert_text'' then canonicalResearchLocatorFields s @
        [(''value'', JStr (trimmedString (any_get s ''value'')))]
      else if a = ''capture_text'' then canonicalResearchLocatorFields s @
        [(''context_key'', JStr (trimmedString (any_get s ''context_key'')))]
      else [])"

lemma research_members:
  assumes "trimmedString (any_get s ''action'') = a"
  shows "object_members (canonicalResearchStep (JObj s)) = sort_key fst (
     [(''action'', JStr a),
      (''intent'', JStr (trimmedString (any_get s ''intent''))),
      (''idempotency'', JStr (trimmedString (any_get s ''idempotency''))),
      (''side_effect'', JStr (trimmedString (any_get s ''side_effect''))),
      (''preconditions'', canonicalConditions (any_get s ''preconditions'')),
      (''postconditions'', canonicalConditions (any_get s ''postconditions''))] @ research_extra s a)"
  using assms by (simp add: canonicalResearchStep_def object_members_def [of "JObj s"] research_extra_def)

lemma research_extra_get:
  assumes "a \<in> set supportedActions"
  shows "any_get (research_extra s a) ''target'' = JStr (trimmedString (any_get s ''target''))"
    and "a \<in> {''goto'', ''assert_url_contains'', ''input'', ''assert_text''} \<Longrightarrow>
      any_get (research_extra s a) ''value'' = JStr (trimmedString (any_get s ''value''))"
    and "a = ''capture_text'' \<Longrightarrow>
      any_get (research_extra s a) ''context_key'' = JStr (trimmedString (any_get s ''context_key''))"
    and "exists_member (research_extra s a) ''timeout_ms'' \<Longrightarrow>
      any_get (research_extra s a) ''timeout_ms'' = valueOrDefault s ''timeout_ms'' (JInt 5000)"
    and "exists_member (research_extra s a) ''candidates'' \<longleftrightarrow> exists_member s ''candidates'' \<and> locator_action a"
    and "exists_member (research_extra s a) ''locator_confidence'' \<longleftrightarrow>
      exists_member s ''locator_confidence'' \<and> locator_action a"
    and "exists_member (research_extra s a) ''candidates'' \<Longrightarrow>
      any_get (research_extra s a) ''candidates'' = canonicalCandidates (any_get s ''candidates'')"
    and "exists_member (research_extra s a) ''locator_confidence'' \<Longrightarrow>
      any_get (research_extra s a) ''locator_confidence'' = optionalTrimmedString (any_get s ''locator_confidence'')"
    and "any_get (research_extra s a) ''target_strategy'' \<in> {JNull, optionalTrimmedString (any_get s ''target_strategy'')}"
    and "any_get (research_extra s a) ''page_state'' \<in> {JNull, optionalTrimmedString (any_get s ''page_state'')}"
    and "any_get (research_extra s a) ''trigger'' \<in> {JNull, optionalTrimmedString (any_get s ''trigger'')}"
  using assms unfolding research_extra_def
  by (cases a rule: action_cases; simp add: research_locator_get research_locator_exists locator_action_def)+

lemma research_step_kept:
  assumes "trimmedString (any_get s ''action'') = a" and "s' = object_members (canonicalResearchStep (JObj s))"
    and "a \<in> set supportedActions"
  shows "any_get s' ''action'' = JStr a" "parameters_kept a s s'" "timeout_kept s s'"
    "optional_kept canonicalCandidates s s' ''candidates''"
    "f \<in> {''preconditions'', ''postconditions''} \<Longrightarrow>
      any_get s' f = canonicalConditions (any_get s f) \<and> exists_member s' f"
    "f \<in> {''locator_confidence'', ''target_strategy'', ''page_state'', ''trigger''} \<Longrightarrow>
      optional_kept optionalTrimmedString s s' f"
    "f \<in> {''intent'', ''idempotency'', ''side_effect'', ''target''} \<Longrightarrow> kept_text s s' f"
    "f \<in> {''candidates'', ''locator_confidence''} \<Longrightarrow>
      exists_member s' f \<longleftrightarrow> exists_member s f \<and> locator_action a"
    "locator_action a \<Longrightarrow> exists_member s ''candidates'' \<Longrightarrow>
      any_get s' ''candidates'' = canonicalCandidates (any_get s ''candidates'')"
    "locator_action a \<Longrightarrow> exists_member s ''locator_confidence'' \<Longrightarrow>
      any_get s' ''locator_confidence'' = optionalTrimmedString (any_get s ''locator_confidence'')"
proof -
  let ?x = "research_extra s a"
  note x = research_extra_get [OF assms(3), of s]
  have none: "any_get ?x f = JNull" if "\<not> exists_member ?x f" for f using that by (rule not_exists_get)
  have get: "any_get s' f = (if f = ''action'' then JStr a
      else if f \<in> {''intent'', ''idempotency'', ''side_effect''} then JStr (trimmedString (any_get s f))
      else if f \<in> {''preconditions'', ''postconditions''} then canonicalConditions (any_get s f)
      else any_get ?x f)" for f
    unfolding assms(2) research_members [OF assms(1)] by simp
  have ex: "exists_member s' f \<longleftrightarrow> f \<in> {''action'', ''intent'', ''idempotency'', ''side_effect'', ''preconditions'',
      ''postconditions''} \<or> exists_member ?x f" for f
    unfolding assms(2) research_members [OF assms(1)] by simp
  show "any_get s' ''action'' = JStr a" by (simp add: get)
  show "parameters_kept a s s'" using x(1,2,3) by (simp add: parameters_kept_def kept_text_def get)
  show "timeout_kept s s'" using x(4) by (simp add: timeout_kept_def get ex valueOrDefault_get)
  show "optional_kept canonicalCandidates s s' ''candidates''"
    using x(7) none [of "''candidates''"] by (auto simp: optional_kept_def get)
  show "f \<in> {''preconditions'', ''postconditions''} \<Longrightarrow>
      any_get s' f = canonicalConditions (any_get s f) \<and> exists_member s' f"
    by (auto simp: get ex)
  have "optional_kept optionalTrimmedString s s' ''locator_confidence''"
    using x(8) none [of "''locator_confidence''"] by (auto simp: optional_kept_def get)
  moreover have "optional_kept optionalTrimmedString s s' ''target_strategy''"
      "optional_kept optionalTrimmedString s s' ''page_state''" "optional_kept optionalTrimmedString s s' ''trigger''"
    using x(9,10,11) by (auto simp: optional_kept_def get)
  ultimately show "f \<in> {''locator_confidence'', ''target_strategy'', ''page_state'', ''trigger''} \<Longrightarrow>
      optional_kept optionalTrimmedString s s' f" by blast
  show "f \<in> {''intent'', ''idempotency'', ''side_effect'', ''target''} \<Longrightarrow> kept_text s s' f"
    using x(1) by (elim insertE) (simp_all add: kept_text_def get)
  show "f \<in> {''candidates'', ''locator_confidence''} \<Longrightarrow>
      exists_member s' f \<longleftrightarrow> exists_member s f \<and> locator_action a"
    using x(5,6) by (elim insertE) (simp_all add: ex)
  show "locator_action a \<Longrightarrow> exists_member s ''candidates'' \<Longrightarrow>
      any_get s' ''candidates'' = canonicalCandidates (any_get s ''candidates'')"
    using x(5,7) by (simp add: get)
  show "locator_action a \<Longrightarrow> exists_member s ''locator_confidence'' \<Longrightarrow>
      any_get s' ''locator_confidence'' = optionalTrimmedString (any_get s ''locator_confidence'')"
    using x(6,8) by (simp add: get)
qed

lemma research_step_fields:
  assumes "trimmedString (any_get s ''action'') = a" and "a \<in> set supportedActions"
  shows "rejectUnknownFields place (object_members (canonicalResearchStep (JObj s))) (researchStepFields a) = None"
  unfolding canonicalResearchStep_def Let_def object_members_marshal rejectUnknownFields_sort rejectUnknownFields_None
  using assms
  by (cases a rule: action_cases; auto simp: step_members researchStepFields_def locatorStepFields_def
    object_members_def)

lemma condition_fields:
  "rejectUnknownFields place (object_members (canonicalCondition x)) conditionFields = None"
  by (auto simp: canonicalCondition_def Let_def rejectUnknownFields_None if_exists_get conditionFields_def)

lemma candidate_fields:
  "rejectUnknownFields place (object_members (canonicalCandidate x)) candidateFields = None"
  by (auto simp: canonicalCandidate_def Let_def rejectUnknownFields_None candidateFields_def)

lemma contract_fields:
  "rejectUnknownFields place (object_members (canonicalContract (f = ''input_contract'') x)) (contractFields f) = None"
  by (auto simp: canonicalContract_def Let_def rejectUnknownFields_None contractFields_def)

lemma canonical_is_object:
  "canonicalCondition x = JObj (object_members (canonicalCondition x))"
  "canonicalCandidate x = JObj (object_members (canonicalCandidate x))"
  "canonicalContract b x = JObj (object_members (canonicalContract b x))"
  "canonicalStep x = JObj (object_members (canonicalStep x))"
  "canonicalResearchStep x = JObj (object_members (canonicalResearchStep x))"
  by (simp_all add: canonicalCondition_def canonicalCandidate_def canonicalContract_def canonicalStep_def
    canonicalResearchStep_def Let_def marshal_map_def object_members_def)

lemma first_error_from_none: "(\<And>k x. x \<in> set xs \<Longrightarrow> f k x = None) \<Longrightarrow> first_error_from f i xs = None"
  by (induction xs arbitrary: i) auto

lemma research_conditions_ok:
  assumes "validateResearchConditions i f (items j) = None" and "list_all named_method (items j)"
  shows "validateResearchConditions i f (items (canonicalConditions j)) = None"
proof -
  have "validateConditions i f (JArr (items j)) = None" using assms(1) by (simp add: validateResearchConditions_def)
  then have "validateConditions i f (canonicalConditions j) = None"
    using canonical_conditions_ok [of i f "JArr (items j)"] assms(2) by (simp add: canonicalConditions_def)
  moreover have "(case canonicalCondition x of
      JObj condition \<Rightarrow> rejectUnknownFields (AtCondition i f k) condition conditionFields
    | _ \<Rightarrow> Some (DslField (AtCondition i f k) [] NotObject)) = None" for k x
    by (subst canonical_is_object) (simp add: condition_fields)
  ultimately show ?thesis
    by (auto simp: validateResearchConditions_def canonicalConditions_def intro!: first_error_from_none)
qed

lemma canonical_strategy_executable:
  assumes "a \<in> set executableCandidateStrategies"
  shows "canonical_strategy a \<in> set executableCandidateStrategies"
    and "hasVerifiedPreflightProvenance (canonical_strategy a) features = hasVerifiedPreflightProvenance a features"
  using assms
  by (auto simp: executableCandidateStrategies_def canonical_strategy_def hasVerifiedPreflightProvenance_def
    HasPrefix_def)

lemma canonical_candidate_executable:
  assumes "executable_candidate i k x = None"
  shows "executable_candidate i k (canonicalCandidate x) = None"
    and "verified_candidate (canonicalCandidate x) = verified_candidate x"
proof -
  obtain c where c: "x = JObj c" using assms by (cases x) (auto simp: executable_candidate_def)
  let ?c = "object_members (canonicalCandidate x)"
  have gets: "any_get ?c ''strategy'' = JStr (canonical_strategy (trimmedString (any_get c ''strategy'')))"
      "any_get ?c ''selector'' = optionalTrimmedString (any_get c ''selector'')"
      "any_get ?c ''pre_features'' = any_get c ''pre_features''"
    by (simp_all add: canonicalCandidate_def Let_def c object_members_def [of "JObj c"] valueOrDefault_get not_exists_get)
  from assms c have s: "trimmedString (any_get c ''strategy'') \<in> set executableCandidateStrategies"
      and n: "\<not> blank (any_string (any_get c ''selector''))"
    by (auto simp: executable_candidate_def Let_def fails_if_def trim_string split: if_splits)
  have trim: "TrimSpace (canonical_strategy (trimmedString j)) = canonical_strategy (trimmedString j)" for j
    using trim_canonical_strategy [of j] by (simp add: trimmedString_def)
  show "executable_candidate i k (canonicalCandidate x) = None"
    using canonical_strategy_executable(1) [OF s] n
    by (subst canonical_is_object)
      (simp add: executable_candidate_def Let_def candidate_fields gets trim fails_if_def any_string_optional)
  show "verified_candidate (canonicalCandidate x) = verified_candidate x"
    unfolding verified_candidate_def Let_def gets trim_string any_string_JStr trim
    using canonical_strategy_executable(2) [OF s]
    by (cases "any_get c ''pre_features''") (simp_all add: trimmedString_def [of "JStr x" for x] trim c object_members_def [of "JObj c"])
qed

text \<open>The check of the phase.\<close>

lemma executable_locator_ok:
  assumes "validateExecutableLocator i s = None"
    and "any_get s' ''candidates'' = canonicalCandidates (any_get s ''candidates'')"
    and "any_get s' ''locator_confidence'' = optionalTrimmedString (any_get s ''locator_confidence'')"
  shows "validateExecutableLocator i s' = None"
proof -
  from assms(1) obtain c cs where cs: "any_get s ''candidates'' = JArr (c # cs)"
      "first_error_from (executable_candidate i) 0 (c # cs) = None" "list_ex verified_candidate (c # cs)"
    and conf: "is_text (any_get s ''locator_confidence'')"
      "trimmedString (any_get s ''locator_confidence'') \<in> {''high'', ''medium''}"
    by (auto simp: validateExecutableLocator_def fails_if_def trim_string
      split: if_splits json.splits list.splits)
  have "first_error_from (executable_candidate i) 0 (map canonicalCandidate (c # cs)) = None"
    by (rule first_error_from_map [OF _ cs(2)]) (rule canonical_candidate_executable(1))
  moreover have "list_ex verified_candidate (map canonicalCandidate (c # cs))"
  proof -
    have "verified_candidate (canonicalCandidate x) = verified_candidate x" if "x \<in> set (c # cs)" for x
      using first_error_from_in [OF cs(2) that] canonical_candidate_executable(2) by blast
    with cs(3) show ?thesis by (auto simp: list_ex_iff)
  qed
  moreover have "is_text (any_get s' ''locator_confidence'')"
      "trimmedString (any_get s' ''locator_confidence'') \<in> {''high'', ''medium''}"
    using conf assms(3) by (auto simp: optionalTrimmedString_def is_text_def)
  ultimately show ?thesis
    using assms(2) cs(1)
    by (simp add: validateExecutableLocator_def canonicalCandidates_def items_def fails_if_def trim_string)
qed

lemma phase_checks_ok:
  assumes ok: "phase_checks i a s phase = None"
    and unknown: "rejectUnknownFields (AtStep i) s (researchStepFields a) = None"
    and action: "trimmedString (any_get s ''action'') = a" and supported: "a \<in> set supportedActions"
    and s': "s' = object_members (canonicalResearchStep (JObj s))"
  shows "phase_checks i a s' phase = None"
proof -
  note kept = research_step_kept [OF action s' supported]
  show ?thesis
  proof (cases "phase = ValidationPhaseDraft")
    case True
    with ok kept(8) show ?thesis by (auto simp: phase_checks_def fails_if_def split: if_splits)
  next
    case False
    have requires: "requiresPreflightCandidates a s' \<Longrightarrow> requiresPreflightCandidates a s"
      using kept(6) [of "''target_strategy''"] kept(7) [of "''target''"]
      by (auto simp: requiresPreflightCandidates_def Let_def optional_kept_def kept_text_def
        any_string_optional any_string_def [of JNull])
    have has: "hasPreflightCandidates s' \<Longrightarrow> hasPreflightCandidates s"
      using kept(4) by (auto simp: hasPreflightCandidates_def optional_kept_def canonicalCandidates_def items_def
        split: json.splits)
    show ?thesis
    proof (cases "requiresPreflightCandidates a s' \<or> hasPreflightCandidates s'")
      case True
      with requires has False ok have v: "validateExecutableLocator i s = None"
        by (auto simp: phase_checks_def split: if_splits)
      then have e: "exists_member s ''candidates''" "exists_member s ''locator_confidence''"
        by (auto simp: validateExecutableLocator_def is_text_def intro: exists_get split: if_splits json.splits list.splits)
      have "''candidates'' \<in> set (researchStepFields a)"
        using unknown e(1) by (auto simp: rejectUnknownFields_None exists_key)
      then have "locator_action a"
        by (simp add: researchStepFields_def locator_action_def split: if_splits)
      with v e kept(9,10) have "validateExecutableLocator i s' = None" by (intro executable_locator_ok [OF v])
      with False show ?thesis by (simp add: phase_checks_def)
    qed (use False in \<open>simp add: phase_checks_def\<close>)
  qed
qed

end
