(* ===== verification/DslV1Fixed.thy ===== *)
theory DslV1Fixed
  imports DslV1Cases
begin

section \<open>The validation of a canonical case returns it\<close>

text \<open>
  The steps of \<open>DslV1Cases\<close> lifted to cases: a canonical case of legacy-v1 or research-v1 passes
  every check of its profile and is its own canonical form.
\<close>

subsection \<open>A step of research-v1\<close>

lemma research_conditions_empty: "items (canonicalConditions j) = [] \<longleftrightarrow> items j = []"
  by (simp add: canonicalConditions_def)

lemma action_semantics_kept:
  assumes "kept_text s s' ''idempotency''" and "kept_text s s' ''side_effect''"
    and "pre' = [] \<longleftrightarrow> pre = []" and "post' = [] \<longleftrightarrow> post = []"
  shows "action_semantics i a s' pre' post' = action_semantics i a s pre post"
  using assms by (simp add: action_semantics_def Let_def kept_text_def trim_string)

lemma requireBoundedText_kept:
  "requireBoundedText s f i n = None \<Longrightarrow> kept_text s s' f \<Longrightarrow> requireBoundedText s' f i n = None"
  by (auto simp: requireBoundedText_def kept_text_def fails_if_def trimmedString_def any_string_def blank_TrimSpace
    split: json.splits if_splits)

lemma validRequiredEnum_kept:
  "validRequiredEnum s f allowed \<Longrightarrow> kept_text s s' f \<Longrightarrow> validRequiredEnum s' f allowed"
  by (auto simp: validRequiredEnum_def kept_text_def trimmedString_def any_string_def split: json.splits)

lemma validateResearchStep_iff:
  assumes "a = any_string (any_get s ''action'')"
  shows "validateResearchStep phase i s = None \<longleftrightarrow>
    a \<in> set supportedActions \<and> rejectUnknownFields (AtStep i) s (researchStepFields a) = None \<and>
    requireBoundedText s ''intent'' i 500 = None \<and>
    requiredConditionArray i ''preconditions'' s = None \<and> requiredConditionArray i ''postconditions'' s = None \<and>
    validateResearchConditions i ''preconditions'' (items (any_get s ''preconditions'')) = None \<and>
    validateResearchConditions i ''postconditions'' (items (any_get s ''postconditions'')) = None \<and>
    validRequiredEnum s ''idempotency'' idempotencies \<and> validRequiredEnum s ''side_effect'' sideEffects \<and>
    (a \<in> {''goto'', ''assert_url_contains''} \<longrightarrow> requireText s ''target'' i = None) \<and>
    action_semantics i a s (items (any_get s ''preconditions'')) (items (any_get s ''postconditions'')) = None \<and>
    validateStep i a s = None \<and> phase_checks i a s phase = None"
  unfolding validateResearchStep_def Let_def checks_None validateResearchActionSemantics_def assms
  by (simp add: fails_if_def)

lemma canonical_research_step_ok:
  assumes ok: "validateResearchStep phase i s = None" and named: "named_methods s"
  shows "validateResearchStep phase i (object_members (canonicalResearchStep (JObj s))) = None"
proof -
  define a where "a = any_string (any_get s ''action'')"
  define s' where "s' = object_members (canonicalResearchStep (JObj s))"
  note o = ok [unfolded validateResearchStep_iff [OF a_def]]
  from o have supported: "a \<in> set supportedActions" by blast
  then have action: "trimmedString (any_get s ''action'') = a" by (simp add: supported_trimmed a_def)
  note kept = research_step_kept [OF action s'_def supported]
  from kept(1) have a': "a = any_string (any_get s' ''action'')" by simp
  have conditions: "validateResearchConditions i f (items (any_get s' f)) = None"
    if "f \<in> {''preconditions'', ''postconditions''}" for f
    using that o named kept(5) [OF that] research_conditions_ok [of i f "any_get s f"] by (auto simp: named_methods_def)
  have arrays: "requiredConditionArray i f s' = None" if "f \<in> {''preconditions'', ''postconditions''}" for f
    using kept(5) [OF that]
    by (auto simp: requiredConditionArray_def exists_member_def any_get_def canonicalConditions_def fails_if_def
      is_array_def split: option.splits)
  have semantics: "action_semantics i a s' (items (any_get s' ''preconditions'')) (items (any_get s' ''postconditions'')) = None"
  proof -
    have "action_semantics i a s' (items (any_get s' ''preconditions'')) (items (any_get s' ''postconditions'')) =
        action_semantics i a s (items (any_get s ''preconditions'')) (items (any_get s ''postconditions''))"
      by (rule action_semantics_kept) (simp_all add: kept(5) kept(7) research_conditions_empty)
    with o show ?thesis by (simp only:)
  qed
  have "validateStep i a s' = None"
    using o kept by (intro validateStep_kept [OF _ named kept(2)]) (simp_all add: optional_kept_def)
  moreover have "requireBoundedText s' ''intent'' i 500 = None" "validRequiredEnum s' ''idempotency'' idempotencies"
      "validRequiredEnum s' ''side_effect'' sideEffects"
      "a \<in> {''goto'', ''assert_url_contains''} \<longrightarrow> requireText s' ''target'' i = None"
  proof -
    have k: "kept_text s s' ''intent''" "kept_text s s' ''idempotency''" "kept_text s s' ''side_effect''"
        "kept_text s s' ''target''"
      by (simp_all add: kept(7))
    from o show "requireBoundedText s' ''intent'' i 500 = None" by (elim conjE) (rule requireBoundedText_kept [OF _ k(1)])
    from o show "validRequiredEnum s' ''idempotency'' idempotencies"
      by (elim conjE) (rule validRequiredEnum_kept [OF _ k(2)])
    from o show "validRequiredEnum s' ''side_effect'' sideEffects"
      by (elim conjE) (rule validRequiredEnum_kept [OF _ k(3)])
    from o show "a \<in> {''goto'', ''assert_url_contains''} \<longrightarrow> requireText s' ''target'' i = None"
      by (elim conjE) (intro impI requireText_kept [OF _ k(4)], erule mp)
  qed
  moreover have "phase_checks i a s' phase = None"
    using o by (intro phase_checks_ok [OF _ _ action supported s'_def]) blast+
  moreover have "rejectUnknownFields (AtStep i) s' (researchStepFields a) = None"
    unfolding s'_def by (rule research_step_fields [OF action supported])
  ultimately show ?thesis
    unfolding s'_def [symmetric] validateResearchStep_iff [OF a']
    using supported conditions arrays semantics by (intro conjI) simp_all
qed

subsection \<open>Headings and contracts\<close>

definition canonical_heading :: "obj \<Rightarrow> obj \<Rightarrow> bool" where
  "canonical_heading m m' \<longleftrightarrow> any_get m' ''name'' = JStr (case_name m) \<and>
     any_get m' ''description'' = optionalTrimmedString (any_get m ''description'') \<and>
     any_get m' ''base_url'' = optionalTrimmedString (any_get m ''base_url'')"

lemma optional_text_kept':
  assumes "validateOptionalText m f n = None" and "any_get m' f = optionalTrimmedString (any_get m f)"
  shows "validateOptionalText m' f n = None"
  using assms RuneCount_TrimSpace [of "any_string (any_get m f)"]
  by (auto simp: validateOptionalText_def optionalTrimmedString_def trimmedString_def any_string_def fails_if_def
    blank_TrimSpace split: json.splits if_splits)

lemma canonical_heading_ok:
  assumes "check_heading m = None" and "canonical_heading m m'"
  shows "check_heading m' = None"
  using assms optional_text_kept' [of m "''description''" 1000 m'] optional_text_kept' [of m "''base_url''" 500 m']
    case_name_put [of m' m]
  by (simp add: check_heading_def canonical_heading_def)

lemma canonical_contracts_pass:
  assumes "check_contracts validate m f = None"
    and "\<And>cs. validate f cs = None \<Longrightarrow> validate f (map (canonicalContract b) cs) = None"
    and "validate f [] = None" and "f \<in> {''input_contract'', ''output_contract''}"
    and "any_get m' f = canonicalContracts (any_get (with_default_contracts m) f) b"
  shows "check_contracts validate m' f = None"
proof -
  have "\<exists>cs. any_get (with_default_contracts m) f = JArr cs \<and> validate f cs = None"
    using assms(1,3,4)
    by (auto simp: any_get_def default_contracts_get check_contracts_def split: option.splits json.splits)
  with assms(2,5) show ?thesis
    by (auto simp: check_contracts_def canonicalContracts_def any_get_def split: option.splits)
qed

lemma research_contracts_ok:
  assumes "validateResearchContracts f cs = None"
  shows "validateResearchContracts f (map (canonicalContract (f = ''input_contract'')) cs) = None"
proof -
  have "(case canonicalContract (f = ''input_contract'') x of
      JObj contract \<Rightarrow> rejectUnknownFields (AtContract f k) contract (contractFields f)
    | _ \<Rightarrow> Some (DslField (AtContract f k) [] NotObject)) = None" for k x
    by (subst canonical_is_object) (simp add: contract_fields)
  then show ?thesis
    using assms canonical_contracts_ok [of f cs]
    by (auto simp: validateResearchContracts_def intro!: first_error_from_none)
qed

subsection \<open>Cases\<close>

text \<open>No condition of the steps has an explicit \<open>null\<close> method.\<close>

definition steps_named :: "obj \<Rightarrow> bool" where
  "steps_named m \<longleftrightarrow> list_all (\<lambda>x. named_methods (object_members x)) (items (any_get m ''steps''))"

lemma canonicalCase_get:
  "map_of (sort_key fst (canonicalCase y)) k = map_of (canonicalCase y) k"
  "map_of (sort_key fst (canonicalResearchCase y)) k = map_of (canonicalResearchCase y) k"
  by (simp_all add: map_of_sort_any)

lemma normal_y: "normal_json (JObj m) \<Longrightarrow> normal_json (any_get (with_default_contracts m) k)"
  using normal_get [of m k] by (auto simp: any_get_def default_contracts_get split: option.splits
    simp del: normal_json.simps(3))

lemma normal_canonical_case:
  assumes "normal_json (JObj m)"
  shows "normal_json (marshal_map (canonicalCase (with_default_contracts m)))"
    and "normal_json (marshal_map (canonicalResearchCase (with_default_contracts m)))"
proof -
  have "list_all normal_json (items (any_get (with_default_contracts m) ''steps''))"
    by (rule normal_items [OF normal_y [OF assms]])
  then show "normal_json (marshal_map (canonicalCase (with_default_contracts m)))"
      "normal_json (marshal_map (canonicalResearchCase (with_default_contracts m)))"
    using normal_canonical_lists(3) [OF normal_y [OF assms]] normal_canonical_steps
    by (auto intro!: normal_marshal_list simp: canonicalCase_def canonicalResearchCase_def canonicalSteps_def
      canonicalResearchSteps_def list_all_iff)
qed

lemma y_get:
  "k \<notin> {''name'', ''input_contract'', ''output_contract''} \<Longrightarrow> any_get (with_default_contracts m) k = any_get m k"
  "any_get (with_default_contracts m) ''name'' = JStr (case_name m)"
  by (simp_all add: any_get_def default_contracts_get)

lemma trimmed_name [simp]: "trimmedString (JStr (case_name m)) = case_name m"
  by (simp add: case_name_def trimmedString_def any_string_def)

lemma canonical_case_fixed:
  fixes m :: obj
  defines "c \<equiv> sort_key fst (canonicalCase (with_default_contracts m))"
    and "c' \<equiv> sort_key fst (canonicalResearchCase (with_default_contracts m))"
  shows "canonicalCase (with_default_contracts c) = canonicalCase (with_default_contracts m)"
    and "canonicalResearchCase (with_default_contracts c') = canonicalResearchCase (with_default_contracts m)"
proof -
  have n: "case_name c = case_name m" "case_name c' = case_name m"
    by (rule case_name_put; simp add: c_def c'_def canonicalCase_def canonicalResearchCase_def y_get)+
  have e: "any_get (with_default_contracts x) f = any_get x f" if "exists_member x f" "f \<noteq> ''name''" for x f
    using that by (auto simp: any_get_def default_contracts_get exists_member_def split: option.splits)
  have ex: "exists_member c f" "exists_member c' f" if "f \<in> {''input_contract'', ''output_contract''}" for f
    using that by (auto simp: c_def c'_def canonicalCase_def canonicalResearchCase_def)
  show "canonicalCase (with_default_contracts c) = canonicalCase (with_default_contracts m)"
    by (simp add: canonicalCase_def [of "with_default_contracts c"] y_get n e ex)
      (simp add: c_def canonicalCase_def y_get)
  show "canonicalResearchCase (with_default_contracts c') = canonicalResearchCase (with_default_contracts m)"
    by (simp add: canonicalResearchCase_def [of "with_default_contracts c'"] y_get n e ex)
      (simp add: c'_def canonicalResearchCase_def y_get)
qed

lemma canonical_steps_pass:
  assumes "check_steps f m = None" and "any_get m' ''steps'' = JArr (map g (items (any_get m ''steps'')))"
    and "\<And>i x. x \<in> set (items (any_get m ''steps'')) \<Longrightarrow> f i x = None \<Longrightarrow> f i (g x) = None"
  shows "check_steps f m' = None"
proof -
  from assms(1) obtain ss where ss: "any_get m ''steps'' = JArr ss" "ss \<noteq> []" "first_error_from f 0 ss = None"
    unfolding check_steps_iff by blast
  have "first_error_from f 0 (map g ss) = None"
    by (rule first_error_from_map [OF _ ss(3)]) (use assms(3) ss(1) in simp)
  with assms(2) ss(1,2) show ?thesis by (simp add: check_steps_iff)
qed

lemma legacy_canonical:
  assumes m: "normal_json (JObj m)" and ok: "validateLegacyCase (Some (JObj m)) = Inr (c, url)"
  obtains d m' where "any_get d ''steps'' = any_get m ''steps''" and "c = JObj m'"
    and "m' = sort_key fst (canonicalCase (with_default_contracts d))"
    and "url = any_string (any_get (canonicalCase (with_default_contracts d)) ''base_url'')"
    and "normal_json (JObj m')" and "map_of m' ''profile'' = None" and "assoc_del ''_preflight'' m' = m'"
    and "check_steps legacy_step d = None"
    and "any_get m' ''steps'' = JArr (map canonicalStep (items (any_get d ''steps'')))"
    and "check_heading m' = None" and "check_contracts validateContracts m' ''input_contract'' = None"
    and "check_contracts validateContracts m' ''output_contract'' = None"
proof -
  define d where "d = assoc_del ''_preflight'' m"
  define m' where "m' = sort_key fst (canonicalCase (with_default_contracts d))"
  have nd: "normal_json (JObj d)" using m by (auto simp: d_def assoc_del_def list_all_iff distinct_map_filter sorted_filter)
  have o: "check_heading d = None" "check_steps legacy_step d = None"
      "check_contracts validateContracts d ''input_contract'' = None"
      "check_contracts validateContracts d ''output_contract'' = None"
    and c: "c = JObj m'" and url: "url = any_string (any_get (canonicalCase (with_default_contracts d)) ''base_url'')"
    using ok unfolding validateLegacyCase_def as_object_JObj [OF m] option.case Let_def checked_iff d_def [symmetric]
    by (auto simp: m'_def marshal_map_def)
  have n: "normal_json (JObj m')" using normal_canonical_case(1) [OF nd] by (simp add: m'_def marshal_map_def)
  have gets: "any_get m' ''name'' = JStr (case_name d)"
      "any_get m' ''description'' = optionalTrimmedString (any_get d ''description'')"
      "any_get m' ''base_url'' = optionalTrimmedString (any_get d ''base_url'')"
      "any_get m' ''input_contract'' = canonicalContracts (any_get (with_default_contracts d) ''input_contract'') True"
      "any_get m' ''output_contract'' = canonicalContracts (any_get (with_default_contracts d) ''output_contract'') False"
      "any_get m' ''steps'' = JArr (map canonicalStep (items (any_get d ''steps'')))"
    by (simp_all add: m'_def canonicalCase_def y_get canonicalSteps_def)
  have profile: "map_of m' ''profile'' = None" by (simp add: m'_def map_of_sort_any canonicalCase_def)
  have del: "assoc_del ''_preflight'' m' = m'"
    by (auto simp: assoc_del_def m'_def canonicalCase_def filter_id_conv)
  have contracts: "check_contracts validateContracts m' ''input_contract'' = None"
      "check_contracts validateContracts m' ''output_contract'' = None"
    using canonical_contracts_pass [OF o(3) _ _ _ gets(4)] canonical_contracts_pass [OF o(4) _ _ _ gets(5)]
      canonical_contracts_ok [of "''input_contract''"] canonical_contracts_ok [of "''output_contract''"]
    by (simp_all add: empty_contracts_ok)
  have heading: "check_heading m' = None"
    by (rule canonical_heading_ok [OF o(1)]) (simp add: canonical_heading_def gets)
  have "any_get d ''steps'' = any_get m ''steps''" by (simp add: d_def)
  from that [OF this c m'_def url n profile del o(2) gets(6) heading contracts] show thesis .
qed

lemma legacy_case_fixed:
  assumes m: "normal_json (JObj m)" and ok: "validateLegacyCase (Some (JObj m)) = Inr (c, url)"
    and named: "steps_named m"
  shows "validateLegacyCase (Some c) = Inr (c, url)"
  using m ok
proof (cases rule: legacy_canonical)
  case (1 d m')
  have steps: "check_steps legacy_step m' = None"
    by (rule canonical_steps_pass [OF 1(8,9)])
      (use named 1(1) in \<open>auto intro!: canonical_step_ok simp: steps_named_def list_all_iff\<close>)
  show ?thesis
    unfolding 1(2) validateLegacyCase_def as_object_JObj [OF 1(5)] option.case Let_def checked_iff 1(7)
    using 1(4,10-12) steps canonical_case_fixed(1) [of d]
    by (simp add: 1(3) [symmetric] marshal_map_def)
qed

lemma research_canonical:
  assumes m: "normal_json (JObj m)" and ok: "validateResearchCase (Some (JObj m)) phase = Inr v"
  obtains m' where "vc_canonical v = JObj m'" and "phase_error phase = None"
    and "m' = sort_key fst (canonicalResearchCase (with_default_contracts m))"
    and "v = \<lparr>vc_canonical = marshal_map (canonicalResearchCase (with_default_contracts m)),
        vc_base_url = any_string (any_get (canonicalResearchCase (with_default_contracts m)) ''base_url''),
        vc_profile = ProfileResearchV1, vc_version = CanonicalVersionV2, vc_phase = phase\<rparr>"
    and "normal_json (JObj m')" and "map_of m' ''profile'' = Some (JStr ProfileResearchV1)"
    and "rejectUnknownFields AtCase m' researchCaseFields = None"
    and "check_steps (object_step (validateResearchStep phase)) m = None"
    and "any_get m' ''steps'' = JArr (map canonicalResearchStep (items (any_get m ''steps'')))"
    and "check_heading m' = None" and "check_contracts validateResearchContracts m' ''input_contract'' = None"
    and "check_contracts validateResearchContracts m' ''output_contract'' = None"
proof -
  define m' where "m' = sort_key fst (canonicalResearchCase (with_default_contracts m))"
  have phase: "phase_error phase = None"
    using ok by (cases "phase_error phase") (simp_all add: validateResearchCase_def)
  have o: "check_heading m = None" "check_steps (object_step (validateResearchStep phase)) m = None"
      "check_contracts validateResearchContracts m ''input_contract'' = None"
      "check_contracts validateResearchContracts m ''output_contract'' = None"
    and c: "vc_canonical v = JObj m'" and v: "v = \<lparr>vc_canonical = marshal_map (canonicalResearchCase (with_default_contracts m)),
        vc_base_url = any_string (any_get (canonicalResearchCase (with_default_contracts m)) ''base_url''),
        vc_profile = ProfileResearchV1, vc_version = CanonicalVersionV2, vc_phase = phase\<rparr>"
    using ok phase unfolding validateResearchCase_def as_object_JObj [OF m] option.case Let_def checked_iff
    by (auto simp: m'_def marshal_map_def checked_iff simp del: checks_None)
  have n: "normal_json (JObj m')" using normal_canonical_case(2) [OF m] by (simp add: m'_def marshal_map_def)
  have gets: "any_get m' ''name'' = JStr (case_name m)" "any_get m' ''profile'' = JStr ProfileResearchV1"
      "any_get m' ''description'' = optionalTrimmedString (any_get m ''description'')"
      "any_get m' ''base_url'' = optionalTrimmedString (any_get m ''base_url'')"
      "any_get m' ''input_contract'' = canonicalContracts (any_get (with_default_contracts m) ''input_contract'') True"
      "any_get m' ''output_contract'' = canonicalContracts (any_get (with_default_contracts m) ''output_contract'') False"
      "any_get m' ''steps'' = JArr (map canonicalResearchStep (items (any_get m ''steps'')))"
    by (simp_all add: m'_def canonicalResearchCase_def y_get canonicalResearchSteps_def)
  have unknown: "rejectUnknownFields AtCase m' researchCaseFields = None"
    by (auto simp: m'_def rejectUnknownFields_None canonicalResearchCase_def researchCaseFields_def)
  have contracts: "check_contracts validateResearchContracts m' ''input_contract'' = None"
      "check_contracts validateResearchContracts m' ''output_contract'' = None"
    using canonical_contracts_pass [OF o(3) _ _ _ gets(5)] canonical_contracts_pass [OF o(4) _ _ _ gets(6)]
      research_contracts_ok [of "''input_contract''"] research_contracts_ok [of "''output_contract''"]
    by (simp_all add: empty_contracts_ok)
  have heading: "check_heading m' = None"
    by (rule canonical_heading_ok [OF o(1)]) (simp add: canonical_heading_def gets)
  have profile: "map_of m' ''profile'' = Some (JStr ProfileResearchV1)"
    by (simp add: m'_def map_of_sort_any canonicalResearchCase_def)
  from that [OF c phase m'_def v n profile unknown o(2) gets(7) heading contracts] show thesis .
qed

lemma research_case_fixed:
  assumes m: "normal_json (JObj m)" and ok: "validateResearchCase (Some (JObj m)) phase = Inr v"
    and named: "steps_named m"
  shows "validateResearchCase (Some (vc_canonical v)) phase = Inr v"
  using m ok
proof (cases rule: research_canonical)
  case (1 m')
  have steps: "check_steps (object_step (validateResearchStep phase)) m' = None"
  proof (rule canonical_steps_pass [OF 1(8,9)])
    fix i x assume x: "x \<in> set (items (any_get m ''steps''))" and "object_step (validateResearchStep phase) i x = None"
    then obtain s where s: "x = JObj s" "validateResearchStep phase i s = None" by (auto simp: object_step_ok)
    from x s named have "named_methods s" by (auto simp: steps_named_def list_all_iff object_members_def)
    then show "object_step (validateResearchStep phase) i (canonicalResearchStep x) = None"
      using canonical_research_step_ok [OF s(2)] s(1) canonical_is_object(5) by (auto simp: object_step_ok)
  qed
  have "any_get m' ''profile'' = JStr ProfileResearchV1" using 1(6) by (simp add: any_get_def)
  then show ?thesis
    unfolding 1(1) validateResearchCase_def as_object_JObj [OF 1(5)] option.case Let_def 1(2) checked_iff
    using 1(7,10-12) steps canonical_case_fixed(2) [of m, folded 1(3)] 1(4)
    by (simp add: fails_if_def)
qed

subsection \<open>A null method is lost\<close>

lemma canonical_method_named:
  assumes "validateCondition i f k (canonicalCondition x) = None"
  shows "named_method x"
proof (rule ccontr)
  assume "\<not> named_method x"
  then have "any_get (object_members (canonicalCondition x)) ''method'' = JStr []"
    by (auto simp: named_method_def Let_def canonicalCondition_def trimmedString_def any_string_def ToUpper_def
      TrimSpace_def)
  then show False
    using assms by (subst (asm) canonical_is_object) (auto simp: validateCondition_def Let_def fails_if_def)
qed

lemma canonical_conditions_named:
  assumes "validateConditions i f (canonicalConditions j) = None"
  shows "list_all named_method (items j)"
proof -
  have "first_error_from (validateCondition i f) 0 (map canonicalCondition (items j)) = None"
    using assms by (simp add: validateConditions_def canonicalConditions_def)
  from first_error_from_in [OF this] canonical_method_named show ?thesis by (fastforce simp: list_all_iff)
qed

lemma validated_conditions_named:
  assumes "validateStep i a s' = None"
    and "\<And>f. f \<in> {''preconditions'', ''postconditions''} \<Longrightarrow>
      any_get s' f = canonicalConditions (any_get s f) \<or> items (any_get s f) = []"
  shows "named_methods s"
proof -
  have "validateConditions i f (any_get s' f) = None" if "f \<in> {''preconditions'', ''postconditions''}" for f
    using assms(1) that unfolding validateStep_def checks_None by auto
  then have "list_all named_method (items (any_get s f))" if "f \<in> {''preconditions'', ''postconditions''}" for f
    using assms(2) [OF that] that canonical_conditions_named [of i f "any_get s f"] by force
  then show ?thesis by (simp add: named_methods_def)
qed

lemma canonical_step_conditions:
  assumes "a \<in> set supportedActions" and "trimmedString (any_get s ''action'') = a"
    and "f \<in> {''preconditions'', ''postconditions''}"
  shows "any_get (object_members (canonicalStep (JObj s))) f = canonicalConditions (any_get s f) \<or> items (any_get s f) = []"
  unfolding canonicalStep_def Let_def object_members_marshal
  using assms not_exists_get [of s f]
  by (elim insertE emptyE; cases "exists_member s f"; cases a rule: action_cases)
    (simp_all add: step_members object_members_def [of "JObj s"] items_def)

lemma named_from_canonical_step:
  assumes "legacy_step i x = None" and "legacy_step k (canonicalStep x) = None"
  shows "named_methods (object_members x)"
proof -
  obtain s where s: "x = JObj s" using assms(1) by (cases x) (auto simp: legacy_step_def)
  let ?a = "any_string (any_get s ''action'')"
  from assms(1) s have a: "?a \<in> set supportedActions"
    by (auto simp: legacy_step_def Let_def fails_if_def split: if_splits)
  obtain s' where s': "canonicalStep x = JObj s'" using canonical_is_object(4) by blast
  have "\<exists>b. validateStep k b s' = None"
    using assms(2) unfolding s' legacy_step_def Let_def by (auto simp: fails_if_def split: if_splits)
  then obtain b where "validateStep k b s' = None" ..
  then show ?thesis
    using canonical_step_conditions [OF a supported_trimmed [OF a]] s s'
    by (intro validated_conditions_named) (auto simp: object_members_def)
qed

lemma named_from_canonical_research_step:
  assumes "object_step (validateResearchStep phase) i x = None"
    and "object_step (validateResearchStep phase) k (canonicalResearchStep x) = None"
  shows "named_methods (object_members x)"
proof -
  obtain s where s: "x = JObj s" "validateResearchStep phase i s = None" using assms(1) by (auto simp: object_step_ok)
  obtain s' where s': "canonicalResearchStep x = JObj s'" "validateResearchStep phase k s' = None"
    using assms(2) by (auto simp: object_step_ok)
  let ?a = "any_string (any_get s ''action'')"
  have a: "?a \<in> set supportedActions" using s(2) validateResearchStep_iff [OF refl] by blast
  have "validateStep k (any_string (any_get s' ''action'')) s' = None"
    using s'(2) validateResearchStep_iff [OF refl] by blast
  then show ?thesis
    using research_step_kept(5) [OF supported_trimmed [OF a] refl a] s s'(1)
    by (intro validated_conditions_named) (auto simp: object_members_def)
qed

lemma named_from_steps:
  assumes "check_steps f m = None" and "check_steps f m' = None"
    and "any_get m' ''steps'' = JArr (map g (items (any_get m ''steps'')))"
    and "\<And>i k x. f i x = None \<Longrightarrow> f k (g x) = None \<Longrightarrow> named_methods (object_members x)"
  shows "steps_named m"
proof -
  from assms(1) obtain ss where ss: "any_get m ''steps'' = JArr ss" "first_error_from f 0 ss = None"
    unfolding check_steps_iff by blast
  from assms(2,3) ss(1) have "first_error_from f 0 (map g ss) = None" unfolding check_steps_iff by auto
  from first_error_from_in [OF this] first_error_from_in [OF ss(2)] assms(4) ss(1)
  show ?thesis by (fastforce simp: steps_named_def list_all_iff)
qed

lemma legacy_canonical_named:
  assumes m: "normal_json (JObj m)" and ok: "validateLegacyCase (Some (JObj m)) = Inr (c, url)"
    and again: "validateLegacyCase (Some c) = Inr x"
  shows "steps_named m"
  using m ok
proof (cases rule: legacy_canonical)
  case (1 d m')
  obtain c' url' where "x = (c', url')" by (cases x)
  with again have "check_steps legacy_step m' = None"
    unfolding 1(2) validateLegacyCase_def as_object_JObj [OF 1(5)] option.case Let_def 1(7)
    by (simp only: checked_iff) simp
  from named_from_steps [OF 1(8) this 1(9) named_from_canonical_step] 1(1) show ?thesis
    by (simp add: steps_named_def)
qed

lemma research_canonical_named:
  assumes m: "normal_json (JObj m)" and ok: "validateResearchCase (Some (JObj m)) phase = Inr v"
    and again: "validateResearchCase (Some (vc_canonical v)) phase = Inr x"
  shows "steps_named m"
  using m ok
proof (cases rule: research_canonical)
  case (1 m')
  from again have "check_steps (object_step (validateResearchStep phase)) m' = None"
    unfolding 1(1) validateResearchCase_def as_object_JObj [OF 1(5)] option.case Let_def 1(2)
    by (simp only: checked_iff) simp
  from named_from_steps [OF 1(8) this 1(9) named_from_canonical_research_step] show ?thesis .
qed

subsection \<open>The entry point\<close>

text \<open>Of a message: no condition of its steps has an explicit \<open>null\<close> method.\<close>

definition methods_named :: "raw_message \<Rightarrow> bool" where
  "methods_named raw = (case as_object raw of None \<Rightarrow> True | Some m \<Rightarrow> steps_named m)"

lemma validateCase_inr:
  assumes "validateCase phase raw = Inr v"
  obtains (legacy) m where "normal_json (JObj m)" and "steps_named m = methods_named raw"
    and "validateLegacyCase (Some (JObj m)) = Inr (vc_canonical v, vc_base_url v)"
    and "v = \<lparr>vc_canonical = vc_canonical v, vc_base_url = vc_base_url v, vc_profile = ProfileLegacyV1,
      vc_version = CanonicalVersionV1, vc_phase = phase\<rparr>"
  | (v1) m where "normal_json (JObj m)" and "steps_named m = methods_named raw"
    and "validateResearchCase (Some (JObj m)) phase = Inr v" and "vc_profile v = ProfileResearchV1"
  | (v2) "vc_profile v = ProfileResearchV2"
proof -
  have different: "ProfileResearchV2 \<noteq> ProfileLegacyV1" "ProfileResearchV1 \<noteq> ProfileLegacyV1"
    "ProfileResearchV1 \<noteq> ProfileResearchV2"
    by (simp_all add: ProfileResearchV1_def ProfileResearchV2_def ProfileLegacyV1_def)
  from assms obtain p normalized where prof: "caseProfile raw = Inr (p, normalized)"
    by (auto simp: validateCase_def split: sum.splits)
  then obtain c where c: "as_object raw = Some c" by (auto simp: caseProfile_def split: option.splits)
  note nc = as_object_normal [OF c]
  have named: "methods_named raw = steps_named c" by (simp add: methods_named_def c)
  show thesis
  proof (cases "p = ProfileLegacyV1")
    case True
    have "\<exists>m. normal_json (JObj m) \<and> as_object normalized = Some m \<and> any_get m ''steps'' = any_get c ''steps''"
    proof (cases "map_of c ''profile''")
      case None
      with prof c have "normalized = raw" by (simp add: caseProfile_def)
      with c nc show ?thesis by blast
    next
      case (Some j)
      with prof c True different have "normalized = Some (marshal_map (assoc_del ''profile'' c))"
        by (auto simp: caseProfile_def Let_def split: json.splits if_splits)
      moreover have n: "normal_json (JObj (assoc_del ''profile'' c))"
        using nc by (auto simp: assoc_del_def list_all_iff distinct_map_filter sorted_filter)
      ultimately show ?thesis
        by (intro exI [of _ "assoc_del ''profile'' c"]) (simp add: marshal_normal as_object_JObj del: normal_json.simps(3))
    qed
    then obtain m where m: "normal_json (JObj m)" "as_object normalized = Some m" "any_get m ''steps'' = any_get c ''steps''"
      by blast
    have "validateLegacyCase normalized = validateLegacyCase (Some (JObj m))"
      unfolding validateLegacyCase_def m(2) as_object_JObj [OF m(1)] by simp
    then show thesis
      using assms prof True different m
      by (intro legacy [OF m(1)])
        (auto simp: validateCase_def named steps_named_def split: sum.splits simp del: normal_json.simps(3))
  next
    case False
    from prof show thesis
    proof (cases rule: caseProfile_cases)
      case legacy
      with False show thesis ..
    next
      case (research m)
      have steps: "any_get m ''steps'' = any_get c ''steps''"
      proof -
        from prof c False have "normalized = Some (marshal_map (assoc_put ''profile'' (JStr p) c))"
          by (auto simp: caseProfile_def Let_def split: option.splits json.splits if_splits)
        with research(2) have "m = sort_key fst (assoc_put ''profile'' (JStr p) c)" by (simp add: marshal_map_def)
        then show ?thesis by simp
      qed
      show thesis
      proof (cases "p = ProfileResearchV2")
        case True
        with research assms prof different show thesis
          by (intro v2) (auto simp: validateCase_def v2_case_iff simp del: normal_json.simps(3))
      next
        case no: False
        with research(4) have "validateResearchCase (Some (JObj m)) phase = Inr v"
          using assms prof different research(2) by (auto simp: validateCase_def)
        moreover from this have "vc_profile v = ProfileResearchV1"
          by (auto simp: validateResearchCase_def Let_def split: option.splits)
        ultimately show thesis
          using steps by (intro v1 [OF research(1)]) (simp_all add: named steps_named_def)
      qed
    qed
  qed
qed

lemma validate_again_iff:
  assumes ok: "validateCase phase raw = Inr v"
  shows "validateCase phase (Some (vc_canonical v)) = Inr v \<longleftrightarrow>
      vc_profile v = ProfileResearchV2 \<or> methods_named raw"
    and "vc_profile v = ProfileResearchV2 \<or> methods_named raw \<or>
      (\<exists>e. validateCase phase (Some (vc_canonical v)) = Inl e)"
proof -
  have different: "ProfileResearchV2 \<noteq> ProfileLegacyV1" "ProfileResearchV1 \<noteq> ProfileLegacyV1"
    "ProfileResearchV1 \<noteq> ProfileResearchV2"
    by (simp_all add: ProfileResearchV1_def ProfileResearchV2_def ProfileLegacyV1_def)
  have "(validateCase phase (Some (vc_canonical v)) = Inr v \<longleftrightarrow>
      vc_profile v = ProfileResearchV2 \<or> methods_named raw) \<and>
    (vc_profile v = ProfileResearchV2 \<or> methods_named raw \<or>
      (\<exists>e. validateCase phase (Some (vc_canonical v)) = Inl e))"
    using ok
  proof (cases rule: validateCase_inr)
    case v2
    then show ?thesis using v2_validate_fixed [OF ok] by simp
  next
    case (legacy m)
    obtain m' where m': "vc_canonical v = JObj m'" "normal_json (JObj m')" "map_of m' ''profile'' = None"
      using legacy_canonical [OF legacy(1,3)] by blast
    have v: "validateCase phase (Some (vc_canonical v)) = (case validateLegacyCase (Some (vc_canonical v)) of
        Inl e \<Rightarrow> Inl e
      | Inr (c, url) \<Rightarrow> Inr \<lparr>vc_canonical = c, vc_base_url = url, vc_profile = ProfileLegacyV1,
          vc_version = CanonicalVersionV1, vc_phase = phase\<rparr>)"
      using m' by (simp add: validateCase_def caseProfile_def as_object_JObj del: normal_json.simps(3))
    have "vc_profile v \<noteq> ProfileResearchV2" using legacy(4) different by (metis ValidatedCase.select_convs(3))
    moreover have "validateCase phase (Some (vc_canonical v)) = Inr v" if "methods_named raw"
      using legacy_case_fixed(1) [OF legacy(1,3)] that legacy(2,4) v by simp
    moreover have "methods_named raw" if "validateLegacyCase (Some (vc_canonical v)) = Inr x" for x
      using legacy_canonical_named [OF legacy(1,3)] that legacy(2) by blast
    ultimately show ?thesis
      using v by (cases "validateLegacyCase (Some (vc_canonical v))") auto
  next
    case (v1 m)
    obtain m' where m': "vc_canonical v = JObj m'" "normal_json (JObj m')"
        "map_of m' ''profile'' = Some (JStr ProfileResearchV1)"
      using research_canonical [OF v1(1,3)] by blast
    have "caseProfile (Some (JObj m')) = Inr (ProfileResearchV1, Some (JObj m'))"
      by (rule caseProfile_fixed [OF m'(2,3)]) simp
    then have v: "validateCase phase (Some (vc_canonical v)) = validateResearchCase (Some (vc_canonical v)) phase"
      using m'(1) different by (simp add: validateCase_def)
    have "vc_profile v \<noteq> ProfileResearchV2" using v1(4) different by simp
    moreover have "validateCase phase (Some (vc_canonical v)) = Inr v" if "methods_named raw"
      using research_case_fixed(1) [OF v1(1,3)] that v1(2) v by simp
    moreover have "methods_named raw" if "validateResearchCase (Some (vc_canonical v)) phase = Inr x" for x
      using research_canonical_named [OF v1(1,3)] that v1(2) by blast
    ultimately show ?thesis
      using v by (cases "validateResearchCase (Some (vc_canonical v)) phase") auto
  qed
  then show "validateCase phase (Some (vc_canonical v)) = Inr v \<longleftrightarrow>
      vc_profile v = ProfileResearchV2 \<or> methods_named raw"
    and "vc_profile v = ProfileResearchV2 \<or> methods_named raw \<or>
      (\<exists>e. validateCase phase (Some (vc_canonical v)) = Inl e)" by blast+
qed

end
