(* ===== verification/DslTyped.thy ===== *)
theory DslTyped
  imports DslV1Fixed
begin

section \<open>What a validated case looks like\<close>

text \<open>
  The shape every consumer of a validated case relies on, whatever its profile; the target of a
  step of an executable case.
\<close>

subsection \<open>The shape\<close>

definition typed_step :: "json \<Rightarrow> bool" where
  "typed_step x \<longleftrightarrow> (case x of
     JObj s \<Rightarrow> (case any_get s ''action'' of JStr a \<Rightarrow> a \<in> set supportedActions | _ \<Rightarrow> False)
   | _ \<Rightarrow> False)"

definition typed_members :: "obj \<Rightarrow> bool" where
  "typed_members m \<longleftrightarrow>
     (case any_get m ''name'' of
        JStr n \<Rightarrow> n \<noteq> [] \<and> TrimSpace n = n \<and> RuneCount n \<le> 200
      | _ \<Rightarrow> False) \<and>
     validateOptionalText m ''description'' 1000 = None \<and> validateOptionalText m ''base_url'' 500 = None \<and>
     is_array (any_get m ''input_contract'') \<and> is_array (any_get m ''output_contract'') \<and>
     (case any_get m ''steps'' of JArr ss \<Rightarrow> ss \<noteq> [] \<and> list_all typed_step ss | _ \<Rightarrow> False)"

definition profile_versions :: "(string \<times> string) list" where
  "profile_versions = [(ProfileLegacyV1, CanonicalVersionV1), (ProfileResearchV1, CanonicalVersionV2),
     (ProfileResearchV2, CanonicalVersionV3)]"

definition typed_case :: "ValidatedCase \<Rightarrow> bool" where
  "typed_case v \<longleftrightarrow>
     (case vc_canonical v of
        JObj m \<Rightarrow> typed_members m \<and> vc_base_url v = any_string (any_get m ''base_url'')
      | _ \<Rightarrow> False) \<and>
     (vc_profile v, vc_version v) \<in> set profile_versions"

lemma typed_membersI:
  assumes "any_get m ''name'' = JStr (case_name c)" and "check_heading m = None"
    and "is_array (any_get m ''input_contract'')" and "is_array (any_get m ''output_contract'')"
    and "any_get m ''steps'' = JArr ss" and "ss \<noteq> []" and "\<And>x. x \<in> set ss \<Longrightarrow> typed_step x"
  shows "typed_members m"
proof -
  have "case_name m = case_name c" using assms(1) by (rule case_name_put)
  moreover have "TrimSpace (case_name c) = case_name c" by (simp add: case_name_def)
  moreover have "case_name m \<noteq> [] \<and> RuneCount (case_name m) \<le> 200 \<and>
      validateOptionalText m ''description'' 1000 = None \<and> validateOptionalText m ''base_url'' 500 = None"
    using assms(2) unfolding check_heading_def checks_None by (simp add: fails_if_def split: if_splits)
  ultimately show ?thesis using assms by (simp add: typed_members_def list_all_iff)
qed

lemma is_array_canonical [simp]: "is_array (canonicalContracts j b)"
  by (simp add: canonicalContracts_def is_array_def)

lemma typed_canonical_step: "legacy_step i x = None \<Longrightarrow> typed_step (canonicalStep x)"
proof -
  assume ok: "legacy_step i x = None"
  then obtain s where s: "x = JObj s" by (cases x) (auto simp: legacy_step_def)
  then have a: "any_string (any_get s ''action'') \<in> set supportedActions"
    using ok by (auto simp: legacy_step_def Let_def fails_if_def split: if_splits)
  then show ?thesis
    using canonical_step_kept(1) [OF supported_trimmed [OF a] refl] s
    by (subst canonical_is_object) (simp add: typed_step_def)
qed

lemma typed_canonical_research_step:
  "object_step (validateResearchStep phase) i x = None \<Longrightarrow> typed_step (canonicalResearchStep x)"
proof -
  assume "object_step (validateResearchStep phase) i x = None"
  then obtain s where s: "x = JObj s" "validateResearchStep phase i s = None" by (auto simp: object_step_ok)
  then have a: "any_string (any_get s ''action'') \<in> set supportedActions"
    using validateResearchStep_iff [OF refl] by blast
  then show ?thesis
    using research_step_kept(1) [OF supported_trimmed [OF a] refl a] s(1)
    by (subst canonical_is_object) (simp add: typed_step_def)
qed

lemma typed_v2_step: "object_step (validateResearchV2Step phase) i x = None \<Longrightarrow> typed_step x"
proof -
  assume "object_step (validateResearchV2Step phase) i x = None"
  then obtain s where s: "x = JObj s" "validateResearchV2Step phase i s = None" by (auto simp: object_step_ok)
  then have "any_string (any_get s ''action'') \<in> set supportedActions" using v2_step_iff by blast
  with s(1) show ?thesis
    by (cases "any_get s ''action''") (simp_all add: typed_step_def any_string_def supportedActions_def)
qed

lemma checked_contract_array:
  "check_contracts validate m f = None \<Longrightarrow> exists_member m f \<Longrightarrow> is_array (any_get m f)"
  by (auto simp: check_contracts_def exists_member_def any_get_def is_array_def split: option.splits json.splits)

lemma validated_typed:
  assumes ok: "validateCase phase raw = Inr v"
  shows "typed_case v"
  using ok
proof (cases rule: validateCase_inr)
  case (legacy m)
  from legacy(1,3) show ?thesis
  proof (cases rule: legacy_canonical)
    case (1 d m')
    obtain ss where ss: "any_get d ''steps'' = JArr ss" "ss \<noteq> []" "first_error_from legacy_step 0 ss = None"
      using 1(8) unfolding check_steps_iff by blast
    have "typed_members m'"
    proof (rule typed_membersI [where c = d and ss = "map canonicalStep ss"])
      show "any_get m' ''name'' = JStr (case_name d)" by (simp add: 1(3) canonicalCase_def y_get)
      show "is_array (any_get m' ''input_contract'')" "is_array (any_get m' ''output_contract'')"
        by (simp_all add: 1(3) canonicalCase_def)
      show "typed_step x" if "x \<in> set (map canonicalStep ss)" for x
        using that first_error_from_in [OF ss(3)] typed_canonical_step by auto
    qed (use 1(9,10) ss in \<open>simp_all\<close>)
    moreover have "vc_base_url v = any_string (any_get m' ''base_url'')" using 1(4) by (simp add: 1(3))
    ultimately show ?thesis
      using 1(2) by (subst legacy(4)) (simp add: typed_case_def profile_versions_def)
  qed
next
  case (v1 m)
  from v1(1,3) show ?thesis
  proof (cases rule: research_canonical)
    case (1 m')
    obtain ss where ss: "any_get m ''steps'' = JArr ss" "ss \<noteq> []"
        "first_error_from (object_step (validateResearchStep phase)) 0 ss = None"
      using 1(8) unfolding check_steps_iff by blast
    have "typed_members m'"
    proof (rule typed_membersI [where c = m and ss = "map canonicalResearchStep ss"])
      show "any_get m' ''name'' = JStr (case_name m)" by (simp add: 1(3) canonicalResearchCase_def y_get)
      show "is_array (any_get m' ''input_contract'')" "is_array (any_get m' ''output_contract'')"
        by (simp_all add: 1(3) canonicalResearchCase_def)
      show "typed_step x" if "x \<in> set (map canonicalResearchStep ss)" for x
        using that first_error_from_in [OF ss(3)] typed_canonical_research_step by auto
    qed (use 1(9,10) ss in \<open>simp_all\<close>)
    moreover have "vc_base_url v = any_string (any_get m' ''base_url'')" by (subst 1(4)) (simp add: 1(3))
    moreover have "vc_version v = CanonicalVersionV2" by (subst 1(4)) simp
    ultimately show ?thesis
      using 1(1) v1(4) by (simp add: typed_case_def profile_versions_def)
  qed
next
  case v2
  from ok v2 show ?thesis
  proof (cases rule: v2_validated)
    case (1 m)
    note o = 1(3) [unfolded v2_case_iff [OF 1(2)]]
    obtain ss where ss: "any_get m ''steps'' = JArr ss" "ss \<noteq> []"
        "first_error_from (object_step (validateResearchV2Step phase)) 0 ss = None"
      using o unfolding check_steps_iff by blast
    have get: "map_of m k = map_of (with_default_contracts m) k" if "k \<noteq> ''steps''" for k
      by (subst 1(5) [symmetric]) (simp add: with_v2_defaults_def that)
    have "typed_members m"
    proof (rule typed_membersI [where c = m and ss = ss])
      show "any_get m ''name'' = JStr (case_name m)"
        by (simp add: any_get_def get [of "''name''"] default_contracts_get)
      show "is_array (any_get m ''input_contract'')" "is_array (any_get m ''output_contract'')"
        using o get [of "''input_contract''"] get [of "''output_contract''"]
        by (auto intro!: checked_contract_array simp: exists_member_def default_contracts_get split: if_splits)
      show "typed_step x" if "x \<in> set ss" for x
        using that first_error_from_in [OF ss(3)] typed_v2_step by auto
    qed (use o ss in \<open>simp_all\<close>)
    with o 1(1,5) show ?thesis by (simp add: typed_case_def profile_versions_def)
  qed
qed

lemma validated_normal:
  assumes ok: "validateCase phase raw = Inr v"
  shows "normal_json (vc_canonical v)"
  using ok
proof (cases rule: validateCase_inr)
  case (legacy m)
  then show ?thesis using legacy_canonical [OF legacy(1,3)] by metis
next
  case (v1 m)
  then show ?thesis using research_canonical [OF v1(1,3)] by metis
next
  case v2
  then show ?thesis using v2_validated [OF ok] by metis
qed

subsection \<open>The target of an executable step\<close>

lemma v2_step_executable:
  assumes "validateResearchV2Step ValidationPhaseExecutable i s = None"
    and "requiresV2TargetBinding (any_string (any_get s ''action''))"
  shows "validateV2Candidates i (any_get s ''locator_candidates'') = None"
    and "v2StringValue (any_get s ''selected_candidate_id'') \<noteq> [] \<Longrightarrow>
      v2CandidateExists (any_get s ''locator_candidates'') (v2StringValue (any_get s ''selected_candidate_id''))"
proof -
  have "ValidationPhaseExecutable \<noteq> ValidationPhaseDraft"
    by (simp add: ValidationPhaseExecutable_def ValidationPhaseDraft_def)
  then have e: "executable_checks i (any_string (any_get s ''action'')) s = None"
    using assms(1) by (simp add: v2_step_iff phase_fields_def)
  from e assms(2) show "validateV2Candidates i (any_get s ''locator_candidates'') = None"
    unfolding executable_checks_def checks_None by simp
  from e assms(2) show "v2StringValue (any_get s ''selected_candidate_id'') \<noteq> [] \<Longrightarrow>
      v2CandidateExists (any_get s ''locator_candidates'') (v2StringValue (any_get s ''selected_candidate_id''))"
    unfolding executable_checks_def checks_None by (simp add: Let_def fails_if_def split: if_splits)
qed

text \<open>A candidate the worker may try: it was seen exactly once, visible, with a valid locator.\<close>

definition observed_candidate :: "json \<Rightarrow> bool" where
  "observed_candidate raw \<longleftrightarrow>
     (case dec_LocatorCandidate raw zero_LocatorCandidate of
        None \<Rightarrow> False
      | Some c \<Rightarrow> lc_observed_count c = 1 \<and> lc_visible c \<and> \<not> blank (lc_candidate_id c) \<and>
          \<not> blank (lc_element_ref c) \<and> LocatorSpec_Validate (lc_locator c) = None)"

lemma v2_candidates_observed:
  assumes "validateV2Candidates i j = None"
  shows "items j \<noteq> [] \<and> list_all observed_candidate (items j)"
proof -
  from assms obtain cs where cs: "j = JArr cs" "cs \<noteq> []" "first_error_from (v2_candidate i) 0 cs = None"
    by (auto simp: validateV2Candidates_def simp del: first_error_from.simps split: json.splits list.splits)
  have "observed_candidate x" if "x \<in> set cs" for x
    using first_error_from_in [OF cs(3) that]
    by (auto simp: v2_candidate_def observed_candidate_def split: option.splits if_splits)
  with cs show ?thesis by (simp add: items_def list_all_iff)
qed

lemma trimmed_action:
  assumes "any_string j \<in> set supportedActions"
  shows "v2StringValue j = any_string j"
  using supported_trimmed [OF assms] by (simp add: v2StringValue_def trimmedString_def)

lemma v2_target:
  assumes ok: "ValidateExecutableCase raw = Inr v" and profile: "vc_profile v = ProfileResearchV2"
    and doc: "vc_canonical v = JObj m" and step: "JObj s \<in> set (items (any_get m ''steps''))"
    and target: "requiresV2TargetBinding (any_string (any_get s ''action''))"
  obtains bindings b where "is_object (any_get m ''plan_binding'')"
    and "validateV2ObservationBindings (any_get m ''observation_bindings'') = Inr bindings"
    and "map_of bindings (v2StringValue (any_get s ''target_binding_id'')) = Some b"
    and "same_lineage s b \<or> \<not> hasV2Lineage s \<and> ob_probe_id b = []"
    and "items (any_get s ''locator_candidates'') \<noteq> []"
    and "list_all observed_candidate (items (any_get s ''locator_candidates''))"
proof -
  from ok profile obtain m1 where m: "vc_canonical v = JObj m1" "normal_json (JObj m1)"
    "validateResearchV2Case (Some (JObj m1)) ValidationPhaseExecutable = Inr v" "with_v2_defaults m1 = m1"
    unfolding ValidateExecutableCase_def by (rule v2_validated)
  with doc have eq: "m1 = m" by simp
  note m = m [unfolded eq]
  note o = m(3) [unfolded v2_case_iff [OF m(2)] m(4)]
  obtain ss where ss: "any_get m ''steps'' = JArr ss"
      "first_error_from (object_step (validateResearchV2Step ValidationPhaseExecutable)) 0 ss = None"
    using o unfolding check_steps_iff by blast
  obtain i where i: "validateResearchV2Step ValidationPhaseExecutable i s = None"
    using first_error_from_in [OF ss(2), of "JObj s"] step by (auto simp: ss(1) items_def object_step_ok)
  then have "any_string (any_get s ''action'') \<in> set supportedActions" by (simp add: v2_step_iff)
  note action = trimmed_action [OF this]
  have h: "executable_heading ValidationPhaseExecutable m = None" using o by blast
  then have plan: "is_object (any_get m ''plan_binding'')"
    by (auto simp: executable_heading_def split: if_splits)
  with h obtain bindings where b: "validateV2ObservationBindings (any_get m ''observation_bindings'') = Inr bindings"
      "validateV2StepLineage ss bindings = None"
    by (auto simp: executable_heading_def ss(1) items_def split: sum.splits)
  obtain k where k: "step_lineage bindings k (JObj s) = None"
    using b(2) step first_error_from_in [of "step_lineage bindings" 0 ss "JObj s"]
    by (auto simp: validateV2StepLineage_def ss(1) items_def)
  then obtain x where "map_of bindings (v2StringValue (any_get s ''target_binding_id'')) = Some x"
      "same_lineage s x \<or> \<not> hasV2Lineage s \<and> ob_probe_id x = []"
    using target action by (auto simp: step_lineage_def Let_def fails_if_def split: option.splits if_splits)
  with that plan b(1) v2_candidates_observed [OF v2_step_executable(1) [OF i target]] show thesis by blast
qed

lemma v1_target:
  assumes ok: "ValidateExecutableCase raw = Inr v" and profile: "vc_profile v = ProfileResearchV1"
    and doc: "vc_canonical v = JObj m" and step: "JObj s \<in> set (items (any_get m ''steps''))"
    and target: "any_string (any_get s ''action'') \<in> {''click'', ''input'', ''capture_text''}"
  shows "trimmedString (any_get s ''locator_confidence'') \<in> {''high'', ''medium''}"
    and "list_ex verified_candidate (items (any_get s ''candidates''))"
    and "\<forall>c \<in> set (items (any_get s ''candidates'')).
      trimmedString (any_get (object_members c) ''strategy'') \<in> set executableCandidateStrategies"
proof -
  have different: "ProfileResearchV1 \<noteq> ProfileLegacyV1" "ProfileResearchV1 \<noteq> ProfileResearchV2"
      "ValidationPhaseExecutable \<noteq> ValidationPhaseDraft"
    by (simp_all add: ProfileResearchV1_def ProfileResearchV2_def ProfileLegacyV1_def
      ValidationPhaseExecutable_def ValidationPhaseDraft_def)
  have "validateExecutableLocator k s = None" if "phase_checks k (any_string (any_get s ''action'')) s ValidationPhaseExecutable = None" for k
    using that target different(3) by (auto simp: phase_checks_def requiresPreflightCandidates_def split: if_splits)
  moreover have "\<exists>k. phase_checks k (any_string (any_get s ''action'')) s ValidationPhaseExecutable = None"
    using ok [unfolded ValidateExecutableCase_def]
  proof (cases rule: validateCase_inr)
    case (legacy m1)
    with profile different show ?thesis by (metis ValidatedCase.select_convs(3))
  next
    case v2
    with profile different show ?thesis by simp
  next
    case (v1 m1)
    from v1(1,3) show ?thesis
    proof (cases rule: research_canonical)
      case (1 m')
      have "m' = m" using 1(1) doc by simp
      with 1(9) have "any_get m ''steps'' = JArr (map canonicalResearchStep (items (any_get m1 ''steps'')))"
        by (simp only:)
      with step obtain x where x: "x \<in> set (items (any_get m1 ''steps''))" "JObj s = canonicalResearchStep x"
        by (auto simp: items_def)
      obtain ss where ss: "any_get m1 ''steps'' = JArr ss"
          "first_error_from (object_step (validateResearchStep ValidationPhaseExecutable)) 0 ss = None"
        using 1(8) unfolding check_steps_iff by blast
      obtain i s0 where s0: "x = JObj s0" "validateResearchStep ValidationPhaseExecutable i s0 = None"
        using first_error_from_in [OF ss(2), of x] x(1) by (auto simp: ss(1) items_def object_step_ok)
      define a where "a = any_string (any_get s0 ''action'')"
      note o = s0(2) [unfolded validateResearchStep_iff [OF a_def]]
      have a: "a \<in> set supportedActions" "trimmedString (any_get s0 ''action'') = a"
        using o supported_trimmed by (auto simp: a_def)
      have s: "s = object_members (canonicalResearchStep (JObj s0))"
        using x(2) s0(1) by (metis canonical_is_object(5) json.inject(6))
      have "any_string (any_get s ''action'') = a" using research_step_kept(1) [OF a(2) s a(1)] by simp
      moreover have "phase_checks i a s ValidationPhaseExecutable = None"
        using o by (intro phase_checks_ok [OF _ _ a(2,1) s]) (elim conjE, assumption)+
      ultimately show ?thesis by (intro exI [of _ i]) simp
    qed
  qed
  ultimately obtain k where k: "validateExecutableLocator k s = None" by blast
  then obtain c cs where cs: "any_get s ''candidates'' = JArr (c # cs)"
      "first_error_from (executable_candidate k) 0 (c # cs) = None" "list_ex verified_candidate (c # cs)"
    by (auto simp: validateExecutableLocator_def fails_if_def simp del: first_error_from.simps
      split: if_splits json.splits list.splits)
  from k show "trimmedString (any_get s ''locator_confidence'') \<in> {''high'', ''medium''}"
    by (auto simp: validateExecutableLocator_def trim_string split: if_splits)
  from cs show "list_ex verified_candidate (items (any_get s ''candidates''))" by (simp add: items_def)
  have "trimmedString (any_get (object_members x) ''strategy'') \<in> set executableCandidateStrategies" if "x \<in> set (c # cs)" for x
    using first_error_from_in [OF cs(2) that]
    by (auto simp: executable_candidate_def object_members_def Let_def fails_if_def trim_string split: json.splits if_splits)
  with cs(1) show "\<forall>c \<in> set (items (any_get s ''candidates'')).
      trimmedString (any_get (object_members c) ''strategy'') \<in> set executableCandidateStrategies"
    by (simp add: items_def)
qed

end
