(* ===== verification/DslStore.thy ===== *)
theory DslStore
  imports DslLaws
begin

section \<open>Stored generations (internal/dsl: Store)\<close>

text \<open>
  A generation is a validated executable case kept with its hash, its canonical version and the
  plan it was compiled from. The database is a record of the four statements the store runs on a
  state; a statement may fail with a text of its own. The locale \<open>generation_database\<close> holds
  what the store relies on; a table with the checks that internal/dbschema/schema.sql declares
  for these columns satisfies it. A column that may be NULL is an option. The columns
  the insert fills with constants are left out.
\<close>

subsection \<open>The rows and the statements\<close>

record generation_row =
  gr_actor :: int
  gr_project :: int
  gr_prompt_sha256 :: string
  gr_base_url :: "string option"
  gr_base_url_source :: string
  gr_success :: bool
  gr_warnings_count :: nat
  gr_warnings_json :: string
  gr_case :: "string option"
  gr_sha256 :: "string option"
  gr_version :: "string option"
  gr_plan_id :: "string option"
  gr_plan_version :: "int option"
  gr_plan_sha256 :: "string option"

record 'db generation_db =
  db_member :: "'db \<Rightarrow> int \<Rightarrow> int \<Rightarrow> string + bool"
  db_insert :: "'db \<Rightarrow> generation_row \<Rightarrow> (string + int) \<times> 'db"
  db_select :: "'db \<Rightarrow> int \<Rightarrow> int \<Rightarrow> int \<Rightarrow> string + generation_row option"
  db_backfill :: "'db \<Rightarrow> int \<Rightarrow> string \<Rightarrow> string \<Rightarrow> string \<Rightarrow> string option \<times> 'db"

record Generation =
  gn_id :: int
  gn_case :: string
  gn_dsl_hash :: string
  gn_canonical_version :: string
  gn_profile :: string
  gn_success :: bool
  gn_plan_binding :: Binding

datatype generation_error =
    CaseRejected dsl_error
  | GenerationAccessDenied
  | GenerationNotFound
  | DatabaseFailed string
  | PersistFailed string
  | PersistedCaseRejected dsl_error
  | IncompletePlanBinding
  | GenerationHashMismatch
  | BackfillFailed string

definition nullableText :: "string \<Rightarrow> string option" where
  "nullableText text' = (if blank text' then None else Some text')"

text \<open>\<open>NULLIF(value, absent)\<close>\<close>

definition null_if :: "'a \<Rightarrow> 'a \<Rightarrow> 'a option" where
  "null_if absent x = (if x = absent then None else Some x)"

text \<open>\<open>json.Marshal\<close> of the warnings; a nil slice is \<open>null\<close>.\<close>

definition warnings_json :: "string list option \<Rightarrow> string" where
  "warnings_json warnings = render (case warnings of None \<Rightarrow> JNull | Some ws \<Rightarrow> enc_strings ws)"

definition case_text :: "ValidatedCase \<Rightarrow> string" where
  "case_text v = render (vc_canonical v)"

definition row_of :: "int \<Rightarrow> int \<Rightarrow> string list option \<Rightarrow> Binding \<Rightarrow> ValidatedCase \<Rightarrow> generation_row" where
  "row_of actor project warnings binding v =
     \<lparr>gr_actor = actor, gr_project = project, gr_prompt_sha256 = sha256_hex (case_text v),
      gr_base_url = nullableText (vc_base_url v),
      gr_base_url_source = (if vc_base_url v \<noteq> [] then ''request'' else ''none''),
      gr_success = True,
      gr_warnings_count = (case warnings of None \<Rightarrow> 0 | Some ws \<Rightarrow> length ws),
      gr_warnings_json = warnings_json warnings,
      gr_case = Some (case_text v), gr_sha256 = Some (sha256_hex (case_text v)),
      gr_version = Some (vc_version v),
      gr_plan_id = null_if [] (bd_plan_id binding),
      gr_plan_version = null_if 0 (bd_version binding),
      gr_plan_sha256 = null_if [] (bd_sha256 binding)\<rparr>"

definition generation_of :: "int \<Rightarrow> ValidatedCase \<Rightarrow> bool \<Rightarrow> Binding \<Rightarrow> Generation" where
  "generation_of gid v success binding =
     \<lparr>gn_id = gid, gn_case = case_text v, gn_dsl_hash = sha256_hex (case_text v),
      gn_canonical_version = vc_version v, gn_profile = vc_profile v, gn_success = success,
      gn_plan_binding = binding\<rparr>"

subsection \<open>The operations\<close>

definition CreateGenerationWithPlan ::
  "'db generation_db \<Rightarrow> int \<Rightarrow> int \<Rightarrow> raw_message \<Rightarrow> string list option \<Rightarrow> Binding \<Rightarrow> 'db
   \<Rightarrow> (generation_error + Generation) \<times> 'db" where
  "CreateGenerationWithPlan db actor project candidate warnings binding s =
     (case ValidateExecutableCase candidate of
        Inl e \<Rightarrow> (Inl (CaseRejected e), s)
      | Inr v \<Rightarrow>
        (case db_member db s project actor of
           Inl e \<Rightarrow> (Inl (DatabaseFailed e), s)
         | Inr False \<Rightarrow> (Inl GenerationAccessDenied, s)
         | Inr True \<Rightarrow>
           (case db_insert db s (row_of actor project warnings binding v) of
              (Inl e, s') \<Rightarrow> (Inl (PersistFailed e), s')
            | (Inr gid, s') \<Rightarrow> (Inr (generation_of gid v True binding), s'))))"

definition CreateGeneration ::
  "'db generation_db \<Rightarrow> int \<Rightarrow> int \<Rightarrow> raw_message \<Rightarrow> string list option \<Rightarrow> 'db
   \<Rightarrow> (generation_error + Generation) \<times> 'db" where
  "CreateGeneration db actor project candidate warnings =
     CreateGenerationWithPlan db actor project candidate warnings zero_Binding"

text \<open>The plan of a row: all of its columns or none.\<close>

definition row_binding :: "generation_row \<Rightarrow> Binding option" where
  "row_binding r =
     (case (gr_plan_id r, gr_plan_version r, gr_plan_sha256 r) of
        (None, None, None) \<Rightarrow> Some zero_Binding
      | (Some p, Some v, Some h) \<Rightarrow> Some \<lparr>bd_plan_id = p, bd_version = v, bd_sha256 = h\<rparr>
      | _ \<Rightarrow> None)"

definition row_case :: "generation_row \<Rightarrow> string \<Rightarrow> dsl_error + ValidatedCase" where
  "row_case r raw =
     (case gr_version r of
        Some version \<Rightarrow> ValidateCaseForVersion (parse_json raw) version
      | None \<Rightarrow> ValidateExecutableCase (parse_json raw))"

definition GetGeneration ::
  "'db generation_db \<Rightarrow> int \<Rightarrow> int \<Rightarrow> int \<Rightarrow> 'db \<Rightarrow> (generation_error + Generation) \<times> 'db" where
  "GetGeneration db actor project gid s =
     (case db_select db s actor project gid of
        Inl e \<Rightarrow> (Inl (DatabaseFailed e), s)
      | Inr None \<Rightarrow> (Inl GenerationNotFound, s)
      | Inr (Some r) \<Rightarrow>
        (let raw = (case gr_case r of None \<Rightarrow> [] | Some text' \<Rightarrow> text') in
         if raw = [] then (Inl GenerationNotFound, s)
         else (case row_case r raw of
             Inl e \<Rightarrow> (Inl (PersistedCaseRejected e), s)
           | Inr v \<Rightarrow>
             (let canonical = case_text v; hash = sha256_hex canonical in
              case row_binding r of
                None \<Rightarrow> (Inl IncompletePlanBinding, s)
              | Some binding \<Rightarrow>
                if gr_sha256 r \<noteq> None \<and> gr_sha256 r \<noteq> Some hash
                then (Inl GenerationHashMismatch, s)
                else if gr_sha256 r = None \<or> gr_version r = None \<or> raw \<noteq> canonical
                then (case db_backfill db s gid canonical hash (vc_version v) of
                    (Some e, s') \<Rightarrow> (Inl (BackfillFailed e), s')
                  | (None, s') \<Rightarrow> (Inr (generation_of gid v (gr_success r) binding), s'))
                else (Inr (generation_of gid v (gr_success r) binding), s)))))"

subsection \<open>What the store relies on\<close>

text \<open>The columns a backfill writes.\<close>

definition backfilled :: "string \<Rightarrow> string \<Rightarrow> string \<Rightarrow> generation_row \<Rightarrow> generation_row" where
  "backfilled case' hash version r =
     r\<lparr>gr_case := Some case', gr_sha256 := Some hash, gr_version := Some version\<rparr>"

definition binding_ok :: "Binding \<Rightarrow> bool" where
  "binding_ok b \<longleftrightarrow> b = zero_Binding \<or>
     bd_plan_id b \<noteq> [] \<and> bd_version b \<noteq> 0 \<and> bd_sha256 b \<noteq> []"

lemma row_binding_row_of:
  "binding_ok binding \<Longrightarrow> row_binding (row_of actor project warnings binding v) = Some binding"
  by (auto simp: row_binding_def row_of_def null_if_def binding_ok_def zero_Binding_def)

text \<open>
  \<open>rows s\<close> are the rows by their id, \<open>members s\<close> the pairs of a project and a member of it,
  \<open>acceptable s r\<close> that the constraints of the table admit another row \<open>r\<close>.
\<close>

locale generation_database =
  fixes db :: "'db generation_db"
    and rows :: "'db \<Rightarrow> int \<Rightarrow> generation_row option"
    and members :: "'db \<Rightarrow> (int \<times> int) set"
    and acceptable :: "'db \<Rightarrow> generation_row \<Rightarrow> bool"
  assumes member: "db_member db s project user = Inr ((project, user) \<in> members s)"
    and insert: "acceptable s r \<Longrightarrow> \<exists>gid s'. db_insert db s r = (Inr gid, s') \<and>
      rows s gid = None \<and> rows s' = (rows s)(gid \<mapsto> r) \<and> members s' = members s"
    and select: "db_select db s actor project gid = Inr
      (case rows s gid of
         Some r \<Rightarrow> if gr_project r = project \<and> gr_actor r = actor \<and> (project, actor) \<in> members s
           then Some r else None
       | None \<Rightarrow> None)"
    and backfill: "rows s gid = Some r \<Longrightarrow> RuneCount version \<le> 32 \<Longrightarrow> RuneCount hash \<le> 64 \<Longrightarrow>
      \<exists>s'. db_backfill db s gid case' hash version = (None, s') \<and>
        rows s' = (rows s)(gid \<mapsto> backfilled case' hash version r) \<and> members s' = members s"
begin

text \<open>A row is read back as what it says, if its case and its plan are intact.\<close>

lemma get_intact:
  assumes "rows s gid = Some r" and "gr_project r = project" and "gr_actor r = actor"
    and "(project, actor) \<in> members s"
    and "gr_case r = Some (case_text v)" and "gr_sha256 r = Some (sha256_hex (case_text v))"
    and "gr_version r = Some (vc_version v)" and "case_text v \<noteq> []"
    and "ValidateCaseForVersion (parse_json (case_text v)) (vc_version v) = Inr v"
    and "row_binding r = Some binding"
  shows "GetGeneration db actor project gid s = (Inr (generation_of gid v (gr_success r) binding), s)"
  using assms by (simp add: GetGeneration_def select row_case_def Let_def)

lemma create:
  assumes "ValidateExecutableCase candidate = Inr v" and "(project, actor) \<in> members s"
    and "acceptable s (row_of actor project warnings binding v)"
  obtains gid s' where
    "CreateGenerationWithPlan db actor project candidate warnings binding s =
       (Inr (generation_of gid v True binding), s')"
    and "rows s gid = None"
    and "rows s' = (rows s)(gid \<mapsto> row_of actor project warnings binding v)"
    and "members s' = members s"
  using insert [OF assms(3)] assms(1,2) that
  by (auto simp: CreateGenerationWithPlan_def member)

lemma create_get:
  assumes "ValidateExecutableCase candidate = Inr v" and "(project, actor) \<in> members s"
    and "acceptable s (row_of actor project warnings binding v)" and "binding_ok binding"
    and "case_text v \<noteq> []"
    and "ValidateCaseForVersion (parse_json (case_text v)) (vc_version v) = Inr v"
  shows "\<exists>g s'. CreateGenerationWithPlan db actor project candidate warnings binding s = (Inr g, s') \<and>
    gn_plan_binding g = binding \<and> gn_case g = case_text v \<and>
    gn_dsl_hash g = sha256_hex (gn_case g) \<and>
    GetGeneration db actor project (gn_id g) s' = (Inr g, s')"
proof -
  from create [OF assms(1-3)] obtain gid s' where c:
    "CreateGenerationWithPlan db actor project candidate warnings binding s =
       (Inr (generation_of gid v True binding), s')"
    "rows s' = (rows s)(gid \<mapsto> row_of actor project warnings binding v)" "members s' = members s"
    by metis
  have "GetGeneration db actor project gid s' = (Inr (generation_of gid v True binding), s')"
    using get_intact [of s' gid "row_of actor project warnings binding v" project actor v binding]
      c assms row_binding_row_of [OF assms(4)] by (simp add: row_of_def)
  with c(1) show ?thesis
    by (intro exI [of _ "generation_of gid v True binding"] exI [of _ s']) (simp add: generation_of_def)
qed

lemma get_refused:
  assumes "rows s gid = Some r" and "gr_project r = project" and "gr_actor r = actor"
    and "(project, actor) \<in> members s" and "gr_case r = Some text'" and "text' \<noteq> []"
    and "gr_version r = Some version"
    and "ValidateCaseForVersion (parse_json text') version = Inl e"
  shows "GetGeneration db actor project gid s = (Inl (PersistedCaseRejected e), s)"
  using assms by (simp add: GetGeneration_def select row_case_def Let_def)

text \<open>Nobody but its author, as a member of its project, reads a generation.\<close>

lemma get_reader:
  assumes "GetGeneration db actor project gid s = (Inr g, s')"
  obtains r where "rows s gid = Some r" and "gr_actor r = actor" and "gr_project r = project"
    and "(project, actor) \<in> members s"
  using assms by (auto simp: GetGeneration_def select split: option.splits if_splits)

text \<open>What is read carries the hash of its own text, the one stored with it if there is one.\<close>

lemma get_hash:
  assumes "GetGeneration db actor project gid s = (Inr g, s')"
  obtains r v where "rows s gid = Some r" and "g = generation_of gid v (gr_success r) (gn_plan_binding g)"
    and "row_case r (the (gr_case r)) = Inr v"
    and "gr_sha256 r = None \<or> gr_sha256 r = Some (gn_dsl_hash g)"
    and "row_binding r = Some (gn_plan_binding g)"
  using assms
  by (auto simp: GetGeneration_def select Let_def generation_of_def
    split: option.splits sum.splits if_splits prod.splits)

end

subsection \<open>A table\<close>

text \<open>
  The rows in the order of their insertion; the sequence of the ids stays in an integer of 32 bits.
  The constraints are those of the columns and \<open>ck_dsl_generation_runs_plan_binding\<close>.
\<close>

record generation_table =
  gt_rows :: "(int \<times> generation_row) list"
  gt_next_id :: int
  gt_members :: "(int \<times> int) list"

definition fits :: "nat \<Rightarrow> string option \<Rightarrow> bool" where
  "fits width column = (case column of None \<Rightarrow> True | Some text' \<Rightarrow> RuneCount text' \<le> width)"

definition plan_columns_ok :: "generation_row \<Rightarrow> bool" where
  "plan_columns_ok r \<longleftrightarrow>
     gr_plan_id r = None \<and> gr_plan_version r = None \<and> gr_plan_sha256 r = None \<or>
     gr_plan_id r \<noteq> None \<and>
     (case gr_plan_version r of None \<Rightarrow> False | Some v \<Rightarrow> 1 \<le> v) \<and>
     (case gr_plan_sha256 r of None \<Rightarrow> False | Some h \<Rightarrow> RuneCount h = 64 \<and> ToLower h = h)"

definition row_ok :: "generation_row \<Rightarrow> bool" where
  "row_ok r \<longleftrightarrow>
     RuneCount (gr_prompt_sha256 r) \<le> 64 \<and> fits 500 (gr_base_url r) \<and>
     fits 64 (gr_sha256 r) \<and> fits 32 (gr_version r) \<and> fits 64 (gr_plan_id r) \<and>
     fits 64 (gr_plan_sha256 r) \<and>
     (case gr_plan_version r of None \<Rightarrow> True | Some v \<Rightarrow> - (2 ^ 31) \<le> v \<and> v < 2 ^ 31) \<and>
     plan_columns_ok r"

definition table_acceptable :: "generation_table \<Rightarrow> generation_row \<Rightarrow> bool" where
  "table_acceptable s r \<longleftrightarrow> row_ok r \<and> gt_next_id s < 2 ^ 31 \<and> map_of (gt_rows s) (gt_next_id s) = None"

definition table_members :: "generation_table \<Rightarrow> (int \<times> int) set" where
  "table_members s = set (gt_members s)"

definition table_rows :: "generation_table \<Rightarrow> int \<Rightarrow> generation_row option" where
  "table_rows s = map_of (gt_rows s)"

definition table_db :: "generation_table generation_db" where
  "table_db =
     \<lparr>db_member = \<lambda>s project user. Inr ((project, user) \<in> set (gt_members s)),
      db_insert = \<lambda>s r. if table_acceptable s r
        then (Inr (gt_next_id s),
          s\<lparr>gt_rows := gt_rows s @ [(gt_next_id s, r)], gt_next_id := gt_next_id s + 1\<rparr>)
        else (Inl ''constraint violated'', s\<lparr>gt_next_id := gt_next_id s + 1\<rparr>),
      db_select = \<lambda>s actor project gid. Inr
        (case map_of (gt_rows s) gid of
           Some r \<Rightarrow> if gr_project r = project \<and> gr_actor r = actor \<and>
               (project, actor) \<in> set (gt_members s) then Some r else None
         | None \<Rightarrow> None),
      db_backfill = \<lambda>s gid case' hash version.
        if RuneCount version \<le> 32 \<and> RuneCount hash \<le> 64
        then (None, s\<lparr>gt_rows := map (\<lambda>(i, r).
          (i, if i = gid then backfilled case' hash version r else r)) (gt_rows s)\<rparr>)
        else (Some ''value too long'', s)\<rparr>"

lemma map_of_map_at:
  "map_of (map (\<lambda>(i, r). (i, if i = k then f r else r)) xs) =
     (case map_of xs k of None \<Rightarrow> map_of xs | Some r \<Rightarrow> (map_of xs)(k \<mapsto> f r))"
  by (rule ext) (induction xs; auto split: option.splits if_splits)

interpretation table: generation_database table_db table_rows table_members table_acceptable
  by unfold_locales (auto simp: table_db_def table_rows_def table_members_def table_acceptable_def
    map_of_map_at map_add_def split: option.splits)

end
