(* ===== verification/DslProperties.thy ===== *)
theory DslProperties
  imports DslTyped DslStore
begin

section \<open>Properties of the DSL and its store\<close>

subsection \<open>Cases used below\<close>

text \<open>A waiting step with conditions; \<open>method\<close> is the method its request names.\<close>

definition sample_request :: "json \<Rightarrow> json" where
  "sample_request method = JObj [(''method'', method), (''status'', JInt 200),
     (''type'', JStr ''network_request'')]"

definition sample_case :: "json list \<Rightarrow> json" where
  "sample_case conditions = JObj [(''name'', JStr '' login ''),
     (''steps'', JArr [JObj [(''action'', JStr ''wait_for''), (''postconditions'', JArr conditions),
       (''target'', JStr ''Sign in'')]])]"

definition sample_canonical :: "json list \<Rightarrow> json" where
  "sample_canonical conditions = JObj [(''base_url'', JNull), (''description'', JNull),
     (''input_contract'', JArr []), (''name'', JStr ''login''), (''output_contract'', JArr []),
     (''steps'', JArr [JObj [(''action'', JStr ''wait_for''), (''candidates'', JArr []),
       (''locator_confidence'', JNull), (''page_state'', JNull), (''postconditions'', JArr conditions),
       (''target'', JStr ''Sign in''), (''target_strategy'', JNull), (''timeout_ms'', JInt 5000)]])]"

definition sample_validated :: "json list \<Rightarrow> ValidatedCase" where
  "sample_validated conditions =
     \<lparr>vc_canonical = sample_canonical conditions, vc_base_url = [], vc_profile = ProfileLegacyV1,
      vc_version = CanonicalVersionV1, vc_phase = ValidationPhaseExecutable\<rparr>"

definition canonical_request :: "string \<Rightarrow> json" where
  "canonical_request method = JObj [(''method'', JStr method), (''status'', JInt 200),
     (''timeout_ms'', JInt 3000), (''type'', JStr ''network_request''), (''value'', JNull)]"

lemma sample_accepted:
  "ValidateExecutableCase (Some (sample_case [sample_request (JStr ''post'')])) =
     Inr (sample_validated [canonical_request ''POST''])"
  "ValidateExecutableCase (Some (sample_case [sample_request JNull])) =
     Inr (sample_validated [canonical_request []])"
  by code_simp+

lemma sample_named:
  "methods_named (Some (sample_case [sample_request (JStr ''post'')]))"
  "\<not> methods_named (Some (sample_case [sample_request JNull]))"
  by code_simp+

definition sample_table :: generation_table where
  "sample_table = \<lparr>gt_rows = [], gt_next_id = 1, gt_members = [(3, 7)]\<rparr>"

lemma RuneCount_le_length: "RuneCount s \<le> length s"
  by (simp add: RuneCount_def)

lemma sample_row_ok:
  "table_acceptable sample_table (row_of 7 3 None zero_Binding (sample_validated cs))"
  using RuneCount_le_length [of "sha256_hex x" for x]
  by (auto simp: table_acceptable_def row_ok_def row_of_def sample_table_def sample_validated_def fits_def
    nullableText_def plan_columns_ok_def null_if_def zero_Binding_def CanonicalVersionV1_def RuneCount_def)

subsection \<open>Canonical forms\<close>

text \<open>
  C7. Validation is idempotent but for one slip: the canonical form of an accepted case is
  validated to itself exactly when the case is of research-v2 or no condition of it has an
  explicit \<open>null\<close> method (which the check admits and the canonical form turns into an empty
  text, which the check refuses).
\<close>

theorem canonical_case_revalidates:
  assumes "validateCase phase raw = Inr v"
  shows "validateCase phase (Some (vc_canonical v)) = Inr v \<longleftrightarrow>
    vc_profile v = ProfileResearchV2 \<or> methods_named raw"
  by (rule validate_again_iff(1) [OF assms])

theorem canonical_case_revalidates_witness:
  "validateCase ValidationPhaseExecutable (Some (sample_canonical [canonical_request ''POST''])) =
     Inr (sample_validated [canonical_request ''POST'']) \<and>
   validateCase ValidationPhaseExecutable (Some (sample_canonical [canonical_request []])) \<noteq>
     Inr (sample_validated [canonical_request []])"
  using canonical_case_revalidates [OF sample_accepted(1) [unfolded ValidateExecutableCase_def]]
    canonical_case_revalidates [OF sample_accepted(2) [unfolded ValidateExecutableCase_def]] sample_named
  by (simp add: sample_validated_def ProfileLegacyV1_def ProfileResearchV2_def)

text \<open>
  C10. Every validated case, whatever its profile and phase, has the shape its consumers rely on:
  a trimmed name of 1 to 200 characters, optional texts within their bounds, contracts that are
  arrays, at least one step, each an object with a supported action; its base address is the one
  of the document and its version the one of its profile.
\<close>

theorem validated_case_typed:
  assumes "validateCase phase raw = Inr v"
  shows "typed_case v"
  by (rule validated_typed [OF assms])

theorem validated_case_typed_witness: "typed_case (sample_validated [canonical_request ''POST''])"
  by (rule validated_case_typed [OF sample_accepted(1) [unfolded ValidateExecutableCase_def]])

subsection \<open>Stored generations\<close>

lemma acceptable_binding: "table_acceptable s (row_of actor project warnings binding v) \<Longrightarrow> binding_ok binding"
  by (cases binding)
    (auto simp: table_acceptable_def row_ok_def plan_columns_ok_def row_of_def null_if_def binding_ok_def
      zero_Binding_def RuneCount_def split: if_splits)

lemma case_text_parsed:
  assumes "validateCase phase raw = Inr v" and "json_depth (vc_canonical v) \<le> maxNestingDepth"
  shows "parse_json (case_text v) = Some (vc_canonical v)" and "case_text v \<noteq> []"
proof -
  show "parse_json (case_text v) = Some (vc_canonical v)"
    unfolding case_text_def
    by (rule parse_render_writable [OF normal_writable [OF validated_normal [OF assms(1)]] assms(2)])
  moreover have "parse_json [] = None" by code_simp
  ultimately show "case_text v \<noteq> []" by force
qed

text \<open>
  C8. A generation that was created is read back as it was created, with the hash of its text and
  the plan it was compiled from, exactly when its case is of research-v2 or names every method of
  its conditions; otherwise its own author is refused the case the store accepted.
\<close>

theorem created_generation_reads_back:
  assumes "ValidateExecutableCase candidate = Inr v"
    and "(project, actor) \<in> set (gt_members s)"
    and "table_acceptable s (row_of actor project warnings binding v)"
    and "json_depth (vc_canonical v) \<le> maxNestingDepth"
  shows "\<exists>g s'. CreateGenerationWithPlan table_db actor project candidate warnings binding s = (Inr g, s') \<and>
    gn_case g = render (vc_canonical v) \<and> gn_dsl_hash g = sha256_hex (gn_case g) \<and>
    gn_plan_binding g = binding \<and>
    (if vc_profile v = ProfileResearchV2 \<or> methods_named candidate
     then GetGeneration table_db actor project (gn_id g) s' = (Inr g, s')
     else \<exists>e. GetGeneration table_db actor project (gn_id g) s' = (Inl (PersistedCaseRejected e), s'))"
proof -
  note ok = assms(1) [unfolded ValidateExecutableCase_def]
  note parsed = case_text_parsed [OF ok assms(4)]
  have member: "(project, actor) \<in> table_members s" using assms(2) by (simp add: table_members_def)
  show ?thesis
  proof (cases "vc_profile v = ProfileResearchV2 \<or> methods_named candidate")
    case True
    with validate_again_iff(1) [OF ok] have "ValidateCaseForVersion (parse_json (case_text v)) (vc_version v) = Inr v"
      by (simp add: ValidateCaseForVersion_def ValidateExecutableCase_def parsed(1))
    from table.create_get [OF assms(1) member assms(3) acceptable_binding [OF assms(3)] parsed(2) this] True
    show ?thesis by (auto simp: case_text_def)
  next
    case False
    with validate_again_iff(2) [OF ok] obtain e where
      "ValidateCaseForVersion (parse_json (case_text v)) (vc_version v) = Inl e"
      by (auto simp: ValidateCaseForVersion_def ValidateExecutableCase_def parsed(1))
    note refused = this
    from table.create [OF assms(1) member assms(3)] obtain gid s' where c:
      "CreateGenerationWithPlan table_db actor project candidate warnings binding s =
         (Inr (generation_of gid v True binding), s')"
      "table_rows s' = (table_rows s)(gid \<mapsto> row_of actor project warnings binding v)"
      "table_members s' = table_members s"
      by metis
    have "GetGeneration table_db actor project gid s' = (Inl (PersistedCaseRejected e), s')"
      by (rule table.get_refused [where r = "row_of actor project warnings binding v" and text' = "case_text v"])
        (use c member parsed(2) refused in \<open>simp_all add: row_of_def\<close>)
    with c(1) False show ?thesis
      by (intro exI [of _ "generation_of gid v True binding"] exI [of _ s'])
        (auto simp: generation_of_def case_text_def)
  qed
qed

theorem created_generation_reads_back_witness:
  "\<exists>g s' e. CreateGenerationWithPlan table_db 7 3 (Some (sample_case [sample_request JNull])) None zero_Binding
      sample_table = (Inr g, s') \<and>
    GetGeneration table_db 7 3 (gn_id g) s' = (Inl (PersistedCaseRejected e), s')"
proof -
  have "json_depth (vc_canonical (sample_validated [canonical_request []])) \<le> maxNestingDepth"
    by (simp add: sample_validated_def sample_canonical_def canonical_request_def maxNestingDepth_def)
  from created_generation_reads_back [OF sample_accepted(2) _ sample_row_ok this] sample_named(2)
  show ?thesis by (auto simp: sample_table_def sample_validated_def ProfileLegacyV1_def ProfileResearchV2_def)
qed

text \<open>
  C37. What is read of a generation belongs to its author, a member of its project; its hash is
  that of its own text and the one the row holds, if it holds one.
\<close>

theorem read_generation_is_intact:
  assumes "GetGeneration table_db actor project gid s = (Inr g, s')"
  shows "gn_dsl_hash g = sha256_hex (gn_case g) \<and> (project, actor) \<in> set (gt_members s) \<and>
    (\<exists>r. map_of (gt_rows s) gid = Some r \<and> gr_actor r = actor \<and> gr_project r = project \<and>
      gr_sha256 r \<in> {None, Some (gn_dsl_hash g)} \<and> row_binding r = Some (gn_plan_binding g))"
proof -
  from table.get_hash [OF assms] obtain r v where r: "table_rows s gid = Some r"
    "g = generation_of gid v (gr_success r) (gn_plan_binding g)"
    "gr_sha256 r = None \<or> gr_sha256 r = Some (gn_dsl_hash g)" "row_binding r = Some (gn_plan_binding g)"
    by metis
  have "gn_dsl_hash g = sha256_hex (gn_case g)" by (subst (1 2) r(2)) (simp add: generation_of_def)
  with r table.get_reader [OF assms] show ?thesis by (auto simp: table_rows_def table_members_def)
qed

theorem read_generation_is_intact_witness:
  "\<exists>g s. GetGeneration table_db 7 3 (gn_id g) s = (Inr g, s) \<and>
    gn_dsl_hash g = sha256_hex (gn_case g) \<and> (3, 7) \<in> set (gt_members s)"
proof -
  let ?v = "sample_validated [canonical_request ''POST'']"
  note ok = sample_accepted(1) [unfolded ValidateExecutableCase_def]
  have depth: "json_depth (vc_canonical ?v) \<le> maxNestingDepth"
    by (simp add: sample_validated_def sample_canonical_def canonical_request_def maxNestingDepth_def)
  have again: "ValidateCaseForVersion (parse_json (case_text ?v)) (vc_version ?v) = Inr ?v"
    using validate_again_iff(1) [OF ok] sample_named(1)
    by (simp add: ValidateCaseForVersion_def ValidateExecutableCase_def case_text_parsed(1) [OF ok depth])
  have member: "(3, 7) \<in> table_members sample_table" by (simp add: sample_table_def table_members_def)
  from table.create_get [OF sample_accepted(1) member sample_row_ok _ case_text_parsed(2) [OF ok depth] again]
  obtain g s' where g: "GetGeneration table_db 7 3 (gn_id g) s' = (Inr g, s')" by (auto simp: binding_ok_def)
  with read_generation_is_intact [OF this] show ?thesis by blast
qed

text \<open>
  C9. Every step of an executable case of research-v2 that acts on an element has a target the
  worker can trust: the case has a plan, the step's binding is among those the case lists with the
  lineage the step names (or neither names one), and each of its locator candidates was observed
  exactly once and visible, with a valid locator.
\<close>

theorem executable_v2_targets:
  assumes "ValidateExecutableCase raw = Inr v" and "vc_profile v = ProfileResearchV2"
    and "vc_canonical v = JObj m" and "JObj s \<in> set (items (any_get m ''steps''))"
    and "requiresV2TargetBinding (any_string (any_get s ''action''))"
  shows "is_object (any_get m ''plan_binding'') \<and>
    (\<exists>bindings b. validateV2ObservationBindings (any_get m ''observation_bindings'') = Inr bindings \<and>
      map_of bindings (v2StringValue (any_get s ''target_binding_id'')) = Some b \<and>
      (same_lineage s b \<or> \<not> hasV2Lineage s \<and> ob_probe_id b = [])) \<and>
    items (any_get s ''locator_candidates'') \<noteq> [] \<and>
    list_all observed_candidate (items (any_get s ''locator_candidates''))"
  using v2_target [OF assms] by metis

definition sample_hash :: string where
  "sample_hash = replicate 64 (CHR ''a'')"

definition sample_v2_step :: json where
  "sample_v2_step = JObj [(''action'', JStr ''assert_text''), (''idempotency'', JStr ''idempotent''),
     (''intent'', JStr ''see the greeting''),
     (''locator_candidates'', JArr [JObj [(''candidate_id'', JStr ''c1''), (''element_ref'', JStr ''e1''),
        (''locator'', JObj [(''kind'', JStr ''role''), (''role'', JStr ''heading'')]),
        (''observed_count'', JInt 1), (''provenance'', JStr ''a11y''), (''visible'', JBool True)]]),
     (''plan_step_id'', JStr ''s1''), (''postconditions'', JArr []), (''preconditions'', JArr []),
     (''semantic_target'', JStr ''greeting''), (''side_effect'', JStr ''none''),
     (''target_binding_id'', JStr ''b1''), (''value'', JStr ''Hello'')]"

definition sample_v2 :: "(string \<times> json) list" where
  "sample_v2 = [(''input_contract'', JArr []), (''name'', JStr ''greeting''),
     (''observation_bindings'', JArr [JObj [(''binding_id'', JStr ''b1''), (''binding_sha256'', JStr sample_hash),
        (''observation_id'', JStr ''o1''), (''observation_sha256'', JStr sample_hash)]]),
     (''output_contract'', JArr []), (''plan_binding'', JObj []), (''profile'', JStr ''research-v2''),
     (''steps'', JArr [sample_v2_step])]"

lemma sample_v2_accepted:
  "ValidateExecutableCase (Some (JObj sample_v2)) = Inr \<lparr>vc_canonical = JObj sample_v2, vc_base_url = [],
     vc_profile = ProfileResearchV2, vc_version = CanonicalVersionV3, vc_phase = ValidationPhaseExecutable\<rparr>"
  by code_simp

theorem executable_v2_targets_witness:
  "is_object (any_get sample_v2 ''plan_binding'') \<and>
   list_all observed_candidate (items (any_get (object_members sample_v2_step) ''locator_candidates''))"
proof -
  have "sample_v2_step \<in> set (items (any_get sample_v2 ''steps''))" by code_simp
  moreover have "sample_v2_step = JObj (object_members sample_v2_step)" by code_simp
  ultimately have "JObj (object_members sample_v2_step) \<in> set (items (any_get sample_v2 ''steps''))" by simp
  moreover have "requiresV2TargetBinding (any_string (any_get (object_members sample_v2_step) ''action''))"
    by code_simp
  ultimately show ?thesis using executable_v2_targets [OF sample_v2_accepted] by simp
qed

text \<open>
  C38. Every click, input and capture of an executable case of research-v1 has a locator of high or
  medium confidence whose candidates use strategies the worker knows, one of them verified by the
  preflight.
\<close>

theorem executable_v1_targets:
  assumes "ValidateExecutableCase raw = Inr v" and "vc_profile v = ProfileResearchV1"
    and "vc_canonical v = JObj m" and "JObj s \<in> set (items (any_get m ''steps''))"
    and "any_string (any_get s ''action'') \<in> {''click'', ''input'', ''capture_text''}"
  shows "trimmedString (any_get s ''locator_confidence'') \<in> {''high'', ''medium''} \<and>
    list_ex verified_candidate (items (any_get s ''candidates'')) \<and>
    (\<forall>c \<in> set (items (any_get s ''candidates'')).
      trimmedString (any_get (object_members c) ''strategy'') \<in> set executableCandidateStrategies)"
  using v1_target [OF assms] by blast

definition sample_v1_step :: json where
  "sample_v1_step = JObj [(''action'', JStr ''capture_text''),
     (''candidates'', JArr [JObj [(''pre_features'', JObj [(''source'', JStr ''a11y_role_exact''), (''verified'', JBool True)]),
        (''pre_score'', JInt 1), (''selector'', JStr ''heading''), (''semantic_value'', JNull), (''strategy'', JStr ''role'')]]),
     (''context_key'', JStr ''greeting''), (''idempotency'', JStr ''idempotent''),
     (''intent'', JStr ''read the greeting''), (''locator_confidence'', JStr ''high''), (''page_state'', JNull),
     (''postconditions'', JArr []), (''preconditions'', JArr []), (''side_effect'', JStr ''none''),
     (''target'', JStr ''greeting''), (''target_strategy'', JNull)]"

definition sample_v1 :: "(string \<times> json) list" where
  "sample_v1 = [(''base_url'', JNull), (''description'', JNull), (''input_contract'', JArr []),
     (''name'', JStr ''greeting''), (''output_contract'', JArr []), (''profile'', JStr ''research-v1''),
     (''steps'', JArr [sample_v1_step])]"

lemma sample_v1_accepted:
  "ValidateExecutableCase (Some (JObj sample_v1)) = Inr \<lparr>vc_canonical = JObj sample_v1, vc_base_url = [],
     vc_profile = ProfileResearchV1, vc_version = CanonicalVersionV2, vc_phase = ValidationPhaseExecutable\<rparr>"
  by code_simp

theorem executable_v1_targets_witness:
  "list_ex verified_candidate (items (any_get (object_members sample_v1_step) ''candidates''))"
proof -
  have "sample_v1_step \<in> set (items (any_get sample_v1 ''steps''))" by code_simp
  moreover have "sample_v1_step = JObj (object_members sample_v1_step)" by code_simp
  ultimately have "JObj (object_members sample_v1_step) \<in> set (items (any_get sample_v1 ''steps''))" by simp
  moreover have "any_string (any_get (object_members sample_v1_step) ''action'') \<in> {''click'', ''input'', ''capture_text''}"
    by code_simp
  ultimately show ?thesis using executable_v1_targets [OF sample_v1_accepted] by simp
qed

end
