(* ===== verification/AgentRuns.thy ===== *)
theory AgentRuns
  imports Json GoTime
begin

section \<open>Agent runs and their event log (internal/agentservice: types.go, repository.go,
  memory_repository.go)\<close>

text \<open>
  An agent run is one conversation of the model with the control plane; everything that happens
  in it is appended to the log of the run. This theory has the data model, the interface
  Repository as a record of its methods, the repository in memory, and the specification all
  repositories share: a map from run ids to the run and its log.
\<close>

subsection \<open>Data model\<close>

record ModelTool =
  mt_id :: string
  mt_name :: string
  mt_arguments :: string

record Message =
  ms_role :: string
  ms_content :: string
  ms_reasoning_content :: string
  ms_tool_call_id :: string
  ms_tool_calls :: "ModelTool list"
  ms_segment_boundary :: bool

definition zero_Message :: Message where
  "zero_Message = \<lparr>ms_role = [], ms_content = [], ms_reasoning_content = [],
     ms_tool_call_id = [], ms_tool_calls = [], ms_segment_boundary = False\<rparr>"

datatype RunStatus =
    RunStatusRunning
  | RunStatusWaitingUser
  | RunStatusCompleted
  | RunStatusFailed
  | RunStatusCancelled

datatype EventType =
    EventRunStarted
  | EventRunFinished
  | EventRunFailed
  | EventRunCancelled
  | EventMessageStarted
  | EventMessageDelta
  | EventMessageFinished
  | EventToolStarted
  | EventToolArgsDelta
  | EventToolPending
  | EventToolResult
  | EventToolFinished
  | EventToolFailed
  | EventArtifact
  | EventResearchLLMCall
  | EventTaskPlanUpdated
  | EventPipelineTrace

record AgentRun =
  ag_id :: string
  ag_actor_user_id :: int
  ag_conversation_id :: string
  ag_project_id :: int
  ag_status :: RunStatus
  ag_input :: string
  ag_pending_tool_call_id :: "string option"
  ag_pending_step_id :: "string option"
  ag_latest_generation_id :: "int option"
  ag_approved_generation_id :: "int option"
  ag_transcript :: "Message list"
  ag_created_at :: go_time
  ag_updated_at :: go_time

text \<open>The payload is a \<open>map[string]any\<close>, its values as JSON; \<open>None\<close> is the \<open>nil\<close> map.\<close>

record Event =
  ev_seq :: int
  ev_type :: EventType
  ev_conversation_id :: string
  ev_run_id :: string
  ev_step_id :: string
  ev_tool_call_id :: string
  ev_parent_id :: string
  ev_checkpoint_id :: string
  ev_timestamp :: go_time
  ev_payload :: "(string \<times> json) list option"

text \<open>\<open>Event{Type: t}\<close>: every other field has its zero value.\<close>

definition new_event :: "EventType \<Rightarrow> Event" where
  "new_event t = \<lparr>ev_seq = 0, ev_type = t, ev_conversation_id = [], ev_run_id = [],
     ev_step_id = [], ev_tool_call_id = [], ev_parent_id = [], ev_checkpoint_id = [],
     ev_timestamp = 0, ev_payload = None\<rparr>"

datatype agent_error =
    ErrRunNotFound
  | ErrRunAccessDenied
  | ErrRunCancelled
  | ErrRunNotWaitingForUser
  | ErrToolCallMismatch
  | ErrEventNotFound
  | ConversationRequired
  | InputRequired
  | AfterSeqNegative
  | RunIdRequired
  | SeqNotPositive
  | CancelReasonRequired
  | CannotRequestInput RunStatus
  | QuestionCount
  | QuestionIncomplete
  | QuestionDuplicate string
  | QuestionOptions string
  | CreateRunFailed agent_error
  | SaveWaitingFailed agent_error
  | SaveResumedFailed agent_error
  | AppendEventFailed agent_error
  | SendOnClosedChannel
  | TraceSchemaUnsupported string
  | TraceEpochInvalid
  | TracePlanInvalid
  | TraceModelDetail
  | TraceModelIncomplete
  | TraceToolDetail
  | TraceToolIncomplete
  | TraceLineageInvalid
  | TraceObservationInvalid
  | TraceKindUnsupported string
  | RecordModelTraceFailed agent_error

text \<open>\<open>errors.Is\<close>: through every message that wraps its cause with \<open>%w\<close>.\<close>

fun errors_Is :: "agent_error \<Rightarrow> agent_error \<Rightarrow> bool" where
  "errors_Is (CreateRunFailed e) t \<longleftrightarrow> CreateRunFailed e = t \<or> errors_Is e t"
| "errors_Is (SaveWaitingFailed e) t \<longleftrightarrow> SaveWaitingFailed e = t \<or> errors_Is e t"
| "errors_Is (SaveResumedFailed e) t \<longleftrightarrow> SaveResumedFailed e = t \<or> errors_Is e t"
| "errors_Is (AppendEventFailed e) t \<longleftrightarrow> AppendEventFailed e = t \<or> errors_Is e t"
| "errors_Is (RecordModelTraceFailed e) t \<longleftrightarrow> RecordModelTraceFailed e = t \<or> errors_Is e t"
| "errors_Is e t \<longleftrightarrow> e = t"

subsection \<open>The interface Repository\<close>

text \<open>
  Writing methods return the error or result and the new state. The event and the flag
  \<open>transitioned\<close> that \<open>CancelRun\<close> returns are an option.
\<close>

record 's agent_repo =
  ar_create :: "AgentRun \<Rightarrow> 's \<Rightarrow> agent_error option \<times> 's"
  ar_get :: "'s \<Rightarrow> string \<Rightarrow> agent_error + AgentRun"
  ar_save :: "AgentRun \<Rightarrow> 's \<Rightarrow> agent_error option \<times> 's"
  ar_cancel :: "string \<Rightarrow> go_time \<Rightarrow> Event \<Rightarrow> 's \<Rightarrow> (agent_error + AgentRun \<times> Event option) \<times> 's"
  ar_append :: "Event \<Rightarrow> 's \<Rightarrow> (agent_error + Event) \<times> 's"
  ar_event :: "'s \<Rightarrow> string \<Rightarrow> int \<Rightarrow> agent_error + Event"
  ar_events :: "'s \<Rightarrow> string \<Rightarrow> int \<Rightarrow> agent_error + Event list"

subsection \<open>The repository in memory\<close>

record agent_memory =
  am_runs :: "string \<rightharpoonup> AgentRun"
  am_events :: "string \<Rightarrow> Event list"

definition NewAgentMemory :: agent_memory where
  "NewAgentMemory = \<lparr>am_runs = (\<lambda>_. None), am_events = (\<lambda>_. [])\<rparr>"

text \<open>Copies: values are immutable here, so a clone is the value itself.\<close>

definition cloneRun :: "AgentRun \<Rightarrow> AgentRun" where
  "cloneRun run = run"

definition cloneMap :: "(string \<times> json) list option \<Rightarrow> (string \<times> json) list option" where
  "cloneMap source = (case source of None \<Rightarrow> Some [] | Some m \<Rightarrow> Some m)"

definition normalizeEvent :: "Event \<Rightarrow> Event" where
  "normalizeEvent event =
     event\<lparr>ev_payload := map_option (\<lambda>m. object_members (anyval (JObj m))) (ev_payload event)\<rparr>"

definition amem_CreateRun :: "AgentRun \<Rightarrow> agent_memory \<Rightarrow> agent_error option \<times> agent_memory" where
  "amem_CreateRun run m = (None, m\<lparr>am_runs := (am_runs m)(ag_id run \<mapsto> cloneRun run)\<rparr>)"

definition amem_GetRun :: "agent_memory \<Rightarrow> string \<Rightarrow> agent_error + AgentRun" where
  "amem_GetRun m run_id =
     (case am_runs m run_id of None \<Rightarrow> Inl ErrRunNotFound | Some run \<Rightarrow> Inr (cloneRun run))"

definition amem_SaveRun :: "AgentRun \<Rightarrow> agent_memory \<Rightarrow> agent_error option \<times> agent_memory" where
  "amem_SaveRun run m =
     (case am_runs m (ag_id run) of
        None \<Rightarrow> (Some ErrRunNotFound, m)
      | Some current \<Rightarrow>
        if ag_status current = RunStatusCancelled then (Some ErrRunCancelled, m)
        else (None, m\<lparr>am_runs := (am_runs m)(ag_id run \<mapsto> cloneRun run)\<rparr>))"

text \<open>The end of \<open>CancelRun\<close> and \<open>AppendEvent\<close>: the event gets the next number of its run.\<close>

definition append_numbered :: "string \<Rightarrow> Event \<Rightarrow> agent_memory \<Rightarrow> Event \<times> agent_memory" where
  "append_numbered run_id event m =
     (let numbered = normalizeEvent (event\<lparr>ev_seq := int (length (am_events m run_id)) + 1\<rparr>)
      in (numbered, m\<lparr>am_events := (am_events m)(run_id := am_events m run_id @ [numbered])\<rparr>))"

definition cancelled_run :: "go_time \<Rightarrow> AgentRun \<Rightarrow> AgentRun" where
  "cancelled_run updated_at run = run\<lparr>ag_status := RunStatusCancelled,
     ag_pending_tool_call_id := None, ag_pending_step_id := None, ag_updated_at := updated_at\<rparr>"

definition amem_CancelRun ::
  "string \<Rightarrow> go_time \<Rightarrow> Event \<Rightarrow> agent_memory
   \<Rightarrow> (agent_error + AgentRun \<times> Event option) \<times> agent_memory" where
  "amem_CancelRun run_id updated_at event m =
     (case am_runs m run_id of
        None \<Rightarrow> (Inl ErrRunNotFound, m)
      | Some run \<Rightarrow>
        if ag_status run \<noteq> RunStatusRunning \<and> ag_status run \<noteq> RunStatusWaitingUser
        then (Inr (cloneRun run, None), m)
        else
          let run' = cancelled_run updated_at run;
              m' = m\<lparr>am_runs := (am_runs m)(run_id \<mapsto> cloneRun run')\<rparr>;
              appended = append_numbered run_id
                (event\<lparr>ev_run_id := ag_id run, ev_conversation_id := ag_conversation_id run\<rparr>) m'
          in (Inr (cloneRun run', Some (fst appended)), snd appended))"

definition amem_AppendEvent :: "Event \<Rightarrow> agent_memory \<Rightarrow> (agent_error + Event) \<times> agent_memory" where
  "amem_AppendEvent event m =
     (case am_runs m (ev_run_id event) of
        None \<Rightarrow> (Inl ErrRunNotFound, m)
      | Some run \<Rightarrow>
        if ag_status run = RunStatusCancelled then (Inl ErrRunCancelled, m)
        else let appended = append_numbered (ev_run_id event) event m
          in (Inr (fst appended), snd appended))"

definition clone_payload :: "Event \<Rightarrow> Event" where
  "clone_payload event = event\<lparr>ev_payload := cloneMap (ev_payload event)\<rparr>"

definition amem_GetEvent :: "agent_memory \<Rightarrow> string \<Rightarrow> int \<Rightarrow> agent_error + Event" where
  "amem_GetEvent m run_id seq =
     (if am_runs m run_id = None then Inl ErrRunNotFound
      else if seq < 1 \<or> int (length (am_events m run_id)) < seq then Inl ErrEventNotFound
      else Inr (clone_payload (am_events m run_id ! nat (seq - 1))))"

definition amem_ListEvents :: "agent_memory \<Rightarrow> string \<Rightarrow> int \<Rightarrow> agent_error + Event list" where
  "amem_ListEvents m run_id after_seq =
     (if am_runs m run_id = None then Inl ErrRunNotFound
      else Inr (map clone_payload (filter (\<lambda>e. \<not> ev_seq e \<le> after_seq) (am_events m run_id))))"

definition agent_memory_repo :: "agent_memory agent_repo" where
  "agent_memory_repo = \<lparr>ar_create = amem_CreateRun, ar_get = amem_GetRun, ar_save = amem_SaveRun,
     ar_cancel = amem_CancelRun, ar_append = amem_AppendEvent, ar_event = amem_GetEvent,
     ar_events = amem_ListEvents\<rparr>"

end
