(* ===== verification/AgentRunLaws.thy ===== *)
theory AgentRunLaws
  imports AgentRuns
begin

section \<open>What a repository of agent runs promises\<close>

text \<open>
  The contract of the interface Repository is a small machine on a map from run ids to the run
  and its log (\<open>spec_\<dots>\<close>); the locale \<open>agent_repository\<close> says that a repository behaves like
  this machine under an abstraction \<open>view\<close>. The repository in memory is an interpretation.
  Every method holds the lock of the repository, so whatever the goroutines of the service do,
  the repository sees one sequence of calls: the properties hold for every such sequence.
\<close>

subsection \<open>The specification\<close>

type_synonym run_view = "string \<rightharpoonup> AgentRun \<times> Event list"

definition numbered :: "Event list \<Rightarrow> Event \<Rightarrow> Event" where
  "numbered es event = normalizeEvent (event\<lparr>ev_seq := int (length es) + 1\<rparr>)"

definition spec_get :: "run_view \<Rightarrow> string \<Rightarrow> agent_error + AgentRun" where
  "spec_get v run_id = (case v run_id of None \<Rightarrow> Inl ErrRunNotFound | Some (r, _) \<Rightarrow> Inr r)"

definition spec_save :: "AgentRun \<Rightarrow> run_view \<Rightarrow> agent_error option \<times> run_view" where
  "spec_save r v =
     (case v (ag_id r) of
        None \<Rightarrow> (Some ErrRunNotFound, v)
      | Some (c, es) \<Rightarrow> if ag_status c = RunStatusCancelled then (Some ErrRunCancelled, v)
          else (None, v(ag_id r \<mapsto> (r, es))))"

definition spec_cancel ::
  "string \<Rightarrow> go_time \<Rightarrow> Event \<Rightarrow> run_view
   \<Rightarrow> (agent_error + AgentRun \<times> Event option) \<times> run_view" where
  "spec_cancel run_id now event v =
     (case v run_id of
        None \<Rightarrow> (Inl ErrRunNotFound, v)
      | Some (r, es) \<Rightarrow>
        if ag_status r \<notin> {RunStatusRunning, RunStatusWaitingUser} then (Inr (r, None), v)
        else
          let e = numbered es (event\<lparr>ev_run_id := ag_id r,
                ev_conversation_id := ag_conversation_id r\<rparr>)
          in (Inr (cancelled_run now r, Some e), v(run_id \<mapsto> (cancelled_run now r, es @ [e]))))"

definition spec_append :: "Event \<Rightarrow> run_view \<Rightarrow> (agent_error + Event) \<times> run_view" where
  "spec_append event v =
     (case v (ev_run_id event) of
        None \<Rightarrow> (Inl ErrRunNotFound, v)
      | Some (r, es) \<Rightarrow> if ag_status r = RunStatusCancelled then (Inl ErrRunCancelled, v)
          else (Inr (numbered es event), v(ev_run_id event \<mapsto> (r, es @ [numbered es event]))))"

definition spec_events :: "run_view \<Rightarrow> string \<Rightarrow> int \<Rightarrow> agent_error + Event list" where
  "spec_events v run_id after_seq =
     (case v run_id of None \<Rightarrow> Inl ErrRunNotFound
      | Some (_, es) \<Rightarrow> Inr (map clone_payload (filter (\<lambda>e. after_seq < ev_seq e) es)))"

definition spec_event :: "run_view \<Rightarrow> string \<Rightarrow> int \<Rightarrow> agent_error + Event" where
  "spec_event v run_id seq =
     (case v run_id of None \<Rightarrow> Inl ErrRunNotFound
      | Some (_, es) \<Rightarrow> if seq < 1 \<or> int (length es) < seq then Inl ErrEventNotFound
          else Inr (clone_payload (es ! nat (seq - 1))))"

text \<open>A run is known under its id, and its log carries the numbers from 1 on.\<close>

definition log_ok :: "string \<Rightarrow> Event list \<Rightarrow> bool" where
  "log_ok run es \<longleftrightarrow> (\<forall>i < length es. ev_seq (es ! i) = int i + 1 \<and> ev_run_id (es ! i) = run)"

definition view_ok :: "run_view \<Rightarrow> bool" where
  "view_ok v \<longleftrightarrow> (\<forall>run r es. v run = Some (r, es) \<longrightarrow> ag_id r = run \<and> log_ok run es)"

lemma view_okD: "view_ok v \<Longrightarrow> v run = Some (r, es) \<Longrightarrow> ag_id r = run \<and> log_ok run es"
  by (simp add: view_ok_def)

lemma normalizeEvent_fields [simp]:
  "ev_seq (normalizeEvent e) = ev_seq e" "ev_run_id (normalizeEvent e) = ev_run_id e"
  "ev_type (normalizeEvent e) = ev_type e" "ev_step_id (normalizeEvent e) = ev_step_id e"
  "ev_tool_call_id (normalizeEvent e) = ev_tool_call_id e"
  "ev_conversation_id (normalizeEvent e) = ev_conversation_id e"
  by (simp_all add: normalizeEvent_def)

lemma numbered_fields [simp]:
  "ev_seq (numbered es e) = int (length es) + 1" "ev_run_id (numbered es e) = ev_run_id e"
  "ev_type (numbered es e) = ev_type e" "ev_step_id (numbered es e) = ev_step_id e"
  "ev_tool_call_id (numbered es e) = ev_tool_call_id e"
  "ev_conversation_id (numbered es e) = ev_conversation_id e"
  by (simp_all add: numbered_def)

lemma cancelled_run_fields [simp]:
  "ag_id (cancelled_run now r) = ag_id r" "ag_status (cancelled_run now r) = RunStatusCancelled"
  by (simp_all add: cancelled_run_def)

lemma log_ok_snoc_iff:
  "log_ok run (es @ [e]) \<longleftrightarrow> log_ok run es \<and> ev_seq e = int (length es) + 1 \<and> ev_run_id e = run"
  by (auto simp: log_ok_def nth_append less_Suc_eq)

lemma log_ok_snoc: "log_ok run es \<Longrightarrow> ev_run_id e = run \<Longrightarrow> log_ok run (es @ [numbered es e])"
  by (simp add: log_ok_snoc_iff)

lemma log_ok_filter:
  assumes "log_ok run es" and "0 \<le> k"
  shows "filter (\<lambda>e. k < ev_seq e) es = drop (nat k) es"
  using assms(1)
proof (induction es rule: rev_induct)
  case Nil
  then show ?case by simp
next
  case (snoc e es)
  then have "log_ok run es" and "ev_seq e = int (length es) + 1"
    by (simp_all only: log_ok_snoc_iff)
  moreover have "nat k - length es = 0 \<longleftrightarrow> k < int (length es) + 1"
    using assms(2) by linarith
  ultimately show ?case using snoc.IH by simp
qed

lemma view_ok_upd:
  "view_ok v \<Longrightarrow> ag_id r = run \<Longrightarrow> log_ok run es \<Longrightarrow> view_ok (v(run \<mapsto> (r, es)))"
  by (simp add: view_ok_def)

lemma spec_save_ok: "view_ok v \<Longrightarrow> view_ok (snd (spec_save r v))"
  by (auto simp: spec_save_def split: option.split dest: view_okD intro!: view_ok_upd)

lemma spec_append_ok: "view_ok v \<Longrightarrow> view_ok (snd (spec_append e v))"
  by (auto simp: spec_append_def split: option.split dest: view_okD intro!: view_ok_upd log_ok_snoc)

lemma spec_cancel_ok: "view_ok v \<Longrightarrow> view_ok (snd (spec_cancel run_id now e v))"
  by (auto simp: spec_cancel_def Let_def split: option.split dest: view_okD
    intro!: view_ok_upd log_ok_snoc)

subsection \<open>The contract of a repository\<close>

locale agent_repository =
  fixes repo :: "'s agent_repo"
    and inv :: "'s \<Rightarrow> bool"
    and view :: "'s \<Rightarrow> run_view"
  assumes view_law: "inv s \<Longrightarrow> view_ok (view s)"
    and create_law: "inv s \<Longrightarrow> view s (ag_id r) = None \<Longrightarrow>
      \<exists>s'. ar_create repo r s = (None, s') \<and> inv s' \<and> view s' = (view s)(ag_id r \<mapsto> (r, []))"
    and save_law: "inv s \<Longrightarrow> ar_save repo r s = (x, s') \<Longrightarrow>
      inv s' \<and> spec_save r (view s) = (x, view s')"
    and cancel_law: "inv s \<Longrightarrow> ar_cancel repo run_id now e s = (y, s') \<Longrightarrow>
      inv s' \<and> spec_cancel run_id now e (view s) = (y, view s')"
    and append_law: "inv s \<Longrightarrow> ar_append repo e s = (z, s') \<Longrightarrow>
      inv s' \<and> spec_append e (view s) = (z, view s')"
    and get_law: "inv s \<Longrightarrow> ar_get repo s = spec_get (view s)"
    and event_law: "inv s \<Longrightarrow> ar_event repo s = spec_event (view s)"
    and events_law: "inv s \<Longrightarrow> ar_events repo s = spec_events (view s)"

subsection \<open>The repository in memory meets it\<close>

definition memory_view :: "agent_memory \<Rightarrow> run_view" where
  "memory_view m = (\<lambda>run. map_option (\<lambda>r. (r, am_events m run)) (am_runs m run))"

definition agent_memory_inv :: "agent_memory \<Rightarrow> bool" where
  "agent_memory_inv m \<longleftrightarrow> view_ok (memory_view m) \<and>
     (\<forall>run. am_runs m run = None \<longrightarrow> am_events m run = [])"

lemma memory_view_simps:
  "memory_view (m\<lparr>am_runs := (am_runs m)(run \<mapsto> r)\<rparr>) = (memory_view m)(run \<mapsto> (r, am_events m run))"
  "am_runs m run = Some r \<Longrightarrow>
   memory_view (m\<lparr>am_events := (am_events m)(run := es)\<rparr>) = (memory_view m)(run \<mapsto> (r, es))"
  by (auto simp: memory_view_def fun_eq_iff)

lemma not_le_less: "(\<lambda>e. \<not> ev_seq e \<le> (k :: int)) = (\<lambda>e. k < ev_seq e)"
  by (auto simp: fun_eq_iff)

lemma amem_SaveRun_sim:
  "spec_save r (memory_view m) = (fst (amem_SaveRun r m), memory_view (snd (amem_SaveRun r m)))"
  by (auto simp: spec_save_def amem_SaveRun_def memory_view_def cloneRun_def fun_eq_iff
    split: option.splits)

lemma amem_AppendEvent_sim:
  "spec_append e (memory_view m) =
     (fst (amem_AppendEvent e m), memory_view (snd (amem_AppendEvent e m)))"
  by (auto simp: spec_append_def amem_AppendEvent_def memory_view_def append_numbered_def
    numbered_def Let_def fun_eq_iff split: option.splits)

lemma amem_CancelRun_sim:
  "spec_cancel run_id now e (memory_view m) =
     (fst (amem_CancelRun run_id now e m), memory_view (snd (amem_CancelRun run_id now e m)))"
  by (auto simp: spec_cancel_def amem_CancelRun_def memory_view_def append_numbered_def
    numbered_def Let_def cloneRun_def fun_eq_iff split: option.splits)

lemma memory_empty_logs:
  assumes "agent_memory_inv m"
  shows "am_runs (snd (amem_SaveRun r m)) run = None \<longrightarrow> am_events (snd (amem_SaveRun r m)) run = []"
    and "am_runs (snd (amem_AppendEvent e m)) run = None \<longrightarrow>
      am_events (snd (amem_AppendEvent e m)) run = []"
    and "am_runs (snd (amem_CancelRun i now e m)) run = None \<longrightarrow>
      am_events (snd (amem_CancelRun i now e m)) run = []"
  using assms
  by (auto simp: agent_memory_inv_def amem_SaveRun_def amem_AppendEvent_def amem_CancelRun_def
    append_numbered_def Let_def split: option.splits)

lemma memory_view_ok: "agent_memory_inv m \<Longrightarrow> view_ok (memory_view m)"
  by (simp add: agent_memory_inv_def)

lemma amem_SaveRun_inv: "agent_memory_inv m \<Longrightarrow> agent_memory_inv (snd (amem_SaveRun r m))"
  using spec_save_ok [of "memory_view m" r] memory_empty_logs(1) [of m]
  by (simp add: agent_memory_inv_def amem_SaveRun_sim)

lemma amem_AppendEvent_inv: "agent_memory_inv m \<Longrightarrow> agent_memory_inv (snd (amem_AppendEvent e m))"
  using spec_append_ok [of "memory_view m" e] memory_empty_logs(2) [of m]
  by (simp add: agent_memory_inv_def amem_AppendEvent_sim)

lemma amem_CancelRun_inv: "agent_memory_inv m \<Longrightarrow> agent_memory_inv (snd (amem_CancelRun i now e m))"
  using spec_cancel_ok [of "memory_view m" i now e] memory_empty_logs(3) [of m]
  by (simp add: agent_memory_inv_def amem_CancelRun_sim)

lemma amem_CreateRun_new:
  assumes "agent_memory_inv m" and "am_runs m (ag_id r) = None"
  shows "agent_memory_inv (snd (amem_CreateRun r m))"
    and "memory_view (snd (amem_CreateRun r m)) = (memory_view m)(ag_id r \<mapsto> (r, []))"
  using assms
  by (auto simp: agent_memory_inv_def amem_CreateRun_def cloneRun_def memory_view_simps
    view_ok_def log_ok_def)

interpretation agent_mem: agent_repository agent_memory_repo agent_memory_inv memory_view
proof (unfold_locales, goal_cases)
  case (1 s)
  then show ?case by (rule memory_view_ok)
next
  case (2 s r)
  then show ?case
    using amem_CreateRun_new [of s r]
    by (simp add: agent_memory_repo_def memory_view_def amem_CreateRun_def)
next
  case (3 s r x s')
  then show ?case
    using amem_SaveRun_inv [of s r] amem_SaveRun_sim [of r s] by (simp add: agent_memory_repo_def)
next
  case (4 s i now e y s')
  then show ?case
    using amem_CancelRun_inv [of s i now e] amem_CancelRun_sim [of i now e s]
    by (simp add: agent_memory_repo_def)
next
  case (5 s e z s')
  then show ?case
    using amem_AppendEvent_inv [of s e] amem_AppendEvent_sim [of e s]
    by (simp add: agent_memory_repo_def)
next
  case (6 s)
  then show ?case
    by (auto simp: agent_memory_repo_def amem_GetRun_def spec_get_def memory_view_def cloneRun_def
      fun_eq_iff split: option.splits)
next
  case (7 s)
  then show ?case
    by (auto simp: agent_memory_repo_def amem_GetEvent_def spec_event_def memory_view_def
      fun_eq_iff split: option.splits)
next
  case (8 s)
  then show ?case
    by (auto simp: agent_memory_repo_def amem_ListEvents_def spec_events_def memory_view_def
      not_le_less fun_eq_iff split: option.splits)
qed

end
