(* ===== verification/EventBroker.thy ===== *)
theory EventBroker
  imports Prelude
begin

section \<open>Waking the readers of a run (internal/agentservice/broker.go)\<close>

text \<open>
  The broker holds, per run, the channels of its subscribers. A channel has room for one token;
  publishing puts a token into every channel that has room and never waits. Channels are shared
  between the broker and the subscriptions, so they live in a store of their own, addressed by
  the subscription id, with the run the subscription is for (which the function \<open>Cancel\<close> of the
  subscription captures); the ids are natural numbers (the counter of the source has 64 bits).
\<close>

record wake_channel =
  wc_run :: string
  wc_token :: bool
  wc_closed :: bool

record event_broker =
  eb_next_id :: nat
  eb_subscribers :: "string \<rightharpoonup> nat list"
  eb_channels :: "nat \<rightharpoonup> wake_channel"

definition NewEventBroker :: event_broker where
  "NewEventBroker = \<lparr>eb_next_id = 0, eb_subscribers = (\<lambda>_. None), eb_channels = (\<lambda>_. None)\<rparr>"

definition subscribers_of :: "event_broker \<Rightarrow> string \<Rightarrow> nat list" where
  "subscribers_of b run = (case eb_subscribers b run of None \<Rightarrow> [] | Some ids \<Rightarrow> ids)"

text \<open>
  \<open>select { case channel <- struct{}{}: default: }\<close>. Sending on a closed channel panics, which
  is \<open>None\<close> here.
\<close>

definition offer :: "nat \<Rightarrow> event_broker \<Rightarrow> event_broker option" where
  "offer i b =
     (case eb_channels b i of
        None \<Rightarrow> Some b
      | Some c \<Rightarrow> if wc_closed c then None
          else Some (b\<lparr>eb_channels := (eb_channels b)(i \<mapsto> c\<lparr>wc_token := True\<rparr>)\<rparr>))"

fun offer_all :: "nat list \<Rightarrow> event_broker \<Rightarrow> event_broker option" where
  "offer_all [] b = Some b"
| "offer_all (i # ids) b = (case offer i b of None \<Rightarrow> None | Some b' \<Rightarrow> offer_all ids b')"

definition Publish :: "string \<Rightarrow> event_broker \<Rightarrow> event_broker option" where
  "Publish run b = offer_all (subscribers_of b run) b"

definition Subscribe :: "string \<Rightarrow> event_broker \<Rightarrow> nat \<times> event_broker" where
  "Subscribe run b =
     (let i = eb_next_id b + 1 in
      (i, b\<lparr>eb_next_id := i,
        eb_channels := (eb_channels b)(i \<mapsto> \<lparr>wc_run = run, wc_token = False, wc_closed = False\<rparr>),
        eb_subscribers := (eb_subscribers b)(run \<mapsto> subscribers_of b run @ [i])\<rparr>))"

text \<open>
  \<open>Cancel\<close> of a subscription. Its channel is closed exactly when the \<open>sync.Once\<close> has run.
\<close>

definition CancelSubscription :: "nat \<Rightarrow> event_broker \<Rightarrow> event_broker" where
  "CancelSubscription i b =
     (case eb_channels b i of
        None \<Rightarrow> b
      | Some c \<Rightarrow>
        if wc_closed c then b
        else let rest = filter (\<lambda>j. j \<noteq> i) (subscribers_of b (wc_run c)) in
          b\<lparr>eb_subscribers :=
              (eb_subscribers b)(wc_run c := if rest = [] then None else Some rest),
            eb_channels := (eb_channels b)(i \<mapsto> c\<lparr>wc_closed := True\<rparr>)\<rparr>)"

text \<open>
  \<open>_, ok := <-Wake\<close>: \<open>None\<close> while it blocks. A token that was put before the channel was
  closed is still received.
\<close>

definition receive :: "nat \<Rightarrow> event_broker \<Rightarrow> (bool \<times> event_broker) option" where
  "receive i b =
     (case eb_channels b i of
        None \<Rightarrow> None
      | Some c \<Rightarrow>
        if wc_token c
        then Some (True, b\<lparr>eb_channels := (eb_channels b)(i \<mapsto> c\<lparr>wc_token := False\<rparr>)\<rparr>)
        else if wc_closed c then Some (False, b) else None)"

subsection \<open>The invariant of the broker\<close>

text \<open>
  The subscribers of a run are exactly the open channels made for it; so publishing never
  panics, and it reaches every open subscription.
\<close>

definition open_for :: "event_broker \<Rightarrow> string \<Rightarrow> nat \<Rightarrow> bool" where
  "open_for b run i \<longleftrightarrow> (\<exists>c. eb_channels b i = Some c \<and> wc_run c = run \<and> \<not> wc_closed c)"

definition broker_ok :: "event_broker \<Rightarrow> bool" where
  "broker_ok b \<longleftrightarrow>
     (\<forall>i. eb_next_id b < i \<longrightarrow> eb_channels b i = None) \<and>
     (\<forall>run i. i \<in> set (subscribers_of b run) \<longleftrightarrow> open_for b run i)"

definition has_token :: "event_broker \<Rightarrow> nat \<Rightarrow> bool" where
  "has_token b i \<longleftrightarrow> (\<exists>c. eb_channels b i = Some c \<and> wc_token c)"

lemma has_token_eq:
  "has_token b i \<longleftrightarrow> (case eb_channels b i of None \<Rightarrow> False | Some c \<Rightarrow> wc_token c)"
  by (simp add: has_token_def split: option.split)

lemma broker_okD:
  assumes "broker_ok b"
  shows "eb_next_id b < i \<Longrightarrow> eb_channels b i = None"
    and "i \<in> set (subscribers_of b run) \<longleftrightarrow> open_for b run i"
  using assms by (auto simp: broker_ok_def)

lemma subscribers_of_simps [simp]:
  "subscribers_of (b\<lparr>eb_channels := cs\<rparr>) run = subscribers_of b run"
  "subscribers_of (b\<lparr>eb_next_id := n\<rparr>) run = subscribers_of b run"
  "subscribers_of (snd (Subscribe r b)) run =
     (if run = r then subscribers_of b run @ [eb_next_id b + 1] else subscribers_of b run)"
  by (simp_all add: subscribers_of_def Subscribe_def Let_def)

lemma subscribers_of_Cancel:
  "eb_channels b i = Some c \<Longrightarrow> \<not> wc_closed c \<Longrightarrow>
   set (subscribers_of (CancelSubscription i b) run) =
     (if run = wc_run c then set (subscribers_of b run) - {i} else set (subscribers_of b run))"
  by (auto simp: subscribers_of_def CancelSubscription_def Let_def filter_empty_conv
    split: option.splits if_split_asm)

lemma NewEventBroker_ok: "broker_ok NewEventBroker"
  by (simp add: broker_ok_def NewEventBroker_def open_for_def subscribers_of_def)

text \<open>Publishing, when all subscribers are open: what happens to the store.\<close>

definition with_tokens :: "nat set \<Rightarrow> event_broker \<Rightarrow> event_broker" where
  "with_tokens ids b = b\<lparr>eb_channels := (\<lambda>i.
     if i \<in> ids then map_option (\<lambda>c. c\<lparr>wc_token := True\<rparr>) (eb_channels b i)
     else eb_channels b i)\<rparr>"

lemma with_tokens_simps [simp]:
  "eb_channels (with_tokens ids b) i =
     (if i \<in> ids then map_option (\<lambda>c. c\<lparr>wc_token := True\<rparr>) (eb_channels b i) else eb_channels b i)"
  "subscribers_of (with_tokens ids b) run = subscribers_of b run"
  "eb_next_id (with_tokens ids b) = eb_next_id b"
  by (simp_all add: with_tokens_def)

lemma open_for_with_tokens [simp]: "open_for (with_tokens ids b) run i = open_for b run i"
  by (auto simp: open_for_def)

lemma offer_all_open:
  assumes "\<forall>i \<in> set ids. \<exists>run. open_for b run i"
  shows "offer_all ids b = Some (with_tokens (set ids) b)"
  using assms
proof (induction ids arbitrary: b)
  case Nil
  then show ?case by (simp add: with_tokens_def)
next
  case (Cons i ids)
  then obtain c where c: "eb_channels b i = Some c" "\<not> wc_closed c"
    by (auto simp: open_for_def)
  have one: "offer i b = Some (with_tokens {i} b)"
    using c by (auto simp: offer_def with_tokens_def fun_eq_iff)
  have "with_tokens (set ids) (with_tokens {i} b) = with_tokens (set (i # ids)) b"
    using c by (auto simp: with_tokens_def fun_eq_iff map_option_case split: option.split)
  with Cons.IH [of "with_tokens {i} b"] Cons.prems one show ?case by simp
qed

lemma Publish_ok:
  assumes "broker_ok b"
  shows "Publish run b = Some (with_tokens {i. open_for b run i} b)"
proof -
  have "set (subscribers_of b run) = {i. open_for b run i}"
    using broker_okD(2) [OF assms] by auto
  then show ?thesis
    using offer_all_open [of "subscribers_of b run" b] by (auto simp: Publish_def)
qed

lemma broker_ok_with_tokens: "broker_ok b \<Longrightarrow> broker_ok (with_tokens ids b)"
  by (simp add: broker_ok_def)

lemma Subscribe_ok:
  assumes "broker_ok b" and "Subscribe run b = (i, b')"
  shows "broker_ok b'" and "open_for b' r j \<longleftrightarrow> open_for b r j \<or> j = i \<and> r = run"
    and "\<not> open_for b r i" and "has_token b' j \<longleftrightarrow> has_token b j"
proof -
  have i: "i = Suc (eb_next_id b)" and fresh: "eb_channels b i = None"
    and b': "b' = snd (Subscribe run b)"
    using assms by (auto simp: Subscribe_def Let_def broker_okD(1))
  show not_open: "\<not> open_for b r i" for r
    using fresh by (simp add: open_for_def)
  show op: "open_for b' r j \<longleftrightarrow> open_for b r j \<or> j = i \<and> r = run" for r j
    using fresh unfolding b' Subscribe_def Let_def by (auto simp: open_for_def i)
  show "has_token b' j \<longleftrightarrow> has_token b j"
    using fresh unfolding b' Subscribe_def Let_def by (auto simp: has_token_def i)
  show "broker_ok b'"
    unfolding broker_ok_def op unfolding b' using assms(1)
    by (auto simp: broker_okD i) (auto simp: Subscribe_def Let_def broker_okD)
qed

lemma CancelSubscription_ok:
  assumes "broker_ok b"
  shows "broker_ok (CancelSubscription i b)"
    and "open_for (CancelSubscription i b) r j \<longleftrightarrow> open_for b r j \<and> j \<noteq> i"
    and "has_token (CancelSubscription i b) j \<longleftrightarrow> has_token b j"
proof -
  show op: "open_for (CancelSubscription i b) r j \<longleftrightarrow> open_for b r j \<and> j \<noteq> i" for r j
    by (auto simp: CancelSubscription_def open_for_def Let_def split: option.split)
  show "has_token (CancelSubscription i b) j \<longleftrightarrow> has_token b j"
    by (auto simp: CancelSubscription_def has_token_def Let_def split: option.split)
  show "broker_ok (CancelSubscription i b)"
  proof (cases "\<exists>c. eb_channels b i = Some c \<and> \<not> wc_closed c")
    case True
    then obtain c where c: "eb_channels b i = Some c" "\<not> wc_closed c" by auto
    have "eb_next_id (CancelSubscription i b) = eb_next_id b"
      "eb_channels (CancelSubscription i b) j = None \<longleftrightarrow> eb_channels b j = None" for j
      using c by (auto simp: CancelSubscription_def Let_def)
    moreover have "j \<in> set (subscribers_of (CancelSubscription i b) run) \<longleftrightarrow>
        open_for b run j \<and> j \<noteq> i" for run j
      using c assms by (auto simp: subscribers_of_Cancel broker_okD open_for_def)
    ultimately show ?thesis
      unfolding broker_ok_def op using assms by (auto simp: broker_okD)
  next
    case False
    then have "CancelSubscription i b = b"
      by (auto simp: CancelSubscription_def split: option.split)
    with assms show ?thesis by simp
  qed
qed

lemma receive_ok:
  assumes "broker_ok b" and "receive i b = Some (ok, b')"
  shows "broker_ok b'" and "open_for b' r j \<longleftrightarrow> open_for b r j"
    and "j \<noteq> i \<Longrightarrow> has_token b' j \<longleftrightarrow> has_token b j"
    and "ok \<longleftrightarrow> has_token b i" and "\<not> has_token b' i"
proof -
  show op: "open_for b' r j \<longleftrightarrow> open_for b r j" for r j
    using assms(2) by (auto simp: receive_def open_for_def split: option.splits if_split_asm)
  show "broker_ok b'"
    unfolding broker_ok_def op using assms
    by (auto simp: receive_def broker_okD split: option.splits if_split_asm)
  show "j \<noteq> i \<Longrightarrow> has_token b' j \<longleftrightarrow> has_token b j" and "ok \<longleftrightarrow> has_token b i"
    and "\<not> has_token b' i"
    using assms(2) by (auto simp: receive_def has_token_def split: option.splits if_split_asm)
qed

end
