(* ===== verification/AgentService.thy ===== *)
theory AgentService
  imports AgentRunLaws EventBroker
begin

section \<open>The agent service (internal/agentservice/service.go)\<close>

text \<open>
  The life cycle of a run: starting, asking the user and resuming, recording events, completing,
  failing and cancelling. The service is built from a repository, a broker, a clock and a
  generator of ids (\<open>NewServiceWithDependencies\<close>); the state of the system is that of the
  repository and the broker, and how often the clock and the generator were used. An operation
  is an action on this state that returns an error or a result.
\<close>

record 's agent_service =
  sv_repository :: "'s agent_repo"
  sv_now :: "nat \<Rightarrow> go_time"
  sv_newID :: "nat \<Rightarrow> string \<Rightarrow> string"

record 's agent_sys =
  sy_repo :: 's
  sy_broker :: event_broker
  sy_ticks :: nat
  sy_drawn :: nat

type_synonym ('s, 'a) act = "'s agent_sys \<Rightarrow> (agent_error + 'a) \<times> 's agent_sys"

subsection \<open>Actions\<close>

definition done_with :: "'a \<Rightarrow> ('s, 'a) act" where
  "done_with x s = (Inr x, s)"

definition stop_with :: "agent_error \<Rightarrow> ('s, 'a) act" where
  "stop_with e s = (Inl e, s)"

text \<open>\<open>if err != nil { return err }\<close>.\<close>

definition and_then :: "('s, 'a) act \<Rightarrow> ('a \<Rightarrow> ('s, 'b) act) \<Rightarrow> ('s, 'b) act" where
  "and_then m f s = (case m s of (Inl e, s') \<Rightarrow> (Inl e, s') | (Inr x, s') \<Rightarrow> f x s')"

definition on_error :: "('s, 'a) act \<Rightarrow> (agent_error \<Rightarrow> ('s, 'a) act) \<Rightarrow> ('s, 'a) act" where
  "on_error m h s = (case m s of (Inl e, s') \<Rightarrow> h e s' | (Inr x, s') \<Rightarrow> (Inr x, s'))"

definition wrap_error :: "(agent_error \<Rightarrow> agent_error) \<Rightarrow> ('s, 'a) act \<Rightarrow> ('s, 'a) act" where
  "wrap_error w m = on_error m (\<lambda>e. stop_with (w e))"

definition clock_now :: "'s agent_service \<Rightarrow> ('s, go_time) act" where
  "clock_now svc s = (Inr (sv_now svc (sy_ticks s)), s\<lparr>sy_ticks := Suc (sy_ticks s)\<rparr>)"

definition new_id :: "'s agent_service \<Rightarrow> string \<Rightarrow> ('s, string) act" where
  "new_id svc prefix s = (Inr (sv_newID svc (sy_drawn s) prefix), s\<lparr>sy_drawn := Suc (sy_drawn s)\<rparr>)"

definition reading :: "('s \<Rightarrow> agent_error + 'a) \<Rightarrow> ('s, 'a) act" where
  "reading f s = (f (sy_repo s), s)"

definition writing :: "('s \<Rightarrow> (agent_error + 'a) \<times> 's) \<Rightarrow> ('s, 'a) act" where
  "writing f s = (case f (sy_repo s) of (x, r) \<Rightarrow> (x, s\<lparr>sy_repo := r\<rparr>))"

definition storing :: "('s \<Rightarrow> agent_error option \<times> 's) \<Rightarrow> ('s, unit) act" where
  "storing f s = (case f (sy_repo s) of
     (None, r) \<Rightarrow> (Inr (), s\<lparr>sy_repo := r\<rparr>) | (Some e, r) \<Rightarrow> (Inl e, s\<lparr>sy_repo := r\<rparr>))"

definition publish :: "string \<Rightarrow> ('s, unit) act" where
  "publish run s = (case Publish run (sy_broker s) of
     None \<Rightarrow> (Inl SendOnClosedChannel, s) | Some b \<Rightarrow> (Inr (), s\<lparr>sy_broker := b\<rparr>))"

lemmas act_defs = done_with_def stop_with_def and_then_def on_error_def wrap_error_def
  clock_now_def new_id_def reading_def writing_def storing_def publish_def

subsection \<open>Questions to the user\<close>

datatype QuestionType = QuestionSingleSelect | QuestionMultiSelect | QuestionText | QuestionConfirm
  | QuestionOther string

record QuestionOption =
  qo_value :: string
  qo_label :: string
  qo_description :: string

record Question =
  qn_id :: string
  qn_prompt :: string
  qn_type :: QuestionType
  qn_required :: bool
  qn_options :: "QuestionOption list"

record ResumeToolCallRequest =
  rt_answers :: "(string \<times> json) list option"
  rt_next_step :: string

fun question_type_text :: "QuestionType \<Rightarrow> string" where
  "question_type_text QuestionSingleSelect = ''single_select''"
| "question_type_text QuestionMultiSelect = ''multi_select''"
| "question_type_text QuestionText = ''text''"
| "question_type_text QuestionConfirm = ''confirm''"
| "question_type_text (QuestionOther s) = s"

definition enc_QuestionOption :: "QuestionOption \<Rightarrow> json" where
  "enc_QuestionOption q = JObj (
     [(''value'', JStr (qo_value q)), (''label'', JStr (qo_label q))] @
     omit_empty_string ''description'' (qo_description q))"

definition enc_Question :: "Question \<Rightarrow> json" where
  "enc_Question q = JObj (
     [(''id'', JStr (qn_id q)), (''question'', JStr (qn_prompt q)),
      (''type'', JStr (question_type_text (qn_type q))), (''required'', JBool (qn_required q))] @
     (if qn_options q = [] then [] else [(''options'', JArr (map enc_QuestionOption (qn_options q)))]))"

text \<open>The loop of \<open>validateQuestions\<close>; \<open>seen\<close> are the ids before the question.\<close>

fun check_questions :: "string list \<Rightarrow> Question list \<Rightarrow> agent_error option" where
  "check_questions seen [] = None"
| "check_questions seen (q # qs) =
     (if blank (qn_id q) \<or> blank (qn_prompt q) then Some QuestionIncomplete
      else if qn_id q \<in> set seen then Some (QuestionDuplicate (qn_id q))
      else if qn_type q = QuestionSingleSelect \<and> length (qn_options q) < 2
      then Some (QuestionOptions (qn_id q))
      else check_questions (qn_id q # seen) qs)"

text \<open>A slice that may be \<open>nil\<close> is an option; its length does not tell \<open>nil\<close> from empty.\<close>

definition questions_of :: "Question list option \<Rightarrow> Question list" where
  "questions_of questions = (case questions of None \<Rightarrow> [] | Some qs \<Rightarrow> qs)"

definition validateQuestions :: "Question list option \<Rightarrow> agent_error option" where
  "validateQuestions questions =
     (if questions_of questions = [] \<or> 3 < length (questions_of questions) then Some QuestionCount
      else check_questions [] (questions_of questions))"

subsection \<open>Recording events\<close>

definition appendEvent :: "'s agent_service \<Rightarrow> AgentRun \<Rightarrow> Event \<Rightarrow> ('s, Event) act" where
  "appendEvent svc run event =
     and_then (clock_now svc) (\<lambda>now.
     let event = event\<lparr>ev_conversation_id := ag_conversation_id run, ev_run_id := ag_id run,
           ev_timestamp := now,
           ev_payload := (case ev_payload event of None \<Rightarrow> Some [] | p \<Rightarrow> p)\<rparr> in
     and_then (wrap_error AppendEventFailed (writing (ar_append (sv_repository svc) event))) (\<lambda>persisted.
     and_then (publish (ev_run_id persisted)) (\<lambda>_. done_with persisted)))"

definition RecordEvent :: "'s agent_service \<Rightarrow> AgentRun \<Rightarrow> Event \<Rightarrow> ('s, Event) act" where
  "RecordEvent = appendEvent"

subsection \<open>Starting and reading\<close>

definition StartOwnedProjectRun ::
  "'s agent_service \<Rightarrow> int \<Rightarrow> string \<Rightarrow> int \<Rightarrow> string \<Rightarrow> ('s, AgentRun) act" where
  "StartOwnedProjectRun svc actor conversation_id project_id inp =
     (let conversation_id = TrimSpace conversation_id; inp = TrimSpace inp in
      if conversation_id = [] then stop_with ConversationRequired
      else if inp = [] then stop_with InputRequired
      else
        and_then (clock_now svc) (\<lambda>now.
        and_then (new_id svc ''run'') (\<lambda>run_id.
        let run = \<lparr>ag_id = run_id, ag_actor_user_id = actor, ag_conversation_id = conversation_id,
              ag_project_id = project_id, ag_status = RunStatusRunning, ag_input = inp,
              ag_pending_tool_call_id = None, ag_pending_step_id = None,
              ag_latest_generation_id = None, ag_approved_generation_id = None,
              ag_transcript = [zero_Message\<lparr>ms_role := ''user'', ms_content := inp\<rparr>],
              ag_created_at = now, ag_updated_at = now\<rparr> in
        and_then (wrap_error CreateRunFailed (storing (ar_create (sv_repository svc) run))) (\<lambda>_.
        and_then (new_id svc ''step'') (\<lambda>step_id.
        and_then (appendEvent svc run ((new_event EventRunStarted)\<lparr>ev_step_id := step_id,
            ev_payload := Some [(''input'', JStr inp)]\<rparr>)) (\<lambda>_.
        done_with run))))))"

definition StartProjectRun ::
  "'s agent_service \<Rightarrow> string \<Rightarrow> int \<Rightarrow> string \<Rightarrow> ('s, AgentRun) act" where
  "StartProjectRun svc = StartOwnedProjectRun svc 0"

definition StartRun :: "'s agent_service \<Rightarrow> string \<Rightarrow> string \<Rightarrow> ('s, AgentRun) act" where
  "StartRun svc conversation_id inp = StartProjectRun svc conversation_id 0 inp"

definition GetRun :: "'s agent_service \<Rightarrow> string \<Rightarrow> ('s, AgentRun) act" where
  "GetRun svc run_id = reading (\<lambda>r. ar_get (sv_repository svc) r run_id)"

definition GetOwnedRun :: "'s agent_service \<Rightarrow> string \<Rightarrow> int \<Rightarrow> ('s, AgentRun) act" where
  "GetOwnedRun svc run_id actor =
     and_then (GetRun svc run_id) (\<lambda>run.
     if actor < 1 \<or> ag_actor_user_id run \<noteq> actor then stop_with ErrRunAccessDenied
     else done_with run)"

definition ListEvents :: "'s agent_service \<Rightarrow> string \<Rightarrow> int \<Rightarrow> ('s, Event list) act" where
  "ListEvents svc run_id after_seq =
     (if after_seq < 0 then stop_with AfterSeqNegative
      else reading (\<lambda>r. ar_events (sv_repository svc) r run_id after_seq))"

definition GetEvent :: "'s agent_service \<Rightarrow> string \<Rightarrow> int \<Rightarrow> ('s, Event) act" where
  "GetEvent svc run_id seq =
     (if blank run_id then stop_with RunIdRequired
      else if seq < 1 then stop_with SeqNotPositive
      else reading (\<lambda>r. ar_event (sv_repository svc) r run_id seq))"

subsection \<open>Asking the user\<close>

definition RequestUserInputForCall ::
  "'s agent_service \<Rightarrow> string \<Rightarrow> string \<Rightarrow> string \<Rightarrow> Question list option \<Rightarrow> ('s, AgentRun \<times> Event) act" where
  "RequestUserInputForCall svc run_id tool_call_id step_id questions =
     (case validateQuestions questions of
        Some e \<Rightarrow> stop_with e
      | None \<Rightarrow>
        and_then (GetRun svc run_id) (\<lambda>run.
        if ag_status run \<noteq> RunStatusRunning then stop_with (CannotRequestInput (ag_status run))
        else
          and_then (new_id svc ''checkpoint'') (\<lambda>checkpoint.
          and_then (appendEvent svc run ((new_event EventToolPending)\<lparr>ev_step_id := step_id,
              ev_tool_call_id := tool_call_id, ev_checkpoint_id := checkpoint,
              ev_payload := Some [(''tool'', JStr ''ask_user_question''),
                (''questions'', enc_slice enc_Question questions)]\<rparr>)) (\<lambda>pending.
          and_then (clock_now svc) (\<lambda>now.
          let waiting = run\<lparr>ag_status := RunStatusWaitingUser,
                ag_pending_tool_call_id := Some tool_call_id, ag_pending_step_id := Some step_id,
                ag_updated_at := now\<rparr> in
          and_then (wrap_error SaveWaitingFailed (storing (ar_save (sv_repository svc) waiting))) (\<lambda>_.
          done_with (waiting, pending)))))))"

definition RequestUserInput ::
  "'s agent_service \<Rightarrow> string \<Rightarrow> Question list option \<Rightarrow> ('s, AgentRun \<times> Event) act" where
  "RequestUserInput svc run_id questions =
     and_then (GetRun svc run_id) (\<lambda>run.
     and_then (new_id svc ''tool'') (\<lambda>tool_call_id.
     and_then (new_id svc ''step'') (\<lambda>step_id.
     and_then (RecordEvent svc run ((new_event EventToolStarted)\<lparr>ev_step_id := step_id,
         ev_tool_call_id := tool_call_id, ev_payload := Some [(''tool'', JStr ''ask_user_question'')]\<rparr>)) (\<lambda>_.
     and_then (RecordEvent svc run ((new_event EventToolArgsDelta)\<lparr>ev_step_id := step_id,
         ev_tool_call_id := tool_call_id, ev_payload := Some [(''arguments'',
           JObj [(''questions'', enc_slice enc_Question questions)])]\<rparr>)) (\<lambda>_.
     RequestUserInputForCall svc run_id tool_call_id step_id questions)))))"

definition ResumeToolCall ::
  "'s agent_service \<Rightarrow> string \<Rightarrow> string \<Rightarrow> ResumeToolCallRequest \<Rightarrow> ('s, AgentRun) act" where
  "ResumeToolCall svc run_id tool_call_id request =
     and_then (GetRun svc run_id) (\<lambda>run.
     if ag_status run \<noteq> RunStatusWaitingUser \<or> ag_pending_tool_call_id run = None
     then stop_with ErrRunNotWaitingForUser
     else if ag_pending_tool_call_id run \<noteq> Some tool_call_id then stop_with ErrToolCallMismatch
     else
       let step_id = (case ag_pending_step_id run of None \<Rightarrow> [] | Some i \<Rightarrow> i) in
       and_then (appendEvent svc run ((new_event EventToolResult)\<lparr>ev_step_id := step_id,
           ev_tool_call_id := tool_call_id,
           ev_payload := Some [(''tool'', JStr ''ask_user_question''),
             (''answers'', case rt_answers request of None \<Rightarrow> JNull | Some m \<Rightarrow> JObj m),
             (''next_step'', JStr (rt_next_step request))]\<rparr>)) (\<lambda>_.
       and_then (appendEvent svc run ((new_event EventToolFinished)\<lparr>ev_step_id := step_id,
           ev_tool_call_id := tool_call_id,
           ev_payload := Some [(''tool'', JStr ''ask_user_question'')]\<rparr>)) (\<lambda>_.
       and_then (clock_now svc) (\<lambda>now.
       let resumed = run\<lparr>ag_status := RunStatusRunning, ag_pending_tool_call_id := None,
             ag_pending_step_id := None, ag_updated_at := now\<rparr> in
       and_then (wrap_error SaveResumedFailed (storing (ar_save (sv_repository svc) resumed))) (\<lambda>_.
       done_with resumed)))))"

subsection \<open>The end of a run\<close>

definition SaveRun :: "'s agent_service \<Rightarrow> AgentRun \<Rightarrow> ('s, unit) act" where
  "SaveRun svc run =
     and_then (clock_now svc) (\<lambda>now.
     storing (ar_save (sv_repository svc) (run\<lparr>ag_updated_at := now\<rparr>)))"

definition CancelRun :: "'s agent_service \<Rightarrow> string \<Rightarrow> string \<Rightarrow> ('s, AgentRun) act" where
  "CancelRun svc run_id reason =
     (let reason = TrimSpace reason in
      if reason = [] then stop_with CancelReasonRequired
      else
        and_then (clock_now svc) (\<lambda>now.
        and_then (writing (ar_cancel (sv_repository svc) run_id now
          ((new_event EventRunCancelled)\<lparr>ev_timestamp := now,
            ev_payload := Some [(''reason'', JStr reason)]\<rparr>))) (\<lambda>(run, event).
        case event of
          None \<Rightarrow> done_with run
        | Some e \<Rightarrow> and_then (publish (ev_run_id e)) (\<lambda>_. done_with run))))"

definition CancelOwnedRun :: "'s agent_service \<Rightarrow> string \<Rightarrow> int \<Rightarrow> string \<Rightarrow> ('s, AgentRun) act" where
  "CancelOwnedRun svc run_id actor reason =
     and_then (GetOwnedRun svc run_id actor) (\<lambda>_. CancelRun svc run_id reason)"

text \<open>
  \<open>CompleteRun\<close> and \<open>FailRun\<close> save the run they are given with its final status; when the run
  was cancelled in the meantime they return the cancelled run instead.
\<close>

definition finished_run :: "RunStatus \<Rightarrow> go_time \<Rightarrow> AgentRun \<Rightarrow> AgentRun" where
  "finished_run status now run = run\<lparr>ag_status := status, ag_pending_tool_call_id := None,
     ag_pending_step_id := None, ag_updated_at := now\<rparr>"

definition finish_with ::
  "'s agent_service \<Rightarrow> RunStatus \<Rightarrow> Event \<Rightarrow> AgentRun \<Rightarrow> ('s, AgentRun) act" where
  "finish_with svc status event run =
     and_then (clock_now svc) (\<lambda>now.
     let finished = finished_run status now run in
     and_then
       (on_error
         (and_then (storing (ar_save (sv_repository svc) finished)) (\<lambda>_. done_with None))
         (\<lambda>e. if errors_Is e ErrRunCancelled
              then and_then (GetRun svc (ag_id run)) (\<lambda>r. done_with (Some r)) else stop_with e))
       (\<lambda>cancelled. case cancelled of
          Some r \<Rightarrow> done_with r
        | None \<Rightarrow> and_then (appendEvent svc finished event) (\<lambda>_. done_with finished)))"

definition CompleteRun :: "'s agent_service \<Rightarrow> AgentRun \<Rightarrow> ('s, AgentRun) act" where
  "CompleteRun svc run = finish_with svc RunStatusCompleted (new_event EventRunFinished) run"

definition FailRun :: "'s agent_service \<Rightarrow> AgentRun \<Rightarrow> string option \<Rightarrow> ('s, AgentRun) act" where
  "FailRun svc run cause = finish_with svc RunStatusFailed
     ((new_event EventRunFailed)\<lparr>ev_payload := Some (case cause of None \<Rightarrow> []
        | Some message \<Rightarrow> [(''message'', JStr message)])\<rparr>) run"

end
