(* ===== verification/AgentServiceLaws.thy ===== *)
theory AgentServiceLaws
  imports AgentService
begin

section \<open>What the agent service guarantees\<close>

text \<open>
  Requests of several users and the goroutine of every run work on the service at the same
  time. Each call of a method of the repository or the broker is atomic (both hold a lock), so
  an execution of the system is a sequence of such calls, in any order: \<open>sys_step\<close>. Every
  operation of the service is a sequence of these calls, and what all calls preserve holds for
  every interleaving of operations.
\<close>

subsection \<open>Atomic calls\<close>

inductive sys_step :: "'s agent_service \<Rightarrow> 's agent_sys \<Rightarrow> 's agent_sys \<Rightarrow> bool" for svc where
  tick: "clock_now svc s = (Inr now, s') \<Longrightarrow> sys_step svc s s'"
| draw: "new_id svc prefix s = (Inr i, s') \<Longrightarrow> sys_step svc s s'"
| create: "ar_get (sv_repository svc) (sy_repo s) (ag_id run) = Inl ErrRunNotFound \<Longrightarrow>
    storing (ar_create (sv_repository svc) run) s = (x, s') \<Longrightarrow> sys_step svc s s'"
| save: "storing (ar_save (sv_repository svc) run) s = (x, s') \<Longrightarrow> sys_step svc s s'"
| cancel: "writing (ar_cancel (sv_repository svc) run_id now event) s = (y, s') \<Longrightarrow> sys_step svc s s'"
| append: "writing (ar_append (sv_repository svc) event) s = (z, s') \<Longrightarrow> sys_step svc s s'"
| published: "publish run s = (x, s') \<Longrightarrow> sys_step svc s s'"
| subscribed: "Subscribe run (sy_broker s) = (i, b) \<Longrightarrow> sys_step svc s (s\<lparr>sy_broker := b\<rparr>)"
| unsubscribed: "sys_step svc s (s\<lparr>sy_broker := CancelSubscription i (sy_broker s)\<rparr>)"
| received: "receive i (sy_broker s) = Some (ok, b) \<Longrightarrow> sys_step svc s (s\<lparr>sy_broker := b\<rparr>)"

inductive sys_trace :: "'s agent_service \<Rightarrow> 's agent_sys \<Rightarrow> 's agent_sys \<Rightarrow> bool" for svc s0 where
  here: "sys_trace svc s0 s0"
| further: "sys_trace svc s0 s \<Longrightarrow> sys_step svc s s' \<Longrightarrow> sys_trace svc s0 s'"

lemma sys_trace_step: "sys_step svc s s' \<Longrightarrow> sys_trace svc s s'"
  by (rule further [OF here])

lemma sys_trace_trans:
  assumes "sys_trace svc s s'" and "sys_trace svc s' s''"
  shows "sys_trace svc s s''"
  using assms(2,1) by (induction) (auto intro: further)

lemma sys_trace_preserves:
  assumes "sys_trace svc s0 s" and "P s0" and "\<And>s s'. P s \<Longrightarrow> sys_step svc s s' \<Longrightarrow> P s'"
  shows "P s"
  using assms(1) by induction (auto intro: assms)

subsection \<open>Operations are sequences of calls\<close>

definition made_of_calls :: "'s agent_service \<Rightarrow> ('s, 'a) act \<Rightarrow> bool" where
  "made_of_calls svc m \<longleftrightarrow> (\<forall>s. sys_trace svc s (snd (m s)))"

lemma made_of_callsD: "made_of_calls svc m \<Longrightarrow> sys_trace svc s (snd (m s))"
  by (simp add: made_of_calls_def)

named_theorems call_intros \<open>actions made of atomic calls\<close>

lemma made_of_calls_ret [call_intros]: "made_of_calls svc (done_with x)"
  by (simp add: made_of_calls_def done_with_def here)

lemma made_of_calls_stop [call_intros]: "made_of_calls svc (stop_with e)"
  by (simp add: made_of_calls_def stop_with_def here)

lemma made_of_calls_bind [call_intros]:
  assumes "made_of_calls svc m" and "\<And>x. made_of_calls svc (f x)"
  shows "made_of_calls svc (and_then m f)"
  using assms unfolding made_of_calls_def and_then_def
  by (auto intro: sys_trace_trans split: prod.split sum.split) (metis snd_conv sys_trace_trans)+

lemma made_of_calls_on_error [call_intros]:
  assumes "made_of_calls svc m" and "\<And>e. made_of_calls svc (h e)"
  shows "made_of_calls svc (on_error m h)"
  using assms unfolding made_of_calls_def on_error_def
  by (auto intro: sys_trace_trans split: prod.split sum.split) (metis snd_conv sys_trace_trans)+

lemma made_of_calls_wrap [call_intros]:
  "made_of_calls svc m \<Longrightarrow> made_of_calls svc (wrap_error w m)"
  unfolding wrap_error_def by (intro call_intros)

lemma made_of_calls_reading [call_intros]: "made_of_calls svc (reading f)"
  by (simp add: made_of_calls_def reading_def here)

lemma made_of_calls_clock [call_intros]: "made_of_calls svc (clock_now svc)"
  by (auto simp: made_of_calls_def clock_now_def intro!: sys_trace_step sys_step.tick)

lemma made_of_calls_new_id [call_intros]: "made_of_calls svc (new_id svc prefix)"
  by (auto simp: made_of_calls_def new_id_def intro!: sys_trace_step sys_step.draw)

lemma made_of_calls_save [call_intros]:
  "made_of_calls svc (storing (ar_save (sv_repository svc) run))"
  unfolding made_of_calls_def by (metis prod.collapse sys_trace_step sys_step.save)

lemma made_of_calls_cancel [call_intros]:
  "made_of_calls svc (writing (ar_cancel (sv_repository svc) run_id now event))"
  unfolding made_of_calls_def by (metis prod.collapse sys_trace_step sys_step.cancel)

lemma made_of_calls_append [call_intros]:
  "made_of_calls svc (writing (ar_append (sv_repository svc) event))"
  unfolding made_of_calls_def by (metis prod.collapse sys_trace_step sys_step.append)

lemma made_of_calls_publish [call_intros]: "made_of_calls svc (publish run)"
  unfolding made_of_calls_def by (metis prod.collapse sys_trace_step sys_step.published)

lemma made_of_calls_if [call_intros]:
  "made_of_calls svc m \<Longrightarrow> made_of_calls svc m' \<Longrightarrow> made_of_calls svc (if c then m else m')"
  by simp

lemma made_of_calls_option [call_intros]:
  "made_of_calls svc m \<Longrightarrow> (\<And>x. made_of_calls svc (f x)) \<Longrightarrow>
   made_of_calls svc (case p of None \<Rightarrow> m | Some x \<Rightarrow> f x)"
  by (cases p) simp_all

lemma made_of_calls_prod [call_intros]:
  "(\<And>x y. made_of_calls svc (f x y)) \<Longrightarrow> made_of_calls svc (case p of (x, y) \<Rightarrow> f x y)"
  by (cases p) simp

lemma appendEvent_calls [call_intros]: "made_of_calls svc (appendEvent svc run event)"
  unfolding appendEvent_def Let_def by (intro call_intros)

lemma GetRun_calls [call_intros]: "made_of_calls svc (GetRun svc run_id)"
  unfolding GetRun_def by (intro call_intros)

lemma GetOwnedRun_calls [call_intros]: "made_of_calls svc (GetOwnedRun svc run_id actor)"
  unfolding GetOwnedRun_def by (intro call_intros)

lemma RequestUserInputForCall_calls [call_intros]:
  "made_of_calls svc (RequestUserInputForCall svc run_id tool step questions)"
  unfolding RequestUserInputForCall_def Let_def by (intro call_intros)

lemma RequestUserInput_calls: "made_of_calls svc (RequestUserInput svc run_id questions)"
  unfolding RequestUserInput_def RecordEvent_def by (intro call_intros)

lemma ResumeToolCall_calls: "made_of_calls svc (ResumeToolCall svc run_id tool request)"
  unfolding ResumeToolCall_def Let_def by (intro call_intros)

lemma SaveRun_calls: "made_of_calls svc (SaveRun svc run)"
  unfolding SaveRun_def by (intro call_intros)

lemma CancelRun_calls [call_intros]: "made_of_calls svc (CancelRun svc run_id reason)"
  unfolding CancelRun_def Let_def by (intro call_intros)

lemma CancelOwnedRun_calls: "made_of_calls svc (CancelOwnedRun svc run_id actor reason)"
  unfolding CancelOwnedRun_def by (intro call_intros)

lemma finish_with_calls: "made_of_calls svc (finish_with svc status event run)"
  unfolding finish_with_def Let_def by (intro call_intros)

lemma StartOwnedProjectRun_calls:
  assumes "ar_get (sv_repository svc) (sy_repo s) (sv_newID svc (sy_drawn s) ''run'') = Inl ErrRunNotFound"
  shows "sys_trace svc s (snd (StartOwnedProjectRun svc actor conversation project inp s))"
proof (cases "TrimSpace conversation = [] \<or> TrimSpace inp = []")
  case True
  then show ?thesis
    by (auto simp: StartOwnedProjectRun_def stop_with_def here Let_def)
next
  case False
  let ?s1 = "snd (new_id svc ''run'' (snd (clock_now svc s)))"
  define run where "run = \<lparr>ag_id = sv_newID svc (sy_drawn s) ''run'', ag_actor_user_id = actor,
    ag_conversation_id = TrimSpace conversation, ag_project_id = project,
    ag_status = RunStatusRunning, ag_input = TrimSpace inp, ag_pending_tool_call_id = None,
    ag_pending_step_id = None, ag_latest_generation_id = None, ag_approved_generation_id = None,
    ag_transcript = [zero_Message\<lparr>ms_role := ''user'', ms_content := TrimSpace inp\<rparr>],
    ag_created_at = sv_now svc (sy_ticks s), ag_updated_at = sv_now svc (sy_ticks s)\<rparr>"
  let ?stored = "storing (ar_create (sv_repository svc) run) ?s1"
  let ?rest = "\<lambda>_. and_then (new_id svc ''step'') (\<lambda>step_id.
    and_then (appendEvent svc run ((new_event EventRunStarted)\<lparr>ev_step_id := step_id,
      ev_payload := Some [(''input'', JStr (TrimSpace inp))]\<rparr>)) (\<lambda>_. done_with run))"
  have start: "sys_trace svc s ?s1"
    using made_of_calls_clock [of svc] made_of_calls_new_id [of svc "''run''"]
    unfolding made_of_calls_def by (blast intro: sys_trace_trans)
  have "ar_get (sv_repository svc) (sy_repo ?s1) (ag_id run) = Inl ErrRunNotFound"
    using assms by (simp add: new_id_def clock_now_def run_def)
  then have stored: "sys_trace svc ?s1 (snd ?stored)"
    by (metis prod.collapse sys_trace_step sys_step.create)
  have rest: "made_of_calls svc (?rest x)" for x
    by (intro call_intros)
  have "StartOwnedProjectRun svc actor conversation project inp s =
      and_then (wrap_error CreateRunFailed (storing (ar_create (sv_repository svc) run))) ?rest ?s1"
    using False by (simp add: StartOwnedProjectRun_def Let_def and_then_def [of "clock_now svc"]
      and_then_def [of "new_id svc ''run''"] clock_now_def new_id_def run_def)
  then have "snd (StartOwnedProjectRun svc actor conversation project inp s) =
      (case ?stored of (Inl e, s') \<Rightarrow> s' | (Inr x, s') \<Rightarrow> snd (?rest x s'))"
    by (simp add: and_then_def wrap_error_def on_error_def stop_with_def split: prod.split sum.split)
  then show ?thesis
    using start stored rest unfolding made_of_calls_def
    by (auto split: prod.splits sum.splits intro: sys_trace_trans)
qed

subsection \<open>What a call does to the runs\<close>

inductive view_step :: "run_view \<Rightarrow> run_view \<Rightarrow> bool" where
  idle: "view_step v v"
| created: "v (ag_id r) = None \<Longrightarrow> view_step v (v(ag_id r \<mapsto> (r, [])))"
| saved: "v (ag_id r) = Some (c, es) \<Longrightarrow> ag_status c \<noteq> RunStatusCancelled \<Longrightarrow>
    view_step v (v(ag_id r \<mapsto> (r, es)))"
| cancelled: "v run = Some (r, es) \<Longrightarrow> ag_status r \<in> {RunStatusRunning, RunStatusWaitingUser} \<Longrightarrow>
    ev_run_id e = run \<Longrightarrow>
    view_step v (v(run \<mapsto> (cancelled_run now r, es @ [numbered es e])))"
| appended: "v (ev_run_id e) = Some (r, es) \<Longrightarrow> ag_status r \<noteq> RunStatusCancelled \<Longrightarrow>
    view_step v (v(ev_run_id e \<mapsto> (r, es @ [numbered es e])))"

definition sys_ok :: "('s \<Rightarrow> bool) \<Rightarrow> 's agent_sys \<Rightarrow> bool" where
  "sys_ok repo_ok s \<longleftrightarrow> repo_ok (sy_repo s) \<and> broker_ok (sy_broker s)"

lemma spec_save_step: "spec_save r v = (x, v') \<Longrightarrow> view_step v v'"
  by (auto simp: spec_save_def intro: view_step.intros split: option.splits if_split_asm)

lemma spec_append_step: "spec_append e v = (x, v') \<Longrightarrow> view_step v v'"
  by (auto simp: spec_append_def intro: view_step.intros split: option.splits if_split_asm)

lemma spec_cancel_step:
  assumes "spec_cancel run now e v = (x, v')" and "view_ok v"
  shows "view_step v v'"
proof (cases "v run")
  case None
  with assms show ?thesis by (auto simp: spec_cancel_def intro: view_step.idle)
next
  case (Some p)
  obtain r es where p: "p = (r, es)" by (cases p)
  with Some assms(2) have "ag_id r = run" by (auto dest: view_okD)
  with assms(1) Some p show ?thesis
    by (auto simp: spec_cancel_def Let_def intro: view_step.idle
      intro!: view_step.cancelled split: if_split_asm)
qed

text \<open>The runs change step by step; the log of a run only grows, and a cancelled run is frozen.\<close>

lemma view_step_grows:
  assumes "view_step v v'" and "v run = Some (r, es)"
  shows "\<exists>r' es'. v' run = Some (r', es @ es') \<and>
    (ag_status r = RunStatusCancelled \<longrightarrow> r' = r \<and> es' = [])"
  using assms by cases (auto split: if_split_asm)

lemma view_step_status:
  assumes "view_step v v'" and "v' run = Some (r', es')" and "ag_status r' = RunStatusCancelled"
    and "v run = None \<or> (\<exists>r es. v run = Some (r, es) \<and> ag_status r \<noteq> RunStatusCancelled)"
  shows "v run = None \<and> es' = [] \<or>
    (\<exists>r es. v run = Some (r, es) \<and> (es' = es \<or> (\<exists>e. es' = es @ [numbered es e])))"
  using assms by cases (auto split: if_split_asm)

context agent_repository
begin

lemma step_ok:
  assumes "sv_repository svc = repo" and "sys_ok inv s" and "sys_step svc s s'"
  shows "sys_ok inv s' \<and> view_step (view (sy_repo s)) (view (sy_repo s'))"
  using assms(3)
proof cases
  case (create run x)
  then have "view (sy_repo s) (ag_id run) = None"
    using get_law assms by (auto simp: sys_ok_def spec_get_def split: option.splits)
  then obtain r where "ar_create repo run (sy_repo s) = (None, r)" "inv r"
    "view r = (view (sy_repo s))(ag_id run \<mapsto> (run, []))"
    using create_law [of "sy_repo s" run] assms(2) by (auto simp: sys_ok_def)
  with create assms \<open>view (sy_repo s) (ag_id run) = None\<close> show ?thesis
    by (auto simp: sys_ok_def storing_def intro: view_step.created)
next
  case (save run x)
  then show ?thesis
    using assms save_law [of "sy_repo s" run]
    by (cases "ar_save repo run (sy_repo s)")
      (auto simp: sys_ok_def storing_def split: option.splits intro: spec_save_step)
next
  case (cancel run_id now event y)
  then show ?thesis
    using assms view_law
      cancel_law [of "sy_repo s" run_id now event]
    by (cases "ar_cancel repo run_id now event (sy_repo s)")
      (auto simp: sys_ok_def writing_def intro: spec_cancel_step)
next
  case (append event z)
  then show ?thesis
    using assms
      append_law [of "sy_repo s" event]
    by (cases "ar_append repo event (sy_repo s)")
      (auto simp: sys_ok_def writing_def intro: spec_append_step)
next
  case (published run x)
  then show ?thesis
    using assms Publish_ok [of "sy_broker s" run]
    by (auto simp: sys_ok_def publish_def broker_ok_with_tokens intro: view_step.idle)
next
  case (subscribed run i b)
  then show ?thesis
    using assms Subscribe_ok(1) by (auto simp: sys_ok_def intro: view_step.idle)
next
  case (unsubscribed i)
  then show ?thesis
    using assms CancelSubscription_ok(1) by (auto simp: sys_ok_def intro: view_step.idle)
next
  case (received i ok b)
  then show ?thesis
    using assms receive_ok(1) by (auto simp: sys_ok_def intro: view_step.idle)
qed (use assms in \<open>auto simp: clock_now_def new_id_def sys_ok_def intro: view_step.idle\<close>)

lemma trace_ok:
  assumes "sv_repository svc = repo" and "sys_ok inv s0" and "sys_trace svc s0 s"
  shows "sys_ok inv s"
  using sys_trace_preserves [where P = "sys_ok inv", OF assms(3,2)] step_ok [OF assms(1)] by blast

lemma trace_grows:
  assumes "sv_repository svc = repo" and "sys_ok inv s0" and "sys_trace svc s0 s"
    and "view (sy_repo s0) run = Some (r, es)"
  shows "\<exists>r' es'. view (sy_repo s) run = Some (r', es @ es') \<and>
    (ag_status r = RunStatusCancelled \<longrightarrow> r' = r \<and> es' = [])"
proof -
  let ?P = "\<lambda>s. sys_ok inv s \<and> (\<exists>r' es'. view (sy_repo s) run = Some (r', es @ es') \<and>
    (ag_status r = RunStatusCancelled \<longrightarrow> r' = r \<and> es' = []))"
  have "?P s"
    using assms(3)
  proof (rule sys_trace_preserves [where P = ?P])
    show "?P s0" using assms by simp
  next
    fix s s' assume P: "?P s" and st: "sys_step svc s s'"
    then obtain r' es' where v: "view (sy_repo s) run = Some (r', es @ es')"
      and fr: "ag_status r = RunStatusCancelled \<longrightarrow> r' = r \<and> es' = []" by blast
    have "sys_ok inv s'" and "view_step (view (sy_repo s)) (view (sy_repo s'))"
      using step_ok [OF assms(1) _ st] P by auto
    with view_step_grows [OF this(2) v] fr show "?P s'" by fastforce
  qed
  then show ?thesis by blast
qed

end

subsection \<open>What the operations return\<close>

definition stamped :: "go_time \<Rightarrow> AgentRun \<Rightarrow> Event \<Rightarrow> Event" where
  "stamped now run event = event\<lparr>ev_conversation_id := ag_conversation_id run,
     ev_run_id := ag_id run, ev_timestamp := now,
     ev_payload := (case ev_payload event of None \<Rightarrow> Some [] | p \<Rightarrow> p)\<rparr>"

lemma stamped_fields [simp]:
  "ev_run_id (stamped now run e) = ag_id run" "ev_type (stamped now run e) = ev_type e"
  "ev_step_id (stamped now run e) = ev_step_id e"
  "ev_tool_call_id (stamped now run e) = ev_tool_call_id e"
  by (simp_all add: stamped_def)

lemma new_event_fields [simp]:
  "ev_type (new_event t) = t" "ev_step_id (new_event t) = []" "ev_tool_call_id (new_event t) = []"
  "ev_payload (new_event t) = None"
  by (simp_all add: new_event_def)

text \<open>A run that waits for the user.\<close>

definition waiting_run :: "go_time \<Rightarrow> string \<Rightarrow> string \<Rightarrow> AgentRun \<Rightarrow> AgentRun" where
  "waiting_run now tool step r = r\<lparr>ag_status := RunStatusWaitingUser,
     ag_pending_tool_call_id := Some tool, ag_pending_step_id := Some step, ag_updated_at := now\<rparr>"

text \<open>The checks of the questions, without their order.\<close>

definition question_ok :: "Question \<Rightarrow> bool" where
  "question_ok q \<longleftrightarrow> \<not> blank (qn_id q) \<and> \<not> blank (qn_prompt q) \<and>
     (qn_type q = QuestionSingleSelect \<longrightarrow> 2 \<le> length (qn_options q))"

lemma check_questions_iff:
  "check_questions seen qs = None \<longleftrightarrow>
     (\<forall>q \<in> set qs. question_ok q) \<and> distinct (map qn_id qs) \<and> qn_id ` set qs \<inter> set seen = {}"
  by (induction seen qs rule: check_questions.induct) (auto simp: question_ok_def)

context agent_repository
begin

lemma save_effect:
  assumes "sys_ok inv s" and "view (sy_repo s) (ag_id run) = Some (r, es)"
  shows "\<exists>s'. storing (ar_save repo run) s =
      (if ag_status r = RunStatusCancelled then Inl ErrRunCancelled else Inr (), s') \<and>
    sys_ok inv s' \<and> sy_ticks s' = sy_ticks s \<and> sy_drawn s' = sy_drawn s \<and>
    view (sy_repo s') = (if ag_status r = RunStatusCancelled then view (sy_repo s)
      else (view (sy_repo s))(ag_id run \<mapsto> (run, es)))"
  using assms save_law [of "sy_repo s" run]
  by (cases "ar_save repo run (sy_repo s)")
    (auto simp: storing_def sys_ok_def spec_save_def split: option.splits if_split_asm)

lemma appendEvent_effect:
  assumes "sv_repository svc = repo" and "sys_ok inv s"
    and "view (sy_repo s) (ag_id run) = Some (r, es)"
  shows "\<exists>s'. appendEvent svc run event s =
      (if ag_status r = RunStatusCancelled then Inl (AppendEventFailed ErrRunCancelled)
       else Inr (numbered es (stamped (sv_now svc (sy_ticks s)) run event)), s') \<and>
    sys_ok inv s' \<and> sy_ticks s' = Suc (sy_ticks s) \<and> sy_drawn s' = sy_drawn s \<and>
    view (sy_repo s') = (if ag_status r = RunStatusCancelled then view (sy_repo s)
      else (view (sy_repo s))(ag_id run \<mapsto>
        (r, es @ [numbered es (stamped (sv_now svc (sy_ticks s)) run event)])))"
proof -
  let ?e = "stamped (sv_now svc (sy_ticks s)) run event"
  obtain z q where z: "ar_append repo ?e (sy_repo s) = (z, q)" by (cases "ar_append repo ?e (sy_repo s)")
  with assms append_law [of "sy_repo s" ?e] have "inv q"
    and "z = (if ag_status r = RunStatusCancelled then Inl ErrRunCancelled else Inr (numbered es ?e))"
    and "view q = (if ag_status r = RunStatusCancelled then view (sy_repo s)
      else (view (sy_repo s))(ag_id run \<mapsto> (r, es @ [numbered es ?e])))"
    by (auto simp: sys_ok_def spec_append_def split: if_split_asm)
  with z assms(1,2) Publish_ok [of "sy_broker s" "ag_id run"] show ?thesis
    by (auto simp: appendEvent_def act_defs sys_ok_def broker_ok_with_tokens Let_def
      stamped_def [symmetric])
qed

lemma GetRun_effect:
  assumes "sv_repository svc = repo" and "sys_ok inv s" and "view (sy_repo s) run = Some (r, es)"
  shows "GetRun svc run s = (Inr r, s)"
  using assms get_law by (simp add: GetRun_def reading_def sys_ok_def spec_get_def)

lemma view_id:
  assumes "sys_ok inv s" and "view (sy_repo s) run = Some (r, es)"
  shows "ag_id r = run"
  using assms view_law by (auto simp: sys_ok_def dest: view_okD)

lemma finish_effect:
  assumes "sv_repository svc = repo" and "sys_ok inv s"
    and "view (sy_repo s) (ag_id run) = Some (r, es)"
  shows "ag_status r = RunStatusCancelled \<Longrightarrow>
      \<exists>s'. finish_with svc status event run s = (Inr r, s') \<and> sys_ok inv s' \<and>
        view (sy_repo s') = view (sy_repo s)"
    and "ag_status r \<noteq> RunStatusCancelled \<Longrightarrow> status \<noteq> RunStatusCancelled \<Longrightarrow>
      \<exists>s' e. finish_with svc status event run s =
          (Inr (finished_run status (sv_now svc (sy_ticks s)) run), s') \<and> sys_ok inv s' \<and>
        view (sy_repo s') = (view (sy_repo s))(ag_id run \<mapsto>
          (finished_run status (sv_now svc (sy_ticks s)) run, es @ [e])) \<and> ev_type e = ev_type event"
proof -
  let ?f = "finished_run status (sv_now svc (sy_ticks s)) run"
  let ?s = "s\<lparr>sy_ticks := Suc (sy_ticks s)\<rparr>"
  have f: "ag_id ?f = ag_id run" "ag_status ?f = status" by (simp_all add: finished_run_def)
  have s: "sys_ok inv ?s" "view (sy_repo ?s) (ag_id ?f) = Some (r, es)"
    using assms f by (simp_all add: sys_ok_def)
  note saved = save_effect [OF s]
  {
    assume c: "ag_status r = RunStatusCancelled"
    with saved obtain s' where s': "storing (ar_save repo ?f) ?s = (Inl ErrRunCancelled, s')"
      "sys_ok inv s'" "view (sy_repo s') = view (sy_repo s)" by auto
    with assms(3) have "GetRun svc (ag_id run) s' = (Inr r, s')"
      by (intro GetRun_effect [OF assms(1)]) simp_all
    with s' show "\<exists>s'. finish_with svc status event run s = (Inr r, s') \<and> sys_ok inv s' \<and>
        view (sy_repo s') = view (sy_repo s)"
      by (simp add: finish_with_def and_then_def on_error_def done_with_def clock_now_def
        Let_def assms(1))
  next
    assume c: "ag_status r \<noteq> RunStatusCancelled" and st: "status \<noteq> RunStatusCancelled"
    with saved f obtain s1 where s1: "storing (ar_save repo ?f) ?s = (Inr (), s1)"
      "sys_ok inv s1" "view (sy_repo s1) = (view (sy_repo s))(ag_id run \<mapsto> (?f, es))" by auto
    then have "view (sy_repo s1) (ag_id ?f) = Some (?f, es)" by (simp add: f)
    from appendEvent_effect [OF assms(1) s1(2) this, of event] st f obtain s2 e
      where "appendEvent svc ?f event s1 = (Inr e, s2)" "sys_ok inv s2"
        "view (sy_repo s2) = (view (sy_repo s1))(ag_id run \<mapsto> (?f, es @ [e]))"
        "ev_type e = ev_type event"
      by fastforce
    with s1 show "\<exists>s' e. finish_with svc status event run s = (Inr ?f, s') \<and> sys_ok inv s' \<and>
        view (sy_repo s') = (view (sy_repo s))(ag_id run \<mapsto> (?f, es @ [e])) \<and>
        ev_type e = ev_type event"
      by (intro exI [of _ s2] exI [of _ e]) (simp add: finish_with_def and_then_def on_error_def
        done_with_def clock_now_def Let_def assms(1))
  }
qed

lemma ask_effect:
  assumes "sv_repository svc = repo" and "sys_ok inv s" and "view (sy_repo s) run = Some (r, es)"
    and "ag_status r = RunStatusRunning" and "validateQuestions questions = None"
  shows "\<exists>now e s'. RequestUserInputForCall svc run tool step questions s =
      (Inr (waiting_run now tool step r, e), s') \<and> sys_ok inv s' \<and>
    view (sy_repo s') = (view (sy_repo s))(run \<mapsto> (waiting_run now tool step r, es @ [e])) \<and>
    ev_type e = EventToolPending \<and> ev_tool_call_id e = tool \<and> ev_step_id e = step"
proof -
  let ?s = "s\<lparr>sy_drawn := Suc (sy_drawn s)\<rparr>"
  let ?ev = "(new_event EventToolPending)\<lparr>ev_step_id := step, ev_tool_call_id := tool,
    ev_checkpoint_id := sv_newID svc (sy_drawn s) ''checkpoint'',
    ev_payload := Some [(''tool'', JStr ''ask_user_question''),
      (''questions'', enc_slice enc_Question questions)]\<rparr>"
  have rid: "ag_id r = run" using view_id assms by blast
  have s: "sys_ok inv ?s" "view (sy_repo ?s) (ag_id r) = Some (r, es)"
    using assms by (simp_all add: sys_ok_def rid)
  from appendEvent_effect [OF assms(1) s, of ?ev] assms(4) obtain e s1
    where a: "appendEvent svc r ?ev ?s = (Inr e, s1)" "sys_ok inv s1"
      "view (sy_repo s1) = (view (sy_repo s))(run \<mapsto> (r, es @ [e]))"
      "ev_type e = EventToolPending" "ev_tool_call_id e = tool" "ev_step_id e = step"
    by (fastforce simp: rid)
  let ?now = "sv_now svc (sy_ticks s1)"
  let ?w = "waiting_run ?now tool step r"
  have w: "ag_id ?w = run" by (simp add: waiting_run_def rid)
  have s2: "sys_ok inv (s1\<lparr>sy_ticks := Suc (sy_ticks s1)\<rparr>)"
    "view (sy_repo (s1\<lparr>sy_ticks := Suc (sy_ticks s1)\<rparr>)) (ag_id ?w) = Some (r, es @ [e])"
    using a by (simp_all add: sys_ok_def w)
  from save_effect [OF s2] assms(4) w a obtain s3
    where "storing (ar_save repo ?w) (s1\<lparr>sy_ticks := Suc (sy_ticks s1)\<rparr>) = (Inr (), s3)"
      "sys_ok inv s3" "view (sy_repo s3) = (view (sy_repo s))(run \<mapsto> (?w, es @ [e]))"
    by auto
  with a GetRun_effect [OF assms(1-3)] assms(1,4,5) have
    "RequestUserInputForCall svc run tool step questions s = (Inr (?w, e), s3)"
    by (simp add: RequestUserInputForCall_def and_then_def on_error_def done_with_def
      clock_now_def new_id_def wrap_error_def Let_def waiting_run_def)
  with a \<open>sys_ok inv s3\<close> \<open>view (sy_repo s3) = _\<close> show ?thesis by blast
qed

lemma resume_effect:
  assumes "sv_repository svc = repo" and "sys_ok inv s" and "view (sy_repo s) run = Some (r, es)"
    and "ag_status r = RunStatusWaitingUser" and "ag_pending_tool_call_id r = Some tool"
    and "ag_pending_step_id r = Some step"
  shows "\<exists>now e f s'. ResumeToolCall svc run tool request s =
      (Inr (finished_run RunStatusRunning now r), s') \<and> sys_ok inv s' \<and>
    view (sy_repo s') =
      (view (sy_repo s))(run \<mapsto> (finished_run RunStatusRunning now r, es @ [e, f])) \<and>
    map ev_type [e, f] = [EventToolResult, EventToolFinished] \<and>
    (\<forall>x \<in> {e, f}. ev_tool_call_id x = tool \<and> ev_step_id x = step)"
proof -
  let ?ev1 = "(new_event EventToolResult)\<lparr>ev_step_id := step, ev_tool_call_id := tool,
    ev_payload := Some [(''tool'', JStr ''ask_user_question''),
      (''answers'', case rt_answers request of None \<Rightarrow> JNull | Some m \<Rightarrow> JObj m),
      (''next_step'', JStr (rt_next_step request))]\<rparr>"
  let ?ev2 = "(new_event EventToolFinished)\<lparr>ev_step_id := step, ev_tool_call_id := tool,
    ev_payload := Some [(''tool'', JStr ''ask_user_question'')]\<rparr>"
  have rid: "ag_id r = run" using view_id assms by blast
  have v: "view (sy_repo s) (ag_id r) = Some (r, es)" using assms(3) rid by simp
  from appendEvent_effect [OF assms(1,2) v, of ?ev1] assms(4) obtain e s1
    where a: "appendEvent svc r ?ev1 s = (Inr e, s1)" "sys_ok inv s1"
      "view (sy_repo s1) = (view (sy_repo s))(run \<mapsto> (r, es @ [e]))"
      "ev_type e = EventToolResult" "ev_tool_call_id e = tool" "ev_step_id e = step"
    by (fastforce simp: rid)
  have v1: "view (sy_repo s1) (ag_id r) = Some (r, es @ [e])" using a rid by simp
  from appendEvent_effect [OF assms(1) a(2) v1, of ?ev2] assms(4) a obtain f s2
    where b: "appendEvent svc r ?ev2 s1 = (Inr f, s2)" "sys_ok inv s2"
      "view (sy_repo s2) = (view (sy_repo s))(run \<mapsto> (r, es @ [e, f]))"
      "ev_type f = EventToolFinished" "ev_tool_call_id f = tool" "ev_step_id f = step"
    by (fastforce simp: rid)
  let ?now = "sv_now svc (sy_ticks s2)"
  let ?w = "finished_run RunStatusRunning ?now r"
  have w: "ag_id ?w = run" by (simp add: finished_run_def rid)
  have s2: "sys_ok inv (s2\<lparr>sy_ticks := Suc (sy_ticks s2)\<rparr>)"
    "view (sy_repo (s2\<lparr>sy_ticks := Suc (sy_ticks s2)\<rparr>)) (ag_id ?w) = Some (r, es @ [e, f])"
    using b by (simp_all add: sys_ok_def w)
  from save_effect [OF s2] assms(4) w b obtain s3
    where c: "storing (ar_save repo ?w) (s2\<lparr>sy_ticks := Suc (sy_ticks s2)\<rparr>) = (Inr (), s3)"
      "sys_ok inv s3" "view (sy_repo s3) = (view (sy_repo s))(run \<mapsto> (?w, es @ [e, f]))"
    by auto
  with a b GetRun_effect [OF assms(1-3)] assms(1,4-6) have
    "ResumeToolCall svc run tool request s = (Inr ?w, s3)"
    by (simp add: ResumeToolCall_def and_then_def on_error_def done_with_def clock_now_def
      wrap_error_def Let_def finished_run_def)
  with a b c show ?thesis by (intro exI [of _ ?now] exI [of _ e] exI [of _ f]) simp
qed

lemma resume_refused:
  assumes "sv_repository svc = repo" and "sys_ok inv s" and "view (sy_repo s) run = Some (r, es)"
  shows "ag_status r \<noteq> RunStatusWaitingUser \<Longrightarrow>
      ResumeToolCall svc run tool request s = (Inl ErrRunNotWaitingForUser, s)"
    and "ag_status r = RunStatusWaitingUser \<Longrightarrow> ag_pending_tool_call_id r = Some other \<Longrightarrow>
      other \<noteq> tool \<Longrightarrow> ResumeToolCall svc run tool request s = (Inl ErrToolCallMismatch, s)"
  using GetRun_effect [OF assms]
  by (simp_all add: ResumeToolCall_def and_then_def stop_with_def)

end

end
