(* ===== verification/EventStream.thy ===== *)
theory EventStream
  imports AgentServiceLaws
begin

section \<open>Streaming the events of a run (internal/transport/http/handler.go)\<close>

text \<open>
  A client follows a run over a stream of server-sent events. The handler subscribes to the run,
  writes the events after the sequence number the client has, and then loops: it looks at the
  status of the run, waits for a token of the broker (or the keep-alive timer), and writes what
  was appended since. All of this runs while other goroutines append events and publish. The
  handler is a state machine here, one step per call of the service, and \<open>world_step\<close> lets
  any other goroutine act between two steps. A write error, a refused read or the end of the
  request may end the handler at any point.
\<close>

datatype after_writing = ContinueLoop | ReturnAfter RunStatus

datatype stream_pc =
    StreamStart
  | StreamSubscribed
  | StreamWriting "Event list" after_writing
  | StreamChecking
  | StreamDraining RunStatus
  | StreamBlocked
  | StreamWoken
  | StreamReturned RunStatus
  | StreamAborted

record event_stream =
  es_run_id :: string
  es_after_seq :: int
  es_subscription :: nat
  es_last_seq :: int
  es_written :: "Event list"
  es_pc :: stream_pc

definition open_stream :: "string \<Rightarrow> int \<Rightarrow> event_stream" where
  "open_stream run after_seq = \<lparr>es_run_id = run, es_after_seq = after_seq, es_subscription = 0,
     es_last_seq = after_seq, es_written = [], es_pc = StreamStart\<rparr>"

definition isTerminal :: "RunStatus \<Rightarrow> bool" where
  "isTerminal status \<longleftrightarrow>
     status = RunStatusCompleted \<or> status = RunStatusFailed \<or> status = RunStatusCancelled"

text \<open>The handler holds its subscription until it returns.\<close>

definition stream_open :: "stream_pc \<Rightarrow> bool" where
  "stream_open pc \<longleftrightarrow> (case pc of StreamStart \<Rightarrow> False | StreamReturned _ \<Rightarrow> False
     | StreamAborted \<Rightarrow> False | _ \<Rightarrow> True)"

text \<open>One step of the handler; \<open>listed\<close> and \<open>looked\<close> are \<open>ListOwnedEvents\<close> and \<open>GetOwnedRun\<close>.\<close>

inductive stream_step ::
  "'s agent_service \<Rightarrow> event_stream \<Rightarrow> 's agent_sys \<Rightarrow> event_stream \<Rightarrow> 's agent_sys \<Rightarrow> bool"
  for svc where
  stream_subscribe: "es_pc st = StreamStart \<Longrightarrow> Subscribe (es_run_id st) (sy_broker s) = (i, b) \<Longrightarrow>
    stream_step svc st s (st\<lparr>es_subscription := i, es_pc := StreamSubscribed\<rparr>) (s\<lparr>sy_broker := b\<rparr>)"
| stream_history: "es_pc st = StreamSubscribed \<Longrightarrow>
    ListEvents svc (es_run_id st) (es_after_seq st) s = (Inr listed, s) \<Longrightarrow>
    stream_step svc st s (st\<lparr>es_pc := StreamWriting listed ContinueLoop\<rparr>) s"
| stream_write: "es_pc st = StreamWriting (e # rest) k \<Longrightarrow>
    stream_step svc st s (st\<lparr>es_written := es_written st @ [e], es_last_seq := ev_seq e,
      es_pc := StreamWriting rest k\<rparr>) s"
| stream_wrote: "es_pc st = StreamWriting [] ContinueLoop \<Longrightarrow>
    stream_step svc st s (st\<lparr>es_pc := StreamChecking\<rparr>) s"
| stream_check: "es_pc st = StreamChecking \<Longrightarrow> GetRun svc (es_run_id st) s = (Inr looked, s) \<Longrightarrow>
    stream_step svc st s (st\<lparr>es_pc := (if isTerminal (ag_status looked)
      then StreamDraining (ag_status looked) else StreamBlocked)\<rparr>) s"
| stream_drain: "es_pc st = StreamDraining status \<Longrightarrow>
    ListEvents svc (es_run_id st) (es_last_seq st) s = (Inr listed, s) \<Longrightarrow>
    stream_step svc st s (st\<lparr>es_pc := StreamWriting listed (ReturnAfter status)\<rparr>) s"
| stream_return: "es_pc st = StreamWriting [] (ReturnAfter status) \<Longrightarrow>
    stream_step svc st s (st\<lparr>es_pc := StreamReturned status\<rparr>)
      (s\<lparr>sy_broker := CancelSubscription (es_subscription st) (sy_broker s)\<rparr>)"
| stream_keep_alive: "es_pc st = StreamBlocked \<Longrightarrow>
    stream_step svc st s (st\<lparr>es_pc := StreamChecking\<rparr>) s"
| stream_wake: "es_pc st = StreamBlocked \<Longrightarrow> receive (es_subscription st) (sy_broker s) = Some (True, b) \<Longrightarrow>
    stream_step svc st s (st\<lparr>es_pc := StreamWoken\<rparr>) (s\<lparr>sy_broker := b\<rparr>)"
| stream_news: "es_pc st = StreamWoken \<Longrightarrow>
    ListEvents svc (es_run_id st) (es_last_seq st) s = (Inr listed, s) \<Longrightarrow>
    stream_step svc st s (st\<lparr>es_pc := StreamWriting listed ContinueLoop\<rparr>) s"
| stream_abort: "stream_open (es_pc st) \<Longrightarrow>
    stream_step svc st s (st\<lparr>es_pc := StreamAborted\<rparr>)
      (s\<lparr>sy_broker := CancelSubscription (es_subscription st) (sy_broker s)\<rparr>)"

text \<open>
  The world around one handler. \<open>sw_owed\<close> are the runs for which a goroutine has appended an
  event and not yet published it: \<open>appendEvent\<close> and \<open>CancelRun\<close> publish right after they wrote.
  Other goroutines leave the subscription of the handler alone: only the handler holds it.
\<close>

record 's stream_world =
  sw_sys :: "'s agent_sys"
  sw_owed :: "string list"
  sw_stream :: event_stream

inductive world_step :: "'s agent_service \<Rightarrow> 's stream_world \<Rightarrow> 's stream_world \<Rightarrow> bool" for svc where
  stream: "stream_step svc (sw_stream w) (sw_sys w) st s \<Longrightarrow>
    world_step svc w (w\<lparr>sw_stream := st, sw_sys := s\<rparr>)"
| appends: "writing (ar_append (sv_repository svc) event) (sw_sys w) = (z, s) \<Longrightarrow>
    world_step svc w (w\<lparr>sw_sys := s, sw_owed :=
      (case z of Inl _ \<Rightarrow> sw_owed w | Inr e \<Rightarrow> ev_run_id e # sw_owed w)\<rparr>)"
| cancels: "writing (ar_cancel (sv_repository svc) run now event) (sw_sys w) = (y, s) \<Longrightarrow>
    world_step svc w (w\<lparr>sw_sys := s, sw_owed :=
      (case y of Inr (_, Some e) \<Rightarrow> ev_run_id e # sw_owed w | _ \<Rightarrow> sw_owed w)\<rparr>)"
| publishes: "publish run (sw_sys w) = (Inr (), s) \<Longrightarrow>
    world_step svc w (w\<lparr>sw_sys := s, sw_owed := remove1 run (sw_owed w)\<rparr>)"
| saves: "storing (ar_save (sv_repository svc) run) (sw_sys w) = (x, s) \<Longrightarrow>
    world_step svc w (w\<lparr>sw_sys := s\<rparr>)"
| creates: "ar_get (sv_repository svc) (sy_repo (sw_sys w)) (ag_id run) = Inl ErrRunNotFound \<Longrightarrow>
    storing (ar_create (sv_repository svc) run) (sw_sys w) = (x, s) \<Longrightarrow>
    world_step svc w (w\<lparr>sw_sys := s\<rparr>)"
| subscribes: "Subscribe run (sy_broker (sw_sys w)) = (i, b) \<Longrightarrow>
    world_step svc w (w\<lparr>sw_sys := (sw_sys w)\<lparr>sy_broker := b\<rparr>\<rparr>)"
| unsubscribes: "i \<noteq> es_subscription (sw_stream w) \<Longrightarrow>
    world_step svc w (w\<lparr>sw_sys := (sw_sys w)\<lparr>sy_broker := CancelSubscription i (sy_broker (sw_sys w))\<rparr>\<rparr>)"
| receives: "i \<noteq> es_subscription (sw_stream w) \<Longrightarrow>
    receive i (sy_broker (sw_sys w)) = Some (ok, b) \<Longrightarrow>
    world_step svc w (w\<lparr>sw_sys := (sw_sys w)\<lparr>sy_broker := b\<rparr>\<rparr>)"
| ticks: "clock_now svc (sw_sys w) = (Inr now, s) \<Longrightarrow> world_step svc w (w\<lparr>sw_sys := s\<rparr>)"
| draws: "new_id svc prefix (sw_sys w) = (Inr i, s) \<Longrightarrow> world_step svc w (w\<lparr>sw_sys := s\<rparr>)"

inductive world_trace :: "'s agent_service \<Rightarrow> 's stream_world \<Rightarrow> 's stream_world \<Rightarrow> bool"
  for svc w0 where
  world_here: "world_trace svc w0 w0"
| world_further: "world_trace svc w0 w \<Longrightarrow> world_step svc w w' \<Longrightarrow> world_trace svc w0 w'"

subsection \<open>The invariant of a stream\<close>

text \<open>
  What is written is a segment of the log: the events after the client's number up to the last
  one written, once each. \<open>stream_alert\<close>: something will wake the handler.
\<close>

definition stream_data :: "event_stream \<Rightarrow> Event list \<Rightarrow> bool" where
  "stream_data st es \<longleftrightarrow>
     (let a = es_after_seq st; l = es_last_seq st in
      0 \<le> a \<and> a \<le> l \<and> (l = a \<or> l \<le> int (length es)) \<and>
      es_written st = map clone_payload (take (nat (l - a)) (drop (nat a) es)) \<and>
      (\<forall>evs k. es_pc st = StreamWriting evs k \<longrightarrow>
        (\<exists>n. evs = map clone_payload (take n (drop (nat l) es)))) \<and>
      (es_pc st \<in> {StreamStart, StreamSubscribed} \<longrightarrow> l = a))"

definition stream_alert :: "'s stream_world \<Rightarrow> bool" where
  "stream_alert w \<longleftrightarrow> es_run_id (sw_stream w) \<in> set (sw_owed w) \<or>
     has_token (sy_broker (sw_sys w)) (es_subscription (sw_stream w))"

fun stream_news :: "bool \<Rightarrow> RunStatus \<Rightarrow> int \<Rightarrow> int \<Rightarrow> stream_pc \<Rightarrow> bool" where
  "stream_news alert status len last_seq StreamChecking \<longleftrightarrow> len \<le> last_seq \<or> alert"
| "stream_news alert status len last_seq StreamBlocked \<longleftrightarrow> len \<le> last_seq \<or> alert"
| "stream_news alert status len last_seq (StreamWriting evs ContinueLoop) \<longleftrightarrow>
     len \<le> last_seq + int (length evs) \<or> alert"
| "stream_news alert status len last_seq (StreamDraining seen) \<longleftrightarrow>
     (seen = RunStatusCancelled \<longrightarrow> status = RunStatusCancelled)"
| "stream_news alert status len last_seq (StreamWriting evs (ReturnAfter seen)) \<longleftrightarrow>
     (seen = RunStatusCancelled \<longrightarrow>
       status = RunStatusCancelled \<and> len \<le> last_seq + int (length evs))"
| "stream_news alert status len last_seq (StreamReturned seen) \<longleftrightarrow>
     (seen = RunStatusCancelled \<longrightarrow> status = RunStatusCancelled \<and> len \<le> last_seq)"
| "stream_news alert status len last_seq _ \<longleftrightarrow> True"

definition world_inv ::
  "('s \<Rightarrow> bool) \<Rightarrow> ('s \<Rightarrow> run_view) \<Rightarrow> 's stream_world \<Rightarrow> bool" where
  "world_inv repo_ok view w \<longleftrightarrow> sys_ok repo_ok (sw_sys w) \<and>
     (\<exists>r es. view (sy_repo (sw_sys w)) (es_run_id (sw_stream w)) = Some (r, es) \<and>
       stream_data (sw_stream w) es \<and>
       stream_news (stream_alert w) (ag_status r) (int (length es)) (es_last_seq (sw_stream w))
         (es_pc (sw_stream w)) \<and>
       (stream_open (es_pc (sw_stream w)) \<longrightarrow>
         open_for (sy_broker (sw_sys w)) (es_run_id (sw_stream w)) (es_subscription (sw_stream w))))"

text \<open>How the world changes around the handler.\<close>

definition env_effect :: "('s \<Rightarrow> bool) \<Rightarrow> ('s \<Rightarrow> run_view) \<Rightarrow> 's stream_world \<Rightarrow> 's stream_world \<Rightarrow> bool" where
  "env_effect repo_ok view w w' \<longleftrightarrow>
     sw_stream w' = sw_stream w \<and> sys_ok repo_ok (sw_sys w') \<and>
     view_step (view (sy_repo (sw_sys w))) (view (sy_repo (sw_sys w'))) \<and>
     (\<forall>r es r' es'. view (sy_repo (sw_sys w)) (es_run_id (sw_stream w)) = Some (r, es) \<longrightarrow>
        view (sy_repo (sw_sys w')) (es_run_id (sw_stream w)) = Some (r', es') \<longrightarrow>
        es' \<noteq> es \<longrightarrow> es_run_id (sw_stream w) \<in> set (sw_owed w')) \<and>
     (\<forall>run. open_for (sy_broker (sw_sys w)) run (es_subscription (sw_stream w)) \<longrightarrow>
        open_for (sy_broker (sw_sys w')) run (es_subscription (sw_stream w))) \<and>
     (open_for (sy_broker (sw_sys w)) (es_run_id (sw_stream w)) (es_subscription (sw_stream w)) \<longrightarrow>
        stream_alert w \<longrightarrow> stream_alert w')"

lemma take_min_append: "take (min n (length xs)) (xs @ ys) = take n xs"
  by (simp add: min_def)

lemma stream_data_grows:
  assumes "stream_data st es"
  shows "stream_data st (es @ es')"
proof -
  let ?a = "es_after_seq st" and ?l = "es_last_seq st"
  have d: "0 \<le> ?a" "?a \<le> ?l" "?l = ?a \<or> ?l \<le> int (length es)"
    "es_written st = map clone_payload (take (nat (?l - ?a)) (drop (nat ?a) es))"
    and pc: "es_pc st \<in> {StreamStart, StreamSubscribed} \<longrightarrow> ?l = ?a"
    using assms by (simp_all add: stream_data_def Let_def)
  have seg: "take (nat (?l - ?a)) (drop (nat ?a) (es @ es')) = take (nat (?l - ?a)) (drop (nat ?a) es)"
    using d(1-3) by auto
  have "\<exists>n. evs = map clone_payload (take n (drop (nat ?l) (es @ es')))"
    if w: "es_pc st = StreamWriting evs k" for evs k
  proof -
    obtain n where "evs = map clone_payload (take n (drop (nat ?l) es))"
      using assms w by (auto simp: stream_data_def Let_def)
    also have "take n (drop (nat ?l) es) =
        take (min n (length (drop (nat ?l) es))) (drop (nat ?l) (es @ es'))"
      unfolding drop_append take_min_append ..
    finally show ?thesis by blast
  qed
  moreover have "?l = ?a \<or> ?l \<le> int (length (es @ es'))"
    using d(3) by auto
  ultimately show ?thesis
    using d(1,2,4) pc unfolding stream_data_def Let_def seg by blast
qed

lemma stream_data_write:
  assumes "stream_data st es" and "log_ok run es" and "es_pc st = StreamWriting (e # rest) k"
  shows "ev_seq e = es_last_seq st + 1 \<and>
    stream_data (st\<lparr>es_written := es_written st @ [e], es_last_seq := ev_seq e,
      es_pc := StreamWriting rest k\<rparr>) es"
proof -
  let ?a = "es_after_seq st" and ?l = "es_last_seq st"
  have d: "0 \<le> ?a" "?a \<le> ?l" "es_written st = map clone_payload (take (nat (?l - ?a)) (drop (nat ?a) es))"
    using assms(1) by (simp_all add: stream_data_def Let_def)
  obtain n where n: "e # rest = map clone_payload (take n (drop (nat ?l) es))"
    using assms(1,3) unfolding stream_data_def Let_def by meson
  then obtain m where m: "n = Suc m" by (cases n) auto
  have "drop (nat ?l) es \<noteq> []" using n by auto
  then have short: "nat ?l < length es" by simp
  have es: "drop (nat ?l) es = es ! nat ?l # drop (Suc (nat ?l)) es"
    using short by (simp add: Cons_nth_drop_Suc)
  have e: "e = clone_payload (es ! nat ?l)" and rest: "rest = map clone_payload (take m (drop (Suc (nat ?l)) es))"
    using n by (simp_all add: m es)
  have seq: "ev_seq e = ?l + 1"
    using assms(2) short d(1,2) by (simp add: e clone_payload_def log_ok_def)
  have l: "nat (?l + 1) = Suc (nat ?l)" "nat (?l + 1 - ?a) = Suc (nat (?l - ?a))"
    using d(1,2) by linarith+
  have i: "nat ?a + nat (?l - ?a) = nat ?l"
    using d(1,2) by linarith
  have "es_written st @ [e] = map clone_payload (take (nat (?l + 1 - ?a)) (drop (nat ?a) es))"
    using short d i by (simp add: l take_Suc_conv_app_nth e)
  then show ?thesis
    using d short seq rest by (auto simp: stream_data_def Let_def l)
qed

lemma stream_news_alert: "stream_news a status len l pc \<Longrightarrow> (a \<longrightarrow> a') \<Longrightarrow> stream_news a' status len l pc"
  by (induction a status len l pc rule: stream_news.induct) auto

lemma world_inv_env:
  assumes "world_inv repo_ok view w" and "env_effect repo_ok view w w'"
  shows "world_inv repo_ok view w'"
proof -
  let ?st = "sw_stream w"
  obtain r es where v: "view (sy_repo (sw_sys w)) (es_run_id ?st) = Some (r, es)"
    and data: "stream_data ?st es"
    and news: "stream_news (stream_alert w) (ag_status r) (int (length es)) (es_last_seq ?st) (es_pc ?st)"
    and op: "stream_open (es_pc ?st) \<longrightarrow> open_for (sy_broker (sw_sys w)) (es_run_id ?st) (es_subscription ?st)"
    using assms(1) by (auto simp: world_inv_def)
  obtain r' es' where v': "view (sy_repo (sw_sys w')) (es_run_id ?st) = Some (r', es @ es')"
    and frozen: "ag_status r = RunStatusCancelled \<longrightarrow> r' = r \<and> es' = []"
    using view_step_grows [of "view (sy_repo (sw_sys w))" "view (sy_repo (sw_sys w'))" _ r es, OF _ v]
      assms(2) by (auto simp: env_effect_def)
  have st: "sw_stream w' = ?st" and ok: "sys_ok repo_ok (sw_sys w')"
    and owed: "es' \<noteq> [] \<Longrightarrow> stream_alert w'"
    and op': "stream_open (es_pc ?st) \<longrightarrow> open_for (sy_broker (sw_sys w')) (es_run_id ?st) (es_subscription ?st)"
    and alert: "stream_open (es_pc ?st) \<Longrightarrow> stream_alert w \<Longrightarrow> stream_alert w'"
    using assms(2) v v' op unfolding env_effect_def by (auto simp: stream_alert_def)
  have "stream_news (stream_alert w') (ag_status r') (int (length (es @ es'))) (es_last_seq ?st) (es_pc ?st)"
  proof (cases "es' = []")
    case True
    show ?thesis
      using news frozen alert True
      by (cases "(stream_alert w', ag_status r', int (length (es @ es')), es_last_seq ?st, es_pc ?st)"
          rule: stream_news.cases) (auto simp: stream_open_def)
  next
    case False
    with frozen have "ag_status r \<noteq> RunStatusCancelled" by auto
    with news owed [OF False] show ?thesis
      by (cases "(stream_alert w', ag_status r', int (length (es @ es')), es_last_seq ?st, es_pc ?st)"
          rule: stream_news.cases) auto
  qed
  with v' ok data op' show ?thesis
    by (auto simp: world_inv_def st stream_data_grows)
qed

context agent_repository
begin

lemma listed:
  assumes "sv_repository svc = repo" and "sys_ok inv s" and "view (sy_repo s) run = Some (r, es)"
    and "0 \<le> a" and "ListEvents svc run a s = (Inr evs, s')"
  shows "evs = map clone_payload (drop (nat a) es)"
proof -
  have "log_ok run es"
    using assms(2,3) view_law by (auto simp: sys_ok_def dest: view_okD)
  from log_ok_filter [OF this assms(4)] show ?thesis
    using assms(1-3,5) events_law
    by (auto simp: ListEvents_def reading_def stop_with_def sys_ok_def spec_events_def
      split: if_split_asm)
qed

lemma stream_step_inv:
  assumes svc: "sv_repository svc = repo" and "world_inv inv view w"
    and step: "stream_step svc (sw_stream w) (sw_sys w) st s"
  shows "world_inv inv view (w\<lparr>sw_stream := st, sw_sys := s\<rparr>)"
proof -
  let ?st = "sw_stream w" and ?s = "sw_sys w"
  let ?R = "es_run_id ?st"
  obtain r es where ok: "sys_ok inv ?s" and v: "view (sy_repo ?s) ?R = Some (r, es)"
    and data: "stream_data ?st es"
    and news: "stream_news (stream_alert w) (ag_status r) (int (length es)) (es_last_seq ?st) (es_pc ?st)"
    and op: "stream_open (es_pc ?st) \<longrightarrow> open_for (sy_broker ?s) ?R (es_subscription ?st)"
    using assms(2) by (auto simp: world_inv_def)
  have al: "0 \<le> es_after_seq ?st" "es_after_seq ?st \<le> es_last_seq ?st" "0 \<le> es_last_seq ?st"
    using data by (auto simp: stream_data_def Let_def)
  have all: "\<exists>n. map clone_payload xs = map clone_payload (take n xs)" for xs :: "Event list"
    by (rule exI [of _ "length xs"]) simp
  from step show ?thesis
  proof cases
    case (stream_subscribe i b)
    then show ?thesis
      using ok v data Subscribe_ok [of "sy_broker ?s" ?R i b]
      by (auto simp: world_inv_def sys_ok_def stream_data_def Let_def stream_open_def)
  next
    case (stream_history evs)
    have "evs = map clone_payload (drop (nat (es_last_seq ?st)) es)"
      using listed [OF svc ok v al(1) stream_history(4)] data stream_history(3)
      by (simp add: stream_data_def Let_def)
    with stream_history show ?thesis
      using ok v data op al
      by (auto simp: world_inv_def stream_data_def Let_def stream_open_def all)
  next
    case (stream_write e rest k)
    have "log_ok ?R es"
      using ok v view_law by (auto simp: sys_ok_def dest: view_okD)
    from stream_data_write [OF data this stream_write(3)] news stream_write show ?thesis
      using ok v op
      by (cases k) (auto simp: world_inv_def stream_open_def stream_alert_def add.assoc)
  next
    case stream_wrote
    then show ?thesis
      using ok v data news op
      by (auto simp: world_inv_def stream_data_def Let_def stream_open_def stream_alert_def)
  next
    case (stream_check looked)
    then have "looked = r"
      using GetRun_effect [OF svc ok v] by simp
    with stream_check show ?thesis
      using ok v data news op
      by (auto simp: world_inv_def stream_data_def Let_def stream_open_def stream_alert_def)
  next
    case (stream_drain status evs)
    have "evs = map clone_payload (drop (nat (es_last_seq ?st)) es)"
      using listed [OF svc ok v al(3) stream_drain(4)] .
    with stream_drain show ?thesis
      using ok v data news op al
      by (auto simp: world_inv_def stream_data_def Let_def stream_open_def all)
  next
    case (stream_return status)
    then show ?thesis
      using ok v data news CancelSubscription_ok(1) [of "sy_broker ?s"]
      by (auto simp: world_inv_def sys_ok_def stream_data_def Let_def stream_open_def)
  next
    case stream_keep_alive
    then show ?thesis
      using ok v data news op
      by (auto simp: world_inv_def stream_data_def Let_def stream_open_def stream_alert_def)
  next
    case (stream_wake b)
    then show ?thesis
      using ok v data op receive_ok [of "sy_broker ?s" "es_subscription ?st" True b]
      by (auto simp: world_inv_def sys_ok_def stream_data_def Let_def stream_open_def)
  next
    case (stream_news evs)
    have "evs = map clone_payload (drop (nat (es_last_seq ?st)) es)"
      using listed [OF svc ok v al(3) stream_news(4)] .
    with stream_news show ?thesis
      using ok v data op al
      by (auto simp: world_inv_def stream_data_def Let_def stream_open_def all)
  next
    case stream_abort
    then show ?thesis
      using ok v data CancelSubscription_ok(1) [of "sy_broker ?s"]
      by (auto simp: world_inv_def sys_ok_def stream_data_def Let_def stream_open_def)
  qed
qed

lemma env_step:
  assumes svc: "sv_repository svc = repo" and ok: "sys_ok inv (sw_sys w)" and "world_step svc w w'"
  shows "(\<exists>st s. stream_step svc (sw_stream w) (sw_sys w) st s \<and>
      w' = w\<lparr>sw_stream := st, sw_sys := s\<rparr>) \<or> env_effect inv view w w'"
  using assms(3)
proof cases
  case (stream st s)
  then show ?thesis by blast
next
  case (appends event z s)
  then have "sys_step svc (sw_sys w) s" by (intro sys_step.append)
  note step = step_ok [OF svc ok this]
  obtain q where q: "ar_append repo event (sy_repo (sw_sys w)) = (z, q)"
    and s: "s = (sw_sys w)\<lparr>sy_repo := q\<rparr>"
    using appends(2) svc by (auto simp: writing_def split: prod.splits)
  with append_law [of "sy_repo (sw_sys w)" event z q] ok
  have "(z, view q) = spec_append event (view (sy_repo (sw_sys w)))"
    by (simp add: sys_ok_def)
  then show ?thesis
    using step appends(1) s
    by (auto simp: env_effect_def stream_alert_def spec_append_def split: sum.splits option.splits if_split_asm)
next
  case (cancels run now event y s)
  then have "sys_step svc (sw_sys w) s" by (intro sys_step.cancel)
  note step = step_ok [OF svc ok this]
  obtain q where q: "ar_cancel repo run now event (sy_repo (sw_sys w)) = (y, q)"
    and s: "s = (sw_sys w)\<lparr>sy_repo := q\<rparr>"
    using cancels(2) svc by (auto simp: writing_def split: prod.splits)
  with cancel_law [of "sy_repo (sw_sys w)" run now event y q] ok view_law
  have "(y, view q) = spec_cancel run now event (view (sy_repo (sw_sys w)))"
    and "view_ok (view (sy_repo (sw_sys w)))"
    by (simp_all add: sys_ok_def)
  then show ?thesis
    using step cancels(1) s view_okD [of "view (sy_repo (sw_sys w))" run]
    by (auto simp: env_effect_def stream_alert_def spec_cancel_def Let_def
      split: sum.splits option.splits if_split_asm)
next
  case (publishes run s)
  then have "sys_step svc (sw_sys w) s" by (intro sys_step.published)
  note step = step_ok [OF svc ok this]
  have "s = (sw_sys w)\<lparr>sy_broker := with_tokens {i. open_for (sy_broker (sw_sys w)) run i} (sy_broker (sw_sys w))\<rparr>"
    using publishes(2) ok Publish_ok [of "sy_broker (sw_sys w)" run]
    by (auto simp: publish_def sys_ok_def)
  then show ?thesis
    using step publishes(1)
    by (auto simp: env_effect_def stream_alert_def has_token_def open_for_def)
next
  case (saves run x s)
  then have "sys_step svc (sw_sys w) s" by (intro sys_step.save)
  note step = step_ok [OF svc ok this]
  obtain q p where q: "ar_save repo run (sy_repo (sw_sys w)) = (p, q)"
    and s: "s = (sw_sys w)\<lparr>sy_repo := q\<rparr>"
    using saves(2) svc by (auto simp: storing_def split: prod.splits option.splits)
  with save_law [of "sy_repo (sw_sys w)" run p q] ok
  have "(p, view q) = spec_save run (view (sy_repo (sw_sys w)))"
    by (simp add: sys_ok_def)
  then show ?thesis
    using step saves(1) s
    by (auto simp: env_effect_def stream_alert_def spec_save_def split: option.splits if_split_asm)
next
  case (creates run x s)
  then have "sys_step svc (sw_sys w) s" by (intro sys_step.create)
  note step = step_ok [OF svc ok this]
  have none: "view (sy_repo (sw_sys w)) (ag_id run) = None"
    using creates(2) svc get_law ok by (auto simp: sys_ok_def spec_get_def split: option.splits)
  obtain q where "ar_create repo run (sy_repo (sw_sys w)) = (None, q)"
    "view q = (view (sy_repo (sw_sys w)))(ag_id run \<mapsto> (run, []))"
    using create_law [OF _ none] ok by (auto simp: sys_ok_def)
  moreover have "s = (sw_sys w)\<lparr>sy_repo := q\<rparr>"
    using creates(3) svc calculation by (simp add: storing_def)
  ultimately show ?thesis
    using step creates(1) none by (auto simp: env_effect_def stream_alert_def split: if_split_asm)
next
  case (subscribes run i b)
  then have "sys_step svc (sw_sys w) ((sw_sys w)\<lparr>sy_broker := b\<rparr>)" by (intro sys_step.subscribed)
  note step = step_ok [OF svc ok this]
  from subscribes ok Subscribe_ok [of "sy_broker (sw_sys w)" run i b] step show ?thesis
    by (auto simp: env_effect_def stream_alert_def sys_ok_def)
next
  case (unsubscribes i)
  have "sys_step svc (sw_sys w)
      ((sw_sys w)\<lparr>sy_broker := CancelSubscription i (sy_broker (sw_sys w))\<rparr>)"
    by (rule sys_step.unsubscribed)
  note step = step_ok [OF svc ok this]
  from unsubscribes ok CancelSubscription_ok [of "sy_broker (sw_sys w)" i] step show ?thesis
    by (auto simp: env_effect_def stream_alert_def sys_ok_def)
next
  case (receives i rok b)
  then have "sys_step svc (sw_sys w) ((sw_sys w)\<lparr>sy_broker := b\<rparr>)" by (intro sys_step.received)
  note step = step_ok [OF svc ok this]
  from receives ok receive_ok [of "sy_broker (sw_sys w)" i rok b] step show ?thesis
    by (auto simp: env_effect_def stream_alert_def sys_ok_def)
next
  case (ticks now s)
  then have "sys_step svc (sw_sys w) s" by (intro sys_step.tick)
  note step = step_ok [OF svc ok this]
  from ticks step show ?thesis
    by (auto simp: env_effect_def stream_alert_def clock_now_def)
next
  case (draws prefix i s)
  then have "sys_step svc (sw_sys w) s" by (intro sys_step.draw)
  note step = step_ok [OF svc ok this]
  from draws step show ?thesis
    by (auto simp: env_effect_def stream_alert_def new_id_def)
qed

lemma world_trace_inv:
  assumes "sv_repository svc = repo" and "world_trace svc w0 w" and "world_inv inv view w0"
  shows "world_inv inv view w"
  using assms(2,3)
proof induction
  case (world_further w w')
  then have inv: "world_inv inv view w" by simp
  then have "sys_ok inv (sw_sys w)" by (simp add: world_inv_def)
  from env_step [OF assms(1) this world_further.hyps(2)] show ?case
    using stream_step_inv [OF assms(1) inv] world_inv_env [OF inv] by blast
qed simp

lemma open_stream_inv:
  assumes "sys_ok inv s" and "view (sy_repo s) run = Some (r, es)" and "0 \<le> after_seq"
  shows "world_inv inv view \<lparr>sw_sys = s, sw_owed = owed, sw_stream = open_stream run after_seq\<rparr>"
  using assms
  by (auto simp: world_inv_def open_stream_def stream_data_def stream_open_def)

end

lemma world_trace_trans:
  assumes "world_trace svc w w'" and "world_trace svc w' w''"
  shows "world_trace svc w w''"
  using assms(2,1) by induction (auto intro: world_further)

lemma world_trace_run_id:
  assumes "world_trace svc w0 w"
  shows "es_run_id (sw_stream w) = es_run_id (sw_stream w0) \<and>
    es_after_seq (sw_stream w) = es_after_seq (sw_stream w0)"
  using assms
proof induction
  case (world_further w w')
  have "stream_step svc st s st' s' \<Longrightarrow> es_run_id st' = es_run_id st \<and> es_after_seq st' = es_after_seq st"
    for st s st' s'
    by (induction rule: stream_step.induct) simp_all
  with world_further show ?case
    by (cases rule: world_step.cases [OF world_further.hyps(2)]) auto
qed simp

end
