(* ===== verification/AgentProperties.thy ===== *)
theory AgentProperties
  imports EventStream
begin

section \<open>Properties of agent runs and their streams\<close>

subsection \<open>A system on the repository in memory\<close>

definition new_system :: "agent_memory agent_sys" where
  "new_system = \<lparr>sy_repo = NewAgentMemory, sy_broker = NewEventBroker, sy_ticks = 0, sy_drawn = 0\<rparr>"

lemma new_system_ok: "sys_ok agent_memory_inv new_system"
  by (simp add: sys_ok_def new_system_def NewEventBroker_ok agent_memory_inv_def NewAgentMemory_def
    memory_view_def view_ok_def)

definition current_run :: "agent_memory agent_sys \<Rightarrow> string \<Rightarrow> AgentRun option" where
  "current_run s run = am_runs (sy_repo s) run"

definition event_log :: "agent_memory agent_sys \<Rightarrow> string \<Rightarrow> Event list" where
  "event_log s run = am_events (sy_repo s) run"

lemma view_current:
  "memory_view (sy_repo s) run = Some (r, es) \<longleftrightarrow> current_run s run = Some r \<and> es = event_log s run"
  by (auto simp: memory_view_def current_run_def event_log_def)

lemma same_view:
  assumes "memory_view (sy_repo s') = memory_view (sy_repo s)" and "current_run s run = Some r"
  shows "current_run s' run = Some r" and "event_log s' run = event_log s run"
proof -
  have "memory_view (sy_repo s') run = Some (r, event_log s run)"
    using assms by (simp add: view_current)
  then show "current_run s' run = Some r" and "event_log s' run = event_log s run"
    by (simp_all add: view_current)
qed

subsection \<open>The log of a run\<close>

text \<open>
  C13. However the operations of the service interleave, the events of every run are numbered
  1, 2, 3, ... without a gap and belong to this run, and publishing never panics on a closed
  channel.
\<close>

theorem event_logs_numbered:
  assumes "sv_repository svc = agent_memory_repo" and "sys_trace svc new_system s"
  shows "(\<forall>i < length (event_log s run). ev_seq (event_log s run ! i) = int i + 1 \<and>
      ev_run_id (event_log s run ! i) = run) \<and> Publish run (sy_broker s) \<noteq> None"
proof -
  have ok: "sys_ok agent_memory_inv s"
    using agent_mem.trace_ok [OF assms(1) new_system_ok assms(2)] .
  have "log_ok run (event_log s run)"
  proof (cases "current_run s run")
    case None
    with ok show ?thesis
      by (simp add: sys_ok_def agent_memory_inv_def event_log_def current_run_def log_ok_def)
  next
    case (Some r)
    then have "memory_view (sy_repo s) run = Some (r, event_log s run)" by (simp add: view_current)
    with ok show ?thesis by (auto simp: sys_ok_def agent_memory_inv_def dest: view_okD)
  qed
  with ok show ?thesis by (simp add: log_ok_def Publish_ok sys_ok_def)
qed

text \<open>
  C11. The log only grows, and cancelling is final: whatever calls follow, from whichever
  goroutine, the events that were there stay, in their order; and a cancelled run keeps its
  record and gets no further event.
\<close>

theorem cancelled_run_is_frozen:
  assumes "sv_repository svc = agent_memory_repo" and "sys_ok agent_memory_inv s0"
    and "sys_trace svc s0 s" and "current_run s0 run = Some r"
  shows "(\<exists>es. event_log s run = event_log s0 run @ es) \<and>
    (ag_status r = RunStatusCancelled \<longrightarrow>
      current_run s run = Some r \<and> event_log s run = event_log s0 run)"
proof -
  have "memory_view (sy_repo s0) run = Some (r, event_log s0 run)"
    using assms(4) by (simp add: view_current)
  from agent_mem.trace_grows [OF assms(1-3) this] obtain r' es
    where "current_run s run = Some r'" "event_log s run = event_log s0 run @ es"
      "ag_status r = RunStatusCancelled \<longrightarrow> r' = r \<and> es = []"
    unfolding view_current by metis
  then show ?thesis by auto
qed

text \<open>
  A reader that always asks for the events after the last number it has seen gets every
  event of the run exactly once and in order, no matter what happened between the two reads.
\<close>

theorem polling_sees_each_event_once:
  assumes "sv_repository svc = agent_memory_repo" and "sys_ok agent_memory_inv s"
    and "sys_trace svc s s'" and "0 \<le> after_seq"
    and "ListEvents svc run after_seq s = (Inr es, t)"
    and "ListEvents svc run (if es = [] then after_seq else ev_seq (last es)) s' = (Inr es', t')"
  shows "ListEvents svc run after_seq s' = (Inr (es @ es'), s')"
proof -
  obtain r log where v: "memory_view (sy_repo s) run = Some (r, log)"
    using assms(1,2,4,5) agent_mem.events_law
    by (auto simp: ListEvents_def reading_def sys_ok_def spec_events_def split: option.splits if_split_asm)
  obtain r' new where v': "memory_view (sy_repo s') run = Some (r', log @ new)"
    using agent_mem.trace_grows [OF assms(1-3) v] by blast
  have ok': "sys_ok agent_memory_inv s'"
    using agent_mem.trace_ok [OF assms(1-3)] .
  have log: "log_ok run log"
    using assms(2) v by (auto simp: sys_ok_def agent_memory_inv_def dest: view_okD)
  have es: "es = map clone_payload (drop (nat after_seq) log)"
    using agent_mem.listed [OF assms(1,2) v assms(4,5)] .
  have cur: "0 \<le> (if es = [] then after_seq else ev_seq (last es))"
    and pos: "es \<noteq> [] \<Longrightarrow> nat (ev_seq (last es)) = length log \<and> nat after_seq < length log"
  proof -
    have "ev_seq (last log) = int (length log)" if "log \<noteq> []"
      using log that by (cases log rule: rev_cases) (auto simp: log_ok_snoc_iff)
    moreover have "log \<noteq> [] \<and> nat after_seq < length log" if "es \<noteq> []"
      using that by (auto simp: es)
    moreover have "ev_seq (last es) = ev_seq (last log)" if "es \<noteq> []"
      using that by (simp add: es last_map clone_payload_def last_drop)
    ultimately have "ev_seq (last es) = int (length log) \<and> nat after_seq < length log" if "es \<noteq> []"
      using that by simp
    then show "0 \<le> (if es = [] then after_seq else ev_seq (last es))"
      and "es \<noteq> [] \<Longrightarrow> nat (ev_seq (last es)) = length log \<and> nat after_seq < length log"
      using assms(4) by auto
  qed
  have es': "es' = map clone_payload (drop (nat (if es = [] then after_seq else ev_seq (last es))) (log @ new))"
    using agent_mem.listed [OF assms(1) ok' v' cur assms(6)] .
  have "log_ok run (log @ new)"
    using ok' v' by (auto simp: sys_ok_def agent_memory_inv_def dest: view_okD)
  from log_ok_filter [OF this assms(4)]
  have "ListEvents svc run after_seq s' = (Inr (map clone_payload (drop (nat after_seq) (log @ new))), s')"
    using assms(1,4) ok' v' agent_mem.events_law
    by (simp add: ListEvents_def reading_def sys_ok_def spec_events_def)
  also have "map clone_payload (drop (nat after_seq) (log @ new)) = es @ es'"
  proof (cases "es = []")
    case True
    then show ?thesis by (simp add: es')
  next
    case False
    then show ?thesis using pos by (simp add: es' es)
  qed
  finally show ?thesis .
qed

text \<open>
  Every operation of the service is a sequence of atomic calls of its repository, its broker,
  its clock and its generator of ids; so what all calls preserve holds however concurrent
  requests interleave.
\<close>

theorem operations_are_calls:
  assumes "ar_get (sv_repository svc) (sy_repo s) (sv_newID svc (sy_drawn s) ''run'') = Inl ErrRunNotFound"
  shows "sys_trace svc s (snd (StartOwnedProjectRun svc actor conversation project inp s)) \<and>
   sys_trace svc s (snd (RequestUserInput svc run questions s)) \<and>
   sys_trace svc s (snd (RequestUserInputForCall svc run tool step questions s)) \<and>
   sys_trace svc s (snd (ResumeToolCall svc run tool request s)) \<and>
   sys_trace svc s (snd (RecordEvent svc r event s)) \<and>
   sys_trace svc s (snd (SaveRun svc r s)) \<and>
   sys_trace svc s (snd (CompleteRun svc r s)) \<and>
   sys_trace svc s (snd (FailRun svc r cause s)) \<and>
   sys_trace svc s (snd (CancelOwnedRun svc run actor reason s))"
  unfolding RecordEvent_def CompleteRun_def FailRun_def
  by (intro conjI StartOwnedProjectRun_calls [OF assms] made_of_callsD RequestUserInput_calls
    RequestUserInputForCall_calls ResumeToolCall_calls appendEvent_calls SaveRun_calls
    finish_with_calls CancelOwnedRun_calls)

subsection \<open>Asking, ending, cancelling\<close>

text \<open>
  Questions are accepted exactly when there are one to three of them, each with an id and a
  text, the ids distinct, and every single choice with at least two options.
\<close>

theorem validateQuestions_iff:
  "validateQuestions questions = None \<longleftrightarrow>
     questions_of questions \<noteq> [] \<and> length (questions_of questions) \<le> 3 \<and>
     list_all question_ok (questions_of questions) \<and>
     distinct (map qn_id (questions_of questions))"
  by (auto simp: validateQuestions_def check_questions_iff list_all_iff)

text \<open>
  Asking the user and resuming round-trip: a running run that asks well-formed questions
  waits under the tool call it asked with; an answer for another call is refused and changes
  nothing; the answer for this call brings the run back as it was before (but for the time of
  the update), with exactly the events pending, result and finished of this call and step
  added to its log; and a second answer is refused.
\<close>

theorem ask_and_resume:
  assumes "sv_repository svc = agent_memory_repo" and "sys_ok agent_memory_inv s"
    and "current_run s run = Some r" and "ag_status r = RunStatusRunning"
    and "ag_pending_tool_call_id r = None" and "ag_pending_step_id r = None"
    and "validateQuestions questions = None" and "other \<noteq> tool"
  shows "\<exists>w e s1 now s2. RequestUserInputForCall svc run tool step questions s = (Inr (w, e), s1) \<and>
    ag_status w = RunStatusWaitingUser \<and> current_run s1 run = Some w \<and>
    ResumeToolCall svc run other answer s1 = (Inl ErrToolCallMismatch, s1) \<and>
    ResumeToolCall svc run tool answer s1 = (Inr (r\<lparr>ag_updated_at := now\<rparr>), s2) \<and>
    current_run s2 run = Some (r\<lparr>ag_updated_at := now\<rparr>) \<and>
    take (length (event_log s run)) (event_log s2 run) = event_log s run \<and>
    map (\<lambda>e. (ev_type e, ev_tool_call_id e, ev_step_id e))
      (drop (length (event_log s run)) (event_log s2 run)) =
      [(EventToolPending, tool, step), (EventToolResult, tool, step), (EventToolFinished, tool, step)] \<and>
    ResumeToolCall svc run tool answer s2 = (Inl ErrRunNotWaitingForUser, s2)"
proof -
  have v: "memory_view (sy_repo s) run = Some (r, event_log s run)"
    using assms(3) by (simp add: view_current)
  obtain now e s1 where ask: "RequestUserInputForCall svc run tool step questions s =
      (Inr (waiting_run now tool step r, e), s1)" "sys_ok agent_memory_inv s1"
    and v1: "memory_view (sy_repo s1) run = Some (waiting_run now tool step r, event_log s run @ [e])"
    and e: "ev_type e = EventToolPending" "ev_tool_call_id e = tool" "ev_step_id e = step"
    using agent_mem.ask_effect [OF assms(1,2) v assms(4,7)] by fastforce
  let ?w = "waiting_run now tool step r"
  have w: "ag_status ?w = RunStatusWaitingUser" "ag_pending_tool_call_id ?w = Some tool"
    "ag_pending_step_id ?w = Some step"
    by (simp_all add: waiting_run_def)
  note refused = agent_mem.resume_refused [OF assms(1) ask(2) v1]
  obtain now' x y s2 where res: "ResumeToolCall svc run tool answer s1 =
      (Inr (finished_run RunStatusRunning now' ?w), s2)" "sys_ok agent_memory_inv s2"
    and v2: "memory_view (sy_repo s2) run =
      Some (finished_run RunStatusRunning now' ?w, (event_log s run @ [e]) @ [x, y])"
    and xy: "map ev_type [x, y] = [EventToolResult, EventToolFinished]"
      "\<forall>z \<in> {x, y}. ev_tool_call_id z = tool \<and> ev_step_id z = step"
    using agent_mem.resume_effect [OF assms(1) ask(2) v1 w] by fastforce
  have restored: "finished_run RunStatusRunning now' ?w = r\<lparr>ag_updated_at := now'\<rparr>"
    using assms(4-6) by (cases r) (simp add: finished_run_def waiting_run_def)
  have again: "ResumeToolCall svc run tool answer s2 = (Inl ErrRunNotWaitingForUser, s2)"
    using agent_mem.resume_refused(1) [OF assms(1) res(2) v2] by (simp add: finished_run_def)
  have cur: "current_run s1 run = Some ?w" "current_run s2 run = Some (r\<lparr>ag_updated_at := now'\<rparr>)"
    and log: "event_log s2 run = event_log s run @ [e, x, y]"
    using v1 v2 unfolding view_current restored by (simp_all, metis append.assoc append_Cons append_Nil)
  from xy have xy': "ev_type x = EventToolResult" "ev_type y = EventToolFinished"
    "ev_tool_call_id x = tool" "ev_tool_call_id y = tool" "ev_step_id x = step" "ev_step_id y = step"
    by simp_all
  show ?thesis
    using ask(1) cur w(1) refused(2) [OF w(1,2), of other answer] assms(8) res(1) e xy' again
    by (intro exI [of _ ?w] exI [of _ e] exI [of _ s1] exI [of _ now'] exI [of _ s2])
      (simp add: log restored)
qed

text \<open>
  Cancelling wins every race: once a run is cancelled, a goroutine that completes or fails it
  with a stale copy gets the cancelled run back and changes neither the run nor its log, and
  recording an event with the stale copy fails.
\<close>

theorem cancelling_wins:
  assumes "sv_repository svc = agent_memory_repo" and "sys_ok agent_memory_inv s"
    and "current_run s (ag_id stale) = Some r" and "ag_status r = RunStatusCancelled"
  shows "\<exists>s1 s2 s3. CompleteRun svc stale s = (Inr r, s1) \<and> FailRun svc stale cause s = (Inr r, s2) \<and>
    RecordEvent svc stale event s = (Inl (AppendEventFailed ErrRunCancelled), s3) \<and>
    (\<forall>s' \<in> {s1, s2, s3}. current_run s' (ag_id stale) = Some r \<and>
      event_log s' (ag_id stale) = event_log s (ag_id stale))"
proof -
  have v: "memory_view (sy_repo s) (ag_id stale) = Some (r, event_log s (ag_id stale))"
    using assms(3) by (simp add: view_current)
  have "\<exists>s'. finish_with svc status ev stale s = (Inr r, s') \<and>
      memory_view (sy_repo s') = memory_view (sy_repo s)" for status ev
    using agent_mem.finish_effect(1) [OF assms(1,2) v assms(4)] by blast
  then obtain s1 s2 where f: "CompleteRun svc stale s = (Inr r, s1)" "FailRun svc stale cause s = (Inr r, s2)"
    "memory_view (sy_repo s1) = memory_view (sy_repo s)" "memory_view (sy_repo s2) = memory_view (sy_repo s)"
    unfolding CompleteRun_def FailRun_def by metis
  obtain s3 where "RecordEvent svc stale event s = (Inl (AppendEventFailed ErrRunCancelled), s3)"
    and g: "memory_view (sy_repo s3) = memory_view (sy_repo s)"
    using agent_mem.appendEvent_effect [OF assms(1,2) v, of event] assms(4)
    by (auto simp: RecordEvent_def)
  with f(1,2) same_view [OF f(3) assms(3)] same_view [OF f(4) assms(3)] same_view [OF g assms(3)]
  show ?thesis by (intro exI [of _ s1] exI [of _ s2] exI [of _ s3]) simp
qed

subsection \<open>Streams\<close>

lemma stream_writes_segment:
  assumes "sv_repository svc = agent_memory_repo" and "sys_ok agent_memory_inv s"
    and "current_run s run = Some r" and "0 \<le> after_seq"
    and "world_trace svc \<lparr>sw_sys = s, sw_owed = [], sw_stream = open_stream run after_seq\<rparr> w"
  shows "es_written (sw_stream w) = map clone_payload
    (take (nat (es_last_seq (sw_stream w) - after_seq)) (drop (nat after_seq) (event_log (sw_sys w) run)))"
proof -
  have v: "memory_view (sy_repo s) run = Some (r, event_log s run)"
    using assms(3) by (simp add: view_current)
  have "world_inv agent_memory_inv memory_view w"
    using agent_mem.world_trace_inv [OF assms(1,5) agent_mem.open_stream_inv [OF assms(2) v assms(4)]] .
  moreover have "es_run_id (sw_stream w) = run" "es_after_seq (sw_stream w) = after_seq"
    using world_trace_run_id [OF assms(5)] by (simp_all add: open_stream_def)
  ultimately show ?thesis
    by (auto simp: world_inv_def view_current stream_data_def Let_def)
qed

text \<open>
  C33. A stream never loses, repeats or reorders an event: at every moment what it has written is
  the part of the log from the client's number up to the last event written, one copy each.
\<close>

theorem stream_writes_log_segment:
  assumes "sv_repository svc = agent_memory_repo" and "sys_ok agent_memory_inv s"
    and "current_run s run = Some r" and "0 \<le> after_seq"
    and "world_trace svc \<lparr>sw_sys = s, sw_owed = [], sw_stream = open_stream run after_seq\<rparr> w"
  shows "es_written (sw_stream w) = map clone_payload
    (take (nat (es_last_seq (sw_stream w) - after_seq)) (drop (nat after_seq) (event_log (sw_sys w) run)))"
  by (rule stream_writes_segment [OF assms])

text \<open>
  C12. No wake-up is lost: when the handler waits, no token is in its channel, and no goroutine
  is between appending an event of the run and publishing it, then the client has every event
  of the log after its number. (Subscribing before the first read is what makes this true.)
\<close>

theorem stream_no_lost_wakeup:
  assumes "sv_repository svc = agent_memory_repo" and "sys_ok agent_memory_inv s"
    and "current_run s run = Some r" and "0 \<le> after_seq"
    and "world_trace svc \<lparr>sw_sys = s, sw_owed = [], sw_stream = open_stream run after_seq\<rparr> w"
    and "es_pc (sw_stream w) = StreamBlocked" and "run \<notin> set (sw_owed w)"
    and "\<not> has_token (sy_broker (sw_sys w)) (es_subscription (sw_stream w))"
  shows "es_written (sw_stream w) = map clone_payload (drop (nat after_seq) (event_log (sw_sys w) run))"
proof -
  have v: "memory_view (sy_repo s) run = Some (r, event_log s run)"
    using assms(3) by (simp add: view_current)
  have "world_inv agent_memory_inv memory_view w"
    using agent_mem.world_trace_inv [OF assms(1,5) agent_mem.open_stream_inv [OF assms(2) v assms(4)]] .
  moreover have id: "es_run_id (sw_stream w) = run" "es_after_seq (sw_stream w) = after_seq"
    using world_trace_run_id [OF assms(5)] by (simp_all add: open_stream_def)
  ultimately have "int (length (event_log (sw_sys w) run)) \<le> es_last_seq (sw_stream w)"
    using assms(6-8) by (auto simp: world_inv_def view_current stream_alert_def)
  then show ?thesis
    using stream_writes_segment [OF assms(1-5)] by simp
qed

text \<open>
  The stream of a cancelled run is complete: when the handler returns because it saw the run
  cancelled, it has written the whole log from the client's number on, the event
  \<open>run.cancelled\<close> included, and nothing will be added, since cancelling a run and appending this
  event are one call of the repository.
\<close>

theorem stream_of_cancelled_run_complete:
  assumes "sv_repository svc = agent_memory_repo" and "sys_ok agent_memory_inv s"
    and "current_run s run = Some r" and "0 \<le> after_seq"
    and "world_trace svc \<lparr>sw_sys = s, sw_owed = [], sw_stream = open_stream run after_seq\<rparr> w"
    and "es_pc (sw_stream w) = StreamReturned RunStatusCancelled"
    and "sys_trace svc (sw_sys w) s'"
  shows "event_log s' run = event_log (sw_sys w) run \<and>
    es_written (sw_stream w) = map clone_payload (drop (nat after_seq) (event_log s' run))"
proof -
  have v: "memory_view (sy_repo s) run = Some (r, event_log s run)"
    using assms(3) by (simp add: view_current)
  have inv: "world_inv agent_memory_inv memory_view w"
    using agent_mem.world_trace_inv [OF assms(1,5) agent_mem.open_stream_inv [OF assms(2) v assms(4)]] .
  moreover have id: "es_run_id (sw_stream w) = run" "es_after_seq (sw_stream w) = after_seq"
    using world_trace_run_id [OF assms(5)] by (simp_all add: open_stream_def)
  ultimately obtain r' where r': "memory_view (sy_repo (sw_sys w)) run = Some (r', event_log (sw_sys w) run)"
    "ag_status r' = RunStatusCancelled"
    "int (length (event_log (sw_sys w) run)) \<le> es_last_seq (sw_stream w)"
    using assms(6) by (auto simp: world_inv_def view_current)
  have "sys_ok agent_memory_inv (sw_sys w)" using inv by (simp add: world_inv_def)
  from agent_mem.trace_grows [OF assms(1) this assms(7) r'(1)] r'(2)
  have "event_log s' run = event_log (sw_sys w) run" by (auto simp: view_current)
  then show ?thesis
    using stream_writes_segment [OF assms(1-5)] r'(3) by simp
qed


subsection \<open>A system to try the properties on\<close>

definition sample_service :: "agent_memory agent_service" where
  "sample_service = \<lparr>sv_repository = agent_memory_repo, sv_now = int,
     sv_newID = (\<lambda>n prefix. prefix @ ''_'' @ itoa (int n))\<rparr>"

definition started :: "agent_memory agent_sys" where
  "started = snd (StartOwnedProjectRun sample_service 1 ''c1'' 0 ''Test the login'' new_system)"

definition sample_run :: AgentRun where
  "sample_run = \<lparr>ag_id = ''run_0'', ag_actor_user_id = 1, ag_conversation_id = ''c1'',
     ag_project_id = 0, ag_status = RunStatusRunning, ag_input = ''Test the login'',
     ag_pending_tool_call_id = None, ag_pending_step_id = None, ag_latest_generation_id = None,
     ag_approved_generation_id = None,
     ag_transcript = [zero_Message\<lparr>ms_role := ''user'', ms_content := ''Test the login''\<rparr>],
     ag_created_at = 0, ag_updated_at = 0\<rparr>"

definition sample_questions :: "Question list option" where
  "sample_questions = Some [\<lparr>qn_id = ''q1'', qn_prompt = ''Which page?'', qn_type = QuestionText,
     qn_required = True, qn_options = []\<rparr>]"

definition stopped :: "agent_memory agent_sys" where
  "stopped = snd (CancelRun sample_service ''run_0'' ''not needed'' started)"

lemma sample_repository: "sv_repository sample_service = agent_memory_repo"
  by (simp add: sample_service_def)

lemma started_run: "current_run started ''run_0'' = Some sample_run"
  by code_simp

lemma started_trace: "sys_trace sample_service new_system started"
  unfolding started_def
  by (rule StartOwnedProjectRun_calls)
    (simp add: sample_service_def new_system_def NewAgentMemory_def agent_memory_repo_def amem_GetRun_def)

lemma started_ok: "sys_ok agent_memory_inv started"
  by (rule agent_mem.trace_ok [OF sample_repository new_system_ok started_trace])

lemma stopped_run: "current_run stopped ''run_0'' = Some (cancelled_run 2 sample_run)"
  by code_simp

lemma stopped_trace: "sys_trace sample_service started stopped"
  unfolding stopped_def by (rule made_of_callsD [OF CancelRun_calls])

lemma stopped_ok: "sys_ok agent_memory_inv stopped"
  by (rule agent_mem.trace_ok [OF sample_repository started_ok stopped_trace])

theorem event_logs_numbered_witness:
  "ev_seq (event_log started ''run_0'' ! 0) = 1 \<and> Publish ''run_0'' (sy_broker started) \<noteq> None"
proof -
  have "length (event_log started ''run_0'') = 1" by code_simp
  with event_logs_numbered [OF sample_repository started_trace, of "''run_0''"] show ?thesis by simp
qed

theorem cancelled_run_is_frozen_witness:
  "event_log (snd (CompleteRun sample_service sample_run stopped)) ''run_0'' = event_log stopped ''run_0''"
proof -
  have "sys_trace sample_service stopped (snd (CompleteRun sample_service sample_run stopped))"
    unfolding CompleteRun_def by (rule made_of_callsD [OF finish_with_calls])
  from cancelled_run_is_frozen [OF sample_repository stopped_ok this stopped_run] show ?thesis by simp
qed

theorem polling_sees_each_event_once_witness:
  "\<exists>es es'. ListEvents sample_service ''run_0'' 0 stopped = (Inr (es @ es'), stopped) \<and>
    map ev_type es = [EventRunStarted] \<and> map ev_type es' = [EventRunCancelled]"
proof -
  let ?es = "map clone_payload (event_log started ''run_0'')"
  have "fst (ListEvents sample_service ''run_0'' 0 started) = Inr ?es" by code_simp
  then have l: "ListEvents sample_service ''run_0'' 0 started = (Inr ?es, started)"
    by (simp add: ListEvents_def reading_def)
  have ne: "?es \<noteq> []" and types: "map ev_type ?es = [EventRunStarted]" and last: "ev_seq (last ?es) = 1"
    by code_simp+
  obtain es' where l': "fst (ListEvents sample_service ''run_0'' 1 stopped) = Inr es'"
    and t': "map ev_type es' = [EventRunCancelled]"
  proof -
    have "(case fst (ListEvents sample_service ''run_0'' 1 stopped) of Inl _ \<Rightarrow> False
      | Inr es' \<Rightarrow> map ev_type es' = [EventRunCancelled])" by code_simp
    then show ?thesis using that by (auto split: sum.splits)
  qed
  then have "ListEvents sample_service ''run_0'' (if ?es = [] then 0 else ev_seq (last ?es)) stopped =
      (Inr es', stopped)"
    using ne last by (simp add: ListEvents_def reading_def)
  from polling_sees_each_event_once [OF sample_repository started_ok stopped_trace _ l this] types t'
  show ?thesis by (intro exI [of _ ?es] exI [of _ es']) simp
qed

theorem operations_are_calls_witness:
  "sys_trace sample_service new_system (snd (StartOwnedProjectRun sample_service 1 ''c1'' 0 ''hello'' new_system))"
  by (rule conjunct1 [OF operations_are_calls])
    (simp add: sample_service_def new_system_def NewAgentMemory_def agent_memory_repo_def amem_GetRun_def)

theorem ask_and_resume_witness:
  "\<exists>w e s1 s2. RequestUserInputForCall sample_service ''run_0'' ''t1'' ''st1'' sample_questions started = (Inr (w, e), s1) \<and>
    map (\<lambda>e. (ev_type e, ev_tool_call_id e, ev_step_id e))
      (drop (length (event_log started ''run_0'')) (event_log s2 ''run_0'')) =
      [(EventToolPending, ''t1'', ''st1''), (EventToolResult, ''t1'', ''st1''),
       (EventToolFinished, ''t1'', ''st1'')]"
proof -
  have q: "validateQuestions sample_questions = None" by code_simp
  have f: "ag_status sample_run = RunStatusRunning" "ag_pending_tool_call_id sample_run = None"
    "ag_pending_step_id sample_run = None" "''t2'' \<noteq> ''t1''"
    by (simp_all add: sample_run_def)
  from ask_and_resume [OF sample_repository started_ok started_run f(1-3) q f(4),
      of "''st1''" "\<lparr>rt_answers = None, rt_next_step = []\<rparr>"]
  show ?thesis by (elim exE conjE) (intro exI conjI, assumption+)
qed

theorem cancelling_wins_witness:
  "\<exists>s1. CompleteRun sample_service sample_run stopped = (Inr (cancelled_run 2 sample_run), s1) \<and>
    event_log s1 ''run_0'' = event_log stopped ''run_0''"
proof -
  have r: "current_run stopped (ag_id sample_run) = Some (cancelled_run 2 sample_run)"
    using stopped_run by (simp add: sample_run_def)
  have i: "ag_id sample_run = ''run_0''" by (simp add: sample_run_def)
  from cancelling_wins [OF sample_repository stopped_ok r, of None "new_event EventRunFinished"] i
  show ?thesis by auto
qed


subsection \<open>Streams, tried out\<close>

text \<open>
  The handler as a function, for the runs below: the next step it takes, with the keep-alive
  timer firing when no token is there.
\<close>

definition stream_next ::
  "'s agent_service \<Rightarrow> event_stream \<Rightarrow> 's agent_sys \<Rightarrow> event_stream \<times> 's agent_sys" where
  "stream_next svc st s =
     (case es_pc st of
        StreamStart \<Rightarrow>
          (case Subscribe (es_run_id st) (sy_broker s) of (i, b) \<Rightarrow>
            (st\<lparr>es_subscription := i, es_pc := StreamSubscribed\<rparr>, s\<lparr>sy_broker := b\<rparr>))
      | StreamSubscribed \<Rightarrow>
          (case fst (ListEvents svc (es_run_id st) (es_after_seq st) s) of
             Inr listed \<Rightarrow> (st\<lparr>es_pc := StreamWriting listed ContinueLoop\<rparr>, s) | Inl _ \<Rightarrow> (st, s))
      | StreamWriting (e # rest) k \<Rightarrow>
          (st\<lparr>es_written := es_written st @ [e], es_last_seq := ev_seq e,
             es_pc := StreamWriting rest k\<rparr>, s)
      | StreamWriting [] ContinueLoop \<Rightarrow> (st\<lparr>es_pc := StreamChecking\<rparr>, s)
      | StreamWriting [] (ReturnAfter status) \<Rightarrow>
          (st\<lparr>es_pc := StreamReturned status\<rparr>,
           s\<lparr>sy_broker := CancelSubscription (es_subscription st) (sy_broker s)\<rparr>)
      | StreamChecking \<Rightarrow>
          (case fst (GetRun svc (es_run_id st) s) of
             Inr looked \<Rightarrow> (st\<lparr>es_pc := (if isTerminal (ag_status looked)
               then StreamDraining (ag_status looked) else StreamBlocked)\<rparr>, s) | Inl _ \<Rightarrow> (st, s))
      | StreamDraining status \<Rightarrow>
          (case fst (ListEvents svc (es_run_id st) (es_last_seq st) s) of
             Inr listed \<Rightarrow> (st\<lparr>es_pc := StreamWriting listed (ReturnAfter status)\<rparr>, s) | Inl _ \<Rightarrow> (st, s))
      | StreamBlocked \<Rightarrow>
          (case receive (es_subscription st) (sy_broker s) of
             Some (True, b) \<Rightarrow> (st\<lparr>es_pc := StreamWoken\<rparr>, s\<lparr>sy_broker := b\<rparr>)
           | _ \<Rightarrow> (st\<lparr>es_pc := StreamChecking\<rparr>, s))
      | StreamWoken \<Rightarrow>
          (case fst (ListEvents svc (es_run_id st) (es_last_seq st) s) of
             Inr listed \<Rightarrow> (st\<lparr>es_pc := StreamWriting listed ContinueLoop\<rparr>, s) | Inl _ \<Rightarrow> (st, s))
      | _ \<Rightarrow> (st, s))"

lemma reading_pair:
  "fst (ListEvents svc run k s) = Inr l \<Longrightarrow> ListEvents svc run k s = (Inr l, s)"
  "fst (GetRun svc run s) = Inr r \<Longrightarrow> GetRun svc run s = (Inr r, s)"
  by (auto simp: ListEvents_def GetRun_def reading_def stop_with_def split: if_splits)

lemma stream_next_step: "stream_next svc st s = (st, s) \<or>
    stream_step svc st s (fst (stream_next svc st s)) (snd (stream_next svc st s))"
proof (cases "es_pc st")
  case (StreamWriting evs k)
  then show ?thesis
    by (cases evs; cases k) (auto simp: stream_next_def intro: stream_step.intros)
next
  case StreamChecking
  then show ?thesis
    using stream_check [OF StreamChecking reading_pair(2), of svc s]
    by (cases "fst (GetRun svc (es_run_id st) s)") (auto simp: stream_next_def)
qed (auto simp: stream_next_def reading_pair intro: stream_step.intros
  split: prod.split sum.split option.split bool.split)

definition stream_turn :: "'s agent_service \<Rightarrow> 's stream_world \<Rightarrow> 's stream_world" where
  "stream_turn svc w = (case stream_next svc (sw_stream w) (sw_sys w) of
     (st, s) \<Rightarrow> w\<lparr>sw_stream := st, sw_sys := s\<rparr>)"

fun stream_turns :: "'s agent_service \<Rightarrow> nat \<Rightarrow> 's stream_world \<Rightarrow> 's stream_world" where
  "stream_turns svc 0 w = w"
| "stream_turns svc (Suc n) w = stream_turns svc n (stream_turn svc w)"

lemma world_trace_turns: "world_trace svc w (stream_turns svc n w)"
proof (induction n arbitrary: w)
  case 0
  then show ?case by (simp add: world_here)
next
  case (Suc n)
  consider "stream_turn svc w = w" | "world_step svc w (stream_turn svc w)"
    using stream_next_step [of svc "sw_stream w" "sw_sys w"]
    by (fastforce simp: stream_turn_def split: prod.splits intro: world_step.stream)
  then show ?case
  proof cases
    case 1
    then show ?thesis using Suc.IH by simp
  next
    case 2
    show ?thesis
      using world_trace_trans [OF world_further [OF world_here 2] Suc.IH] by simp
  qed
qed

definition watching :: "agent_memory agent_sys \<Rightarrow> agent_memory stream_world" where
  "watching s = \<lparr>sw_sys = s, sw_owed = [], sw_stream = open_stream ''run_0'' 0\<rparr>"

abbreviation turns :: "nat \<Rightarrow> agent_memory stream_world \<Rightarrow> agent_memory stream_world" where
  "turns \<equiv> stream_turns sample_service"

lemma watching_trace: "world_trace sample_service
    \<lparr>sw_sys = s, sw_owed = [], sw_stream = open_stream ''run_0'' 0\<rparr> (turns n (watching s))"
  using world_trace_turns [of sample_service "watching s"] by (simp add: watching_def)

theorem stream_writes_log_segment_witness:
  "map ev_type (es_written (sw_stream (turns 3 (watching stopped)))) = [EventRunStarted] \<and>
    es_written (sw_stream (turns 3 (watching stopped))) = map clone_payload
      (take (nat (es_last_seq (sw_stream (turns 3 (watching stopped))) - 0))
        (drop (nat 0) (event_log (sw_sys (turns 3 (watching stopped))) ''run_0'')))"
proof (rule conjI)
  show "map ev_type (es_written (sw_stream (turns 3 (watching stopped)))) = [EventRunStarted]"
    by code_simp
qed (rule stream_writes_log_segment [OF sample_repository stopped_ok stopped_run _ watching_trace], simp)

theorem stream_no_lost_wakeup_witness:
  "es_written (sw_stream (turns 5 (watching started))) =
     map clone_payload (drop (nat 0) (event_log (sw_sys (turns 5 (watching started))) ''run_0''))"
proof (rule stream_no_lost_wakeup [OF sample_repository started_ok started_run _ watching_trace])
  show "es_pc (sw_stream (turns 5 (watching started))) = StreamBlocked"
    by code_simp
  show "''run_0'' \<notin> set (sw_owed (turns 5 (watching started)))"
    by code_simp
  show "\<not> has_token (sy_broker (sw_sys (turns 5 (watching started))))
      (es_subscription (sw_stream (turns 5 (watching started))))"
    unfolding has_token_eq by code_simp
qed simp

theorem stream_of_cancelled_run_complete_witness:
  "event_log (sw_sys (turns 8 (watching stopped))) ''run_0'' =
      event_log (sw_sys (turns 8 (watching stopped))) ''run_0'' \<and>
    es_written (sw_stream (turns 8 (watching stopped))) =
      map clone_payload (drop (nat 0) (event_log (sw_sys (turns 8 (watching stopped))) ''run_0''))"
proof (rule stream_of_cancelled_run_complete
    [OF sample_repository stopped_ok stopped_run _ watching_trace _ here])
  show "es_pc (sw_stream (turns 8 (watching stopped))) = StreamReturned RunStatusCancelled"
    by code_simp
qed simp










end
