(* ===== verification/ToolSummary.thy ===== *)
theory ToolSummary
  imports JsonText
begin

section \<open>Summaries of tool results (internal/agent/tool_result.go)\<close>

text \<open>
  What the model sees of a tool result is a summary, a JSON text in a message of the transcript.
  The policy of the harness and the agent loop read these texts back. This theory has the
  structs of a summary, each with its decoder, and \<open>DecodeModelToolSummary\<close>.
\<close>

subsection \<open>The structs\<close>

record ToolResultSource =
  tsrc_event_seq :: int
  tsrc_content_sha256 :: string
  tsrc_content_bytes :: int

definition zero_ToolResultSource :: ToolResultSource where
  "zero_ToolResultSource = \<lparr>
     tsrc_event_seq = 0, tsrc_content_sha256 = [], tsrc_content_bytes = 0\<rparr>"

definition dec_ToolResultSource :: "ToolResultSource decoder" where
  "dec_ToolResultSource = dec_struct [
     (''event_seq'', fld dec_int tsrc_event_seq tsrc_event_seq_update),
     (''content_sha256'', fld dec_string tsrc_content_sha256 tsrc_content_sha256_update),
     (''content_bytes'', fld dec_int tsrc_content_bytes tsrc_content_bytes_update)]"

record ToolResultErrorSummary =
  ter_code :: string
  ter_message :: string
  ter_step_index :: "int option"
  ter_action_index :: "int option"
  ter_action :: string
  ter_target :: string

definition zero_ToolResultErrorSummary :: ToolResultErrorSummary where
  "zero_ToolResultErrorSummary = \<lparr>
     ter_code = [], ter_message = [], ter_step_index = None, ter_action_index = None,
     ter_action = [], ter_target = []\<rparr>"

definition dec_ToolResultErrorSummary :: "ToolResultErrorSummary decoder" where
  "dec_ToolResultErrorSummary = dec_struct [
     (''code'', fld dec_string ter_code ter_code_update),
     (''message'', fld dec_string ter_message ter_message_update),
     (''step_index'', fld (dec_ptr dec_int 0) ter_step_index ter_step_index_update),
     (''action_index'', fld (dec_ptr dec_int 0) ter_action_index ter_action_index_update),
     (''action'', fld dec_string ter_action ter_action_update),
     (''target'', fld dec_string ter_target ter_target_update)]"

record ToolResultContextSummary =
  tcx_execution_scope :: string
  tcx_state_persisted :: bool
  tcx_clean_context_requested :: bool
  tcx_storage_state_loaded :: bool
  tcx_planning_session_id :: int

definition zero_ToolResultContextSummary :: ToolResultContextSummary where
  "zero_ToolResultContextSummary = \<lparr>
     tcx_execution_scope = [], tcx_state_persisted = False, tcx_clean_context_requested = False,
     tcx_storage_state_loaded = False, tcx_planning_session_id = 0\<rparr>"

definition dec_ToolResultContextSummary :: "ToolResultContextSummary decoder" where
  "dec_ToolResultContextSummary = dec_struct [
     (''execution_scope'', fld dec_string tcx_execution_scope tcx_execution_scope_update),
     (''state_persisted'', fld dec_bool tcx_state_persisted tcx_state_persisted_update),
     (''clean_context_requested'', fld dec_bool tcx_clean_context_requested tcx_clean_context_requested_update),
     (''storage_state_loaded'', fld dec_bool tcx_storage_state_loaded tcx_storage_state_loaded_update),
     (''planning_session_id'', fld dec_int tcx_planning_session_id tcx_planning_session_id_update)]"

record ObservedPageState =
  ops_page_state :: string
  ops_page_kind :: string
  ops_url :: string
  ops_status :: string
  ops_revision :: int
  ops_element_count :: int

definition zero_ObservedPageState :: ObservedPageState where
  "zero_ObservedPageState = \<lparr>
     ops_page_state = [], ops_page_kind = [], ops_url = [], ops_status = [], ops_revision = 0,
     ops_element_count = 0\<rparr>"

definition dec_ObservedPageState :: "ObservedPageState decoder" where
  "dec_ObservedPageState = dec_struct [
     (''page_state'', fld dec_string ops_page_state ops_page_state_update),
     (''page_kind'', fld dec_string ops_page_kind ops_page_kind_update),
     (''url'', fld dec_string ops_url ops_url_update),
     (''status'', fld dec_string ops_status ops_status_update),
     (''revision'', fld dec_int ops_revision ops_revision_update),
     (''element_count'', fld dec_int ops_element_count ops_element_count_update)]"

record ObservedElementGroup =
  oeg_page_state :: string
  oeg_category :: string
  oeg_count :: int
  oeg_verified_count :: int
  oeg_representative :: "string list"

definition zero_ObservedElementGroup :: ObservedElementGroup where
  "zero_ObservedElementGroup = \<lparr>
     oeg_page_state = [], oeg_category = [], oeg_count = 0, oeg_verified_count = 0,
     oeg_representative = []\<rparr>"

definition dec_ObservedElementGroup :: "ObservedElementGroup decoder" where
  "dec_ObservedElementGroup = dec_struct [
     (''page_state'', fld dec_string oeg_page_state oeg_page_state_update),
     (''category'', fld dec_string oeg_category oeg_category_update),
     (''count'', fld dec_int oeg_count oeg_count_update),
     (''verified_count'', fld dec_int oeg_verified_count oeg_verified_count_update),
     (''representative'', fld (dec_list dec_string []) oeg_representative oeg_representative_update)]"

record ObservedCandidateCoverage =
  occ_page_state :: string
  occ_category :: string
  occ_label :: string
  occ_role :: string
  occ_selector_count :: int
  occ_primary_selector :: string
  occ_source :: string
  occ_executable :: bool
  occ_ambiguous_count :: int

definition zero_ObservedCandidateCoverage :: ObservedCandidateCoverage where
  "zero_ObservedCandidateCoverage = \<lparr>
     occ_page_state = [], occ_category = [], occ_label = [], occ_role = [],
     occ_selector_count = 0, occ_primary_selector = [], occ_source = [], occ_executable = False,
     occ_ambiguous_count = 0\<rparr>"

definition dec_ObservedCandidateCoverage :: "ObservedCandidateCoverage decoder" where
  "dec_ObservedCandidateCoverage = dec_struct [
     (''page_state'', fld dec_string occ_page_state occ_page_state_update),
     (''category'', fld dec_string occ_category occ_category_update),
     (''label'', fld dec_string occ_label occ_label_update),
     (''role'', fld dec_string occ_role occ_role_update),
     (''selector_count'', fld dec_int occ_selector_count occ_selector_count_update),
     (''primary_selector'', fld dec_string occ_primary_selector occ_primary_selector_update),
     (''source'', fld dec_string occ_source occ_source_update),
     (''executable'', fld dec_bool occ_executable occ_executable_update),
     (''ambiguous_count'', fld dec_int occ_ambiguous_count occ_ambiguous_count_update)]"

record ObservedActionOption =
  oao_page_state :: string
  oao_url :: string
  oao_action :: string
  oao_target :: string
  oao_status :: string
  oao_evidence_count :: int
  oao_side_effect :: string
  oao_idempotency_hint :: string

definition zero_ObservedActionOption :: ObservedActionOption where
  "zero_ObservedActionOption = \<lparr>
     oao_page_state = [], oao_url = [], oao_action = [], oao_target = [], oao_status = [],
     oao_evidence_count = 0, oao_side_effect = [], oao_idempotency_hint = []\<rparr>"

definition dec_ObservedActionOption :: "ObservedActionOption decoder" where
  "dec_ObservedActionOption = dec_struct [
     (''page_state'', fld dec_string oao_page_state oao_page_state_update),
     (''url'', fld dec_string oao_url oao_url_update),
     (''action'', fld dec_string oao_action oao_action_update),
     (''target'', fld dec_string oao_target oao_target_update),
     (''status'', fld dec_string oao_status oao_status_update),
     (''evidence_count'', fld dec_int oao_evidence_count oao_evidence_count_update),
     (''side_effect'', fld dec_string oao_side_effect oao_side_effect_update),
     (''idempotency_hint'', fld dec_string oao_idempotency_hint oao_idempotency_hint_update)]"

record ObservedVerificationFact =
  ovf_page_state :: string
  ovf_kind :: string
  ovf_label :: string
  ovf_selector :: string
  ovf_source :: string

definition zero_ObservedVerificationFact :: ObservedVerificationFact where
  "zero_ObservedVerificationFact = \<lparr>
     ovf_page_state = [], ovf_kind = [], ovf_label = [], ovf_selector = [], ovf_source = []\<rparr>"

definition dec_ObservedVerificationFact :: "ObservedVerificationFact decoder" where
  "dec_ObservedVerificationFact = dec_struct [
     (''page_state'', fld dec_string ovf_page_state ovf_page_state_update),
     (''kind'', fld dec_string ovf_kind ovf_kind_update),
     (''label'', fld dec_string ovf_label ovf_label_update),
     (''selector'', fld dec_string ovf_selector ovf_selector_update),
     (''source'', fld dec_string ovf_source ovf_source_update)]"

record ObservedRecoveryHint =
  orh_category :: string
  orh_reason :: string
  orh_action :: string

definition zero_ObservedRecoveryHint :: ObservedRecoveryHint where
  "zero_ObservedRecoveryHint = \<lparr>
     orh_category = [], orh_reason = [], orh_action = []\<rparr>"

definition dec_ObservedRecoveryHint :: "ObservedRecoveryHint decoder" where
  "dec_ObservedRecoveryHint = dec_struct [
     (''category'', fld dec_string orh_category orh_category_update),
     (''reason'', fld dec_string orh_reason orh_reason_update),
     (''action'', fld dec_string orh_action orh_action_update)]"

record ToolResultCandidateRefSummary =
  tcr_schema_version :: string
  tcr_source_event_seq :: int
  tcr_probe_id :: string
  tcr_observation_id :: string
  tcr_candidate_id :: string

definition zero_ToolResultCandidateRefSummary :: ToolResultCandidateRefSummary where
  "zero_ToolResultCandidateRefSummary = \<lparr>
     tcr_schema_version = [], tcr_source_event_seq = 0, tcr_probe_id = [],
     tcr_observation_id = [], tcr_candidate_id = []\<rparr>"

definition dec_ToolResultCandidateRefSummary :: "ToolResultCandidateRefSummary decoder" where
  "dec_ToolResultCandidateRefSummary = dec_struct [
     (''schema_version'', fld dec_string tcr_schema_version tcr_schema_version_update),
     (''source_event_seq'', fld dec_int tcr_source_event_seq tcr_source_event_seq_update),
     (''probe_id'', fld dec_string tcr_probe_id tcr_probe_id_update),
     (''observation_id'', fld dec_string tcr_observation_id tcr_observation_id_update),
     (''candidate_id'', fld dec_string tcr_candidate_id tcr_candidate_id_update)]"

record ToolResultSelectableCandidate =
  tsc_page_state :: string
  tsc_category :: string
  tsc_role :: string
  tsc_name :: string
  tsc_strategy :: string
  tsc_selector :: string
  tsc_executable :: bool
  tsc_candidate_ref :: "ToolResultCandidateRefSummary option"

definition zero_ToolResultSelectableCandidate :: ToolResultSelectableCandidate where
  "zero_ToolResultSelectableCandidate = \<lparr>
     tsc_page_state = [], tsc_category = [], tsc_role = [], tsc_name = [], tsc_strategy = [],
     tsc_selector = [], tsc_executable = False, tsc_candidate_ref = None\<rparr>"

definition dec_ToolResultSelectableCandidate :: "ToolResultSelectableCandidate decoder" where
  "dec_ToolResultSelectableCandidate = dec_struct [
     (''page_state'', fld dec_string tsc_page_state tsc_page_state_update),
     (''category'', fld dec_string tsc_category tsc_category_update),
     (''role'', fld dec_string tsc_role tsc_role_update),
     (''name'', fld dec_string tsc_name tsc_name_update),
     (''strategy'', fld dec_string tsc_strategy tsc_strategy_update),
     (''selector'', fld dec_string tsc_selector tsc_selector_update),
     (''executable'', fld dec_bool tsc_executable tsc_executable_update),
     (''candidate_ref'', fld (dec_ptr dec_ToolResultCandidateRefSummary zero_ToolResultCandidateRefSummary) tsc_candidate_ref tsc_candidate_ref_update)]"

record StructuredObservation =
  sob_schema_version :: string
  sob_page_states :: "ObservedPageState list"
  sob_element_groups :: "ObservedElementGroup list"
  sob_candidate_coverage :: "ObservedCandidateCoverage list"
  sob_action_options :: "ObservedActionOption list"
  sob_verification_facts :: "ObservedVerificationFact list"
  sob_recovery_hints :: "ObservedRecoveryHint list"
  sob_selectable_candidates :: "ToolResultSelectableCandidate list"

definition zero_StructuredObservation :: StructuredObservation where
  "zero_StructuredObservation = \<lparr>
     sob_schema_version = [], sob_page_states = [], sob_element_groups = [],
     sob_candidate_coverage = [], sob_action_options = [], sob_verification_facts = [],
     sob_recovery_hints = [], sob_selectable_candidates = []\<rparr>"

definition dec_StructuredObservation :: "StructuredObservation decoder" where
  "dec_StructuredObservation = dec_struct [
     (''schema_version'', fld dec_string sob_schema_version sob_schema_version_update),
     (''page_states'', fld (dec_list dec_ObservedPageState zero_ObservedPageState) sob_page_states sob_page_states_update),
     (''element_groups'', fld (dec_list dec_ObservedElementGroup zero_ObservedElementGroup) sob_element_groups sob_element_groups_update),
     (''candidate_coverage'', fld (dec_list dec_ObservedCandidateCoverage zero_ObservedCandidateCoverage) sob_candidate_coverage sob_candidate_coverage_update),
     (''action_options'', fld (dec_list dec_ObservedActionOption zero_ObservedActionOption) sob_action_options sob_action_options_update),
     (''verification_facts'', fld (dec_list dec_ObservedVerificationFact zero_ObservedVerificationFact) sob_verification_facts sob_verification_facts_update),
     (''recovery_hints'', fld (dec_list dec_ObservedRecoveryHint zero_ObservedRecoveryHint) sob_recovery_hints sob_recovery_hints_update),
     (''selectable_candidates'', fld (dec_list dec_ToolResultSelectableCandidate zero_ToolResultSelectableCandidate) sob_selectable_candidates sob_selectable_candidates_update)]"

record ToolResultLineageSummary =
  tli_probe_id :: string
  tli_observation_id :: string
  tli_observation_sha256 :: string
  tli_page_state_id :: string
  tli_target_binding_id :: string
  tli_selected_candidate_id :: string
  tli_element_refs :: "string list"

definition zero_ToolResultLineageSummary :: ToolResultLineageSummary where
  "zero_ToolResultLineageSummary = \<lparr>
     tli_probe_id = [], tli_observation_id = [], tli_observation_sha256 = [],
     tli_page_state_id = [], tli_target_binding_id = [], tli_selected_candidate_id = [],
     tli_element_refs = []\<rparr>"

definition dec_ToolResultLineageSummary :: "ToolResultLineageSummary decoder" where
  "dec_ToolResultLineageSummary = dec_struct [
     (''probe_id'', fld dec_string tli_probe_id tli_probe_id_update),
     (''observation_id'', fld dec_string tli_observation_id tli_observation_id_update),
     (''observation_sha256'', fld dec_string tli_observation_sha256 tli_observation_sha256_update),
     (''page_state_id'', fld dec_string tli_page_state_id tli_page_state_id_update),
     (''target_binding_id'', fld dec_string tli_target_binding_id tli_target_binding_id_update),
     (''selected_candidate_id'', fld dec_string tli_selected_candidate_id tli_selected_candidate_id_update),
     (''element_refs'', fld (dec_list dec_string []) tli_element_refs tli_element_refs_update)]"

record ToolResultBudgetCounter =
  tbc_used :: int
  tbc_limit :: int
  tbc_remaining :: int

definition zero_ToolResultBudgetCounter :: ToolResultBudgetCounter where
  "zero_ToolResultBudgetCounter = \<lparr>
     tbc_used = 0, tbc_limit = 0, tbc_remaining = 0\<rparr>"

definition dec_ToolResultBudgetCounter :: "ToolResultBudgetCounter decoder" where
  "dec_ToolResultBudgetCounter = dec_struct [
     (''used'', fld dec_int tbc_used tbc_used_update),
     (''limit'', fld dec_int tbc_limit tbc_limit_update),
     (''remaining'', fld dec_int tbc_remaining tbc_remaining_update)]"

record ToolResultExplorationBudgetSummary =
  teb_scope :: string
  teb_plan_id :: string
  teb_plan_version :: int
  teb_explore_page :: ToolResultBudgetCounter
  teb_explore_flow :: ToolResultBudgetCounter
  teb_run_explore_page :: ToolResultBudgetCounter
  teb_run_explore_flow :: ToolResultBudgetCounter
  teb_repeated_explore_page_signature_limit :: int
  teb_repeated_explore_flow_signature_limit :: int
  teb_current_tool :: string
  teb_current_signature_uses :: "int option"
  teb_current_signature_remaining :: "int option"
  teb_current_signature_fingerprint :: string

definition zero_ToolResultExplorationBudgetSummary :: ToolResultExplorationBudgetSummary where
  "zero_ToolResultExplorationBudgetSummary = \<lparr>
     teb_scope = [], teb_plan_id = [], teb_plan_version = 0,
     teb_explore_page = zero_ToolResultBudgetCounter,
     teb_explore_flow = zero_ToolResultBudgetCounter,
     teb_run_explore_page = zero_ToolResultBudgetCounter,
     teb_run_explore_flow = zero_ToolResultBudgetCounter,
     teb_repeated_explore_page_signature_limit = 0, teb_repeated_explore_flow_signature_limit = 0,
     teb_current_tool = [], teb_current_signature_uses = None,
     teb_current_signature_remaining = None, teb_current_signature_fingerprint = []\<rparr>"

definition dec_ToolResultExplorationBudgetSummary :: "ToolResultExplorationBudgetSummary decoder" where
  "dec_ToolResultExplorationBudgetSummary = dec_struct [
     (''scope'', fld dec_string teb_scope teb_scope_update),
     (''plan_id'', fld dec_string teb_plan_id teb_plan_id_update),
     (''plan_version'', fld dec_int teb_plan_version teb_plan_version_update),
     (''explore_page'', fld dec_ToolResultBudgetCounter teb_explore_page teb_explore_page_update),
     (''explore_flow'', fld dec_ToolResultBudgetCounter teb_explore_flow teb_explore_flow_update),
     (''run_explore_page'', fld dec_ToolResultBudgetCounter teb_run_explore_page teb_run_explore_page_update),
     (''run_explore_flow'', fld dec_ToolResultBudgetCounter teb_run_explore_flow teb_run_explore_flow_update),
     (''repeated_explore_page_signature_limit'', fld dec_int teb_repeated_explore_page_signature_limit teb_repeated_explore_page_signature_limit_update),
     (''repeated_explore_flow_signature_limit'', fld dec_int teb_repeated_explore_flow_signature_limit teb_repeated_explore_flow_signature_limit_update),
     (''current_tool'', fld dec_string teb_current_tool teb_current_tool_update),
     (''current_signature_uses'', fld (dec_ptr dec_int 0) teb_current_signature_uses teb_current_signature_uses_update),
     (''current_signature_remaining'', fld (dec_ptr dec_int 0) teb_current_signature_remaining teb_current_signature_remaining_update),
     (''current_signature_fingerprint'', fld dec_string teb_current_signature_fingerprint teb_current_signature_fingerprint_update)]"

record ToolResultTaskPlanSummary =
  ttp_plan_id :: string
  ttp_version :: int
  ttp_plan_sha256 :: string
  ttp_status :: string
  ttp_step_ids :: "string list"
  ttp_grounded_step_ids :: "string list"
  ttp_pending_step_ids :: "string list"
  ttp_step_bindings :: "(string \<times> string) list"
  ttp_step_lineage :: "(string \<times> ToolResultLineageSummary) list"
  ttp_exploration_budget :: "ToolResultExplorationBudgetSummary option"

definition zero_ToolResultTaskPlanSummary :: ToolResultTaskPlanSummary where
  "zero_ToolResultTaskPlanSummary = \<lparr>
     ttp_plan_id = [], ttp_version = 0, ttp_plan_sha256 = [], ttp_status = [], ttp_step_ids = [],
     ttp_grounded_step_ids = [], ttp_pending_step_ids = [], ttp_step_bindings = [],
     ttp_step_lineage = [], ttp_exploration_budget = None\<rparr>"

definition dec_ToolResultTaskPlanSummary :: "ToolResultTaskPlanSummary decoder" where
  "dec_ToolResultTaskPlanSummary = dec_struct [
     (''plan_id'', fld dec_string ttp_plan_id ttp_plan_id_update),
     (''version'', fld dec_int ttp_version ttp_version_update),
     (''plan_sha256'', fld dec_string ttp_plan_sha256 ttp_plan_sha256_update),
     (''status'', fld dec_string ttp_status ttp_status_update),
     (''step_ids'', fld (dec_list dec_string []) ttp_step_ids ttp_step_ids_update),
     (''grounded_step_ids'', fld (dec_list dec_string []) ttp_grounded_step_ids ttp_grounded_step_ids_update),
     (''pending_step_ids'', fld (dec_list dec_string []) ttp_pending_step_ids ttp_pending_step_ids_update),
     (''step_bindings'', fld (dec_map dec_string []) ttp_step_bindings ttp_step_bindings_update),
     (''step_lineage'', fld (dec_map dec_ToolResultLineageSummary zero_ToolResultLineageSummary) ttp_step_lineage ttp_step_lineage_update),
     (''exploration_budget'', fld (dec_ptr dec_ToolResultExplorationBudgetSummary zero_ToolResultExplorationBudgetSummary) ttp_exploration_budget ttp_exploration_budget_update)]"

record ToolResultDSLSummary =
  tds_generation_id :: json
  tds_profile :: string
  tds_case_name :: string
  tds_step_count :: int
  tds_actions :: "string list"
  tds_targets :: "string list"
  tds_plan_id :: string
  tds_plan_version :: int
  tds_plan_sha256 :: string

definition zero_ToolResultDSLSummary :: ToolResultDSLSummary where
  "zero_ToolResultDSLSummary = \<lparr>
     tds_generation_id = JNull, tds_profile = [], tds_case_name = [], tds_step_count = 0,
     tds_actions = [], tds_targets = [], tds_plan_id = [], tds_plan_version = 0,
     tds_plan_sha256 = []\<rparr>"

definition dec_ToolResultDSLSummary :: "ToolResultDSLSummary decoder" where
  "dec_ToolResultDSLSummary = dec_struct [
     (''generation_id'', fld dec_any tds_generation_id tds_generation_id_update),
     (''profile'', fld dec_string tds_profile tds_profile_update),
     (''case_name'', fld dec_string tds_case_name tds_case_name_update),
     (''step_count'', fld dec_int tds_step_count tds_step_count_update),
     (''actions'', fld (dec_list dec_string []) tds_actions tds_actions_update),
     (''targets'', fld (dec_list dec_string []) tds_targets tds_targets_update),
     (''plan_id'', fld dec_string tds_plan_id tds_plan_id_update),
     (''plan_version'', fld dec_int tds_plan_version tds_plan_version_update),
     (''plan_sha256'', fld dec_string tds_plan_sha256 tds_plan_sha256_update)]"

record ToolResultExecutionSummary =
  tex_batch_id :: json
  tex_case_id :: json
  tex_status :: string
  tex_report_api_url :: string

definition zero_ToolResultExecutionSummary :: ToolResultExecutionSummary where
  "zero_ToolResultExecutionSummary = \<lparr>
     tex_batch_id = JNull, tex_case_id = JNull, tex_status = [], tex_report_api_url = []\<rparr>"

definition dec_ToolResultExecutionSummary :: "ToolResultExecutionSummary decoder" where
  "dec_ToolResultExecutionSummary = dec_struct [
     (''batch_id'', fld dec_any tex_batch_id tex_batch_id_update),
     (''case_id'', fld dec_any tex_case_id tex_case_id_update),
     (''status'', fld dec_string tex_status tex_status_update),
     (''report_api_url'', fld dec_string tex_report_api_url tex_report_api_url_update)]"

record ToolResultCaseResult =
  tcs_case_id :: json
  tcs_case_name :: string
  tcs_status :: string
  tcs_passed_steps :: int
  tcs_total_steps :: int
  tcs_failure_summary :: string

definition zero_ToolResultCaseResult :: ToolResultCaseResult where
  "zero_ToolResultCaseResult = \<lparr>
     tcs_case_id = JNull, tcs_case_name = [], tcs_status = [], tcs_passed_steps = 0,
     tcs_total_steps = 0, tcs_failure_summary = []\<rparr>"

definition dec_ToolResultCaseResult :: "ToolResultCaseResult decoder" where
  "dec_ToolResultCaseResult = dec_struct [
     (''case_id'', fld dec_any tcs_case_id tcs_case_id_update),
     (''case_name'', fld dec_string tcs_case_name tcs_case_name_update),
     (''status'', fld dec_string tcs_status tcs_status_update),
     (''passed_steps'', fld dec_int tcs_passed_steps tcs_passed_steps_update),
     (''total_steps'', fld dec_int tcs_total_steps tcs_total_steps_update),
     (''failure_summary'', fld dec_string tcs_failure_summary tcs_failure_summary_update)]"

record ToolResultFailureBrief =
  tfb_category :: string
  tfb_stage :: string
  tfb_code :: string
  tfb_title :: string
  tfb_retryable :: "bool option"
  tfb_side_effect_committed :: json
  tfb_plan_step_id :: string
  tfb_target_binding_id :: string
  tfb_probe_id :: string
  tfb_observation_id :: string
  tfb_observation_sha256 :: string
  tfb_page_state_id :: string
  tfb_planned_candidate_id :: string
  tfb_candidate_id :: string
  tfb_element_ref :: string

definition zero_ToolResultFailureBrief :: ToolResultFailureBrief where
  "zero_ToolResultFailureBrief = \<lparr>
     tfb_category = [], tfb_stage = [], tfb_code = [], tfb_title = [], tfb_retryable = None,
     tfb_side_effect_committed = JNull, tfb_plan_step_id = [], tfb_target_binding_id = [],
     tfb_probe_id = [], tfb_observation_id = [], tfb_observation_sha256 = [],
     tfb_page_state_id = [], tfb_planned_candidate_id = [], tfb_candidate_id = [],
     tfb_element_ref = []\<rparr>"

definition dec_ToolResultFailureBrief :: "ToolResultFailureBrief decoder" where
  "dec_ToolResultFailureBrief = dec_struct [
     (''category'', fld dec_string tfb_category tfb_category_update),
     (''stage'', fld dec_string tfb_stage tfb_stage_update),
     (''code'', fld dec_string tfb_code tfb_code_update),
     (''title'', fld dec_string tfb_title tfb_title_update),
     (''retryable'', fld (dec_ptr dec_bool False) tfb_retryable tfb_retryable_update),
     (''side_effect_committed'', fld dec_any tfb_side_effect_committed tfb_side_effect_committed_update),
     (''plan_step_id'', fld dec_string tfb_plan_step_id tfb_plan_step_id_update),
     (''target_binding_id'', fld dec_string tfb_target_binding_id tfb_target_binding_id_update),
     (''probe_id'', fld dec_string tfb_probe_id tfb_probe_id_update),
     (''observation_id'', fld dec_string tfb_observation_id tfb_observation_id_update),
     (''observation_sha256'', fld dec_string tfb_observation_sha256 tfb_observation_sha256_update),
     (''page_state_id'', fld dec_string tfb_page_state_id tfb_page_state_id_update),
     (''planned_candidate_id'', fld dec_string tfb_planned_candidate_id tfb_planned_candidate_id_update),
     (''candidate_id'', fld dec_string tfb_candidate_id tfb_candidate_id_update),
     (''element_ref'', fld dec_string tfb_element_ref tfb_element_ref_update)]"

record ToolResultReportSummary =
  trp_batch_id :: json
  trp_status :: string
  trp_case_results :: "ToolResultCaseResult list"
  trp_failure_signals :: "ToolResultFailureBrief list"
  trp_recommended_action :: string

definition zero_ToolResultReportSummary :: ToolResultReportSummary where
  "zero_ToolResultReportSummary = \<lparr>
     trp_batch_id = JNull, trp_status = [], trp_case_results = [], trp_failure_signals = [],
     trp_recommended_action = []\<rparr>"

definition dec_ToolResultReportSummary :: "ToolResultReportSummary decoder" where
  "dec_ToolResultReportSummary = dec_struct [
     (''batch_id'', fld dec_any trp_batch_id trp_batch_id_update),
     (''status'', fld dec_string trp_status trp_status_update),
     (''case_results'', fld (dec_list dec_ToolResultCaseResult zero_ToolResultCaseResult) trp_case_results trp_case_results_update),
     (''failure_signals'', fld (dec_list dec_ToolResultFailureBrief zero_ToolResultFailureBrief) trp_failure_signals trp_failure_signals_update),
     (''recommended_action'', fld dec_string trp_recommended_action trp_recommended_action_update)]"

record ToolResultRepairSummary =
  trs_status :: string
  trs_strategy :: string
  trs_reason :: string
  trs_source_batch_id :: json
  trs_source_execution_id :: json
  trs_original_action_replay_allowed :: "bool option"
  trs_failure_signals :: "ToolResultFailureBrief list"

definition zero_ToolResultRepairSummary :: ToolResultRepairSummary where
  "zero_ToolResultRepairSummary = \<lparr>
     trs_status = [], trs_strategy = [], trs_reason = [], trs_source_batch_id = JNull,
     trs_source_execution_id = JNull, trs_original_action_replay_allowed = None,
     trs_failure_signals = []\<rparr>"

definition dec_ToolResultRepairSummary :: "ToolResultRepairSummary decoder" where
  "dec_ToolResultRepairSummary = dec_struct [
     (''status'', fld dec_string trs_status trs_status_update),
     (''strategy'', fld dec_string trs_strategy trs_strategy_update),
     (''reason'', fld dec_string trs_reason trs_reason_update),
     (''source_batch_id'', fld dec_any trs_source_batch_id trs_source_batch_id_update),
     (''source_execution_id'', fld dec_any trs_source_execution_id trs_source_execution_id_update),
     (''original_action_replay_allowed'', fld (dec_ptr dec_bool False) trs_original_action_replay_allowed trs_original_action_replay_allowed_update),
     (''failure_signals'', fld (dec_list dec_ToolResultFailureBrief zero_ToolResultFailureBrief) trs_failure_signals trs_failure_signals_update)]"

record ToolResultGenericSummary =
  tgn_status :: string
  tgn_top_level_keys :: "string list"

definition zero_ToolResultGenericSummary :: ToolResultGenericSummary where
  "zero_ToolResultGenericSummary = \<lparr>
     tgn_status = [], tgn_top_level_keys = []\<rparr>"

definition dec_ToolResultGenericSummary :: "ToolResultGenericSummary decoder" where
  "dec_ToolResultGenericSummary = dec_struct [
     (''status'', fld dec_string tgn_status tgn_status_update),
     (''top_level_keys'', fld (dec_list dec_string []) tgn_top_level_keys tgn_top_level_keys_update)]"

record ToolResultDOMSummary =
  tdm_tag :: string
  tdm_attrs :: "(string \<times> string) list"

definition zero_ToolResultDOMSummary :: ToolResultDOMSummary where
  "zero_ToolResultDOMSummary = \<lparr>
     tdm_tag = [], tdm_attrs = []\<rparr>"

definition dec_ToolResultDOMSummary :: "ToolResultDOMSummary decoder" where
  "dec_ToolResultDOMSummary = dec_struct [
     (''tag'', fld dec_string tdm_tag tdm_tag_update),
     (''attrs'', fld (dec_map dec_string []) tdm_attrs tdm_attrs_update)]"

record ToolResultSelectorSummary =
  tsl_candidate_id :: string
  tsl_strategy :: string
  tsl_selector :: string
  tsl_name :: string
  tsl_source :: string

definition zero_ToolResultSelectorSummary :: ToolResultSelectorSummary where
  "zero_ToolResultSelectorSummary = \<lparr>
     tsl_candidate_id = [], tsl_strategy = [], tsl_selector = [], tsl_name = [], tsl_source = []\<rparr>"

definition dec_ToolResultSelectorSummary :: "ToolResultSelectorSummary decoder" where
  "dec_ToolResultSelectorSummary = dec_struct [
     (''candidate_id'', fld dec_string tsl_candidate_id tsl_candidate_id_update),
     (''strategy'', fld dec_string tsl_strategy tsl_strategy_update),
     (''selector'', fld dec_string tsl_selector tsl_selector_update),
     (''name'', fld dec_string tsl_name tsl_name_update),
     (''source'', fld dec_string tsl_source tsl_source_update)]"

record ToolResultNodeSummary =
  tnd_node_id :: string
  tnd_backend_dom_node_id :: raw_message
  tnd_parent_id :: string
  tnd_role :: string
  tnd_name :: string
  tnd_page_state :: string
  tnd_source :: string
  tnd_focusable :: bool
  tnd_disabled :: bool
  tnd_dom :: "ToolResultDOMSummary option"
  tnd_verified_selectors :: "ToolResultSelectorSummary list"

definition zero_ToolResultNodeSummary :: ToolResultNodeSummary where
  "zero_ToolResultNodeSummary = \<lparr>
     tnd_node_id = [], tnd_backend_dom_node_id = None, tnd_parent_id = [], tnd_role = [],
     tnd_name = [], tnd_page_state = [], tnd_source = [], tnd_focusable = False,
     tnd_disabled = False, tnd_dom = None, tnd_verified_selectors = []\<rparr>"

definition dec_ToolResultNodeSummary :: "ToolResultNodeSummary decoder" where
  "dec_ToolResultNodeSummary = dec_struct [
     (''node_id'', fld dec_string tnd_node_id tnd_node_id_update),
     (''backend_dom_node_id'', fld dec_raw tnd_backend_dom_node_id tnd_backend_dom_node_id_update),
     (''parent_id'', fld dec_string tnd_parent_id tnd_parent_id_update),
     (''role'', fld dec_string tnd_role tnd_role_update),
     (''name'', fld dec_string tnd_name tnd_name_update),
     (''page_state'', fld dec_string tnd_page_state tnd_page_state_update),
     (''source'', fld dec_string tnd_source tnd_source_update),
     (''focusable'', fld dec_bool tnd_focusable tnd_focusable_update),
     (''disabled'', fld dec_bool tnd_disabled tnd_disabled_update),
     (''dom'', fld (dec_ptr dec_ToolResultDOMSummary zero_ToolResultDOMSummary) tnd_dom tnd_dom_update),
     (''verified_selectors'', fld (dec_list dec_ToolResultSelectorSummary zero_ToolResultSelectorSummary) tnd_verified_selectors tnd_verified_selectors_update)]"

record ToolResultResolvedTargetSummary =
  trt_schema_version :: string
  trt_probe_id :: string
  trt_plan_step_id :: string
  trt_step_index :: int
  trt_action_index :: int
  trt_action :: string
  trt_observation_id :: string
  trt_page_state_id :: string
  trt_page_state_sha256 :: string
  trt_element_ref :: string
  trt_candidate_id :: string
  trt_locator :: raw_message
  trt_context_path :: raw_message
  trt_provenance :: string
  trt_runtime_match_count :: int
  trt_visible :: bool
  trt_enabled :: bool
  trt_editable :: bool
  trt_score :: f64
  trt_action_status :: string

definition zero_ToolResultResolvedTargetSummary :: ToolResultResolvedTargetSummary where
  "zero_ToolResultResolvedTargetSummary = \<lparr>
     trt_schema_version = [], trt_probe_id = [], trt_plan_step_id = [], trt_step_index = 0,
     trt_action_index = 0, trt_action = [], trt_observation_id = [], trt_page_state_id = [],
     trt_page_state_sha256 = [], trt_element_ref = [], trt_candidate_id = [], trt_locator = None,
     trt_context_path = None, trt_provenance = [], trt_runtime_match_count = 0,
     trt_visible = False, trt_enabled = False, trt_editable = False, trt_score = (0, 0),
     trt_action_status = []\<rparr>"

definition dec_ToolResultResolvedTargetSummary :: "ToolResultResolvedTargetSummary decoder" where
  "dec_ToolResultResolvedTargetSummary = dec_struct [
     (''schema_version'', fld dec_string trt_schema_version trt_schema_version_update),
     (''probe_id'', fld dec_string trt_probe_id trt_probe_id_update),
     (''plan_step_id'', fld dec_string trt_plan_step_id trt_plan_step_id_update),
     (''step_index'', fld dec_int trt_step_index trt_step_index_update),
     (''action_index'', fld dec_int trt_action_index trt_action_index_update),
     (''action'', fld dec_string trt_action trt_action_update),
     (''observation_id'', fld dec_string trt_observation_id trt_observation_id_update),
     (''page_state_id'', fld dec_string trt_page_state_id trt_page_state_id_update),
     (''page_state_sha256'', fld dec_string trt_page_state_sha256 trt_page_state_sha256_update),
     (''element_ref'', fld dec_string trt_element_ref trt_element_ref_update),
     (''candidate_id'', fld dec_string trt_candidate_id trt_candidate_id_update),
     (''locator'', fld dec_raw trt_locator trt_locator_update),
     (''context_path'', fld dec_raw trt_context_path trt_context_path_update),
     (''provenance'', fld dec_string trt_provenance trt_provenance_update),
     (''runtime_match_count'', fld dec_int trt_runtime_match_count trt_runtime_match_count_update),
     (''visible'', fld dec_bool trt_visible trt_visible_update),
     (''enabled'', fld dec_bool trt_enabled trt_enabled_update),
     (''editable'', fld dec_bool trt_editable trt_editable_update),
     (''score'', fld dec_f64 trt_score trt_score_update),
     (''action_status'', fld dec_string trt_action_status trt_action_status_update)]"

record ToolResultActionSummary =
  tac_step_index :: "int option"
  tac_action_index :: "int option"
  tac_plan_step_id :: string
  tac_action :: string
  tac_target :: string
  tac_description :: string
  tac_phase :: string
  tac_status :: string
  tac_url :: string
  tac_page_state :: string
  tac_target_evidence :: "ToolResultNodeSummary list"
  tac_evidence_count :: int
  tac_omitted_target_evidence :: int
  tac_omitted_selectors :: int
  tac_resolved_target :: "ToolResultResolvedTargetSummary option"
  tac_failure :: "ToolResultErrorSummary option"

definition zero_ToolResultActionSummary :: ToolResultActionSummary where
  "zero_ToolResultActionSummary = \<lparr>
     tac_step_index = None, tac_action_index = None, tac_plan_step_id = [], tac_action = [],
     tac_target = [], tac_description = [], tac_phase = [], tac_status = [], tac_url = [],
     tac_page_state = [], tac_target_evidence = [], tac_evidence_count = 0,
     tac_omitted_target_evidence = 0, tac_omitted_selectors = 0, tac_resolved_target = None,
     tac_failure = None\<rparr>"

definition dec_ToolResultActionSummary :: "ToolResultActionSummary decoder" where
  "dec_ToolResultActionSummary = dec_struct [
     (''step_index'', fld (dec_ptr dec_int 0) tac_step_index tac_step_index_update),
     (''action_index'', fld (dec_ptr dec_int 0) tac_action_index tac_action_index_update),
     (''plan_step_id'', fld dec_string tac_plan_step_id tac_plan_step_id_update),
     (''action'', fld dec_string tac_action tac_action_update),
     (''target'', fld dec_string tac_target tac_target_update),
     (''description'', fld dec_string tac_description tac_description_update),
     (''phase'', fld dec_string tac_phase tac_phase_update),
     (''status'', fld dec_string tac_status tac_status_update),
     (''url'', fld dec_string tac_url tac_url_update),
     (''page_state'', fld dec_string tac_page_state tac_page_state_update),
     (''target_evidence'', fld (dec_list dec_ToolResultNodeSummary zero_ToolResultNodeSummary) tac_target_evidence tac_target_evidence_update),
     (''evidence_count'', fld dec_int tac_evidence_count tac_evidence_count_update),
     (''omitted_target_evidence'', fld dec_int tac_omitted_target_evidence tac_omitted_target_evidence_update),
     (''omitted_selectors'', fld dec_int tac_omitted_selectors tac_omitted_selectors_update),
     (''resolved_target'', fld (dec_ptr dec_ToolResultResolvedTargetSummary zero_ToolResultResolvedTargetSummary) tac_resolved_target tac_resolved_target_update),
     (''failure'', fld (dec_ptr dec_ToolResultErrorSummary zero_ToolResultErrorSummary) tac_failure tac_failure_update)]"

record ToolResultOmissionCounters =
  tom_pages :: int
  tom_actions :: int
  tom_nodes :: int
  tom_target_evidence :: int
  tom_selectors :: int
  tom_candidates :: int

definition zero_ToolResultOmissionCounters :: ToolResultOmissionCounters where
  "zero_ToolResultOmissionCounters = \<lparr>
     tom_pages = 0, tom_actions = 0, tom_nodes = 0, tom_target_evidence = 0, tom_selectors = 0,
     tom_candidates = 0\<rparr>"

definition dec_ToolResultOmissionCounters :: "ToolResultOmissionCounters decoder" where
  "dec_ToolResultOmissionCounters = dec_struct [
     (''pages'', fld dec_int tom_pages tom_pages_update),
     (''actions'', fld dec_int tom_actions tom_actions_update),
     (''nodes'', fld dec_int tom_nodes tom_nodes_update),
     (''target_evidence'', fld dec_int tom_target_evidence tom_target_evidence_update),
     (''selectors'', fld dec_int tom_selectors tom_selectors_update),
     (''candidates'', fld dec_int tom_candidates tom_candidates_update)]"

record ToolResultPageSummary =
  tpg_probe_id :: string
  tpg_observation_id :: string
  tpg_observation_sha256 :: string
  tpg_url :: string
  tpg_page_state :: string
  tpg_page_kind :: string
  tpg_revision :: int
  tpg_status :: string
  tpg_description :: string
  tpg_element_count :: int
  tpg_actions :: "ToolResultActionSummary list"
  tpg_a11y_nodes :: "ToolResultNodeSummary list"
  tpg_failure :: "ToolResultErrorSummary option"
  tpg_omitted :: ToolResultOmissionCounters
  tpg_reference_only :: bool

definition zero_ToolResultPageSummary :: ToolResultPageSummary where
  "zero_ToolResultPageSummary = \<lparr>
     tpg_probe_id = [], tpg_observation_id = [], tpg_observation_sha256 = [], tpg_url = [],
     tpg_page_state = [], tpg_page_kind = [], tpg_revision = 0, tpg_status = [],
     tpg_description = [], tpg_element_count = 0, tpg_actions = [], tpg_a11y_nodes = [],
     tpg_failure = None, tpg_omitted = zero_ToolResultOmissionCounters, tpg_reference_only = False\<rparr>"

definition dec_ToolResultPageSummary :: "ToolResultPageSummary decoder" where
  "dec_ToolResultPageSummary = dec_struct [
     (''probe_id'', fld dec_string tpg_probe_id tpg_probe_id_update),
     (''observation_id'', fld dec_string tpg_observation_id tpg_observation_id_update),
     (''observation_sha256'', fld dec_string tpg_observation_sha256 tpg_observation_sha256_update),
     (''url'', fld dec_string tpg_url tpg_url_update),
     (''page_state'', fld dec_string tpg_page_state tpg_page_state_update),
     (''page_kind'', fld dec_string tpg_page_kind tpg_page_kind_update),
     (''revision'', fld dec_int tpg_revision tpg_revision_update),
     (''status'', fld dec_string tpg_status tpg_status_update),
     (''description'', fld dec_string tpg_description tpg_description_update),
     (''element_count'', fld dec_int tpg_element_count tpg_element_count_update),
     (''actions'', fld (dec_list dec_ToolResultActionSummary zero_ToolResultActionSummary) tpg_actions tpg_actions_update),
     (''a11y_nodes'', fld (dec_list dec_ToolResultNodeSummary zero_ToolResultNodeSummary) tpg_a11y_nodes tpg_a11y_nodes_update),
     (''failure'', fld (dec_ptr dec_ToolResultErrorSummary zero_ToolResultErrorSummary) tpg_failure tpg_failure_update),
     (''omitted'', fld dec_ToolResultOmissionCounters tpg_omitted tpg_omitted_update),
     (''reference_only'', fld dec_bool tpg_reference_only tpg_reference_only_update)]"

record ToolResultTruncation =
  ttr_truncated :: bool
  ttr_reason :: string
  ttr_target_bytes :: int
  ttr_hard_limit_bytes :: int
  ttr_summary_bytes :: int
  ttr_omitted :: ToolResultOmissionCounters

definition zero_ToolResultTruncation :: ToolResultTruncation where
  "zero_ToolResultTruncation = \<lparr>
     ttr_truncated = False, ttr_reason = [], ttr_target_bytes = 0, ttr_hard_limit_bytes = 0,
     ttr_summary_bytes = 0, ttr_omitted = zero_ToolResultOmissionCounters\<rparr>"

definition dec_ToolResultTruncation :: "ToolResultTruncation decoder" where
  "dec_ToolResultTruncation = dec_struct [
     (''truncated'', fld dec_bool ttr_truncated ttr_truncated_update),
     (''reason'', fld dec_string ttr_reason ttr_reason_update),
     (''target_bytes'', fld dec_int ttr_target_bytes ttr_target_bytes_update),
     (''hard_limit_bytes'', fld dec_int ttr_hard_limit_bytes ttr_hard_limit_bytes_update),
     (''summary_bytes'', fld dec_int ttr_summary_bytes ttr_summary_bytes_update),
     (''omitted'', fld dec_ToolResultOmissionCounters ttr_omitted ttr_omitted_update)]"

record ModelToolSummary =
  sm_schema_version :: string
  sm_policy_version :: string
  sm_tool :: string
  sm_source :: ToolResultSource
  sm_summary_sha256 :: string
  sm_success :: "bool option"
  sm_status :: string
  sm_warnings :: "string list"
  sm_failures :: "ToolResultErrorSummary list"
  sm_context :: "ToolResultContextSummary option"
  sm_observation :: "StructuredObservation option"
  sm_executed_effects :: "ObservedActionOption list"
  sm_task_plan :: "ToolResultTaskPlanSummary option"
  sm_dsl :: "ToolResultDSLSummary option"
  sm_execution :: "ToolResultExecutionSummary option"
  sm_report :: "ToolResultReportSummary option"
  sm_repair :: "ToolResultRepairSummary option"
  sm_generic :: "ToolResultGenericSummary option"
  sm_pages :: "ToolResultPageSummary list"
  sm_truncation :: ToolResultTruncation
  sm_reference_only :: bool

definition zero_ModelToolSummary :: ModelToolSummary where
  "zero_ModelToolSummary = \<lparr>
     sm_schema_version = [], sm_policy_version = [], sm_tool = [],
     sm_source = zero_ToolResultSource, sm_summary_sha256 = [], sm_success = None, sm_status = [],
     sm_warnings = [], sm_failures = [], sm_context = None, sm_observation = None,
     sm_executed_effects = [], sm_task_plan = None, sm_dsl = None, sm_execution = None,
     sm_report = None, sm_repair = None, sm_generic = None, sm_pages = [],
     sm_truncation = zero_ToolResultTruncation, sm_reference_only = False\<rparr>"

definition dec_ModelToolSummary :: "ModelToolSummary decoder" where
  "dec_ModelToolSummary = dec_struct [
     (''schema_version'', fld dec_string sm_schema_version sm_schema_version_update),
     (''policy_version'', fld dec_string sm_policy_version sm_policy_version_update),
     (''tool'', fld dec_string sm_tool sm_tool_update),
     (''source'', fld dec_ToolResultSource sm_source sm_source_update),
     (''summary_sha256'', fld dec_string sm_summary_sha256 sm_summary_sha256_update),
     (''success'', fld (dec_ptr dec_bool False) sm_success sm_success_update),
     (''status'', fld dec_string sm_status sm_status_update),
     (''warnings'', fld (dec_list dec_string []) sm_warnings sm_warnings_update),
     (''failures'', fld (dec_list dec_ToolResultErrorSummary zero_ToolResultErrorSummary) sm_failures sm_failures_update),
     (''context'', fld (dec_ptr dec_ToolResultContextSummary zero_ToolResultContextSummary) sm_context sm_context_update),
     (''observation'', fld (dec_ptr dec_StructuredObservation zero_StructuredObservation) sm_observation sm_observation_update),
     (''executed_effects'', fld (dec_list dec_ObservedActionOption zero_ObservedActionOption) sm_executed_effects sm_executed_effects_update),
     (''task_plan'', fld (dec_ptr dec_ToolResultTaskPlanSummary zero_ToolResultTaskPlanSummary) sm_task_plan sm_task_plan_update),
     (''dsl'', fld (dec_ptr dec_ToolResultDSLSummary zero_ToolResultDSLSummary) sm_dsl sm_dsl_update),
     (''execution'', fld (dec_ptr dec_ToolResultExecutionSummary zero_ToolResultExecutionSummary) sm_execution sm_execution_update),
     (''report'', fld (dec_ptr dec_ToolResultReportSummary zero_ToolResultReportSummary) sm_report sm_report_update),
     (''repair'', fld (dec_ptr dec_ToolResultRepairSummary zero_ToolResultRepairSummary) sm_repair sm_repair_update),
     (''generic'', fld (dec_ptr dec_ToolResultGenericSummary zero_ToolResultGenericSummary) sm_generic sm_generic_update),
     (''pages'', fld (dec_list dec_ToolResultPageSummary zero_ToolResultPageSummary) sm_pages sm_pages_update),
     (''truncation'', fld dec_ToolResultTruncation sm_truncation sm_truncation_update),
     (''reference_only'', fld dec_bool sm_reference_only sm_reference_only_update)]"

subsection \<open>Reading a summary\<close>

definition ModelToolSummarySchemaV1 :: string where
  "ModelToolSummarySchemaV1 = ''agent.model_tool_summary.v1''"

text \<open>
  First only the schema version is read, then the whole summary; both reads fail on a member of
  the wrong type.
\<close>

definition dec_schema_version :: "string decoder" where
  "dec_schema_version = dec_struct [(''schema_version'', dec_string)]"

definition DecodeModelToolSummary :: "string \<Rightarrow> ModelToolSummary option" where
  "DecodeModelToolSummary content =
     (case unmarshal dec_schema_version [] (parse_json content) of
        None \<Rightarrow> None
      | Some version \<Rightarrow>
        if version \<noteq> ModelToolSummarySchemaV1 then None
        else unmarshal dec_ModelToolSummary zero_ModelToolSummary (parse_json content))"

definition IsExplorationTool :: "string \<Rightarrow> bool" where
  "IsExplorationTool name \<longleftrightarrow> name = ''explore_page'' \<or> name = ''explore_flow''"

end
