(* ===== verification/ToolSummaryEncoding.thy ===== *)
theory ToolSummaryEncoding
  imports ToolSummary
begin

section \<open>Writing tool summaries (internal/agent/tool_result.go)\<close>

text \<open>
  The encoders of the structs of a summary: the members in the order of the declaration, those
  with \<open>omitempty\<close> left out when they are empty, the entries of a map in the order of their
  keys.
\<close>

definition omit_false :: "string \<Rightarrow> bool \<Rightarrow> (string \<times> json) list" where
  "omit_false k b = (if b then [(k, JBool True)] else [])"

definition omit_null :: "string \<Rightarrow> json \<Rightarrow> (string \<times> json) list" where
  "omit_null k j = (if j = JNull then [] else [(k, j)])"

definition omit_empty_list :: "string \<Rightarrow> ('a \<Rightarrow> json) \<Rightarrow> 'a list \<Rightarrow> (string \<times> json) list" where
  "omit_empty_list k enc xs = (if xs = [] then [] else [(k, JArr (map enc xs))])"

definition omit_empty_map ::
  "string \<Rightarrow> ('a \<Rightarrow> json) \<Rightarrow> (string \<times> 'a) list \<Rightarrow> (string \<times> json) list" where
  "omit_empty_map k enc m =
     (if m = [] then [] else [(k, JObj (map (\<lambda>p. (fst p, enc (snd p))) (sort_key fst m)))])"

definition enc_raw :: "raw_message \<Rightarrow> json" where
  "enc_raw raw = (case raw of None \<Rightarrow> JNull | Some j \<Rightarrow> j)"

definition enc_ToolResultSource :: "ToolResultSource \<Rightarrow> json" where
  "enc_ToolResultSource x = JObj (
     [(''event_seq'', JInt (tsrc_event_seq x)),
      (''content_sha256'', JStr (tsrc_content_sha256 x)),
      (''content_bytes'', JInt (tsrc_content_bytes x))])"

definition enc_ToolResultErrorSummary :: "ToolResultErrorSummary \<Rightarrow> json" where
  "enc_ToolResultErrorSummary x = JObj (
     omit_empty_string ''code'' (ter_code x) @
     omit_empty_string ''message'' (ter_message x) @
     omit_nil ''step_index'' JInt (ter_step_index x) @
     omit_nil ''action_index'' JInt (ter_action_index x) @
     omit_empty_string ''action'' (ter_action x) @
     omit_empty_string ''target'' (ter_target x))"

definition enc_ToolResultContextSummary :: "ToolResultContextSummary \<Rightarrow> json" where
  "enc_ToolResultContextSummary x = JObj (
     omit_empty_string ''execution_scope'' (tcx_execution_scope x) @
     [(''state_persisted'', JBool (tcx_state_persisted x)),
      (''clean_context_requested'', JBool (tcx_clean_context_requested x)),
      (''storage_state_loaded'', JBool (tcx_storage_state_loaded x))] @
     omit_zero_int ''planning_session_id'' (tcx_planning_session_id x))"

definition enc_ObservedPageState :: "ObservedPageState \<Rightarrow> json" where
  "enc_ObservedPageState x = JObj (
     omit_empty_string ''page_state'' (ops_page_state x) @
     omit_empty_string ''page_kind'' (ops_page_kind x) @
     omit_empty_string ''url'' (ops_url x) @
     omit_empty_string ''status'' (ops_status x) @
     omit_zero_int ''revision'' (ops_revision x) @
     [(''element_count'', JInt (ops_element_count x))])"

definition enc_ObservedElementGroup :: "ObservedElementGroup \<Rightarrow> json" where
  "enc_ObservedElementGroup x = JObj (
     omit_empty_string ''page_state'' (oeg_page_state x) @
     [(''category'', JStr (oeg_category x)),
      (''count'', JInt (oeg_count x))] @
     omit_zero_int ''verified_count'' (oeg_verified_count x) @
     omit_empty_list ''representative'' JStr (oeg_representative x))"

definition enc_ObservedCandidateCoverage :: "ObservedCandidateCoverage \<Rightarrow> json" where
  "enc_ObservedCandidateCoverage x = JObj (
     omit_empty_string ''page_state'' (occ_page_state x) @
     omit_empty_string ''category'' (occ_category x) @
     omit_empty_string ''label'' (occ_label x) @
     omit_empty_string ''role'' (occ_role x) @
     [(''selector_count'', JInt (occ_selector_count x))] @
     omit_empty_string ''primary_selector'' (occ_primary_selector x) @
     omit_empty_string ''source'' (occ_source x) @
     [(''executable'', JBool (occ_executable x))] @
     omit_zero_int ''ambiguous_count'' (occ_ambiguous_count x))"

definition enc_ObservedActionOption :: "ObservedActionOption \<Rightarrow> json" where
  "enc_ObservedActionOption x = JObj (
     omit_empty_string ''page_state'' (oao_page_state x) @
     omit_empty_string ''url'' (oao_url x) @
     omit_empty_string ''action'' (oao_action x) @
     omit_empty_string ''target'' (oao_target x) @
     omit_empty_string ''status'' (oao_status x) @
     omit_zero_int ''evidence_count'' (oao_evidence_count x) @
     omit_empty_string ''side_effect'' (oao_side_effect x) @
     omit_empty_string ''idempotency_hint'' (oao_idempotency_hint x))"

definition enc_ObservedVerificationFact :: "ObservedVerificationFact \<Rightarrow> json" where
  "enc_ObservedVerificationFact x = JObj (
     omit_empty_string ''page_state'' (ovf_page_state x) @
     [(''kind'', JStr (ovf_kind x))] @
     omit_empty_string ''label'' (ovf_label x) @
     omit_empty_string ''selector'' (ovf_selector x) @
     omit_empty_string ''source'' (ovf_source x))"

definition enc_ObservedRecoveryHint :: "ObservedRecoveryHint \<Rightarrow> json" where
  "enc_ObservedRecoveryHint x = JObj (
     [(''category'', JStr (orh_category x)),
      (''reason'', JStr (orh_reason x)),
      (''action'', JStr (orh_action x))])"

definition enc_ToolResultCandidateRefSummary :: "ToolResultCandidateRefSummary \<Rightarrow> json" where
  "enc_ToolResultCandidateRefSummary x = JObj (
     [(''schema_version'', JStr (tcr_schema_version x)),
      (''source_event_seq'', JInt (tcr_source_event_seq x)),
      (''probe_id'', JStr (tcr_probe_id x)),
      (''observation_id'', JStr (tcr_observation_id x)),
      (''candidate_id'', JStr (tcr_candidate_id x))])"

definition enc_ToolResultSelectableCandidate :: "ToolResultSelectableCandidate \<Rightarrow> json" where
  "enc_ToolResultSelectableCandidate x = JObj (
     omit_empty_string ''page_state'' (tsc_page_state x) @
     omit_empty_string ''category'' (tsc_category x) @
     omit_empty_string ''role'' (tsc_role x) @
     omit_empty_string ''name'' (tsc_name x) @
     omit_empty_string ''strategy'' (tsc_strategy x) @
     omit_empty_string ''selector'' (tsc_selector x) @
     omit_false ''executable'' (tsc_executable x) @
     [(''candidate_ref'', (case tsc_candidate_ref x of None \<Rightarrow> JNull | Some v \<Rightarrow> enc_ToolResultCandidateRefSummary v))])"

definition enc_StructuredObservation :: "StructuredObservation \<Rightarrow> json" where
  "enc_StructuredObservation x = JObj (
     [(''schema_version'', JStr (sob_schema_version x))] @
     omit_empty_list ''page_states'' enc_ObservedPageState (sob_page_states x) @
     omit_empty_list ''element_groups'' enc_ObservedElementGroup (sob_element_groups x) @
     omit_empty_list ''candidate_coverage'' enc_ObservedCandidateCoverage (sob_candidate_coverage x) @
     omit_empty_list ''action_options'' enc_ObservedActionOption (sob_action_options x) @
     omit_empty_list ''verification_facts'' enc_ObservedVerificationFact (sob_verification_facts x) @
     omit_empty_list ''recovery_hints'' enc_ObservedRecoveryHint (sob_recovery_hints x) @
     omit_empty_list ''selectable_candidates'' enc_ToolResultSelectableCandidate (sob_selectable_candidates x))"

definition enc_ToolResultLineageSummary :: "ToolResultLineageSummary \<Rightarrow> json" where
  "enc_ToolResultLineageSummary x = JObj (
     omit_empty_string ''probe_id'' (tli_probe_id x) @
     omit_empty_string ''observation_id'' (tli_observation_id x) @
     omit_empty_string ''observation_sha256'' (tli_observation_sha256 x) @
     omit_empty_string ''page_state_id'' (tli_page_state_id x) @
     omit_empty_string ''target_binding_id'' (tli_target_binding_id x) @
     omit_empty_string ''selected_candidate_id'' (tli_selected_candidate_id x) @
     omit_empty_list ''element_refs'' JStr (tli_element_refs x))"

definition enc_ToolResultBudgetCounter :: "ToolResultBudgetCounter \<Rightarrow> json" where
  "enc_ToolResultBudgetCounter x = JObj (
     [(''used'', JInt (tbc_used x)),
      (''limit'', JInt (tbc_limit x)),
      (''remaining'', JInt (tbc_remaining x))])"

definition enc_ToolResultExplorationBudgetSummary :: "ToolResultExplorationBudgetSummary \<Rightarrow> json" where
  "enc_ToolResultExplorationBudgetSummary x = JObj (
     [(''scope'', JStr (teb_scope x))] @
     omit_empty_string ''plan_id'' (teb_plan_id x) @
     omit_zero_int ''plan_version'' (teb_plan_version x) @
     [(''explore_page'', enc_ToolResultBudgetCounter (teb_explore_page x)),
      (''explore_flow'', enc_ToolResultBudgetCounter (teb_explore_flow x)),
      (''run_explore_page'', enc_ToolResultBudgetCounter (teb_run_explore_page x)),
      (''run_explore_flow'', enc_ToolResultBudgetCounter (teb_run_explore_flow x)),
      (''repeated_explore_page_signature_limit'', JInt (teb_repeated_explore_page_signature_limit x)),
      (''repeated_explore_flow_signature_limit'', JInt (teb_repeated_explore_flow_signature_limit x))] @
     omit_empty_string ''current_tool'' (teb_current_tool x) @
     omit_nil ''current_signature_uses'' JInt (teb_current_signature_uses x) @
     omit_nil ''current_signature_remaining'' JInt (teb_current_signature_remaining x) @
     omit_empty_string ''current_signature_fingerprint'' (teb_current_signature_fingerprint x))"

definition enc_ToolResultTaskPlanSummary :: "ToolResultTaskPlanSummary \<Rightarrow> json" where
  "enc_ToolResultTaskPlanSummary x = JObj (
     omit_empty_string ''plan_id'' (ttp_plan_id x) @
     omit_zero_int ''version'' (ttp_version x) @
     omit_empty_string ''plan_sha256'' (ttp_plan_sha256 x) @
     omit_empty_string ''status'' (ttp_status x) @
     omit_empty_list ''step_ids'' JStr (ttp_step_ids x) @
     omit_empty_list ''grounded_step_ids'' JStr (ttp_grounded_step_ids x) @
     omit_empty_list ''pending_step_ids'' JStr (ttp_pending_step_ids x) @
     omit_empty_map ''step_bindings'' JStr (ttp_step_bindings x) @
     omit_empty_map ''step_lineage'' enc_ToolResultLineageSummary (ttp_step_lineage x) @
     omit_nil ''exploration_budget'' enc_ToolResultExplorationBudgetSummary (ttp_exploration_budget x))"

definition enc_ToolResultDSLSummary :: "ToolResultDSLSummary \<Rightarrow> json" where
  "enc_ToolResultDSLSummary x = JObj (
     omit_null ''generation_id'' (tds_generation_id x) @
     omit_empty_string ''profile'' (tds_profile x) @
     omit_empty_string ''case_name'' (tds_case_name x) @
     [(''step_count'', JInt (tds_step_count x))] @
     omit_empty_list ''actions'' JStr (tds_actions x) @
     omit_empty_list ''targets'' JStr (tds_targets x) @
     omit_empty_string ''plan_id'' (tds_plan_id x) @
     omit_zero_int ''plan_version'' (tds_plan_version x) @
     omit_empty_string ''plan_sha256'' (tds_plan_sha256 x))"

definition enc_ToolResultExecutionSummary :: "ToolResultExecutionSummary \<Rightarrow> json" where
  "enc_ToolResultExecutionSummary x = JObj (
     omit_null ''batch_id'' (tex_batch_id x) @
     omit_null ''case_id'' (tex_case_id x) @
     omit_empty_string ''status'' (tex_status x) @
     omit_empty_string ''report_api_url'' (tex_report_api_url x))"

definition enc_ToolResultCaseResult :: "ToolResultCaseResult \<Rightarrow> json" where
  "enc_ToolResultCaseResult x = JObj (
     omit_null ''case_id'' (tcs_case_id x) @
     omit_empty_string ''case_name'' (tcs_case_name x) @
     omit_empty_string ''status'' (tcs_status x) @
     omit_zero_int ''passed_steps'' (tcs_passed_steps x) @
     omit_zero_int ''total_steps'' (tcs_total_steps x) @
     omit_empty_string ''failure_summary'' (tcs_failure_summary x))"

definition enc_ToolResultFailureBrief :: "ToolResultFailureBrief \<Rightarrow> json" where
  "enc_ToolResultFailureBrief x = JObj (
     omit_empty_string ''category'' (tfb_category x) @
     omit_empty_string ''stage'' (tfb_stage x) @
     omit_empty_string ''code'' (tfb_code x) @
     omit_empty_string ''title'' (tfb_title x) @
     omit_nil ''retryable'' JBool (tfb_retryable x) @
     omit_null ''side_effect_committed'' (tfb_side_effect_committed x) @
     omit_empty_string ''plan_step_id'' (tfb_plan_step_id x) @
     omit_empty_string ''target_binding_id'' (tfb_target_binding_id x) @
     omit_empty_string ''probe_id'' (tfb_probe_id x) @
     omit_empty_string ''observation_id'' (tfb_observation_id x) @
     omit_empty_string ''observation_sha256'' (tfb_observation_sha256 x) @
     omit_empty_string ''page_state_id'' (tfb_page_state_id x) @
     omit_empty_string ''planned_candidate_id'' (tfb_planned_candidate_id x) @
     omit_empty_string ''candidate_id'' (tfb_candidate_id x) @
     omit_empty_string ''element_ref'' (tfb_element_ref x))"

definition enc_ToolResultReportSummary :: "ToolResultReportSummary \<Rightarrow> json" where
  "enc_ToolResultReportSummary x = JObj (
     omit_null ''batch_id'' (trp_batch_id x) @
     omit_empty_string ''status'' (trp_status x) @
     omit_empty_list ''case_results'' enc_ToolResultCaseResult (trp_case_results x) @
     omit_empty_list ''failure_signals'' enc_ToolResultFailureBrief (trp_failure_signals x) @
     omit_empty_string ''recommended_action'' (trp_recommended_action x))"

definition enc_ToolResultRepairSummary :: "ToolResultRepairSummary \<Rightarrow> json" where
  "enc_ToolResultRepairSummary x = JObj (
     omit_empty_string ''status'' (trs_status x) @
     omit_empty_string ''strategy'' (trs_strategy x) @
     omit_empty_string ''reason'' (trs_reason x) @
     omit_null ''source_batch_id'' (trs_source_batch_id x) @
     omit_null ''source_execution_id'' (trs_source_execution_id x) @
     omit_nil ''original_action_replay_allowed'' JBool (trs_original_action_replay_allowed x) @
     omit_empty_list ''failure_signals'' enc_ToolResultFailureBrief (trs_failure_signals x))"

definition enc_ToolResultGenericSummary :: "ToolResultGenericSummary \<Rightarrow> json" where
  "enc_ToolResultGenericSummary x = JObj (
     omit_empty_string ''status'' (tgn_status x) @
     omit_empty_list ''top_level_keys'' JStr (tgn_top_level_keys x))"

definition enc_ToolResultDOMSummary :: "ToolResultDOMSummary \<Rightarrow> json" where
  "enc_ToolResultDOMSummary x = JObj (
     omit_empty_string ''tag'' (tdm_tag x) @
     omit_empty_map ''attrs'' JStr (tdm_attrs x))"

definition enc_ToolResultSelectorSummary :: "ToolResultSelectorSummary \<Rightarrow> json" where
  "enc_ToolResultSelectorSummary x = JObj (
     omit_empty_string ''candidate_id'' (tsl_candidate_id x) @
     omit_empty_string ''strategy'' (tsl_strategy x) @
     [(''selector'', JStr (tsl_selector x))] @
     omit_empty_string ''name'' (tsl_name x) @
     omit_empty_string ''source'' (tsl_source x))"

definition enc_ToolResultNodeSummary :: "ToolResultNodeSummary \<Rightarrow> json" where
  "enc_ToolResultNodeSummary x = JObj (
     omit_empty_string ''node_id'' (tnd_node_id x) @
     omit_nil ''backend_dom_node_id'' (\<lambda>j. j) (tnd_backend_dom_node_id x) @
     omit_empty_string ''parent_id'' (tnd_parent_id x) @
     omit_empty_string ''role'' (tnd_role x) @
     omit_empty_string ''name'' (tnd_name x) @
     omit_empty_string ''page_state'' (tnd_page_state x) @
     omit_empty_string ''source'' (tnd_source x) @
     omit_false ''focusable'' (tnd_focusable x) @
     omit_false ''disabled'' (tnd_disabled x) @
     omit_nil ''dom'' enc_ToolResultDOMSummary (tnd_dom x) @
     omit_empty_list ''verified_selectors'' enc_ToolResultSelectorSummary (tnd_verified_selectors x))"

definition enc_ToolResultResolvedTargetSummary :: "ToolResultResolvedTargetSummary \<Rightarrow> json" where
  "enc_ToolResultResolvedTargetSummary x = JObj (
     [(''schema_version'', JStr (trt_schema_version x)),
      (''probe_id'', JStr (trt_probe_id x)),
      (''plan_step_id'', JStr (trt_plan_step_id x)),
      (''step_index'', JInt (trt_step_index x)),
      (''action_index'', JInt (trt_action_index x)),
      (''action'', JStr (trt_action x)),
      (''observation_id'', JStr (trt_observation_id x)),
      (''page_state_id'', JStr (trt_page_state_id x)),
      (''page_state_sha256'', JStr (trt_page_state_sha256 x)),
      (''element_ref'', JStr (trt_element_ref x)),
      (''candidate_id'', JStr (trt_candidate_id x)),
      (''locator'', enc_raw (trt_locator x)),
      (''context_path'', enc_raw (trt_context_path x)),
      (''provenance'', JStr (trt_provenance x)),
      (''runtime_match_count'', JInt (trt_runtime_match_count x)),
      (''visible'', JBool (trt_visible x)),
      (''enabled'', JBool (trt_enabled x)),
      (''editable'', JBool (trt_editable x)),
      (''score'', enc_f64 (trt_score x)),
      (''action_status'', JStr (trt_action_status x))])"

definition enc_ToolResultActionSummary :: "ToolResultActionSummary \<Rightarrow> json" where
  "enc_ToolResultActionSummary x = JObj (
     omit_nil ''step_index'' JInt (tac_step_index x) @
     omit_nil ''action_index'' JInt (tac_action_index x) @
     omit_empty_string ''plan_step_id'' (tac_plan_step_id x) @
     omit_empty_string ''action'' (tac_action x) @
     omit_empty_string ''target'' (tac_target x) @
     omit_empty_string ''description'' (tac_description x) @
     omit_empty_string ''phase'' (tac_phase x) @
     omit_empty_string ''status'' (tac_status x) @
     omit_empty_string ''url'' (tac_url x) @
     omit_empty_string ''page_state'' (tac_page_state x) @
     omit_empty_list ''target_evidence'' enc_ToolResultNodeSummary (tac_target_evidence x) @
     [(''evidence_count'', JInt (tac_evidence_count x))] @
     omit_zero_int ''omitted_target_evidence'' (tac_omitted_target_evidence x) @
     omit_zero_int ''omitted_selectors'' (tac_omitted_selectors x) @
     omit_nil ''resolved_target'' enc_ToolResultResolvedTargetSummary (tac_resolved_target x) @
     omit_nil ''failure'' enc_ToolResultErrorSummary (tac_failure x))"

definition enc_ToolResultOmissionCounters :: "ToolResultOmissionCounters \<Rightarrow> json" where
  "enc_ToolResultOmissionCounters x = JObj (
     omit_zero_int ''pages'' (tom_pages x) @
     omit_zero_int ''actions'' (tom_actions x) @
     omit_zero_int ''nodes'' (tom_nodes x) @
     omit_zero_int ''target_evidence'' (tom_target_evidence x) @
     omit_zero_int ''selectors'' (tom_selectors x) @
     omit_zero_int ''candidates'' (tom_candidates x))"

definition enc_ToolResultPageSummary :: "ToolResultPageSummary \<Rightarrow> json" where
  "enc_ToolResultPageSummary x = JObj (
     omit_empty_string ''probe_id'' (tpg_probe_id x) @
     omit_empty_string ''observation_id'' (tpg_observation_id x) @
     omit_empty_string ''observation_sha256'' (tpg_observation_sha256 x) @
     omit_empty_string ''url'' (tpg_url x) @
     omit_empty_string ''page_state'' (tpg_page_state x) @
     omit_empty_string ''page_kind'' (tpg_page_kind x) @
     omit_zero_int ''revision'' (tpg_revision x) @
     omit_empty_string ''status'' (tpg_status x) @
     omit_empty_string ''description'' (tpg_description x) @
     [(''element_count'', JInt (tpg_element_count x))] @
     omit_empty_list ''actions'' enc_ToolResultActionSummary (tpg_actions x) @
     omit_empty_list ''a11y_nodes'' enc_ToolResultNodeSummary (tpg_a11y_nodes x) @
     omit_nil ''failure'' enc_ToolResultErrorSummary (tpg_failure x) @
     [(''omitted'', enc_ToolResultOmissionCounters (tpg_omitted x))] @
     omit_false ''reference_only'' (tpg_reference_only x))"

definition enc_ToolResultTruncation :: "ToolResultTruncation \<Rightarrow> json" where
  "enc_ToolResultTruncation x = JObj (
     [(''truncated'', JBool (ttr_truncated x))] @
     omit_empty_string ''reason'' (ttr_reason x) @
     [(''target_bytes'', JInt (ttr_target_bytes x)),
      (''hard_limit_bytes'', JInt (ttr_hard_limit_bytes x)),
      (''summary_bytes'', JInt (ttr_summary_bytes x)),
      (''omitted'', enc_ToolResultOmissionCounters (ttr_omitted x))])"

definition enc_ModelToolSummary :: "ModelToolSummary \<Rightarrow> json" where
  "enc_ModelToolSummary x = JObj (
     [(''schema_version'', JStr (sm_schema_version x)),
      (''policy_version'', JStr (sm_policy_version x)),
      (''tool'', JStr (sm_tool x)),
      (''source'', enc_ToolResultSource (sm_source x))] @
     omit_empty_string ''summary_sha256'' (sm_summary_sha256 x) @
     omit_nil ''success'' JBool (sm_success x) @
     omit_empty_string ''status'' (sm_status x) @
     omit_empty_list ''warnings'' JStr (sm_warnings x) @
     omit_empty_list ''failures'' enc_ToolResultErrorSummary (sm_failures x) @
     omit_nil ''context'' enc_ToolResultContextSummary (sm_context x) @
     omit_nil ''observation'' enc_StructuredObservation (sm_observation x) @
     omit_empty_list ''executed_effects'' enc_ObservedActionOption (sm_executed_effects x) @
     omit_nil ''task_plan'' enc_ToolResultTaskPlanSummary (sm_task_plan x) @
     omit_nil ''dsl'' enc_ToolResultDSLSummary (sm_dsl x) @
     omit_nil ''execution'' enc_ToolResultExecutionSummary (sm_execution x) @
     omit_nil ''report'' enc_ToolResultReportSummary (sm_report x) @
     omit_nil ''repair'' enc_ToolResultRepairSummary (sm_repair x) @
     omit_nil ''generic'' enc_ToolResultGenericSummary (sm_generic x) @
     omit_empty_list ''pages'' enc_ToolResultPageSummary (sm_pages x) @
     [(''truncation'', enc_ToolResultTruncation (sm_truncation x))] @
     omit_false ''reference_only'' (sm_reference_only x))"

end
