(* ===== verification/HarnessPolicy.thy ===== *)
theory HarnessPolicy
  imports ToolSummaryEncoding PlanTypes AgentRuns Sha256
begin

section \<open>The tool policy of the harness (internal/harness/policy.go)\<close>

text \<open>
  Before every tool call the harness asks its policy. Exploration is limited: by the number of
  probes per plan version and per run, by the number of probes with the same signature, and by
  the time left. Planning, generating, reading a report and repairing may not be repeated with
  the same signature after a failure. All this is computed from the transcript of the run.
  Counters are unbounded integers here; the clock is an argument.
\<close>

subsection \<open>Configuration and state\<close>

record ExplorationGateConfig =
  gc_MaxExplorePageCalls :: int
  gc_MaxExploreFlowCalls :: int
  gc_MaxRunExplorePageCalls :: int
  gc_MaxRunExploreFlowCalls :: int
  gc_MaxRepeatedExplorePageSignatureCalls :: int
  gc_MaxRepeatedExploreFlowSignatureCalls :: int
  gc_MaxRunWallTime :: int
  gc_ExploreReserve :: int

definition or_default :: "int \<Rightarrow> int \<Rightarrow> int" where
  "or_default d n = (if n \<le> 0 then d else n)"

definition withDefaults :: "ExplorationGateConfig \<Rightarrow> ExplorationGateConfig" where
  "withDefaults c =
     \<lparr>gc_MaxExplorePageCalls = or_default 5 (gc_MaxExplorePageCalls c),
      gc_MaxExploreFlowCalls = or_default 4 (gc_MaxExploreFlowCalls c),
      gc_MaxRunExplorePageCalls = or_default 10 (gc_MaxRunExplorePageCalls c),
      gc_MaxRunExploreFlowCalls = or_default 8 (gc_MaxRunExploreFlowCalls c),
      gc_MaxRepeatedExplorePageSignatureCalls =
        or_default 1 (gc_MaxRepeatedExplorePageSignatureCalls c),
      gc_MaxRepeatedExploreFlowSignatureCalls =
        or_default 1 (gc_MaxRepeatedExploreFlowSignatureCalls c),
      gc_MaxRunWallTime = gc_MaxRunWallTime c,
      gc_ExploreReserve =
        (if 0 < gc_MaxRunWallTime c \<and> gc_ExploreReserve c \<le> 0 then seconds 90
         else gc_ExploreReserve c)\<rparr>"

record explorationState =
  xs_PlanExplorePageCalls :: int
  xs_PlanExploreFlowCalls :: int
  xs_RunExplorePageCalls :: int
  xs_RunExploreFlowCalls :: int
  xs_PlanSignatures :: "string \<Rightarrow> int"

definition new_explorationState :: explorationState where
  "new_explorationState = \<lparr>xs_PlanExplorePageCalls = 0, xs_PlanExploreFlowCalls = 0,
     xs_RunExplorePageCalls = 0, xs_RunExploreFlowCalls = 0, xs_PlanSignatures = (\<lambda>_. 0)\<rparr>"

definition governanceToolNames :: "string list" where
  "governanceToolNames = [''set_task_plan'', ''generate_dsl'', ''get_report'', ''fix_and_retry'']"

subsection \<open>Signatures\<close>

text \<open>
  The signature of a call is the hash of its tool and its arguments, from which the members that
  only describe are dropped and whose texts are normalised; arguments that are not JSON have
  no signature, the empty text.
\<close>

definition normalizeSemanticText :: "string \<Rightarrow> string" where
  "normalizeSemanticText value = ToLower (Join (Fields (TrimSpace value)) '' '')"

definition descriptive_keys :: "string list" where
  "descriptive_keys = [''timeout_ms'', ''flow_description'', ''core_user_flow_text'',
     ''observation_schema_version'', ''description'']"

fun normalizeJSONForSignature :: "json \<Rightarrow> json" where
  "normalizeJSONForSignature (JObj ms) =
     JObj (map (\<lambda>p. (fst p, normalizeJSONForSignature (snd p)))
       (filter (\<lambda>p. fst p \<notin> set descriptive_keys) ms))"
| "normalizeJSONForSignature (JArr js) = JArr (map normalizeJSONForSignature js)"
| "normalizeJSONForSignature (JStr s) = JStr (normalizeSemanticText s)"
| "normalizeJSONForSignature j = j"

text \<open>The members of a map are written in the order of their names.\<close>

definition explorationCallSignature :: "string \<Rightarrow> string \<Rightarrow> string" where
  "explorationCallSignature tool arguments =
     (case unmarshal dec_any JNull (parse_json arguments) of
        None \<Rightarrow> []
      | Some value \<Rightarrow> sha256_hex (render (JObj
          [(''arguments'', normalizeJSONForSignature value), (''tool'', JStr tool)])))"

definition governanceCallSignature :: "ModelTool \<Rightarrow> string" where
  "governanceCallSignature call =
     (case unmarshal dec_any JNull (parse_json (mt_arguments call)) of
        None \<Rightarrow> []
      | Some arguments \<Rightarrow> sha256_hex (render (JObj
          [(''arguments'', normalizeJSONForSignature arguments), (''tool'', JStr (mt_name call))])))"

subsection \<open>Reading the transcript\<close>

definition summaryMatchesPlan :: "ModelToolSummary \<Rightarrow> Plan option \<Rightarrow> bool" where
  "summaryMatchesPlan summary currentPlan =
     (case currentPlan of
        None \<Rightarrow> True
      | Some plan \<Rightarrow>
        (case sm_task_plan summary of
           None \<Rightarrow> False
         | Some t \<Rightarrow> ttp_plan_id t = pl_id plan \<and> ttp_version t = pl_version plan))"

definition remember_calls ::
  "(ModelTool \<Rightarrow> bool) \<Rightarrow> Message \<Rightarrow> (string \<Rightarrow> ModelTool option) \<Rightarrow> string \<Rightarrow> ModelTool option" where
  "remember_calls p message calls =
     fold (\<lambda>call m. if p call \<and> mt_id call \<noteq> [] then m(mt_id call \<mapsto> call) else m)
       (ms_tool_calls message) calls"

definition count_call ::
  "ModelToolSummary \<Rightarrow> Plan option \<Rightarrow> ModelTool option \<Rightarrow> explorationState \<Rightarrow> explorationState" where
  "count_call summary currentPlan call state =
     (let page = (sm_tool summary = ''explore_page'');
          state = (if page then state\<lparr>xs_RunExplorePageCalls := xs_RunExplorePageCalls state + 1\<rparr>
            else state\<lparr>xs_RunExploreFlowCalls := xs_RunExploreFlowCalls state + 1\<rparr>)
      in if \<not> summaryMatchesPlan summary currentPlan then state
      else
        let state = (if page then state\<lparr>xs_PlanExplorePageCalls := xs_PlanExplorePageCalls state + 1\<rparr>
              else state\<lparr>xs_PlanExploreFlowCalls := xs_PlanExploreFlowCalls state + 1\<rparr>)
        in case call of
             None \<Rightarrow> state
           | Some c \<Rightarrow>
             let signature = explorationCallSignature (mt_name c) (mt_arguments c) in
             if signature = [] then state
             else state\<lparr>xs_PlanSignatures :=
               (xs_PlanSignatures state)(signature := xs_PlanSignatures state signature + 1)\<rparr>)"

text \<open>The loop; \<open>calls\<close> are the exploration calls the assistant made so far.\<close>

fun explorationLoop ::
  "Plan option \<Rightarrow> (string \<Rightarrow> ModelTool option) \<Rightarrow> explorationState \<Rightarrow> Message list \<Rightarrow> explorationState" where
  "explorationLoop currentPlan calls state [] = state"
| "explorationLoop currentPlan calls state (message # rest) =
     (if ms_role message = ''assistant'' then
        explorationLoop currentPlan
          (remember_calls (\<lambda>c. IsExplorationTool (mt_name c)) message calls) state rest
      else if ms_role message \<noteq> ''tool'' then explorationLoop currentPlan calls state rest
      else case DecodeModelToolSummary (ms_content message) of
        None \<Rightarrow> explorationLoop currentPlan calls state rest
      | Some summary \<Rightarrow>
        if \<not> IsExplorationTool (sm_tool summary) then explorationLoop currentPlan calls state rest
        else explorationLoop currentPlan calls
          (count_call summary currentPlan (calls (ms_tool_call_id message)) state) rest)"

definition buildExplorationState :: "Message list \<Rightarrow> Plan option \<Rightarrow> explorationState" where
  "buildExplorationState transcript currentPlan =
     explorationLoop currentPlan (\<lambda>_. None) new_explorationState transcript"

subsection \<open>The budget\<close>

definition remaining :: "int \<Rightarrow> int \<Rightarrow> int" where
  "remaining limit used = (if limit \<le> used then 0 else limit - used)"

definition budgetCounter :: "int \<Rightarrow> int \<Rightarrow> ToolResultBudgetCounter" where
  "budgetCounter used limit = \<lparr>tbc_used = used, tbc_limit = limit, tbc_remaining = remaining limit used\<rparr>"

definition toolName :: "ModelTool option \<Rightarrow> string" where
  "toolName call = (case call of None \<Rightarrow> [] | Some c \<Rightarrow> mt_name c)"

definition repeatedSignatureLimit :: "ExplorationGateConfig \<Rightarrow> string \<Rightarrow> int" where
  "repeatedSignatureLimit config tool =
     (if tool = ''explore_page'' then gc_MaxRepeatedExplorePageSignatureCalls config
      else gc_MaxRepeatedExploreFlowSignatureCalls config)"

text \<open>\<open>countCompleted\<close>: the call has just been completed and is counted on top of the transcript.\<close>

definition with_current_call ::
  "explorationState \<Rightarrow> ModelTool option \<Rightarrow> bool \<Rightarrow> explorationState \<times> string" where
  "with_current_call state currentCall countCompleted =
     (case currentCall of
        None \<Rightarrow> (state, [])
      | Some call \<Rightarrow>
        if \<not> IsExplorationTool (mt_name call) then (state, [])
        else
          let state = (if countCompleted \<and> mt_name call = ''explore_page''
                then state\<lparr>xs_PlanExplorePageCalls := xs_PlanExplorePageCalls state + 1,
                  xs_RunExplorePageCalls := xs_RunExplorePageCalls state + 1\<rparr>
                else if countCompleted
                then state\<lparr>xs_PlanExploreFlowCalls := xs_PlanExploreFlowCalls state + 1,
                  xs_RunExploreFlowCalls := xs_RunExploreFlowCalls state + 1\<rparr>
                else state);
              signature = explorationCallSignature (mt_name call) (mt_arguments call)
          in (if countCompleted \<and> signature \<noteq> []
              then state\<lparr>xs_PlanSignatures :=
                (xs_PlanSignatures state)(signature := xs_PlanSignatures state signature + 1)\<rparr>
              else state, signature))"

definition explorationBudgetSummary ::
  "ExplorationGateConfig \<Rightarrow> explorationState \<Rightarrow> Plan option \<Rightarrow> ModelTool option \<Rightarrow> bool
   \<Rightarrow> ToolResultExplorationBudgetSummary" where
  "explorationBudgetSummary config state currentPlan currentCall countCompleted =
     (case with_current_call state currentCall countCompleted of (state, signature) \<Rightarrow>
       let uses = xs_PlanSignatures state signature in
       \<lparr>teb_scope = (if currentPlan = None then ''run'' else ''plan_version''),
        teb_plan_id = (case currentPlan of None \<Rightarrow> [] | Some p \<Rightarrow> pl_id p),
        teb_plan_version = (case currentPlan of None \<Rightarrow> 0 | Some p \<Rightarrow> pl_version p),
        teb_explore_page = budgetCounter (xs_PlanExplorePageCalls state) (gc_MaxExplorePageCalls config),
        teb_explore_flow = budgetCounter (xs_PlanExploreFlowCalls state) (gc_MaxExploreFlowCalls config),
        teb_run_explore_page =
          budgetCounter (xs_RunExplorePageCalls state) (gc_MaxRunExplorePageCalls config),
        teb_run_explore_flow =
          budgetCounter (xs_RunExploreFlowCalls state) (gc_MaxRunExploreFlowCalls config),
        teb_repeated_explore_page_signature_limit = gc_MaxRepeatedExplorePageSignatureCalls config,
        teb_repeated_explore_flow_signature_limit = gc_MaxRepeatedExploreFlowSignatureCalls config,
        teb_current_tool = toolName currentCall,
        teb_current_signature_uses = (if signature = [] then None else Some uses),
        teb_current_signature_remaining = (if signature = [] then None
          else Some (remaining (repeatedSignatureLimit config (toolName currentCall)) uses)),
        teb_current_signature_fingerprint = signature\<rparr>)"

definition ExplorationBudget ::
  "ExplorationGateConfig \<Rightarrow> AgentRun \<Rightarrow> Plan option \<Rightarrow> ModelTool option
   \<Rightarrow> ToolResultExplorationBudgetSummary" where
  "ExplorationBudget exploration run currentPlan completedCall =
     explorationBudgetSummary (withDefaults exploration)
       (buildExplorationState (ag_transcript run) currentPlan) currentPlan completedCall True"

subsection \<open>The decision\<close>

record ExplorationGateError =
  ge_Code :: string
  ge_Budget :: ToolResultExplorationBudgetSummary
  ge_NextAction :: string

datatype policy_error =
    NoApprovedGeneration
  | GateRefused ExplorationGateError

definition newExplorationGateError ::
  "string \<Rightarrow> ToolResultExplorationBudgetSummary \<Rightarrow> string \<Rightarrow> policy_error" where
  "newExplorationGateError code budget nextAction =
     GateRefused \<lparr>ge_Code = code, ge_Budget = budget, ge_NextAction = nextAction\<rparr>"

definition counter_text :: "string \<Rightarrow> ToolResultBudgetCounter \<Rightarrow> string" where
  "counter_text label counter =
     '' '' @ label @ ''='' @ itoa (tbc_used counter) @ ''/'' @ itoa (tbc_limit counter)"

fun policy_error_text :: "policy_error \<Rightarrow> string" where
  "policy_error_text NoApprovedGeneration = ''execute_dsl requires an approved DSL generation''"
| "policy_error_text (GateRefused e) =
     ''exploration gate '' @ ge_Code e @ '':'' @
     counter_text ''plan_page'' (teb_explore_page (ge_Budget e)) @
     counter_text ''plan_flow'' (teb_explore_flow (ge_Budget e)) @
     counter_text ''run_page'' (teb_run_explore_page (ge_Budget e)) @
     counter_text ''run_flow'' (teb_run_explore_flow (ge_Budget e)) @ ''; '' @ ge_NextAction e"

definition beforeExplorationCall ::
  "ExplorationGateConfig \<Rightarrow> go_time \<Rightarrow> AgentRun \<Rightarrow> ModelTool \<Rightarrow> Plan option \<Rightarrow> policy_error option" where
  "beforeExplorationCall exploration now run call currentPlan =
     (let config = withDefaults exploration;
          state = buildExplorationState (ag_transcript run) currentPlan;
          budget = explorationBudgetSummary config state currentPlan (Some call) False;
          signature = explorationCallSignature (mt_name call) (mt_arguments call);
          limit = repeatedSignatureLimit config (mt_name call) in
      if 0 < gc_MaxRunWallTime config \<and>
         ag_created_at run + gc_MaxRunWallTime config < now + gc_ExploreReserve config
      then Some (newExplorationGateError ''explore_deadline_budget_exhausted'' budget
        ''stop probing; if the persisted TaskPlan reports ready_for_generation, generate DSL, otherwise call ask_user_question'')
      else if mt_name call = ''explore_page'' \<and> gc_MaxRunExplorePageCalls config \<le> xs_RunExplorePageCalls state
      then Some (newExplorationGateError ''run_explore_page_budget_exhausted'' budget
        ''the run-wide hard limit is exhausted; do not revise the plan to obtain more probes'')
      else if mt_name call = ''explore_page'' \<and> gc_MaxExplorePageCalls config \<le> xs_PlanExplorePageCalls state
      then Some (newExplorationGateError ''explore_page_budget_exhausted'' budget
        ''stop probing; use the persisted TaskPlan state to generate only if all steps are grounded, otherwise ask the user or revise the plan'')
      else if mt_name call = ''explore_flow'' \<and> gc_MaxRunExploreFlowCalls config \<le> xs_RunExploreFlowCalls state
      then Some (newExplorationGateError ''run_explore_flow_budget_exhausted'' budget
        ''the run-wide hard limit is exhausted; do not revise the plan to obtain more probes'')
      else if mt_name call = ''explore_flow'' \<and> gc_MaxExploreFlowCalls config \<le> xs_PlanExploreFlowCalls state
      then Some (newExplorationGateError ''explore_flow_budget_exhausted'' budget
        ''stop probing; generate only when the persisted TaskPlan is ready, otherwise ask the user or revise the plan'')
      else if signature \<noteq> [] \<and> limit \<le> xs_PlanSignatures state signature
      then Some (newExplorationGateError (''repeated_'' @ mt_name call @ ''_signature'') budget
        ''do not repeat the same probe; change the page, actions, or bound plan steps'')
      else None)"

subsection \<open>Repeated calls\<close>

text \<open>\<open>dec_payload_status\<close>: the anonymous struct with the one member \<open>status\<close>.\<close>

definition dec_payload_status :: "string decoder" where
  "dec_payload_status = dec_struct [(''status'', dec_string)]"

text \<open>What a tool message says of its call: succeeded, failed, or nothing.\<close>

definition message_outcome :: "string \<Rightarrow> string option" where
  "message_outcome content =
     (case DecodeModelToolSummary content of
        Some summary \<Rightarrow> if sm_success summary = Some True then Some ''succeeded'' else Some ''failed''
      | None \<Rightarrow>
        if unmarshal dec_payload_status [] (parse_json content) = Some ''error''
        then Some ''failed'' else None)"

fun governanceLoop ::
  "ModelTool \<Rightarrow> string \<Rightarrow> (string \<Rightarrow> ModelTool option) \<Rightarrow> Message list \<Rightarrow> string option" where
  "governanceLoop call signature calls [] = None"
| "governanceLoop call signature calls (message # rest) =
     (if ms_role message = ''assistant'' then
        governanceLoop call signature (remember_calls (\<lambda>_. True) message calls) rest
      else if ms_role message \<noteq> ''tool'' \<or> ms_tool_call_id message = []
      then governanceLoop call signature calls rest
      else case calls (ms_tool_call_id message) of
        None \<Rightarrow> governanceLoop call signature calls rest
      | Some original \<Rightarrow>
        if mt_name original \<noteq> mt_name call \<or> governanceCallSignature original \<noteq> signature
        then governanceLoop call signature calls rest
        else case message_outcome (ms_content message) of
          Some outcome \<Rightarrow> Some outcome
        | None \<Rightarrow> governanceLoop call signature calls rest)"

definition governanceOutcome :: "Message list \<Rightarrow> ModelTool \<Rightarrow> string \<Rightarrow> string option" where
  "governanceOutcome transcript call signature = governanceLoop call signature (\<lambda>_. None) transcript"

definition repeated_call_budget :: "ModelTool \<Rightarrow> string \<Rightarrow> ToolResultExplorationBudgetSummary" where
  "repeated_call_budget call signature =
     zero_ToolResultExplorationBudgetSummary\<lparr>teb_scope := ''run'', teb_current_tool := mt_name call,
       teb_current_signature_fingerprint := signature,
       teb_repeated_explore_page_signature_limit := 1,
       teb_repeated_explore_flow_signature_limit := 1\<rparr>"

definition beforeGovernanceCall :: "AgentRun \<Rightarrow> ModelTool \<Rightarrow> policy_error option" where
  "beforeGovernanceCall run call =
     (let signature = governanceCallSignature call in
      if signature = [] then None
      else case governanceOutcome (ag_transcript run) call signature of
        None \<Rightarrow> None
      | Some outcome \<Rightarrow>
        if outcome = ''succeeded'' then None
        else Some (GateRefused \<lparr>ge_Code = ''repeated_'' @ mt_name call @ ''_signature'',
          ge_Budget = repeated_call_budget call signature,
          ge_NextAction = ''do not repeat the same '' @ mt_name call @
            '' call; change the arguments to make the call substantively different''\<rparr>))"

definition BeforeToolCall ::
  "ExplorationGateConfig \<Rightarrow> go_time \<Rightarrow> AgentRun \<Rightarrow> ModelTool \<Rightarrow> Plan option \<Rightarrow> policy_error option" where
  "BeforeToolCall exploration now run call currentPlan =
     (if mt_name call = ''execute_dsl'' then
        (if ag_approved_generation_id run = None then Some NoApprovedGeneration else None)
      else if IsExplorationTool (mt_name call)
      then beforeExplorationCall exploration now run call currentPlan
      else if mt_name call \<in> set governanceToolNames then beforeGovernanceCall run call
      else None)"

subsection \<open>The message of a call that was refused or failed (harness.go)\<close>

text \<open>\<open>gate\<close> is the gate error found by \<open>errors.As\<close>; the members of a map are written in order.\<close>

definition failure_payload :: "string \<Rightarrow> string \<Rightarrow> ExplorationGateError option \<Rightarrow> json" where
  "failure_payload tool cause_text gate = JObj (
     (case gate of None \<Rightarrow> [] | Some e \<Rightarrow> [(''code'', JStr (ge_Code e)),
        (''exploration_budget'', enc_ToolResultExplorationBudgetSummary (ge_Budget e))]) @
     [(''message'', JStr cause_text)] @
     (case gate of None \<Rightarrow> [] | Some e \<Rightarrow> [(''next_action'', JStr (ge_NextAction e))]) @
     [(''status'', JStr ''error''), (''tool'', JStr tool)])"

definition failure_message :: "ModelTool \<Rightarrow> string \<Rightarrow> ExplorationGateError option \<Rightarrow> Message" where
  "failure_message call cause_text gate = zero_Message\<lparr>ms_role := ''tool'',
     ms_content := render (failure_payload (mt_name call) cause_text gate),
     ms_tool_call_id := mt_id call\<rparr>"

end
