(* ===== verification/PolicyProperties.thy ===== *)
theory PolicyProperties
  imports HarnessPolicy
begin

section \<open>Properties of the tool policy\<close>

text \<open>
  The counters of the policy are compared with counts over the transcript, stated without the
  loop; then the limits are invariants of every transcript the policy governs.
\<close>

subsection \<open>Probes in a transcript\<close>

definition probe_of :: "Message \<Rightarrow> ModelToolSummary option" where
  "probe_of m =
     (if ms_role m \<noteq> ''tool'' then None
      else case DecodeModelToolSummary (ms_content m) of
        None \<Rightarrow> None | Some s \<Rightarrow> if IsExplorationTool (sm_tool s) then Some s else None)"

definition is_probe :: "string \<Rightarrow> Plan option \<Rightarrow> Message \<Rightarrow> bool" where
  "is_probe tool plan m \<longleftrightarrow>
     (case probe_of m of None \<Rightarrow> False | Some s \<Rightarrow> sm_tool s = tool \<and> summaryMatchesPlan s plan)"

definition probes :: "string \<Rightarrow> Plan option \<Rightarrow> Message list \<Rightarrow> int" where
  "probes tool plan t = int (length (filter (is_probe tool plan) t))"

lemma probes_simps [simp]:
  "probes tool plan [] = 0"
  "probes tool plan (m # t) = (if is_probe tool plan m then 1 else 0) + probes tool plan t"
  "probes tool plan (t @ u) = probes tool plan t + probes tool plan u"
  by (simp_all add: probes_def)

lemma probes_nonneg [simp]: "0 \<le> probes tool plan t"
  by (simp add: probes_def)

lemma summaryMatchesPlan_None [simp]: "summaryMatchesPlan s None"
  by (simp add: summaryMatchesPlan_def)

lemma count_call_counters:
  "xs_RunExplorePageCalls (count_call s plan call st) =
     xs_RunExplorePageCalls st + (if sm_tool s = ''explore_page'' then 1 else 0)"
  "xs_RunExploreFlowCalls (count_call s plan call st) =
     xs_RunExploreFlowCalls st + (if sm_tool s = ''explore_page'' then 0 else 1)"
  "xs_PlanExplorePageCalls (count_call s plan call st) = xs_PlanExplorePageCalls st +
     (if sm_tool s = ''explore_page'' \<and> summaryMatchesPlan s plan then 1 else 0)"
  "xs_PlanExploreFlowCalls (count_call s plan call st) = xs_PlanExploreFlowCalls st +
     (if sm_tool s \<noteq> ''explore_page'' \<and> summaryMatchesPlan s plan then 1 else 0)"
  by (simp_all add: count_call_def Let_def split: option.split)

lemma explorationLoop_counters:
  "xs_RunExplorePageCalls (explorationLoop plan calls st t) =
     xs_RunExplorePageCalls st + probes ''explore_page'' None t \<and>
   xs_RunExploreFlowCalls (explorationLoop plan calls st t) =
     xs_RunExploreFlowCalls st + probes ''explore_flow'' None t \<and>
   xs_PlanExplorePageCalls (explorationLoop plan calls st t) =
     xs_PlanExplorePageCalls st + probes ''explore_page'' plan t \<and>
   xs_PlanExploreFlowCalls (explorationLoop plan calls st t) =
     xs_PlanExploreFlowCalls st + probes ''explore_flow'' plan t"
proof (induction plan calls st t rule: explorationLoop.induct)
  case (2 plan calls st m rest)
  show ?case
  proof (cases "probe_of m")
    case None
    then have "\<not> is_probe tool p m" for tool p by (simp add: is_probe_def)
    with 2 None show ?thesis
      by (auto simp: probe_of_def split: option.splits if_split_asm)
  next
    case (Some s)
    then have m: "ms_role m = ''tool''" "DecodeModelToolSummary (ms_content m) = Some s"
      "IsExplorationTool (sm_tool s)"
      by (auto simp: probe_of_def split: option.splits if_split_asm)
    have "is_probe tool p m \<longleftrightarrow> sm_tool s = tool \<and> summaryMatchesPlan s p" for tool p
      using Some by (simp add: is_probe_def)
    with 2 m show ?thesis
      by (auto simp: count_call_counters IsExplorationTool_def)
  qed
qed simp

lemma buildExplorationState_counters:
  "xs_RunExplorePageCalls (buildExplorationState t plan) = probes ''explore_page'' None t"
  "xs_RunExploreFlowCalls (buildExplorationState t plan) = probes ''explore_flow'' None t"
  "xs_PlanExplorePageCalls (buildExplorationState t plan) = probes ''explore_page'' plan t"
  "xs_PlanExploreFlowCalls (buildExplorationState t plan) = probes ''explore_flow'' plan t"
  using explorationLoop_counters [of plan "\<lambda>_. None" new_explorationState t]
  by (simp_all add: buildExplorationState_def new_explorationState_def)

text \<open>The calls the loop remembers after a part of the transcript, and the loop in two parts.\<close>

fun remembered ::
  "(ModelTool \<Rightarrow> bool) \<Rightarrow> (string \<Rightarrow> ModelTool option) \<Rightarrow> Message list \<Rightarrow> string \<Rightarrow> ModelTool option" where
  "remembered p calls [] = calls"
| "remembered p calls (m # t) =
     remembered p (if ms_role m = ''assistant'' then remember_calls p m calls else calls) t"

lemma explorationLoop_append:
  "explorationLoop plan calls st (t @ u) =
     explorationLoop plan (remembered (\<lambda>c. IsExplorationTool (mt_name c)) calls t)
       (explorationLoop plan calls st t) u"
  by (induction plan calls st t rule: explorationLoop.induct) (auto split: option.split)

subsection \<open>What the gate accepts\<close>

definition run_limit :: "ExplorationGateConfig \<Rightarrow> string \<Rightarrow> int" where
  "run_limit c tool = (if tool = ''explore_page'' then gc_MaxRunExplorePageCalls (withDefaults c)
     else gc_MaxRunExploreFlowCalls (withDefaults c))"

definition plan_limit :: "ExplorationGateConfig \<Rightarrow> string \<Rightarrow> int" where
  "plan_limit c tool = (if tool = ''explore_page'' then gc_MaxExplorePageCalls (withDefaults c)
     else gc_MaxExploreFlowCalls (withDefaults c))"

definition in_time :: "ExplorationGateConfig \<Rightarrow> go_time \<Rightarrow> AgentRun \<Rightarrow> bool" where
  "in_time c now run \<longleftrightarrow> gc_MaxRunWallTime c \<le> 0 \<or>
     now + gc_ExploreReserve (withDefaults c) \<le> ag_created_at run + gc_MaxRunWallTime c"

definition signature_uses :: "Message list \<Rightarrow> Plan option \<Rightarrow> ModelTool \<Rightarrow> int" where
  "signature_uses t plan call = xs_PlanSignatures (buildExplorationState t plan)
     (explorationCallSignature (mt_name call) (mt_arguments call))"

lemma explore_names [simp]: "IsExplorationTool tool \<Longrightarrow> tool \<noteq> ''execute_dsl''"
  by (auto simp: IsExplorationTool_def)

lemma gate_iff:
  assumes "IsExplorationTool (mt_name call)"
  shows "BeforeToolCall c now run call plan = None \<longleftrightarrow>
    in_time c now run \<and>
    probes (mt_name call) None (ag_transcript run) < run_limit c (mt_name call) \<and>
    probes (mt_name call) plan (ag_transcript run) < plan_limit c (mt_name call) \<and>
    (explorationCallSignature (mt_name call) (mt_arguments call) = [] \<or>
     signature_uses (ag_transcript run) plan call <
       repeatedSignatureLimit (withDefaults c) (mt_name call))"
proof -
  have "gc_MaxRunWallTime (withDefaults c) = gc_MaxRunWallTime c"
    by (simp add: withDefaults_def)
  with assms show ?thesis
    by (auto simp: BeforeToolCall_def beforeExplorationCall_def Let_def in_time_def run_limit_def
      plan_limit_def signature_uses_def buildExplorationState_counters IsExplorationTool_def not_le)
qed

text \<open>
  The gate lets a probe through exactly when the time is not over, the probes of its tool
  recorded in the transcript are fewer than the limit of the run, those recorded for the current
  plan version are fewer than the limit of a plan, and the call has no signature or its signature
  was used less often than allowed.
\<close>

theorem exploration_gate_iff:
  assumes "IsExplorationTool (mt_name call)"
  shows "BeforeToolCall c now run call plan = None \<longleftrightarrow>
    in_time c now run \<and>
    probes (mt_name call) None (ag_transcript run) < run_limit c (mt_name call) \<and>
    probes (mt_name call) plan (ag_transcript run) < plan_limit c (mt_name call) \<and>
    (explorationCallSignature (mt_name call) (mt_arguments call) = [] \<or>
     signature_uses (ag_transcript run) plan call <
       repeatedSignatureLimit (withDefaults c) (mt_name call))"
  by (rule gate_iff [OF assms])

subsection \<open>Limits as invariants\<close>

text \<open>
  The transcripts of a run whose probes all passed the gate: a run starts without probes, other
  messages are added freely, and the result of a probe is added only when the gate, asked with
  the transcript so far and some current plan, let the call through; the summary carries the
  identity of this plan.
\<close>

definition summary_of_plan :: "ModelToolSummary \<Rightarrow> Plan option \<Rightarrow> bool" where
  "summary_of_plan s plan \<longleftrightarrow>
     (case plan of None \<Rightarrow> sm_task_plan s = None
      | Some p \<Rightarrow> \<exists>t. sm_task_plan s = Some t \<and> ttp_plan_id t = pl_id p \<and> ttp_version t = pl_version p)"

inductive governed :: "ExplorationGateConfig \<Rightarrow> Message list \<Rightarrow> bool" for c where
  governed_start: "governed c []"
| governed_other: "governed c t \<Longrightarrow> probe_of m = None \<Longrightarrow> governed c (t @ [m])"
| governed_probe: "governed c t \<Longrightarrow> ag_transcript run = t \<Longrightarrow>
    BeforeToolCall c now run call plan = None \<Longrightarrow> probe_of m = Some s \<Longrightarrow>
    sm_tool s = mt_name call \<Longrightarrow> summary_of_plan s plan \<Longrightarrow> governed c (t @ [m])"

lemma limits_positive: "0 < run_limit c tool" "0 < plan_limit c tool"
  by (simp_all add: run_limit_def plan_limit_def withDefaults_def or_default_def)

lemma probe_of_tool: "probe_of m = Some s \<Longrightarrow> IsExplorationTool (sm_tool s)"
  by (auto simp: probe_of_def split: option.splits if_split_asm)

lemma summary_of_plan_probes:
  assumes "summary_of_plan s plan" and "summaryMatchesPlan s (Some p)"
  shows "is_probe tool (Some p) = is_probe tool plan"
proof -
  obtain p' where "plan = Some p'" "pl_id p' = pl_id p" "pl_version p' = pl_version p"
    using assms by (auto simp: summary_of_plan_def summaryMatchesPlan_def split: option.splits)
  then show ?thesis
    by (intro ext) (simp add: is_probe_def summaryMatchesPlan_def split: option.split)
qed

text \<open>
  C18. No run gets more probes than its limit, whatever the model asks for and however often it
  revises the plan, and no plan version gets more probes than the limit of a plan. The limits
  are those configured, or the defaults where nothing positive is configured.
\<close>

theorem probes_never_exceed_limits:
  assumes "governed c t" and "IsExplorationTool tool"
  shows "probes tool None t \<le> run_limit c tool \<and> probes tool (Some plan) t \<le> plan_limit c tool"
  using assms(1)
proof induction
  case governed_start
  then show ?case using limits_positive [of c tool] by (simp add: less_imp_le)
next
  case (governed_other t m)
  then show ?case by (simp add: is_probe_def)
next
  case (governed_probe t run now call p m s)
  have "IsExplorationTool (mt_name call)"
    using probe_of_tool governed_probe by metis
  from gate_iff [OF this, of c now run p] governed_probe
  have gate: "probes (mt_name call) None t < run_limit c (mt_name call)"
    "probes (mt_name call) p t < plan_limit c (mt_name call)"
    by auto
  have same: "probes tool (Some plan) t = probes tool p t" if "is_probe tool (Some plan) m"
    using summary_of_plan_probes [of s p plan] that governed_probe by (simp add: probes_def is_probe_def)
  have tool: "tool = mt_name call" if "is_probe tool q m" for q
    using that governed_probe by (simp add: is_probe_def)
  have "probes tool None (t @ [m]) \<le> run_limit c tool"
    using gate(1) governed_probe tool [of None] by auto
  moreover have "probes tool (Some plan) (t @ [m]) \<le> plan_limit c tool"
    using gate(2) governed_probe tool [of "Some plan"] same by auto
  ultimately show ?case ..
qed

subsection \<open>The budget the model is told\<close>

text \<open>
  C21. After a probe the model is told what is left; this is computed before the result of the
  probe is in the transcript, by counting the completed call on top. It is exactly the budget
  the gate computes from the transcript once the result is there: what the model is told is
  what is enforced.
\<close>

theorem told_budget_is_enforced:
  assumes "IsExplorationTool (mt_name call)"
    and "remembered (\<lambda>c. IsExplorationTool (mt_name c)) (\<lambda>_. None) (ag_transcript run)
      (ms_tool_call_id m) = Some call"
    and "probe_of m = Some s" and "sm_tool s = mt_name call" and "summaryMatchesPlan s plan"
  shows "ExplorationBudget c run plan (Some call) =
    explorationBudgetSummary (withDefaults c)
      (buildExplorationState (ag_transcript run @ [m]) plan) plan (Some call) False"
proof -
  let ?st = "buildExplorationState (ag_transcript run) plan"
  have m: "ms_role m = ''tool''" "DecodeModelToolSummary (ms_content m) = Some s"
    using assms(3) by (auto simp: probe_of_def split: option.splits if_split_asm)
  have "buildExplorationState (ag_transcript run @ [m]) plan = count_call s plan (Some call) ?st"
    using assms m unfolding buildExplorationState_def explorationLoop_append by simp
  moreover have "with_current_call ?st (Some call) True =
      with_current_call (count_call s plan (Some call) ?st) (Some call) False"
    using assms(1,4,5) by (simp add: with_current_call_def count_call_def Let_def)
  ultimately show ?thesis
    by (simp add: ExplorationBudget_def explorationBudgetSummary_def)
qed

subsection \<open>Repeated calls\<close>

lemma governanceLoop_append:
  "governanceLoop call sig calls (t @ u) =
     (case governanceLoop call sig calls t of
        Some outcome \<Rightarrow> Some outcome
      | None \<Rightarrow> governanceLoop call sig (remembered (\<lambda>_. True) calls t) u)"
  by (induction call sig calls t rule: governanceLoop.induct) (auto split: option.split)

text \<open>
  The first completed attempt decides: once the transcript holds a completed attempt with the
  signature of a planning, generating, reporting or repairing call, the verdict on this call
  is the same for every continuation of the transcript. A call that failed once is refused for
  the rest of the run; one that succeeded first is never refused, however often it fails later.
\<close>

theorem first_attempt_decides:
  assumes "mt_name call \<in> set governanceToolNames"
    and "governanceOutcome t call (governanceCallSignature call) = Some outcome"
  shows "BeforeToolCall c now (run\<lparr>ag_transcript := t @ u\<rparr>) call plan =
    BeforeToolCall c' now' (run'\<lparr>ag_transcript := t\<rparr>) call plan'"
proof -
  have "governanceOutcome (t @ u) call (governanceCallSignature call) =
      governanceOutcome t call (governanceCallSignature call)"
    using assms(2) by (simp add: governanceOutcome_def governanceLoop_append)
  moreover have "\<not> IsExplorationTool (mt_name call)" "mt_name call \<noteq> ''execute_dsl''"
    using assms(1) by (auto simp: governanceToolNames_def IsExplorationTool_def)
  ultimately show ?thesis
    using assms(1) by (simp add: BeforeToolCall_def beforeGovernanceCall_def Let_def)
qed

text \<open>What the harness writes for a failed call is read back by the policy.\<close>

lemma failure_payload_parses: "parse_json (render (failure_payload tool cause_text gate)) =
    Some (failure_payload tool cause_text gate)"
  by (rule parse_render)
    (auto simp: failure_payload_def enc_ToolResultExplorationBudgetSummary_def
      enc_ToolResultBudgetCounter_def omit_empty_string_def omit_zero_int_def omit_nil_def
      maxNestingDepth_def split: option.split)

lemma failure_payload_no_summary:
  "DecodeModelToolSummary (render (failure_payload tool cause_text gate)) = None"
proof -
  have "dec_schema_version (failure_payload tool cause_text gate) [] = Some []"
    by (cases gate) (simp_all add: dec_schema_version_def failure_payload_def decode_simps
      go_string_simps)
  then show ?thesis
    by (simp add: DecodeModelToolSummary_def unmarshal_def failure_payload_parses ModelToolSummarySchemaV1_def)
qed

lemma failure_message_outcome:
  "message_outcome (render (failure_payload tool cause_text gate)) = Some ''failed''"
proof -
  have "dec_payload_status (failure_payload tool cause_text gate) [] = Some ''error''"
    by (cases gate) (simp_all add: dec_payload_status_def failure_payload_def decode_simps
      go_string_simps)
  then show ?thesis
    by (simp add: message_outcome_def failure_payload_no_summary unmarshal_def failure_payload_parses)
qed

text \<open>
  C28. When the first attempt of a planning, generating, reporting or repairing call failed, no
  call of the same tool with the same signature is let through again in this run. \<open>t\<close> is the
  transcript before the failure: it asks for the failed call and records no outcome of an earlier
  attempt with this signature, for it is the first outcome that decides (a call that once
  succeeded is never refused). \<open>failure_message\<close> is the text the harness writes, which the policy
  parses again; \<open>u\<close> is whatever follows.
\<close>

theorem failed_call_is_not_repeated:
  assumes "mt_name call \<in> set governanceToolNames" and "governanceCallSignature call \<noteq> []"
    and "remembered (\<lambda>_. True) (\<lambda>_. None) t (mt_id failed) = Some failed" and "mt_id failed \<noteq> []"
    and "mt_name failed = mt_name call" and "governanceCallSignature failed = governanceCallSignature call"
    and "governanceOutcome t call (governanceCallSignature call) = None"
  shows "\<exists>e. BeforeToolCall c now (run\<lparr>ag_transcript := t @ failure_message failed cause_text gate # u\<rparr>) call plan
    = Some (GateRefused e) \<and> ge_Code e = ''repeated_'' @ mt_name call @ ''_signature''"
proof -
  let ?m = "failure_message failed cause_text gate"
  have "governanceOutcome (t @ ?m # u) call (governanceCallSignature call) = Some ''failed''"
    using assms(3-7) unfolding governanceOutcome_def governanceLoop_append
    by (simp add: failure_message_def zero_Message_def failure_message_outcome)
  moreover have "\<not> IsExplorationTool (mt_name call)" "mt_name call \<noteq> ''execute_dsl''"
    using assms(1) by (auto simp: governanceToolNames_def IsExplorationTool_def)
  ultimately show ?thesis
    using assms(1,2) by (simp add: BeforeToolCall_def beforeGovernanceCall_def Let_def)
qed

text \<open>
  A finding: a probe that ends in an error is free. The comment in the code says that failed
  calls still count toward the budget; but the harness records a call whose execution failed (or
  that was refused) as an error payload, which is not a summary, and the policy counts only
  summaries. After such a failure the gate decides about every probe, the same one included,
  as it did before.
\<close>

theorem failed_probes_are_free:
  assumes "IsExplorationTool (mt_name call)"
  shows "BeforeToolCall c now (run\<lparr>ag_transcript := t @ [failure_message failed cause_text gate]\<rparr>) call plan =
    BeforeToolCall c now (run\<lparr>ag_transcript := t\<rparr>) call plan"
proof -
  have "buildExplorationState (t @ [failure_message failed cause_text gate]) plan = buildExplorationState t plan"
    unfolding buildExplorationState_def explorationLoop_append
    by (simp add: failure_message_def zero_Message_def failure_payload_no_summary)
  then show ?thesis
    using assms by (simp add: BeforeToolCall_def beforeExplorationCall_def Let_def)
qed

subsection \<open>Signatures\<close>

lemma json_depth_le_iff:
  "json_depth (JArr js) \<le> n \<longleftrightarrow> (\<exists>k. n = Suc k \<and> (\<forall>j \<in> set js. json_depth j \<le> k))"
  "json_depth (JObj ms) \<le> n \<longleftrightarrow> (\<exists>k. n = Suc k \<and> (\<forall>p \<in> set ms. json_depth (snd p) \<le> k))"
proof -
  have "foldr (\<lambda>x. max (f x)) xs (0 :: nat) \<le> k \<longleftrightarrow> (\<forall>x \<in> set xs. f x \<le> k)" for f k and xs :: "'a list"
    by (induction xs) auto
  then show "json_depth (JArr js) \<le> n \<longleftrightarrow> (\<exists>k. n = Suc k \<and> (\<forall>j \<in> set js. json_depth j \<le> k))"
    by (cases n) simp_all
  have "foldr (\<lambda>x. max (f x)) xs (0 :: nat) \<le> k \<longleftrightarrow> (\<forall>x \<in> set xs. f x \<le> k)" for f k and xs :: "(string \<times> json) list"
    by (induction xs) auto
  then show "json_depth (JObj ms) \<le> n \<longleftrightarrow> (\<exists>k. n = Suc k \<and> (\<forall>p \<in> set ms. json_depth (snd p) \<le> k))"
    by (cases n) simp_all
qed

lemma map_members_distinct: "distinct (map fst ms) \<Longrightarrow> map_members ms = ms"
proof -
  have "distinct (map fst (m @ ms)) \<Longrightarrow> fold (\<lambda>p m. assoc_put (fst p) (snd p) m) ms m = m @ ms" for m
    by (induction ms arbitrary: m) (auto simp: assoc_put_def)
  from this [of "[]"] show "distinct (map fst ms) \<Longrightarrow> map_members ms = ms"
    by (simp add: map_members_def)
qed

lemma set_map_members: "set (map_members ms) \<subseteq> set ms"
proof -
  have put: "set (assoc_put k v m) \<subseteq> insert (k, v) (set m)" for k v and m :: "(string \<times> 'a) list"
    by (auto simp: assoc_put_def split: if_splits)
  have "set (fold (\<lambda>p m. assoc_put (fst p) (snd p) m) ms m) \<subseteq> set m \<union> set ms" for m
  proof (induction ms arbitrary: m)
    case (Cons p ms)
    show ?case using Cons.IH [of "assoc_put (fst p) (snd p) m"] put [of "fst p" "snd p" m] by auto
  qed simp
  from this [of "[]"] show ?thesis by (simp add: map_members_def)
qed

lemma anyval_members:
  assumes "\<And>q. q \<in> set ms \<Longrightarrow> P (anyval (snd q))"
  shows "\<forall>p \<in> set (map_members (map (\<lambda>p. (fst p, anyval (snd p))) ms)). P (snd p)"
  using assms set_map_members [of "map (\<lambda>p. (fst p, anyval (snd p))) ms"] by fastforce

lemma anyval_object:
  assumes "\<And>p. p \<in> set ns \<Longrightarrow> anyval (snd p) = snd p"
    and "distinct (map fst ns)" and "sorted (map fst ns)"
  shows "anyval (JObj ns) = JObj ns"
proof -
  have "map (\<lambda>p. (fst p, anyval (snd p))) ns = ns"
    by (rule map_idI) (simp add: assms(1))
  then show ?thesis
    using assms(2,3) by (simp add: map_members_distinct sort_key_id_if_sorted)
qed

lemma anyval_normalized:
  "anyval (normalizeJSONForSignature (anyval j)) = normalizeJSONForSignature (anyval j)"
proof (induction j rule: anyval.induct)
  case (1 m k)
  show ?case
    using norm_dec_id [OF f64_norm_norm_dec, of m k] by (simp add: enc_f64_def)
next
  case (3 ms)
  let ?ms = "sort_key fst (map_members (map (\<lambda>p. (fst p, anyval (snd p))) ms))"
  let ?ns = "map (\<lambda>p. (fst p, normalizeJSONForSignature (snd p)))
    (filter (\<lambda>p. fst p \<notin> set descriptive_keys) ?ms)"
  have plain: "anyval (snd p) = snd p" if "p \<in> set ?ns" for p
  proof -
    have "\<forall>q \<in> set ?ms. anyval (normalizeJSONForSignature (snd q)) = normalizeJSONForSignature (snd q)"
      using anyval_members [of ms "\<lambda>v. anyval (normalizeJSONForSignature v) = normalizeJSONForSignature v"] 3
      by simp
    with that show ?thesis by auto
  qed
  have "distinct (map fst ?ms)"
    using distinct_map_members by (simp add: distinct_map)
  then have "distinct (map fst ?ns)"
    by (simp add: distinct_map inj_on_def)
  moreover have "sorted (map fst ?ns)"
    by (simp add: o_def sorted_filter)
  ultimately have "anyval (JObj ?ns) = JObj ?ns"
    using plain by (intro anyval_object)
  then show ?case by (simp only: anyval.simps normalizeJSONForSignature.simps)
qed auto

lemma normalizeSemanticText_words: "normalizeSemanticText s = lower_words s"
  unfolding normalizeSemanticText_def lower_words_def ..

lemma normalizeJSONForSignature_idem:
  "normalizeJSONForSignature (normalizeJSONForSignature j) = normalizeJSONForSignature j"
  by (induction j rule: normalizeJSONForSignature.induct)
    (auto simp: normalizeSemanticText_words filter_map o_def)

lemma normalize_integral: "integral j \<Longrightarrow> integral (normalizeJSONForSignature j)"
  by (induction j rule: normalizeJSONForSignature.induct) (auto simp: list_all_iff)

lemma normalize_depth: "json_depth j \<le> n \<Longrightarrow> json_depth (normalizeJSONForSignature j) \<le> n"
proof (induction j arbitrary: n rule: normalizeJSONForSignature.induct)
  case (1 ms)
  then show ?case
    by (fastforce simp: json_depth_le_iff simp del: json_depth.simps(1,2))
qed (auto simp: json_depth_le_iff simp del: json_depth.simps(1,2))

lemma anyval_integral: "integral j \<Longrightarrow> integral (anyval j)"
proof (induction j rule: anyval.induct)
  case (3 ms)
  then show ?case using anyval_members [of ms integral] by (auto simp: list_all_iff)
qed (auto simp: list_all_iff)

lemma anyval_depth: "integral j \<Longrightarrow> json_depth j \<le> n \<Longrightarrow> json_depth (anyval j) \<le> n"
proof (induction j arbitrary: n rule: anyval.induct)
  case (3 ms)
  then obtain k where k: "n = Suc k" "\<forall>p \<in> set ms. json_depth (snd p) \<le> k"
    by (auto simp only: json_depth_le_iff)
  with 3 have "json_depth (anyval (snd p)) \<le> k" if "p \<in> set ms" for p
    using that by (simp add: list_all_iff)
  from anyval_members [of ms "\<lambda>v. json_depth v \<le> k", OF this] k(1) show ?case
    by (simp add: json_depth_le_iff del: json_depth.simps(1,2))
qed (auto simp: json_depth_le_iff list_all_iff simp del: json_depth.simps(1,2))

text \<open>
  Rewriting the arguments does not help: dropping descriptions and time limits, changing
  the case or the spacing of texts, reordering or repeating members, all at once, leave the
  signature of a probe as it was. The normal form of the arguments has the signature of the
  arguments.
\<close>

theorem signature_of_normal_form:
  assumes "integral j" and "json_depth j \<le> maxNestingDepth"
  shows "explorationCallSignature tool (render (normalizeJSONForSignature (anyval j))) =
    explorationCallSignature tool (render j)"
proof -
  have "json_depth (normalizeJSONForSignature (anyval j)) \<le> maxNestingDepth"
    by (rule normalize_depth [OF anyval_depth [OF assms]])
  moreover have "integral (normalizeJSONForSignature (anyval j))"
    by (rule normalize_integral [OF anyval_integral [OF assms(1)]])
  ultimately show ?thesis
    using assms by (simp add: explorationCallSignature_def parse_render unmarshal_def dec_any_def
      anyval_normalized normalizeJSONForSignature_idem)
qed

subsection \<open>The policy, tried out\<close>

definition no_config :: ExplorationGateConfig where
  "no_config = \<lparr>gc_MaxExplorePageCalls = 0, gc_MaxExploreFlowCalls = 0, gc_MaxRunExplorePageCalls = 0,
     gc_MaxRunExploreFlowCalls = 0, gc_MaxRepeatedExplorePageSignatureCalls = 0,
     gc_MaxRepeatedExploreFlowSignatureCalls = 0, gc_MaxRunWallTime = 0, gc_ExploreReserve = 0\<rparr>"

definition run_with_transcript :: "Message list \<Rightarrow> AgentRun" where
  "run_with_transcript t = \<lparr>ag_id = ''run_0'', ag_actor_user_id = 1, ag_conversation_id = ''c1'',
     ag_project_id = 0, ag_status = RunStatusRunning, ag_input = ''Test the login'',
     ag_pending_tool_call_id = None, ag_pending_step_id = None, ag_latest_generation_id = None,
     ag_approved_generation_id = None, ag_transcript = t, ag_created_at = 0, ag_updated_at = 0\<rparr>"

definition sample_probe :: ModelTool where
  "sample_probe = \<lparr>mt_id = ''t1'', mt_name = ''explore_page'', mt_arguments = ''{}''\<rparr>"

definition sample_planning :: ModelTool where
  "sample_planning = \<lparr>mt_id = ''t1'', mt_name = ''set_task_plan'', mt_arguments = ''{}''\<rparr>"

definition asks :: "ModelTool \<Rightarrow> Message" where
  "asks call = zero_Message\<lparr>ms_role := ''assistant'', ms_tool_calls := [call]\<rparr>"

definition probe_summary :: json where
  "probe_summary = JObj [(''schema_version'', JStr ModelToolSummarySchemaV1), (''tool'', JStr ''explore_page'')]"

definition probe_result :: Message where
  "probe_result = zero_Message\<lparr>ms_role := ''tool'', ms_content := render probe_summary,
     ms_tool_call_id := ''t1''\<rparr>"

lemma probe_result_of: "probe_of probe_result =
    Some (zero_ModelToolSummary\<lparr>sm_schema_version := ModelToolSummarySchemaV1, sm_tool := ''explore_page''\<rparr>)"
proof -
  have "parse_json (render probe_summary) = Some probe_summary"
    by (rule parse_render) (simp_all add: probe_summary_def maxNestingDepth_def)
  then show ?thesis
    by (simp add: probe_of_def probe_result_def zero_Message_def DecodeModelToolSummary_def
      dec_schema_version_def dec_ModelToolSummary_def probe_summary_def decode_simps go_string_simps
      zero_ModelToolSummary_def IsExplorationTool_def)
qed

lemma sample_is_probe: "IsExplorationTool (mt_name sample_probe)"
  by (simp add: sample_probe_def IsExplorationTool_def)

lemma sample_limits: "run_limit no_config ''explore_page'' = 10" "plan_limit no_config ''explore_page'' = 5"
  "repeatedSignatureLimit (withDefaults no_config) ''explore_page'' = 1"
  by (simp_all add: run_limit_def plan_limit_def withDefaults_def or_default_def no_config_def
    repeatedSignatureLimit_def)

lemma sample_probe_allowed: "BeforeToolCall no_config 0 (run_with_transcript [asks sample_probe]) sample_probe None = None"
  unfolding gate_iff [OF sample_is_probe] using sample_limits
  by (simp add: run_with_transcript_def sample_probe_def in_time_def no_config_def asks_def zero_Message_def
    is_probe_def probe_of_def signature_uses_def buildExplorationState_def new_explorationState_def)

theorem exploration_gate_iff_witness:
  "BeforeToolCall no_config 0 (run_with_transcript []) sample_probe None = None"
  unfolding exploration_gate_iff [OF sample_is_probe] using sample_limits
  by (simp add: run_with_transcript_def sample_probe_def in_time_def no_config_def
    signature_uses_def buildExplorationState_def new_explorationState_def)

theorem probes_never_exceed_limits_witness:
  "probes ''explore_page'' None [asks sample_probe, probe_result] = 1 \<and>
   probes ''explore_page'' None [asks sample_probe, probe_result] \<le> run_limit no_config ''explore_page''"
proof -
  have "probe_of (asks sample_probe) = None"
    by (simp add: probe_of_def asks_def)
  then have one: "governed no_config ([] @ [asks sample_probe])"
    by (rule governed_other [OF governed_start])
  have "governed no_config ([asks sample_probe] @ [probe_result])"
    by (rule governed_probe [OF _ _ sample_probe_allowed probe_result_of])
      (use one in \<open>simp_all add: run_with_transcript_def sample_probe_def summary_of_plan_def
        zero_ModelToolSummary_def\<close>)
  moreover have "IsExplorationTool ''explore_page''" by (simp add: IsExplorationTool_def)
  ultimately have "probes ''explore_page'' None [asks sample_probe, probe_result] \<le> run_limit no_config ''explore_page''"
    using probes_never_exceed_limits by fastforce
  moreover have "probes ''explore_page'' None [asks sample_probe, probe_result] = 1"
    using \<open>probe_of (asks sample_probe) = None\<close> by (simp add: is_probe_def probe_result_of)
  ultimately show ?thesis by simp
qed

theorem told_budget_is_enforced_witness:
  "ExplorationBudget no_config (run_with_transcript [asks sample_probe]) None (Some sample_probe) =
    explorationBudgetSummary (withDefaults no_config)
      (buildExplorationState ([asks sample_probe] @ [probe_result]) None) None (Some sample_probe) False"
proof -
  have t: "ag_transcript (run_with_transcript t) = t" for t
    by (simp add: run_with_transcript_def)
  have "remembered (\<lambda>c. IsExplorationTool (mt_name c)) (\<lambda>_. None)
      (ag_transcript (run_with_transcript [asks sample_probe])) (ms_tool_call_id probe_result) = Some sample_probe"
    unfolding t using sample_is_probe
    by (simp add: asks_def zero_Message_def remember_calls_def probe_result_def) (simp add: sample_probe_def)
  from told_budget_is_enforced [OF sample_is_probe this probe_result_of, of None no_config, unfolded t]
  show ?thesis by (simp add: sample_probe_def zero_ModelToolSummary_def)
qed

lemma sample_signature: "governanceCallSignature sample_planning \<noteq> []"
proof -
  have "parse_json ''{}'' = Some (JObj [])" by code_simp
  then have "unmarshal dec_any JNull (parse_json (mt_arguments sample_planning)) = Some (JObj [])"
    by (simp add: sample_planning_def unmarshal_def dec_any_def map_members_def)
  then obtain x where "governanceCallSignature sample_planning = sha256_hex x"
    by (simp only: governanceCallSignature_def option.case)
  then show ?thesis
    using length_sha256_hex [of x] by (metis list.size(3) zero_neq_numeral)
qed

lemma asked_once: "remembered (\<lambda>_. True) (\<lambda>_. None) [asks sample_planning] (mt_id sample_planning) = Some sample_planning"
  "governanceOutcome [asks sample_planning] call sig = None"
  by (simp_all add: asks_def zero_Message_def remember_calls_def sample_planning_def governanceOutcome_def)

lemma failed_once: "governanceOutcome [asks sample_planning, failure_message sample_planning ''x'' None]
    sample_planning (governanceCallSignature sample_planning) = Some ''failed''"
  by (simp add: governanceOutcome_def asks_def zero_Message_def remember_calls_def failure_message_def
      failure_message_outcome) (simp add: sample_planning_def)

theorem first_attempt_decides_witness:
  "BeforeToolCall no_config 5 (run_with_transcript ([asks sample_planning,
      failure_message sample_planning ''x'' None] @ [asks sample_probe, probe_result])) sample_planning None =
    BeforeToolCall no_config 7 (run_with_transcript [asks sample_planning,
      failure_message sample_planning ''x'' None]) sample_planning None"
proof -
  have "mt_name sample_planning \<in> set governanceToolNames"
    by (simp add: sample_planning_def governanceToolNames_def)
  from first_attempt_decides [OF this failed_once, where run = "run_with_transcript []"
      and run' = "run_with_transcript []" and c = no_config and c' = no_config and now = 5 and now' = 7
      and u = "[asks sample_probe, probe_result]" and plan = None and plan' = None]
  show ?thesis by (simp add: run_with_transcript_def)
qed

theorem failed_call_is_not_repeated_witness:
  "\<exists>e. BeforeToolCall no_config 5 (run_with_transcript ([asks sample_planning] @
      failure_message sample_planning ''x'' None # [])) sample_planning None = Some (GateRefused e) \<and>
    ge_Code e = ''repeated_set_task_plan_signature''"
proof -
  have "mt_name sample_planning \<in> set governanceToolNames" "mt_id sample_planning \<noteq> []"
    by (simp_all add: sample_planning_def governanceToolNames_def)
  from failed_call_is_not_repeated [OF this(1) sample_signature asked_once(1) this(2) refl refl asked_once(2),
      where c = no_config and now = 5 and run = "run_with_transcript []" and cause_text = "''x''"
      and gate = None and u = "[]" and plan = None]
  show ?thesis by (simp add: run_with_transcript_def) (simp add: sample_planning_def)
qed

theorem failed_probes_are_free_witness:
  "BeforeToolCall no_config 5 (run_with_transcript ([asks sample_probe] @
      [failure_message sample_probe ''worker unavailable'' None])) sample_probe None =
    BeforeToolCall no_config 5 (run_with_transcript [asks sample_probe]) sample_probe None"
  using failed_probes_are_free [OF sample_is_probe, where run = "run_with_transcript []"
      and t = "[asks sample_probe]" and failed = sample_probe and c = no_config and now = 5
      and cause_text = "''worker unavailable''" and gate = None and plan = None]
  by (simp add: run_with_transcript_def)

theorem signature_of_normal_form_witness:
  "explorationCallSignature ''explore_page'' (render (JObj [(''url'', JStr ''a b'')])) =
   explorationCallSignature ''explore_page'' (render (JObj [(''url'', JStr ''A  b''), (''timeout_ms'', JInt 5)]))"
proof -
  have "normalizeJSONForSignature (anyval (JObj [(''url'', JStr ''A  b''), (''timeout_ms'', JInt 5)])) =
      JObj [(''url'', JStr ''a b'')]"
    by code_simp
  moreover have "explorationCallSignature ''explore_page''
      (render (normalizeJSONForSignature (anyval (JObj [(''url'', JStr ''A  b''), (''timeout_ms'', JInt 5)])))) =
      explorationCallSignature ''explore_page'' (render (JObj [(''url'', JStr ''A  b''), (''timeout_ms'', JInt 5)]))"
    by (rule signature_of_normal_form) (simp_all add: maxNestingDepth_def)
  ultimately show ?thesis by (simp only:)
qed

end
