(* ===== verification/AgentLoop.thy ===== *)
theory AgentLoop
  imports ToolSummary AgentRuns
begin

section \<open>The agent loop (internal/agent/loop.go)\<close>

text \<open>
  The loop asks the model for its next move with the last segment of the transcript, records the
  answer, and hands it to the handler of the harness, which runs the tool calls and says whether
  to go on. The model, the handler and the turn budget are arguments; they act on a state of
  their own. The budget may grow while the loop runs, so the loop need not end by itself:
  it is an option-valued function, and that it returns is a theorem.
\<close>

record ModelResponse =
  rs_content :: string
  rs_reasoning_content :: string
  rs_tool_calls :: "ModelTool list"

datatype 'e loop_error =
    TurnsExceeded int string
  | TurnFailed 'e

record ('w, 'e) turn_env =
  te_complete :: "Message list \<Rightarrow> 'w \<Rightarrow> ('e + ModelResponse) \<times> 'w"
  te_handle :: "ModelResponse \<Rightarrow> Message list \<Rightarrow> 'w \<Rightarrow> ('e + bool) \<times> Message list \<times> 'w"
  te_context :: "('w \<Rightarrow> 'w) option"
  te_budget :: "(int \<Rightarrow> 'w \<Rightarrow> int) option"

record agent_loop =
  lp_system_prompt :: string
  lp_max_turns :: int

definition NewLoop :: "string \<Rightarrow> int \<Rightarrow> agent_loop" where
  "NewLoop systemPrompt maxTurns =
     \<lparr>lp_system_prompt = systemPrompt, lp_max_turns = (if maxTurns < 1 then 1 else maxTurns)\<rparr>"

subsection \<open>What the model sees\<close>

text \<open>The search from the end of the transcript for the last message that opens a segment.\<close>

fun last_segment :: "Message list \<Rightarrow> Message list option" where
  "last_segment [] = None"
| "last_segment (m # rest) =
     (case last_segment rest of
        Some s \<Rightarrow> Some s
      | None \<Rightarrow> if ms_segment_boundary m then Some (m # rest) else None)"

definition ModelContext :: "Message list \<Rightarrow> Message list" where
  "ModelContext transcript = (case last_segment transcript of None \<Rightarrow> transcript | Some s \<Rightarrow> s)"

subsection \<open>The last error\<close>

definition trimmed_message :: "ToolResultErrorSummary option \<Rightarrow> string" where
  "trimmed_message failure = (case failure of None \<Rightarrow> [] | Some f \<Rightarrow> TrimSpace (ter_message f))"

text \<open>The first text of a list that is not empty, or the empty text.\<close>

definition first_nonempty :: "string list \<Rightarrow> string" where
  "first_nonempty ss = (case find (\<lambda>s. s \<noteq> []) ss of None \<Rightarrow> [] | Some s \<Rightarrow> s)"

definition summary_error :: "ModelToolSummary \<Rightarrow> string" where
  "summary_error summary =
     (if sm_success summary = Some True then []
      else first_nonempty (
        map (\<lambda>f. trimmed_message (Some f)) (sm_failures summary) @
        concat (map (\<lambda>page. trimmed_message (tpg_failure page) #
          map (\<lambda>action. trimmed_message (tac_failure action)) (tpg_actions page)) (sm_pages summary))))"

definition dec_status_message :: "(string \<times> string) decoder" where
  "dec_status_message = dec_struct
     [(''status'', fld dec_string fst apfst), (''message'', fld dec_string snd apsnd)]"

definition message_error :: "string \<Rightarrow> string" where
  "message_error content =
     (case DecodeModelToolSummary content of
        Some summary \<Rightarrow> summary_error summary
      | None \<Rightarrow>
        (case unmarshal dec_status_message ([], []) (parse_json content) of
           None \<Rightarrow> []
         | Some (status, message) \<Rightarrow> if status \<noteq> ''error'' then [] else TrimSpace message))"

definition latestToolError :: "Message list \<Rightarrow> string" where
  "latestToolError transcript =
     (case find (\<lambda>m. ms_role m = ''tool'') (rev transcript) of
        None \<Rightarrow> [] | Some m \<Rightarrow> message_error (ms_content m))"

subsection \<open>The loop\<close>

definition turn_limit :: "agent_loop \<Rightarrow> ('w, 'e) turn_env \<Rightarrow> int \<Rightarrow> 'w \<Rightarrow> int" where
  "turn_limit l env used w =
     (case te_budget env of
        None \<Rightarrow> lp_max_turns l
      | Some budget \<Rightarrow> if lp_max_turns l < budget used w then budget used w else lp_max_turns l)"

definition in_context :: "('w, 'e) turn_env \<Rightarrow> 'w \<Rightarrow> 'w" where
  "in_context env w = (case te_context env of None \<Rightarrow> w | Some f \<Rightarrow> f w)"

definition request_of :: "agent_loop \<Rightarrow> Message list \<Rightarrow> Message list" where
  "request_of l transcript = zero_Message\<lparr>ms_role := ''system'', ms_content := lp_system_prompt l\<rparr>
     # ModelContext transcript"

definition answer_of :: "ModelResponse \<Rightarrow> Message" where
  "answer_of response = zero_Message\<lparr>ms_role := ''assistant'', ms_content := rs_content response,
     ms_reasoning_content := rs_reasoning_content response, ms_tool_calls := rs_tool_calls response\<rparr>"

partial_function (option) loop_from ::
  "agent_loop \<Rightarrow> ('w, 'e) turn_env \<Rightarrow> int \<Rightarrow> Message list \<Rightarrow> 'w
   \<Rightarrow> ('e loop_error option \<times> Message list \<times> 'w) option" where
  [code]: "loop_from l env used transcript w =
     (if turn_limit l env used w \<le> used
      then Some (Some (TurnsExceeded (turn_limit l env used w) (latestToolError transcript)), transcript, w)
      else case te_complete env (request_of l transcript) (in_context env w) of
        (Inl e, w1) \<Rightarrow> Some (Some (TurnFailed e), transcript, w1)
      | (Inr response, w1) \<Rightarrow>
        (case te_handle env response (transcript @ [answer_of response]) w1 of
           (Inl e, transcript', w2) \<Rightarrow> Some (Some (TurnFailed e), transcript', w2)
         | (Inr continueLoop, transcript', w2) \<Rightarrow>
           if continueLoop then loop_from l env (used + 1) transcript' w2
           else Some (None, transcript', w2)))"

definition RunWithTurnBudget ::
  "agent_loop \<Rightarrow> ('w, 'e) turn_env \<Rightarrow> Message list \<Rightarrow> 'w
   \<Rightarrow> ('e loop_error option \<times> Message list \<times> 'w) option" where
  "RunWithTurnBudget l env transcript w = loop_from l env 0 transcript w"

definition RunWithModelContext ::
  "agent_loop \<Rightarrow> ('w, 'e) turn_env \<Rightarrow> Message list \<Rightarrow> 'w
   \<Rightarrow> ('e loop_error option \<times> Message list \<times> 'w) option" where
  "RunWithModelContext l env = RunWithTurnBudget l (env\<lparr>te_budget := None\<rparr>)"

definition Run ::
  "agent_loop \<Rightarrow> ('w, 'e) turn_env \<Rightarrow> Message list \<Rightarrow> 'w
   \<Rightarrow> ('e loop_error option \<times> Message list \<times> 'w) option" where
  "Run l env = RunWithModelContext l (env\<lparr>te_context := None\<rparr>)"

subsection \<open>The loop returns\<close>

text \<open>An environment that counts the calls of the model.\<close>

definition counting :: "('w, 'e) turn_env \<Rightarrow> (nat \<times> 'w, 'e) turn_env" where
  "counting env =
     \<lparr>te_complete = (\<lambda>request (n, w). case te_complete env request w of (r, w') \<Rightarrow> (r, (Suc n, w'))),
      te_handle = (\<lambda>response t (n, w). case te_handle env response t w of (r, t', w') \<Rightarrow> (r, t', (n, w'))),
      te_context = map_option (\<lambda>f (n, w). (n, f w)) (te_context env),
      te_budget = map_option (\<lambda>b used (n, w). b used w) (te_budget env)\<rparr>"

lemma counting_simps:
  "turn_limit l (counting env) used (n, w) = turn_limit l env used w"
  "in_context (counting env) (n, w) = (n, in_context env w)"
  by (simp_all add: turn_limit_def in_context_def counting_def split: option.split)

lemma loop_from_returns:
  assumes "\<And>used w. turn_limit l env used w \<le> B" and "B - used \<le> int k" and "used \<le> B"
  shows "\<exists>r t' calls w'. loop_from l (counting env) used t (n, w) = Some (r, t', (calls, w')) \<and>
    int calls \<le> int n + (B - used)"
  using assms(2,3)
proof (induction k arbitrary: used t n w)
  case 0
  have "turn_limit l env used w \<le> used" using assms(1) [of used w] 0 by linarith
  then show ?case by (subst loop_from.simps) (simp add: counting_simps 0)
next
  case (Suc k)
  show ?case
  proof (cases "turn_limit l env used w \<le> used")
    case True
    then show ?thesis by (subst loop_from.simps) (simp add: counting_simps Suc.prems)
  next
    case False
    then have less: "used + 1 \<le> B" using assms(1) [of used w] by linarith
    obtain r w1 where c: "te_complete env (request_of l t) (in_context env w) = (r, w1)" by force
    show ?thesis
    proof (cases r)
      case (Inl e)
      then show ?thesis
        using False c less by (subst loop_from.simps) (simp add: counting_simps, simp add: counting_def)
    next
      case (Inr response)
      obtain h t' w2 where hd: "te_handle env response (t @ [answer_of response]) w1 = (h, t', w2)"
        by (metis prod_cases3)
      have next_turn: "loop_from l (counting env) used t (n, w) =
          (case h of Inl e \<Rightarrow> Some (Some (TurnFailed e), t', (Suc n, w2))
           | Inr go_on \<Rightarrow> if go_on then loop_from l (counting env) (used + 1) t' (Suc n, w2)
             else Some (None, t', (Suc n, w2)))"
        using False c hd Inr
        by (subst loop_from.simps) (simp add: counting_simps, simp add: counting_def split: sum.split)
      have "\<exists>r t'' calls w'. loop_from l (counting env) (used + 1) t' (Suc n, w2) = Some (r, t'', (calls, w')) \<and>
          int calls \<le> int (Suc n) + (B - (used + 1))"
        by (rule Suc.IH) (use Suc.prems less in linarith)+
      then show ?thesis
        unfolding next_turn using less by (auto split: sum.split)
    qed
  qed
qed

text \<open>
  C34. The loop returns, with an answer, an error of a turn or the error that its turns are used
  up, after at most as many model calls as the largest budget it is ever given (and never fewer
  than the fixed one), whatever the model answers and the handler does.
\<close>

theorem agent_loop_returns:
  assumes "\<And>used w. turn_limit l env used w \<le> B" and "0 \<le> B"
  shows "\<exists>r t' calls w'. RunWithTurnBudget l (counting env) t (0, w) = Some (r, t', (calls, w')) \<and>
    int calls \<le> B"
  using loop_from_returns [OF assms(1), of 0 "nat B" t 0 w] assms(2)
  by (simp add: RunWithTurnBudget_def)

lemma last_segment_None: "last_segment t = None \<longleftrightarrow> (\<forall>m \<in> set t. \<not> ms_segment_boundary m)"
  by (induction t) (auto split: option.split)

lemma last_segment_Some:
  "last_segment t = Some s \<Longrightarrow> \<exists>before b rest. t = before @ b # rest \<and> s = b # rest \<and>
    ms_segment_boundary b \<and> (\<forall>m \<in> set rest. \<not> ms_segment_boundary m)"
proof (induction t)
  case (Cons m t)
  show ?case
  proof (cases "last_segment t")
    case None
    with Cons.prems show ?thesis
      by (intro exI [of _ "[]"] exI [of _ m] exI [of _ t]) (auto simp: last_segment_None split: if_splits)
  next
    case (Some s')
    with Cons obtain before b rest where "t = before @ b # rest" "s = b # rest"
      "ms_segment_boundary b" "\<forall>m \<in> set rest. \<not> ms_segment_boundary m"
      by auto
    then show ?thesis by (intro exI [of _ "m # before"] exI [of _ b] exI [of _ rest]) simp
  qed
qed simp

text \<open>
  The model sees the transcript from the last segment boundary on, or all of it when there is
  none: what is left out ends before a boundary, and no later boundary is skipped.
\<close>

theorem ModelContext_last_segment:
  "\<exists>before. t = before @ ModelContext t \<and>
     filter ms_segment_boundary (ModelContext t) = take 1 (filter ms_segment_boundary (ModelContext t)) \<and>
     (before = [] \<or> (\<exists>b rest. ModelContext t = b # rest \<and> ms_segment_boundary b))"
proof (cases "last_segment t")
  case None
  then have "filter ms_segment_boundary t = []" by (simp add: last_segment_None filter_empty_conv)
  with None show ?thesis by (simp add: ModelContext_def)
next
  case (Some s)
  from last_segment_Some [OF this] obtain before b rest where b: "t = before @ b # rest" "s = b # rest"
    "ms_segment_boundary b" "\<forall>m \<in> set rest. \<not> ms_segment_boundary m"
    by auto
  then have "filter ms_segment_boundary rest = []" by (simp add: filter_empty_conv)
  with b Some show ?thesis by (intro exI [of _ before]) (simp add: ModelContext_def)
qed

subsection \<open>A loop, tried out\<close>

text \<open>A model that always asks for a tool, and a handler that always goes on.\<close>

definition eager :: "(unit, unit) turn_env" where
  "eager = \<lparr>te_complete = (\<lambda>_ w. (Inr \<lparr>rs_content = [], rs_reasoning_content = [],
       rs_tool_calls = [\<lparr>mt_id = ''t'', mt_name = ''get_report'', mt_arguments = ''{}''\<rparr>]\<rparr>, w)),
     te_handle = (\<lambda>_ t w. (Inr True, t, w)), te_context = None, te_budget = Some (\<lambda>used _. used div 2 + 2)\<rparr>"

theorem agent_loop_returns_witness:
  "\<exists>r t' calls w'. RunWithTurnBudget (NewLoop ''prompt'' 0) (counting (eager\<lparr>te_budget := None\<rparr>)) [] (0, ()) =
    Some (r, t', (calls, w')) \<and> int calls \<le> 1"
  by (rule agent_loop_returns) (simp_all add: turn_limit_def NewLoop_def)

end
