(* ===== verification/SummaryText.thy ===== *)
theory SummaryText
  imports ToolSummaryEncoding Sha256 "HOL-Library.Multiset"
begin

section \<open>Texts, orders and maps of the summaries (internal/agent/tool_result.go)\<close>

text \<open>
  The helpers of the summariser: texts cut at a limit without breaking a character, the first
  text that is not blank, ASCII words, the comparison of values by their JSON, and the shape all
  its deduplication functions share: put the elements into a map under a key, list the values of
  the map, sort them. Go lists a map in any order and \<open>sort.Slice\<close> is not stable; the functions
  here list in the order of insertion and sort stably, which is one of the runs of the code, and
  \<open>sorts_to\<close> describes all of them.
\<close>

subsection \<open>UTF-8\<close>

definition cont_byte :: "nat \<Rightarrow> bool" where
  "cont_byte n \<longleftrightarrow> 128 \<le> n \<and> n \<le> 191"

text \<open>The character at the head of a text and the bytes after it; \<open>None\<close> if it is malformed.\<close>

definition decode_rune :: "nat list \<Rightarrow> (nat \<times> nat list) option" where
  "decode_rune s =
     (case s of
        [] \<Rightarrow> None
      | a # s1 \<Rightarrow>
        if a < 128 then Some (a, s1)
        else if 194 \<le> a \<and> a \<le> 223 then
          (case s1 of
             b # r \<Rightarrow> if cont_byte b then Some (64 * (a - 192) + (b - 128), r) else None
           | _ \<Rightarrow> None)
        else if 224 \<le> a \<and> a \<le> 239 then
          (case s1 of
             b # c # r \<Rightarrow>
               if cont_byte b \<and> cont_byte c \<and> (a = 224 \<longrightarrow> 160 \<le> b) \<and> (a = 237 \<longrightarrow> b \<le> 159)
               then Some (4096 * (a - 224) + 64 * (b - 128) + (c - 128), r) else None
           | _ \<Rightarrow> None)
        else if 240 \<le> a \<and> a \<le> 244 then
          (case s1 of
             b # c # d # r \<Rightarrow>
               if cont_byte b \<and> cont_byte c \<and> cont_byte d \<and> (a = 240 \<longrightarrow> 144 \<le> b) \<and> (a = 244 \<longrightarrow> b \<le> 143)
               then Some (262144 * (a - 240) + 4096 * (b - 128) + 64 * (c - 128) + (d - 128), r) else None
           | _ \<Rightarrow> None)
        else None)"

lemma decode_rune_shorter: "decode_rune s = Some (n, r) \<Longrightarrow> length r < length s"
  by (auto simp: decode_rune_def split: list.splits if_splits)

function utf8_valid :: "nat list \<Rightarrow> bool" where
  "utf8_valid s = (s = [] \<or> (case decode_rune s of None \<Rightarrow> False | Some (_, r) \<Rightarrow> utf8_valid r))"
  by pat_completeness auto
termination
  by (relation "measure length") (auto dest: decode_rune_shorter)

declare utf8_valid.simps [simp del]

text \<open>Ranging over a text: a malformed byte is the replacement character.\<close>

function runes :: "nat list \<Rightarrow> nat list" where
  "runes s = (if s = [] then [] else
     case decode_rune s of None \<Rightarrow> 65533 # runes (tl s) | Some (n, r) \<Rightarrow> n # runes r)"
  by pat_completeness auto
termination
  by (relation "measure length") (auto dest: decode_rune_shorter)

declare runes.simps [simp del]

definition ValidString :: "string \<Rightarrow> bool" where
  "ValidString s \<longleftrightarrow> utf8_valid (map code_of s)"

lemma ValidString_Nil [simp]: "ValidString []"
  by (simp add: ValidString_def utf8_valid.simps)

function trim_to_valid :: "string \<Rightarrow> string" where
  "trim_to_valid s = (if ValidString s then s else trim_to_valid (butlast s))"
  by pat_completeness auto
termination
proof (relation "measure length")
  fix s :: string
  assume "\<not> ValidString s"
  then have "s \<noteq> []" by auto
  then show "(butlast s, s) \<in> measure length" by simp
qed simp

declare trim_to_valid.simps [simp del]

definition boundedUTF8 :: "string \<Rightarrow> nat \<Rightarrow> string" where
  "boundedUTF8 value limit =
     (if limit < 1 \<or> length value \<le> limit then value else trim_to_valid (take limit value))"

lemma trim_to_valid_prefix: "\<exists>rest. s = trim_to_valid s @ rest"
proof (induction s rule: trim_to_valid.induct)
  case (1 s)
  show ?case
  proof (cases "ValidString s")
    case True
    then show ?thesis by (simp add: trim_to_valid.simps [of s])
  next
    case False
    with 1 obtain rest where "butlast s = trim_to_valid (butlast s) @ rest" by auto
    moreover have "s = butlast s @ [last s]" using False by (cases "s = []") simp_all
    ultimately show ?thesis
      using False by (metis append.assoc trim_to_valid.simps)
  qed
qed

lemma trim_to_valid_valid: "ValidString (trim_to_valid s)"
  by (induction s rule: trim_to_valid.induct) (simp add: trim_to_valid.simps)

lemma length_boundedUTF8: "1 \<le> limit \<Longrightarrow> length (boundedUTF8 value limit) \<le> limit"
proof -
  assume "1 \<le> limit"
  moreover have "length (trim_to_valid (take limit value)) \<le> limit"
    using trim_to_valid_prefix [of "take limit value"]
    by (metis length_append length_take le_add1 min.boundedE order_trans min.cobounded2)
  ultimately show ?thesis by (simp add: boundedUTF8_def)
qed

subsection \<open>Words\<close>

definition firstNonEmptyString :: "string list \<Rightarrow> string" where
  "firstNonEmptyString values_list = (case find (\<lambda>s. \<not> blank s) values_list of None \<Rightarrow> [] | Some s \<Rightarrow> s)"

text \<open>
  \<open>unicode.IsLetter || unicode.IsNumber\<close>: on ASCII written out; beyond, the tables of package
  unicode are the argument \<open>uni\<close>.
\<close>

definition is_word_rune :: "(nat \<Rightarrow> bool) \<Rightarrow> nat \<Rightarrow> bool" where
  "is_word_rune uni r \<longleftrightarrow>
     (if r < 128 then 48 \<le> r \<and> r \<le> 57 \<or> 65 \<le> r \<and> r \<le> 90 \<or> 97 \<le> r \<and> r \<le> 122 else uni r)"

definition isSemanticName :: "(nat \<Rightarrow> bool) \<Rightarrow> string \<Rightarrow> bool" where
  "isSemanticName uni value \<longleftrightarrow> list_ex (is_word_rune uni) (runes (map code_of (TrimSpace value)))"

text \<open>Parts joined with a zero byte.\<close>

definition map_key :: "string list \<Rightarrow> string" where
  "map_key parts = Join parts [CHR 0x00]"

definition jsonLess :: "json \<Rightarrow> json \<Rightarrow> bool" where
  "jsonLess left right \<longleftrightarrow> render left < render right"

subsection \<open>Sorting the values of a map\<close>

fun insert_by :: "('a \<Rightarrow> 'a \<Rightarrow> bool) \<Rightarrow> 'a \<Rightarrow> 'a list \<Rightarrow> 'a list" where
  "insert_by lt x [] = [x]"
| "insert_by lt x (y # ys) = (if lt y x then y # insert_by lt x ys else x # y # ys)"

fun sort_by :: "('a \<Rightarrow> 'a \<Rightarrow> bool) \<Rightarrow> 'a list \<Rightarrow> 'a list" where
  "sort_by lt [] = []"
| "sort_by lt (x # xs) = insert_by lt x (sort_by lt xs)"

text \<open>Comparing field by field: the first field that differs decides.\<close>

fun lex_less :: "('a \<Rightarrow> string) list \<Rightarrow> 'a \<Rightarrow> 'a \<Rightarrow> bool" where
  "lex_less [] x y = False"
| "lex_less (f # fs) x y = (if f x \<noteq> f y then f x < f y else lex_less fs x y)"

text \<open>
  Every outcome of listing \<open>xs\<close> in any order and sorting with \<open>sort.Slice\<close>: a rearrangement
  in which no later element is less than an earlier one.
\<close>

definition sorts_to :: "('a \<Rightarrow> 'a \<Rightarrow> bool) \<Rightarrow> 'a list \<Rightarrow> 'a list \<Rightarrow> bool" where
  "sorts_to lt xs ys \<longleftrightarrow> mset ys = mset xs \<and> sorted_wrt (\<lambda>x y. \<not> lt y x) ys"

lemma mset_insert_by [simp]: "mset (insert_by lt x ys) = add_mset x (mset ys)"
  by (induction ys) auto

lemma set_insert_by [simp]: "set (insert_by lt x ys) = insert x (set ys)"
  by (induction ys) auto

lemma mset_sort_by [simp]: "mset (sort_by lt xs) = mset xs"
  by (induction xs) auto

lemma set_sort_by [simp]: "set (sort_by lt xs) = set xs"
  by (induction xs) auto

lemma length_sort_by [simp]: "length (sort_by lt xs) = length xs"
  by (metis mset_sort_by size_mset)

text \<open>The orders that occur: asymmetric, and \<open>not lt\<close> is transitive.\<close>

definition strict_weak :: "('a \<Rightarrow> 'a \<Rightarrow> bool) \<Rightarrow> bool" where
  "strict_weak lt \<longleftrightarrow> (\<forall>x y. lt x y \<longrightarrow> \<not> lt y x) \<and>
     (\<forall>x y z. \<not> lt x y \<longrightarrow> \<not> lt y z \<longrightarrow> \<not> lt x z)"

lemma strict_weak_asym: "strict_weak lt \<Longrightarrow> lt x y \<Longrightarrow> \<not> lt y x"
  unfolding strict_weak_def by blast

lemma strict_weak_trans: "strict_weak lt \<Longrightarrow> \<not> lt x y \<Longrightarrow> \<not> lt y z \<Longrightarrow> \<not> lt x z"
  unfolding strict_weak_def by blast

lemma sorted_insert_by:
  assumes "strict_weak lt" and "sorted_wrt (\<lambda>x y. \<not> lt y x) ys"
  shows "sorted_wrt (\<lambda>x y. \<not> lt y x) (insert_by lt x ys)"
  using assms(2)
proof (induction ys)
  case (Cons y ys)
  show ?case
  proof (cases "lt y x")
    case True
    then have "\<not> lt x y" by (rule strict_weak_asym [OF assms(1)])
    with True Cons show ?thesis by auto
  next
    case False
    have "\<not> lt z x" if "z \<in> set ys" for z
    proof -
      have "\<not> lt z y" using Cons.prems that by simp
      then show ?thesis using False by (rule strict_weak_trans [OF assms(1)])
    qed
    with False Cons.prems show ?thesis by simp
  qed
qed simp

lemma sort_by_sorts: "strict_weak lt \<Longrightarrow> sorts_to lt xs (sort_by lt xs)"
  unfolding sorts_to_def by (induction xs) (auto intro: sorted_insert_by)

text \<open>
  When the order tells any two elements apart there is only one outcome: neither the order of
  the map nor the instability of the sort can be seen.
\<close>

lemma sorts_to_unique:
  assumes "sorts_to lt xs ys" and "sorts_to lt xs zs" and "strict_weak lt"
    and "\<And>x y. x \<in> set xs \<Longrightarrow> y \<in> set xs \<Longrightarrow> \<not> lt x y \<Longrightarrow> \<not> lt y x \<Longrightarrow> x = y"
  shows "ys = zs"
proof -
  have "mset ys = mset zs" "sorted_wrt (\<lambda>x y. \<not> lt y x) ys" "sorted_wrt (\<lambda>x y. \<not> lt y x) zs"
    using assms(1,2) by (simp_all add: sorts_to_def)
  moreover have "\<And>x y. x \<in> set ys \<Longrightarrow> y \<in> set ys \<Longrightarrow> \<not> lt x y \<Longrightarrow> \<not> lt y x \<Longrightarrow> x = y"
    using assms(1,4) by (metis set_mset_mset sorts_to_def)
  ultimately show ?thesis
  proof (induction ys arbitrary: zs)
    case (Cons y ys)
    then obtain z zs' where zs: "zs = z # zs'" by (cases zs) auto
    have "y \<in> set zs" "z \<in> set (y # ys)"
      using Cons.prems(1) zs by (metis list.set_intros(1) set_mset_mset)+
    then have "y = z \<or> \<not> lt y z" "y = z \<or> \<not> lt z y"
      using Cons.prems(2,3) zs by auto
    then have "y = z"
      using Cons.prems(4) \<open>z \<in> set (y # ys)\<close> by auto
    with Cons zs show ?case by auto
  qed simp
qed

lemma lex_less_strict_weak: "strict_weak (lex_less fs)"
  unfolding strict_weak_def
proof (intro conjI allI impI)
  show "lex_less fs x y \<Longrightarrow> \<not> lex_less fs y x" for x y
    by (induction fs) (auto split: if_splits)
  show "\<not> lex_less fs x z" if "\<not> lex_less fs x y" "\<not> lex_less fs y z" for x y z
    using that by (induction fs) (auto split: if_splits)
qed

lemma lex_less_total: "\<not> lex_less fs x y \<Longrightarrow> \<not> lex_less fs y x \<Longrightarrow> f \<in> set fs \<Longrightarrow> f x = f y"
  by (induction fs) (auto split: if_splits)

end
