(* ===== verification/ExploreResult.thy ===== *)
theory ExploreResult
  imports ToolSummary
begin

section \<open>Exploration results as the tools return them (internal/agent/tool_result.go)\<close>

text \<open>
  The structs a result of \<open>explore_page\<close> or \<open>explore_flow\<close> is decoded into before it is
  summarised. Structs without a name in the source are named after the struct they are part of.
\<close>

record rawFailure =
  rf_code :: string
  rf_message :: string
  rf_step_index :: "int option"
  rf_action_index :: "int option"
  rf_action :: string
  rf_target :: string

definition zero_rawFailure :: rawFailure where
  "zero_rawFailure = \<lparr>
     rf_code = [], rf_message = [], rf_step_index = None, rf_action_index = None, rf_action = [],
     rf_target = []\<rparr>"

definition dec_rawFailure :: "rawFailure decoder" where
  "dec_rawFailure = dec_struct [
     (''code'', fld dec_string rf_code rf_code_update),
     (''message'', fld dec_string rf_message rf_message_update),
     (''step_index'', fld (dec_ptr dec_int 0) rf_step_index rf_step_index_update),
     (''action_index'', fld (dec_ptr dec_int 0) rf_action_index rf_action_index_update),
     (''action'', fld dec_string rf_action rf_action_update),
     (''target'', fld dec_string rf_target rf_target_update)]"

record rawNodeDOM =
  rnd_tag :: string
  rnd_attrs :: "(string \<times> string) list"

definition zero_rawNodeDOM :: rawNodeDOM where
  "zero_rawNodeDOM = \<lparr>
     rnd_tag = [], rnd_attrs = []\<rparr>"

definition dec_rawNodeDOM :: "rawNodeDOM decoder" where
  "dec_rawNodeDOM = dec_struct [
     (''tag'', fld dec_string rnd_tag rnd_tag_update),
     (''attrs'', fld (dec_map dec_string []) rnd_attrs rnd_attrs_update)]"

record rawNode =
  rn_node_id :: string
  rn_backend_dom_node_id :: raw_message
  rn_parent_id :: "string option"
  rn_role :: string
  rn_name :: string
  rn_page_state :: string
  rn_source :: string
  rn_focusable :: bool
  rn_disabled :: bool
  rn_dom :: rawNodeDOM
  rn_verified_selectors :: "ToolResultSelectorSummary list"

definition zero_rawNode :: rawNode where
  "zero_rawNode = \<lparr>
     rn_node_id = [], rn_backend_dom_node_id = None, rn_parent_id = None, rn_role = [],
     rn_name = [], rn_page_state = [], rn_source = [], rn_focusable = False, rn_disabled = False,
     rn_dom = zero_rawNodeDOM, rn_verified_selectors = []\<rparr>"

definition dec_rawNode :: "rawNode decoder" where
  "dec_rawNode = dec_struct [
     (''node_id'', fld dec_string rn_node_id rn_node_id_update),
     (''backend_dom_node_id'', fld dec_raw rn_backend_dom_node_id rn_backend_dom_node_id_update),
     (''parent_id'', fld (dec_ptr dec_string []) rn_parent_id rn_parent_id_update),
     (''role'', fld dec_string rn_role rn_role_update),
     (''name'', fld dec_string rn_name rn_name_update),
     (''page_state'', fld dec_string rn_page_state rn_page_state_update),
     (''source'', fld dec_string rn_source rn_source_update),
     (''focusable'', fld dec_bool rn_focusable rn_focusable_update),
     (''disabled'', fld dec_bool rn_disabled rn_disabled_update),
     (''dom'', fld dec_rawNodeDOM rn_dom rn_dom_update),
     (''verified_selectors'', fld (dec_list dec_ToolResultSelectorSummary zero_ToolResultSelectorSummary) rn_verified_selectors rn_verified_selectors_update)]"

record rawAction =
  rac_step_index :: "int option"
  rac_action_index :: "int option"
  rac_plan_step_id :: string
  rac_action :: string
  rac_target :: string
  rac_action_description :: string
  rac_phase :: string
  rac_status :: string
  rac_url :: string
  rac_page_state :: string
  rac_evidence_count :: int
  rac_target_evidence :: "rawNode list"
  rac_resolved_target :: "ToolResultResolvedTargetSummary option"
  rac_failure :: "rawFailure option"

definition zero_rawAction :: rawAction where
  "zero_rawAction = \<lparr>
     rac_step_index = None, rac_action_index = None, rac_plan_step_id = [], rac_action = [],
     rac_target = [], rac_action_description = [], rac_phase = [], rac_status = [], rac_url = [],
     rac_page_state = [], rac_evidence_count = 0, rac_target_evidence = [],
     rac_resolved_target = None, rac_failure = None\<rparr>"

definition dec_rawAction :: "rawAction decoder" where
  "dec_rawAction = dec_struct [
     (''step_index'', fld (dec_ptr dec_int 0) rac_step_index rac_step_index_update),
     (''action_index'', fld (dec_ptr dec_int 0) rac_action_index rac_action_index_update),
     (''plan_step_id'', fld dec_string rac_plan_step_id rac_plan_step_id_update),
     (''action'', fld dec_string rac_action rac_action_update),
     (''target'', fld dec_string rac_target rac_target_update),
     (''action_description'', fld dec_string rac_action_description rac_action_description_update),
     (''phase'', fld dec_string rac_phase rac_phase_update),
     (''status'', fld dec_string rac_status rac_status_update),
     (''url'', fld dec_string rac_url rac_url_update),
     (''page_state'', fld dec_string rac_page_state rac_page_state_update),
     (''evidence_count'', fld dec_int rac_evidence_count rac_evidence_count_update),
     (''target_evidence'', fld (dec_list dec_rawNode zero_rawNode) rac_target_evidence rac_target_evidence_update),
     (''resolved_target'', fld (dec_ptr dec_ToolResultResolvedTargetSummary zero_ToolResultResolvedTargetSummary) rac_resolved_target rac_resolved_target_update),
     (''failure'', fld (dec_ptr dec_rawFailure zero_rawFailure) rac_failure rac_failure_update)]"

record rawObservedPageState =
  rop_state_id :: string
  rop_state_sha256 :: string

definition zero_rawObservedPageState :: rawObservedPageState where
  "zero_rawObservedPageState = \<lparr>
     rop_state_id = [], rop_state_sha256 = []\<rparr>"

definition dec_rawObservedPageState :: "rawObservedPageState decoder" where
  "dec_rawObservedPageState = dec_struct [
     (''state_id'', fld dec_string rop_state_id rop_state_id_update),
     (''state_sha256'', fld dec_string rop_state_sha256 rop_state_sha256_update)]"

record rawObservedA11y =
  roa_role :: string
  roa_name :: string

definition zero_rawObservedA11y :: rawObservedA11y where
  "zero_rawObservedA11y = \<lparr>
     roa_role = [], roa_name = []\<rparr>"

definition dec_rawObservedA11y :: "rawObservedA11y decoder" where
  "dec_rawObservedA11y = dec_struct [
     (''role'', fld dec_string roa_role roa_role_update),
     (''name'', fld dec_string roa_name roa_name_update)]"

record rawObservedRuntime =
  ror_visible :: bool
  ror_enabled :: bool

definition zero_rawObservedRuntime :: rawObservedRuntime where
  "zero_rawObservedRuntime = \<lparr>
     ror_visible = False, ror_enabled = False\<rparr>"

definition dec_rawObservedRuntime :: "rawObservedRuntime decoder" where
  "dec_rawObservedRuntime = dec_struct [
     (''visible'', fld dec_bool ror_visible ror_visible_update),
     (''enabled'', fld dec_bool ror_enabled ror_enabled_update)]"

record rawLocatorFields =
  rlf_kind :: string
  rlf_role :: string
  rlf_name :: "string option"
  rlf_value :: string

definition zero_rawLocatorFields :: rawLocatorFields where
  "zero_rawLocatorFields = \<lparr>
     rlf_kind = [], rlf_role = [], rlf_name = None, rlf_value = []\<rparr>"

definition dec_rawLocatorFields :: "rawLocatorFields decoder" where
  "dec_rawLocatorFields = dec_struct [
     (''kind'', fld dec_string rlf_kind rlf_kind_update),
     (''role'', fld dec_string rlf_role rlf_role_update),
     (''name'', fld (dec_ptr dec_string []) rlf_name rlf_name_update),
     (''value'', fld dec_string rlf_value rlf_value_update)]"

record rawObservedLocator =
  rol_candidate_id :: string
  rol_locator :: rawLocatorFields
  rol_provenance :: string

definition zero_rawObservedLocator :: rawObservedLocator where
  "zero_rawObservedLocator = \<lparr>
     rol_candidate_id = [], rol_locator = zero_rawLocatorFields, rol_provenance = []\<rparr>"

definition dec_rawObservedLocator :: "rawObservedLocator decoder" where
  "dec_rawObservedLocator = dec_struct [
     (''candidate_id'', fld dec_string rol_candidate_id rol_candidate_id_update),
     (''locator'', fld dec_rawLocatorFields rol_locator rol_locator_update),
     (''provenance'', fld dec_string rol_provenance rol_provenance_update)]"

record rawObservedElement =
  roe_element_ref :: string
  roe_a11y :: "rawObservedA11y option"
  roe_dom :: "rawNodeDOM option"
  roe_runtime :: rawObservedRuntime
  roe_locators :: "rawObservedLocator list"

definition zero_rawObservedElement :: rawObservedElement where
  "zero_rawObservedElement = \<lparr>
     roe_element_ref = [], roe_a11y = None, roe_dom = None, roe_runtime = zero_rawObservedRuntime,
     roe_locators = []\<rparr>"

definition dec_rawObservedElement :: "rawObservedElement decoder" where
  "dec_rawObservedElement = dec_struct [
     (''element_ref'', fld dec_string roe_element_ref roe_element_ref_update),
     (''a11y'', fld (dec_ptr dec_rawObservedA11y zero_rawObservedA11y) roe_a11y roe_a11y_update),
     (''dom'', fld (dec_ptr dec_rawNodeDOM zero_rawNodeDOM) roe_dom roe_dom_update),
     (''runtime'', fld dec_rawObservedRuntime roe_runtime roe_runtime_update),
     (''locators'', fld (dec_list dec_rawObservedLocator zero_rawObservedLocator) roe_locators roe_locators_update)]"

record rawObservationV2 =
  rov_page_state :: rawObservedPageState
  rov_probe_id :: string
  rov_observation_id :: string
  rov_elements :: "rawObservedElement list"

definition zero_rawObservationV2 :: rawObservationV2 where
  "zero_rawObservationV2 = \<lparr>
     rov_page_state = zero_rawObservedPageState, rov_probe_id = [], rov_observation_id = [],
     rov_elements = []\<rparr>"

definition dec_rawObservationV2 :: "rawObservationV2 decoder" where
  "dec_rawObservationV2 = dec_struct [
     (''page_state'', fld dec_rawObservedPageState rov_page_state rov_page_state_update),
     (''probe_id'', fld dec_string rov_probe_id rov_probe_id_update),
     (''observation_id'', fld dec_string rov_observation_id rov_observation_id_update),
     (''elements'', fld (dec_list dec_rawObservedElement zero_rawObservedElement) rov_elements rov_elements_update)]"

record rawPage =
  rp_url :: string
  rp_page_state :: string
  rp_revision :: int
  rp_status :: string
  rp_description :: string
  rp_element_count :: int
  rp_a11y_nodes :: "rawNode list"
  rp_actions :: "rawAction list"
  rp_failure :: "rawFailure option"
  rp_observation_v2 :: "rawObservationV2 option"

definition zero_rawPage :: rawPage where
  "zero_rawPage = \<lparr>
     rp_url = [], rp_page_state = [], rp_revision = 0, rp_status = [], rp_description = [],
     rp_element_count = 0, rp_a11y_nodes = [], rp_actions = [], rp_failure = None,
     rp_observation_v2 = None\<rparr>"

definition dec_rawPage :: "rawPage decoder" where
  "dec_rawPage = dec_struct [
     (''url'', fld dec_string rp_url rp_url_update),
     (''page_state'', fld dec_string rp_page_state rp_page_state_update),
     (''revision'', fld dec_int rp_revision rp_revision_update),
     (''status'', fld dec_string rp_status rp_status_update),
     (''description'', fld dec_string rp_description rp_description_update),
     (''element_count'', fld dec_int rp_element_count rp_element_count_update),
     (''a11y_nodes'', fld (dec_list dec_rawNode zero_rawNode) rp_a11y_nodes rp_a11y_nodes_update),
     (''actions'', fld (dec_list dec_rawAction zero_rawAction) rp_actions rp_actions_update),
     (''failure'', fld (dec_ptr dec_rawFailure zero_rawFailure) rp_failure rp_failure_update),
     (''observation_v2'', fld (dec_ptr dec_rawObservationV2 zero_rawObservationV2) rp_observation_v2 rp_observation_v2_update)]"

record rawContextEvidence =
  rc_execution_scope :: string
  rc_state_persisted :: bool
  rc_clean_context_requested :: bool
  rc_storage_state_loaded :: bool
  rc_planning_session_id :: int

definition zero_rawContextEvidence :: rawContextEvidence where
  "zero_rawContextEvidence = \<lparr>
     rc_execution_scope = [], rc_state_persisted = False, rc_clean_context_requested = False,
     rc_storage_state_loaded = False, rc_planning_session_id = 0\<rparr>"

definition dec_rawContextEvidence :: "rawContextEvidence decoder" where
  "dec_rawContextEvidence = dec_struct [
     (''execution_scope'', fld dec_string rc_execution_scope rc_execution_scope_update),
     (''state_persisted'', fld dec_bool rc_state_persisted rc_state_persisted_update),
     (''clean_context_requested'', fld dec_bool rc_clean_context_requested rc_clean_context_requested_update),
     (''storage_state_loaded'', fld dec_bool rc_storage_state_loaded rc_storage_state_loaded_update),
     (''planning_session_id'', fld dec_int rc_planning_session_id rc_planning_session_id_update)]"

record rawExploreResult =
  rx_url :: string
  rx_page_state :: string
  rx_revision :: int
  rx_status :: string
  rx_warning :: string
  rx_success :: "bool option"
  rx_element_count :: int
  rx_a11y_nodes :: "rawNode list"
  rx_actions :: "rawAction list"
  rx_failure :: "rawFailure option"
  rx_failures :: "rawFailure list"
  rx_pages :: "rawPage list"
  rx_context_evidence :: "rawContextEvidence option"
  rx_observation_v2 :: "rawObservationV2 option"

definition zero_rawExploreResult :: rawExploreResult where
  "zero_rawExploreResult = \<lparr>
     rx_url = [], rx_page_state = [], rx_revision = 0, rx_status = [], rx_warning = [],
     rx_success = None, rx_element_count = 0, rx_a11y_nodes = [], rx_actions = [],
     rx_failure = None, rx_failures = [], rx_pages = [], rx_context_evidence = None,
     rx_observation_v2 = None\<rparr>"

definition dec_rawExploreResult :: "rawExploreResult decoder" where
  "dec_rawExploreResult = dec_struct [
     (''url'', fld dec_string rx_url rx_url_update),
     (''page_state'', fld dec_string rx_page_state rx_page_state_update),
     (''revision'', fld dec_int rx_revision rx_revision_update),
     (''status'', fld dec_string rx_status rx_status_update),
     (''warning'', fld dec_string rx_warning rx_warning_update),
     (''success'', fld (dec_ptr dec_bool False) rx_success rx_success_update),
     (''element_count'', fld dec_int rx_element_count rx_element_count_update),
     (''a11y_nodes'', fld (dec_list dec_rawNode zero_rawNode) rx_a11y_nodes rx_a11y_nodes_update),
     (''actions'', fld (dec_list dec_rawAction zero_rawAction) rx_actions rx_actions_update),
     (''failure'', fld (dec_ptr dec_rawFailure zero_rawFailure) rx_failure rx_failure_update),
     (''failures'', fld (dec_list dec_rawFailure zero_rawFailure) rx_failures rx_failures_update),
     (''pages'', fld (dec_list dec_rawPage zero_rawPage) rx_pages rx_pages_update),
     (''context_evidence'', fld (dec_ptr dec_rawContextEvidence zero_rawContextEvidence) rx_context_evidence rx_context_evidence_update),
     (''observation_v2'', fld (dec_ptr dec_rawObservationV2 zero_rawObservationV2) rx_observation_v2 rx_observation_v2_update)]"

end
