(* ===== verification/SummaryBuild.thy ===== *)
theory SummaryBuild
  imports SummaryText ExploreResult
begin

section \<open>Summarising what was explored (internal/agent/tool_result.go)\<close>

text \<open>
  From the result of an exploration to the pages of its summary: nodes, actions and failures
  shortened, nodes kept with their ancestors, everything deduplicated and sorted, pages of the
  same URL and state merged.
\<close>

definition stringPointerValue :: "string option \<Rightarrow> string" where
  "stringPointerValue value = (case value of None \<Rightarrow> [] | Some s \<Rightarrow> s)"

definition indexValue :: "int option \<Rightarrow> int" where
  "indexValue value = (case value of None \<Rightarrow> -1 | Some i \<Rightarrow> i)"

definition cloneRaw :: "raw_message \<Rightarrow> raw_message" where
  "cloneRaw value = (if value = Some JNull then None else value)"

subsection \<open>The best element of every key\<close>

text \<open>
  \<open>seen[key(x)] = x\<close> for every element that comes first under its key or is better than the one
  there, and the values of \<open>seen\<close> in the order their keys came.
\<close>

definition put_best ::
  "('a \<Rightarrow> string) \<Rightarrow> ('a \<Rightarrow> 'a \<Rightarrow> bool) \<Rightarrow> 'a \<Rightarrow> (string \<times> 'a) list \<Rightarrow> (string \<times> 'a) list" where
  "put_best key better x seen =
     (case map_of seen (key x) of
        None \<Rightarrow> assoc_put (key x) x seen
      | Some existing \<Rightarrow> if better x existing then assoc_put (key x) x seen else seen)"

definition best_by :: "('a \<Rightarrow> string) \<Rightarrow> ('a \<Rightarrow> 'a \<Rightarrow> bool) \<Rightarrow> 'a list \<Rightarrow> 'a list" where
  "best_by key better xs = map snd (fold (put_best key better) xs [])"

text \<open>The last element of every key.\<close>

definition last_by :: "('a \<Rightarrow> string) \<Rightarrow> 'a list \<Rightarrow> 'a list" where
  "last_by key xs = best_by key (\<lambda>_ _. True) xs"

subsection \<open>Failures and selectors\<close>

definition failure_summary :: "rawFailure \<Rightarrow> ToolResultErrorSummary" where
  "failure_summary failure = \<lparr>
     ter_code = boundedUTF8 (rf_code failure) 128, ter_message = boundedUTF8 (rf_message failure) 2048,
     ter_step_index = rf_step_index failure, ter_action_index = rf_action_index failure,
     ter_action = boundedUTF8 (rf_action failure) 64, ter_target = boundedUTF8 (rf_target failure) 1024\<rparr>"

definition summarizeFailure :: "rawFailure option \<Rightarrow> ToolResultErrorSummary option" where
  "summarizeFailure failure = map_option failure_summary failure"

definition failure_less :: "ToolResultErrorSummary \<Rightarrow> ToolResultErrorSummary \<Rightarrow> bool" where
  "failure_less = lex_less [\<lambda>f. render (enc_ToolResultErrorSummary f)]"

definition deduplicateFailures :: "ToolResultErrorSummary list \<Rightarrow> ToolResultErrorSummary list" where
  "deduplicateFailures failures =
     sort_by failure_less (last_by (\<lambda>f. render (enc_ToolResultErrorSummary f)) failures)"

definition bounded_selector :: "ToolResultSelectorSummary \<Rightarrow> ToolResultSelectorSummary" where
  "bounded_selector s = \<lparr>
     tsl_candidate_id = boundedUTF8 (tsl_candidate_id s) 64, tsl_strategy = boundedUTF8 (tsl_strategy s) 64,
     tsl_selector = boundedUTF8 (tsl_selector s) 1024, tsl_name = boundedUTF8 (tsl_name s) 512,
     tsl_source = boundedUTF8 (tsl_source s) 128\<rparr>"

definition selector_key :: "ToolResultSelectorSummary \<Rightarrow> string" where
  "selector_key s = map_key [tsl_strategy s, tsl_selector s]"

definition selector_better :: "ToolResultSelectorSummary \<Rightarrow> ToolResultSelectorSummary \<Rightarrow> bool" where
  "selector_better x y = jsonLess (enc_ToolResultSelectorSummary x) (enc_ToolResultSelectorSummary y)"

definition selector_less :: "ToolResultSelectorSummary \<Rightarrow> ToolResultSelectorSummary \<Rightarrow> bool" where
  "selector_less = lex_less [tsl_strategy, tsl_selector]"

definition deduplicateSelectors :: "ToolResultSelectorSummary list \<Rightarrow> ToolResultSelectorSummary list" where
  "deduplicateSelectors selectors =
     sort_by selector_less (best_by selector_key selector_better
       (filter (\<lambda>s. tsl_selector s \<noteq> []) (map bounded_selector selectors)))"

subsection \<open>Nodes\<close>

definition isInteractiveRole :: "string \<Rightarrow> bool" where
  "isInteractiveRole role \<longleftrightarrow> ToLower (TrimSpace role) \<in>
     {''button'', ''checkbox'', ''combobox'', ''link'', ''menuitem'', ''option'', ''radio'',
      ''searchbox'', ''slider'', ''spinbutton'', ''switch'', ''tab'', ''textbox''}"

definition isSemanticRole :: "string \<Rightarrow> bool" where
  "isSemanticRole role \<longleftrightarrow> ToLower (TrimSpace role) \<in>
     {''heading'', ''paragraph'', ''product'', ''status'', ''alert'', ''cell'', ''row'',
      ''listitem'', ''img''}"

text \<open>The attributes are cut one by one, in the order the map lists them.\<close>

definition dom_summary :: "rawNodeDOM \<Rightarrow> ToolResultDOMSummary option" where
  "dom_summary d =
     (if rnd_tag d \<noteq> [] \<or> rnd_attrs d \<noteq> []
      then Some \<lparr>tdm_tag = boundedUTF8 (rnd_tag d) 64,
        tdm_attrs = fold (\<lambda>p m. assoc_put (boundedUTF8 (fst p) 128) (boundedUTF8 (snd p) 512) m) (rnd_attrs d) []\<rparr>
      else None)"

definition summarizeNode :: "rawNode \<Rightarrow> ToolResultNodeSummary \<times> int" where
  "summarizeNode node =
     (let selectors = deduplicateSelectors (rn_verified_selectors node) in
      (\<lparr>tnd_node_id = boundedUTF8 (rn_node_id node) 128,
        tnd_backend_dom_node_id = cloneRaw (rn_backend_dom_node_id node),
        tnd_parent_id = (case rn_parent_id node of None \<Rightarrow> [] | Some p \<Rightarrow> boundedUTF8 p 128),
        tnd_role = boundedUTF8 (rn_role node) 128, tnd_name = boundedUTF8 (rn_name node) 512,
        tnd_page_state = boundedUTF8 (rn_page_state node) 256, tnd_source = boundedUTF8 (rn_source node) 128,
        tnd_focusable = rn_focusable node, tnd_disabled = rn_disabled node,
        tnd_dom = dom_summary (rn_dom node), tnd_verified_selectors = selectors\<rparr>,
       int (length (rn_verified_selectors node)) - int (length selectors)))"

definition nodePriority :: "ToolResultNodeSummary \<Rightarrow> nat" where
  "nodePriority node =
     (if tnd_verified_selectors node \<noteq> [] then 0
      else if tnd_focusable node \<or> isInteractiveRole (tnd_role node) then 1
      else if tnd_parent_id node = [] then 2 else 3)"

definition node_key :: "ToolResultNodeSummary \<Rightarrow> string" where
  "node_key node =
     (if tnd_node_id node = [] then map_key [tnd_page_state node, tnd_role node, tnd_name node]
      else tnd_node_id node)"

definition node_better :: "ToolResultNodeSummary \<Rightarrow> ToolResultNodeSummary \<Rightarrow> bool" where
  "node_better node existing \<longleftrightarrow>
     length (tnd_verified_selectors existing) < length (tnd_verified_selectors node) \<or>
     length (tnd_verified_selectors node) = length (tnd_verified_selectors existing) \<and>
     jsonLess (enc_ToolResultNodeSummary node) (enc_ToolResultNodeSummary existing)"

definition node_less :: "ToolResultNodeSummary \<Rightarrow> ToolResultNodeSummary \<Rightarrow> bool" where
  "node_less left right \<longleftrightarrow>
     (if nodePriority left \<noteq> nodePriority right then nodePriority left < nodePriority right
      else lex_less [tnd_page_state, tnd_role, tnd_name, tnd_node_id] left right)"

definition deduplicateNodes :: "ToolResultNodeSummary list \<Rightarrow> ToolResultNodeSummary list" where
  "deduplicateNodes nodes = sort_by node_less (best_by node_key node_better nodes)"

subsection \<open>Actions\<close>

text \<open>\<open>strings.SplitN(s, " ", 2)\<close>: the text before the first blank, and the one after it if there is one.\<close>

definition split_first_blank :: "string \<Rightarrow> string \<times> string option" where
  "split_first_blank s =
     (case dropWhile (\<lambda>c. c \<noteq> CHR '' '') s of
        [] \<Rightarrow> (s, None)
      | _ # rest \<Rightarrow> (takeWhile (\<lambda>c. c \<noteq> CHR '' '') s, Some rest))"

definition action_and_target :: "rawAction \<Rightarrow> string \<times> string" where
  "action_and_target action =
     (let name = boundedUTF8 (rac_action action) 64; target = boundedUTF8 (rac_target action) 1024;
          parts = split_first_blank (TrimSpace (rac_action_description action)) in
      (if name = [] then boundedUTF8 (fst parts) 64 else name,
       if target = [] then (case snd parts of None \<Rightarrow> target | Some rest \<Rightarrow> boundedUTF8 rest 1024) else target))"

definition summarizeAction :: "rawAction \<Rightarrow> ToolResultActionSummary" where
  "summarizeAction action =
     (let summarized = map summarizeNode (rac_target_evidence action);
          evidence = deduplicateNodes (map fst summarized);
          original = max (rac_evidence_count action) (int (length (rac_target_evidence action))) in
      \<lparr>tac_step_index = rac_step_index action, tac_action_index = rac_action_index action,
       tac_plan_step_id = boundedUTF8 (rac_plan_step_id action) 64,
       tac_action = fst (action_and_target action), tac_target = snd (action_and_target action),
       tac_description = boundedUTF8 (rac_action_description action) 1200,
       tac_phase = boundedUTF8 (rac_phase action) 64, tac_status = boundedUTF8 (rac_status action) 64,
       tac_url = boundedUTF8 (rac_url action) 2048, tac_page_state = boundedUTF8 (rac_page_state action) 256,
       tac_target_evidence = evidence, tac_evidence_count = max original (int (length evidence)),
       tac_omitted_target_evidence = original - int (length evidence),
       tac_omitted_selectors = sum_list (map snd summarized),
       tac_resolved_target = rac_resolved_target action, tac_failure = summarizeFailure (rac_failure action)\<rparr>)"

definition action_key :: "ToolResultActionSummary \<Rightarrow> string" where
  "action_key a = map_key [itoa (indexValue (tac_step_index a)), itoa (indexValue (tac_action_index a)),
     tac_phase a, tac_action a, tac_target a, tac_status a]"

definition action_better :: "ToolResultActionSummary \<Rightarrow> ToolResultActionSummary \<Rightarrow> bool" where
  "action_better x y = jsonLess (enc_ToolResultActionSummary x) (enc_ToolResultActionSummary y)"

definition action_less :: "ToolResultActionSummary \<Rightarrow> ToolResultActionSummary \<Rightarrow> bool" where
  "action_less left right \<longleftrightarrow>
     (if indexValue (tac_step_index left) \<noteq> indexValue (tac_step_index right)
      then indexValue (tac_step_index left) < indexValue (tac_step_index right)
      else if indexValue (tac_action_index left) \<noteq> indexValue (tac_action_index right)
      then indexValue (tac_action_index left) < indexValue (tac_action_index right)
      else lex_less [tac_phase, tac_action, tac_target] left right)"

definition dedup_evidence :: "ToolResultActionSummary \<Rightarrow> ToolResultActionSummary" where
  "dedup_evidence a = a\<lparr>tac_target_evidence := deduplicateNodes (tac_target_evidence a)\<rparr>"

text \<open>The actions kept, before they are sorted.\<close>

definition best_actions :: "ToolResultActionSummary list \<Rightarrow> ToolResultActionSummary list" where
  "best_actions actions = best_by action_key action_better (map dedup_evidence actions)"

definition normalizeActions :: "ToolResultActionSummary list \<Rightarrow> ToolResultActionSummary list" where
  "normalizeActions actions = sort_by action_less (best_actions actions)"

end
