(* ===== verification/SummaryPages.thy ===== *)
theory SummaryPages
  imports SummaryBuild
begin

section \<open>The pages of a summary (internal/agent/tool_result.go)\<close>

text \<open>
  One page of a result becomes one page of the summary: of its nodes those stay that can be used
  or read, with all their ancestors. Pages of the same URL and state are merged.
\<close>

subsection \<open>The nodes of an observation\<close>

definition selector_from_locator :: "string \<Rightarrow> rawObservedLocator \<Rightarrow> ToolResultSelectorSummary option" where
  "selector_from_locator node_name observed =
     (let selector = (if rlf_kind (rol_locator observed) = ''role'' then rlf_role (rol_locator observed)
                      else rlf_value (rol_locator observed)) in
      if selector = [] then None
      else Some \<lparr>tsl_candidate_id = boundedUTF8 (rol_candidate_id observed) 64,
        tsl_strategy = rlf_kind (rol_locator observed), tsl_selector = selector,
        tsl_name = firstNonEmptyString [stringPointerValue (rlf_name (rol_locator observed)), node_name],
        tsl_source = rol_provenance observed\<rparr>)"

definition node_from_element :: "rawObservedElement \<Rightarrow> rawNode" where
  "node_from_element element =
     (let name = (case roe_a11y element of None \<Rightarrow> [] | Some a \<Rightarrow> roa_name a) in
      zero_rawNode\<lparr>rn_node_id := roe_element_ref element,
        rn_disabled := \<not> ror_enabled (roe_runtime element),
        rn_role := (case roe_a11y element of None \<Rightarrow> [] | Some a \<Rightarrow> roa_role a),
        rn_name := name,
        rn_dom := (case roe_dom element of None \<Rightarrow> zero_rawNodeDOM | Some d \<Rightarrow> d),
        rn_verified_selectors := List.map_filter (selector_from_locator name) (roe_locators element)\<rparr>)"

definition nodesFromObservation :: "rawObservationV2 \<Rightarrow> rawNode list" where
  "nodesFromObservation observation = map node_from_element (rov_elements observation)"

subsection \<open>Which nodes stay\<close>

definition node_selected :: "rawNode \<Rightarrow> bool" where
  "node_selected node \<longleftrightarrow>
     rn_focusable node \<or> isInteractiveRole (rn_role node) \<or> rn_verified_selectors node \<noteq> [] \<or>
     \<not> blank (rn_name node) \<and> isSemanticRole (rn_role node)"

definition nodes_by_id :: "rawNode list \<Rightarrow> (string \<times> rawNode) list" where
  "nodes_by_id nodes = fold (\<lambda>n m. assoc_put (rn_node_id n) n m) nodes []"

text \<open>The walk from one selected node up to the first ancestor already selected.\<close>

function climb :: "(string \<times> rawNode) list \<Rightarrow> rawNode \<Rightarrow> string list \<Rightarrow> string list" where
  "climb by_id current selected =
     (case rn_parent_id current of
        None \<Rightarrow> selected
      | Some p \<Rightarrow>
          if p = [] \<or> p \<in> set selected then selected
          else (case map_of by_id p of
                  None \<Rightarrow> selected
                | Some parent \<Rightarrow> climb by_id parent (p # selected)))"
  by pat_completeness auto
termination
proof (relation "measure (\<lambda>(by_id, _, selected). length (filter (\<lambda>x. x \<notin> set selected) (map fst by_id)))")
  fix by_id :: "(string \<times> rawNode) list" and current p selected parent
  assume new: "\<not> (p = [] \<or> p \<in> set selected)" and known: "map_of by_id p = Some parent"
  let ?ids = "map fst by_id"
  have "p \<in> set (filter (\<lambda>x. x \<notin> set selected) ?ids)"
    using new known by (auto dest: map_of_SomeD intro: rev_image_eqI)
  then have "length (filter (\<lambda>x. x \<noteq> p) (filter (\<lambda>x. x \<notin> set selected) ?ids))
      < length (filter (\<lambda>x. x \<notin> set selected) ?ids)"
    by (intro length_filter_less) auto
  then show "((by_id, parent, p # selected), by_id, current, selected)
      \<in> measure (\<lambda>(by_id, _, selected). length (filter (\<lambda>x. x \<notin> set selected) (map fst by_id)))"
    by (simp add: conj_commute)
qed simp

declare climb.simps [simp del]

definition climb_from :: "(string \<times> rawNode) list \<Rightarrow> string \<Rightarrow> string list \<Rightarrow> string list" where
  "climb_from by_id node_id selected =
     (case map_of by_id node_id of None \<Rightarrow> selected | Some current \<Rightarrow> climb by_id current selected)"

text \<open>
  The walks begin at \<open>starts\<close>: Go's loop over the map of selected ids, which the walks extend,
  visits the ids that were there before it in some order and may visit those it adds.
\<close>

definition climb_all :: "rawNode list \<Rightarrow> string list \<Rightarrow> string list" where
  "climb_all nodes starts =
     fold (climb_from (nodes_by_id nodes)) starts (map rn_node_id (filter node_selected nodes))"

definition selected_ids :: "rawNode list \<Rightarrow> string list" where
  "selected_ids nodes = climb_all nodes (map rn_node_id (filter node_selected nodes))"

subsection \<open>A page\<close>

definition has_any :: "string \<Rightarrow> string list \<Rightarrow> bool" where
  "has_any value parts \<longleftrightarrow> list_ex (\<lambda>part. Contains value part) parts"

definition classifyPageKind :: "string \<Rightarrow> string \<Rightarrow> string \<Rightarrow> string" where
  "classifyPageKind url pageState description =
     (let value = ToLower (url @ '' '' @ pageState @ '' '' @ description) in
      if has_any value [''view_cart'', ''cart''] then ''cart''
      else if has_any value [''product_details''] then ''product_detail''
      else if has_any value [''search=''] then ''search_results''
      else if has_any value [''/products''] then ''products''
      else if has_any value [''login''] then ''login''
      else if has_any value [''checkout''] then ''checkout''
      else ''unknown'')"

text \<open>A page without nodes takes those of its observation.\<close>

definition page_with_observation :: "rawPage \<Rightarrow> rawPage" where
  "page_with_observation page =
     (case rp_observation_v2 page of
        None \<Rightarrow> page
      | Some v2 \<Rightarrow>
          if rp_a11y_nodes page = []
          then page\<lparr>rp_a11y_nodes := nodesFromObservation v2,
                    rp_element_count := int (length (nodesFromObservation v2)),
                    rp_page_state := firstNonEmptyString [rp_page_state page, rop_state_id (rov_page_state v2)]\<rparr>
          else page)"

definition summarize_loaded_page :: "rawPage \<Rightarrow> ToolResultPageSummary" where
  "summarize_loaded_page page =
     (let selected = selected_ids (rp_a11y_nodes page);
          kept = map summarizeNode (filter (\<lambda>n. rn_node_id n \<in> set selected) (rp_a11y_nodes page));
          nodes = deduplicateNodes (map fst kept);
          actions = map summarizeAction (rp_actions page);
          v2 = rp_observation_v2 page in
      \<lparr>tpg_probe_id = (case v2 of None \<Rightarrow> [] | Some o2 \<Rightarrow> boundedUTF8 (rov_probe_id o2) 64),
       tpg_observation_id = (case v2 of None \<Rightarrow> [] | Some o2 \<Rightarrow> boundedUTF8 (rov_observation_id o2) 64),
       tpg_observation_sha256 =
         (case v2 of None \<Rightarrow> [] | Some o2 \<Rightarrow> boundedUTF8 (rop_state_sha256 (rov_page_state o2)) 64),
       tpg_url = boundedUTF8 (rp_url page) 2048, tpg_page_state = boundedUTF8 (rp_page_state page) 256,
       tpg_page_kind = classifyPageKind (rp_url page) (rp_page_state page) (rp_description page),
       tpg_revision = rp_revision page,
       tpg_status = boundedUTF8 (firstNonEmptyString [rp_status page, ''success'']) 64,
       tpg_description = boundedUTF8 (rp_description page) 512, tpg_element_count = rp_element_count page,
       tpg_actions = actions, tpg_a11y_nodes = nodes, tpg_failure = summarizeFailure (rp_failure page),
       tpg_omitted = zero_ToolResultOmissionCounters\<lparr>
         tom_nodes := int (length (rp_a11y_nodes page)) - int (length nodes),
         tom_target_evidence := sum_list (map tac_omitted_target_evidence actions),
         tom_selectors := sum_list (map snd kept) + sum_list (map tac_omitted_selectors actions)\<rparr>,
       tpg_reference_only = False\<rparr>)"

definition summarizePage :: "rawPage \<Rightarrow> ToolResultPageSummary" where
  "summarizePage page = summarize_loaded_page (page_with_observation page)"

subsection \<open>Merging pages\<close>

definition addOmissions ::
  "ToolResultOmissionCounters \<Rightarrow> ToolResultOmissionCounters \<Rightarrow> ToolResultOmissionCounters" where
  "addOmissions target added = target\<lparr>
     tom_pages := tom_pages target + tom_pages added,
     tom_actions := tom_actions target + tom_actions added,
     tom_nodes := tom_nodes target + tom_nodes added,
     tom_target_evidence := tom_target_evidence target + tom_target_evidence added,
     tom_selectors := tom_selectors target + tom_selectors added\<rparr>"

definition right_replaces_left :: "ToolResultPageSummary \<Rightarrow> ToolResultPageSummary \<Rightarrow> bool" where
  "right_replaces_left left right \<longleftrightarrow>
     tpg_revision left < tpg_revision right \<or>
     tpg_revision right = tpg_revision left \<and>
     jsonLess (enc_ToolResultPageSummary right) (enc_ToolResultPageSummary left)"

definition mergePageSummaries ::
  "ToolResultPageSummary \<Rightarrow> ToolResultPageSummary \<Rightarrow> ToolResultPageSummary" where
  "mergePageSummaries left right =
     (let merged =
        (if right_replaces_left left right
         then left\<lparr>tpg_url := tpg_url right, tpg_page_state := tpg_page_state right,
           tpg_page_kind := tpg_page_kind right, tpg_revision := tpg_revision right,
           tpg_status := tpg_status right, tpg_description := tpg_description right,
           tpg_element_count := tpg_element_count right, tpg_failure := tpg_failure right\<rparr>
         else left) in
      merged\<lparr>
        tpg_page_kind := (if tpg_page_kind merged = []
          then firstNonEmptyString [tpg_page_kind left, tpg_page_kind right] else tpg_page_kind merged),
        tpg_status := (if tpg_status merged = []
          then firstNonEmptyString [tpg_status left, tpg_status right] else tpg_status merged),
        tpg_a11y_nodes := deduplicateNodes (tpg_a11y_nodes merged @ tpg_a11y_nodes right),
        tpg_actions := normalizeActions (tpg_actions merged @ tpg_actions right),
        tpg_omitted := (addOmissions (tpg_omitted left) (tpg_omitted right))\<lparr>
          tom_pages := tom_pages (tpg_omitted left) + tom_pages (tpg_omitted right) + 1\<rparr>,
        tpg_reference_only := tpg_reference_only left \<and> tpg_reference_only right\<rparr>)"

definition page_key :: "ToolResultPageSummary \<Rightarrow> string" where
  "page_key page = map_key [tpg_url page, tpg_page_state page]"

definition normal_page :: "ToolResultPageSummary \<Rightarrow> ToolResultPageSummary" where
  "normal_page page = page\<lparr>tpg_a11y_nodes := deduplicateNodes (tpg_a11y_nodes page),
     tpg_actions := normalizeActions (tpg_actions page)\<rparr>"

definition merge_page ::
  "ToolResultPageSummary \<Rightarrow> (string \<times> ToolResultPageSummary) list \<Rightarrow> (string \<times> ToolResultPageSummary) list" where
  "merge_page page by_key =
     (case map_of by_key (page_key page) of
        None \<Rightarrow> assoc_put (page_key page) (normal_page page) by_key
      | Some existing \<Rightarrow> assoc_put (page_key page) (mergePageSummaries existing (normal_page page)) by_key)"

definition merged_pages :: "ToolResultPageSummary list \<Rightarrow> ToolResultPageSummary list" where
  "merged_pages pages = map snd (fold merge_page pages [])"

definition page_less :: "ToolResultPageSummary \<Rightarrow> ToolResultPageSummary \<Rightarrow> bool" where
  "page_less left right \<longleftrightarrow>
     (if tpg_url left \<noteq> tpg_url right then tpg_url left < tpg_url right
      else if tpg_page_state left \<noteq> tpg_page_state right then tpg_page_state left < tpg_page_state right
      else tpg_revision left < tpg_revision right)"

definition normalizeSummary :: "ModelToolSummary \<Rightarrow> ModelToolSummary" where
  "normalizeSummary summary =
     (let pages = merged_pages (sm_pages summary);
          truncation = sm_truncation summary;
          omitted = fold (\<lambda>page total. addOmissions total (tpg_omitted page)) pages (ttr_omitted truncation) in
      summary\<lparr>
        sm_failures := deduplicateFailures (sm_failures summary),
        sm_warnings := sort (sm_warnings summary),
        sm_pages := sort_by page_less pages,
        sm_truncation :=
          (if omitted \<noteq> zero_ToolResultOmissionCounters
           then truncation\<lparr>ttr_omitted := omitted, ttr_truncated := True, ttr_reason := ''deterministic_filter''\<rparr>
           else truncation\<lparr>ttr_omitted := omitted\<rparr>)\<rparr>)"

end
