(* ===== verification/SummaryObservation.thy ===== *)
theory SummaryObservation
  imports SummaryPages
begin

section \<open>The structured observation (internal/agent/tool_result.go)\<close>

text \<open>
  What the model is told about the pages beside the nodes themselves: groups of elements, the
  candidates under every label, possible actions, facts to verify, hints for recovery and the
  candidates a plan step may select. The loop of the source fills seven tables at once; here each
  table is a function of the pages. \<open>uni\<close> says which characters beyond ASCII are letters or
  numbers.
\<close>

type_synonym unicode_table = "nat \<Rightarrow> bool"

subsection \<open>Classification\<close>

definition dom_attr :: "ToolResultDOMSummary \<Rightarrow> string \<Rightarrow> string" where
  "dom_attr d k = (case map_of (tdm_attrs d) k of None \<Rightarrow> [] | Some v \<Rightarrow> v)"

definition classifyElement :: "ToolResultNodeSummary \<Rightarrow> string" where
  "classifyElement node =
     (let role = ToLower (TrimSpace (tnd_role node));
          tag = (case tnd_dom node of None \<Rightarrow> [] | Some d \<Rightarrow> ToLower (TrimSpace (tdm_tag d)));
          inputType = (case tnd_dom node of None \<Rightarrow> [] | Some d \<Rightarrow> ToLower (TrimSpace (dom_attr d ''type'')));
          name = ToLower (tnd_name node) in
      if role \<in> {''searchbox'', ''textbox''} \<or> tag \<in> {''input'', ''textarea''} \<or> inputType = ''search''
      then ''input''
      else if role = ''button'' \<or> tag = ''button'' \<or> inputType = ''submit'' then ''button''
      else if role = ''link'' \<or> tag = ''a'' then ''link''
      else if role = ''spinbutton'' \<or> inputType = ''number'' then ''numeric_input''
      else if role = ''product'' \<or> Contains name ''product'' then ''product''
      else if role = ''row'' \<or> Contains name ''rs.'' \<or> Contains name ''blue top''
      then ''cart_or_product_row''
      else if role = ''heading'' then ''heading''
      else if role = ''cell'' then ''cell''
      else ''text'')"

definition first_attr :: "ToolResultDOMSummary \<Rightarrow> string option" where
  "first_attr d =
     find (\<lambda>value. value \<noteq> [])
       (map (\<lambda>k. TrimSpace (dom_attr d k)) [''id'', ''name'', ''placeholder'', ''aria-label'', ''href''])"

definition observationLabel :: "unicode_table \<Rightarrow> ToolResultNodeSummary \<Rightarrow> string" where
  "observationLabel uni node =
     (let trimmed = TrimSpace (tnd_name node); role = TrimSpace (tnd_role node) in
      if trimmed \<noteq> [] \<and> isSemanticName uni trimmed then boundedUTF8 trimmed 256
      else case Option.bind (tnd_dom node) first_attr of
        Some value \<Rightarrow> boundedUTF8 value 256
      | None \<Rightarrow>
          if role \<noteq> [] then boundedUTF8 role 256
          else (case tnd_dom node of
                  None \<Rightarrow> []
                | Some d \<Rightarrow> if TrimSpace (tdm_tag d) \<noteq> [] then boundedUTF8 (TrimSpace (tdm_tag d)) 256 else []))"

definition primary_selector :: "ToolResultNodeSummary \<Rightarrow> string" where
  "primary_selector node = (case tnd_verified_selectors node of [] \<Rightarrow> [] | s # _ \<Rightarrow> tsl_selector s)"

definition verificationFactForNode ::
  "unicode_table \<Rightarrow> string \<Rightarrow> ToolResultNodeSummary \<Rightarrow> ObservedVerificationFact" where
  "verificationFactForNode uni pageState node =
     (let label = observationLabel uni node; category = classifyElement node in
      if label = [] \<or> category \<notin> {''cart_or_product_row'', ''cell'', ''heading''}
      then zero_ObservedVerificationFact
      else \<lparr>ovf_page_state = pageState, ovf_kind = category, ovf_label = label,
        ovf_selector = primary_selector node,
        ovf_source = firstNonEmptyString [tnd_source node, ''a11y_or_dom'']\<rparr>)"

definition actionSideEffect :: "string \<Rightarrow> string \<Rightarrow> string" where
  "actionSideEffect action target =
     (let value = ToLower (action @ '' '' @ target) in
      if has_any value [''add to cart'', ''submit'', ''delete'', ''checkout'', ''place order'']
      then ''external_or_business_state''
      else if has_any value [''click'', ''input'', ''fill'', ''goto''] then ''browser_state''
      else ''none'')"

definition actionIdempotencyHint :: "string \<Rightarrow> string \<Rightarrow> string" where
  "actionIdempotencyHint action target =
     (let value = ToLower (action @ '' '' @ target) in
      if has_any value [''add to cart'', ''submit'', ''delete'', ''place order''] then ''non_idempotent''
      else if has_any value [''input'', ''fill'', ''goto'', ''wait'', ''assert''] then ''idempotent''
      else ''unknown'')"

definition recoveryHintFromFailure :: "ToolResultErrorSummary \<Rightarrow> ObservedRecoveryHint" where
  "recoveryHintFromFailure failure =
     (let code = ToLower (ter_code failure @ '' '' @ ter_message failure) in
      if has_any code [''locator'', ''match'', ''selector'', ''not found''] then
        \<lparr>orh_category = ''locator'',
         orh_reason = ''Target evidence is missing, stale, ambiguous, or non-executable.'',
         orh_action = ''re_explore_then_regenerate_dsl''\<rparr>
      else if has_any code [''condition'', ''precondition'', ''postcondition''] then
        \<lparr>orh_category = ''verification'',
         orh_reason = ''A precondition or postcondition did not match the observed page state.'',
         orh_action = ''inspect_condition_semantics_before_retry''\<rparr>
      else if has_any code [''navigation'', ''url''] then
        \<lparr>orh_category = ''navigation'',
         orh_reason = ''The browser did not reach the expected page state.'',
         orh_action = ''re_explore_navigation_path''\<rparr>
      else
        \<lparr>orh_category = ''unknown'',
         orh_reason = ''Failure could not be classified from structured fields.'',
         orh_action = ''manual_reconcile''\<rparr>)"

subsection \<open>The tables\<close>

text \<open>Every node with its page, in the order of the loop.\<close>

definition page_nodes :: "ToolResultPageSummary list \<Rightarrow> (ToolResultPageSummary \<times> ToolResultNodeSummary) list" where
  "page_nodes pages = concat (map (\<lambda>page. map (Pair page) (tpg_a11y_nodes page)) pages)"

definition page_state_of :: "ToolResultPageSummary \<Rightarrow> ObservedPageState" where
  "page_state_of page = \<lparr>ops_page_state = tpg_page_state page,
     ops_page_kind = firstNonEmptyString [tpg_page_kind page, ''unknown''], ops_url = tpg_url page,
     ops_status = tpg_status page, ops_revision = tpg_revision page,
     ops_element_count = tpg_element_count page\<rparr>"

definition count_in_group ::
  "unicode_table \<Rightarrow> ToolResultNodeSummary \<Rightarrow> ObservedElementGroup \<Rightarrow> ObservedElementGroup" where
  "count_in_group uni node grp =
     (let label = observationLabel uni node in
      grp\<lparr>oeg_count := oeg_count grp + 1,
        oeg_verified_count := oeg_verified_count grp + (if tnd_verified_selectors node \<noteq> [] then 1 else 0),
        oeg_representative :=
          (if label \<noteq> [] \<and> length (oeg_representative grp) < 6 \<and> label \<notin> set (oeg_representative grp)
           then oeg_representative grp @ [label] else oeg_representative grp)\<rparr>)"

definition group_node ::
  "unicode_table \<Rightarrow> ToolResultPageSummary \<times> ToolResultNodeSummary \<Rightarrow> (string \<times> ObservedElementGroup) list \<Rightarrow>
   (string \<times> ObservedElementGroup) list" where
  "group_node uni pn groups =
     (let category = classifyElement (snd pn);
          key = map_key [tpg_page_state (fst pn), category];
          grp = (case map_of groups key of
             None \<Rightarrow> zero_ObservedElementGroup\<lparr>oeg_page_state := tpg_page_state (fst pn), oeg_category := category\<rparr>
           | Some g \<Rightarrow> g) in
      assoc_put key (count_in_group uni (snd pn) grp) groups)"

definition element_groups :: "unicode_table \<Rightarrow> ToolResultPageSummary list \<Rightarrow> ObservedElementGroup list" where
  "element_groups uni pages =
     map (\<lambda>p. (snd p)\<lparr>oeg_representative := sort (oeg_representative (snd p))\<rparr>)
       (fold (group_node uni) (page_nodes pages) [])"

definition label_key :: "unicode_table \<Rightarrow> ToolResultNodeSummary \<Rightarrow> string" where
  "label_key uni node = map_key [tnd_page_state node, classifyElement node, observationLabel uni node]"

definition labelled_nodes ::
  "unicode_table \<Rightarrow> ToolResultPageSummary list \<Rightarrow> (ToolResultPageSummary \<times> ToolResultNodeSummary) list" where
  "labelled_nodes uni pages = filter (\<lambda>pn. observationLabel uni (snd pn) \<noteq> []) (page_nodes pages)"

definition labelCounts :: "unicode_table \<Rightarrow> ToolResultPageSummary list \<Rightarrow> string \<Rightarrow> int" where
  "labelCounts uni pages key =
     int (length (filter (\<lambda>pn. label_key uni (snd pn) = key) (labelled_nodes uni pages)))"

definition candidate_of ::
  "unicode_table \<Rightarrow> ToolResultPageSummary \<times> ToolResultNodeSummary \<Rightarrow> ObservedCandidateCoverage" where
  "candidate_of uni pn =
     (let page = fst pn; node = snd pn in
      \<lparr>occ_page_state = firstNonEmptyString [tnd_page_state node, tpg_page_state page],
       occ_category = classifyElement node, occ_label = observationLabel uni node, occ_role = tnd_role node,
       occ_selector_count = int (length (tnd_verified_selectors node)),
       occ_primary_selector = primary_selector node,
       occ_source = (case tnd_verified_selectors node of
          [] \<Rightarrow> [] | s # _ \<Rightarrow> firstNonEmptyString [tsl_source s, tsl_strategy s]),
       occ_executable = (tnd_verified_selectors node \<noteq> [] \<and> \<not> tnd_disabled node),
       occ_ambiguous_count = 0\<rparr>)"

definition candidate_key :: "ObservedCandidateCoverage \<Rightarrow> string" where
  "candidate_key c = map_key [occ_page_state c, occ_category c, occ_label c]"

definition candidate_coverage :: "unicode_table \<Rightarrow> ToolResultPageSummary list \<Rightarrow> ObservedCandidateCoverage list" where
  "candidate_coverage uni pages =
     map (\<lambda>c. c\<lparr>occ_ambiguous_count := labelCounts uni pages (candidate_key c)\<rparr>)
       (last_by candidate_key (map (candidate_of uni) (labelled_nodes uni pages)))"

definition fact_key :: "ObservedVerificationFact \<Rightarrow> string" where
  "fact_key f = map_key [ovf_page_state f, ovf_kind f, ovf_label f, ovf_selector f]"

definition verification_facts :: "unicode_table \<Rightarrow> ToolResultPageSummary list \<Rightarrow> ObservedVerificationFact list" where
  "verification_facts uni pages =
     last_by fact_key (filter (\<lambda>f. ovf_kind f \<noteq> [])
       (map (\<lambda>pn. verificationFactForNode uni (tpg_page_state (fst pn)) (snd pn)) (page_nodes pages)))"

definition node_candidates ::
  "unicode_table \<Rightarrow> int \<Rightarrow> ToolResultPageSummary \<times> ToolResultNodeSummary \<Rightarrow> ToolResultSelectableCandidate list" where
  "node_candidates uni sourceEventSeq pn =
     (let page = fst pn; node = snd pn in
      map (\<lambda>selector. \<lparr>
          tsc_page_state = firstNonEmptyString [tnd_page_state node, tpg_page_state page],
          tsc_category = classifyElement node, tsc_role = tnd_role node,
          tsc_name = observationLabel uni node, tsc_strategy = tsl_strategy selector,
          tsc_selector = tsl_selector selector,
          tsc_executable = (tnd_verified_selectors node \<noteq> [] \<and> \<not> tnd_disabled node),
          tsc_candidate_ref = Some \<lparr>tcr_schema_version = ''grounding.candidate-ref.v1'',
            tcr_source_event_seq = sourceEventSeq, tcr_probe_id = tpg_probe_id page,
            tcr_observation_id = tpg_observation_id page, tcr_candidate_id = tsl_candidate_id selector\<rparr>\<rparr>)
        (filter (\<lambda>selector. \<not> (blank (tsl_candidate_id selector) \<or> blank (tpg_probe_id page) \<or>
            blank (tpg_observation_id page))) (tnd_verified_selectors node)))"

definition selectable_candidates ::
  "unicode_table \<Rightarrow> int \<Rightarrow> ToolResultPageSummary list \<Rightarrow> ToolResultSelectableCandidate list" where
  "selectable_candidates uni sourceEventSeq pages =
     concat (map (node_candidates uni sourceEventSeq) (page_nodes pages))"

definition option_of :: "ToolResultPageSummary \<Rightarrow> ToolResultActionSummary \<Rightarrow> ObservedActionOption" where
  "option_of page action = \<lparr>
     oao_page_state = firstNonEmptyString [tac_page_state action, tpg_page_state page],
     oao_url = tac_url action, oao_action = tac_action action, oao_target = tac_target action,
     oao_status = tac_status action, oao_evidence_count = tac_evidence_count action,
     oao_side_effect = actionSideEffect (tac_action action) (tac_target action),
     oao_idempotency_hint = actionIdempotencyHint (tac_action action) (tac_target action)\<rparr>"

definition option_key :: "ObservedActionOption \<Rightarrow> string" where
  "option_key o1 = map_key [oao_page_state o1, oao_action o1, oao_target o1, oao_status o1]"

definition action_options :: "ToolResultPageSummary list \<Rightarrow> ObservedActionOption list" where
  "action_options pages =
     last_by option_key (concat (map (\<lambda>page. map (option_of page) (tpg_actions page)) pages))"

definition hint_less :: "ObservedRecoveryHint \<Rightarrow> ObservedRecoveryHint \<Rightarrow> bool" where
  "hint_less = lex_less [orh_category, orh_action]"

definition deduplicateRecoveryHints :: "ObservedRecoveryHint list \<Rightarrow> ObservedRecoveryHint list" where
  "deduplicateRecoveryHints hints =
     sort_by hint_less (last_by (\<lambda>h. map_key [orh_category h, orh_action h]) hints)"

definition recovery_hints ::
  "ToolResultPageSummary list \<Rightarrow> ToolResultErrorSummary list \<Rightarrow> ObservedRecoveryHint list" where
  "recovery_hints pages failures =
     deduplicateRecoveryHints (map recoveryHintFromFailure
       (List.map_filter tpg_failure pages @ failures))"

subsection \<open>Sorting and bounding\<close>

definition page_state_less :: "ObservedPageState \<Rightarrow> ObservedPageState \<Rightarrow> bool" where
  "page_state_less = lex_less [ops_page_state, ops_url]"

definition group_less :: "ObservedElementGroup \<Rightarrow> ObservedElementGroup \<Rightarrow> bool" where
  "group_less = lex_less [oeg_page_state, oeg_category]"

definition candidate_less :: "ObservedCandidateCoverage \<Rightarrow> ObservedCandidateCoverage \<Rightarrow> bool" where
  "candidate_less = lex_less [occ_page_state, occ_category, occ_label]"

definition option_less :: "ObservedActionOption \<Rightarrow> ObservedActionOption \<Rightarrow> bool" where
  "option_less = lex_less [oao_page_state, oao_action, oao_target]"

definition fact_less :: "ObservedVerificationFact \<Rightarrow> ObservedVerificationFact \<Rightarrow> bool" where
  "fact_less = lex_less [ovf_page_state, ovf_kind, ovf_label]"

definition selectable_less :: "ToolResultSelectableCandidate \<Rightarrow> ToolResultSelectableCandidate \<Rightarrow> bool" where
  "selectable_less left right \<longleftrightarrow>
     (if tsc_executable left \<noteq> tsc_executable right then tsc_executable left
      else lex_less [tsc_category, tsc_name, tsc_strategy, tsc_selector, tsc_role,
          \<lambda>c. render (enc_ToolResultSelectableCandidate c)] left right)"

definition normalizeStructuredObservation :: "StructuredObservation \<Rightarrow> StructuredObservation" where
  "normalizeStructuredObservation observation = observation\<lparr>
     sob_page_states := sort_by page_state_less (sob_page_states observation),
     sob_element_groups := sort_by group_less (sob_element_groups observation),
     sob_candidate_coverage := sort_by candidate_less (sob_candidate_coverage observation),
     sob_action_options := sort_by option_less (sob_action_options observation),
     sob_verification_facts := sort_by fact_less (sob_verification_facts observation),
     sob_selectable_candidates := sort_by selectable_less (sob_selectable_candidates observation)\<rparr>"

definition selectableCandidatesLimit :: nat where
  "selectableCandidatesLimit = 64"

definition observation_tables ::
  "unicode_table \<Rightarrow> ToolResultPageSummary list \<Rightarrow> ToolResultErrorSummary list \<Rightarrow> int \<Rightarrow> StructuredObservation" where
  "observation_tables uni pages failures sourceEventSeq = normalizeStructuredObservation \<lparr>
     sob_schema_version = ''agent.structured_observation.v1'',
     sob_page_states = map page_state_of pages,
     sob_element_groups = element_groups uni pages,
     sob_candidate_coverage = candidate_coverage uni pages,
     sob_action_options = action_options pages,
     sob_verification_facts = verification_facts uni pages,
     sob_recovery_hints = recovery_hints pages failures,
     sob_selectable_candidates = selectable_candidates uni sourceEventSeq pages\<rparr>"

definition buildStructuredObservation ::
  "unicode_table \<Rightarrow> ToolResultPageSummary list \<Rightarrow> ToolResultErrorSummary list \<Rightarrow> int \<Rightarrow>
   StructuredObservation option \<times> nat" where
  "buildStructuredObservation uni pages failures sourceEventSeq =
     (let observation = observation_tables uni pages failures sourceEventSeq;
          omitted = length (sob_selectable_candidates observation) - selectableCandidatesLimit in
      if sob_page_states observation = [] \<and> sob_element_groups observation = [] \<and>
         sob_candidate_coverage observation = [] \<and> sob_action_options observation = [] \<and>
         sob_verification_facts observation = [] \<and> sob_recovery_hints observation = [] \<and>
         sob_selectable_candidates observation = []
      then (None, 0)
      else (Some (observation\<lparr>sob_selectable_candidates :=
              take selectableCandidatesLimit (sob_selectable_candidates observation)\<rparr>), omitted))"

subsection \<open>Effects already executed\<close>

definition counts_as_effect :: "ObservedActionOption \<Rightarrow> bool" where
  "counts_as_effect o1 \<longleftrightarrow>
     oao_status o1 = ''success'' \<and>
     (oao_side_effect o1 = ''external_or_business_state'' \<or> oao_idempotency_hint o1 = ''non_idempotent'')"

definition effect_key :: "ObservedActionOption \<Rightarrow> string" where
  "effect_key o1 = map_key [ToLower (TrimSpace (oao_action o1)),
     ToLower (Join (Fields (oao_target o1)) '' ''), ToLower (TrimSpace (oao_url o1))]"

definition effect_less :: "ObservedActionOption \<Rightarrow> ObservedActionOption \<Rightarrow> bool" where
  "effect_less = lex_less [oao_action, oao_target, oao_url]"

definition executedEffectsFromObservation :: "StructuredObservation option \<Rightarrow> ObservedActionOption list" where
  "executedEffectsFromObservation observation =
     (case observation of
        None \<Rightarrow> []
      | Some obs \<Rightarrow> sort_by effect_less (last_by effect_key
          (filter (\<lambda>o1. counts_as_effect o1 \<and> effect_key o1 \<noteq> [CHR 0x00, CHR 0x00])
             (sob_action_options obs))))"

end
