(* ===== verification/CapabilitySummary.thy ===== *)
theory CapabilitySummary
  imports SummaryText
begin

section \<open>Summaries of the other tools (internal/agent/tool_result.go)\<close>

text \<open>
  Results of tools that do not explore are read as generic documents: a member of the wrong type
  counts as absent.
\<close>

definition boolValue :: "json \<Rightarrow> bool option" where
  "boolValue value = (case value of JBool b \<Rightarrow> Some b | _ \<Rightarrow> None)"

definition arrayValue :: "json \<Rightarrow> json list" where
  "arrayValue value = (case value of JArr js \<Rightarrow> js | _ \<Rightarrow> [])"

text \<open>\<open>value.(map[string]any)\<close> that is not nil.\<close>

definition objectValue :: "json \<Rightarrow> (string \<times> json) list option" where
  "objectValue value = (case value of JObj ms \<Rightarrow> Some ms | _ \<Rightarrow> None)"

definition firstPresent :: "(string \<times> json) list \<Rightarrow> string list \<Rightarrow> json" where
  "firstPresent value keys =
     (case find (\<lambda>k. map_of value k \<noteq> None) keys of None \<Rightarrow> JNull | Some k \<Rightarrow> any_get value k)"

definition scalarValue :: "json \<Rightarrow> json" where
  "scalarValue value = (case value of JArr _ \<Rightarrow> JNull | JObj _ \<Rightarrow> JNull | _ \<Rightarrow> value)"

text \<open>
  \<open>int(typed)\<close> of a float64 drops the fraction; what lies beyond 64 bits becomes the smallest
  integer (the conversion of amd64).
\<close>

definition to_int64 :: "int \<Rightarrow> int" where
  "to_int64 i = (if in_int64 i then i else - (2 ^ 63))"

definition truncate_dec :: "int \<Rightarrow> nat \<Rightarrow> int" where
  "truncate_dec m k = (if m < 0 then - (- m div 10 ^ k) else m div 10 ^ k)"

definition intFromAny :: "json \<Rightarrow> int" where
  "intFromAny value =
     (case value of JInt i \<Rightarrow> to_int64 i | JDec m k \<Rightarrow> to_int64 (truncate_dec m k) | _ \<Rightarrow> 0)"

definition text_member :: "(string \<times> json) list \<Rightarrow> string \<Rightarrow> nat \<Rightarrow> string" where
  "text_member value k limit = boundedUTF8 (any_string (any_get value k)) limit"

text \<open>The keys of a set, sorted, at most \<open>limit\<close> of them.\<close>

definition sortedKeys :: "string list \<Rightarrow> nat \<Rightarrow> string list" where
  "sortedKeys keys limit =
     (let sorted_keys = sort (remdups keys) in
      if 0 < limit \<and> limit < length sorted_keys then take limit sorted_keys else sorted_keys)"

definition summarizeTaskPlanResult :: "(string \<times> json) list \<Rightarrow> ToolResultTaskPlanSummary" where
  "summarizeTaskPlanResult value = zero_ToolResultTaskPlanSummary\<lparr>
     ttp_plan_id := text_member value ''plan_id'' 64,
     ttp_version := intFromAny (any_get value ''version''),
     ttp_plan_sha256 := text_member value ''plan_sha256'' 64,
     ttp_status := text_member value ''status'' 64,
     ttp_step_ids := filter (\<lambda>s. s \<noteq> [])
       (map (\<lambda>step. text_member step ''id'' 64)
         (List.map_filter objectValue (arrayValue (any_get value ''steps''))))\<rparr>"

definition with_plan_binding :: "(string \<times> json) list \<Rightarrow> ToolResultDSLSummary \<Rightarrow> ToolResultDSLSummary" where
  "with_plan_binding value result =
     (case objectValue (any_get value ''plan_binding'') of
        None \<Rightarrow> result
      | Some binding \<Rightarrow> result\<lparr>
          tds_plan_id := text_member binding ''plan_id'' 64,
          tds_plan_version := intFromAny (any_get binding ''version''),
          tds_plan_sha256 := text_member binding ''sha256'' 64\<rparr>)"

definition step_target :: "(string \<times> json) list \<Rightarrow> string" where
  "step_target step = boundedUTF8
     (firstNonEmptyString [any_string (any_get step ''target''), any_string (any_get step ''semantic_target'')]) 256"

definition with_case :: "(string \<times> json) list \<Rightarrow> ToolResultDSLSummary \<Rightarrow> ToolResultDSLSummary" where
  "with_case value result =
     (case objectValue (any_get value ''case'') of
        None \<Rightarrow> result
      | Some caseValue \<Rightarrow>
          (let steps = arrayValue (any_get caseValue ''steps'');
               objects = List.map_filter objectValue steps in
           result\<lparr>
             tds_profile := text_member caseValue ''profile'' 64,
             tds_case_name := text_member caseValue ''name'' 256,
             tds_step_count := int (length steps),
             tds_actions := sortedKeys
               (filter (\<lambda>s. s \<noteq> []) (map (\<lambda>step. text_member step ''action'' 64) objects)) 16,
             tds_targets := sortedKeys (filter (\<lambda>s. s \<noteq> []) (map step_target objects)) 24\<rparr>))"

definition summarizeDSLResult :: "(string \<times> json) list \<Rightarrow> ToolResultDSLSummary" where
  "summarizeDSLResult value = with_case value (with_plan_binding value
     (zero_ToolResultDSLSummary\<lparr>tds_generation_id := scalarValue (any_get value ''generation_id'')\<rparr>))"

definition summarizeExecutionResult :: "(string \<times> json) list \<Rightarrow> ToolResultExecutionSummary" where
  "summarizeExecutionResult value = \<lparr>
     tex_batch_id = scalarValue (any_get value ''batch_id''),
     tex_case_id = scalarValue (any_get value ''case_id''),
     tex_status = text_member value ''status'' 64,
     tex_report_api_url = text_member value ''report_api_url'' 256\<rparr>"

subsection \<open>Failure signals\<close>

definition failure_brief :: "(string \<times> json) list \<Rightarrow> ToolResultFailureBrief" where
  "failure_brief signal = \<lparr>
     tfb_category = text_member signal ''category'' 64, tfb_stage = text_member signal ''stage'' 64,
     tfb_code = text_member signal ''code'' 128, tfb_title = text_member signal ''title'' 256,
     tfb_retryable = boolValue (any_get signal ''retryable''),
     tfb_side_effect_committed = scalarValue (any_get signal ''side_effect_committed''),
     tfb_plan_step_id = text_member signal ''plan_step_id'' 64,
     tfb_target_binding_id = text_member signal ''target_binding_id'' 64,
     tfb_probe_id = text_member signal ''probe_id'' 64,
     tfb_observation_id = text_member signal ''observation_id'' 64,
     tfb_observation_sha256 = text_member signal ''observation_sha256'' 64,
     tfb_page_state_id = text_member signal ''page_state_id'' 256,
     tfb_planned_candidate_id = text_member signal ''planned_candidate_id'' 64,
     tfb_candidate_id = text_member signal ''candidate_id'' 64,
     tfb_element_ref = text_member signal ''element_ref'' 128\<rparr>"

definition brief_text :: "ToolResultFailureBrief \<Rightarrow> string" where
  "brief_text b = render (enc_ToolResultFailureBrief b)"

text \<open>One brief per text, sorted by the texts: equal texts stand for the same signal.\<close>

definition deduplicateFailureBriefs :: "ToolResultFailureBrief list \<Rightarrow> ToolResultFailureBrief list" where
  "deduplicateFailureBriefs failures =
     sort_by (lex_less [brief_text])
       (map snd (fold (\<lambda>b m. assoc_put (brief_text b) b m) failures []))"

definition summarizeFailureSignals :: "json list \<Rightarrow> ToolResultFailureBrief list" where
  "summarizeFailureSignals values_list =
     deduplicateFailureBriefs (map failure_brief (List.map_filter objectValue values_list))"

definition case_result :: "(string \<times> json) list \<Rightarrow> ToolResultCaseResult" where
  "case_result c = \<lparr>
     tcs_case_id = scalarValue (any_get c ''case_id''),
     tcs_case_name = text_member c ''case_name'' 256, tcs_status = text_member c ''status'' 64,
     tcs_passed_steps = intFromAny (any_get c ''passed_steps''),
     tcs_total_steps = intFromAny (any_get c ''total_steps''),
     tcs_failure_summary = text_member c ''failure_summary'' 512\<rparr>"

definition summarizeReportResult :: "(string \<times> json) list \<Rightarrow> ToolResultReportSummary" where
  "summarizeReportResult value =
     (let analysis = objectValue (any_get value ''analysis'') in \<lparr>
        trp_batch_id = scalarValue (firstPresent value [''id'', ''batch_id'']),
        trp_status = text_member value ''status'' 64,
        trp_case_results = (case analysis of
            None \<Rightarrow> []
          | Some a \<Rightarrow> map case_result (List.map_filter objectValue (arrayValue (any_get a ''case_results'')))),
        trp_failure_signals = deduplicateFailureBriefs
          ((case analysis of
              None \<Rightarrow> []
            | Some a \<Rightarrow> summarizeFailureSignals (arrayValue (any_get a ''failure_signals''))) @
           summarizeFailureSignals (arrayValue (any_get value ''failure_signals''))),
        trp_recommended_action = (case analysis of
            None \<Rightarrow> []
          | Some a \<Rightarrow> text_member a ''recommended_action'' 128)\<rparr>)"

definition summarizeRepairResult :: "(string \<times> json) list \<Rightarrow> ToolResultRepairSummary" where
  "summarizeRepairResult value = \<lparr>
     trs_status = text_member value ''status'' 64, trs_strategy = text_member value ''strategy'' 64,
     trs_reason = text_member value ''reason'' 512,
     trs_source_batch_id = scalarValue (any_get value ''source_batch_id''),
     trs_source_execution_id = scalarValue (any_get value ''source_execution_id''),
     trs_original_action_replay_allowed = boolValue (any_get value ''original_action_replay_allowed''),
     trs_failure_signals = summarizeFailureSignals (arrayValue (any_get value ''failure_signals''))\<rparr>"

definition summarizeGenericResult :: "(string \<times> json) list \<Rightarrow> ToolResultGenericSummary" where
  "summarizeGenericResult value = \<lparr>
     tgn_status = text_member value ''status'' 64,
     tgn_top_level_keys = take 32 (sort (map (\<lambda>p. boundedUTF8 (fst p) 128) value))\<rparr>"

end
