(* ===== verification/SummaryBound.thy ===== *)
theory SummaryBound
  imports SummaryObservation CapabilitySummary HarnessPolicy
begin

section \<open>Bounded summaries (internal/agent/tool_result.go)\<close>

text \<open>
  A summary is written with its own size and its hash in it. When it is longer than the target,
  details are left out one group after the other, then the pages are reduced to references, then
  pages are left out, until it fits the hard limit. The transcript of a run is held below a budget
  by reducing older summaries to references.
\<close>

definition ModelToolSummaryTargetBytes :: nat where "ModelToolSummaryTargetBytes = 16384"
definition ModelToolSummaryHardLimitBytes :: nat where "ModelToolSummaryHardLimitBytes = 32768"
definition ModelExplorationBudgetBytes :: nat where "ModelExplorationBudgetBytes = 49152"

datatype build_error =
    InvalidToolResult
  | UndecodableExploration
  | UndecodableToolResult
  | UndecodableSummary
  | SummaryExceedsHardLimit

subsection \<open>Writing\<close>

definition marshal_summary :: "ModelToolSummary \<Rightarrow> string" where
  "marshal_summary summary = render (enc_ModelToolSummary summary)"

text \<open>\<open>int\<close> has 64 bits.\<close>

definition machine_int :: "nat \<Rightarrow> int" where
  "machine_int n = (int n + 2 ^ 63) mod 2 ^ 64 - 2 ^ 63"

definition set_summary_bytes :: "nat \<Rightarrow> ModelToolSummary \<Rightarrow> ModelToolSummary" where
  "set_summary_bytes n summary =
     summary\<lparr>sm_truncation := (sm_truncation summary)\<lparr>ttr_summary_bytes := machine_int n\<rparr>\<rparr>"

definition without_hash :: "ModelToolSummary \<Rightarrow> ModelToolSummary" where
  "without_hash summary = summary\<lparr>sm_summary_sha256 := []\<rparr>"

definition marshalUnsignedSummary :: "ModelToolSummary \<Rightarrow> string" where
  "marshalUnsignedSummary summary = marshal_summary (without_hash summary)"

definition sign_summary :: "ModelToolSummary \<Rightarrow> ModelToolSummary" where
  "sign_summary summary = summary\<lparr>sm_summary_sha256 := sha256_hex (marshalUnsignedSummary summary)\<rparr>"

text \<open>One round: the size without the hash, and 84 bytes for the member with the hash.\<close>

definition measure_summary :: "ModelToolSummary \<Rightarrow> ModelToolSummary" where
  "measure_summary summary = set_summary_bytes (length (marshal_summary summary) + 84) summary"

definition refresh_observation :: "unicode_table \<Rightarrow> ModelToolSummary \<Rightarrow> ModelToolSummary" where
  "refresh_observation uni summary =
     (if IsExplorationTool (sm_tool summary)
      then summary\<lparr>sm_observation := fst (buildStructuredObservation uni (sm_pages summary)
             (sm_failures summary) (tsrc_event_seq (sm_source summary)))\<rparr>
      else summary)"

definition encodeSummary :: "unicode_table \<Rightarrow> ModelToolSummary \<Rightarrow> string \<times> ModelToolSummary" where
  "encodeSummary uni summary =
     (let measured = (measure_summary ^^ 3) (refresh_observation uni (without_hash summary));
          signed = sign_summary measured;
          final = sign_summary (set_summary_bytes (length (marshal_summary signed)) signed) in
      (marshal_summary final, final))"

subsection \<open>Leaving out details\<close>

text \<open>The first page with the largest number of nodes, if any page has nodes.\<close>

fun most_nodes :: "nat \<Rightarrow> nat option \<Rightarrow> nat \<Rightarrow> ToolResultPageSummary list \<Rightarrow> nat option" where
  "most_nodes candidate index best [] = index"
| "most_nodes candidate index best (page # pages) =
     (if best < length (tpg_a11y_nodes page)
      then most_nodes (candidate + 1) (Some candidate) (length (tpg_a11y_nodes page)) pages
      else most_nodes (candidate + 1) index best pages)"

definition pageWithMostNodes :: "ToolResultPageSummary list \<Rightarrow> nat option" where
  "pageWithMostNodes pages = most_nodes 0 None 0 pages"

text \<open>The last element \<open>f\<close> changes, with what it says of the change.\<close>

fun change_last :: "('a \<Rightarrow> ('a \<times> 'b) option) \<Rightarrow> 'a list \<Rightarrow> ('a list \<times> 'b) option" where
  "change_last f [] = None"
| "change_last f (x # xs) =
     (case change_last f xs of
        Some (ys, b) \<Rightarrow> Some (x # ys, b)
      | None \<Rightarrow> (case f x of Some (y, b) \<Rightarrow> Some (y # xs, b) | None \<Rightarrow> None))"

definition omit_count :: "'a list \<Rightarrow> nat" where
  "omit_count xs = max 1 (length xs div 4)"

definition drop_last :: "'a list \<Rightarrow> 'a list" where
  "drop_last xs = take (length xs - omit_count xs) xs"

definition omit_nodes :: "ToolResultPageSummary \<Rightarrow> ToolResultPageSummary" where
  "omit_nodes page = page\<lparr>tpg_a11y_nodes := drop_last (tpg_a11y_nodes page),
     tpg_omitted := (tpg_omitted page)\<lparr>
       tom_nodes := tom_nodes (tpg_omitted page) + int (omit_count (tpg_a11y_nodes page))\<rparr>\<rparr>"

definition omit_evidence :: "ToolResultActionSummary \<Rightarrow> (ToolResultActionSummary \<times> int) option" where
  "omit_evidence action =
     (if tac_target_evidence action = [] then None
      else let n = int (omit_count (tac_target_evidence action)) in
        Some (action\<lparr>tac_target_evidence := drop_last (tac_target_evidence action),
            tac_omitted_target_evidence := tac_omitted_target_evidence action + n\<rparr>, n))"

definition omit_page_evidence :: "ToolResultPageSummary \<Rightarrow> (ToolResultPageSummary \<times> int) option" where
  "omit_page_evidence page =
     (case change_last omit_evidence (tpg_actions page) of
        None \<Rightarrow> None
      | Some (actions, n) \<Rightarrow>
          Some (page\<lparr>tpg_actions := actions,
            tpg_omitted := (tpg_omitted page)\<lparr>
              tom_target_evidence := tom_target_evidence (tpg_omitted page) + n\<rparr>\<rparr>, n))"

definition omit_actions :: "ToolResultPageSummary \<Rightarrow> (ToolResultPageSummary \<times> int) option" where
  "omit_actions page =
     (if tpg_actions page = [] then None
      else let n = int (omit_count (tpg_actions page)) in
        Some (page\<lparr>tpg_actions := drop_last (tpg_actions page),
          tpg_omitted := (tpg_omitted page)\<lparr>tom_actions := tom_actions (tpg_omitted page) + n\<rparr>\<rparr>, n))"

definition count_omitted ::
  "(ToolResultOmissionCounters \<Rightarrow> ToolResultOmissionCounters) \<Rightarrow> ModelToolSummary \<Rightarrow> ModelToolSummary" where
  "count_omitted f summary =
     summary\<lparr>sm_truncation := (sm_truncation summary)\<lparr>ttr_omitted := f (ttr_omitted (sm_truncation summary))\<rparr>\<rparr>"

definition omitOneSummaryDetail :: "ModelToolSummary \<Rightarrow> ModelToolSummary option" where
  "omitOneSummaryDetail summary =
     (case pageWithMostNodes (sm_pages summary) of
        Some i \<Rightarrow>
          let page = sm_pages summary ! i; n = int (omit_count (tpg_a11y_nodes page)) in
          Some (count_omitted (\<lambda>c. c\<lparr>tom_nodes := tom_nodes c + n\<rparr>)
            (summary\<lparr>sm_pages := (sm_pages summary)[i := omit_nodes page]\<rparr>))
      | None \<Rightarrow>
      (case change_last omit_page_evidence (sm_pages summary) of
        Some (pages, n) \<Rightarrow>
          Some (count_omitted (\<lambda>c. c\<lparr>tom_target_evidence := tom_target_evidence c + n\<rparr>)
            (summary\<lparr>sm_pages := pages\<rparr>))
      | None \<Rightarrow>
      (case change_last omit_actions (sm_pages summary) of
        Some (pages, n) \<Rightarrow>
          Some (count_omitted (\<lambda>c. c\<lparr>tom_actions := tom_actions c + n\<rparr>) (summary\<lparr>sm_pages := pages\<rparr>))
      | None \<Rightarrow> None)))"

subsection \<open>References\<close>

definition selector_count :: "ToolResultNodeSummary list \<Rightarrow> int" where
  "selector_count nodes = sum_list (map (\<lambda>n. int (length (tnd_verified_selectors n))) nodes)"

definition page_detail :: "ToolResultPageSummary \<Rightarrow> ToolResultOmissionCounters" where
  "page_detail page = zero_ToolResultOmissionCounters\<lparr>
     tom_actions := int (length (tpg_actions page)),
     tom_nodes := int (length (tpg_a11y_nodes page)),
     tom_target_evidence := sum_list (map (\<lambda>a. int (length (tac_target_evidence a))) (tpg_actions page)),
     tom_selectors := selector_count (tpg_a11y_nodes page) +
       sum_list (map (\<lambda>a. selector_count (tac_target_evidence a)) (tpg_actions page))\<rparr>"

definition makePageReferenceOnly :: "ToolResultPageSummary \<Rightarrow> ToolResultPageSummary \<times> ToolResultOmissionCounters" where
  "makePageReferenceOnly page =
     (page\<lparr>tpg_omitted := addOmissions (tpg_omitted page) (page_detail page),
        tpg_a11y_nodes := [], tpg_actions := [], tpg_reference_only := True,
        tpg_status := (if tpg_failure page = None \<and> tpg_status page = [] then ''referenced'' else tpg_status page)\<rparr>,
      page_detail page)"

definition makeSummaryReferenceOnly :: "ModelToolSummary \<Rightarrow> string \<Rightarrow> ModelToolSummary" where
  "makeSummaryReferenceOnly summary reason =
     (let counted = count_omitted (\<lambda>c. fold (\<lambda>page total. addOmissions total (page_detail page))
            (sm_pages summary) c) summary in
      counted\<lparr>sm_pages := map (\<lambda>page. fst (makePageReferenceOnly page)) (sm_pages summary),
        sm_reference_only := True,
        sm_truncation := (sm_truncation counted)\<lparr>ttr_truncated := True, ttr_reason := reason\<rparr>\<rparr>)"

subsection \<open>What is left of a summary when details go\<close>

definition page_details :: "ToolResultPageSummary \<Rightarrow> nat" where
  "page_details page = length (tpg_a11y_nodes page) +
     sum_list (map (\<lambda>a. Suc (length (tac_target_evidence a))) (tpg_actions page))"

definition summary_details :: "ModelToolSummary \<Rightarrow> nat" where
  "summary_details summary = sum_list (map page_details (sm_pages summary))"

lemma length_drop_last: "xs \<noteq> [] \<Longrightarrow> length (drop_last xs) < length xs"
  by (cases xs) (auto simp: drop_last_def omit_count_def)

lemma most_nodes_index:
  "most_nodes candidate index best pages = Some i \<Longrightarrow>
   index = Some i \<or> candidate \<le> i \<and> i < candidate + length pages \<and> tpg_a11y_nodes (pages ! (i - candidate)) \<noteq> []"
proof (induction candidate index best pages rule: most_nodes.induct)
  case (2 candidate index best page pages)
  show ?case
  proof (cases "best < length (tpg_a11y_nodes page)")
    case True
    with 2 have "Some candidate = Some i \<or> candidate + 1 \<le> i \<and> i < candidate + 1 + length pages \<and>
        tpg_a11y_nodes (pages ! (i - (candidate + 1))) \<noteq> []" by simp
    with True show ?thesis by (auto simp: nth_Cons')
  next
    case False
    with 2 have "index = Some i \<or> candidate + 1 \<le> i \<and> i < candidate + 1 + length pages \<and>
        tpg_a11y_nodes (pages ! (i - (candidate + 1))) \<noteq> []" by simp
    then show ?thesis by (auto simp: nth_Cons')
  qed
qed simp

lemma pageWithMostNodes_Some:
  "pageWithMostNodes pages = Some i \<Longrightarrow> i < length pages \<and> tpg_a11y_nodes (pages ! i) \<noteq> []"
  using most_nodes_index [of 0 None 0 pages i] by (simp add: pageWithMostNodes_def)

lemma change_last_decreases:
  assumes "change_last f xs = Some (ys, b)"
    and "\<And>x y b. x \<in> set xs \<Longrightarrow> f x = Some (y, b) \<Longrightarrow> (w y :: nat) < w x"
  shows "sum_list (map w ys) < sum_list (map w xs)"
  using assms by (induction xs arbitrary: ys) (force split: option.splits)+

lemma sum_list_take_less:
  "n < length xs \<Longrightarrow> (\<And>x. (0 :: nat) < w x) \<Longrightarrow> sum_list (map w (take n xs)) < sum_list (map w xs)"
proof (induction xs arbitrary: n)
  case (Cons x xs)
  then show ?case by (cases n) (auto intro: trans_less_add1)
qed simp

lemma omit_actions_decreases:
  assumes "omit_actions page = Some (page', n)"
  shows "page_details page' < page_details page"
proof -
  have "tpg_actions page \<noteq> []" and page': "tpg_actions page' = drop_last (tpg_actions page)"
    "tpg_a11y_nodes page' = tpg_a11y_nodes page"
    using assms by (auto simp: omit_actions_def Let_def split: if_splits)
  then have "length (tpg_actions page) - omit_count (tpg_actions page) < length (tpg_actions page)"
    by (cases "tpg_actions page") (auto simp: omit_count_def)
  then show ?thesis
    unfolding page_details_def page' drop_last_def by (simp add: sum_list_take_less)
qed

lemma omit_page_evidence_decreases:
  assumes "omit_page_evidence page = Some (page', n)"
  shows "page_details page' < page_details page"
proof -
  from assms obtain actions where ch: "change_last omit_evidence (tpg_actions page) = Some (actions, n)"
    and page': "tpg_actions page' = actions" "tpg_a11y_nodes page' = tpg_a11y_nodes page"
    by (auto simp: omit_page_evidence_def split: option.splits)
  have "sum_list (map (\<lambda>a. Suc (length (tac_target_evidence a))) actions)
      < sum_list (map (\<lambda>a. Suc (length (tac_target_evidence a))) (tpg_actions page))"
    using ch by (rule change_last_decreases)
      (auto simp: omit_evidence_def Let_def length_drop_last split: if_splits)
  with page' show ?thesis by (simp add: page_details_def)
qed

lemma sum_list_update_less:
  "i < length xs \<Longrightarrow> (w y :: nat) < w (xs ! i) \<Longrightarrow> sum_list (map w (xs[i := y])) < sum_list (map w xs)"
  by (induction xs arbitrary: i) (auto split: nat.splits)

lemma summary_details_count_omitted [simp]: "summary_details (count_omitted f s) = summary_details s"
  by (simp add: summary_details_def count_omitted_def)

lemma omitOneSummaryDetail_decreases:
  assumes "omitOneSummaryDetail s = Some s'"
  shows "summary_details s' < summary_details s"
proof (cases "pageWithMostNodes (sm_pages s)")
  case (Some i)
  have "i < length (sm_pages s)" "tpg_a11y_nodes (sm_pages s ! i) \<noteq> []"
    using pageWithMostNodes_Some [OF Some] by auto
  then have "sum_list (map page_details ((sm_pages s)[i := omit_nodes (sm_pages s ! i)])) < summary_details s"
    unfolding summary_details_def
    by (intro sum_list_update_less) (auto simp: page_details_def omit_nodes_def length_drop_last)
  with assms Some show ?thesis
    by (auto simp: omitOneSummaryDetail_def Let_def summary_details_def count_omitted_def)
next
  case None
  then consider
      (evidence) pages n where "change_last omit_page_evidence (sm_pages s) = Some (pages, n)"
        "sm_pages s' = pages"
    | (actions) pages n where "change_last omit_actions (sm_pages s) = Some (pages, n)"
        "sm_pages s' = pages"
    using assms by (auto simp: omitOneSummaryDetail_def count_omitted_def split: option.splits)
  then show ?thesis
  proof cases
    case evidence
    then show ?thesis unfolding summary_details_def
      using change_last_decreases [OF evidence(1), of page_details] omit_page_evidence_decreases by blast
  next
    case actions
    then show ?thesis unfolding summary_details_def
      using change_last_decreases [OF actions(1), of page_details] omit_actions_decreases by blast
  qed
qed

lemma encodeSummary_pages [simp]: "sm_pages (snd (encodeSummary uni s)) = sm_pages s"
proof -
  have "sm_pages ((measure_summary ^^ n) s) = sm_pages s" for n s
    by (induction n) (simp_all add: measure_summary_def set_summary_bytes_def)
  then show ?thesis
    by (simp add: encodeSummary_def Let_def sign_summary_def set_summary_bytes_def
        refresh_observation_def without_hash_def)
qed

subsection \<open>The loop\<close>

text \<open>Pages go from the end until the text fits the hard limit or no page is left.\<close>

fun drop_pages :: "unicode_table \<Rightarrow> nat \<Rightarrow> ModelToolSummary \<Rightarrow> string \<times> ModelToolSummary" where
  "drop_pages uni 0 summary = encodeSummary uni summary"
| "drop_pages uni (Suc n) summary =
     (let encoded = encodeSummary uni summary in
      if ModelToolSummaryHardLimitBytes < length (fst encoded)
      then drop_pages uni n (count_omitted (\<lambda>c. c\<lparr>tom_pages := tom_pages c + 1\<rparr>)
             ((snd encoded)\<lparr>sm_pages := butlast (sm_pages (snd encoded))\<rparr>))
      else encoded)"

definition reference_summary :: "unicode_table \<Rightarrow> ModelToolSummary \<Rightarrow> build_error + string" where
  "reference_summary uni summary =
     (let referenced = makeSummaryReferenceOnly summary ''per_summary_hard_limit'';
          encoded = fst (drop_pages uni (length (sm_pages referenced)) referenced) in
      if ModelToolSummaryHardLimitBytes < length encoded then Inl SummaryExceedsHardLimit else Inr encoded)"

definition mark_truncated :: "ModelToolSummary \<Rightarrow> ModelToolSummary" where
  "mark_truncated summary = summary\<lparr>sm_truncation :=
     (sm_truncation summary)\<lparr>ttr_truncated := True, ttr_reason := ''per_summary_target''\<rparr>\<rparr>"

lemma summary_details_mark_truncated [simp]: "summary_details (mark_truncated s) = summary_details s"
  by (simp add: summary_details_def mark_truncated_def)

lemma summary_details_encode [simp]: "summary_details (snd (encodeSummary uni s)) = summary_details s"
  by (simp add: summary_details_def)

function encodeBoundedSummary :: "unicode_table \<Rightarrow> ModelToolSummary \<Rightarrow> build_error + string" where
  "encodeBoundedSummary uni summary =
     (let encoded = encodeSummary uni summary in
      if length (fst encoded) \<le> ModelToolSummaryTargetBytes then Inr (fst encoded)
      else (case omitOneSummaryDetail (snd encoded) of
              Some shorter \<Rightarrow> encodeBoundedSummary uni (mark_truncated shorter)
            | None \<Rightarrow> reference_summary uni (snd encoded)))"
  by pat_completeness auto
termination
  by (relation "measure (\<lambda>(_, summary). summary_details summary)")
    (auto dest: omitOneSummaryDetail_decreases)

declare encodeBoundedSummary.simps [simp del]

subsection \<open>From a result to its summary\<close>

definition NewToolResultSource :: "string \<Rightarrow> int \<Rightarrow> (json \<times> ToolResultSource) option" where
  "NewToolResultSource content sourceEventSeq =
     (case parse_json content of
        None \<Rightarrow> None
      | Some j \<Rightarrow>
          if content = [] \<or> \<not> ValidString content then None
          else Some (j, \<lparr>tsrc_event_seq = sourceEventSeq, tsrc_content_sha256 = sha256_hex content,
                 tsrc_content_bytes = int (length content)\<rparr>))"

definition new_summary :: "string \<Rightarrow> ToolResultSource \<Rightarrow> ModelToolSummary" where
  "new_summary tool source = zero_ModelToolSummary\<lparr>
     sm_schema_version := ''agent.model_tool_summary.v1'', sm_policy_version := ''deterministic.exploration.v1'',
     sm_tool := tool, sm_source := source,
     sm_truncation := zero_ToolResultTruncation\<lparr>
       ttr_target_bytes := int ModelToolSummaryTargetBytes,
       ttr_hard_limit_bytes := int ModelToolSummaryHardLimitBytes\<rparr>\<rparr>"

definition capability_part :: "string \<Rightarrow> (string \<times> json) list \<Rightarrow> ModelToolSummary \<Rightarrow> ModelToolSummary" where
  "capability_part tool value summary =
     (if tool = ''set_task_plan'' then summary\<lparr>sm_task_plan := Some (summarizeTaskPlanResult value)\<rparr>
      else if tool = ''generate_dsl'' then summary\<lparr>sm_dsl := Some (summarizeDSLResult value)\<rparr>
      else if tool = ''execute_dsl'' then summary\<lparr>sm_execution := Some (summarizeExecutionResult value)\<rparr>
      else if tool = ''get_report'' then summary\<lparr>sm_report := Some (summarizeReportResult value)\<rparr>
      else if tool = ''fix_and_retry'' then summary\<lparr>sm_repair := Some (summarizeRepairResult value)\<rparr>
      else summary\<lparr>sm_generic := Some (summarizeGenericResult value)\<rparr>)"

text \<open>\<open>var value map[string]any\<close>: an object, or \<open>null\<close> for the nil map.\<close>

definition decode_document :: "json \<Rightarrow> (string \<times> json) list option" where
  "decode_document content =
     (case anyval content of JObj ms \<Rightarrow> Some ms | JNull \<Rightarrow> Some [] | _ \<Rightarrow> None)"

definition buildCapabilityToolSummary ::
  "unicode_table \<Rightarrow> string \<Rightarrow> json \<Rightarrow> ToolResultSource \<Rightarrow> build_error + string" where
  "buildCapabilityToolSummary uni tool content source =
     (case decode_document content of
        None \<Rightarrow> Inl UndecodableToolResult
      | Some value \<Rightarrow> encodeBoundedSummary uni
          (capability_part tool value
            ((new_summary tool source)\<lparr>sm_status := text_member value ''status'' 64\<rparr>)))"

definition with_task_plan ::
  "unicode_table \<Rightarrow> ToolResultTaskPlanSummary option \<Rightarrow> build_error + string \<Rightarrow> build_error + string" where
  "with_task_plan uni taskPlan result =
     (case result of
        Inl e \<Rightarrow> Inl e
      | Inr encoded \<Rightarrow>
          (case taskPlan of
             None \<Rightarrow> Inr encoded
           | Some plan \<Rightarrow>
               (case unmarshal dec_ModelToolSummary zero_ModelToolSummary (parse_json encoded) of
                  None \<Rightarrow> Inl UndecodableSummary
                | Some summary \<Rightarrow> encodeBoundedSummary uni (summary\<lparr>sm_task_plan := Some plan\<rparr>))))"

definition context_summary :: "rawContextEvidence \<Rightarrow> ToolResultContextSummary" where
  "context_summary c = \<lparr>tcx_execution_scope = boundedUTF8 (rc_execution_scope c) 64,
     tcx_state_persisted = rc_state_persisted c, tcx_clean_context_requested = rc_clean_context_requested c,
     tcx_storage_state_loaded = rc_storage_state_loaded c, tcx_planning_session_id = rc_planning_session_id c\<rparr>"

definition result_page :: "rawExploreResult \<Rightarrow> rawPage" where
  "result_page raw = \<lparr>rp_url = rx_url raw, rp_page_state = firstNonEmptyString [rx_page_state raw, ''S0''],
     rp_revision = rx_revision raw, rp_status = rx_status raw, rp_description = [],
     rp_element_count = rx_element_count raw, rp_a11y_nodes = rx_a11y_nodes raw, rp_actions = rx_actions raw,
     rp_failure = rx_failure raw, rp_observation_v2 = rx_observation_v2 raw\<rparr>"

definition exploration_summary :: "string \<Rightarrow> ToolResultSource \<Rightarrow> rawExploreResult \<Rightarrow> ModelToolSummary" where
  "exploration_summary tool source raw = (new_summary tool source)\<lparr>
     sm_success := rx_success raw, sm_status := boundedUTF8 (rx_status raw) 64,
     sm_context := map_option context_summary (rx_context_evidence raw),
     sm_warnings := (if rx_warning raw = [] then [] else [boundedUTF8 (rx_warning raw) 1024]),
     sm_failures := map failure_summary (rx_failures raw) @
       (case rx_failure raw of None \<Rightarrow> [] | Some f \<Rightarrow> [failure_summary f]),
     sm_pages := (if tool = ''explore_page'' then [summarizePage (result_page raw)]
                  else map summarizePage (rx_pages raw))\<rparr>"

definition mark_filtered :: "ModelToolSummary \<Rightarrow> ModelToolSummary" where
  "mark_filtered summary = summary\<lparr>sm_truncation :=
     (sm_truncation summary)\<lparr>ttr_truncated := True, ttr_reason := ''deterministic_filter''\<rparr>\<rparr>"

definition observe_summary :: "unicode_table \<Rightarrow> int \<Rightarrow> ModelToolSummary \<Rightarrow> ModelToolSummary" where
  "observe_summary uni sourceEventSeq summary =
     (let (observation, omitted) =
            buildStructuredObservation uni (sm_pages summary) (sm_failures summary) sourceEventSeq;
          counted = (if 0 < omitted
            then mark_filtered (count_omitted (\<lambda>c. c\<lparr>tom_candidates := tom_candidates c + int omitted\<rparr>) summary)
            else summary) in
      counted\<lparr>sm_observation := observation,
        sm_executed_effects := executedEffectsFromObservation observation\<rparr>)"

definition BuildModelToolSummary ::
  "unicode_table \<Rightarrow> string \<Rightarrow> string \<Rightarrow> int \<Rightarrow> ToolResultTaskPlanSummary option \<Rightarrow> build_error + string" where
  "BuildModelToolSummary uni tool content sourceEventSeq taskPlan =
     (case NewToolResultSource content sourceEventSeq of
        None \<Rightarrow> Inl InvalidToolResult
      | Some (document, source) \<Rightarrow>
          if \<not> IsExplorationTool tool
          then with_task_plan uni taskPlan (buildCapabilityToolSummary uni tool document source)
          else (case dec_rawExploreResult document zero_rawExploreResult of
                  None \<Rightarrow> Inl UndecodableExploration
                | Some raw \<Rightarrow> encodeBoundedSummary uni
                    ((observe_summary uni sourceEventSeq (normalizeSummary (exploration_summary tool source raw)))
                       \<lparr>sm_task_plan := taskPlan\<rparr>)))"

end
