(* ===== verification/SummarySize.thy ===== *)
theory SummarySize
  imports SummaryBound
begin

section \<open>A summary states its own size and hash\<close>

text \<open>
  The size of a summary is part of its text, so writing it down may change it. The lemmas count
  the characters of a JSON text, and show that three rounds of measuring reach a fixed point.
\<close>

subsection \<open>Decimal numerals\<close>

definition numeral_length :: "nat \<Rightarrow> nat" where
  "numeral_length n = length (nat_digits n)"

lemma numeral_length_rec: "numeral_length n = (if n < 10 then 1 else Suc (numeral_length (n div 10)))"
  by (simp add: numeral_length_def nat_digits.simps [of n])

lemma numeral_length_pos [simp]: "0 < numeral_length n"
  by (simp add: numeral_length_def)

lemma numeral_length_le_iff: "numeral_length n \<le> Suc k \<longleftrightarrow> n < 10 ^ Suc k"
proof (induction k arbitrary: n)
  case 0
  show ?case by (subst numeral_length_rec) auto
next
  case (Suc k)
  show ?case
  proof (cases "n < 10")
    case True
    then have "n < 10 ^ Suc (Suc k)"
      by (rule less_le_trans) (simp add: one_le_power)
    with True show ?thesis by (subst numeral_length_rec) simp
  next
    case False
    have "n div 10 < 10 ^ Suc k \<longleftrightarrow> n < 10 ^ Suc (Suc k)"
      by (simp add: div_less_iff_less_mult mult.commute)
    with False Suc [of "n div 10"] show ?thesis by (subst numeral_length_rec) simp
  qed
qed

lemma numeral_length_mono: "m \<le> n \<Longrightarrow> numeral_length m \<le> numeral_length n"
proof -
  assume "m \<le> n"
  moreover obtain k where k: "numeral_length n = Suc k"
    using numeral_length_pos [of n] by (auto simp: gr0_conv_Suc)
  then have "n < 10 ^ Suc k" using numeral_length_le_iff [of n k] by simp
  ultimately have "m < 10 ^ Suc k" by simp
  with k show ?thesis using numeral_length_le_iff [of m k] by simp
qed

text \<open>Adding a few units adds at most one digit.\<close>

lemma numeral_length_step:
  assumes "84 \<le> b" and "x \<le> b + numeral_length b + 20"
  shows "numeral_length x \<le> Suc (numeral_length b)"
proof -
  obtain k where k: "numeral_length b = Suc k"
    using numeral_length_pos [of b] by (auto simp: gr0_conv_Suc)
  then have b: "b < 10 ^ Suc k" using numeral_length_le_iff [of b k] by simp
  have "k + 21 < 9 * 10 ^ Suc k" for k :: nat
    by (induction k) auto
  from this [of k] have "x < 10 ^ Suc k + 9 * 10 ^ Suc k"
    using assms(2) b k by linarith
  then have "x < 10 ^ Suc (Suc k)" by simp
  with k show ?thesis using numeral_length_le_iff [of x "Suc k"] by simp
qed

text \<open>\<open>n \<mapsto> b + digits of n\<close> reaches a fixed point in three rounds.\<close>

lemma size_fixpoint:
  assumes "84 \<le> b" and "1 \<le> d" and "d \<le> 20"
    and "n1 = b + d" and "n2 = b + numeral_length n1" and "n3 = b + numeral_length n2"
  shows "b + numeral_length n3 = n3"
proof -
  define l where "l = numeral_length b"
  have up: "numeral_length x \<le> Suc l" if "x \<le> b + l + 20" for x
    using numeral_length_step [OF assms(1)] that by (simp add: l_def)
  have low: "l \<le> numeral_length x" if "b \<le> x" for x
    using numeral_length_mono [OF that] by (simp add: l_def)
  have two: "numeral_length x = l \<or> numeral_length x = Suc l" if "b \<le> x" "x \<le> b + l + 20" for x
    using up [OF that(2)] low [OF that(1)] by linarith
  have "n2 = b + l \<or> n2 = b + Suc l"
    using two [of n1] assms(2-5) by auto
  moreover have "numeral_length (b + l) \<le> numeral_length (b + Suc l)"
    by (intro numeral_length_mono) simp
  ultimately show ?thesis
    using two [of "b + l"] two [of "b + Suc l"] assms(6) by auto
qed

lemma length_itoa_nat [simp]: "length (itoa (int n)) = numeral_length n"
  by (simp add: itoa_def numeral_length_def)

lemma length_itoa_pos: "1 \<le> length (itoa i)"
  by (simp add: itoa_def Suc_leI)

lemma length_itoa_int64: "in_int64 i \<Longrightarrow> length (itoa i) \<le> 20"
proof -
  assume "in_int64 i"
  then have "nat i < 10000000000000000000" "nat (- i) < 10000000000000000000"
    unfolding in_int64_def by simp_all arith+
  then have "numeral_length (nat i) \<le> 19" "numeral_length (nat (- i)) \<le> 19"
    using numeral_length_le_iff [of "nat i" 18] numeral_length_le_iff [of "nat (- i)" 18] by simp_all
  then show ?thesis by (simp add: itoa_def numeral_length_def)
qed

subsection \<open>Lengths of JSON texts\<close>

definition member_length :: "string \<times> json \<Rightarrow> nat" where
  "member_length p = length (render_string (fst p)) + 1 + length (render (snd p))"

definition members_length :: "(string \<times> json) list \<Rightarrow> nat" where
  "members_length ms = sum_list (map (\<lambda>p. member_length p + 1) ms)"

lemma members_length_append [simp]: "members_length (ms @ ns) = members_length ms + members_length ns"
  by (simp add: members_length_def)

lemma members_length_simps [simp]:
  "members_length [] = 0" "members_length (p # ms) = member_length p + 1 + members_length ms"
  by (simp_all add: members_length_def)

lemma length_Join_comma: "xs \<noteq> [] \<Longrightarrow> length (Join xs '','') + 1 = sum_list (map (\<lambda>x. length x + 1) xs)"
  by (induction xs "'',''" rule: Join.induct) auto

lemma length_render_object: "ms \<noteq> [] \<Longrightarrow> length (render (JObj ms)) = members_length ms + 1"
  using length_Join_comma [of "map (\<lambda>p. render_string (fst p) @ CHR '':'' # render (snd p)) ms"]
  by (simp add: members_length_def member_length_def comp_def add.commute add.left_commute)

lemma length_render_chars_hex: "list_all is_lower_hex s \<Longrightarrow> length (render_chars s) = length s"
proof (induction s rule: render_chars.induct [case_names long none one two])
  case (long a b c s)
  then have "is_lower_hex a" by simp
  then have "(of_char a :: nat) < 128" "length (render_char a) = 1"
    by (auto simp: is_lower_hex_def render_char_def Let_def)
  with long show ?case by simp
next
  case none
  show ?case by simp
next
  case (one a)
  then have "length (render_char a) = 1" by (auto simp: is_lower_hex_def render_char_def Let_def)
  with one show ?case by simp
next
  case (two a b)
  then have "length (render_char a) = 1" by (auto simp: is_lower_hex_def render_char_def Let_def)
  with two show ?case by simp
qed

lemma length_render_sha [simp]: "length (render_string (sha256_hex s)) = 66"
proof -
  have "list_all is_lower_hex (sha256_hex s)"
    using sha256_hex_alphabet by (auto simp: list_all_iff)
  then show ?thesis
    by (simp add: render_string_def length_render_chars_hex)
qed

end
