(* ===== verification/SummaryLaws.thy ===== *)
theory SummaryLaws
  imports SummarySize
begin

section \<open>What holds of bounded summaries\<close>

subsection \<open>Size and hash\<close>

lemma in_int64_machine_int [simp]: "in_int64 (machine_int n)"
proof -
  have "0 \<le> (int n + 2 ^ 63) mod 2 ^ 64" "(int n + 2 ^ 63) mod 2 ^ 64 < 2 ^ 64" by simp_all
  then show ?thesis by (simp add: in_int64_def machine_int_def)
qed

lemma machine_int_small: "n < 2 ^ 63 \<Longrightarrow> machine_int n = int n"
  by (simp add: machine_int_def)

lemma machine_int_0 [simp]: "machine_int 0 = 0"
  by (simp add: machine_int_def)

text \<open>The text without the hash and with a size of \<open>0\<close>, less that digit.\<close>

definition fixed_length :: "ModelToolSummary \<Rightarrow> nat" where
  "fixed_length summary = length (marshal_summary (set_summary_bytes 0 (without_hash summary))) - 1"

lemma member_length_sha:
  "member_length (''summary_sha256'', JStr s) = 17 + length (render_string s)"
  by (simp add: member_length_def render_string_def render_char_def Let_def)

lemma length_truncation:
  "length (render (enc_ToolResultTruncation (t\<lparr>ttr_summary_bytes := n\<rparr>))) + 1
   = length (render (enc_ToolResultTruncation (t\<lparr>ttr_summary_bytes := 0\<rparr>))) + length (itoa n)"
  unfolding enc_ToolResultTruncation_def
  by (simp add: length_render_object members_length_def member_length_def itoa_def nat_digits.simps [of 0]
      del: render.simps(7)) 


lemma length_marshal:
  "length (marshal_summary s) =
     fixed_length s + length (itoa (ttr_summary_bytes (sm_truncation s))) +
     (if sm_summary_sha256 s = [] then 0 else 18 + length (render_string (sm_summary_sha256 s)))"
proof -
  define t where "t = sm_truncation s"
  have "t = t\<lparr>ttr_summary_bytes := ttr_summary_bytes t\<rparr>" by simp
  then have trunc: "length (render (enc_ToolResultTruncation t)) + 1
      = length (render (enc_ToolResultTruncation (t\<lparr>ttr_summary_bytes := 0\<rparr>)))
        + length (itoa (ttr_summary_bytes t))"
    using length_truncation [of "ttr_summary_bytes t" t] by simp
  have pos: "0 < length (marshal_summary (set_summary_bytes 0 (without_hash s)))"
    by (simp add: marshal_summary_def enc_ModelToolSummary_def)
  have "length (marshal_summary s) + 1 =
      length (marshal_summary (set_summary_bytes 0 (without_hash s))) + length (itoa (ttr_summary_bytes t)) +
      members_length (omit_empty_string ''summary_sha256'' (sm_summary_sha256 s))"
    using trunc
    unfolding marshal_summary_def enc_ModelToolSummary_def set_summary_bytes_def without_hash_def
    by (simp add: length_render_object member_length_def [of "(''truncation'', _)"] omit_empty_string_def [of _ "[]"] t_def
        del: render.simps(7))
  moreover have "members_length (omit_empty_string ''summary_sha256'' h) =
      (if h = [] then 0 else 18 + length (render_string h))" for h
    by (simp add: omit_empty_string_def member_length_sha)
  ultimately show ?thesis using pos by (auto simp: fixed_length_def t_def simp del: length_greater_0_conv)
qed


lemma fixed_length_frame [simp]:
  "fixed_length (set_summary_bytes n s) = fixed_length s"
  "fixed_length (s\<lparr>sm_summary_sha256 := h\<rparr>) = fixed_length s"
  by (simp_all add: fixed_length_def set_summary_bytes_def without_hash_def)

lemma set_summary_bytes_simps [simp]:
  "ttr_summary_bytes (sm_truncation (set_summary_bytes n s)) = machine_int n"
  "sm_summary_sha256 (set_summary_bytes n s) = sm_summary_sha256 s"
  by (simp_all add: set_summary_bytes_def)

text \<open>What every summary that was written says of itself.\<close>

definition describes_itself :: "ModelToolSummary \<Rightarrow> bool" where
  "describes_itself s \<longleftrightarrow>
     ttr_summary_bytes (sm_truncation s) = int (length (marshal_summary s)) \<and>
     sm_summary_sha256 s = sha256_hex (marshalUnsignedSummary s)"

definition bytes_in_int64 :: "ModelToolSummary \<Rightarrow> bool" where
  "bytes_in_int64 s \<longleftrightarrow> in_int64 (ttr_summary_bytes (sm_truncation s))"

lemma sha256_hex_not_Nil [simp]: "sha256_hex x \<noteq> []"
  using length_sha256_hex [of x] by force

lemma encodeSummary_text: "fst (encodeSummary uni s) = marshal_summary (snd (encodeSummary uni s))"
  by (simp add: encodeSummary_def Let_def)

lemma encodeSummary_int64 [simp]: "bytes_in_int64 (snd (encodeSummary uni s))"
  by (simp add: encodeSummary_def Let_def bytes_in_int64_def sign_summary_def)

lemma encodeSummary_signed: "sm_summary_sha256 (snd (encodeSummary uni s))
    = sha256_hex (marshalUnsignedSummary (snd (encodeSummary uni s)))"
  by (simp add: encodeSummary_def Let_def sign_summary_def marshalUnsignedSummary_def without_hash_def)

lemma numeral_length_int: "0 \<le> i \<Longrightarrow> length (itoa i) = numeral_length (nat i)"
  by (simp add: itoa_def numeral_length_def)

text \<open>The three rounds without wrap-around.\<close>

lemma three_rounds:
  assumes "bytes_in_int64 r" and "sm_summary_sha256 r = []" and "fixed_length r + 84 < 2 ^ 62"
  obtains n where "(measure_summary ^^ 3) r = set_summary_bytes n r" and "n < 2 ^ 63"
    and "fixed_length r + 84 + numeral_length n = n"
proof -
  define b where "b = fixed_length r + 84"
  define n1 where "n1 = b + length (itoa (ttr_summary_bytes (sm_truncation r)))"
  define n2 where "n2 = b + numeral_length n1"
  define n3 where "n3 = b + numeral_length n2"
  have d: "length (itoa (ttr_summary_bytes (sm_truncation r))) \<le> 20"
    using assms(1) by (simp add: bytes_in_int64_def length_itoa_int64)
  have b: "b < 2 ^ 62" using assms(3) by (simp add: b_def)
  have small: "b + numeral_length m < 2 ^ 63" if "m < 2 ^ 63" for m
  proof -
    have "m < 10 ^ Suc 18" using that by simp
    then have "numeral_length m \<le> 19" using numeral_length_le_iff [of m 18] by simp
    with b show ?thesis by simp
  qed
  have n1: "n1 < 2 ^ 63" using b d by (simp add: n1_def)
  have n2: "n2 < 2 ^ 63" unfolding n2_def by (rule small [OF n1])
  have n3: "n3 < 2 ^ 63" unfolding n3_def by (rule small [OF n2])
  have len: "length (itoa (machine_int m)) = numeral_length m" if "m < 2 ^ 63" for m
    using that by (simp add: machine_int_small)
  have "measure_summary r = set_summary_bytes n1 r"
    by (simp add: measure_summary_def length_marshal assms(2) n1_def b_def ac_simps)
  moreover have "measure_summary (set_summary_bytes n1 r) = set_summary_bytes n2 (set_summary_bytes n1 r)"
    by (simp add: measure_summary_def length_marshal assms(2) len [OF n1] n2_def b_def ac_simps)
  moreover have "measure_summary (set_summary_bytes n2 r) = set_summary_bytes n3 (set_summary_bytes n2 r)"
    by (simp add: measure_summary_def length_marshal assms(2) len [OF n2] n3_def b_def ac_simps)
  moreover have "set_summary_bytes x (set_summary_bytes y r) = set_summary_bytes x r" for x y
    by (simp add: set_summary_bytes_def)
  ultimately have "(measure_summary ^^ 3) r = set_summary_bytes n3 r"
    by (simp add: numeral_3_eq_3)
  moreover have "b + numeral_length n3 = n3"
    by (rule size_fixpoint [OF _ length_itoa_pos d n1_def n2_def n3_def]) (simp add: b_def)
  ultimately show thesis using that [of n3] n3 by (simp add: b_def)
qed

lemma encodeSummary_describes:
  assumes "bytes_in_int64 s" and "length (fst (encodeSummary uni s)) < 2 ^ 62"
  shows "describes_itself (snd (encodeSummary uni s))"
proof -
  define r where "r = refresh_observation uni (without_hash s)"
  have r: "sm_summary_sha256 r = []" "sm_truncation r = sm_truncation s"
    by (simp_all add: r_def refresh_observation_def without_hash_def)
  have frame: "fixed_length ((measure_summary ^^ k) r) = fixed_length r" for k
    by (induction k) (simp_all add: measure_summary_def)
  have "fixed_length r + 84 \<le> length (fst (encodeSummary uni s))"
    by (simp add: encodeSummary_def Let_def r_def [symmetric] length_marshal sign_summary_def frame)
  then obtain n where n: "(measure_summary ^^ 3) r = set_summary_bytes n r" "n < 2 ^ 63"
      "fixed_length r + 84 + numeral_length n = n"
    using three_rounds [of r] assms r by (auto simp: bytes_in_int64_def)
  have mi: "machine_int n = int n" by (rule machine_int_small [OF n(2)])
  have len: "length (marshal_summary (x\<lparr>sm_summary_sha256 := sha256_hex y\<rparr>)) = n"
    if "fixed_length x = fixed_length r" "ttr_summary_bytes (sm_truncation x) = int n" for x y
    using that n(3) by (simp add: length_marshal)
  define signed where "signed = sign_summary (set_summary_bytes n r)"
  have "length (marshal_summary signed) = n"
    unfolding signed_def sign_summary_def by (rule len) (simp_all add: mi)
  then have final: "snd (encodeSummary uni s) = sign_summary (set_summary_bytes n signed)"
    by (simp add: encodeSummary_def Let_def r_def [symmetric] n(1) signed_def [symmetric])
  have "length (marshal_summary (sign_summary (set_summary_bytes n signed))) = n"
    unfolding sign_summary_def [of "set_summary_bytes n signed"]
    by (rule len) (simp_all add: signed_def sign_summary_def mi)
  moreover have "ttr_summary_bytes (sm_truncation (sign_summary (set_summary_bytes n signed))) = int n"
    by (simp add: sign_summary_def mi)
  ultimately show ?thesis
    using encodeSummary_signed [of uni s] by (simp add: describes_itself_def final)
qed

subsection \<open>What shortening keeps\<close>

text \<open>Everything but the pages, what is derived from them, and the account of what was left out.\<close>

definition essentials :: "ModelToolSummary \<Rightarrow> ModelToolSummary" where
  "essentials s = s\<lparr>sm_summary_sha256 := [], sm_observation := None, sm_pages := [],
     sm_truncation := zero_ToolResultTruncation, sm_reference_only := False\<rparr>"

lemma essentials_frame [simp]:
  "essentials (s\<lparr>sm_pages := ps\<rparr>) = essentials s"
  "essentials (s\<lparr>sm_truncation := t\<rparr>) = essentials s"
  "essentials (s\<lparr>sm_summary_sha256 := h\<rparr>) = essentials s"
  "essentials (s\<lparr>sm_observation := ob\<rparr>) = essentials s"
  "essentials (s\<lparr>sm_reference_only := b\<rparr>) = essentials s"
  by (simp_all add: essentials_def)

lemma essentials_count_omitted [simp]: "essentials (count_omitted f s) = essentials s"
  by (simp add: count_omitted_def)

lemma essentials_mark_truncated [simp]: "essentials (mark_truncated s) = essentials s"
  by (simp add: mark_truncated_def)

lemma essentials_encode [simp]: "essentials (snd (encodeSummary uni s)) = essentials s"
proof -
  have "essentials (measure_summary r) = essentials r" for r
    by (simp add: measure_summary_def set_summary_bytes_def)
  then have "essentials ((measure_summary ^^ k) r) = essentials r" for k r
    by (induction k) simp_all
  then show ?thesis
    by (simp add: encodeSummary_def Let_def sign_summary_def set_summary_bytes_def
        refresh_observation_def without_hash_def)
qed

lemma essentials_omitOne: "omitOneSummaryDetail s = Some s' \<Longrightarrow> essentials s' = essentials s"
  by (auto simp: omitOneSummaryDetail_def Let_def split: option.splits)

lemma essentials_references [simp]: "essentials (makeSummaryReferenceOnly s reason) = essentials s"
  by (simp add: makeSummaryReferenceOnly_def Let_def)

lemma essentials_drop_pages [simp]: "essentials (snd (drop_pages uni n s)) = essentials s"
  by (induction uni n s rule: drop_pages.induct) (simp_all add: Let_def)

text \<open>The counters of a summary do not reach its size.\<close>

lemma bytes_count_omitted [simp]: "bytes_in_int64 (count_omitted f s) = bytes_in_int64 s"
  by (simp add: bytes_in_int64_def count_omitted_def)

lemma bytes_mark_truncated [simp]: "bytes_in_int64 (mark_truncated s) = bytes_in_int64 s"
  by (simp add: bytes_in_int64_def mark_truncated_def)

lemma bytes_pages [simp]: "bytes_in_int64 (s\<lparr>sm_pages := ps\<rparr>) = bytes_in_int64 s"
  by (simp add: bytes_in_int64_def)

lemma bytes_omitOne: "omitOneSummaryDetail s = Some s' \<Longrightarrow> bytes_in_int64 s' = bytes_in_int64 s"
  by (auto simp: omitOneSummaryDetail_def Let_def split: option.splits)

lemma bytes_references [simp]: "bytes_in_int64 (makeSummaryReferenceOnly s reason) = bytes_in_int64 s"
  by (simp add: makeSummaryReferenceOnly_def Let_def bytes_in_int64_def count_omitted_def)

text \<open>\<open>text_in\<close> is the text of a summary written from \<open>s\<close>: short enough, true of itself, complete.\<close>

definition written_from :: "ModelToolSummary \<Rightarrow> string \<Rightarrow> ModelToolSummary \<Rightarrow> bool" where
  "written_from s text_in final \<longleftrightarrow>
     text_in = marshal_summary final \<and> length text_in \<le> ModelToolSummaryHardLimitBytes \<and>
     describes_itself final \<and> essentials final = essentials s"

lemma encode_written:
  assumes "bytes_in_int64 s" and "length (fst (encodeSummary uni s)) \<le> ModelToolSummaryHardLimitBytes"
  shows "written_from s (fst (encodeSummary uni s)) (snd (encodeSummary uni s))"
  using assms encodeSummary_describes [of s uni]
  by (simp add: written_from_def encodeSummary_text [symmetric] ModelToolSummaryHardLimitBytes_def)

lemma drop_pages_written:
  "bytes_in_int64 s \<Longrightarrow> length (fst (drop_pages uni n s)) \<le> ModelToolSummaryHardLimitBytes \<Longrightarrow>
   \<exists>final. written_from s (fst (drop_pages uni n s)) final"
proof (induction uni n s rule: drop_pages.induct)
  case (1 uni s)
  then show ?case using encode_written [of s uni] by auto
next
  case (2 uni n s)
  show ?case
  proof (cases "ModelToolSummaryHardLimitBytes < length (fst (encodeSummary uni s))")
    case True
    with 2 show ?thesis by (auto simp: Let_def written_from_def)
  next
    case False
    with 2 show ?thesis using encode_written [of s uni] by (auto simp: Let_def)
  qed
qed

lemma reference_summary_written:
  "bytes_in_int64 s \<Longrightarrow> reference_summary uni s = Inr encoded \<Longrightarrow> \<exists>final. written_from s encoded final"
  using drop_pages_written [of "makeSummaryReferenceOnly s ''per_summary_hard_limit''" uni
      "length (sm_pages (makeSummaryReferenceOnly s ''per_summary_hard_limit''))"]
  by (auto simp: reference_summary_def Let_def written_from_def split: if_splits)

lemma bounded_summary:
  "bytes_in_int64 s \<Longrightarrow> encodeBoundedSummary uni s = Inr encoded \<Longrightarrow> \<exists>final. written_from s encoded final"
proof (induction uni s rule: encodeBoundedSummary.induct)
  case (1 uni s)
  let ?e = "encodeSummary uni s"
  consider (fits) "length (fst ?e) \<le> ModelToolSummaryTargetBytes"
    | (omit) s' where "\<not> length (fst ?e) \<le> ModelToolSummaryTargetBytes" "omitOneSummaryDetail (snd ?e) = Some s'"
    | (refer) "\<not> length (fst ?e) \<le> ModelToolSummaryTargetBytes" "omitOneSummaryDetail (snd ?e) = None"
    by fastforce
  then show ?case
  proof cases
    case fits
    then have "encoded = fst ?e"
      using "1.prems"(2) by (simp add: encodeBoundedSummary.simps [of uni s] Let_def)
    moreover have "length (fst ?e) \<le> ModelToolSummaryHardLimitBytes"
      using fits by (simp add: ModelToolSummaryTargetBytes_def ModelToolSummaryHardLimitBytes_def)
    ultimately show ?thesis using encode_written [OF "1.prems"(1)] by blast
  next
    case omit
    have "encodeBoundedSummary uni (mark_truncated s') = Inr encoded"
      using "1.prems"(2) omit by (simp add: encodeBoundedSummary.simps [of uni s] Let_def)
    moreover have "bytes_in_int64 (mark_truncated s')"
      using bytes_omitOne [OF omit(2)] by simp
    ultimately obtain final where "written_from (mark_truncated s') encoded final"
      using "1.IH" [OF refl omit] by blast
    then show ?thesis
      using essentials_omitOne [OF omit(2)] by (auto simp: written_from_def)
  next
    case refer
    then have "reference_summary uni (snd ?e) = Inr encoded"
      using "1.prems"(2) by (simp add: encodeBoundedSummary.simps [of uni s] Let_def)
    then obtain final where "written_from (snd ?e) encoded final"
      using reference_summary_written by force
    then show ?thesis by (auto simp: written_from_def)
  qed
qed

lemma bounded_summary_error: "encodeBoundedSummary uni s = Inl e \<Longrightarrow> e = SummaryExceedsHardLimit"
  by (induction uni s rule: encodeBoundedSummary.induct)
    (subst (asm) (2) encodeBoundedSummary.simps,
     auto simp: Let_def reference_summary_def split: if_splits option.splits)

end
