(* ===== verification/SummarySelection.thy ===== *)
theory SummarySelection
  imports SummaryObservation
begin

section \<open>Which nodes are kept, and in which order\<close>

text \<open>
  The code ranges over Go maps when it selects nodes and when it lists what it deduplicated. The
  lemmas say what does not depend on the order of the map, and show a case that does.
\<close>

subsection \<open>The selected nodes and their ancestors\<close>

text \<open>The parent of a node, if it is another node of the page.\<close>

definition parent_of :: "(string \<times> rawNode) list \<Rightarrow> string \<Rightarrow> string option" where
  "parent_of by_id node_id =
     (case map_of by_id node_id of
        None \<Rightarrow> None
      | Some node \<Rightarrow>
          (case rn_parent_id node of
             None \<Rightarrow> None
           | Some p \<Rightarrow> if p = [] \<or> map_of by_id p = None then None else Some p))"

inductive kept_id :: "rawNode list \<Rightarrow> string \<Rightarrow> bool" for nodes where
  kept_selected: "node \<in> set nodes \<Longrightarrow> node_selected node \<Longrightarrow> kept_id nodes (rn_node_id node)"
| kept_parent: "kept_id nodes node_id \<Longrightarrow> parent_of (nodes_by_id nodes) node_id = Some p \<Longrightarrow> kept_id nodes p"

text \<open>Every id of \<open>ids\<close> has its parent in \<open>selected\<close>.\<close>

definition parents_in :: "(string \<times> rawNode) list \<Rightarrow> string set \<Rightarrow> string set \<Rightarrow> bool" where
  "parents_in by_id ids selected \<longleftrightarrow> (\<forall>x \<in> ids. \<forall>p. parent_of by_id x = Some p \<longrightarrow> p \<in> selected)"

lemma parents_in_mono: "parents_in by_id ids sel \<Longrightarrow> sel \<subseteq> sel' \<Longrightarrow> parents_in by_id ids sel'"
  by (auto simp: parents_in_def)

lemma parents_in_subset: "parents_in by_id ids sel \<Longrightarrow> ids' \<subseteq> ids \<Longrightarrow> parents_in by_id ids' sel"
  by (auto simp: parents_in_def)

lemma parents_in_Un: "parents_in by_id (a \<union> b) sel \<longleftrightarrow> parents_in by_id a sel \<and> parents_in by_id b sel"
  by (auto simp: parents_in_def)

lemma climb_closes:
  "map_of by_id x = Some current \<Longrightarrow>
   set selected \<subseteq> set (climb by_id current selected) \<and>
   parents_in by_id (insert x (set (climb by_id current selected) - set selected))
     (set (climb by_id current selected))"
proof (induction by_id current selected arbitrary: x rule: climb.induct)
  case (1 by_id current selected)
  show ?case
  proof (cases "parent_of by_id x")
    case None
    then have "climb by_id current selected = selected"
      using "1.prems" by (auto simp: climb.simps [of by_id current] parent_of_def split: option.splits if_splits)
    with None show ?thesis by (simp add: parents_in_def)
  next
    case (Some p)
    then obtain parent where p: "rn_parent_id current = Some p" "p \<noteq> []" "map_of by_id p = Some parent"
      using "1.prems" by (auto simp: parent_of_def split: option.splits if_splits)
    show ?thesis
    proof (cases "p \<in> set selected")
      case True
      then have "climb by_id current selected = selected"
        using p by (simp add: climb.simps [of by_id current])
      with Some True show ?thesis by (simp add: parents_in_def)
    next
      case False
      let ?s = "climb by_id parent (p # selected)"
      have s: "climb by_id current selected = ?s"
        using p False by (simp add: climb.simps [of by_id current])
      have ih: "set (p # selected) \<subseteq> set ?s"
          "parents_in by_id (insert p (set ?s - set (p # selected))) (set ?s)"
        using "1.IH" [OF p(1) _ p(3) p(3)] p(2) False by auto
      have "parents_in by_id {x} (set ?s)"
        using Some ih(1) by (simp add: parents_in_def)
      moreover have "parents_in by_id (set ?s - set selected) (set ?s)"
        using ih(2) by (rule parents_in_subset) auto
      ultimately have "parents_in by_id ({x} \<union> (set ?s - set selected)) (set ?s)"
        unfolding parents_in_Un by (rule conjI)
      with ih(1) show ?thesis unfolding s by simp
    qed
  qed
qed

lemma climb_kept:
  "map_of (nodes_by_id nodes) x = Some current \<Longrightarrow> kept_id nodes x \<Longrightarrow> \<forall>y \<in> set selected. kept_id nodes y \<Longrightarrow>
   \<forall>y \<in> set (climb (nodes_by_id nodes) current selected). kept_id nodes y"
proof (induction "nodes_by_id nodes" current selected arbitrary: x rule: climb.induct)
  case (1 current selected)
  have "kept_id nodes p"
    if "rn_parent_id current = Some p" "p \<noteq> []" "map_of (nodes_by_id nodes) p = Some parent" for p parent
    by (rule kept_parent [OF "1.prems"(2)]) (use "1.prems"(1) that in \<open>simp add: parent_of_def\<close>)
  with "1.hyps" "1.prems" show ?case
    by (subst climb.simps) (auto split: option.splits if_splits)
qed

lemma map_of_nodes_by_id: "node \<in> set nodes \<Longrightarrow> \<exists>n. map_of (nodes_by_id nodes) (rn_node_id node) = Some n"
proof -
  have "rn_node_id node \<in> dom (map_of (fold (\<lambda>n m. assoc_put (rn_node_id n) n m) ns m))"
    if "node \<in> set ns \<or> rn_node_id node \<in> dom (map_of m)" for ns m
    using that
  proof (induction ns arbitrary: m)
    case (Cons n ns)
    then have "node \<in> set ns \<or> rn_node_id node \<in> dom (map_of (assoc_put (rn_node_id n) n m))" by auto
    from Cons.IH [OF this] show ?case by simp
  qed simp
  then show "node \<in> set nodes \<Longrightarrow> ?thesis"
    unfolding nodes_by_id_def by blast
qed

text \<open>One walk: what was closed stays closed, and the start becomes closed.\<close>

lemma climb_from_closes:
  "set selected \<subseteq> set (climb_from by_id x selected) \<and>
   parents_in by_id (insert x (set (climb_from by_id x selected) - set selected)) (set (climb_from by_id x selected))"
proof (cases "map_of by_id x")
  case None
  then show ?thesis by (simp add: climb_from_def parents_in_def parent_of_def)
next
  case (Some current)
  then show ?thesis using climb_closes [OF Some] by (simp add: climb_from_def)
qed

lemma climb_fold_closes:
  "parents_in by_id (set selected - set starts) (set selected) \<Longrightarrow>
   set selected \<subseteq> set (fold (climb_from by_id) starts selected) \<and>
   parents_in by_id (set (fold (climb_from by_id) starts selected)) (set (fold (climb_from by_id) starts selected))"
proof (induction starts arbitrary: selected)
  case (Cons x starts)
  let ?s = "climb_from by_id x selected"
  have s: "set selected \<subseteq> set ?s" "parents_in by_id (insert x (set ?s - set selected)) (set ?s)"
    using climb_from_closes [of selected by_id x] by auto
  have "parents_in by_id (set selected - set (x # starts)) (set ?s)"
    using Cons.prems s(1) by (rule parents_in_mono)
  with s(2) have "parents_in by_id (set ?s - set starts) (set ?s)"
    by (auto simp: parents_in_def)
  with Cons.IH [of ?s] s(1) show ?case by auto
qed simp

lemma climb_fold_kept:
  "\<forall>y \<in> set starts. kept_id nodes y \<Longrightarrow> \<forall>y \<in> set selected. kept_id nodes y \<Longrightarrow>
   \<forall>y \<in> set (fold (climb_from (nodes_by_id nodes)) starts selected). kept_id nodes y"
proof (induction starts arbitrary: selected)
  case (Cons x starts)
  have "\<forall>y \<in> set (climb_from (nodes_by_id nodes) x selected). kept_id nodes y"
    using Cons.prems climb_kept [of nodes x _ selected] by (auto simp: climb_from_def split: option.splits)
  with Cons show ?case by simp
qed simp

lemma climb_all_kept_iff:
  assumes "\<And>x. x \<in> set starts \<Longrightarrow> kept_id nodes x"
    and "\<And>node. node \<in> set nodes \<Longrightarrow> node_selected node \<Longrightarrow> rn_node_id node \<in> set starts"
  shows "node_id \<in> set (climb_all nodes starts) \<longleftrightarrow> kept_id nodes node_id"
proof
  let ?init = "map rn_node_id (filter node_selected nodes)"
  have init: "\<forall>y \<in> set ?init. kept_id nodes y" by (auto intro: kept_selected)
  then show "node_id \<in> set (climb_all nodes starts) \<Longrightarrow> kept_id nodes node_id"
    using climb_fold_kept [OF _ init, of starts] assms(1) unfolding climb_all_def by blast
  have "set ?init - set starts = {}" using assms(2) by auto
  then have closed: "set ?init \<subseteq> set (climb_all nodes starts)"
      "parents_in (nodes_by_id nodes) (set (climb_all nodes starts)) (set (climb_all nodes starts))"
    using climb_fold_closes [of "nodes_by_id nodes" ?init starts] by (auto simp: climb_all_def parents_in_def)
  show "kept_id nodes node_id \<Longrightarrow> node_id \<in> set (climb_all nodes starts)"
  proof (induction rule: kept_id.induct)
    case (kept_selected node)
    then have "rn_node_id node \<in> set ?init" by auto
    with closed(1) show ?case by blast
  next
    case (kept_parent node_id p)
    with closed(2) show ?case by (auto simp: parents_in_def)
  qed
qed

subsection \<open>Deduplication\<close>

lemma set_assoc_put_subset: "set (assoc_put k v m) \<subseteq> insert (k, v) (set m)"
  by (auto simp: assoc_put_def split: if_splits)

text \<open>A table from keys to values with these keys.\<close>

definition keyed :: "('a \<Rightarrow> string) \<Rightarrow> (string \<times> 'a) list \<Rightarrow> bool" where
  "keyed key m \<longleftrightarrow> distinct (map fst m) \<and> (\<forall>p \<in> set m. key (snd p) = fst p)"

lemma keyed_Nil [simp]: "keyed key []"
  by (simp add: keyed_def)

lemma keyed_assoc_put: "keyed key m \<Longrightarrow> key v = k \<Longrightarrow> keyed key (assoc_put k v m)"
  using set_assoc_put_subset [of k v m] by (fastforce simp: keyed_def distinct_assoc_put)

lemma keyed_values: "keyed key m \<Longrightarrow> map key (map snd m) = map fst m"
  by (auto simp: keyed_def)

lemma keyed_put_best: "keyed key m \<Longrightarrow> keyed key (put_best key better x m)"
  by (simp add: put_best_def keyed_assoc_put split: option.splits)

lemma keys_put_best: "fst ` set (put_best key better x m) = insert (key x) (fst ` set m)"
  by (auto simp: put_best_def split: option.splits dest: map_of_SomeD intro: rev_image_eqI)

lemma values_put_best: "snd ` set (put_best key better x m) \<subseteq> insert x (snd ` set m)"
  using set_assoc_put_subset [of "key x" x m] by (auto simp: put_best_def split: option.splits)

lemma keyed_fold: "keyed key m \<Longrightarrow> keyed key (fold (put_best key better) xs m)"
  by (induction xs arbitrary: m) (simp_all add: keyed_put_best)

lemma keys_fold: "fst ` set (fold (put_best key better) xs m) = key ` set xs \<union> fst ` set m"
  by (induction xs arbitrary: m) (simp_all add: keys_put_best)

lemma values_fold: "snd ` set (fold (put_best key better) xs m) \<subseteq> set xs \<union> snd ` set m"
proof (induction xs arbitrary: m)
  case (Cons x xs)
  have "snd ` set (fold (put_best key better) xs (put_best key better x m))
      \<subseteq> set xs \<union> snd ` set (put_best key better x m)" by (rule Cons.IH)
  also have "\<dots> \<subseteq> set (x # xs) \<union> snd ` set m" using values_put_best [of key better x m] by auto
  finally show ?case by simp
qed simp

lemma best_by_inj: "distinct (map key (best_by key better xs))"
  unfolding best_by_def keyed_values [OF keyed_fold [OF keyed_Nil]]
  using keyed_fold [of key "[]" better xs] by (simp add: keyed_def)

lemma set_best_by: "set (best_by key better xs) \<subseteq> set xs"
  using values_fold [of key better xs "[]"] by (simp add: best_by_def)

lemma keys_best_by: "key ` set (best_by key better xs) = key ` set xs"
proof -
  have "set (map key (best_by key better xs)) = set (map fst (fold (put_best key better) xs []))"
    unfolding best_by_def keyed_values [OF keyed_fold [OF keyed_Nil]] by (rule refl)
  then show ?thesis using keys_fold [of key better xs "[]"] by simp
qed

lemma keys_last_by: "key ` set (last_by key xs) = key ` set xs"
  by (simp add: last_by_def keys_best_by)

lemma set_last_by: "set (last_by key xs) \<subseteq> set xs"
  by (simp add: last_by_def set_best_by)

text \<open>An order that tells all keys apart makes the listing of the map invisible.\<close>

lemma sorts_to_iff:
  assumes "strict_weak lt" and "distinct (map key xs)"
    and "\<And>x y. \<not> lt x y \<Longrightarrow> \<not> lt y x \<Longrightarrow> key x = key y"
  shows "sorts_to lt xs ys \<longleftrightarrow> ys = sort_by lt xs"
proof
  have inj: "x = y" if "x \<in> set xs" "y \<in> set xs" "\<not> lt x y" "\<not> lt y x" for x y
    using assms(2) assms(3) [OF that(3,4)] that(1,2) by (auto simp: distinct_map inj_on_def)
  assume "sorts_to lt xs ys"
  then show "ys = sort_by lt xs"
    by (rule sorts_to_unique [OF _ sort_by_sorts [OF assms(1)] assms(1) inj])
next
  show "ys = sort_by lt xs \<Longrightarrow> sorts_to lt xs ys"
    by (simp add: sort_by_sorts [OF assms(1)])
qed

lemma strict_weak_prio:
  fixes f :: "'a \<Rightarrow> 'b :: linorder"
  assumes "strict_weak lt"
  shows "strict_weak (\<lambda>x y. if f x \<noteq> f y then f x < f y else lt x y)"
  unfolding strict_weak_def
proof (intro conjI allI impI)
  fix x y z
  let ?lt = "\<lambda>x y. if f x \<noteq> f y then f x < f y else lt x y"
  show "\<not> ?lt y x" if "?lt x y"
    using that strict_weak_asym [OF assms, of x y] by (cases "f x = f y") auto
  show "\<not> ?lt x z" if "\<not> ?lt x y" "\<not> ?lt y z"
  proof -
    have "f y \<le> f x" "f z \<le> f y" using that by (simp_all add: not_less split: if_splits)
    moreover have "\<not> lt x z" if "f x = f y" "f y = f z"
      using \<open>\<not> ?lt x y\<close> \<open>\<not> ?lt y z\<close> that strict_weak_trans [OF assms, of x y z] by simp
    ultimately show ?thesis by (cases "f x = f z") auto
  qed
qed

lemma node_less_strict_weak: "strict_weak node_less"
proof -
  have eq: "node_less = (\<lambda>x y. if nodePriority x \<noteq> nodePriority y then nodePriority x < nodePriority y
      else lex_less [tnd_page_state, tnd_role, tnd_name, tnd_node_id] x y)"
    by (intro ext) (simp add: node_less_def)
  show ?thesis unfolding eq by (rule strict_weak_prio [OF lex_less_strict_weak])
qed

lemma node_less_total: "\<not> node_less x y \<Longrightarrow> \<not> node_less y x \<Longrightarrow> node_key x = node_key y"
proof -
  assume *: "\<not> node_less x y" "\<not> node_less y x"
  then have "nodePriority x = nodePriority y" by (auto simp: node_less_def split: if_splits)
  with * have ll: "\<not> lex_less [tnd_page_state, tnd_role, tnd_name, tnd_node_id] x y"
      "\<not> lex_less [tnd_page_state, tnd_role, tnd_name, tnd_node_id] y x"
    by (auto simp: node_less_def)
  show ?thesis
    using lex_less_total [OF ll, of tnd_page_state] lex_less_total [OF ll, of tnd_role]
      lex_less_total [OF ll, of tnd_name] lex_less_total [OF ll, of tnd_node_id]
    by (simp add: node_key_def)
qed

lemma page_less_strict_weak: "strict_weak page_less"
proof -
  have rev: "strict_weak (\<lambda>x y. tpg_revision x < tpg_revision y)"
    by (auto simp: strict_weak_def)
  have eq: "page_less = (\<lambda>x y. if tpg_url x \<noteq> tpg_url y then tpg_url x < tpg_url y
      else if tpg_page_state x \<noteq> tpg_page_state y then tpg_page_state x < tpg_page_state y
      else tpg_revision x < tpg_revision y)"
    by (intro ext) (simp only: page_less_def)
  show ?thesis unfolding eq by (rule strict_weak_prio [OF strict_weak_prio [OF rev]])
qed

lemma page_less_total: "\<not> page_less x y \<Longrightarrow> \<not> page_less y x \<Longrightarrow> page_key x = page_key y"
  by (auto simp: page_less_def page_key_def split: if_splits)

lemma page_key_merge:
  "page_key l = page_key r \<Longrightarrow> page_key (mergePageSummaries l r) = page_key l"
  by (simp add: mergePageSummaries_def Let_def page_key_def)

lemma page_key_normal [simp]: "page_key (normal_page p) = page_key p"
  by (simp add: normal_page_def page_key_def)

lemma keyed_merge_page: "keyed page_key m \<Longrightarrow> keyed page_key (merge_page page m)"
proof -
  assume m: "keyed page_key m"
  have "page_key e = page_key page" if "map_of m (page_key page) = Some e" for e
    using m map_of_SomeD [OF that] by (auto simp: keyed_def)
  with m show ?thesis
    by (auto simp: merge_page_def page_key_merge intro!: keyed_assoc_put split: option.splits)
qed

lemma merged_pages_inj: "distinct (map page_key (merged_pages pages))"
proof -
  have "keyed page_key m \<Longrightarrow> keyed page_key (fold merge_page ps m)" for ps m
    by (induction ps arbitrary: m) (simp_all add: keyed_merge_page)
  then have "keyed page_key (fold merge_page pages [])" by simp
  then show ?thesis
    unfolding merged_pages_def by (simp only: keyed_values) (simp add: keyed_def)
qed

end
