(* ===== verification/TranscriptBudget.thy ===== *)
theory TranscriptBudget
  imports SummaryBound AgentRuns
begin

section \<open>The budget of exploration summaries in a transcript (internal/agent/tool_result.go)\<close>

text \<open>
  \<open>CompactExplorationTranscript\<close> rewrites messages of the transcript in place: first the pages of
  older summaries that a later one shows again become references, oldest summary first, then
  whole summaries, until the summaries together fit the budget.
\<close>

definition exploration_bytes :: "Message \<Rightarrow> int" where
  "exploration_bytes m =
     (case DecodeModelToolSummary (ms_content m) of
        Some summary \<Rightarrow> if IsExplorationTool (sm_tool summary) then int (length (ms_content m)) else 0
      | None \<Rightarrow> 0)"

definition explorationSummaryBytes :: "Message list \<Rightarrow> int" where
  "explorationSummaryBytes messages = sum_list (map exploration_bytes messages)"

text \<open>The summaries among the tool messages, with their places.\<close>

definition locate :: "nat \<times> Message \<Rightarrow> (nat \<times> ModelToolSummary) option" where
  "locate im =
     (case DecodeModelToolSummary (ms_content (snd im)) of
        None \<Rightarrow> None
      | Some summary \<Rightarrow> if ms_role (snd im) = ''tool'' then Some (fst im, summary) else None)"

definition located_summaries :: "Message list \<Rightarrow> (nat \<times> ModelToolSummary) list" where
  "located_summaries transcript = List.map_filter locate (enumerate 0 transcript)"

text \<open>The latest event that shows a page, \<open>0\<close> for a page no event above \<open>0\<close> shows.\<close>

definition latest_seq :: "(nat \<times> ModelToolSummary) list \<Rightarrow> string \<Rightarrow> int" where
  "latest_seq located key =
     fold (\<lambda>item best. if list_ex (\<lambda>page. page_key page = key) (sm_pages (snd item)) \<and>
           best < tsrc_event_seq (sm_source (snd item))
         then tsrc_event_seq (sm_source (snd item)) else best) located 0"

definition superseded :: "(nat \<times> ModelToolSummary) list \<Rightarrow> ModelToolSummary \<Rightarrow> ToolResultPageSummary \<Rightarrow> bool" where
  "superseded located summary page \<longleftrightarrow>
     tsrc_event_seq (sm_source summary) < latest_seq located (page_key page) \<and> \<not> tpg_reference_only page"

text \<open>A summary whose superseded pages are references; nothing when no page is superseded.\<close>

definition mark_superseded :: "(nat \<times> ModelToolSummary) list \<Rightarrow> ModelToolSummary \<Rightarrow> ModelToolSummary option" where
  "mark_superseded located summary =
     (if list_ex (superseded located summary) (sm_pages summary)
      then let
          pages = map (\<lambda>page. if superseded located summary page then fst (makePageReferenceOnly page) else page)
            (sm_pages summary);
          counted = count_omitted (\<lambda>c. fold (\<lambda>page total. addOmissions total (page_detail page))
            (filter (superseded located summary) (sm_pages summary)) c) summary in
        Some (counted\<lparr>sm_pages := pages,
          sm_truncation := (sm_truncation counted)\<lparr>ttr_truncated := True, ttr_reason := ''superseded_revision''\<rparr>,
          sm_reference_only := list_all tpg_reference_only pages\<rparr>)
      else None)"

text \<open>What the loops carry: the bytes in use, the transcript and the summaries already visited.\<close>

type_synonym budget_state = "int \<times> Message list \<times> (nat \<times> ModelToolSummary) list"

definition rewrite_message ::
  "unicode_table \<Rightarrow> nat \<Rightarrow> ModelToolSummary \<Rightarrow> int \<times> Message list \<Rightarrow> (int \<times> Message list) \<times> ModelToolSummary" where
  "rewrite_message uni i summary st =
     (let (total, transcript) = st; (encoded, written) = encodeSummary uni summary in
      ((total - int (length (ms_content (transcript ! i))) + int (length encoded),
        transcript[i := (transcript ! i)\<lparr>ms_content := encoded\<rparr>]), written))"

definition supersede_item ::
  "unicode_table \<Rightarrow> (nat \<times> ModelToolSummary) list \<Rightarrow> nat \<times> ModelToolSummary \<Rightarrow> budget_state \<Rightarrow> budget_state" where
  "supersede_item uni located item st =
     (let (total, transcript, visited) = st in
      if total \<le> int ModelExplorationBudgetBytes then (total, transcript, visited @ [item])
      else (case mark_superseded located (snd item) of
              None \<Rightarrow> (total, transcript, visited @ [item])
            | Some summary \<Rightarrow>
                let ((total', transcript'), written) = rewrite_message uni (fst item) summary (total, transcript) in
                (total', transcript', visited @ [(fst item, written)])))"

definition reference_item ::
  "unicode_table \<Rightarrow> nat \<times> ModelToolSummary \<Rightarrow> int \<times> Message list \<Rightarrow> int \<times> Message list" where
  "reference_item uni item st =
     (if fst st \<le> int ModelExplorationBudgetBytes \<or> sm_reference_only (snd item) then st
      else fst (rewrite_message uni (fst item)
             (makeSummaryReferenceOnly (snd item) ''aggregate_budget'') st))"

definition CompactExplorationTranscript :: "unicode_table \<Rightarrow> Message list \<Rightarrow> Message list" where
  "CompactExplorationTranscript uni transcript =
     (let total = explorationSummaryBytes transcript; located = located_summaries transcript in
      if total \<le> int ModelExplorationBudgetBytes then transcript
      else let (total', transcript', visited) =
          fold (supersede_item uni located) located (total, transcript, []) in
        snd (fold (reference_item uni) visited (total', transcript')))"

end
