(* ===== verification/SummaryProperties.thy ===== *)
theory SummaryProperties
  imports SummaryLaws SummarySelection TranscriptBudget
begin

section \<open>Properties of tool summaries\<close>

subsection \<open>Bounds\<close>

lemma dec_truncation_int64:
  assumes "dec_ToolResultTruncation j t = Some t'" and "in_int64 (ttr_summary_bytes t)"
  shows "in_int64 (ttr_summary_bytes t')"
proof (cases j)
  case (JObj ms)
  with assms(1) have "dec_members False [
     (''truncated'', fld dec_bool ttr_truncated ttr_truncated_update),
     (''reason'', fld dec_string ttr_reason ttr_reason_update),
     (''target_bytes'', fld dec_int ttr_target_bytes ttr_target_bytes_update),
     (''hard_limit_bytes'', fld dec_int ttr_hard_limit_bytes ttr_hard_limit_bytes_update),
     (''summary_bytes'', fld dec_int ttr_summary_bytes ttr_summary_bytes_update),
     (''omitted'', fld dec_ToolResultOmissionCounters ttr_omitted ttr_omitted_update)] ms t = Some t'"
    by (simp add: dec_ToolResultTruncation_def dec_object_def)
  then show ?thesis
    by (rule dec_members_invariant [where P = "\<lambda>t. in_int64 (ttr_summary_bytes t)"])
      (use assms(2) in \<open>auto simp: fld_def dec_int_def split: json.splits if_splits\<close>)
qed (use assms in \<open>auto simp: dec_ToolResultTruncation_def dec_object_def\<close>)

lemma decoded_summary_int64:
  assumes "unmarshal dec_ModelToolSummary zero_ModelToolSummary raw = Some s"
  shows "bytes_in_int64 s"
proof -
  obtain j where j: "dec_ModelToolSummary j zero_ModelToolSummary = Some s"
    using assms by (auto simp: unmarshal_def split: option.splits)
  have zero: "bytes_in_int64 zero_ModelToolSummary"
    by (simp add: bytes_in_int64_def zero_ModelToolSummary_def zero_ToolResultTruncation_def in_int64_def)
  show ?thesis
  proof (cases j)
    case (JObj ms)
    from j show ?thesis
      unfolding dec_ModelToolSummary_def JObj dec_object_def json.case
      by (rule dec_members_invariant [where P = bytes_in_int64])
        (use zero in \<open>auto simp: fld_def bytes_in_int64_def elim!: dec_truncation_int64\<close>)
  qed (use j zero in \<open>auto simp: dec_ModelToolSummary_def dec_object_def\<close>)
qed

lemma new_summary_int64:
  "sm_truncation s = sm_truncation (new_summary tool source) \<Longrightarrow> bytes_in_int64 s"
  by (simp add: new_summary_def bytes_in_int64_def zero_ToolResultTruncation_def in_int64_def)

lemma capability_part_truncation [simp]: "sm_truncation (capability_part tool value s) = sm_truncation s"
  by (simp add: capability_part_def)

lemma bytes_task_plan [simp]: "bytes_in_int64 (s\<lparr>sm_task_plan := p\<rparr>) = bytes_in_int64 s"
  by (simp add: bytes_in_int64_def)

lemma observe_summary_int64 [simp]: "bytes_in_int64 (observe_summary uni seq s) = bytes_in_int64 s"
  by (simp add: observe_summary_def bytes_in_int64_def mark_filtered_def count_omitted_def Let_def
      split: prod.splits)

lemma normalizeSummary_int64 [simp]: "bytes_in_int64 (normalizeSummary s) = bytes_in_int64 s"
  by (simp add: normalizeSummary_def bytes_in_int64_def Let_def)

lemma exploration_summary_int64 [simp]: "bytes_in_int64 (exploration_summary tool source raw)"
  by (rule new_summary_int64) (simp add: exploration_summary_def)

definition written_summary :: "string \<Rightarrow> bool" where
  "written_summary encoded \<longleftrightarrow>
     (\<exists>final. encoded = marshal_summary final \<and> length encoded \<le> ModelToolSummaryHardLimitBytes \<and>
        describes_itself final)"

lemma bounded_written: "bytes_in_int64 s \<Longrightarrow> encodeBoundedSummary uni s = Inr encoded \<Longrightarrow> written_summary encoded"
  using bounded_summary [of s uni encoded] by (auto simp: written_summary_def written_from_def)

lemma capability_written:
  "buildCapabilityToolSummary uni tool document source = Inr encoded \<Longrightarrow> written_summary encoded"
  by (auto simp: buildCapabilityToolSummary_def split: option.splits
      elim!: bounded_written [rotated] intro: new_summary_int64 [of _ tool source])

lemma built_summary_written:
  assumes "BuildModelToolSummary uni tool content seq plan = Inr encoded"
  shows "written_summary encoded"
proof -
  obtain document source where src: "NewToolResultSource content seq = Some (document, source)"
    using assms by (auto simp: BuildModelToolSummary_def split: option.splits)
  show ?thesis
  proof (cases "IsExplorationTool tool")
    case True
    then obtain raw where "encodeBoundedSummary uni
        ((observe_summary uni seq (normalizeSummary (exploration_summary tool source raw)))\<lparr>sm_task_plan := plan\<rparr>)
        = Inr encoded"
      using assms src by (auto simp: BuildModelToolSummary_def split: option.splits)
    then show ?thesis by (rule bounded_written [rotated]) simp
  next
    case False
    then have built: "with_task_plan uni plan (buildCapabilityToolSummary uni tool document source) = Inr encoded"
      using assms src by (simp add: BuildModelToolSummary_def)
    then obtain first where first: "buildCapabilityToolSummary uni tool document source = Inr first"
      by (auto simp: with_task_plan_def split: sum.splits)
    show ?thesis
    proof (cases plan)
      case None
      with built first show ?thesis by (auto simp: with_task_plan_def intro: capability_written)
    next
      case (Some p)
      then obtain s where "unmarshal dec_ModelToolSummary zero_ModelToolSummary (parse_json first) = Some s"
          "encodeBoundedSummary uni (s\<lparr>sm_task_plan := Some p\<rparr>) = Inr encoded"
        using built first by (auto simp: with_task_plan_def split: option.splits)
      then show ?thesis by (intro bounded_written) (simp_all add: decoded_summary_int64)
    qed
  qed
qed

text \<open>C22.
  Every summary that \<open>BuildModelToolSummary\<close> returns, for whatever tool, result and plan, has at
  most 32768 bytes, states exactly its own length as \<open>summary_bytes\<close>, and carries as
  \<open>summary_sha256\<close> the hash of its text without that member.
\<close>

theorem built_summary_bounded:
  "case BuildModelToolSummary uni tool content seq plan of
     Inl _ \<Rightarrow> True
   | Inr encoded \<Rightarrow> \<exists>final. encoded = marshal_summary final \<and>
       length encoded \<le> 32768 \<and>
       ttr_summary_bytes (sm_truncation final) = int (length encoded) \<and>
       sm_summary_sha256 final = sha256_hex (marshalUnsignedSummary final)"
  using built_summary_written [of uni tool content seq plan]
  by (auto simp: written_summary_def describes_itself_def ModelToolSummaryHardLimitBytes_def split: sum.splits)

subsection \<open>What shortening may not touch\<close>

definition decoded_exploration :: "string \<Rightarrow> int \<Rightarrow> (ToolResultSource \<times> rawExploreResult) option" where
  "decoded_exploration content seq =
     (case NewToolResultSource content seq of
        None \<Rightarrow> None
      | Some (document, source) \<Rightarrow>
          map_option (Pair source) (dec_rawExploreResult document zero_rawExploreResult))"

lemma exploration_written:
  assumes "IsExplorationTool tool" and "decoded_exploration content seq = Some (source, raw)"
    and "BuildModelToolSummary uni tool content seq plan = Inr encoded"
  shows "\<exists>final. written_from ((observe_summary uni seq (normalizeSummary (exploration_summary tool source raw)))
      \<lparr>sm_task_plan := plan\<rparr>) encoded final"
proof -
  from assms(2) obtain document where "NewToolResultSource content seq = Some (document, source)"
      "dec_rawExploreResult document zero_rawExploreResult = Some raw"
    by (auto simp: decoded_exploration_def split: option.splits)
  with assms(1,3) show ?thesis
    by (intro bounded_summary [of _ uni]) (simp_all add: BuildModelToolSummary_def)
qed

lemma essentials_select:
  "essentials s = essentials t \<Longrightarrow>
   sm_tool s = sm_tool t \<and> sm_source s = sm_source t \<and> sm_failures s = sm_failures t \<and>
   sm_task_plan s = sm_task_plan t \<and> sm_executed_effects s = sm_executed_effects t"
  by (cases s; cases t) (simp add: essentials_def)

lemma observe_summary_fields [simp]:
  "sm_executed_effects (observe_summary uni seq s) =
     executedEffectsFromObservation (fst (buildStructuredObservation uni (sm_pages s) (sm_failures s) seq))"
  "sm_failures (observe_summary uni seq s) = sm_failures s"
  "sm_tool (observe_summary uni seq s) = sm_tool s"
  "sm_source (observe_summary uni seq s) = sm_source s"
  by (simp_all add: observe_summary_def mark_filtered_def count_omitted_def split: prod.splits)

lemma exploration_summary_fields [simp]:
  "sm_tool (exploration_summary tool source raw) = tool"
  "sm_source (exploration_summary tool source raw) = source"
  by (simp_all add: exploration_summary_def new_summary_def)

lemma normalizeSummary_fields [simp]:
  "sm_tool (normalizeSummary s) = sm_tool s" "sm_source (normalizeSummary s) = sm_source s"
  by (simp_all add: normalizeSummary_def Let_def)

text \<open>C23.
  However much of an exploration is left out to fit the limit, the summary keeps the tool, the
  source with its hash, the failures, the task plan and the complete list of effects already
  executed, computed from all pages before anything was left out. When no summary is returned
  the only reason is that even the references exceed the hard limit.
\<close>

theorem shortening_keeps_effects:
  "case decoded_exploration content seq of
     None \<Rightarrow> True
   | Some (source, raw) \<Rightarrow>
       (let tool = (if flow then ''explore_flow'' else ''explore_page'');
            full = normalizeSummary (exploration_summary tool source raw) in
        case BuildModelToolSummary uni tool content seq plan of
          Inl e \<Rightarrow> e = SummaryExceedsHardLimit
        | Inr encoded \<Rightarrow> \<exists>final. encoded = marshal_summary final \<and>
            sm_tool final = tool \<and> sm_source final = source \<and>
            sm_failures final = sm_failures full \<and> sm_task_plan final = plan \<and>
            sm_executed_effects final = executedEffectsFromObservation
              (fst (buildStructuredObservation uni (sm_pages full) (sm_failures full) seq)))"
proof -
  define tool where "tool = (if flow then ''explore_flow'' else ''explore_page'')"
  have tool: "IsExplorationTool tool" by (simp add: tool_def IsExplorationTool_def)
  have kept: "\<exists>final. encoded = marshal_summary final \<and>
      sm_tool final = tool \<and> sm_source final = source \<and>
      sm_failures final = sm_failures (normalizeSummary (exploration_summary tool source raw)) \<and>
      sm_task_plan final = plan \<and>
      sm_executed_effects final = executedEffectsFromObservation (fst (buildStructuredObservation uni
        (sm_pages (normalizeSummary (exploration_summary tool source raw)))
        (sm_failures (normalizeSummary (exploration_summary tool source raw))) seq))"
    if "decoded_exploration content seq = Some (source, raw)"
      "BuildModelToolSummary uni tool content seq plan = Inr encoded" for source raw encoded
    using exploration_written [OF tool that]
    by (auto simp: written_from_def dest!: essentials_select)
  have error: "e = SummaryExceedsHardLimit"
    if "decoded_exploration content seq = Some (source, raw)"
      "BuildModelToolSummary uni tool content seq plan = Inl e" for source raw e
    using that tool bounded_summary_error
    by (auto simp: decoded_exploration_def BuildModelToolSummary_def split: option.splits)
  show ?thesis
    unfolding tool_def [symmetric] Let_def
    using kept error by (simp split: option.splits sum.splits prod.splits)
qed

subsection \<open>Reports that are too long\<close>

lemma length_render_char: "1 \<le> length (render_char c)"
  by (simp add: render_char_def Let_def)

lemma length_render_chars: "length s \<le> length (render_chars s)"
proof (induction s rule: render_chars.induct [case_names long none one two])
  case (long a b c s)
  then show ?case using length_render_char [of a] by auto
next
  case (one a)
  then show ?case using length_render_char [of a] by auto
next
  case (two a b)
  then show ?case using length_render_char [of a] by auto
qed simp

lemma length_render_str: "length s \<le> length (render (JStr s))"
  using length_render_chars [of s] by (simp add: render_string_def)

lemma member_length_ge: "length (render (snd p)) \<le> member_length p"
  by (simp add: member_length_def)

lemma length_render_member: "p \<in> set ms \<Longrightarrow> length (render (snd p)) \<le> length (render (JObj ms))"
proof -
  assume p: "p \<in> set ms"
  then have "member_length p \<le> members_length ms"
    by (induction ms) auto
  with p show ?thesis
    using member_length_ge [of p] length_render_object [of ms] by fastforce
qed

lemma length_render_array: "sum_list (map (\<lambda>j. length (render j)) js) \<le> length (render (JArr js))"
proof -
  have "sum_list (map length ss) \<le> length (Join ss '','')" for ss
    by (induction ss "'',''" rule: Join.induct) auto
  from this [of "map render js"] show ?thesis by (simp add: comp_def)
qed

definition report_text :: "ToolResultReportSummary \<Rightarrow> nat" where
  "report_text r = sum_list (map (\<lambda>c. length (tcs_failure_summary c)) (trp_case_results r))"

lemma length_case_result: "length (tcs_failure_summary c) \<le> length (render (enc_ToolResultCaseResult c))"
proof (cases "tcs_failure_summary c = []")
  case False
  then have "(''failure_summary'', JStr (tcs_failure_summary c)) \<in>
      set (omit_null ''case_id'' (tcs_case_id c) @ omit_empty_string ''case_name'' (tcs_case_name c) @
        omit_empty_string ''status'' (tcs_status c) @ omit_zero_int ''passed_steps'' (tcs_passed_steps c) @
        omit_zero_int ''total_steps'' (tcs_total_steps c) @
        omit_empty_string ''failure_summary'' (tcs_failure_summary c))"
    by (simp add: omit_empty_string_def)
  from length_render_member [OF this] length_render_str [of "tcs_failure_summary c"] show ?thesis
    by (simp add: enc_ToolResultCaseResult_def del: render.simps)
qed simp

lemma length_report: "report_text r \<le> length (render (enc_ToolResultReportSummary r))"
proof (cases "trp_case_results r = []")
  case False
  then have "(''case_results'', JArr (map enc_ToolResultCaseResult (trp_case_results r))) \<in>
      set (omit_null ''batch_id'' (trp_batch_id r) @ omit_empty_string ''status'' (trp_status r) @
        omit_empty_list ''case_results'' enc_ToolResultCaseResult (trp_case_results r) @
        omit_empty_list ''failure_signals'' enc_ToolResultFailureBrief (trp_failure_signals r) @
        omit_empty_string ''recommended_action'' (trp_recommended_action r))"
    by (simp add: omit_empty_list_def)
  from length_render_member [OF this]
  have "length (render (JArr (map enc_ToolResultCaseResult (trp_case_results r))))
      \<le> length (render (enc_ToolResultReportSummary r))"
    by (simp add: enc_ToolResultReportSummary_def del: render.simps)
  moreover have "report_text r \<le> sum_list (map (\<lambda>c. length (render (enc_ToolResultCaseResult c))) (trp_case_results r))"
    unfolding report_text_def by (intro sum_list_mono length_case_result)
  ultimately show ?thesis
    using length_render_array [of "map enc_ToolResultCaseResult (trp_case_results r)"]
    by (simp add: comp_def del: render.simps)
qed (simp add: report_text_def)

lemma length_marshal_report: "sm_report s = Some r \<Longrightarrow> report_text r \<le> length (marshal_summary s)"
proof -
  assume r: "sm_report s = Some r"
  obtain ms where ms: "enc_ModelToolSummary s = JObj ms"
      "(''report'', enc_ToolResultReportSummary r) \<in> set ms"
    by (simp add: enc_ModelToolSummary_def r omit_nil_def)
  from length_render_member [OF ms(2)] length_report [of r] show ?thesis
    by (simp add: marshal_summary_def ms(1) del: render.simps)
qed

lemma essentials_report: "essentials s = essentials t \<Longrightarrow> sm_report s = sm_report t"
  by (cases s; cases t) (simp add: essentials_def)

text \<open>C35.
  Only pages are ever shortened. A report whose failure summaries alone exceed the hard limit has
  no summary at all, whatever the plan: the error is returned, with which the turn of the harness
  ends.
\<close>

theorem long_report_is_refused:
  assumes "decode_document document = Some value"
    and "32768 < report_text (summarizeReportResult value)"
  shows "with_task_plan uni plan (buildCapabilityToolSummary uni ''get_report'' document source) =
    Inl SummaryExceedsHardLimit"
proof -
  let ?s = "(capability_part ''get_report'' value
      ((new_summary ''get_report'' source)\<lparr>sm_status := text_member value ''status'' 64\<rparr>))"
  have bytes: "bytes_in_int64 ?s"
    by (rule new_summary_int64 [of _ "''get_report''" source]) simp
  have "encodeBoundedSummary uni ?s \<noteq> Inr encoded" for encoded
  proof
    assume "encodeBoundedSummary uni ?s = Inr encoded"
    then obtain final where final: "written_from ?s encoded final"
      using bounded_summary [OF bytes] by blast
    then have "sm_report final = Some (summarizeReportResult value)"
      using essentials_report [of final ?s] by (simp add: written_from_def capability_part_def)
    from length_marshal_report [OF this] final assms(2) show False
      by (auto simp: written_from_def ModelToolSummaryHardLimitBytes_def)
  qed
  then have "encodeBoundedSummary uni ?s = Inl SummaryExceedsHardLimit"
    using bounded_summary_error [of uni ?s] by (cases "encodeBoundedSummary uni ?s") auto
  then show ?thesis
    using assms(1) by (simp add: with_task_plan_def buildCapabilityToolSummary_def)
qed

lemma long_report_is_refused_witness:
  "let result = JObj [(''failure_summary'', JStr (replicate 512 CHR ''x''))];
       document = JObj [(''analysis'', JObj [(''case_results'', JArr (replicate 65 result))])] in
   with_task_plan (\<lambda>_. False) None
     (buildCapabilityToolSummary (\<lambda>_. False) ''get_report'' document zero_ToolResultSource) =
   Inl SummaryExceedsHardLimit"
proof -
  define x where "x = replicate 512 CHR ''x''"
  define result where "result = JObj [(''failure_summary'', JStr x)]"
  define document where "document = JObj [(''analysis'', JObj [(''case_results'', JArr (replicate 65 result))])]"
  have "anyval result = result"
    by (simp add: result_def map_members_def assoc_put_def)
  then have "anyval document = document"
    by (simp add: document_def map_members_def assoc_put_def del: replicate.simps)
  then have dec: "decode_document document = Some [(''analysis'', JObj [(''case_results'', JArr (replicate 65 result))])]"
    by (simp add: decode_document_def document_def del: replicate.simps)
  have "boundedUTF8 x 512 = x" by (simp add: boundedUTF8_def x_def)
  then have "tcs_failure_summary (case_result [(''failure_summary'', JStr x)]) = x"
    by (simp add: case_result_def text_member_def any_get_def any_string_def)
  moreover have "List.map_filter objectValue (replicate n result) = replicate n [(''failure_summary'', JStr x)]" for n
    by (induction n) (simp_all add: objectValue_def result_def List.map_filter_simps)
  ultimately have "report_text (summarizeReportResult
      [(''analysis'', JObj [(''case_results'', JArr (replicate 65 result))])]) = 65 * length x"
    by (simp add: report_text_def summarizeReportResult_def Let_def any_get_def objectValue_def arrayValue_def
        sum_list_replicate del: replicate.simps)
  then have "32768 < report_text (summarizeReportResult
      [(''analysis'', JObj [(''case_results'', JArr (replicate 65 result))])])"
    by (simp add: x_def)
  from long_report_is_refused [OF dec this, of "\<lambda>_. False" None zero_ToolResultSource] show ?thesis
    unfolding Let_def document_def result_def x_def .
qed

end
