(* ===== verification/SummaryOrder.thy ===== *)
theory SummaryOrder
  imports SummarySelection TranscriptBudget
begin

section \<open>What a summary shows\<close>

subsection \<open>Nodes\<close>

text \<open>C25.
  A node of a page is kept exactly when it can be used or read or is an ancestor of such a node
  along parents that are on the page. This holds for every order in which the loop over the map
  visits the selected ids, and whether or not it visits the ids added meanwhile.
\<close>

theorem kept_nodes_any_visit_order:
  assumes "list_all (kept_id nodes) starts"
    and "list_all (\<lambda>node. rn_node_id node \<in> set starts) (filter node_selected nodes)"
  shows "node_id \<in> set (climb_all nodes starts) \<longleftrightarrow> kept_id nodes node_id"
  using assms by (intro climb_all_kept_iff) (auto simp: list_all_iff)

lemma kept_nodes_any_visit_order_witness:
  "let nodes = [zero_rawNode\<lparr>rn_node_id := ''body''\<rparr>,
         zero_rawNode\<lparr>rn_node_id := ''form'', rn_parent_id := Some ''body''\<rparr>,
         zero_rawNode\<lparr>rn_node_id := ''aside'', rn_parent_id := Some ''body''\<rparr>,
         zero_rawNode\<lparr>rn_node_id := ''buy'', rn_parent_id := Some ''form'', rn_focusable := True\<rparr>] in
   kept_id nodes ''body'' \<and> ''body'' \<in> set (climb_all nodes [''buy''])"
proof -
  define nodes where "nodes = [zero_rawNode\<lparr>rn_node_id := ''body''\<rparr>,
         zero_rawNode\<lparr>rn_node_id := ''form'', rn_parent_id := Some ''body''\<rparr>,
         zero_rawNode\<lparr>rn_node_id := ''aside'', rn_parent_id := Some ''body''\<rparr>,
         zero_rawNode\<lparr>rn_node_id := ''buy'', rn_parent_id := Some ''form'', rn_focusable := True\<rparr>]"
  have sel: "node_selected (zero_rawNode\<lparr>rn_node_id := i, rn_parent_id := p, rn_focusable := f\<rparr>) = f" for i p f
    by (simp add: node_selected_def zero_rawNode_def isInteractiveRole_def blank_def ToLower_def TrimSpace_def)
  have "kept_id nodes (rn_node_id (nodes ! 3))"
    by (rule kept_selected) (simp_all add: nodes_def sel node_selected_def)
  then have buy: "kept_id nodes ''buy''" by (simp add: nodes_def)
  have unselected: "\<not> node_selected (zero_rawNode\<lparr>rn_node_id := i, rn_parent_id := p\<rparr>)"
      "\<not> node_selected (zero_rawNode\<lparr>rn_node_id := i\<rparr>)" for i p
    by (simp_all add: node_selected_def zero_rawNode_def isInteractiveRole_def blank_def ToLower_def TrimSpace_def)
  have "''body'' \<in> set (climb_all nodes [''buy''])"
    unfolding nodes_def by code_simp
  moreover have "list_all (\<lambda>node. rn_node_id node \<in> set [''buy'']) (filter node_selected nodes)"
    by (simp add: nodes_def unselected sel)
  ultimately show ?thesis
    using kept_nodes_any_visit_order [of nodes "[''buy'']" "''body''"] buy
    unfolding nodes_def [symmetric] Let_def by simp
qed

subsection \<open>Orders\<close>

lemma lex_less_fields:
  "\<not> lex_less fs x y \<Longrightarrow> \<not> lex_less fs y x \<Longrightarrow> map (\<lambda>f. f x) fs = map (\<lambda>f. f y) fs"
  by (intro map_cong refl lex_less_total)

lemma selector_keys: "\<not> selector_less x y \<Longrightarrow> \<not> selector_less y x \<Longrightarrow> selector_key x = selector_key y"
  unfolding selector_less_def selector_key_def by (drule (1) lex_less_fields) simp

lemma failure_keys:
  "\<not> failure_less x y \<Longrightarrow> \<not> failure_less y x \<Longrightarrow>
   render (enc_ToolResultErrorSummary x) = render (enc_ToolResultErrorSummary y)"
  unfolding failure_less_def by (drule (1) lex_less_fields) simp

lemma hint_keys:
  "\<not> hint_less x y \<Longrightarrow> \<not> hint_less y x \<Longrightarrow>
   map_key [orh_category x, orh_action x] = map_key [orh_category y, orh_action y]"
  unfolding hint_less_def by (drule (1) lex_less_fields) simp

lemma effect_keys: "\<not> effect_less x y \<Longrightarrow> \<not> effect_less y x \<Longrightarrow> effect_key x = effect_key y"
  unfolding effect_less_def effect_key_def by (drule (1) lex_less_fields) simp

text \<open>
  The lists of nodes, selectors, failures, recovery hints, executed effects and merged pages in a
  summary are determined: \<open>sorts_to\<close> relates the values of the map to every outcome of listing
  them in any order and sorting them unstably, and there is exactly one outcome.
\<close>

theorem lists_are_determined:
  "(sorts_to node_less (best_by node_key node_better ns) ns' \<longleftrightarrow> ns' = deduplicateNodes ns) \<and>
   (sorts_to selector_less (best_by selector_key selector_better
       (filter (\<lambda>s. tsl_selector s \<noteq> []) (map bounded_selector ss))) ss' \<longleftrightarrow> ss' = deduplicateSelectors ss) \<and>
   (sorts_to failure_less (last_by (\<lambda>f. render (enc_ToolResultErrorSummary f)) fs) fs' \<longleftrightarrow>
      fs' = deduplicateFailures fs) \<and>
   (sorts_to hint_less (last_by (\<lambda>h. map_key [orh_category h, orh_action h]) hs) hs' \<longleftrightarrow>
      hs' = deduplicateRecoveryHints hs) \<and>
   (sorts_to effect_less (last_by effect_key (filter (\<lambda>o1. counts_as_effect o1 \<and>
       effect_key o1 \<noteq> [CHR 0x00, CHR 0x00]) (sob_action_options obs))) es' \<longleftrightarrow>
      es' = executedEffectsFromObservation (Some obs)) \<and>
   (sorts_to page_less (merged_pages (sm_pages s)) ps' \<longleftrightarrow> ps' = sm_pages (normalizeSummary s))"
proof (intro conjI)
  show "sorts_to node_less (best_by node_key node_better ns) ns' \<longleftrightarrow> ns' = deduplicateNodes ns"
    unfolding deduplicateNodes_def
    by (rule sorts_to_iff [OF node_less_strict_weak best_by_inj node_less_total])
  show "sorts_to selector_less (best_by selector_key selector_better
       (filter (\<lambda>s. tsl_selector s \<noteq> []) (map bounded_selector ss))) ss' \<longleftrightarrow> ss' = deduplicateSelectors ss"
    unfolding deduplicateSelectors_def
    by (rule sorts_to_iff [OF _ best_by_inj selector_keys]) (simp_all add: selector_less_def lex_less_strict_weak)
  show "sorts_to failure_less (last_by (\<lambda>f. render (enc_ToolResultErrorSummary f)) fs) fs' \<longleftrightarrow>
      fs' = deduplicateFailures fs"
    unfolding deduplicateFailures_def last_by_def
    by (rule sorts_to_iff [OF _ best_by_inj failure_keys]) (simp_all add: failure_less_def lex_less_strict_weak)
  show "sorts_to hint_less (last_by (\<lambda>h. map_key [orh_category h, orh_action h]) hs) hs' \<longleftrightarrow>
      hs' = deduplicateRecoveryHints hs"
    unfolding deduplicateRecoveryHints_def last_by_def
    by (rule sorts_to_iff [OF _ best_by_inj hint_keys]) (simp_all add: hint_less_def lex_less_strict_weak)
  show "sorts_to effect_less (last_by effect_key (filter (\<lambda>o1. counts_as_effect o1 \<and>
       effect_key o1 \<noteq> [CHR 0x00, CHR 0x00]) (sob_action_options obs))) es' \<longleftrightarrow>
      es' = executedEffectsFromObservation (Some obs)"
    unfolding executedEffectsFromObservation_def last_by_def option.case
    by (rule sorts_to_iff [OF _ best_by_inj effect_keys]) (simp_all add: effect_less_def lex_less_strict_weak)
  show "sorts_to page_less (merged_pages (sm_pages s)) ps' \<longleftrightarrow> ps' = sm_pages (normalizeSummary s)"
    using sorts_to_iff [OF page_less_strict_weak merged_pages_inj page_less_total]
    by (simp add: normalizeSummary_def Let_def)
qed

text \<open>
  The list of actions is not determined: two actions that differ in their status only (a retry
  after a failure) are both kept, the order ignores the status, so either may come first. The text
  of the summary and its hash depend on the run.
\<close>

theorem action_order_is_open:
  assumes "status \<noteq> status'" and "tac_target_evidence action = []"
  shows "best_actions [action\<lparr>tac_status := status\<rparr>, action\<lparr>tac_status := status'\<rparr>] =
      [action\<lparr>tac_status := status\<rparr>, action\<lparr>tac_status := status'\<rparr>] \<and>
    sorts_to action_less [action\<lparr>tac_status := status\<rparr>, action\<lparr>tac_status := status'\<rparr>]
      [action\<lparr>tac_status := status\<rparr>, action\<lparr>tac_status := status'\<rparr>] \<and>
    sorts_to action_less [action\<lparr>tac_status := status\<rparr>, action\<lparr>tac_status := status'\<rparr>]
      [action\<lparr>tac_status := status'\<rparr>, action\<lparr>tac_status := status\<rparr>]"
proof -
  have "deduplicateNodes [] = []"
    by (simp add: deduplicateNodes_def best_by_def)
  then have dedup: "dedup_evidence (action\<lparr>tac_status := x\<rparr>) = action\<lparr>tac_status := x\<rparr>" for x
    using assms(2) by (simp add: dedup_evidence_def)
  have "action_key (action\<lparr>tac_status := status'\<rparr>) \<noteq> action_key (action\<lparr>tac_status := status\<rparr>)"
    using assms(1) by (simp add: action_key_def map_key_def)
  moreover have "\<not> action_less (action\<lparr>tac_status := x\<rparr>) (action\<lparr>tac_status := y\<rparr>)" for x y
    by (simp add: action_less_def)
  ultimately show ?thesis
    by (auto simp: best_actions_def best_by_def put_best_def assoc_put_def dedup sorts_to_def)
qed

lemma action_order_is_open_witness:
  "let click = zero_ToolResultActionSummary\<lparr>tac_action := ''click'', tac_target := ''Buy''\<rparr>;
       failed = click\<lparr>tac_status := ''failed''\<rparr>; done1 = click\<lparr>tac_status := ''success''\<rparr> in
   sorts_to action_less (best_actions [failed, done1]) [failed, done1] \<and>
   sorts_to action_less (best_actions [failed, done1]) [done1, failed]"
  using action_order_is_open [of "''failed''" "''success''"
      "zero_ToolResultActionSummary\<lparr>tac_action := ''click'', tac_target := ''Buy''\<rparr>"]
  by (simp add: zero_ToolResultActionSummary_def Let_def)

subsection \<open>Effects\<close>

text \<open>
  The executed effects of an observation are exactly its successful actions with an outside or
  non-repeatable effect: every listed one is such an action, every such action that names
  anything is represented up to case and white space, and none is listed twice.
\<close>

theorem executed_effects_complete:
  "(let effects = executedEffectsFromObservation (Some obs);
        counting = filter counts_as_effect (sob_action_options obs) in
    set effects \<subseteq> set counting \<and> distinct (map effect_key effects) \<and>
    list_all (\<lambda>o1. effect_key o1 = [CHR 0x00, CHR 0x00] \<or> effect_key o1 \<in> effect_key ` set effects) counting)"
proof -
  let ?named = "filter (\<lambda>o1. counts_as_effect o1 \<and> effect_key o1 \<noteq> [CHR 0x00, CHR 0x00]) (sob_action_options obs)"
  have "mset (map effect_key (executedEffectsFromObservation (Some obs))) = mset (map effect_key (last_by effect_key ?named))"
    by (simp add: executedEffectsFromObservation_def)
  then have "distinct (map effect_key (executedEffectsFromObservation (Some obs)))"
    using best_by_inj [of effect_key "\<lambda>_ _. True" ?named] by (metis last_by_def mset_eq_imp_distinct_iff)
  moreover have "set (executedEffectsFromObservation (Some obs)) = set (last_by effect_key ?named)"
    by (simp add: executedEffectsFromObservation_def)
  ultimately show ?thesis
    using set_last_by [of effect_key ?named] keys_last_by [of effect_key ?named]
    by (auto simp: Let_def list_all_iff)
qed

subsection \<open>Candidates\<close>

text \<open>C24.
  When two pages of the same URL and state are merged, the nodes of both are kept and the newer
  revision is stated, but every candidate is offered under the probe and observation of the
  first page: a candidate that only the newer observation contains is offered with a reference to
  an observation that does not contain it.
\<close>

theorem merged_candidates_name_first_observation:
  "list_all (\<lambda>c. case tsc_candidate_ref c of
       None \<Rightarrow> False
     | Some ref \<Rightarrow> tcr_probe_id ref = tpg_probe_id left \<and> tcr_observation_id ref = tpg_observation_id left)
     (selectable_candidates uni seq [mergePageSummaries left right]) \<and>
   tpg_revision (mergePageSummaries left right) = max (tpg_revision left) (tpg_revision right) \<and>
   node_key ` set (tpg_a11y_nodes (mergePageSummaries left right)) =
     node_key ` (set (tpg_a11y_nodes left) \<union> set (tpg_a11y_nodes right))"
proof (intro conjI)
  have page: "tpg_probe_id (mergePageSummaries left right) = tpg_probe_id left"
      "tpg_observation_id (mergePageSummaries left right) = tpg_observation_id left"
    by (simp_all add: mergePageSummaries_def Let_def)
  show "list_all (\<lambda>c. case tsc_candidate_ref c of
       None \<Rightarrow> False
     | Some ref \<Rightarrow> tcr_probe_id ref = tpg_probe_id left \<and> tcr_observation_id ref = tpg_observation_id left)
     (selectable_candidates uni seq [mergePageSummaries left right])"
    by (auto simp: selectable_candidates_def page_nodes_def node_candidates_def Let_def list_all_iff page)
  show "tpg_revision (mergePageSummaries left right) = max (tpg_revision left) (tpg_revision right)"
    by (auto simp: mergePageSummaries_def Let_def right_replaces_left_def)
  have "tpg_a11y_nodes (mergePageSummaries left right) =
      deduplicateNodes (tpg_a11y_nodes left @ tpg_a11y_nodes right)"
    by (simp add: mergePageSummaries_def Let_def)
  then show "node_key ` set (tpg_a11y_nodes (mergePageSummaries left right)) =
      node_key ` (set (tpg_a11y_nodes left) \<union> set (tpg_a11y_nodes right))"
    by (simp add: deduplicateNodes_def keys_best_by)
qed

lemma sorted_executable:
  assumes "sorted_wrt (\<lambda>x y. \<not> selectable_less y x) cs"
  shows "list_all tsc_executable (take n cs) \<or> set (filter tsc_executable cs) \<subseteq> set (take n cs)"
proof (cases "list_all tsc_executable (take n cs)")
  case False
  then obtain c where c: "c \<in> set (take n cs)" "\<not> tsc_executable c" by (auto simp: list_all_iff)
  have "\<not> tsc_executable d" if "d \<in> set (drop n cs)" for d
  proof -
    have "sorted_wrt (\<lambda>x y. \<not> selectable_less y x) (take n cs @ drop n cs)" using assms by simp
    then have "\<not> selectable_less d c" using c(1) that unfolding sorted_wrt_append by blast
    with c(2) show ?thesis by (auto simp: selectable_less_def)
  qed
  moreover have "set cs = set (take n cs) \<union> set (drop n cs)"
    by (metis append_take_drop_id set_append)
  ultimately show ?thesis by auto
qed simp

lemma selectable_less_strict_weak: "strict_weak selectable_less"
proof -
  have eq: "selectable_less = (\<lambda>x y. if (\<not> tsc_executable x) \<noteq> (\<not> tsc_executable y)
      then (\<not> tsc_executable x) < (\<not> tsc_executable y)
      else lex_less [tsc_category, tsc_name, tsc_strategy, tsc_selector, tsc_role,
          \<lambda>c. render (enc_ToolResultSelectableCandidate c)] x y)"
    by (intro ext) (auto simp: selectable_less_def)
  show ?thesis unfolding eq
    by (rule strict_weak_prio [OF lex_less_strict_weak, where f = "\<lambda>x. \<not> tsc_executable x"])
qed

text \<open>C26.
  The candidates a summary offers for selection are at most 64; each comes from a selector of a
  node of one of the pages, with complete references; and cutting the list never drops an
  executable candidate in favour of one that is not.
\<close>

theorem offered_candidates:
  "(case fst (buildStructuredObservation uni pages failures seq) of
      None \<Rightarrow> True
    | Some obs \<Rightarrow>
        (let offered = sob_selectable_candidates obs; candidates = selectable_candidates uni seq pages in
         length offered \<le> 64 \<and>
         list_all (\<lambda>c. \<exists>page \<in> set pages. \<exists>node \<in> set (tpg_a11y_nodes page).
           \<exists>selector \<in> set (tnd_verified_selectors node). \<exists>ref.
             tsc_candidate_ref c = Some ref \<and> tsc_selector c = tsl_selector selector \<and>
             tcr_candidate_id ref = tsl_candidate_id selector \<and> tcr_source_event_seq ref = seq \<and>
             tcr_probe_id ref = tpg_probe_id page \<and> tcr_observation_id ref = tpg_observation_id page \<and>
             \<not> blank (tcr_candidate_id ref) \<and> \<not> blank (tcr_probe_id ref) \<and> \<not> blank (tcr_observation_id ref) \<and>
             tsc_executable c = (\<not> tnd_disabled node)) offered \<and>
         (list_all tsc_executable offered \<or> set (filter tsc_executable candidates) \<subseteq> set offered)))"
proof (cases "fst (buildStructuredObservation uni pages failures seq)")
  case (Some obs)
  let ?sorted = "sort_by selectable_less (selectable_candidates uni seq pages)"
  have offered: "sob_selectable_candidates obs = take 64 ?sorted"
    using Some by (auto simp: buildStructuredObservation_def observation_tables_def Let_def
        normalizeStructuredObservation_def selectableCandidatesLimit_def split: if_splits)
  have "sorted_wrt (\<lambda>x y. \<not> selectable_less y x) ?sorted"
    using sort_by_sorts [OF selectable_less_strict_weak] by (simp add: sorts_to_def)
  from sorted_executable [OF this, of 64]
  have cut: "list_all tsc_executable (sob_selectable_candidates obs) \<or>
      set (filter tsc_executable (selectable_candidates uni seq pages)) \<subseteq> set (sob_selectable_candidates obs)"
    by (simp add: offered)
  have "c \<in> set (selectable_candidates uni seq pages)" if "c \<in> set (sob_selectable_candidates obs)" for c
    using that offered by (metis in_set_takeD set_sort_by)
  then show ?thesis
    using cut unfolding Some option.case Let_def list_all_iff
    by (intro conjI) (simp_all add: offered, fastforce simp: selectable_candidates_def page_nodes_def
        node_candidates_def Let_def)
qed simp

text \<open>
  The count of equal labels is lost for pages whose nodes state no page state of their own, as
  those built from a browser observation: every candidate is reported with an ambiguity of 0,
  however many nodes share its label, because the counts are kept under the page state of the
  node and looked up under that of the page.
\<close>

theorem ambiguity_is_lost:
  assumes "list_all (\<lambda>page. \<not> blank (tpg_page_state page) \<and> hd (tpg_page_state page) \<noteq> CHR 0x00 \<and>
      list_all (\<lambda>node. tnd_page_state node = []) (tpg_a11y_nodes page)) pages"
  shows "list_all (\<lambda>c. occ_ambiguous_count c = 0) (candidate_coverage uni pages)"
proof -
  have "labelCounts uni pages (candidate_key c) = 0"
    if "c \<in> set (last_by candidate_key (map (candidate_of uni) (labelled_nodes uni pages)))" for c
  proof -
    have "c \<in> set (map (candidate_of uni) (labelled_nodes uni pages))"
      by (rule subsetD [OF set_last_by that])
    then obtain page node where c: "c = candidate_of uni (page, node)" and "page \<in> set pages"
        "node \<in> set (tpg_a11y_nodes page)"
      by (auto simp: labelled_nodes_def page_nodes_def)
    with assms have state: "occ_page_state c = tpg_page_state page" "tpg_page_state page \<noteq> []"
        "hd (tpg_page_state page) \<noteq> CHR 0x00"
      by (auto simp: list_all_iff candidate_of_def firstNonEmptyString_def)
    have "label_key uni (snd pn) \<noteq> candidate_key c" if "pn \<in> set (labelled_nodes uni pages)" for pn
    proof -
      have "tnd_page_state (snd pn) = []"
        using that assms by (auto simp: labelled_nodes_def page_nodes_def list_all_iff)
      with state show ?thesis
        by (cases "tpg_page_state page") (auto simp: label_key_def candidate_key_def map_key_def)
    qed
    then show ?thesis by (auto simp: labelCounts_def filter_empty_conv)
  qed
  then show ?thesis by (simp add: candidate_coverage_def list_all_iff)
qed

lemma ambiguity_is_lost_witness:
  "let buy = zero_ToolResultNodeSummary\<lparr>tnd_role := ''button'', tnd_name := ''Buy''\<rparr>;
       page = zero_ToolResultPageSummary\<lparr>tpg_page_state := ''S0'', tpg_a11y_nodes :=
         [buy\<lparr>tnd_node_id := ''a''\<rparr>, buy\<lparr>tnd_node_id := ''b''\<rparr>]\<rparr> in
   list_all (\<lambda>c. occ_ambiguous_count c = 0) (candidate_coverage (\<lambda>_. False) [page])"
  unfolding Let_def
  by (rule ambiguity_is_lost)
    (simp add: zero_ToolResultNodeSummary_def zero_ToolResultPageSummary_def blank_iff is_space_def)

subsection \<open>The transcript\<close>

definition only_content_changes :: "Message \<Rightarrow> Message \<Rightarrow> bool" where
  "only_content_changes m m' \<longleftrightarrow> m' = m \<or>
     ms_role m = ''tool'' \<and> DecodeModelToolSummary (ms_content m) \<noteq> None \<and> m' = m\<lparr>ms_content := ms_content m'\<rparr>"

lemma only_content_changes_role: "only_content_changes m m' \<Longrightarrow> ms_role m' = ms_role m"
  unfolding only_content_changes_def
proof (elim disjE conjE)
  assume "m' = m\<lparr>ms_content := ms_content m'\<rparr>"
  then have "ms_role m' = ms_role (m\<lparr>ms_content := ms_content m'\<rparr>)" by (rule arg_cong)
  then show "ms_role m' = ms_role m" by simp
qed simp

lemma only_content_changes_trans:
  "only_content_changes m n \<Longrightarrow> ms_role n = ''tool'' \<Longrightarrow> DecodeModelToolSummary (ms_content m) \<noteq> None \<Longrightarrow>
   only_content_changes m (n\<lparr>ms_content := c\<rparr>)"
  by (cases m; cases n) (auto simp: only_content_changes_def)

text \<open>A transcript that came from \<open>t\<close> by rewriting messages at the places in \<open>ix\<close>.\<close>

definition rewritten_at :: "nat set \<Rightarrow> Message list \<Rightarrow> Message list \<Rightarrow> bool" where
  "rewritten_at ix t t' \<longleftrightarrow> length t' = length t \<and>
     (\<forall>i < length t. only_content_changes (t ! i) (t' ! i) \<and> (i \<notin> ix \<longrightarrow> t' ! i = t ! i))"

lemma rewritten_at_refl: "rewritten_at ix t t"
  by (simp add: rewritten_at_def only_content_changes_def)

definition located_at :: "Message list \<Rightarrow> nat set" where
  "located_at t = {i. i < length t \<and> ms_role (t ! i) = ''tool'' \<and> DecodeModelToolSummary (ms_content (t ! i)) \<noteq> None}"

lemma rewrite_message_at:
  assumes "rewritten_at (located_at t) t (snd st)" and "i \<in> located_at t"
  shows "rewritten_at (located_at t) t (snd (fst (rewrite_message uni i summary st)))"
proof -
  obtain total t' where st: "st = (total, t')" by (cases st)
  have old: "only_content_changes (t ! i) (t' ! i)" and i: "i < length t'" "length t' = length t"
    using assms by (auto simp: rewritten_at_def located_at_def st)
  have "ms_role (t' ! i) = ''tool''"
    using only_content_changes_role [OF old] assms(2) by (simp add: located_at_def)
  with old have new: "only_content_changes (t ! i) ((t' ! i)\<lparr>ms_content := c\<rparr>)" for c
    using assms(2) only_content_changes_trans by (auto simp: located_at_def)
  show ?thesis
    using assms new i
    by (auto simp: rewrite_message_def st rewritten_at_def nth_list_update split: prod.splits)
qed

lemma located_summaries_at: "item \<in> set (located_summaries t) \<Longrightarrow> fst item \<in> located_at t"
  by (auto simp: located_summaries_def locate_def located_at_def List.map_filter_def in_set_enumerate_eq
      split: option.splits if_splits)

lemma supersede_item_at:
  assumes "rewritten_at (located_at t) t (fst (snd st))" and "fst item \<in> located_at t"
    and "\<forall>v \<in> set (snd (snd st)). fst v \<in> located_at t"
  shows "rewritten_at (located_at t) t (fst (snd (supersede_item uni located item st))) \<and>
    (\<forall>v \<in> set (snd (snd (supersede_item uni located item st))). fst v \<in> located_at t)"
proof -
  obtain total t' visited where st: "st = (total, t', visited)" by (cases st)
  have "rewritten_at (located_at t) t (snd (fst (rewrite_message uni (fst item) s (total, t'))))" for s
    using assms by (intro rewrite_message_at) (simp_all add: st)
  then show ?thesis
    using assms by (simp add: supersede_item_def st Let_def split_beta split: option.split)
qed

lemma reference_item_at:
  assumes "rewritten_at (located_at t) t (snd st)" and "fst item \<in> located_at t"
  shows "rewritten_at (located_at t) t (snd (reference_item uni item st))"
  using assms rewrite_message_at [OF assms] by (simp add: reference_item_def)

lemma compact_rewrites: "rewritten_at (located_at t) t (CompactExplorationTranscript uni t)"
proof -
  have first: "rewritten_at (located_at t) t (fst (snd (fold (supersede_item uni located) items st))) \<and>
      (\<forall>v \<in> set (snd (snd (fold (supersede_item uni located) items st))). fst v \<in> located_at t)"
    if "\<forall>item \<in> set items. fst item \<in> located_at t" "rewritten_at (located_at t) t (fst (snd st))"
      "\<forall>v \<in> set (snd (snd st)). fst v \<in> located_at t" for located items st
    using that
  proof (induction items arbitrary: st)
    case (Cons item items)
    let ?st = "supersede_item uni located item st"
    have "rewritten_at (located_at t) t (fst (snd ?st)) \<and> (\<forall>v \<in> set (snd (snd ?st)). fst v \<in> located_at t)"
      by (rule supersede_item_at) (use Cons.prems in simp_all)
    with Cons.IH [of ?st] Cons.prems(1) show ?case by simp
  qed simp
  have second: "rewritten_at (located_at t) t (snd (fold (reference_item uni) items st))"
    if "\<forall>item \<in> set items. fst item \<in> located_at t" "rewritten_at (located_at t) t (snd st)" for items st
    using that
  proof (induction items arbitrary: st)
    case (Cons item items)
    have "rewritten_at (located_at t) t (snd (reference_item uni item st))"
      by (rule reference_item_at) (use Cons.prems in simp_all)
    with Cons.IH Cons.prems(1) show ?case by simp
  qed simp
  let ?st = "fold (supersede_item uni (located_summaries t)) (located_summaries t) (explorationSummaryBytes t, t, [])"
  have "rewritten_at (located_at t) t (fst (snd ?st)) \<and> (\<forall>v \<in> set (snd (snd ?st)). fst v \<in> located_at t)"
    by (rule first) (simp_all add: located_summaries_at rewritten_at_refl)
  then have "rewritten_at (located_at t) t (snd (fold (reference_item uni) (snd (snd ?st)) (fst ?st, fst (snd ?st))))"
    by (intro second) simp_all
  then show ?thesis
    by (simp add: CompactExplorationTranscript_def Let_def rewritten_at_refl split_beta)
qed

text \<open>C36.
  Compacting a transcript keeps its messages, their order, roles, calls and boundaries. It changes
  nothing but the contents of tool messages that hold a summary, and nothing at all while the
  summaries fit the budget.
\<close>

theorem compaction_keeps_messages:
  "list_all2 (\<lambda>m m'. m' = m \<or>
       ms_role m = ''tool'' \<and> DecodeModelToolSummary (ms_content m) \<noteq> None \<and>
       m' = m\<lparr>ms_content := ms_content m'\<rparr>) t (CompactExplorationTranscript uni t) \<and>
   (CompactExplorationTranscript uni t = t \<or> 49152 < explorationSummaryBytes t)"
  using compact_rewrites [of t uni]
  by (auto simp: rewritten_at_def only_content_changes_def list_all2_conv_all_nth
      CompactExplorationTranscript_def ModelExplorationBudgetBytes_def Let_def)

end
