(* ===== verification/PipelineTrace.thy ===== *)
theory PipelineTrace
  imports AgentService ToolSummaryEncoding SummaryText
begin

section \<open>Pipeline traces (internal/agentservice/pipeline_trace.go and types.go)\<close>

text \<open>
  What a run did can be read off its log afterwards: every state of a tool call and every
  request to the model leaves a trace event. This theory has the payload of these events with
  its encoder and decoder, its validation, the operation that records it, and the summary of the
  traces of a log.
\<close>

subsection \<open>Payloads\<close>

record PipelinePlanRef =
  ppr_plan_id :: string
  ppr_version :: int
  ppr_sha256 :: string
  ppr_status :: string

record PipelineCumulativeUsage =
  pcu_logical_calls :: int
  pcu_physical_attempts :: int
  pcu_input_tokens :: int
  pcu_output_tokens :: int
  pcu_total_tokens :: int
  pcu_prompt_cache_hit_tokens :: int
  pcu_prompt_cache_miss_tokens :: int
  pcu_usage_unavailable_attempts :: int

record RequestSerializationBudget =
  rsb_request_bytes :: int
  rsb_message_bytes :: int
  rsb_tool_definition_bytes :: int
  rsb_message_count :: int
  rsb_system_content_bytes :: int
  rsb_user_content_bytes :: int
  rsb_assistant_content_bytes :: int
  rsb_assistant_reasoning_bytes :: int
  rsb_assistant_tool_argument_bytes :: int
  rsb_tool_content_bytes :: int
  rsb_exploration_summary_bytes :: int
  rsb_exploration_summary_count :: int
  rsb_non_exploration_summary_bytes :: int
  rsb_recoverable_tool_error_bytes :: int

record PipelineModelRequestTrace =
  pmr_logical_call_id :: string
  pmr_attempt :: int
  pmr_attempt_status :: string
  pmr_request_budget :: RequestSerializationBudget
  pmr_cumulative :: PipelineCumulativeUsage
  pmr_tool_call_ids :: "string list option"

record PipelineLineageRef =
  plr_stage :: string
  plr_plan_id :: string
  plr_plan_version :: int
  plr_plan_step_id :: string
  plr_probe_id :: string
  plr_observation_id :: string
  plr_observation_sha256 :: string
  plr_page_state_id :: string
  plr_element_refs :: "string list"
  plr_target_binding_id :: string
  plr_planned_candidate_id :: string
  plr_resolved_candidate_id :: string
  plr_resolved_element_ref :: string
  plr_generation_id :: int
  plr_batch_id :: int
  plr_case_id :: int
  plr_execution_id :: int
  plr_report_status :: string

record PipelineToolCallTrace =
  ptc_name :: string
  ptc_signature :: string
  ptc_status :: string
  ptc_attempt :: int
  ptc_retry_of_tool_call_id :: string
  ptc_reason_code :: string
  ptc_plan_step_ids :: "string list option"
  ptc_lineage :: "PipelineLineageRef list"

record PipelineTracePayload =
  ptp_schema_version :: string
  ptp_kind :: string
  ptp_state_epoch :: string
  ptp_plan :: "PipelinePlanRef option"
  ptp_model_request :: "PipelineModelRequestTrace option"
  ptp_tool_call :: "PipelineToolCallTrace option"

definition PipelineTraceSchemaV1 :: string where
  "PipelineTraceSchemaV1 = ''agent.pipeline.trace.v1''"

definition PipelineTraceModelRequest :: string where
  "PipelineTraceModelRequest = ''model_request''"

definition PipelineTraceToolCall :: string where
  "PipelineTraceToolCall = ''tool_call''"

definition zero_PipelinePlanRef :: PipelinePlanRef where
  "zero_PipelinePlanRef = \<lparr>ppr_plan_id = [], ppr_version = 0, ppr_sha256 = [], ppr_status = []\<rparr>"

definition zero_PipelineCumulativeUsage :: PipelineCumulativeUsage where
  "zero_PipelineCumulativeUsage = \<lparr>pcu_logical_calls = 0, pcu_physical_attempts = 0,
     pcu_input_tokens = 0, pcu_output_tokens = 0, pcu_total_tokens = 0,
     pcu_prompt_cache_hit_tokens = 0, pcu_prompt_cache_miss_tokens = 0,
     pcu_usage_unavailable_attempts = 0\<rparr>"

definition zero_RequestSerializationBudget :: RequestSerializationBudget where
  "zero_RequestSerializationBudget = \<lparr>rsb_request_bytes = 0, rsb_message_bytes = 0,
     rsb_tool_definition_bytes = 0, rsb_message_count = 0, rsb_system_content_bytes = 0,
     rsb_user_content_bytes = 0, rsb_assistant_content_bytes = 0,
     rsb_assistant_reasoning_bytes = 0, rsb_assistant_tool_argument_bytes = 0,
     rsb_tool_content_bytes = 0, rsb_exploration_summary_bytes = 0,
     rsb_exploration_summary_count = 0, rsb_non_exploration_summary_bytes = 0,
     rsb_recoverable_tool_error_bytes = 0\<rparr>"

definition zero_PipelineModelRequestTrace :: PipelineModelRequestTrace where
  "zero_PipelineModelRequestTrace = \<lparr>pmr_logical_call_id = [], pmr_attempt = 0,
     pmr_attempt_status = [], pmr_request_budget = zero_RequestSerializationBudget,
     pmr_cumulative = zero_PipelineCumulativeUsage, pmr_tool_call_ids = None\<rparr>"

definition zero_PipelineLineageRef :: PipelineLineageRef where
  "zero_PipelineLineageRef = \<lparr>plr_stage = [], plr_plan_id = [], plr_plan_version = 0,
     plr_plan_step_id = [], plr_probe_id = [], plr_observation_id = [],
     plr_observation_sha256 = [], plr_page_state_id = [], plr_element_refs = [],
     plr_target_binding_id = [], plr_planned_candidate_id = [], plr_resolved_candidate_id = [],
     plr_resolved_element_ref = [], plr_generation_id = 0, plr_batch_id = 0, plr_case_id = 0,
     plr_execution_id = 0, plr_report_status = []\<rparr>"

definition zero_PipelineToolCallTrace :: PipelineToolCallTrace where
  "zero_PipelineToolCallTrace = \<lparr>ptc_name = [], ptc_signature = [], ptc_status = [],
     ptc_attempt = 0, ptc_retry_of_tool_call_id = [], ptc_reason_code = [],
     ptc_plan_step_ids = None, ptc_lineage = []\<rparr>"

definition zero_PipelineTracePayload :: PipelineTracePayload where
  "zero_PipelineTracePayload = \<lparr>ptp_schema_version = [], ptp_kind = [], ptp_state_epoch = [],
     ptp_plan = None, ptp_model_request = None, ptp_tool_call = None\<rparr>"

subsection \<open>Encoding\<close>

definition enc_PipelinePlanRef :: "PipelinePlanRef \<Rightarrow> json" where
  "enc_PipelinePlanRef x = JObj
     [(''plan_id'', JStr (ppr_plan_id x)), (''version'', JInt (ppr_version x)),
      (''sha256'', JStr (ppr_sha256 x)), (''status'', JStr (ppr_status x))]"

definition enc_PipelineCumulativeUsage :: "PipelineCumulativeUsage \<Rightarrow> json" where
  "enc_PipelineCumulativeUsage x = JObj
     [(''logical_calls'', JInt (pcu_logical_calls x)),
      (''physical_attempts'', JInt (pcu_physical_attempts x)),
      (''input_tokens'', JInt (pcu_input_tokens x)),
      (''output_tokens'', JInt (pcu_output_tokens x)),
      (''total_tokens'', JInt (pcu_total_tokens x)),
      (''prompt_cache_hit_tokens'', JInt (pcu_prompt_cache_hit_tokens x)),
      (''prompt_cache_miss_tokens'', JInt (pcu_prompt_cache_miss_tokens x)),
      (''usage_unavailable_attempts'', JInt (pcu_usage_unavailable_attempts x))]"

definition enc_RequestSerializationBudget :: "RequestSerializationBudget \<Rightarrow> json" where
  "enc_RequestSerializationBudget x = JObj
     [(''request_bytes'', JInt (rsb_request_bytes x)),
      (''message_bytes'', JInt (rsb_message_bytes x)),
      (''tool_definition_bytes'', JInt (rsb_tool_definition_bytes x)),
      (''message_count'', JInt (rsb_message_count x)),
      (''system_content_bytes'', JInt (rsb_system_content_bytes x)),
      (''user_content_bytes'', JInt (rsb_user_content_bytes x)),
      (''assistant_content_bytes'', JInt (rsb_assistant_content_bytes x)),
      (''assistant_reasoning_bytes'', JInt (rsb_assistant_reasoning_bytes x)),
      (''assistant_tool_argument_bytes'', JInt (rsb_assistant_tool_argument_bytes x)),
      (''tool_content_bytes'', JInt (rsb_tool_content_bytes x)),
      (''exploration_summary_bytes'', JInt (rsb_exploration_summary_bytes x)),
      (''exploration_summary_count'', JInt (rsb_exploration_summary_count x)),
      (''non_exploration_summary_bytes'', JInt (rsb_non_exploration_summary_bytes x)),
      (''recoverable_tool_error_bytes'', JInt (rsb_recoverable_tool_error_bytes x))]"

definition enc_PipelineModelRequestTrace :: "PipelineModelRequestTrace \<Rightarrow> json" where
  "enc_PipelineModelRequestTrace x = JObj
     [(''logical_call_id'', JStr (pmr_logical_call_id x)),
      (''attempt'', JInt (pmr_attempt x)),
      (''attempt_status'', JStr (pmr_attempt_status x)),
      (''request_budget'', enc_RequestSerializationBudget (pmr_request_budget x)),
      (''cumulative'', enc_PipelineCumulativeUsage (pmr_cumulative x)),
      (''tool_call_ids'', enc_slice JStr (pmr_tool_call_ids x))]"

definition enc_PipelineLineageRef :: "PipelineLineageRef \<Rightarrow> json" where
  "enc_PipelineLineageRef x = JObj (
     [(''stage'', JStr (plr_stage x)), (''plan_id'', JStr (plr_plan_id x)),
      (''plan_version'', JInt (plr_plan_version x)),
      (''plan_step_id'', JStr (plr_plan_step_id x))] @
     omit_empty_string ''probe_id'' (plr_probe_id x) @
     omit_empty_string ''observation_id'' (plr_observation_id x) @
     omit_empty_string ''observation_sha256'' (plr_observation_sha256 x) @
     omit_empty_string ''page_state_id'' (plr_page_state_id x) @
     omit_empty_list ''element_refs'' JStr (plr_element_refs x) @
     omit_empty_string ''target_binding_id'' (plr_target_binding_id x) @
     omit_empty_string ''planned_candidate_id'' (plr_planned_candidate_id x) @
     omit_empty_string ''resolved_candidate_id'' (plr_resolved_candidate_id x) @
     omit_empty_string ''resolved_element_ref'' (plr_resolved_element_ref x) @
     omit_zero_int ''generation_id'' (plr_generation_id x) @
     omit_zero_int ''batch_id'' (plr_batch_id x) @
     omit_zero_int ''case_id'' (plr_case_id x) @
     omit_zero_int ''execution_id'' (plr_execution_id x) @
     omit_empty_string ''report_status'' (plr_report_status x))"

definition enc_PipelineToolCallTrace :: "PipelineToolCallTrace \<Rightarrow> json" where
  "enc_PipelineToolCallTrace x = JObj (
     [(''name'', JStr (ptc_name x)), (''signature'', JStr (ptc_signature x)),
      (''status'', JStr (ptc_status x)), (''attempt'', JInt (ptc_attempt x))] @
     omit_empty_string ''retry_of_tool_call_id'' (ptc_retry_of_tool_call_id x) @
     omit_empty_string ''reason_code'' (ptc_reason_code x) @
     [(''plan_step_ids'', enc_slice JStr (ptc_plan_step_ids x))] @
     omit_empty_list ''lineage'' enc_PipelineLineageRef (ptc_lineage x))"

definition enc_PipelineTracePayload :: "PipelineTracePayload \<Rightarrow> json" where
  "enc_PipelineTracePayload x = JObj (
     [(''schema_version'', JStr (ptp_schema_version x)), (''kind'', JStr (ptp_kind x)),
      (''state_epoch'', JStr (ptp_state_epoch x))] @
     omit_nil ''plan'' enc_PipelinePlanRef (ptp_plan x) @
     omit_nil ''model_request'' enc_PipelineModelRequestTrace (ptp_model_request x) @
     omit_nil ''tool_call'' enc_PipelineToolCallTrace (ptp_tool_call x))"

subsection \<open>Decoding\<close>

definition dec_PipelinePlanRef :: "PipelinePlanRef decoder" where
  "dec_PipelinePlanRef = dec_struct
     [(''plan_id'', fld dec_string ppr_plan_id ppr_plan_id_update),
      (''version'', fld dec_int ppr_version ppr_version_update),
      (''sha256'', fld dec_string ppr_sha256 ppr_sha256_update),
      (''status'', fld dec_string ppr_status ppr_status_update)]"

definition dec_PipelineCumulativeUsage :: "PipelineCumulativeUsage decoder" where
  "dec_PipelineCumulativeUsage = dec_struct
     [(''logical_calls'', fld dec_int pcu_logical_calls pcu_logical_calls_update),
      (''physical_attempts'', fld dec_int pcu_physical_attempts pcu_physical_attempts_update),
      (''input_tokens'', fld dec_int pcu_input_tokens pcu_input_tokens_update),
      (''output_tokens'', fld dec_int pcu_output_tokens pcu_output_tokens_update),
      (''total_tokens'', fld dec_int pcu_total_tokens pcu_total_tokens_update),
      (''prompt_cache_hit_tokens'',
        fld dec_int pcu_prompt_cache_hit_tokens pcu_prompt_cache_hit_tokens_update),
      (''prompt_cache_miss_tokens'',
        fld dec_int pcu_prompt_cache_miss_tokens pcu_prompt_cache_miss_tokens_update),
      (''usage_unavailable_attempts'',
        fld dec_int pcu_usage_unavailable_attempts pcu_usage_unavailable_attempts_update)]"

definition dec_RequestSerializationBudget :: "RequestSerializationBudget decoder" where
  "dec_RequestSerializationBudget = dec_struct
     [(''request_bytes'', fld dec_int rsb_request_bytes rsb_request_bytes_update),
      (''message_bytes'', fld dec_int rsb_message_bytes rsb_message_bytes_update),
      (''tool_definition_bytes'',
        fld dec_int rsb_tool_definition_bytes rsb_tool_definition_bytes_update),
      (''message_count'', fld dec_int rsb_message_count rsb_message_count_update),
      (''system_content_bytes'',
        fld dec_int rsb_system_content_bytes rsb_system_content_bytes_update),
      (''user_content_bytes'', fld dec_int rsb_user_content_bytes rsb_user_content_bytes_update),
      (''assistant_content_bytes'',
        fld dec_int rsb_assistant_content_bytes rsb_assistant_content_bytes_update),
      (''assistant_reasoning_bytes'',
        fld dec_int rsb_assistant_reasoning_bytes rsb_assistant_reasoning_bytes_update),
      (''assistant_tool_argument_bytes'',
        fld dec_int rsb_assistant_tool_argument_bytes rsb_assistant_tool_argument_bytes_update),
      (''tool_content_bytes'', fld dec_int rsb_tool_content_bytes rsb_tool_content_bytes_update),
      (''exploration_summary_bytes'',
        fld dec_int rsb_exploration_summary_bytes rsb_exploration_summary_bytes_update),
      (''exploration_summary_count'',
        fld dec_int rsb_exploration_summary_count rsb_exploration_summary_count_update),
      (''non_exploration_summary_bytes'',
        fld dec_int rsb_non_exploration_summary_bytes rsb_non_exploration_summary_bytes_update),
      (''recoverable_tool_error_bytes'',
        fld dec_int rsb_recoverable_tool_error_bytes rsb_recoverable_tool_error_bytes_update)]"

definition dec_PipelineModelRequestTrace :: "PipelineModelRequestTrace decoder" where
  "dec_PipelineModelRequestTrace = dec_struct
     [(''logical_call_id'', fld dec_string pmr_logical_call_id pmr_logical_call_id_update),
      (''attempt'', fld dec_int pmr_attempt pmr_attempt_update),
      (''attempt_status'', fld dec_string pmr_attempt_status pmr_attempt_status_update),
      (''request_budget'',
        fld dec_RequestSerializationBudget pmr_request_budget pmr_request_budget_update),
      (''cumulative'', fld dec_PipelineCumulativeUsage pmr_cumulative pmr_cumulative_update),
      (''tool_call_ids'',
        fld (dec_slice dec_string []) pmr_tool_call_ids pmr_tool_call_ids_update)]"

definition dec_PipelineLineageRef :: "PipelineLineageRef decoder" where
  "dec_PipelineLineageRef = dec_struct
     [(''stage'', fld dec_string plr_stage plr_stage_update),
      (''plan_id'', fld dec_string plr_plan_id plr_plan_id_update),
      (''plan_version'', fld dec_int plr_plan_version plr_plan_version_update),
      (''plan_step_id'', fld dec_string plr_plan_step_id plr_plan_step_id_update),
      (''probe_id'', fld dec_string plr_probe_id plr_probe_id_update),
      (''observation_id'', fld dec_string plr_observation_id plr_observation_id_update),
      (''observation_sha256'', fld dec_string plr_observation_sha256 plr_observation_sha256_update),
      (''page_state_id'', fld dec_string plr_page_state_id plr_page_state_id_update),
      (''element_refs'', fld (dec_list dec_string []) plr_element_refs plr_element_refs_update),
      (''target_binding_id'', fld dec_string plr_target_binding_id plr_target_binding_id_update),
      (''planned_candidate_id'',
        fld dec_string plr_planned_candidate_id plr_planned_candidate_id_update),
      (''resolved_candidate_id'',
        fld dec_string plr_resolved_candidate_id plr_resolved_candidate_id_update),
      (''resolved_element_ref'',
        fld dec_string plr_resolved_element_ref plr_resolved_element_ref_update),
      (''generation_id'', fld dec_int plr_generation_id plr_generation_id_update),
      (''batch_id'', fld dec_int plr_batch_id plr_batch_id_update),
      (''case_id'', fld dec_int plr_case_id plr_case_id_update),
      (''execution_id'', fld dec_int plr_execution_id plr_execution_id_update),
      (''report_status'', fld dec_string plr_report_status plr_report_status_update)]"

definition dec_PipelineToolCallTrace :: "PipelineToolCallTrace decoder" where
  "dec_PipelineToolCallTrace = dec_struct
     [(''name'', fld dec_string ptc_name ptc_name_update),
      (''signature'', fld dec_string ptc_signature ptc_signature_update),
      (''status'', fld dec_string ptc_status ptc_status_update),
      (''attempt'', fld dec_int ptc_attempt ptc_attempt_update),
      (''retry_of_tool_call_id'',
        fld dec_string ptc_retry_of_tool_call_id ptc_retry_of_tool_call_id_update),
      (''reason_code'', fld dec_string ptc_reason_code ptc_reason_code_update),
      (''plan_step_ids'', fld (dec_slice dec_string []) ptc_plan_step_ids ptc_plan_step_ids_update),
      (''lineage'', fld (dec_list dec_PipelineLineageRef zero_PipelineLineageRef)
        ptc_lineage ptc_lineage_update)]"

definition dec_PipelineTracePayload :: "PipelineTracePayload decoder" where
  "dec_PipelineTracePayload = dec_struct
     [(''schema_version'', fld dec_string ptp_schema_version ptp_schema_version_update),
      (''kind'', fld dec_string ptp_kind ptp_kind_update),
      (''state_epoch'', fld dec_string ptp_state_epoch ptp_state_epoch_update),
      (''plan'', fld (dec_ptr dec_PipelinePlanRef zero_PipelinePlanRef) ptp_plan ptp_plan_update),
      (''model_request'', fld (dec_ptr dec_PipelineModelRequestTrace zero_PipelineModelRequestTrace)
        ptp_model_request ptp_model_request_update),
      (''tool_call'', fld (dec_ptr dec_PipelineToolCallTrace zero_PipelineToolCallTrace)
        ptp_tool_call ptp_tool_call_update)]"

end
