(* ===== verification/TraceLog.thy ===== *)
theory TraceLog
  imports PipelineTrace Sha256
begin

section \<open>Recording and summarising traces (internal/agentservice/pipeline_trace.go)\<close>

text \<open>
  The validation of a trace, the hash that identifies the state of a run, the operation that
  appends a trace to the log, the usage of the model counted from the log, and the summary of
  the traces of a log. Go's \<open>int\<close> and \<open>int64\<close> are 64 bits wide: sums of numbers that come from
  outside wrap around.
\<close>

subsection \<open>Reading values of a payload\<close>

definition wrap64 :: "int \<Rightarrow> int" where
  "wrap64 n = (n + 2 ^ 63) mod 2 ^ 64 - 2 ^ 63"

definition stringValue :: "json \<Rightarrow> string" where
  "stringValue value = any_string value"

text \<open>
  A number of a payload is a \<open>float64\<close>; its conversion cuts the fraction off. Out of range the
  result is up to the implementation: the smallest number, as on amd64.
\<close>

definition int64Value :: "json \<Rightarrow> int" where
  "int64Value value =
     (let n = (case value of JInt n \<Rightarrow> n | JDec m k \<Rightarrow> sgn m * (\<bar>m\<bar> div 10 ^ k) | _ \<Rightarrow> 0)
      in if in_int64 n then n else - (2 ^ 63))"

text \<open>\<open>event.Payload[key]\<close>; reading a \<open>nil\<close> map is allowed.\<close>

definition payload_get :: "Event \<Rightarrow> string \<Rightarrow> json" where
  "payload_get event k = (case ev_payload event of None \<Rightarrow> JNull | Some m \<Rightarrow> any_get m k)"

definition is_map :: "json \<Rightarrow> bool" where
  "is_map j \<longleftrightarrow> (case j of JObj _ \<Rightarrow> True | _ \<Rightarrow> False)"

text \<open>The ids that are not blank, trimmed, each once.\<close>

fun distinct_ids :: "string list \<Rightarrow> string list \<Rightarrow> string list" where
  "distinct_ids seen [] = []"
| "distinct_ids seen (v # vs) =
     (let v = TrimSpace v in
      if v = [] then distinct_ids seen vs
      else if v \<in> set seen then distinct_ids seen vs
      else v # distinct_ids (v # seen) vs)"

definition normalizedIDs :: "string list \<Rightarrow> string list" where
  "normalizedIDs ids_list = distinct_ids [] ids_list"

definition singleToolCallID :: "string list \<Rightarrow> string" where
  "singleToolCallID ids_list = (case normalizedIDs ids_list of [i] \<Rightarrow> i | _ \<Rightarrow> [])"

subsection \<open>Validation\<close>

definition is_hex :: "char \<Rightarrow> bool" where
  "is_hex c \<longleftrightarrow> (let n = (of_char c :: nat) in
     48 \<le> n \<and> n \<le> 57 \<or> 97 \<le> n \<and> n \<le> 102 \<or> 65 \<le> n \<and> n \<le> 70)"

definition trace_validSHA256 :: "string \<Rightarrow> bool" where
  "trace_validSHA256 value \<longleftrightarrow> length value = 64 \<and> list_all is_hex value"

definition validToolTraceStatus :: "string \<Rightarrow> bool" where
  "validToolTraceStatus status \<longleftrightarrow> status \<in> set [''proposed'', ''authorized'', ''running'',
     ''succeeded'', ''failed'', ''rejected'', ''pending'']"

definition plan_ref_invalid :: "PipelinePlanRef \<Rightarrow> bool" where
  "plan_ref_invalid plan \<longleftrightarrow> blank (ppr_plan_id plan) \<or> ppr_version plan < 1 \<or>
     \<not> trace_validSHA256 (ppr_sha256 plan) \<or> blank (ppr_status plan)"

definition validate_lineage :: "PipelineLineageRef \<Rightarrow> agent_error option" where
  "validate_lineage lineage =
     (if blank (plr_stage lineage) \<or> blank (plr_plan_id lineage) \<or> plr_plan_version lineage < 1 \<or>
         blank (plr_plan_step_id lineage) then Some TraceLineageInvalid
      else if plr_observation_sha256 lineage \<noteq> [] \<and>
        \<not> trace_validSHA256 (plr_observation_sha256 lineage) then Some TraceObservationInvalid
      else None)"

definition validatePipelineTrace :: "PipelineTracePayload \<Rightarrow> agent_error option" where
  "validatePipelineTrace payload =
     (if ptp_schema_version payload \<noteq> PipelineTraceSchemaV1
      then Some (TraceSchemaUnsupported (ptp_schema_version payload))
      else if \<not> trace_validSHA256 (ptp_state_epoch payload) then Some TraceEpochInvalid
      else if (case ptp_plan payload of None \<Rightarrow> False | Some plan \<Rightarrow> plan_ref_invalid plan)
      then Some TracePlanInvalid
      else if ptp_kind payload = PipelineTraceModelRequest then
        (case (ptp_model_request payload, ptp_tool_call payload) of
           (Some request, None) \<Rightarrow>
             if blank (pmr_logical_call_id request) \<or> pmr_attempt request < 1 \<or>
                blank (pmr_attempt_status request) then Some TraceModelIncomplete else None
         | _ \<Rightarrow> Some TraceModelDetail)
      else if ptp_kind payload = PipelineTraceToolCall then
        (case (ptp_tool_call payload, ptp_model_request payload) of
           (Some call, None) \<Rightarrow>
             if blank (ptc_name call) \<or> \<not> trace_validSHA256 (ptc_signature call) \<or>
                ptc_attempt call < 1 \<or> \<not> validToolTraceStatus (ptc_status call)
             then Some TraceToolIncomplete
             else first_error validate_lineage (ptc_lineage call)
         | _ \<Rightarrow> Some TraceToolDetail)
      else Some (TraceKindUnsupported (ptp_kind payload)))"

subsection \<open>The state of a run, hashed\<close>

fun run_status_text :: "RunStatus \<Rightarrow> string" where
  "run_status_text RunStatusRunning = ''running''"
| "run_status_text RunStatusWaitingUser = ''waiting_user''"
| "run_status_text RunStatusCompleted = ''completed''"
| "run_status_text RunStatusFailed = ''failed''"
| "run_status_text RunStatusCancelled = ''cancelled''"

definition runStateEpoch :: "AgentRun \<Rightarrow> string" where
  "runStateEpoch run = sha256_hex (render (JObj (
     [(''status'', JStr (run_status_text (ag_status run)))] @
     omit_nil ''pending_tool_call_id'' JStr (ag_pending_tool_call_id run) @
     omit_nil ''latest_generation_id'' JInt (ag_latest_generation_id run) @
     omit_nil ''approved_generation_id'' JInt (ag_approved_generation_id run))))"

subsection \<open>Recording\<close>

text \<open>The payload of the event is the encoded trace, read back as a map.\<close>

definition trace_members :: "PipelineTracePayload \<Rightarrow> (string \<times> json) list" where
  "trace_members payload = object_members (anyval (enc_PipelineTracePayload payload))"

definition RecordPipelineTrace ::
  "'s agent_service \<Rightarrow> AgentRun \<Rightarrow> string \<Rightarrow> string \<Rightarrow> PipelineTracePayload \<Rightarrow> ('s, unit) act" where
  "RecordPipelineTrace svc run step_id tool_call_id payload =
     (let payload = payload\<lparr>ptp_schema_version := PipelineTraceSchemaV1\<rparr>;
          payload = (if ptp_state_epoch payload = []
            then payload\<lparr>ptp_state_epoch := runStateEpoch run\<rparr> else payload) in
      case validatePipelineTrace payload of
        Some e \<Rightarrow> stop_with e
      | None \<Rightarrow>
        and_then (appendEvent svc run ((new_event EventPipelineTrace)\<lparr>ev_step_id := step_id,
          ev_tool_call_id := tool_call_id, ev_payload := Some (trace_members payload)\<rparr>)) (\<lambda>_.
        done_with ()))"

subsection \<open>Usage of the model, counted from the log\<close>

definition count_usage ::
  "Event \<Rightarrow> string list \<times> PipelineCumulativeUsage \<Rightarrow> string list \<times> PipelineCumulativeUsage" where
  "count_usage event acc =
     (if ev_type event \<noteq> EventResearchLLMCall then acc
      else
        let calls = fst acc;
            result = (snd acc)\<lparr>pcu_physical_attempts := pcu_physical_attempts (snd acc) + 1\<rparr>;
            logical = stringValue (payload_get event ''logical_call_id'');
            calls = (if logical \<noteq> [] then List.insert logical calls else calls);
            usage = payload_get event ''usage'';
            m = object_members usage in
        if \<not> is_map usage \<or> stringValue (any_get m ''status'') = ''unavailable''
        then (calls, result\<lparr>pcu_usage_unavailable_attempts := pcu_usage_unavailable_attempts result + 1\<rparr>)
        else (calls, result\<lparr>
          pcu_input_tokens := wrap64 (pcu_input_tokens result + int64Value (any_get m ''input_tokens'')),
          pcu_output_tokens := wrap64 (pcu_output_tokens result + int64Value (any_get m ''output_tokens'')),
          pcu_total_tokens := wrap64 (pcu_total_tokens result + int64Value (any_get m ''total_tokens'')),
          pcu_prompt_cache_hit_tokens :=
            wrap64 (pcu_prompt_cache_hit_tokens result + int64Value (any_get m ''prompt_cache_hit_tokens'')),
          pcu_prompt_cache_miss_tokens :=
            wrap64 (pcu_prompt_cache_miss_tokens result + int64Value (any_get m ''prompt_cache_miss_tokens''))\<rparr>))"

definition usage_of_events :: "Event list \<Rightarrow> PipelineCumulativeUsage" where
  "usage_of_events events =
     (let (calls, result) = fold count_usage events ([], zero_PipelineCumulativeUsage)
      in result\<lparr>pcu_logical_calls := int (length calls)\<rparr>)"

definition pipelineCumulativeUsage :: "'s agent_service \<Rightarrow> string \<Rightarrow> ('s, PipelineCumulativeUsage) act" where
  "pipelineCumulativeUsage svc run_id =
     and_then (reading (\<lambda>r. ar_events (sv_repository svc) r run_id 0)) (\<lambda>events.
     done_with (usage_of_events events))"

subsection \<open>The summary of the traces of a log\<close>

record PipelineContextGrowth =
  pcg_first_request_bytes :: int
  pcg_latest_request_bytes :: int
  pcg_max_request_bytes :: int
  pcg_first_message_bytes :: int
  pcg_latest_message_bytes :: int
  pcg_max_message_bytes :: int
  pcg_latest_breakdown :: RequestSerializationBudget

record PipelineRepeatedToolCall =
  prc_name :: string
  prc_signature :: string
  prc_state_epoch :: string
  prc_attempt :: int
  prc_retry_of_tool_call_id :: string
  prc_tool_call_id :: string

record PipelineTraceSummary =
  pts_schema_version :: string
  pts_run_id :: string
  pts_trace_events :: int
  pts_plan_versions :: "PipelinePlanRef list"
  pts_tool_calls :: int
  pts_tool_state_transitions :: int
  pts_repeated_tool_calls :: "PipelineRepeatedToolCall list"
  pts_lineage :: "PipelineLineageRef list"
  pts_model_requests :: int
  pts_cumulative :: PipelineCumulativeUsage
  pts_context_growth :: PipelineContextGrowth

definition PipelineTraceSummarySchemaV1 :: string where
  "PipelineTraceSummarySchemaV1 = ''agent.pipeline.trace-summary.v1''"

definition zero_PipelineContextGrowth :: PipelineContextGrowth where
  "zero_PipelineContextGrowth = \<lparr>pcg_first_request_bytes = 0, pcg_latest_request_bytes = 0,
     pcg_max_request_bytes = 0, pcg_first_message_bytes = 0, pcg_latest_message_bytes = 0,
     pcg_max_message_bytes = 0, pcg_latest_breakdown = zero_RequestSerializationBudget\<rparr>"

definition new_PipelineTraceSummary :: "string \<Rightarrow> PipelineTraceSummary" where
  "new_PipelineTraceSummary run_id = \<lparr>pts_schema_version = PipelineTraceSummarySchemaV1,
     pts_run_id = run_id, pts_trace_events = 0, pts_plan_versions = [], pts_tool_calls = 0,
     pts_tool_state_transitions = 0, pts_repeated_tool_calls = [], pts_lineage = [],
     pts_model_requests = 0, pts_cumulative = zero_PipelineCumulativeUsage,
     pts_context_growth = zero_PipelineContextGrowth\<rparr>"

datatype trace_error =
    TraceSummaryRunIdRequired
  | TraceUndecodable int
  | TraceInvalid int agent_error

definition planKey :: "PipelinePlanRef \<Rightarrow> string" where
  "planKey plan = ppr_plan_id plan @ '':'' @ itoa (ppr_version plan) @ '':'' @ ppr_sha256 plan"

definition lineage_less :: "PipelineLineageRef \<Rightarrow> PipelineLineageRef \<Rightarrow> bool" where
  "lineage_less left right \<longleftrightarrow>
     (if plr_plan_version left \<noteq> plr_plan_version right
      then plr_plan_version left < plr_plan_version right
      else if plr_plan_step_id left \<noteq> plr_plan_step_id right
      then plr_plan_step_id left < plr_plan_step_id right
      else if plr_stage left \<noteq> plr_stage right then plr_stage left < plr_stage right
      else if plr_execution_id left \<noteq> plr_execution_id right
      then plr_execution_id left < plr_execution_id right
      else plr_resolved_candidate_id left < plr_resolved_candidate_id right)"

definition lineage_key :: "PipelineLineageRef \<Rightarrow> string" where
  "lineage_key value = render (enc_PipelineLineageRef value)"

text \<open>The entries of a map, in the order of their first insertion; then sorted.\<close>

definition lineage_map :: "PipelineLineageRef list \<Rightarrow> (string \<times> PipelineLineageRef) list" where
  "lineage_map refs = fold (\<lambda>v m. assoc_put (lineage_key v) v m) refs []"

definition deduplicatePipelineLineage :: "PipelineLineageRef list \<Rightarrow> PipelineLineageRef list" where
  "deduplicatePipelineLineage refs = sort_by lineage_less (map snd (lineage_map refs))"

definition plan_ref_less :: "PipelinePlanRef \<Rightarrow> PipelinePlanRef \<Rightarrow> bool" where
  "plan_ref_less left right \<longleftrightarrow>
     (if ppr_version left \<noteq> ppr_version right then ppr_version left < ppr_version right
      else ppr_plan_id left < ppr_plan_id right)"

definition repeated_less :: "PipelineRepeatedToolCall \<Rightarrow> PipelineRepeatedToolCall \<Rightarrow> bool" where
  "repeated_less left right \<longleftrightarrow>
     (if prc_attempt left \<noteq> prc_attempt right then prc_attempt left < prc_attempt right
      else prc_tool_call_id left < prc_tool_call_id right)"

text \<open>The variables of the loop: \<open>plans\<close>, \<open>toolCalls\<close>, \<open>firstModelRequest\<close>, \<open>result\<close>.\<close>

record trace_scan =
  tsn_plans :: "(string \<times> PipelinePlanRef) list"
  tsn_tool_calls :: "string list"
  tsn_first :: bool
  tsn_result :: PipelineTraceSummary

definition updated_plan_ref :: "Event \<Rightarrow> PipelinePlanRef" where
  "updated_plan_ref event = \<lparr>ppr_plan_id = stringValue (payload_get event ''plan_id''),
     ppr_version = int64Value (payload_get event ''version''),
     ppr_sha256 = stringValue (payload_get event ''plan_sha256''),
     ppr_status = stringValue (payload_get event ''status'')\<rparr>"

definition note_plan :: "PipelinePlanRef \<Rightarrow> trace_scan \<Rightarrow> trace_scan" where
  "note_plan plan scan = scan\<lparr>tsn_plans := assoc_put (planKey plan) plan (tsn_plans scan)\<rparr>"

definition grown :: "bool \<Rightarrow> RequestSerializationBudget \<Rightarrow> PipelineContextGrowth \<Rightarrow> PipelineContextGrowth" where
  "grown first budget growth =
     (let growth = (if first then growth\<lparr>pcg_first_request_bytes := rsb_request_bytes budget,
            pcg_first_message_bytes := rsb_message_bytes budget\<rparr> else growth)
      in growth\<lparr>pcg_latest_request_bytes := rsb_request_bytes budget,
        pcg_latest_message_bytes := rsb_message_bytes budget,
        pcg_max_request_bytes := max (pcg_max_request_bytes growth) (rsb_request_bytes budget),
        pcg_max_message_bytes := max (pcg_max_message_bytes growth) (rsb_message_bytes budget),
        pcg_latest_breakdown := budget\<rparr>)"

definition scan_request :: "PipelineModelRequestTrace \<Rightarrow> trace_scan \<Rightarrow> trace_scan" where
  "scan_request request scan =
     (let result = tsn_result scan in scan\<lparr>tsn_first := False,
        tsn_result := result\<lparr>pts_model_requests := pts_model_requests result + 1,
          pts_context_growth := grown (tsn_first scan) (pmr_request_budget request) (pts_context_growth result),
          pts_cumulative := pmr_cumulative request\<rparr>\<rparr>)"

definition repeated_call :: "string \<Rightarrow> Event \<Rightarrow> PipelineToolCallTrace \<Rightarrow> PipelineRepeatedToolCall" where
  "repeated_call epoch event call = \<lparr>prc_name = ptc_name call, prc_signature = ptc_signature call,
     prc_state_epoch = epoch, prc_attempt = ptc_attempt call,
     prc_retry_of_tool_call_id = ptc_retry_of_tool_call_id call,
     prc_tool_call_id = ev_tool_call_id event\<rparr>"

definition scan_call :: "string \<Rightarrow> Event \<Rightarrow> PipelineToolCallTrace \<Rightarrow> trace_scan \<Rightarrow> trace_scan" where
  "scan_call epoch event call scan =
     (let result = tsn_result scan in scan\<lparr>
        tsn_tool_calls := (if ev_tool_call_id event \<noteq> []
          then List.insert (ev_tool_call_id event) (tsn_tool_calls scan) else tsn_tool_calls scan),
        tsn_result := result\<lparr>
          pts_tool_state_transitions := pts_tool_state_transitions result + 1,
          pts_lineage := pts_lineage result @ ptc_lineage call,
          pts_repeated_tool_calls := (if ptc_status call = ''proposed'' \<and> 1 < ptc_attempt call
            then pts_repeated_tool_calls result @ [repeated_call epoch event call]
            else pts_repeated_tool_calls result)\<rparr>\<rparr>)"

definition scan_trace :: "Event \<Rightarrow> PipelineTracePayload \<Rightarrow> trace_scan \<Rightarrow> trace_scan" where
  "scan_trace event trace scan =
     (let result = tsn_result scan;
          scan = scan\<lparr>tsn_result := result\<lparr>pts_trace_events := pts_trace_events result + 1\<rparr>\<rparr>;
          scan = (case ptp_plan trace of None \<Rightarrow> scan | Some plan \<Rightarrow> note_plan plan scan) in
      if ptp_kind trace = PipelineTraceModelRequest
      then (case ptp_model_request trace of None \<Rightarrow> scan | Some request \<Rightarrow> scan_request request scan)
      else if ptp_kind trace = PipelineTraceToolCall
      then (case ptp_tool_call trace of None \<Rightarrow> scan
        | Some call \<Rightarrow> scan_call (ptp_state_epoch trace) event call scan)
      else scan)"

text \<open>A trace event is decoded and validated before it is counted.\<close>

definition scan_event :: "Event \<Rightarrow> trace_scan \<Rightarrow> trace_error + trace_scan" where
  "scan_event event scan =
     (if ev_type event = EventTaskPlanUpdated then
        (let plan = updated_plan_ref event in
         Inr (if ppr_plan_id plan \<noteq> [] \<and> 0 < ppr_version plan then note_plan plan scan else scan))
      else if ev_type event \<noteq> EventPipelineTrace then Inr scan
      else case dec_PipelineTracePayload
          (case ev_payload event of None \<Rightarrow> JNull | Some m \<Rightarrow> JObj m) zero_PipelineTracePayload of
        None \<Rightarrow> Inl (TraceUndecodable (ev_seq event))
      | Some trace \<Rightarrow>
        (case validatePipelineTrace trace of
           Some e \<Rightarrow> Inl (TraceInvalid (ev_seq event) e)
         | None \<Rightarrow> Inr (scan_trace event trace scan)))"

fun scan_events :: "Event list \<Rightarrow> trace_scan \<Rightarrow> trace_error + trace_scan" where
  "scan_events [] scan = Inr scan"
| "scan_events (event # events) scan =
     (case scan_event event scan of Inl e \<Rightarrow> Inl e | Inr scan' \<Rightarrow> scan_events events scan')"

definition finish_scan :: "trace_scan \<Rightarrow> PipelineTraceSummary" where
  "finish_scan scan =
     (let result = tsn_result scan in result\<lparr>
        pts_tool_calls := int (length (tsn_tool_calls scan)),
        pts_plan_versions := sort_by plan_ref_less (map snd (tsn_plans scan)),
        pts_repeated_tool_calls := sort_by repeated_less (pts_repeated_tool_calls result),
        pts_lineage := deduplicatePipelineLineage (pts_lineage result)\<rparr>)"

definition SummarizePipelineTrace :: "string \<Rightarrow> Event list \<Rightarrow> trace_error + PipelineTraceSummary" where
  "SummarizePipelineTrace run_id events =
     (if TrimSpace run_id = [] then Inl TraceSummaryRunIdRequired
      else case scan_events events \<lparr>tsn_plans = [], tsn_tool_calls = [], tsn_first = True,
          tsn_result = new_PipelineTraceSummary (TrimSpace run_id)\<rparr> of
        Inl e \<Rightarrow> Inl e
      | Inr scan \<Rightarrow> Inr (finish_scan scan))"

end
