(* ===== verification/ModelTelemetry.thy ===== *)
theory ModelTelemetry
  imports TraceLog
begin

section \<open>Telemetry of the model (internal/agent/types.go, internal/agentservice/service.go)\<close>

text \<open>
  The client of the model reports every attempt of a call; the service writes each attempt to
  the log as a research event, with its texts cut to a limit, followed by a trace of the request
  with the usage counted so far. Instants lie in the years 0 to 9999.
\<close>

subsection \<open>The report of a call\<close>

record PromptSpec =
  psp_version :: string
  psp_request_sha256 :: string
  psp_prompt_sha256 :: string
  psp_toolset_sha256 :: string
  psp_request_budget :: RequestSerializationBudget

record ModelUsage =
  mu_status :: string
  mu_input_tokens :: "int option"
  mu_output_tokens :: "int option"
  mu_total_tokens :: "int option"
  mu_prompt_cache_hit_tokens :: "int option"
  mu_prompt_cache_miss_tokens :: "int option"

record ModelError =
  me_category :: string
  me_code :: string
  me_message :: string
  me_retryable :: bool

record ModelAttempt =
  ma_attempt :: int
  ma_status :: string
  ma_started_at :: go_time
  ma_latency_ms :: int
  ma_http_status :: "int option"
  ma_provider_response_id :: string
  ma_provider_header_request_id :: string
  ma_provider_header_request_id_header :: string
  ma_provider_request_id :: string
  ma_error :: "ModelError option"

record ReasoningAudit =
  ra_thinking_mode :: string
  ra_reasoning_effort :: string
  ra_content_available :: bool
  ra_content_bytes :: int
  ra_content_sha256 :: string

record Telemetry =
  tm_provider :: string
  tm_requested_model :: string
  tm_resolved_model :: string
  tm_finish_reason :: string
  tm_client_request_id :: string
  tm_endpoint_scheme :: string
  tm_endpoint_host :: string
  tm_credential_fingerprint :: string
  tm_local_response_cache :: string
  tm_prompt :: PromptSpec
  tm_usage :: ModelUsage
  tm_reasoning :: "ReasoningAudit option"
  tm_attempts :: "ModelAttempt list"
  tm_total_latency_ms :: int

record PipelineState =
  pst_epoch :: string
  pst_plan_id :: string
  pst_version :: int
  pst_plan_sha256 :: string
  pst_status :: string

record TelemetryRecord =
  tr_logical_call_id :: string
  tr_step_id :: string
  tr_tool_call_ids :: "string list"
  tr_state :: PipelineState
  tr_telemetry :: Telemetry

definition zero_PipelineState :: PipelineState where
  "zero_PipelineState = \<lparr>pst_epoch = [], pst_plan_id = [], pst_version = 0,
     pst_plan_sha256 = [], pst_status = []\<rparr>"

definition UsageUnavailable :: string where
  "UsageUnavailable = ''unavailable''"

definition unavailable_usage :: ModelUsage where
  "unavailable_usage = \<lparr>mu_status = UsageUnavailable, mu_input_tokens = None,
     mu_output_tokens = None, mu_total_tokens = None, mu_prompt_cache_hit_tokens = None,
     mu_prompt_cache_miss_tokens = None\<rparr>"

subsection \<open>Texts with a limit\<close>

definition limitString :: "string \<Rightarrow> nat \<Rightarrow> string" where
  "limitString value limit =
     (let value = TrimSpace value in if length value \<le> limit then value else take limit value)"

text \<open>
  A cut may break a character. \<open>json.Marshal\<close> writes the replacement character for every byte
  that is not part of a character; this is done where the cut text enters a payload.
\<close>

definition coerce_utf8 :: "string \<Rightarrow> string" where
  "coerce_utf8 s = (if ValidString s then s else concat (map utf8 (runes (map code_of s))))"

definition limited :: "string \<Rightarrow> nat \<Rightarrow> string" where
  "limited value limit = coerce_utf8 (limitString value limit)"

definition safeReasoningAudit :: "ReasoningAudit option \<Rightarrow> ReasoningAudit option" where
  "safeReasoningAudit reasoning = map_option (\<lambda>r. r\<lparr>
     ra_thinking_mode := limited (ra_thinking_mode r) 32,
     ra_reasoning_effort := limited (ra_reasoning_effort r) 32,
     ra_content_sha256 := limited (ra_content_sha256 r) 64\<rparr>) reasoning"

definition safe_error :: "ModelError option \<Rightarrow> ModelError option" where
  "safe_error failure = map_option (\<lambda>e. \<lparr>me_category = limited (me_category e) 64,
     me_code = limited (me_code e) 64, me_message = [], me_retryable = me_retryable e\<rparr>) failure"

subsection \<open>Encoding\<close>

definition enc_PromptSpec :: "PromptSpec \<Rightarrow> json" where
  "enc_PromptSpec x = JObj
     [(''version'', JStr (psp_version x)), (''request_sha256'', JStr (psp_request_sha256 x)),
      (''prompt_sha256'', JStr (psp_prompt_sha256 x)),
      (''toolset_sha256'', JStr (psp_toolset_sha256 x)),
      (''request_budget'', enc_RequestSerializationBudget (psp_request_budget x))]"

definition enc_ModelUsage :: "ModelUsage \<Rightarrow> json" where
  "enc_ModelUsage x = JObj ([(''status'', JStr (mu_status x))] @
     omit_nil ''input_tokens'' JInt (mu_input_tokens x) @
     omit_nil ''output_tokens'' JInt (mu_output_tokens x) @
     omit_nil ''total_tokens'' JInt (mu_total_tokens x) @
     omit_nil ''prompt_cache_hit_tokens'' JInt (mu_prompt_cache_hit_tokens x) @
     omit_nil ''prompt_cache_miss_tokens'' JInt (mu_prompt_cache_miss_tokens x))"

definition enc_ModelError :: "ModelError \<Rightarrow> json" where
  "enc_ModelError x = JObj ([(''category'', JStr (me_category x))] @
     omit_empty_string ''code'' (me_code x) @ omit_empty_string ''message'' (me_message x) @
     [(''retryable'', JBool (me_retryable x))])"

definition enc_ReasoningAudit :: "ReasoningAudit \<Rightarrow> json" where
  "enc_ReasoningAudit x = JObj (omit_empty_string ''thinking_mode'' (ra_thinking_mode x) @
     omit_empty_string ''reasoning_effort'' (ra_reasoning_effort x) @
     [(''content_available'', JBool (ra_content_available x))] @
     omit_zero_int ''content_bytes'' (ra_content_bytes x) @
     omit_empty_string ''content_sha256'' (ra_content_sha256 x))"

definition ResearchLLMCallSchemaV1 :: string where
  "ResearchLLMCallSchemaV1 = ''research.llm_call.v1''"

record ResearchLLMCallPayload =
  rl_schema_version :: string
  rl_logical_call_id :: string
  rl_provider :: string
  rl_requested_model :: string
  rl_resolved_model :: string
  rl_client_request_id :: string
  rl_endpoint_scheme :: string
  rl_endpoint_host :: string
  rl_credential_fingerprint :: string
  rl_provider_response_id :: string
  rl_provider_header_request_id :: string
  rl_provider_header_request_id_header :: string
  rl_local_response_cache :: string
  rl_prompt :: PromptSpec
  rl_usage :: ModelUsage
  rl_reasoning :: "ReasoningAudit option"
  rl_finish_reason :: string
  rl_attempt :: int
  rl_attempt_status :: string
  rl_attempt_started_at :: go_time
  rl_attempt_latency_ms :: int
  rl_total_latency_ms :: int
  rl_http_status :: "int option"
  rl_provider_request_id :: string
  rl_retry_count :: int
  rl_tool_call_status :: string
  rl_tool_call_unavailable_reason :: string
  rl_tool_call_ids :: "string list"
  rl_error :: "ModelError option"

definition enc_ResearchLLMCallPayload :: "ResearchLLMCallPayload \<Rightarrow> json" where
  "enc_ResearchLLMCallPayload x = JObj (
     [(''schema_version'', JStr (rl_schema_version x)),
      (''logical_call_id'', JStr (rl_logical_call_id x)),
      (''provider'', JStr (rl_provider x)),
      (''requested_model'', JStr (rl_requested_model x))] @
     omit_empty_string ''resolved_model'' (rl_resolved_model x) @
     omit_empty_string ''client_request_id'' (rl_client_request_id x) @
     omit_empty_string ''endpoint_scheme'' (rl_endpoint_scheme x) @
     omit_empty_string ''endpoint_host'' (rl_endpoint_host x) @
     omit_empty_string ''credential_fingerprint'' (rl_credential_fingerprint x) @
     omit_empty_string ''provider_response_id'' (rl_provider_response_id x) @
     omit_empty_string ''provider_header_request_id'' (rl_provider_header_request_id x) @
     omit_empty_string ''provider_header_request_id_header'' (rl_provider_header_request_id_header x) @
     omit_empty_string ''local_response_cache'' (rl_local_response_cache x) @
     [(''prompt_spec'', enc_PromptSpec (rl_prompt x)),
      (''usage'', enc_ModelUsage (rl_usage x))] @
     omit_nil ''reasoning'' enc_ReasoningAudit (rl_reasoning x) @
     omit_empty_string ''finish_reason'' (rl_finish_reason x) @
     [(''attempt'', JInt (rl_attempt x)),
      (''attempt_status'', JStr (rl_attempt_status x)),
      (''attempt_started_at'', JStr (FormatRFC3339Nano (rl_attempt_started_at x))),
      (''attempt_latency_ms'', JInt (rl_attempt_latency_ms x)),
      (''total_latency_ms'', JInt (rl_total_latency_ms x))] @
     omit_nil ''http_status'' JInt (rl_http_status x) @
     omit_empty_string ''provider_request_id'' (rl_provider_request_id x) @
     [(''retry_count'', JInt (rl_retry_count x)),
      (''tool_call_status'', JStr (rl_tool_call_status x))] @
     omit_empty_string ''tool_call_unavailable_reason'' (rl_tool_call_unavailable_reason x) @
     omit_empty_list ''tool_call_ids'' JStr (rl_tool_call_ids x) @
     omit_nil ''error'' enc_ModelError (rl_error x))"

subsection \<open>What is logged of an attempt\<close>

definition ToolCallAvailable :: string where
  "ToolCallAvailable = ''available''"

definition ToolCallUnavailable :: string where
  "ToolCallUnavailable = ''unavailable''"

definition succeeded_attempt :: "ModelAttempt \<Rightarrow> bool" where
  "succeeded_attempt attempt \<longleftrightarrow> ma_status attempt = ''succeeded''"

definition attempt_tool_calls :: "TelemetryRecord \<Rightarrow> ModelAttempt \<Rightarrow> string list" where
  "attempt_tool_calls report attempt =
     (if succeeded_attempt attempt then tr_tool_call_ids report else [])"

definition unavailable_reason :: "TelemetryRecord \<Rightarrow> ModelAttempt \<Rightarrow> string" where
  "unavailable_reason report attempt =
     (if succeeded_attempt attempt then
        (if attempt_tool_calls report attempt \<noteq> [] then [] else ''model_returned_final_text'')
      else ''model_attempt_failed_without_response'')"

definition provider_request_id :: "ModelAttempt \<Rightarrow> string" where
  "provider_request_id attempt =
     (if ma_provider_response_id attempt \<noteq> [] then ma_provider_response_id attempt
      else if ma_provider_header_request_id attempt \<noteq> [] then ma_provider_header_request_id attempt
      else ma_provider_request_id attempt)"

definition attempt_payload :: "TelemetryRecord \<Rightarrow> nat \<Rightarrow> ModelAttempt \<Rightarrow> ResearchLLMCallPayload" where
  "attempt_payload report index attempt =
     (let t = tr_telemetry report; ok = succeeded_attempt attempt;
          calls = attempt_tool_calls report attempt in
      \<lparr>rl_schema_version = ResearchLLMCallSchemaV1,
       rl_logical_call_id = limited (tr_logical_call_id report) 128,
       rl_provider = limited (tm_provider t) 128,
       rl_requested_model = limited (tm_requested_model t) 128,
       rl_resolved_model = limited (if ok then tm_resolved_model t else []) 128,
       rl_client_request_id = limited (tm_client_request_id t) 128,
       rl_endpoint_scheme = limited (tm_endpoint_scheme t) 16,
       rl_endpoint_host = limited (tm_endpoint_host t) 255,
       rl_credential_fingerprint = limited (tm_credential_fingerprint t) 74,
       rl_provider_response_id = limited (ma_provider_response_id attempt) 128,
       rl_provider_header_request_id = limited (ma_provider_header_request_id attempt) 128,
       rl_provider_header_request_id_header =
         limited (ma_provider_header_request_id_header attempt) 64,
       rl_local_response_cache = limited (tm_local_response_cache t) 32,
       rl_prompt = \<lparr>psp_version = limited (psp_version (tm_prompt t)) 64,
         psp_request_sha256 = limited (psp_request_sha256 (tm_prompt t)) 64,
         psp_prompt_sha256 = limited (psp_prompt_sha256 (tm_prompt t)) 64,
         psp_toolset_sha256 = limited (psp_toolset_sha256 (tm_prompt t)) 64,
         psp_request_budget = psp_request_budget (tm_prompt t)\<rparr>,
       rl_usage = (if ok then tm_usage t else unavailable_usage),
       rl_reasoning = safeReasoningAudit (tm_reasoning t),
       rl_finish_reason = limited (if ok then tm_finish_reason t else []) 64,
       rl_attempt = ma_attempt attempt, rl_attempt_status = ma_status attempt,
       rl_attempt_started_at = ma_started_at attempt,
       rl_attempt_latency_ms = ma_latency_ms attempt,
       rl_total_latency_ms = tm_total_latency_ms t,
       rl_http_status = ma_http_status attempt,
       rl_provider_request_id = limited (provider_request_id attempt) 128,
       rl_retry_count = int index,
       rl_tool_call_status =
         (if ok \<and> calls \<noteq> [] then ToolCallAvailable else ToolCallUnavailable),
       rl_tool_call_unavailable_reason = unavailable_reason report attempt,
       rl_tool_call_ids = calls,
       rl_error = safe_error (ma_error attempt)\<rparr>)"

definition model_trace ::
  "AgentRun \<Rightarrow> TelemetryRecord \<Rightarrow> ModelAttempt \<Rightarrow> PipelineCumulativeUsage \<Rightarrow> PipelineTracePayload" where
  "model_trace run report attempt cumulative =
     (let state = tr_state report;
          calls = (if succeeded_attempt attempt then normalizedIDs (tr_tool_call_ids report) else []) in
      zero_PipelineTracePayload\<lparr>ptp_kind := PipelineTraceModelRequest,
        ptp_state_epoch := (if pst_epoch state = [] then runStateEpoch run else pst_epoch state),
        ptp_plan := (if pst_plan_id state = [] then None
          else Some \<lparr>ppr_plan_id = pst_plan_id state, ppr_version = pst_version state,
            ppr_sha256 = pst_plan_sha256 state, ppr_status = pst_status state\<rparr>),
        ptp_model_request := Some \<lparr>pmr_logical_call_id = limited (tr_logical_call_id report) 128,
          pmr_attempt = ma_attempt attempt,
          pmr_attempt_status = limited (ma_status attempt) 64,
          pmr_request_budget = psp_request_budget (tm_prompt (tr_telemetry report)),
          pmr_cumulative = cumulative, pmr_tool_call_ids = Some calls\<rparr>\<rparr>)"

definition recordPipelineModelTrace ::
  "'s agent_service \<Rightarrow> AgentRun \<Rightarrow> TelemetryRecord \<Rightarrow> ModelAttempt \<Rightarrow> ('s, unit) act" where
  "recordPipelineModelTrace svc run report attempt =
     and_then (pipelineCumulativeUsage svc (ag_id run)) (\<lambda>cumulative.
     RecordPipelineTrace svc run (tr_step_id report)
       (singleToolCallID
         (if succeeded_attempt attempt then normalizedIDs (tr_tool_call_ids report) else []))
       (model_trace run report attempt cumulative))"

definition record_attempt ::
  "'s agent_service \<Rightarrow> AgentRun \<Rightarrow> TelemetryRecord \<Rightarrow> nat \<Rightarrow> ModelAttempt \<Rightarrow> ('s, unit) act" where
  "record_attempt svc run report index attempt =
     and_then (appendEvent svc run ((new_event EventResearchLLMCall)\<lparr>
         ev_step_id := tr_step_id report,
         ev_tool_call_id := (case attempt_tool_calls report attempt of [i] \<Rightarrow> i | _ \<Rightarrow> []),
         ev_payload := Some (object_members
           (anyval (enc_ResearchLLMCallPayload (attempt_payload report index attempt))))\<rparr>)) (\<lambda>_.
     wrap_error RecordModelTraceFailed (recordPipelineModelTrace svc run report attempt))"

fun record_attempts ::
  "'s agent_service \<Rightarrow> AgentRun \<Rightarrow> TelemetryRecord \<Rightarrow> nat \<Rightarrow> ModelAttempt list \<Rightarrow> ('s, unit) act" where
  "record_attempts svc run report index [] = done_with ()"
| "record_attempts svc run report index (attempt # attempts) =
     and_then (record_attempt svc run report index attempt) (\<lambda>_.
     record_attempts svc run report (Suc index) attempts)"

definition RecordModelTelemetry ::
  "'s agent_service \<Rightarrow> AgentRun \<Rightarrow> TelemetryRecord \<Rightarrow> ('s, unit) act" where
  "RecordModelTelemetry svc run report =
     record_attempts svc run report 0 (tm_attempts (tr_telemetry report))"

end
