(* ===== verification/ToolTrace.thy ===== *)
theory ToolTrace
  imports ModelTelemetry HarnessPolicy PlanRepository
begin

section \<open>Traces of tool calls (internal/harness/pipeline_trace.go)\<close>

text \<open>
  The harness writes every state of a tool call to the log: the hash of the state of run and
  plan it happened in, the signature of the call, which attempt it is and what of the plan it
  works on. The attempt is counted from the earlier traces of the log.
\<close>

subsection \<open>Reading traces\<close>

definition stringFromAny :: "json \<Rightarrow> string" where
  "stringFromAny value = any_string value"

definition intFromAny :: "json \<Rightarrow> int" where
  "intFromAny value = int64Value value"

definition int64FromAny :: "json \<Rightarrow> int" where
  "int64FromAny value = int64Value value"

definition array_items :: "json \<Rightarrow> json list" where
  "array_items j = (case j of JArr js \<Rightarrow> js | _ \<Rightarrow> [])"

definition stringsFromAny :: "json \<Rightarrow> string list" where
  "stringsFromAny value = filter (\<lambda>s. s \<noteq> []) (map stringFromAny (array_items value))"

definition firstNonNil :: "json list \<Rightarrow> json" where
  "firstNonNil values_list = (case find (\<lambda>v. v \<noteq> JNull) values_list of None \<Rightarrow> JNull | Some v \<Rightarrow> v)"

subsection \<open>The state of run and plan\<close>

fun plan_status_text :: "Status \<Rightarrow> string" where
  "plan_status_text StatusGrounding = ''grounding''"
| "plan_status_text StatusReadyForGeneration = ''ready_for_generation''"
| "plan_status_text StatusAwaitingApproval = ''awaiting_approval''"
| "plan_status_text StatusApproved = ''approved''"
| "plan_status_text StatusExecuting = ''executing''"
| "plan_status_text StatusCompleted = ''completed''"
| "plan_status_text StatusFailed = ''failed''"
| "plan_status_text StatusBlocked = ''blocked''"
| "plan_status_text StatusSuperseded = ''superseded''"

definition pipelineStateEpoch :: "AgentRun \<Rightarrow> Plan option \<Rightarrow> string" where
  "pipelineStateEpoch run plan = sha256_hex (render (JObj (
     [(''run_status'', JStr (run_status_text (ag_status run)))] @
     omit_nil ''pending_tool_call_id'' JStr (ag_pending_tool_call_id run) @
     omit_nil ''latest_generation_id'' JInt (ag_latest_generation_id run) @
     omit_nil ''approved_generation_id'' JInt (ag_approved_generation_id run) @
     (case plan of None \<Rightarrow> [] | Some p \<Rightarrow>
        omit_empty_string ''plan_id'' (pl_id p) @
        omit_zero_int ''plan_version'' (pl_version p) @
        omit_empty_string ''plan_sha256'' (pl_plan_sha256 p) @
        [(''plan_status'', JStr (plan_status_text (pl_status p)))]))))"

definition pipelinePlanRef :: "Plan option \<Rightarrow> PipelinePlanRef option" where
  "pipelinePlanRef plan = map_option (\<lambda>p. \<lparr>ppr_plan_id = pl_id p, ppr_version = pl_version p,
     ppr_sha256 = pl_plan_sha256 p, ppr_status = plan_status_text (pl_status p)\<rparr>) plan"

text \<open>The plan service is optional; that there is no plan is not an error.\<close>

definition plan_of_run :: "'p plan_repo option \<Rightarrow> 'p \<Rightarrow> string \<Rightarrow> plan_error + Plan option" where
  "plan_of_run plans p run_id =
     (case plans of
        None \<Rightarrow> Inr None
      | Some repo \<Rightarrow>
        (case repo_current repo p run_id of
           Inr plan \<Rightarrow> Inr (Some plan)
         | Inl e \<Rightarrow> if e = PlanNotFound then Inr None else Inl e))"

definition pipeline_state :: "AgentRun \<Rightarrow> Plan option \<Rightarrow> PipelineState" where
  "pipeline_state run plan =
     (case plan of None \<Rightarrow> zero_PipelineState
      | Some p \<Rightarrow> \<lparr>pst_epoch = [], pst_plan_id = pl_id p, pst_version = pl_version p,
          pst_plan_sha256 = pl_plan_sha256 p, pst_status = plan_status_text (pl_status p)\<rparr>)
     \<lparr>pst_epoch := pipelineStateEpoch run plan\<rparr>"

definition currentPipelineState ::
  "'p plan_repo option \<Rightarrow> 'p \<Rightarrow> AgentRun \<Rightarrow> plan_error + PipelineState \<times> Plan option" where
  "currentPipelineState plans p run =
     (case plan_of_run plans p (ag_id run) of
        Inl e \<Rightarrow> Inl e | Inr plan \<Rightarrow> Inr (pipeline_state run plan, plan))"

subsection \<open>The signature and the steps of a call\<close>

definition normalizedToolCallSignature :: "ModelTool \<Rightarrow> string" where
  "normalizedToolCallSignature call =
     (let arguments = (case unmarshal dec_any JNull (parse_json (mt_arguments call)) of
            None \<Rightarrow> JStr (TrimSpace (mt_arguments call))
          | Some value \<Rightarrow> if IsExplorationTool (mt_name call)
              then normalizeJSONForSignature value else value)
      in sha256_hex (render (JObj [(''tool'', JStr (mt_name call)), (''arguments'', arguments)])))"

text \<open>A document read into an \<open>any\<close> has its members sorted by name.\<close>

fun collectPlanStepIDs :: "json \<Rightarrow> string list" where
  "collectPlanStepIDs (JObj ms) = concat (map (\<lambda>p.
     if fst p = ''plan_step_id'' then (case snd p of JStr s \<Rightarrow> [s] | _ \<Rightarrow> [])
     else if fst p = ''plan_step_ids'' then
       concat (map (\<lambda>j. case j of JStr s \<Rightarrow> [s] | _ \<Rightarrow> []) (array_items (snd p)))
     else collectPlanStepIDs (snd p)) ms)"
| "collectPlanStepIDs (JArr js) = concat (map collectPlanStepIDs js)"
| "collectPlanStepIDs _ = []"

definition toolPlanStepIDs :: "string \<Rightarrow> string list" where
  "toolPlanStepIDs arguments =
     (case unmarshal dec_any JNull (parse_json arguments) of
        None \<Rightarrow> [] | Some value \<Rightarrow> distinct_ids [] (collectPlanStepIDs value))"

subsection \<open>The identity of a call\<close>

record toolTraceIdentity =
  ti_state_epoch :: string
  ti_plan :: "PipelinePlanRef option"
  ti_signature :: string
  ti_attempt :: int
  ti_retry_of_tool_call_id :: string
  ti_plan_step_ids :: "string list"
  ti_lineage :: "PipelineLineageRef list"

text \<open>
  The loop over the events of the log keeps the ids of the calls it has counted, the last one
  first. The same call leaves several traces and is counted once.
\<close>

definition same_call_trace :: "string \<Rightarrow> string \<Rightarrow> string \<Rightarrow> Event \<Rightarrow> bool" where
  "same_call_trace epoch signature name event \<longleftrightarrow>
     ev_type event = EventPipelineTrace \<and> ev_tool_call_id event \<noteq> [] \<and>
     payload_get event ''kind'' = JStr PipelineTraceToolCall \<and>
     payload_get event ''state_epoch'' = JStr epoch \<and>
     is_map (payload_get event ''tool_call'') \<and>
     any_get (object_members (payload_get event ''tool_call'')) ''signature'' = JStr signature \<and>
     any_get (object_members (payload_get event ''tool_call'')) ''name'' = JStr name"

fun count_attempts :: "(Event \<Rightarrow> bool) \<Rightarrow> string list \<Rightarrow> Event list \<Rightarrow> string list" where
  "count_attempts p seen [] = seen"
| "count_attempts p seen (event # events) =
     (if \<not> p event then count_attempts p seen events
      else if ev_tool_call_id event \<in> set seen then count_attempts p seen events
      else count_attempts p (ev_tool_call_id event # seen) events)"

definition tool_trace_identity :: "AgentRun \<Rightarrow> ModelTool \<Rightarrow> Plan option \<Rightarrow> Event list \<Rightarrow> toolTraceIdentity" where
  "tool_trace_identity run call plan events =
     (let epoch = pipelineStateEpoch run plan;
          signature = normalizedToolCallSignature call;
          seen = count_attempts (same_call_trace epoch signature (mt_name call)) [] events in
      \<lparr>ti_state_epoch = epoch, ti_plan = pipelinePlanRef plan, ti_signature = signature,
       ti_attempt = 1 + int (length seen),
       ti_retry_of_tool_call_id = (case seen of [] \<Rightarrow> [] | i # _ \<Rightarrow> i),
       ti_plan_step_ids = toolPlanStepIDs (mt_arguments call), ti_lineage = []\<rparr>)"

definition newToolTraceIdentity ::
  "'s agent_service \<Rightarrow> AgentRun \<Rightarrow> ModelTool \<Rightarrow> Plan option \<Rightarrow> ('s, toolTraceIdentity) act" where
  "newToolTraceIdentity svc run call plan =
     and_then (ListEvents svc (ag_id run) 0) (\<lambda>events.
     done_with (tool_trace_identity run call plan events))"

text \<open>The call a run waits for, searched from the end of the transcript, and its pending trace.\<close>

definition find_call :: "Message list \<Rightarrow> string \<Rightarrow> ModelTool option" where
  "find_call transcript tool_call_id =
     (if tool_call_id = [] then None
      else find (\<lambda>c. mt_id c = tool_call_id) (concat (map ms_tool_calls (rev transcript))))"

definition pending_detail :: "string \<Rightarrow> Event \<Rightarrow> bool" where
  "pending_detail tool_call_id event \<longleftrightarrow>
     ev_type event = EventPipelineTrace \<and> ev_tool_call_id event = tool_call_id \<and>
     payload_get event ''kind'' = JStr PipelineTraceToolCall \<and>
     is_map (payload_get event ''tool_call'') \<and>
     any_get (object_members (payload_get event ''tool_call'')) ''status'' = JStr ''pending''"

definition identity_of_event :: "Event \<Rightarrow> toolTraceIdentity" where
  "identity_of_event event =
     (let detail = object_members (payload_get event ''tool_call'');
          raw_plan = payload_get event ''plan''; plan = object_members raw_plan in
      \<lparr>ti_state_epoch = stringFromAny (payload_get event ''state_epoch''),
       ti_plan = (if is_map raw_plan then Some \<lparr>
          ppr_plan_id = stringFromAny (any_get plan ''plan_id''),
          ppr_version = intFromAny (any_get plan ''version''),
          ppr_sha256 = stringFromAny (any_get plan ''sha256''),
          ppr_status = stringFromAny (any_get plan ''status'')\<rparr> else None),
       ti_signature = stringFromAny (any_get detail ''signature''),
       ti_attempt = intFromAny (any_get detail ''attempt''),
       ti_retry_of_tool_call_id = stringFromAny (any_get detail ''retry_of_tool_call_id''),
       ti_plan_step_ids = stringsFromAny (any_get detail ''plan_step_ids''), ti_lineage = []\<rparr>)"

definition pendingToolTraceIdentity ::
  "'s agent_service \<Rightarrow> AgentRun \<Rightarrow> string \<Rightarrow> ('s, (ModelTool \<times> toolTraceIdentity) option) act" where
  "pendingToolTraceIdentity svc run tool_call_id =
     (case find_call (ag_transcript run) tool_call_id of
        None \<Rightarrow> done_with None
      | Some call \<Rightarrow>
        and_then (ListEvents svc (ag_id run) 0) (\<lambda>events.
        done_with (map_option (\<lambda>event. (call, identity_of_event event))
          (find (pending_detail tool_call_id) (rev events)))))"

definition tool_trace_payload :: "ModelTool \<Rightarrow> toolTraceIdentity \<Rightarrow> string \<Rightarrow> string \<Rightarrow> PipelineTracePayload" where
  "tool_trace_payload call identity status reason =
     zero_PipelineTracePayload\<lparr>ptp_kind := PipelineTraceToolCall,
       ptp_state_epoch := ti_state_epoch identity, ptp_plan := ti_plan identity,
       ptp_tool_call := Some \<lparr>ptc_name = mt_name call, ptc_signature = ti_signature identity,
         ptc_status = status, ptc_attempt = ti_attempt identity,
         ptc_retry_of_tool_call_id = ti_retry_of_tool_call_id identity,
         ptc_reason_code = reason, ptc_plan_step_ids = Some (ti_plan_step_ids identity),
         ptc_lineage = ti_lineage identity\<rparr>\<rparr>"

definition recordPipelineToolTrace ::
  "'s agent_service \<Rightarrow> AgentRun \<Rightarrow> string \<Rightarrow> ModelTool \<Rightarrow> toolTraceIdentity \<Rightarrow> string \<Rightarrow> string \<Rightarrow> ('s, unit) act" where
  "recordPipelineToolTrace svc run step_id call identity status reason =
     RecordPipelineTrace svc run step_id (mt_id call) (tool_trace_payload call identity status reason)"

definition pipelineReasonCode :: "policy_error \<Rightarrow> string \<Rightarrow> string" where
  "pipelineReasonCode err fallback =
     (case err of GateRefused e \<Rightarrow> if ge_Code e \<noteq> [] then ge_Code e else fallback
      | NoApprovedGeneration \<Rightarrow> fallback)"

subsection \<open>What a result says of the plan\<close>

definition pipelineLineageStage :: "string \<Rightarrow> string" where
  "pipelineLineageStage tool =
     (if tool \<in> {''explore_page'', ''explore_flow''} then ''grounding''
      else if tool = ''generate_dsl'' then ''generation''
      else if tool = ''execute_dsl'' then ''execution''
      else if tool = ''get_report'' then ''report''
      else if tool = ''fix_and_retry'' then ''repair'' else [])"

record runtimeLineage =
  rn_execution_id :: int
  rn_case_id :: int
  rn_report_status :: string
  rn_candidate_id :: string
  rn_element_ref :: string

definition step_lineage ::
  "(string \<times> json) list \<Rightarrow> (string \<times> json) list \<Rightarrow> (string \<times> json) list \<Rightarrow> runtimeLineage" where
  "step_lineage job execution step =
     \<lparr>rn_execution_id = int64FromAny (any_get execution ''id''),
      rn_case_id = int64FromAny (any_get job ''case_id''),
      rn_report_status = stringFromAny
        (firstNonNil [any_get step ''status'', any_get execution ''status'']),
      rn_candidate_id = stringFromAny (any_get step ''candidate_id''),
      rn_element_ref = stringFromAny (any_get step ''element_ref'')\<rparr>"

definition job_lineage :: "json \<Rightarrow> (string \<times> runtimeLineage) list" where
  "job_lineage raw_job =
     (let job = object_members raw_job;
          execution = object_members (any_get job ''latest_execution'');
          report = object_members (any_get execution ''report'') in
      concat (map (\<lambda>raw_step.
        let step = object_members raw_step; i = stringFromAny (any_get step ''plan_step_id'') in
        if i = [] then [] else [(i, step_lineage job execution step)])
        (array_items (any_get report ''steps''))))"

lemma size_any_get: "is_map (any_get m k) \<Longrightarrow> size (any_get m k) < size (JObj m)"
proof -
  assume "is_map (any_get m k)"
  then obtain v where v: "map_of m k = Some v" "any_get m k = v"
    by (auto simp: any_get_def is_map_def split: option.splits)
  then have "(k, v) \<in> set m" by (simp add: map_of_SomeD)
  then have "Suc (size v) \<le> size_list (\<lambda>p. Suc (size (snd p))) m"
    using size_list_estimation' [of "(k, v)" m "Suc (size v)" "\<lambda>p. Suc (size (snd p))"] by simp
  with v show ?thesis by simp
qed

text \<open>The report inside a report first; what the jobs say replaces it.\<close>

function reportLineageByPlanStep :: "(string \<times> json) list \<Rightarrow> (string \<times> runtimeLineage) list" where
  "reportLineageByPlanStep value =
     (let nested = (if is_map (any_get value ''report'')
            then reportLineageByPlanStep (object_members (any_get value ''report'')) else [])
      in fold (\<lambda>p m. assoc_put (fst p) (snd p) m)
        (concat (map job_lineage (array_items (any_get value ''jobs'')))) nested)"
  by pat_completeness auto
termination
proof (relation "measure (\<lambda>m. size (JObj m))")
  fix v :: "(string \<times> json) list"
  assume m: "is_map (any_get v ''report'')"
  then obtain ms where ms: "any_get v ''report'' = JObj ms"
    by (auto simp: is_map_def split: json.splits)
  with size_any_get [OF m]
  show "(object_members (any_get v ''report''), v) \<in> measure (\<lambda>m. size (JObj m))"
    by (simp add: object_members_def)
qed simp

declare reportLineageByPlanStep.simps [simp del]

definition lineage_of_step ::
  "Plan \<Rightarrow> string \<Rightarrow> int \<Rightarrow> int \<Rightarrow> (string \<times> runtimeLineage) list \<Rightarrow> Step \<Rightarrow> PipelineLineageRef" where
  "lineage_of_step plan stage batch_id case_id reports step =
     (let item = zero_PipelineLineageRef\<lparr>plr_stage := stage, plr_plan_id := pl_id plan,
            plr_plan_version := pl_version plan, plr_plan_step_id := st_id step,
            plr_batch_id := batch_id, plr_case_id := case_id\<rparr>;
          item = (case pl_bound_generation_id plan of None \<Rightarrow> item
            | Some g \<Rightarrow> item\<lparr>plr_generation_id := g\<rparr>);
          item = (case st_target_binding step of None \<Rightarrow> item
            | Some b \<Rightarrow> item\<lparr>plr_probe_id := tb_probe_id b, plr_observation_id := tb_observation_id b,
                plr_observation_sha256 := tb_observation_sha256 b,
                plr_page_state_id := tb_page_state_id b, plr_element_refs := tb_element_refs b,
                plr_target_binding_id := tb_binding_id b,
                plr_planned_candidate_id := tb_selected_candidate_id b\<rparr>)
      in case map_of reports (st_id step) of None \<Rightarrow> item
        | Some r \<Rightarrow> item\<lparr>plr_execution_id := rn_execution_id r,
            plr_case_id := (if 0 < rn_case_id r then rn_case_id r else plr_case_id item),
            plr_report_status := rn_report_status r,
            plr_resolved_candidate_id := rn_candidate_id r,
            plr_resolved_element_ref := rn_element_ref r\<rparr>)"

definition lineage_of_plan :: "Plan \<Rightarrow> string \<Rightarrow> raw_message \<Rightarrow> string list \<Rightarrow> PipelineLineageRef list" where
  "lineage_of_plan plan tool result selected =
     (let stage = pipelineLineageStage tool;
          value = (case result of Some j \<Rightarrow> object_members (anyval j) | None \<Rightarrow> []);
          batch = int64FromAny (any_get value ''batch_id'');
          batch_id = (if batch = 0 \<and> tool \<in> {''get_report'', ''fix_and_retry''}
            then int64FromAny (firstNonNil [any_get value ''id'', any_get value ''source_batch_id''])
            else batch);
          case_id = int64FromAny (any_get value ''case_id'');
          reports = reportLineageByPlanStep value in
      map (lineage_of_step plan stage batch_id case_id reports)
        (filter (\<lambda>step. \<not> (selected \<noteq> [] \<and> st_id step \<notin> set selected \<and> stage = ''grounding''))
          (pl_steps plan)))"

definition pipelineLineage ::
  "'p plan_repo option \<Rightarrow> 'p \<Rightarrow> AgentRun \<Rightarrow> string \<Rightarrow> raw_message \<Rightarrow> string list
   \<Rightarrow> plan_error + PipelineLineageRef list" where
  "pipelineLineage plans p run tool result selected =
     (case plan_of_run plans p (ag_id run) of
        Inl e \<Rightarrow> Inl e
      | Inr None \<Rightarrow> Inr []
      | Inr (Some plan) \<Rightarrow>
        if pipelineLineageStage tool = [] then Inr []
        else Inr (lineage_of_plan plan tool result selected))"

end
