(* ===== verification/HarnessWorld.thy ===== *)
theory HarnessWorld
  imports ToolTrace AgentLoop PlanService SummaryBound TranscriptBudget
begin

section \<open>The harness: its parts and its state (internal/harness/harness.go)\<close>

text \<open>
  The harness runs an agent: it lets the loop call the model, has every tool call authorised,
  executes it, records the outcome in the log, the plan and the transcript, and stops the run
  when it costs too much. The state of its world is that of the agent service, of the
  repository of plans, the table of active runs, and whatever else the tools and the model act
  on. The tools and the client of the model are functions on this world; what other goroutines
  do meanwhile, a cancellation for example, happens during their calls. The wording of error
  messages is a parameter.
\<close>

subsection \<open>Tools (internal/tools/tool.go)\<close>

record tool_call =
  tc_run_id :: string
  tc_run_input :: string
  tc_actor_user_id :: int
  tc_conversation_id :: string
  tc_project_id :: int
  tc_latest_generation_id :: "int option"
  tc_approved_generation_id :: "int option"
  tc_tool_call_id :: string
  tc_name :: string
  tc_arguments :: string

record Artifact =
  af_type :: string
  af_id :: string

text \<open>\<open>Pending\<close>: the payload of its pending call. The content is the text of a raw message.\<close>

record ToolResult =
  to_content :: string
  to_artifact :: "Artifact option"
  to_pending :: "raw_message option"

record tool_error =
  xe_text :: string
  xe_canceled :: bool

subsection \<open>Cost limits\<close>

record RunCostLimits =
  rcl_MaxModelCalls :: int
  rcl_MaxTotalTokens :: int
  rcl_MaxTranscriptBytes :: int

definition RunCostLimits_withDefaults :: "RunCostLimits \<Rightarrow> RunCostLimits" where
  "RunCostLimits_withDefaults l =
     \<lparr>rcl_MaxModelCalls = (if rcl_MaxModelCalls l \<le> 0 then 40 else rcl_MaxModelCalls l),
      rcl_MaxTotalTokens = (if rcl_MaxTotalTokens l \<le> 0 then 3000000 else rcl_MaxTotalTokens l),
      rcl_MaxTranscriptBytes =
        (if rcl_MaxTranscriptBytes l \<le> 0 then 2000000 else rcl_MaxTranscriptBytes l)\<rparr>"

definition cost_limits_Enabled :: "RunCostLimits \<Rightarrow> bool" where
  "cost_limits_Enabled l \<longleftrightarrow>
     0 < rcl_MaxModelCalls l \<or> 0 < rcl_MaxTotalTokens l \<or> 0 < rcl_MaxTranscriptBytes l"

definition defaultRunCostLimits :: RunCostLimits where
  "defaultRunCostLimits = \<lparr>rcl_MaxModelCalls = 40, rcl_MaxTotalTokens = 3000000,
     rcl_MaxTranscriptBytes = 1000000\<rparr>"

text \<open>The context of the goroutine of an active run is a number.\<close>

record activeRun =
  ac_context :: nat
  ac_turnBudget :: int
  ac_generationSegmentPlanSHA256 :: string
  ac_modelCalls :: int
  ac_totalTokens :: int
  ac_transcriptBytes :: int

definition new_activeRun :: "nat \<Rightarrow> activeRun" where
  "new_activeRun ctx = \<lparr>ac_context = ctx, ac_turnBudget = 0, ac_generationSegmentPlanSHA256 = [],
     ac_modelCalls = 0, ac_totalTokens = 0, ac_transcriptBytes = 0\<rparr>"

definition updateCost :: "int \<Rightarrow> int \<Rightarrow> int \<Rightarrow> activeRun \<Rightarrow> activeRun" where
  "updateCost calls totalTokens transcriptBytes a =
     a\<lparr>ac_modelCalls := ac_modelCalls a + calls,
       ac_totalTokens := wrap64 (ac_totalTokens a + totalTokens),
       ac_transcriptBytes := transcriptBytes\<rparr>"

definition exceed :: "RunCostLimits \<Rightarrow> activeRun \<Rightarrow> string" where
  "exceed limits a =
     (if 0 < rcl_MaxModelCalls limits \<and> rcl_MaxModelCalls limits < ac_modelCalls a
      then ''model_calls''
      else if 0 < rcl_MaxTotalTokens limits \<and> rcl_MaxTotalTokens limits < ac_totalTokens a
      then ''total_tokens''
      else if 0 < rcl_MaxTranscriptBytes limits \<and> rcl_MaxTranscriptBytes limits < ac_transcriptBytes a
      then ''transcript_bytes''
      else [])"

record RunCostLimitError =
  rce_Limit :: string
  rce_Current :: string
  rce_Max :: string
  rce_LimitType :: string

definition run_cost_error_text :: "RunCostLimitError \<Rightarrow> string" where
  "run_cost_error_text e = ''agent run cost limit exceeded ('' @ rce_LimitType e @ '': '' @
     rce_Current e @ '' > '' @ rce_Max e @ '')''"

definition costLimitError :: "RunCostLimits \<Rightarrow> string \<Rightarrow> int \<Rightarrow> int \<Rightarrow> int \<Rightarrow> RunCostLimitError option" where
  "costLimitError limits limit calls sum_tokens transcriptBytes =
     (if limit = [] then None
      else
        let (current, maximum) =
          (if limit = ''model_calls'' then (itoa calls, itoa (rcl_MaxModelCalls limits))
           else if limit = ''total_tokens'' then (itoa sum_tokens, itoa (rcl_MaxTotalTokens limits))
           else if limit = ''transcript_bytes''
           then (itoa transcriptBytes, itoa (rcl_MaxTranscriptBytes limits))
           else ([], [])) in
        Some \<lparr>rce_Limit = limit, rce_Current = current, rce_Max = maximum, rce_LimitType = limit\<rparr>)"

definition enc_ModelTool :: "ModelTool \<Rightarrow> json" where
  "enc_ModelTool x = JObj [(''id'', JStr (mt_id x)), (''name'', JStr (mt_name x)),
     (''arguments'', JStr (mt_arguments x))]"

definition enc_Message :: "Message \<Rightarrow> json" where
  "enc_Message x = JObj ([(''role'', JStr (ms_role x))] @
     omit_empty_string ''content'' (ms_content x) @
     omit_empty_string ''reasoning_content'' (ms_reasoning_content x) @
     omit_empty_string ''tool_call_id'' (ms_tool_call_id x) @
     omit_empty_list ''tool_calls'' enc_ModelTool (ms_tool_calls x) @
     omit_false ''segment_boundary'' (ms_segment_boundary x))"

definition serializedTranscriptBytes :: "Message list \<Rightarrow> int" where
  "serializedTranscriptBytes messages = int (length (render (JArr (map enc_Message messages))))"

subsection \<open>The world\<close>

record ('s, 'p, 't) harness_world =
  hw_sys :: "'s agent_sys"
  hw_plans :: 'p
  hw_ticks :: nat
  hw_active :: "string \<Rightarrow> activeRun option"
  hw_contexts :: nat
  hw_cancelled :: "nat set"
  hw_rest :: 't

datatype harness_error =
    RunError agent_error
  | PlanError plan_error
  | NoTaskPlan plan_error
  | PlanNotCompleted Status
  | CostLimitExceeded RunCostLimitError
  | ModelFailure string bool                \<comment> \<open>its text; \<open>errors.Is(err, context.Canceled)\<close>\<close>
  | ToolCanceled tool_error
  | PendingPayloadInvalid
  | GenerationIdInvalid string
  | AdvancePlanFailed string plan_error
  | RecordPlanFailure string plan_error
  | ResultPayloadInvalid
  | SummaryFailed build_error
  | SaveFailureResult agent_error
  | ApproveWithoutGeneration

fun cancels :: "harness_error \<Rightarrow> bool" where
  "cancels (RunError e) = errors_Is e ErrRunCancelled"
| "cancels (SaveFailureResult e) = errors_Is e ErrRunCancelled"
| "cancels (ModelFailure _ canceled) = canceled"
| "cancels (ToolCanceled e) = xe_canceled e"
| "cancels _ = False"

text \<open>
  What \<open>WithTelemetryRecorder\<close> and \<open>WithCacheIdentity\<close> put into the context of a model call,
  and the sink: how the client of the model hands over its telemetry.
\<close>

record call_context =
  cc_logical_call_id :: string
  cc_step_id :: string
  cc_state :: PipelineState
  cc_cache_identity :: string

record ('s, 'p, 't) turn_state =
  tn_world :: "('s, 'p, 't) harness_world"
  tn_run :: AgentRun
  tn_call :: call_context

type_synonym ('w, 'a) hact = "'w \<Rightarrow> (harness_error + 'a) \<times> 'w"

type_synonym ('s, 'p, 't) telemetry_sink =
  "Telemetry \<Rightarrow> string list \<Rightarrow> (('s, 'p, 't) turn_state, unit) hact"

record ('s, 'p, 't) harness =
  hs_runs :: "'s agent_service"
  hs_loop :: agent_loop
  hs_plans :: "'p plan_repo option"
  hs_now :: "nat \<Rightarrow> go_time"
  hs_exploration :: ExplorationGateConfig
  hs_costLimits :: RunCostLimits
  hs_perTurnTranscriptCompaction :: bool
  hs_unicode :: unicode_table
  hs_model :: "('s, 'p, 't) telemetry_sink \<Rightarrow> Message list \<Rightarrow> (('s, 'p, 't) turn_state, ModelResponse) hact"
  hs_tools :: "tool_call \<Rightarrow> ('s, 'p, 't) harness_world \<Rightarrow> (tool_error + ToolResult) \<times> ('s, 'p, 't) harness_world"
  hs_text :: "harness_error \<Rightarrow> string"

subsection \<open>Actions of the harness\<close>

definition h_done :: "'a \<Rightarrow> ('w, 'a) hact" where
  "h_done x w = (Inr x, w)"

definition h_stop :: "harness_error \<Rightarrow> ('w, 'a) hact" where
  "h_stop e w = (Inl e, w)"

definition h_then :: "('w, 'a) hact \<Rightarrow> ('a \<Rightarrow> ('w, 'b) hact) \<Rightarrow> ('w, 'b) hact" where
  "h_then m f w = (case m w of (Inl e, w') \<Rightarrow> (Inl e, w') | (Inr x, w') \<Rightarrow> f x w')"

definition h_if :: "bool \<Rightarrow> ('w, unit) hact \<Rightarrow> ('w, unit) hact" where
  "h_if b m = (if b then m else h_done ())"

text \<open>A value, or the error it stands for.\<close>

definition h_lift :: "harness_error + 'a \<Rightarrow> ('w, 'a) hact" where
  "h_lift r w = (r, w)"

definition h_check :: "harness_error option \<Rightarrow> ('w, unit) hact" where
  "h_check e w = (case e of None \<Rightarrow> (Inr (), w) | Some e \<Rightarrow> (Inl e, w))"

text \<open>A call of the agent service, of the plan service, of the table of active runs.\<close>

definition h_runs :: "('s, 'a) act \<Rightarrow> (('s, 'p, 't) harness_world, 'a) hact" where
  "h_runs m w = (case m (hw_sys w) of
     (Inl e, s) \<Rightarrow> (Inl (RunError e), w\<lparr>hw_sys := s\<rparr>) | (Inr x, s) \<Rightarrow> (Inr x, w\<lparr>hw_sys := s\<rparr>))"

definition h_clock :: "('s, 'p, 't) harness \<Rightarrow> (('s, 'p, 't) harness_world, go_time) hact" where
  "h_clock h w = (Inr (hs_now h (hw_ticks w)), w\<lparr>hw_ticks := Suc (hw_ticks w)\<rparr>)"

definition h_plans ::
  "(plan_error \<Rightarrow> harness_error) \<Rightarrow> ('p \<Rightarrow> plan_error option \<times> 'p) \<Rightarrow> (('s, 'p, 't) harness_world, unit) hact" where
  "h_plans wrap m w = (case m (hw_plans w) of
     (Some e, p) \<Rightarrow> (Inl (wrap e), w\<lparr>hw_plans := p\<rparr>) | (None, p) \<Rightarrow> (Inr (), w\<lparr>hw_plans := p\<rparr>))"

definition sum_lift :: "('e \<Rightarrow> harness_error) \<Rightarrow> 'e + 'a \<Rightarrow> harness_error + 'a" where
  "sum_lift wrap r = (case r of Inl e \<Rightarrow> Inl (wrap e) | Inr x \<Rightarrow> Inr x)"

definition h_active :: "string \<Rightarrow> (activeRun \<Rightarrow> activeRun) \<Rightarrow> ('s, 'p, 't) harness_world \<Rightarrow> ('s, 'p, 't) harness_world" where
  "h_active run_id f w = w\<lparr>hw_active := (hw_active w)(run_id := map_option f (hw_active w run_id))\<rparr>"

text \<open>\<open>defer\<close>red and ignored errors: \<open>_ = f()\<close>.\<close>

definition h_ignore :: "('w, 'a) hact \<Rightarrow> 'w \<Rightarrow> 'w" where
  "h_ignore m w = snd (m w)"

definition on_world :: "(('s, 'p, 't) harness_world, 'a) hact \<Rightarrow> (('s, 'p, 't) turn_state, 'a) hact" where
  "on_world m s = (case m (tn_world s) of (x, w) \<Rightarrow> (x, s\<lparr>tn_world := w\<rparr>))"

definition with_run :: "(AgentRun \<Rightarrow> (('s, 'p, 't) turn_state, 'a) hact) \<Rightarrow> (('s, 'p, 't) turn_state, 'a) hact" where
  "with_run f s = f (tn_run s) s"

definition change_run :: "(AgentRun \<Rightarrow> AgentRun) \<Rightarrow> (('s, 'p, 't) turn_state, unit) hact" where
  "change_run f s = (Inr (), s\<lparr>tn_run := f (tn_run s)\<rparr>)"

lemmas hact_defs = h_done_def h_stop_def h_then_def h_if_def h_lift_def h_check_def h_runs_def
  h_clock_def h_plans_def h_active_def h_ignore_def on_world_def with_run_def change_run_def

subsection \<open>Turn budgets and cost fuses\<close>

definition turnBudgetReserve :: int where
  "turnBudgetReserve = 8"

definition turnBudgetFor :: "string \<Rightarrow> ('s, 'p, 't) harness_world \<Rightarrow> int" where
  "turnBudgetFor run_id w = (case hw_active w run_id of None \<Rightarrow> 0 | Some a \<Rightarrow> ac_turnBudget a)"

definition raiseTurnBudget ::
  "string \<Rightarrow> int \<Rightarrow> ('s, 'p, 't) harness_world \<Rightarrow> ('s, 'p, 't) harness_world" where
  "raiseTurnBudget run_id needed w =
     h_active run_id (\<lambda>a. if ac_turnBudget a < needed then a\<lparr>ac_turnBudget := needed\<rparr> else a) w"

text \<open>True once per revision of the plan.\<close>

definition markGenerationSegment ::
  "string \<Rightarrow> string \<Rightarrow> ('s, 'p, 't) harness_world \<Rightarrow> bool \<times> ('s, 'p, 't) harness_world" where
  "markGenerationSegment run_id planSHA256 w =
     (case hw_active w run_id of
        None \<Rightarrow> (False, w)
      | Some a \<Rightarrow> if ac_generationSegmentPlanSHA256 a = planSHA256 then (False, w)
          else (True, h_active run_id (\<lambda>a. a\<lparr>ac_generationSegmentPlanSHA256 := planSHA256\<rparr>) w))"

definition recordRunCost ::
  "('s, 'p, 't) harness \<Rightarrow> AgentRun \<Rightarrow> Telemetry \<Rightarrow> (('s, 'p, 't) harness_world, unit) hact" where
  "recordRunCost h run telemetry w =
     (if \<not> cost_limits_Enabled (hs_costLimits h) then (Inr (), w)
      else
        let totalTokens = (case mu_total_tokens (tm_usage telemetry) of None \<Rightarrow> 0 | Some n \<Rightarrow> n);
            w' = h_active (ag_id run) (\<lambda>a. updateCost 1 totalTokens (ac_transcriptBytes a) a) w in
        case hw_active w' (ag_id run) of
          None \<Rightarrow> (Inr (), w')
        | Some a \<Rightarrow> h_check (map_option CostLimitExceeded (costLimitError (hs_costLimits h)
            (exceed (hs_costLimits h) a) (ac_modelCalls a) (ac_totalTokens a) (ac_transcriptBytes a))) w')"

definition recordTranscriptCost ::
  "('s, 'p, 't) harness \<Rightarrow> AgentRun \<Rightarrow> (('s, 'p, 't) harness_world, unit) hact" where
  "recordTranscriptCost h run w =
     (if rcl_MaxTranscriptBytes (hs_costLimits h) \<le> 0 then (Inr (), w)
      else
        let bytes = serializedTranscriptBytes (ag_transcript run);
            w' = h_active (ag_id run) (\<lambda>a. a\<lparr>ac_transcriptBytes := bytes\<rparr>) w in
        case hw_active w' (ag_id run) of
          None \<Rightarrow> (Inr (), w')
        | Some a \<Rightarrow> h_check (map_option CostLimitExceeded (costLimitError (hs_costLimits h)
            (exceed (hs_costLimits h) a) (ac_modelCalls a) (ac_totalTokens a) bytes)) w')"

end
