(* ===== verification/HarnessRecords.thy ===== *)
theory HarnessRecords
  imports HarnessWorld
begin

section \<open>What the harness writes (internal/harness/harness.go)\<close>

text \<open>
  The events the harness adds to the log, the message that hands the grounded plan over to the
  generation, and the summary of the plan for the model.
\<close>

subsection \<open>Events\<close>

fun record_events :: "'s agent_service \<Rightarrow> AgentRun \<Rightarrow> Event list \<Rightarrow> ('s, unit) act" where
  "record_events svc run [] = done_with ()"
| "record_events svc run (event # events) =
     and_then (RecordEvent svc run event) (\<lambda>_. record_events svc run events)"

definition recordMessage :: "'s agent_service \<Rightarrow> AgentRun \<Rightarrow> string \<Rightarrow> ('s, unit) act" where
  "recordMessage svc run content =
     and_then (new_id svc ''step'') (\<lambda>step_id.
     record_events svc run
       [(new_event EventMessageStarted)\<lparr>ev_step_id := step_id\<rparr>,
        (new_event EventMessageDelta)\<lparr>ev_step_id := step_id,
          ev_payload := Some [(''delta'', JStr content)]\<rparr>,
        (new_event EventMessageFinished)\<lparr>ev_step_id := step_id,
          ev_payload := Some [(''content'', JStr content)]\<rparr>])"

definition tool_event :: "EventType \<Rightarrow> string \<Rightarrow> ModelTool \<Rightarrow> (string \<times> json) list \<Rightarrow> Event" where
  "tool_event t step_id call payload = (new_event t)\<lparr>ev_step_id := step_id,
     ev_tool_call_id := mt_id call, ev_payload := Some payload\<rparr>"

definition recordToolStart :: "'s agent_service \<Rightarrow> AgentRun \<Rightarrow> string \<Rightarrow> ModelTool \<Rightarrow> ('s, unit) act" where
  "recordToolStart svc run step_id call = record_events svc run
     [tool_event EventToolStarted step_id call [(''tool'', JStr (mt_name call))],
      tool_event EventToolArgsDelta step_id call [(''arguments'', JStr (mt_arguments call))]]"

definition recordToolFailure ::
  "'s agent_service \<Rightarrow> AgentRun \<Rightarrow> string \<Rightarrow> ModelTool \<Rightarrow> string \<Rightarrow> ('s, unit) act" where
  "recordToolFailure svc run step_id call cause = record_events svc run
     [tool_event EventToolFailed step_id call
       [(''tool'', JStr (mt_name call)), (''message'', JStr cause)]]"

text \<open>\<open>NewToolResultEventPayload\<close>, encoded and read back as a map.\<close>

definition result_event_payload :: "string \<Rightarrow> string \<Rightarrow> (string \<times> json) list option" where
  "result_event_payload tool content =
     (case NewToolResultSource content 0 of
        None \<Rightarrow> None
      | Some (document, source) \<Rightarrow> Some (object_members (anyval (JObj
          [(''schema_version'', JStr ''agent.tool_result.v1''), (''tool'', JStr tool),
           (''content'', document), (''content_sha256'', JStr (tsrc_content_sha256 source)),
           (''content_bytes'', JInt (tsrc_content_bytes source))]))))"

definition artifact_events :: "string \<Rightarrow> ModelTool \<Rightarrow> ToolResult \<Rightarrow> Event list" where
  "artifact_events step_id call result =
     (case to_artifact result of None \<Rightarrow> []
      | Some a \<Rightarrow> [tool_event EventArtifact step_id call
          [(''type'', JStr (af_type a)), (''id'', JStr (af_id a))]])"

definition recordToolResult ::
  "'s agent_service \<Rightarrow> AgentRun \<Rightarrow> string \<Rightarrow> ModelTool \<Rightarrow> ToolResult \<Rightarrow> (('s, 'p, 't) harness_world, int) hact" where
  "recordToolResult svc run step_id call result =
     (case result_event_payload (mt_name call) (to_content result) of
        None \<Rightarrow> h_stop ResultPayloadInvalid
      | Some payload \<Rightarrow>
        h_runs (and_then (RecordEvent svc run (tool_event EventToolResult step_id call payload)) (\<lambda>persisted.
          and_then (record_events svc run
            (tool_event EventToolFinished step_id call [(''tool'', JStr (mt_name call))]
              # artifact_events step_id call result)) (\<lambda>_.
          done_with (ev_seq persisted)))))"

text \<open>The tool message of a failed call is added to the run, which is saved.\<close>

definition save_failure ::
  "'s agent_service \<Rightarrow> AgentRun \<Rightarrow> (('s, 'p, 't) harness_world, unit) hact" where
  "save_failure svc run w =
     (case SaveRun svc run (hw_sys w) of
        (Inl e, s) \<Rightarrow> (Inl (SaveFailureResult e), w\<lparr>hw_sys := s\<rparr>)
      | (Inr _, s) \<Rightarrow> (Inr (), w\<lparr>hw_sys := s\<rparr>))"

definition add_message :: "Message \<Rightarrow> AgentRun \<Rightarrow> AgentRun" where
  "add_message m run = run\<lparr>ag_transcript := ag_transcript run @ [m]\<rparr>"

definition recordRecoverableToolFailure ::
  "('s, 'p, 't) harness \<Rightarrow> string \<Rightarrow> ModelTool \<Rightarrow> string \<Rightarrow> ExplorationGateError option
   \<Rightarrow> (('s, 'p, 't) turn_state, unit) hact" where
  "recordRecoverableToolFailure h step_id call cause gate =
     h_then (with_run (\<lambda>run. on_world (h_runs (recordToolFailure (hs_runs h) run step_id call cause)))) (\<lambda>_.
     h_then (change_run (add_message (failure_message call cause gate))) (\<lambda>_.
     with_run (\<lambda>run. on_world (save_failure (hs_runs h) run))))"

subsection \<open>The state of the plan\<close>

fun step_status_text :: "StepStatus \<Rightarrow> string" where
  "step_status_text StepPending = ''pending''"
| "step_status_text StepGrounded = ''grounded''"
| "step_status_text StepFailed = ''failed''"
| "step_status_text StepBlocked = ''blocked''"

text \<open>\<open>append([]string(nil), xs...)\<close> is \<open>nil\<close> when \<open>xs\<close> is empty, and written as \<open>null\<close>.\<close>

definition enc_copied :: "string list \<Rightarrow> json" where
  "enc_copied xs = (if xs = [] then JNull else enc_strings xs)"

definition step_snapshot :: "Step \<Rightarrow> json" where
  "step_snapshot step = JObj (
     [(''id'', JStr (st_id step)), (''position'', JInt (st_position step)),
      (''status'', JStr (step_status_text (st_status step))),
      (''grounding_attempts'', JInt (st_grounding_attempts step)),
      (''evidence_count'', JInt (int (length (st_evidence step))))] @
     (case st_target_binding step of None \<Rightarrow> []
      | Some b \<Rightarrow> [(''target_binding_id'', JStr (tb_binding_id b)),
          (''probe_id'', JStr (tb_probe_id b)), (''observation_id'', JStr (tb_observation_id b)),
          (''observation_sha256'', JStr (tb_observation_sha256 b)),
          (''page_state_id'', JStr (tb_page_state_id b)),
          (''selected_candidate_id'', JStr (tb_selected_candidate_id b)),
          (''element_refs'', enc_copied (tb_element_refs b))]))"

definition plan_payload :: "Plan \<Rightarrow> (string \<times> json) list" where
  "plan_payload plan =
     [(''schema_version'', JStr (pl_schema_version plan)), (''plan_id'', JStr (pl_id plan)),
      (''version'', JInt (pl_version plan)), (''plan_sha256'', JStr (pl_plan_sha256 plan)),
      (''status'', JStr (plan_status_text (pl_status plan))),
      (''bound_generation_id'',
        case pl_bound_generation_id plan of None \<Rightarrow> JNull | Some g \<Rightarrow> JInt g),
      (''steps'', JArr (map step_snapshot (pl_steps plan)))]"

text \<open>Called only when there is a plan service.\<close>

definition recordTaskPlanState ::
  "('s, 'p, 't) harness \<Rightarrow> AgentRun \<Rightarrow> string \<Rightarrow> string \<Rightarrow> (('s, 'p, 't) harness_world, unit) hact" where
  "recordTaskPlanState h run step_id tool_call_id w =
     (case plan_of_run (hs_plans h) (hw_plans w) (ag_id run) of
        Inl e \<Rightarrow> (Inl (PlanError e), w)
      | Inr None \<Rightarrow> (Inr (), w)
      | Inr (Some plan) \<Rightarrow> h_runs (record_events (hs_runs h) run
          [(new_event EventTaskPlanUpdated)\<lparr>ev_step_id := step_id,
            ev_tool_call_id := tool_call_id, ev_payload := Some (plan_payload plan)\<rparr>]) w)"

subsection \<open>The plan for the model\<close>

definition handoff_step :: "Step \<Rightarrow> json" where
  "handoff_step step = JObj (
     [(''id'', JStr (st_id step)), (''position'', JInt (st_position step)),
      (''action'', JStr (st_action step)), (''intent'', JStr (st_intent step))] @
     omit_empty_string ''target'' (st_target step) @
     omit_empty_string ''value'' (st_value step) @
     omit_empty_string ''trigger'' (st_trigger step) @
     omit_empty_string ''context_key'' (st_context_key step) @
     omit_zero_int ''timeout_ms'' (st_timeout_ms step) @
     [(''idempotency'', JStr (st_idempotency step)),
      (''side_effect'', JStr (st_side_effect step)),
      (''preconditions'', enc_copied (st_preconditions step)),
      (''completion_conditions'', enc_copied (st_completion_conditions step))] @
     (case st_target_binding step of None \<Rightarrow> []
      | Some b \<Rightarrow> omit_empty_string ''target_binding_id'' (tb_binding_id b) @
          omit_empty_string ''selected_candidate_id'' (tb_selected_candidate_id b)))"

definition handoff_instruction :: string where
  "handoff_instruction = ''Every plan step is grounded. The exploration context was closed to '' @
     ''bound the request size, so treat this handoff and the persisted TaskPlan as '' @
     ''the authoritative plan. Author the research-v2 DSL with generate_dsl: bind '' @
     ''each step to its plan_step_id and target_binding_id, and reproduce every '' @
     ''plan-owned field (action, value, trigger, context_key, timeout_ms, '' @
     ''idempotency, side_effect, preconditions, completion conditions) exactly.''"

definition generationHandoffMessage :: "Plan \<Rightarrow> Message" where
  "generationHandoffMessage plan = zero_Message\<lparr>ms_role := ''user'',
     ms_content := render (JObj
       [(''schema_version'', JStr ''agent.grounding_handoff.v1''),
        (''kind'', JStr ''grounding_complete''), (''goal'', JStr (pl_goal plan)),
        (''plan_id'', JStr (pl_id plan)), (''plan_version'', JInt (pl_version plan)),
        (''plan_sha256'', JStr (pl_plan_sha256 plan)),
        (''status'', JStr (plan_status_text (pl_status plan))),
        (''steps'', if pl_steps plan = [] then JNull else JArr (map handoff_step (pl_steps plan))),
        (''instruction'', JStr handoff_instruction)]),
     ms_segment_boundary := True\<rparr>"

definition binding_lineage :: "TargetBinding \<Rightarrow> ToolResultLineageSummary" where
  "binding_lineage b = \<lparr>tli_probe_id = tb_probe_id b, tli_observation_id = tb_observation_id b,
     tli_observation_sha256 = tb_observation_sha256 b, tli_page_state_id = tb_page_state_id b,
     tli_target_binding_id = tb_binding_id b,
     tli_selected_candidate_id = tb_selected_candidate_id b,
     tli_element_refs = tb_element_refs b\<rparr>"

definition bound_steps :: "Plan \<Rightarrow> (string \<times> TargetBinding) list" where
  "bound_steps plan = List.map_filter
     (\<lambda>step. map_option (\<lambda>b. (st_id step, b)) (st_target_binding step)) (pl_steps plan)"

definition modelTaskPlanSummary :: "Plan \<Rightarrow> ToolResultTaskPlanSummary" where
  "modelTaskPlanSummary plan = zero_ToolResultTaskPlanSummary\<lparr>
     ttp_plan_id := pl_id plan, ttp_version := pl_version plan,
     ttp_plan_sha256 := pl_plan_sha256 plan, ttp_status := plan_status_text (pl_status plan),
     ttp_step_ids := map st_id (pl_steps plan),
     ttp_grounded_step_ids :=
       map st_id (filter (\<lambda>step. st_status step = StepGrounded) (pl_steps plan)),
     ttp_pending_step_ids :=
       map st_id (filter (\<lambda>step. st_status step \<noteq> StepGrounded) (pl_steps plan)),
     ttp_step_bindings := map_members (map (\<lambda>p. (fst p, tb_binding_id (snd p))) (bound_steps plan)),
     ttp_step_lineage := map_members (map (\<lambda>p. (fst p, binding_lineage (snd p))) (bound_steps plan))\<rparr>"

end
