(* ===== verification/HarnessTurn.thy ===== *)
theory HarnessTurn
  imports HarnessRecords
begin

section \<open>A turn of the agent (the handler of continueRun in internal/harness/harness.go)\<close>

text \<open>
  What happens with one response of the model. Without tool calls the run is completed, if its
  plan is; otherwise the calls are handled one after the other: traced, authorised by the plan
  and by the policy, executed, recorded. A refusal or a failure of a tool becomes a tool
  message, and the next call is handled; a question to the user ends the turn.
\<close>

subsection \<open>Proposing a call\<close>

definition trace_call ::
  "('s, 'p, 't) harness \<Rightarrow> string \<Rightarrow> ModelTool \<Rightarrow> toolTraceIdentity \<Rightarrow> string \<Rightarrow> string
   \<Rightarrow> (('s, 'p, 't) turn_state, unit) hact" where
  "trace_call h step_id call identity status reason = with_run (\<lambda>run. on_world (h_runs
     (recordPipelineToolTrace (hs_runs h) run step_id call identity status reason)))"

text \<open>\<open>currentPipelineState\<close> and \<open>newToolTraceIdentity\<close>.\<close>

definition identify_call ::
  "('s, 'p, 't) harness \<Rightarrow> ModelTool \<Rightarrow> (('s, 'p, 't) turn_state, toolTraceIdentity) hact" where
  "identify_call h call = with_run (\<lambda>run. on_world (\<lambda>w.
     case currentPipelineState (hs_plans h) (hw_plans w) run of
       Inl e \<Rightarrow> (Inl (PlanError e), w)
     | Inr (_, plan) \<Rightarrow> h_runs (newToolTraceIdentity (hs_runs h) run call plan) w))"

definition propose_call ::
  "('s, 'p, 't) harness \<Rightarrow> ModelTool \<Rightarrow> (('s, 'p, 't) turn_state, string \<times> toolTraceIdentity) hact" where
  "propose_call h call =
     h_then (on_world (h_runs (new_id (hs_runs h) ''step''))) (\<lambda>step_id.
     h_then (identify_call h call) (\<lambda>identity.
     h_then (trace_call h step_id call identity ''proposed'' []) (\<lambda>_.
     h_then (with_run (\<lambda>run. on_world (h_runs (recordToolStart (hs_runs h) run step_id call)))) (\<lambda>_.
     h_done (step_id, identity)))))"

subsection \<open>Authorising a call\<close>

text \<open>Why a call is refused: the reason code of its trace, the text and the gate error, if any.\<close>

record refusal =
  rf_reason :: string
  rf_text :: string
  rf_gate :: "ExplorationGateError option"

definition gate_of :: "policy_error \<Rightarrow> ExplorationGateError option" where
  "gate_of e = (case e of GateRefused g \<Rightarrow> Some g | NoApprovedGeneration \<Rightarrow> None)"

definition plan_refusal :: "('s, 'p, 't) harness \<Rightarrow> plan_error \<Rightarrow> refusal" where
  "plan_refusal h e = \<lparr>rf_reason = ''task_plan_authorization_failed'',
     rf_text = hs_text h (PlanError e), rf_gate = None\<rparr>"

definition policy_refusal :: "policy_error \<Rightarrow> refusal" where
  "policy_refusal e = \<lparr>rf_reason = pipelineReasonCode e ''tool_policy_rejected'',
     rf_text = policy_error_text e, rf_gate = gate_of e\<rparr>"

text \<open>
  \<open>plans.Authorize\<close>, the plan for the policy (read again, only for explorations), and
  \<open>policy.BeforeToolCall\<close>.
\<close>

definition plan_authorizes ::
  "('s, 'p, 't) harness \<Rightarrow> AgentRun \<Rightarrow> ModelTool \<Rightarrow> 'p \<Rightarrow> plan_error option" where
  "plan_authorizes h run call p =
     (case hs_plans h of None \<Rightarrow> None
      | Some repo \<Rightarrow> Authorize repo p (ag_id run) (mt_name call) (parse_json (mt_arguments call)))"

definition policy_plan ::
  "('s, 'p, 't) harness \<Rightarrow> AgentRun \<Rightarrow> ModelTool \<Rightarrow> 'p \<Rightarrow> plan_error + Plan option" where
  "policy_plan h run call p =
     (case hs_plans h of None \<Rightarrow> Inr None
      | Some repo \<Rightarrow> if \<not> IsExplorationTool (mt_name call) then Inr None
          else (case repo_current repo p (ag_id run) of Inl e \<Rightarrow> Inl e | Inr plan \<Rightarrow> Inr (Some plan)))"

definition authorize_call ::
  "('s, 'p, 't) harness \<Rightarrow> AgentRun \<Rightarrow> ModelTool \<Rightarrow> (('s, 'p, 't) harness_world, refusal option) hact" where
  "authorize_call h run call w =
     (case plan_authorizes h run call (hw_plans w) of
        Some e \<Rightarrow> (Inr (Some (plan_refusal h e)), w)
      | None \<Rightarrow>
        (case policy_plan h run call (hw_plans w) of
           Inl e \<Rightarrow> (Inl (PlanError e), w)
         | Inr plan \<Rightarrow> h_then (h_clock h) (\<lambda>now. h_done (map_option policy_refusal
             (BeforeToolCall (hs_exploration h) now run call plan))) w))"

definition refuse_call ::
  "('s, 'p, 't) harness \<Rightarrow> string \<Rightarrow> ModelTool \<Rightarrow> toolTraceIdentity \<Rightarrow> refusal
   \<Rightarrow> (('s, 'p, 't) turn_state, bool) hact" where
  "refuse_call h step_id call identity refused =
     h_then (trace_call h step_id call identity ''rejected'' (rf_reason refused)) (\<lambda>_.
     h_then (recordRecoverableToolFailure h step_id call (rf_text refused) (rf_gate refused)) (\<lambda>_.
     h_done True))"

subsection \<open>Executing a call\<close>

definition call_of :: "AgentRun \<Rightarrow> ModelTool \<Rightarrow> tool_call" where
  "call_of run call = \<lparr>tc_run_id = ag_id run, tc_run_input = ag_input run,
     tc_actor_user_id = ag_actor_user_id run, tc_conversation_id = ag_conversation_id run,
     tc_project_id = ag_project_id run, tc_latest_generation_id = ag_latest_generation_id run,
     tc_approved_generation_id = ag_approved_generation_id run,
     tc_tool_call_id = mt_id call, tc_name = mt_name call, tc_arguments = mt_arguments call\<rparr>"

text \<open>\<open>tools.Execute\<close>; its error is not yet one of the harness.\<close>

definition execute_tool ::
  "('s, 'p, 't) harness \<Rightarrow> ModelTool \<Rightarrow> (('s, 'p, 't) turn_state, tool_error + ToolResult) hact" where
  "execute_tool h call = with_run (\<lambda>run. on_world (\<lambda>w.
     case hs_tools h (call_of run call) w of (r, w') \<Rightarrow> (Inr r, w')))"

text \<open>With a plan service: \<open>RecordToolFailure\<close> and the new state of the plan.\<close>

definition plan_records ::
  "('s, 'p, 't) harness \<Rightarrow> (plan_error \<Rightarrow> harness_error)
   \<Rightarrow> ('p plan_repo \<Rightarrow> go_time \<Rightarrow> 'p \<Rightarrow> plan_error option \<times> 'p)
   \<Rightarrow> AgentRun \<Rightarrow> string \<Rightarrow> string \<Rightarrow> (('s, 'p, 't) harness_world, unit) hact" where
  "plan_records h wrap m run step_id tool_call_id =
     (case hs_plans h of None \<Rightarrow> h_done ()
      | Some repo \<Rightarrow>
        h_then (h_clock h) (\<lambda>now.
        h_then (h_plans wrap (m repo now)) (\<lambda>_.
        recordTaskPlanState h run step_id tool_call_id)))"

definition tool_failed ::
  "('s, 'p, 't) harness \<Rightarrow> string \<Rightarrow> ModelTool \<Rightarrow> toolTraceIdentity \<Rightarrow> tool_error
   \<Rightarrow> (('s, 'p, 't) turn_state, bool) hact" where
  "tool_failed h step_id call identity failure =
     (if xe_canceled failure then h_stop (ToolCanceled failure)
      else
        h_then (trace_call h step_id call identity ''failed'' ''tool_execution_failed'') (\<lambda>_.
        h_then (with_run (\<lambda>run. on_world (plan_records h (RecordPlanFailure (mt_name call))
          (\<lambda>repo now. RecordToolFailure repo now (ag_id run) (mt_name call) (xe_text failure))
          run step_id (mt_id call)))) (\<lambda>_.
        h_then (recordRecoverableToolFailure h step_id call (xe_text failure) None) (\<lambda>_.
        h_done True))))"

subsection \<open>A question to the user\<close>

definition dec_QuestionOption :: "QuestionOption decoder" where
  "dec_QuestionOption = dec_struct
     [(''value'', fld dec_string qo_value qo_value_update),
      (''label'', fld dec_string qo_label qo_label_update),
      (''description'', fld dec_string qo_description qo_description_update)]"

definition question_type_of :: "string \<Rightarrow> QuestionType" where
  "question_type_of s = (if s = ''single_select'' then QuestionSingleSelect
     else if s = ''multi_select'' then QuestionMultiSelect
     else if s = ''text'' then QuestionText
     else if s = ''confirm'' then QuestionConfirm else QuestionOther s)"

definition dec_QuestionType :: "QuestionType decoder" where
  "dec_QuestionType j cur = map_option question_type_of (dec_string j (question_type_text cur))"

definition zero_Question :: Question where
  "zero_Question = \<lparr>qn_id = [], qn_prompt = [], qn_type = QuestionOther [], qn_required = False,
     qn_options = []\<rparr>"

definition dec_Question :: "Question decoder" where
  "dec_Question = dec_struct
     [(''id'', fld dec_string qn_id qn_id_update),
      (''question'', fld dec_string qn_prompt qn_prompt_update),
      (''type'', fld dec_QuestionType qn_type qn_type_update),
      (''required'', fld dec_bool qn_required qn_required_update),
      (''options'', fld (dec_list dec_QuestionOption \<lparr>qo_value = [], qo_label = [], qo_description = []\<rparr>)
        qn_options qn_options_update)]"

definition dec_AskUserRequest :: "Question list option decoder" where
  "dec_AskUserRequest = dec_struct [(''questions'', dec_slice dec_Question zero_Question)]"

text \<open>
  When asking fails the variable \<open>run\<close> is overwritten with the zero value that
  \<open>RequestUserInputForCall\<close> returns beside its error; so it is with \<open>CompleteRun\<close>.
\<close>

definition zero_AgentRun :: AgentRun where
  "zero_AgentRun = \<lparr>ag_id = [], ag_actor_user_id = 0, ag_conversation_id = [], ag_project_id = 0,
     ag_status = RunStatusRunning, ag_input = [], ag_pending_tool_call_id = None,
     ag_pending_step_id = None, ag_latest_generation_id = None, ag_approved_generation_id = None,
     ag_transcript = [], ag_created_at = 0, ag_updated_at = 0\<rparr>"

definition assign_run :: "(('s, 'p, 't) turn_state, AgentRun) hact \<Rightarrow> (('s, 'p, 't) turn_state, unit) hact" where
  "assign_run m s = (case m s of
     (Inl e, s') \<Rightarrow> (Inl e, s'\<lparr>tn_run := zero_AgentRun\<rparr>)
   | (Inr run, s') \<Rightarrow> (Inr (), s'\<lparr>tn_run := run\<rparr>))"

definition ask_user ::
  "('s, 'p, 't) harness \<Rightarrow> string \<Rightarrow> ModelTool \<Rightarrow> toolTraceIdentity \<Rightarrow> raw_message
   \<Rightarrow> (('s, 'p, 't) turn_state, bool) hact" where
  "ask_user h step_id call identity payload =
     h_then (trace_call h step_id call identity ''pending'' ''user_input_required'') (\<lambda>_.
     case unmarshal dec_AskUserRequest None payload of
       None \<Rightarrow> h_stop PendingPayloadInvalid
     | Some questions \<Rightarrow>
       h_then (with_run (\<lambda>run. on_world (h_runs (SaveRun (hs_runs h) run)))) (\<lambda>_.
       h_then (assign_run (with_run (\<lambda>run. on_world (h_runs
         (and_then (RequestUserInputForCall (hs_runs h) (ag_id run) (mt_id call) step_id questions)
           (\<lambda>r. done_with (fst r))))))) (\<lambda>_.
       h_done False)))"

subsection \<open>The result of a tool\<close>

text \<open>\<open>strconv.ParseInt(s, 10, 64)\<close>.\<close>

definition ParseInt :: "string \<Rightarrow> int option" where
  "ParseInt s =
     (let (negative, digits) = (case s of c # cs \<Rightarrow>
            if c = CHR ''-'' then (True, cs) else if c = CHR ''+'' then (False, cs) else (False, s)
          | [] \<Rightarrow> (False, []));
          n = int (digits_value digits); v = (if negative then - n else n) in
      if digits = [] \<or> \<not> list_all GoStrings.is_digit digits \<or> \<not> in_int64 v then None else Some v)"

text \<open>The generations the run knows, after an artifact was published.\<close>

definition note_artifact ::
  "('s, 'p, 't) harness \<Rightarrow> string \<Rightarrow> ModelTool \<Rightarrow> Artifact option \<Rightarrow> (('s, 'p, 't) turn_state, unit) hact" where
  "note_artifact h step_id call artifact =
     (case artifact of
        None \<Rightarrow> h_done ()
      | Some a \<Rightarrow>
        if af_type a = ''dsl_generation'' then
          (case ParseInt (af_id a) of
             None \<Rightarrow> with_run (\<lambda>run s. (Inl (GenerationIdInvalid (af_id a)),
               s\<lparr>tn_world := h_ignore (h_runs (recordToolFailure (hs_runs h) run step_id call
                 (hs_text h (GenerationIdInvalid (af_id a))))) (tn_world s)\<rparr>))
           | Some g \<Rightarrow> change_run (\<lambda>run. run\<lparr>ag_latest_generation_id := Some g,
               ag_approved_generation_id := None\<rparr>))
        else if af_type a = ''task_plan'' then
          change_run (\<lambda>run. run\<lparr>ag_latest_generation_id := None, ag_approved_generation_id := None\<rparr>)
        else h_done ())"

text \<open>The plan, if it became ready and its generation segment is opened now.\<close>

definition newly_ready ::
  "('s, 'p, 't) harness \<Rightarrow> AgentRun \<Rightarrow> (('s, 'p, 't) harness_world, Plan option) hact" where
  "newly_ready h run w =
     (case hs_plans h of
        None \<Rightarrow> (Inr None, w)
      | Some repo \<Rightarrow>
        (case repo_current repo (hw_plans w) (ag_id run) of
           Inl _ \<Rightarrow> (Inr None, w)
         | Inr plan \<Rightarrow>
             if pl_status plan = StatusReadyForGeneration then
               (case markGenerationSegment (ag_id run) (pl_plan_sha256 plan) w of
                  (opened, w') \<Rightarrow> (Inr (if opened then Some plan else None), w'))
             else (Inr None, w)))"

text \<open>The summary of the plan, after explorations and \<open>set_task_plan\<close>; it raises the budget of turns.\<close>

definition plan_for_model ::
  "('s, 'p, 't) harness \<Rightarrow> AgentRun \<Rightarrow> ModelTool
   \<Rightarrow> (('s, 'p, 't) harness_world, ToolResultTaskPlanSummary option) hact" where
  "plan_for_model h run call w =
     (case hs_plans h of
        None \<Rightarrow> (Inr None, w)
      | Some repo \<Rightarrow>
        if IsExplorationTool (mt_name call) \<or> mt_name call = ''set_task_plan'' then
          (case repo_current repo (hw_plans w) (ag_id run) of
             Inl e \<Rightarrow> (Inl (PlanError e), w)
           | Inr plan \<Rightarrow>
             (Inr (Some ((modelTaskPlanSummary plan)\<lparr>ttp_exploration_budget := Some
               (ExplorationBudget (hs_exploration h) run (Some plan)
                 (if IsExplorationTool (mt_name call) then Some call else None))\<rparr>)),
              raiseTurnBudget (ag_id run) (int (length (pl_steps plan)) * 2 + turnBudgetReserve) w))
        else (Inr None, w))"

definition add_result ::
  "('s, 'p, 't) harness \<Rightarrow> string \<Rightarrow> ModelTool \<Rightarrow> Plan option \<Rightarrow> AgentRun \<Rightarrow> AgentRun" where
  "add_result h content call ready run =
     (let run = add_message (zero_Message\<lparr>ms_role := ''tool'', ms_content := content,
            ms_tool_call_id := mt_id call\<rparr>) run;
          run = (if hs_perTurnTranscriptCompaction h
            then run\<lparr>ag_transcript := CompactExplorationTranscript (hs_unicode h) (ag_transcript run)\<rparr> else run)
      in case ready of None \<Rightarrow> run | Some plan \<Rightarrow> add_message (generationHandoffMessage plan) run)"

definition trace_success ::
  "('s, 'p, 't) harness \<Rightarrow> string \<Rightarrow> ModelTool \<Rightarrow> toolTraceIdentity \<Rightarrow> string
   \<Rightarrow> (('s, 'p, 't) turn_state, unit) hact" where
  "trace_success h step_id call identity content s =
     (case pipelineLineage (hs_plans h) (hw_plans (tn_world s)) (tn_run s) (mt_name call)
         (parse_json content) (ti_plan_step_ids identity) of
        Inl e \<Rightarrow> (Inl (PlanError e), s)
      | Inr lineage \<Rightarrow> trace_call h step_id call (identity\<lparr>ti_lineage := lineage\<rparr>) ''succeeded'' [] s)"

definition tool_succeeded ::
  "('s, 'p, 't) harness \<Rightarrow> string \<Rightarrow> ModelTool \<Rightarrow> toolTraceIdentity \<Rightarrow> ToolResult
   \<Rightarrow> (('s, 'p, 't) turn_state, bool) hact" where
  "tool_succeeded h step_id call identity result =
     h_then (note_artifact h step_id call (to_artifact result)) (\<lambda>_.
     h_then (with_run (\<lambda>run. on_world (recordToolResult (hs_runs h) run step_id call result))) (\<lambda>seq.
     h_then (with_run (\<lambda>run. on_world (plan_records h (AdvancePlanFailed (mt_name call))
       (\<lambda>repo now. RecordToolResult repo now (ag_id run) (mt_name call)
         (parse_json (mt_arguments call)) (to_content result) (parse_json (to_content result)) seq)
       run step_id (mt_id call)))) (\<lambda>_.
     h_then (with_run (\<lambda>run. on_world (newly_ready h run))) (\<lambda>ready.
     h_then (with_run (\<lambda>run. on_world (plan_for_model h run call))) (\<lambda>summary.
     h_then (h_lift (sum_lift SummaryFailed
       (BuildModelToolSummary (hs_unicode h) (mt_name call) (to_content result) seq summary))) (\<lambda>content.
     h_then (change_run (add_result h content call ready)) (\<lambda>_.
     h_then (with_run (\<lambda>run. on_world (h_runs (SaveRun (hs_runs h) run)))) (\<lambda>_.
     h_then (with_run (\<lambda>run. on_world (recordTranscriptCost h run))) (\<lambda>_.
     h_then (trace_success h step_id call identity (to_content result)) (\<lambda>_.
     h_done True))))))))))"

definition run_tool ::
  "('s, 'p, 't) harness \<Rightarrow> string \<Rightarrow> ModelTool \<Rightarrow> toolTraceIdentity
   \<Rightarrow> (('s, 'p, 't) turn_state, bool) hact" where
  "run_tool h step_id call identity =
     h_then (trace_call h step_id call identity ''authorized'' []) (\<lambda>_.
     h_then (trace_call h step_id call identity ''running'' []) (\<lambda>_.
     h_then (execute_tool h call) (\<lambda>executed.
     case executed of
       Inl failure \<Rightarrow> tool_failed h step_id call identity failure
     | Inr result \<Rightarrow>
       (case to_pending result of
          Some payload \<Rightarrow> ask_user h step_id call identity payload
        | None \<Rightarrow> tool_succeeded h step_id call identity result))))"

subsection \<open>The handler\<close>

text \<open>True when the next call is to be handled, false when the turn ended with a question.\<close>

definition handle_call ::
  "('s, 'p, 't) harness \<Rightarrow> ModelTool \<Rightarrow> (('s, 'p, 't) turn_state, bool) hact" where
  "handle_call h call =
     h_then (propose_call h call) (\<lambda>(step_id, identity).
     h_then (with_run (\<lambda>run. on_world (authorize_call h run call))) (\<lambda>refused.
     case refused of
       Some r \<Rightarrow> refuse_call h step_id call identity r
     | None \<Rightarrow> run_tool h step_id call identity))"

fun handle_calls ::
  "('s, 'p, 't) harness \<Rightarrow> ModelTool list \<Rightarrow> (('s, 'p, 't) turn_state, bool) hact" where
  "handle_calls h [] = h_done True"
| "handle_calls h (call # calls) =
     h_then (handle_call h call) (\<lambda>go_on. if go_on then handle_calls h calls else h_done False)"

text \<open>A response without tool calls: the end of the run.\<close>

definition check_plan_completed ::
  "('s, 'p, 't) harness \<Rightarrow> AgentRun \<Rightarrow> 'p \<Rightarrow> harness_error option" where
  "check_plan_completed h run p =
     (case hs_plans h of
        None \<Rightarrow> None
      | Some repo \<Rightarrow>
        (case repo_current repo p (ag_id run) of
           Inl e \<Rightarrow> Some (NoTaskPlan e)
         | Inr plan \<Rightarrow> if pl_status plan = StatusCompleted then None
             else Some (PlanNotCompleted (pl_status plan))))"

definition complete_turn :: "('s, 'p, 't) harness \<Rightarrow> (('s, 'p, 't) turn_state, bool) hact" where
  "complete_turn h =
     h_then (with_run (\<lambda>run. on_world (\<lambda>w. h_check (check_plan_completed h run (hw_plans w)) w))) (\<lambda>_.
     h_then (with_run (\<lambda>run. on_world (h_runs (SaveRun (hs_runs h) run)))) (\<lambda>_.
     h_then (assign_run (with_run (\<lambda>run. on_world (h_runs (CompleteRun (hs_runs h) run))))) (\<lambda>_.
     h_done False)))"

definition handle_turn ::
  "('s, 'p, 't) harness \<Rightarrow> ModelResponse \<Rightarrow> (('s, 'p, 't) turn_state, bool) hact" where
  "handle_turn h response =
     h_then (h_if (\<not> blank (rs_content response))
       (with_run (\<lambda>run. on_world (h_runs (recordMessage (hs_runs h) run (rs_content response)))))) (\<lambda>_.
     if rs_tool_calls response = [] then complete_turn h
     else handle_calls h (rs_tool_calls response))"

end
