(* ===== verification/Harness.thy ===== *)
theory Harness
  imports HarnessTurn
begin

section \<open>Running, resuming and cancelling a run (internal/harness/harness.go)\<close>

text \<open>
  The loop of a run in the world of the harness, and the operations of \<open>Harness\<close>. Every call of
  \<open>Continue\<close> registers a new active run under a context of its own and cancels the context of
  the one before it. The loop may run forever if its budget grows forever, so the operations
  that run it are option-valued.
\<close>

subsection \<open>The context of a model call\<close>

definition telemetry_record :: "call_context \<Rightarrow> Telemetry \<Rightarrow> string list \<Rightarrow> TelemetryRecord" where
  "telemetry_record c telemetry toolCallIDs = \<lparr>tr_logical_call_id = cc_logical_call_id c,
     tr_step_id = cc_step_id c, tr_tool_call_ids = toolCallIDs, tr_state = cc_state c,
     tr_telemetry = telemetry\<rparr>"

text \<open>\<open>EmitTelemetry\<close> with the sink of the harness.\<close>

definition EmitTelemetry :: "('s, 'p, 't) harness \<Rightarrow> ('s, 'p, 't) telemetry_sink" where
  "EmitTelemetry h telemetry toolCallIDs s =
     (let report = telemetry_record (tn_call s) telemetry toolCallIDs in
      h_then (with_run (\<lambda>run. on_world (h_runs (RecordModelTelemetry (hs_runs h) run report)))) (\<lambda>_.
      with_run (\<lambda>run. on_world (recordRunCost h run telemetry))) s)"

text \<open>The ids, the state and the cache identity of the next call; an unreadable state is the zero one.\<close>

definition model_context :: "('s, 'p, 't) harness \<Rightarrow> ('s, 'p, 't) turn_state \<Rightarrow> ('s, 'p, 't) turn_state" where
  "model_context h s =
     (let sys = hw_sys (tn_world s); draw = sv_newID (hs_runs h);
          world = (tn_world s)\<lparr>hw_sys := sys\<lparr>sy_drawn := sy_drawn sys + 2\<rparr>\<rparr>;
          run = tn_run s;
          state = (case currentPipelineState (hs_plans h) (hw_plans world) run of
            Inl _ \<Rightarrow> zero_PipelineState | Inr (state, _) \<Rightarrow> state) in
      s\<lparr>tn_world := world,
        tn_call := \<lparr>cc_logical_call_id = draw (sy_drawn sys) ''llm'',
          cc_step_id = draw (Suc (sy_drawn sys)) ''step'', cc_state = state,
          cc_cache_identity = (if blank (ag_id run) then [] else ag_id run)\<rparr>\<rparr>)"

definition at_transcript :: "Message list \<Rightarrow> ('s, 'p, 't) turn_state \<Rightarrow> ('s, 'p, 't) turn_state" where
  "at_transcript transcript s = s\<lparr>tn_run := (tn_run s)\<lparr>ag_transcript := transcript\<rparr>\<rparr>"

definition turn_env_of :: "('s, 'p, 't) harness \<Rightarrow> (('s, 'p, 't) turn_state, harness_error) turn_env" where
  "turn_env_of h = \<lparr>te_complete = (\<lambda>request. hs_model h (EmitTelemetry h) request),
     te_handle = (\<lambda>response transcript s.
       case handle_turn h response (at_transcript transcript s) of
         (r, s') \<Rightarrow> (r, ag_transcript (tn_run s'), s')),
     te_context = Some (model_context h),
     te_budget = Some (\<lambda>used s. turnBudgetFor (ag_id (tn_run s)) (tn_world s))\<rparr>"

subsection \<open>A run to its end\<close>

fun loop_cancels :: "harness_error loop_error \<Rightarrow> bool" where
  "loop_cancels (TurnFailed e) = cancels e"
| "loop_cancels (TurnsExceeded _ _) = False"

fun loop_text :: "('s, 'p, 't) harness \<Rightarrow> harness_error loop_error \<Rightarrow> string" where
  "loop_text h (TurnFailed e) = hs_text h e"
| "loop_text h (TurnsExceeded limit message) = ''agent exceeded maximum turns: '' @ itoa limit @
     (if message = [] then [] else ''; last tool error: '' @ message)"

type_synonym run_result = "AgentRun \<times> harness_error loop_error option"

text \<open>After an error of the loop.\<close>

definition mark_plan_failed ::
  "('s, 'p, 't) harness \<Rightarrow> AgentRun \<Rightarrow> ('s, 'p, 't) harness_world \<Rightarrow> ('s, 'p, 't) harness_world" where
  "mark_plan_failed h run w =
     (case hs_plans h of
        None \<Rightarrow> w
      | Some repo \<Rightarrow> h_ignore (recordTaskPlanState h run [] [])
          (h_ignore (h_then (h_clock h) (\<lambda>now. h_plans PlanError (MarkFailed repo now (ag_id run)))) w))"

definition fail_run ::
  "('s, 'p, 't) harness \<Rightarrow> AgentRun \<Rightarrow> harness_error loop_error \<Rightarrow> ('s, 'p, 't) harness_world
   \<Rightarrow> AgentRun \<times> ('s, 'p, 't) harness_world" where
  "fail_run h run loopErr w =
     (case h_runs (FailRun (hs_runs h) run (Some (loop_text h loopErr))) w of
        (Inl _, w') \<Rightarrow> (zero_AgentRun, w') | (Inr failed, w') \<Rightarrow> (failed, w'))"

definition after_error ::
  "('s, 'p, 't) harness \<Rightarrow> AgentRun \<Rightarrow> harness_error loop_error \<Rightarrow> ('s, 'p, 't) harness_world
   \<Rightarrow> run_result \<times> ('s, 'p, 't) harness_world" where
  "after_error h run loopErr w =
     (case h_runs (GetRun (hs_runs h) (ag_id run)) w of
        (got, w1) \<Rightarrow>
        if (case got of Inr current \<Rightarrow> ag_status current = RunStatusCancelled | Inl _ \<Rightarrow> False)
        then ((case got of Inr current \<Rightarrow> current | Inl _ \<Rightarrow> run, None), w1)
        else if loop_cancels loopErr
        then ((case got of Inr current \<Rightarrow> current | Inl _ \<Rightarrow> run, Some loopErr), w1)
        else (case fail_run h run loopErr (mark_plan_failed h run w1) of
          (failed, w2) \<Rightarrow> ((failed, Some loopErr), w2)))"

definition zero_call_context :: call_context where
  "zero_call_context = \<lparr>cc_logical_call_id = [], cc_step_id = [], cc_state = zero_PipelineState,
     cc_cache_identity = []\<rparr>"

definition continueRun ::
  "('s, 'p, 't) harness \<Rightarrow> string \<Rightarrow> ('s, 'p, 't) harness_world
   \<Rightarrow> (run_result \<times> ('s, 'p, 't) harness_world) option" where
  "continueRun h run_id w =
     (case h_runs (GetRun (hs_runs h) run_id) w of
        (Inl e, w1) \<Rightarrow> Some ((zero_AgentRun, Some (TurnFailed e)), w1)
      | (Inr run, w1) \<Rightarrow>
        if ag_status run \<noteq> RunStatusRunning then Some ((run, None), w1)
        else
          (case RunWithTurnBudget (hs_loop h) (turn_env_of h) (ag_transcript run)
              \<lparr>tn_world = w1, tn_run = run, tn_call = zero_call_context\<rparr> of
             None \<Rightarrow> None
           | Some (loopErr, transcript, s) \<Rightarrow>
             let run' = (tn_run s)\<lparr>ag_transcript := transcript\<rparr> in
             (case loopErr of
                None \<Rightarrow> Some ((run', None), tn_world s)
              | Some e \<Rightarrow> Some (after_error h run' e (tn_world s)))))"

definition enter_run :: "string \<Rightarrow> ('s, 'p, 't) harness_world \<Rightarrow> ('s, 'p, 't) harness_world" where
  "enter_run run_id w = w\<lparr>hw_contexts := Suc (hw_contexts w),
     hw_active := (hw_active w)(run_id \<mapsto> new_activeRun (hw_contexts w)),
     hw_cancelled := (case hw_active w run_id of None \<Rightarrow> hw_cancelled w
       | Some previous \<Rightarrow> insert (ac_context previous) (hw_cancelled w))\<rparr>"

definition leave_run :: "string \<Rightarrow> nat \<Rightarrow> ('s, 'p, 't) harness_world \<Rightarrow> ('s, 'p, 't) harness_world" where
  "leave_run run_id ctx w = w\<lparr>
     hw_active := (if (case hw_active w run_id of None \<Rightarrow> False | Some a \<Rightarrow> ac_context a = ctx)
       then (hw_active w)(run_id := None) else hw_active w),
     hw_cancelled := insert ctx (hw_cancelled w)\<rparr>"

definition Continue ::
  "('s, 'p, 't) harness \<Rightarrow> string \<Rightarrow> ('s, 'p, 't) harness_world
   \<Rightarrow> (run_result \<times> ('s, 'p, 't) harness_world) option" where
  "Continue h run_id w =
     map_option (\<lambda>(r, w'). (r, leave_run run_id (hw_contexts w) w'))
       (continueRun h run_id (enter_run run_id w))"

subsection \<open>Starting\<close>

text \<open>\<open>StartOwnedProjectAsync\<close> returns the run and continues it in a goroutine of its own.\<close>

definition StartOwnedProjectAsync ::
  "('s, 'p, 't) harness \<Rightarrow> int \<Rightarrow> string \<Rightarrow> int \<Rightarrow> string \<Rightarrow> (('s, 'p, 't) harness_world, AgentRun) hact" where
  "StartOwnedProjectAsync h actor conversation_id project_id inp =
     h_runs (StartOwnedProjectRun (hs_runs h) actor conversation_id project_id inp)"

definition StartProjectAsync ::
  "('s, 'p, 't) harness \<Rightarrow> string \<Rightarrow> int \<Rightarrow> string \<Rightarrow> (('s, 'p, 't) harness_world, AgentRun) hact" where
  "StartProjectAsync h conversation_id project_id inp =
     StartOwnedProjectAsync h 0 conversation_id project_id inp"

definition StartAsync ::
  "('s, 'p, 't) harness \<Rightarrow> string \<Rightarrow> string \<Rightarrow> (('s, 'p, 't) harness_world, AgentRun) hact" where
  "StartAsync h conversation_id inp = StartProjectAsync h conversation_id 0 inp"

definition Start ::
  "('s, 'p, 't) harness \<Rightarrow> string \<Rightarrow> string \<Rightarrow> ('s, 'p, 't) harness_world
   \<Rightarrow> (run_result \<times> ('s, 'p, 't) harness_world) option" where
  "Start h conversation_id inp w =
     (case h_runs (StartProjectRun (hs_runs h) conversation_id 0 inp) w of
        (Inl e, w') \<Rightarrow> Some ((zero_AgentRun, Some (TurnFailed e)), w')
      | (Inr run, w') \<Rightarrow> Continue h (ag_id run) w')"

subsection \<open>Resuming\<close>

definition enc_ResumeToolCallRequest :: "ResumeToolCallRequest \<Rightarrow> json" where
  "enc_ResumeToolCallRequest request = JObj (
     [(''answers'', case rt_answers request of None \<Rightarrow> JNull | Some m \<Rightarrow> JObj (sort_key fst m))] @
     omit_empty_string ''next_step'' (rt_next_step request))"

definition resume_message :: "string \<Rightarrow> ResumeToolCallRequest \<Rightarrow> Message" where
  "resume_message tool_call_id request = zero_Message\<lparr>ms_role := ''tool'',
     ms_content := render (enc_ResumeToolCallRequest request), ms_tool_call_id := tool_call_id\<rparr>"

definition approves :: "ResumeToolCallRequest \<Rightarrow> bool" where
  "approves request \<longleftrightarrow>
     (case rt_answers request of None \<Rightarrow> False | Some m \<Rightarrow> any_get m ''approve_dsl'' = JBool True)"

definition approve_generation ::
  "('s, 'p, 't) harness \<Rightarrow> AgentRun \<Rightarrow> string \<Rightarrow> (('s, 'p, 't) harness_world, unit) hact" where
  "approve_generation h run tool_call_id =
     (case hs_plans h of
        None \<Rightarrow> h_done ()
      | Some repo \<Rightarrow>
        (case ag_latest_generation_id run of
           None \<Rightarrow> h_stop ApproveWithoutGeneration
         | Some g \<Rightarrow>
           h_then (h_clock h) (\<lambda>now.
           h_then (h_plans PlanError (Approve repo now (ag_id run) g)) (\<lambda>_.
           recordTaskPlanState h run [] tool_call_id))))"

text \<open>Everything of \<open>Resume\<close> before it continues the run.\<close>

definition resume_run ::
  "('s, 'p, 't) harness \<Rightarrow> string \<Rightarrow> string \<Rightarrow> ResumeToolCallRequest
   \<Rightarrow> (('s, 'p, 't) harness_world, AgentRun) hact" where
  "resume_run h run_id tool_call_id request =
     h_then (h_runs (GetRun (hs_runs h) run_id)) (\<lambda>pendingRun.
     h_then (h_runs (pendingToolTraceIdentity (hs_runs h) pendingRun tool_call_id)) (\<lambda>pending.
     h_then (h_runs (ResumeToolCall (hs_runs h) run_id tool_call_id request)) (\<lambda>run.
     let run = add_message (resume_message tool_call_id request) run in
     h_then (h_if (approves request) (approve_generation h run tool_call_id)) (\<lambda>_.
     let run = (if approves request
       then run\<lparr>ag_approved_generation_id := ag_latest_generation_id run\<rparr> else run) in
     h_then (h_runs (SaveRun (hs_runs h) run)) (\<lambda>_.
     h_then (case pending of None \<Rightarrow> h_done ()
       | Some (call, identity) \<Rightarrow> h_runs (recordPipelineToolTrace (hs_runs h) run [] call identity
           ''succeeded'' ''user_input_received'')) (\<lambda>_.
     h_done run))))))"

definition Resume ::
  "('s, 'p, 't) harness \<Rightarrow> string \<Rightarrow> string \<Rightarrow> ResumeToolCallRequest \<Rightarrow> ('s, 'p, 't) harness_world
   \<Rightarrow> (run_result \<times> ('s, 'p, 't) harness_world) option" where
  "Resume h run_id tool_call_id request w =
     (case resume_run h run_id tool_call_id request w of
        (Inl e, w') \<Rightarrow> Some ((zero_AgentRun, Some (TurnFailed e)), w')
      | (Inr run, w') \<Rightarrow> Continue h (ag_id run) w')"

definition ResumeOwned ::
  "('s, 'p, 't) harness \<Rightarrow> int \<Rightarrow> string \<Rightarrow> string \<Rightarrow> ResumeToolCallRequest \<Rightarrow> ('s, 'p, 't) harness_world
   \<Rightarrow> (run_result \<times> ('s, 'p, 't) harness_world) option" where
  "ResumeOwned h actor run_id tool_call_id request w =
     (case h_runs (GetOwnedRun (hs_runs h) run_id actor) w of
        (Inl e, w') \<Rightarrow> Some ((zero_AgentRun, Some (TurnFailed e)), w')
      | (Inr _, w') \<Rightarrow> Resume h run_id tool_call_id request w')"

subsection \<open>Reading and cancelling\<close>

definition Harness_GetRun :: "('s, 'p, 't) harness \<Rightarrow> string \<Rightarrow> (('s, 'p, 't) harness_world, AgentRun) hact" where
  "Harness_GetRun h run_id = h_runs (GetRun (hs_runs h) run_id)"

definition Harness_GetOwnedRun ::
  "('s, 'p, 't) harness \<Rightarrow> string \<Rightarrow> int \<Rightarrow> (('s, 'p, 't) harness_world, AgentRun) hact" where
  "Harness_GetOwnedRun h run_id actor = h_runs (GetOwnedRun (hs_runs h) run_id actor)"

definition Harness_ListEvents ::
  "('s, 'p, 't) harness \<Rightarrow> string \<Rightarrow> int \<Rightarrow> (('s, 'p, 't) harness_world, Event list) hact" where
  "Harness_ListEvents h run_id after_seq = h_runs (ListEvents (hs_runs h) run_id after_seq)"

definition ListOwnedEvents ::
  "('s, 'p, 't) harness \<Rightarrow> string \<Rightarrow> int \<Rightarrow> int \<Rightarrow> (('s, 'p, 't) harness_world, Event list) hact" where
  "ListOwnedEvents h run_id actor after_seq =
     h_then (h_runs (GetOwnedRun (hs_runs h) run_id actor)) (\<lambda>_.
     h_runs (ListEvents (hs_runs h) run_id after_seq))"

text \<open>The plan is blocked and the goroutine of the run is told to stop.\<close>

definition stop_cancelled ::
  "('s, 'p, 't) harness \<Rightarrow> AgentRun \<Rightarrow> string \<Rightarrow> ('s, 'p, 't) harness_world \<Rightarrow> ('s, 'p, 't) harness_world" where
  "stop_cancelled h run run_id w =
     (let w1 = (case hs_plans h of None \<Rightarrow> w
        | Some repo \<Rightarrow> h_ignore (h_then (h_clock h) (\<lambda>now.
            h_plans PlanError (MarkBlocked repo now (ag_id run)))) w)
      in case hw_active w1 run_id of None \<Rightarrow> w1
        | Some active \<Rightarrow> w1\<lparr>hw_cancelled := insert (ac_context active) (hw_cancelled w1)\<rparr>)"

definition CancelOwned ::
  "('s, 'p, 't) harness \<Rightarrow> int \<Rightarrow> string \<Rightarrow> string \<Rightarrow> (('s, 'p, 't) harness_world, AgentRun) hact" where
  "CancelOwned h actor run_id reason w =
     (case h_runs (CancelOwnedRun (hs_runs h) run_id actor reason) w of
        (Inl e, w') \<Rightarrow> (Inl e, w')
      | (Inr run, w') \<Rightarrow>
          (Inr run, if ag_status run = RunStatusCancelled then stop_cancelled h run run_id w' else w'))"

end
