(* ===== verification/HarnessLaws.thy ===== *)
theory HarnessLaws
  imports Harness SummaryOrder AgentServiceLaws
begin

section \<open>How the actions of the harness compose\<close>

text \<open>
  Rules for the actions of a turn: what succeeded had all its parts succeed; most parts leave
  the run alone; the transcript grows by the messages the handler adds.
\<close>

subsection \<open>Success and failure of a sequence\<close>

lemma h_then_Inr_iff:
  "h_then m f s = (Inr x, s') \<longleftrightarrow> (\<exists>y s1. m s = (Inr y, s1) \<and> f y s1 = (Inr x, s'))"
  by (auto simp: h_then_def split: prod.splits sum.splits)

lemma h_then_InrE:
  assumes "h_then m f s = (Inr x, s')"
  obtains y s1 where "m s = (Inr y, s1)" and "f y s1 = (Inr x, s')"
  using assms by (auto simp: h_then_Inr_iff)

lemma h_done_iff [simp]: "h_done x s = (r, s') \<longleftrightarrow> r = Inr x \<and> s' = s"
  by (auto simp: h_done_def)

lemma h_stop_iff [simp]: "h_stop e s = (r, s') \<longleftrightarrow> r = Inl e \<and> s' = s"
  by (auto simp: h_stop_def)

subsection \<open>Parts that leave the run alone\<close>

definition same_run :: "(('s, 'p, 't) turn_state, 'a) hact \<Rightarrow> bool" where
  "same_run m \<longleftrightarrow> (\<forall>s. tn_run (snd (m s)) = tn_run s)"

named_theorems same_runs \<open>actions of a turn that leave the run alone\<close>

lemma same_runD: "same_run m \<Longrightarrow> m s = (r, s') \<Longrightarrow> tn_run s' = tn_run s"
  unfolding same_run_def by (metis snd_conv)

lemma same_run_on_world [same_runs]: "same_run (on_world m)"
  by (simp add: same_run_def on_world_def split: prod.split)

lemma same_run_with_run [same_runs]: "(\<And>run. same_run (f run)) \<Longrightarrow> same_run (with_run f)"
  by (simp add: same_run_def with_run_def)

lemma same_run_done [same_runs]: "same_run (h_done x)"
  by (simp add: same_run_def h_done_def)

lemma same_run_stop [same_runs]: "same_run (h_stop e)"
  by (simp add: same_run_def h_stop_def)

lemma same_run_lift [same_runs]: "same_run (h_lift r)"
  by (simp add: same_run_def h_lift_def)

lemma same_run_then [same_runs]:
  "same_run m \<Longrightarrow> (\<And>x. same_run (f x)) \<Longrightarrow> same_run (h_then m f)"
  unfolding same_run_def h_then_def by (simp split: prod.split sum.split) (metis snd_conv)

lemma same_run_if [same_runs]: "same_run m \<Longrightarrow> same_run (h_if b m)"
  by (simp add: h_if_def same_run_done)

lemma same_run_trace_call [same_runs]: "same_run (trace_call h step call identity status reason)"
  unfolding trace_call_def by (intro same_runs)

lemma same_run_identify [same_runs]: "same_run (identify_call h call)"
  unfolding identify_call_def by (intro same_runs)

lemma same_run_propose [same_runs]: "same_run (propose_call h call)"
  unfolding propose_call_def by (intro same_runs)

lemma same_run_execute [same_runs]: "same_run (execute_tool h call)"
  unfolding execute_tool_def by (intro same_runs)

lemma same_run_trace_success [same_runs]: "same_run (trace_success h step call identity content)"
  by (auto simp: same_run_def trace_success_def same_run_trace_call [unfolded same_run_def, rule_format]
    split: sum.split)

subsection \<open>The messages of tools\<close>

definition tool_ids :: "Message list \<Rightarrow> string list" where
  "tool_ids t = map ms_tool_call_id (filter (\<lambda>m. ms_role m = ''tool'') t)"

lemma tool_ids_simps [simp]:
  "tool_ids [] = []"
  "tool_ids (m # t) = (if ms_role m = ''tool'' then ms_tool_call_id m # tool_ids t else tool_ids t)"
  "tool_ids (t @ u) = tool_ids t @ tool_ids u"
  by (simp_all add: tool_ids_def)

lemma zero_Message_fields [simp]:
  "ms_role zero_Message = []" "ms_tool_call_id zero_Message = []" "ms_tool_calls zero_Message = []"
  "\<not> ms_segment_boundary zero_Message"
  by (simp_all add: zero_Message_def)

lemma failure_message_fields [simp]:
  "ms_role (failure_message call cause gate) = ''tool''"
  "ms_tool_call_id (failure_message call cause gate) = mt_id call"
  "\<not> ms_segment_boundary (failure_message call cause gate)"
  by (simp_all add: failure_message_def)

lemma handoff_fields [simp]:
  "ms_role (generationHandoffMessage plan) = ''user''"
  "ms_segment_boundary (generationHandoffMessage plan)"
  by (simp_all add: generationHandoffMessage_def)

lemma resume_message_fields [simp]:
  "ms_role (resume_message i request) = ''tool''" "ms_tool_call_id (resume_message i request) = i"
  by (simp_all add: resume_message_def)

lemma transcript_add_message [simp]:
  "ag_transcript (add_message m run) = ag_transcript run @ [m]"
  "ag_id (add_message m run) = ag_id run"
  by (simp_all add: add_message_def)

lemma only_content_changes_shape:
  "only_content_changes m m' \<Longrightarrow> m'\<lparr>ms_content := []\<rparr> = m\<lparr>ms_content := []\<rparr>"
  by (cases m, cases m') (auto simp: only_content_changes_def)

text \<open>A message without its content, and what the handler adds for a call.\<close>

definition shapes :: "Message list \<Rightarrow> Message list" where
  "shapes t = map (\<lambda>m. m\<lparr>ms_content := []\<rparr>) t"

definition tool_shape :: "ModelTool \<Rightarrow> Message" where
  "tool_shape call = zero_Message\<lparr>ms_role := ''tool'', ms_tool_call_id := mt_id call\<rparr>"

definition handoff_shape :: Message where
  "handoff_shape = zero_Message\<lparr>ms_role := ''user'', ms_segment_boundary := True\<rparr>"

lemma shapes_simps [simp]:
  "shapes [] = []" "shapes (m # t) = m\<lparr>ms_content := []\<rparr> # shapes t"
  "shapes (t @ u) = shapes t @ shapes u"
  by (simp_all add: shapes_def)

lemma compaction_same_shape [simp]: "shapes (CompactExplorationTranscript uni t) = shapes t"
proof -
  have "length (CompactExplorationTranscript uni t) = length t"
    and "\<forall>i < length t. only_content_changes (t ! i) (CompactExplorationTranscript uni t ! i)"
    using compact_rewrites [of t uni] by (auto simp: rewritten_at_def)
  then show ?thesis by (auto simp: shapes_def list_eq_iff_nth_eq only_content_changes_shape)
qed

lemma tool_ids_shapes [simp]: "tool_ids (shapes t) = tool_ids t"
  by (induction t) simp_all

lemma shape_of_added [simp]:
  "(failure_message call cause gate)\<lparr>ms_content := []\<rparr> = tool_shape call"
  "(zero_Message\<lparr>ms_role := ''tool'', ms_content := c, ms_tool_call_id := mt_id call\<rparr>)\<lparr>ms_content := []\<rparr>
    = tool_shape call"
  "(generationHandoffMessage plan)\<lparr>ms_content := []\<rparr> = handoff_shape"
  by (simp_all add: failure_message_def tool_shape_def generationHandoffMessage_def handoff_shape_def
    zero_Message_def)

lemma tool_shape_fields [simp]:
  "ms_role (tool_shape call) = ''tool''" "ms_tool_call_id (tool_shape call) = mt_id call"
  "\<not> ms_segment_boundary (tool_shape call)" "ms_role handoff_shape = ''user''"
  "ms_segment_boundary handoff_shape"
  by (simp_all add: tool_shape_def handoff_shape_def)

subsection \<open>What handling a call does to the run\<close>

text \<open>
  The run after a call that does not end the turn: the generations it knows may have changed,
  and the transcript has one tool message more, and the handoff after it when a segment is
  opened.
\<close>

definition answered :: "ModelTool \<Rightarrow> AgentRun \<Rightarrow> AgentRun \<Rightarrow> bool" where
  "answered call run run' \<longleftrightarrow> ag_id run' = ag_id run \<and>
     shapes (ag_transcript run') \<in> {shapes (ag_transcript run) @ [tool_shape call],
       shapes (ag_transcript run) @ [tool_shape call, handoff_shape]}"

lemma answered_tool_ids:
  "answered call run run' \<Longrightarrow> tool_ids (ag_transcript run') = tool_ids (ag_transcript run) @ [mt_id call]"
  by (auto simp: answered_def dest!: arg_cong [of _ _ tool_ids])

lemma recoverable_failure_run:
  assumes "recordRecoverableToolFailure h step call cause gate s = (Inr x, s')"
  shows "tn_run s' = add_message (failure_message call cause gate) (tn_run s)"
  using assms unfolding recordRecoverableToolFailure_def
  by (auto elim!: h_then_InrE simp: change_run_def
    dest!: same_runD [OF same_run_with_run [OF same_run_on_world]])

lemma recoverable_failure_answered:
  "recordRecoverableToolFailure h step call cause gate s = (Inr x, s') \<Longrightarrow>
   answered call (tn_run s) (tn_run s')"
  by (simp add: recoverable_failure_run answered_def)

lemma refuse_call_answered:
  assumes "refuse_call h step call identity refused s = (Inr go_on, s')"
  shows "go_on \<and> answered call (tn_run s) (tn_run s')"
  using assms unfolding refuse_call_def
  by (auto elim!: h_then_InrE dest: recoverable_failure_answered
    dest!: same_runD [OF same_run_trace_call])

lemma tool_failed_answered:
  assumes "tool_failed h step call identity failure s = (Inr go_on, s')"
  shows "go_on \<and> answered call (tn_run s) (tn_run s')"
  using assms unfolding tool_failed_def
  by (auto elim!: h_then_InrE dest: recoverable_failure_answered split: if_splits
    dest!: same_runD [OF same_run_trace_call] same_runD [OF same_run_with_run [OF same_run_on_world]])

lemma note_artifact_run:
  assumes "note_artifact h step call artifact s = (Inr x, s')"
  shows "ag_id (tn_run s') = ag_id (tn_run s) \<and> ag_transcript (tn_run s') = ag_transcript (tn_run s)"
  using assms unfolding note_artifact_def
  by (auto simp: change_run_def with_run_def split: option.splits if_splits)

lemma add_result_answered: "answered call run (add_result h content call ready run)"
  by (simp add: answered_def add_result_def Let_def split: option.split)

text \<open>The run at the end of a successful tool call.\<close>

lemma tool_succeeded_run:
  assumes "tool_succeeded h step call identity result s = (Inr go_on, s')"
  obtains content ready run where "go_on" and "tn_run s' = add_result h content call ready run"
    and "ag_id run = ag_id (tn_run s)" and "ag_transcript run = ag_transcript (tn_run s)"
proof -
  from assms have "\<exists>s1 content ready. note_artifact h step call (to_artifact result) s = (Inr (), s1) \<and>
      go_on \<and> tn_run s' = add_result h content call ready (tn_run s1)"
    unfolding tool_succeeded_def
    by (auto elim!: h_then_InrE simp: change_run_def h_lift_def
      dest!: same_runD [OF same_run_trace_success] same_runD [OF same_run_with_run [OF same_run_on_world]])
      blast
  then obtain s1 content ready where "note_artifact h step call (to_artifact result) s = (Inr (), s1)"
    "go_on" "tn_run s' = add_result h content call ready (tn_run s1)" by blast
  with note_artifact_run [of h step call "to_artifact result" s "()" s1] that show thesis by metis
qed

lemma tool_succeeded_answered:
  assumes "tool_succeeded h step call identity result s = (Inr go_on, s')"
  shows "go_on \<and> answered call (tn_run s) (tn_run s')"
proof (rule tool_succeeded_run [OF assms])
  fix content ready run
  assume "go_on" "tn_run s' = add_result h content call ready run"
    "ag_id run = ag_id (tn_run s)" "ag_transcript run = ag_transcript (tn_run s)"
  then show ?thesis using add_result_answered [of call run h content ready] by (simp add: answered_def)
qed

lemma ask_user_stops: "ask_user h step call identity payload s = (Inr go_on, s') \<Longrightarrow> \<not> go_on"
  unfolding ask_user_def by (auto elim!: h_then_InrE split: option.splits)

lemma run_tool_answered:
  assumes "run_tool h step call identity s = (Inr True, s')"
  shows "answered call (tn_run s) (tn_run s')"
  using assms unfolding run_tool_def
  by (auto elim!: h_then_InrE split: sum.splits option.splits
    dest!: tool_failed_answered tool_succeeded_answered ask_user_stops
    same_runD [OF same_run_trace_call] same_runD [OF same_run_execute])

lemma handle_call_answered:
  assumes "handle_call h call s = (Inr True, s')"
  shows "answered call (tn_run s) (tn_run s')"
  using assms unfolding handle_call_def
  by (auto elim!: h_then_InrE split: option.splits
    dest!: refuse_call_answered run_tool_answered same_runD [OF same_run_propose] same_runD [OF same_run_with_run [OF same_run_on_world]])

text \<open>
  The messages added for calls that do not end the turn: one tool message for every call, in
  their order, each possibly followed by a handoff.
\<close>

inductive answers :: "ModelTool list \<Rightarrow> Message list \<Rightarrow> bool" where
  answers_Nil: "answers [] []"
| answers_plain: "answers calls t \<Longrightarrow> answers (call # calls) (tool_shape call # t)"
| answers_handoff: "answers calls t \<Longrightarrow> answers (call # calls) (tool_shape call # handoff_shape # t)"

lemma answers_tool_ids: "answers calls t \<Longrightarrow> tool_ids t = map mt_id calls"
  by (induction rule: answers.induct) simp_all

lemma handle_calls_answers:
  assumes "handle_calls h calls s = (Inr True, s')"
  shows "ag_id (tn_run s') = ag_id (tn_run s) \<and>
    (\<exists>t. shapes (ag_transcript (tn_run s')) = shapes (ag_transcript (tn_run s)) @ t \<and> answers calls t)"
  using assms
proof (induction calls arbitrary: s)
  case Nil
  then show ?case by (auto intro: answers_Nil)
next
  case (Cons call calls)
  then obtain s1 where s1: "handle_call h call s = (Inr True, s1)" "handle_calls h calls s1 = (Inr True, s')"
    by (auto elim!: h_then_InrE split: if_splits)
  from handle_call_answered [OF s1(1)] Cons.IH [OF s1(2)]
  show ?case by (auto simp: answered_def intro: answers_plain answers_handoff)
qed

end
