(* ===== verification/HarnessProperties.thy ===== *)
theory HarnessProperties
  imports HarnessLaws AgentProperties
begin

section \<open>Properties of the harness\<close>

subsection \<open>Actions on the repository in memory\<close>

lemma h_runs_Inr: "m (hw_sys w) = (Inr x, s) \<Longrightarrow> h_runs m w = (Inr x, w\<lparr>hw_sys := s\<rparr>)"
  by (simp add: h_runs_def)

lemma h_runs_Inl: "m (hw_sys w) = (Inl e, s) \<Longrightarrow> h_runs m w = (Inl (RunError e), w\<lparr>hw_sys := s\<rparr>)"
  by (simp add: h_runs_def)

lemma h_runs_InrE:
  assumes "h_runs m w = (Inr x, w')"
  obtains s where "m (hw_sys w) = (Inr x, s)" and "w' = w\<lparr>hw_sys := s\<rparr>"
  using assms by (auto simp: h_runs_def split: prod.splits sum.splits)

lemma GetRun_memory:
  assumes "sv_repository svc = agent_memory_repo" and "sys_ok agent_memory_inv s"
    and "current_run s run_id = Some r"
  shows "GetRun svc run_id s = (Inr r, s)"
  by (rule agent_mem.GetRun_effect [OF assms(1,2)]) (use assms(3) in \<open>simp add: view_current\<close>)

lemma ListEvents_memory:
  assumes "sv_repository svc = agent_memory_repo" and "sys_ok agent_memory_inv s"
    and "current_run s run_id = Some r"
  shows "\<exists>es. ListEvents svc run_id 0 s = (Inr es, s)"
  using assms agent_mem.events_law [of "sy_repo s"]
  by (auto simp: ListEvents_def reading_def sys_ok_def spec_events_def memory_view_def current_run_def
    split: option.splits)

lemma pendingToolTraceIdentity_memory:
  assumes "sv_repository svc = agent_memory_repo" and "sys_ok agent_memory_inv s"
    and "current_run s (ag_id run) = Some r"
  shows "\<exists>pending. pendingToolTraceIdentity svc run i s = (Inr pending, s)"
  using ListEvents_memory [OF assms]
  by (auto simp: pendingToolTraceIdentity_def and_then_def done_with_def split: option.split)

subsection \<open>Every tool call is answered\<close>

text \<open>
  C14. A turn that goes on has answered every tool call of the response, in the order of the
  calls and with nothing but tool messages and handoffs: whether a call was refused, failed or
  succeeded, exactly one tool message carries its id. With compaction or without.
\<close>

theorem calls_are_answered:
  "case handle_turn h response s of
     (Inr True, s') \<Rightarrow> ag_id (tn_run s') = ag_id (tn_run s) \<and>
       (\<exists>t. shapes (ag_transcript (tn_run s')) = shapes (ag_transcript (tn_run s)) @ t \<and>
         answers (rs_tool_calls response) t \<and> tool_ids t = map mt_id (rs_tool_calls response))
   | _ \<Rightarrow> True"
proof -
  have "ag_id (tn_run s') = ag_id (tn_run s) \<and>
      (\<exists>t. shapes (ag_transcript (tn_run s')) = shapes (ag_transcript (tn_run s)) @ t \<and>
        answers (rs_tool_calls response) t \<and> tool_ids t = map mt_id (rs_tool_calls response))"
    if turn: "handle_turn h response s = (Inr True, s')" for s'
  proof -
    from turn obtain s1 where s1: "tn_run s1 = tn_run s"
      and rest: "(if rs_tool_calls response = [] then complete_turn h
        else handle_calls h (rs_tool_calls response)) s1 = (Inr True, s')"
      unfolding handle_turn_def
      by (auto elim!: h_then_InrE dest!: same_runD [OF same_run_if [OF same_run_with_run [OF same_run_on_world]]])
    from rest have "rs_tool_calls response \<noteq> []"
      by (auto simp: complete_turn_def elim!: h_then_InrE)
    with rest handle_calls_answers [of h "rs_tool_calls response" s1 s'] s1 answers_tool_ids
    show ?thesis by auto
  qed
  then show ?thesis by (auto split: prod.split sum.split bool.split)
qed

subsection \<open>What a turn may do\<close>

definition plan_completed :: "'p plan_repo \<Rightarrow> 'p \<Rightarrow> string \<Rightarrow> bool" where
  "plan_completed repo p run_id \<longleftrightarrow>
     (case repo_current repo p run_id of Inl _ \<Rightarrow> False | Inr plan \<Rightarrow> pl_status plan = StatusCompleted)"

lemma message_keeps_plans:
  "h_if b (with_run (\<lambda>run. on_world (h_runs (f run)))) s = (r, s') \<Longrightarrow>
   hw_plans (tn_world s') = hw_plans (tn_world s) \<and> tn_run s' = tn_run s"
  by (auto simp: h_if_def h_done_def with_run_def on_world_def h_runs_def
    split: prod.splits sum.splits if_splits)

lemma check_plan_completed_iff:
  "check_plan_completed (h\<lparr>hs_plans := Some repo\<rparr>) run p = None \<longleftrightarrow> plan_completed repo p (ag_id run)"
  by (simp add: check_plan_completed_def plan_completed_def split: sum.split)

text \<open>
  C16. A response without tool calls ends the run only if the current plan of the run is completed:
  with any other status, or without a plan, the turn fails and the run is not completed.
\<close>

theorem completion_needs_completed_plan:
  "case handle_turn (h\<lparr>hs_plans := Some repo\<rparr>) (response\<lparr>rs_tool_calls := []\<rparr>) s of
     (Inr go_on, s') \<Rightarrow> \<not> go_on \<and> plan_completed repo (hw_plans (tn_world s)) (ag_id (tn_run s))
   | (Inl e, s') \<Rightarrow> plan_completed repo (hw_plans (tn_world s)) (ag_id (tn_run s)) \<or> tn_run s' = tn_run s"
proof -
  let ?h = "h\<lparr>hs_plans := Some repo\<rparr>"
  let ?says = "h_if (\<not> blank (rs_content response))
    (with_run (\<lambda>run. on_world (h_runs (recordMessage (hs_runs h) run (rs_content response)))))"
  obtain r1 s1 where said: "?says s = (r1, s1)" by force
  from message_keeps_plans [OF said]
  have same: "hw_plans (tn_world s1) = hw_plans (tn_world s)" "tn_run s1 = tn_run s" by simp_all
  have turn: "handle_turn ?h (response\<lparr>rs_tool_calls := []\<rparr>) s =
      (case r1 of Inl e \<Rightarrow> (Inl e, s1) | Inr _ \<Rightarrow> complete_turn ?h s1)"
    using said by (simp add: handle_turn_def h_then_def [of ?says])
  have check: "complete_turn ?h s1 = (Inl e, s1)"
    if "check_plan_completed ?h (tn_run s) (hw_plans (tn_world s)) = Some e" for e
    using that same by (simp add: complete_turn_def h_then_def with_run_def on_world_def h_check_def)
  show ?thesis
  proof (cases "plan_completed repo (hw_plans (tn_world s)) (ag_id (tn_run s))")
    case True
    have "\<not> go_on" if "complete_turn ?h s1 = (Inr go_on, s')" for go_on s'
      using that by (auto simp: complete_turn_def elim!: h_then_InrE)
    with True turn show ?thesis by (auto split: sum.split prod.split)
  next
    case False
    then obtain e where "check_plan_completed ?h (tn_run s) (hw_plans (tn_world s)) = Some e"
      by (metis check_plan_completed_iff option.exhaust)
    from check [OF this] turn False same show ?thesis by (auto split: sum.split)
  qed
qed

lemma propose_keeps_plans:
  assumes "propose_call h call s = (Inr x, s1)"
  shows "hw_plans (tn_world s1) = hw_plans (tn_world s) \<and> hw_ticks (tn_world s1) = hw_ticks (tn_world s) \<and>
    tn_run s1 = tn_run s"
  using assms unfolding propose_call_def identify_call_def trace_call_def
  by (auto elim!: h_then_InrE simp: with_run_def on_world_def h_runs_def
    split: prod.splits sum.splits)

lemma propose_ignores_tools: "propose_call (h\<lparr>hs_tools := f\<rparr>) call = propose_call h call"
  by (simp add: propose_call_def identify_call_def trace_call_def cong: sum.case_cong)

lemma refuse_ignores_tools: "refuse_call (h\<lparr>hs_tools := f\<rparr>) step call identity r = refuse_call h step call identity r"
  by (simp add: refuse_call_def recordRecoverableToolFailure_def trace_call_def)

lemma authorize_ignores_tools: "authorize_call (h\<lparr>hs_tools := f\<rparr>) run call = authorize_call h run call"
  by (rule ext) (simp add: authorize_call_def plan_authorizes_def policy_plan_def plan_refusal_def h_clock_def
    h_then_def split: option.split sum.split)

definition refused_by_policy :: "('s, 'p, 't) harness \<Rightarrow> AgentRun \<Rightarrow> ModelTool \<Rightarrow> ('s, 'p, 't) harness_world \<Rightarrow> bool" where
  "refused_by_policy h run call w \<longleftrightarrow>
     (case policy_plan h run call (hw_plans w) of Inl _ \<Rightarrow> True
      | Inr plan \<Rightarrow> BeforeToolCall (hs_exploration h) (hs_now h (hw_ticks w)) run call plan \<noteq> None)"

text \<open>
  C17. A call that the plan does not authorise never reaches the tools: whatever the tools would do,
  handling the call has the same outcome. The same holds for a call the policy refuses.
\<close>

theorem refused_calls_are_not_executed:
  assumes "plan_authorizes h (tn_run s) call (hw_plans (tn_world s)) \<noteq> None \<or>
    refused_by_policy h (tn_run s) call (tn_world s)"
  shows "handle_call (h\<lparr>hs_tools := f\<rparr>) call s = handle_call h call s"
proof -
  have "(case x of (step_id, identity) \<Rightarrow>
      h_then (with_run (\<lambda>run. on_world (authorize_call (h\<lparr>hs_tools := f\<rparr>) run call))) (\<lambda>refused.
        case refused of Some r \<Rightarrow> refuse_call (h\<lparr>hs_tools := f\<rparr>) step_id call identity r
        | None \<Rightarrow> run_tool (h\<lparr>hs_tools := f\<rparr>) step_id call identity)) s1 =
      (case x of (step_id, identity) \<Rightarrow>
      h_then (with_run (\<lambda>run. on_world (authorize_call h run call))) (\<lambda>refused.
        case refused of Some r \<Rightarrow> refuse_call h step_id call identity r
        | None \<Rightarrow> run_tool h step_id call identity)) s1"
    if p: "propose_call h call s = (Inr x, s1)" for x s1
    using assms propose_keeps_plans [OF p]
    by (auto simp: authorize_ignores_tools refuse_ignores_tools h_then_def with_run_def on_world_def
      authorize_call_def refused_by_policy_def h_clock_def
      split: prod.split sum.split option.split)
  then show ?thesis
    by (simp add: handle_call_def h_then_def [of "propose_call h call"] propose_ignores_tools
      split: prod.split sum.split)
qed

subsection \<open>Cost fuses\<close>

text \<open>What a run is charged with, in the order in which the handler accounts for it.\<close>

datatype charge = ModelCall Telemetry | TranscriptSaved "Message list"

fun charge_all ::
  "('s, 'p, 't) harness \<Rightarrow> AgentRun \<Rightarrow> charge list \<Rightarrow> (('s, 'p, 't) harness_world, unit) hact" where
  "charge_all h run [] = h_done ()"
| "charge_all h run (ModelCall telemetry # cs) =
     h_then (recordRunCost h run telemetry) (\<lambda>_. charge_all h run cs)"
| "charge_all h run (TranscriptSaved messages # cs) =
     h_then (recordTranscriptCost h (run\<lparr>ag_transcript := messages\<rparr>)) (\<lambda>_. charge_all h run cs)"

text \<open>
  The books of a run, independently of how the harness keeps them: the number of its model calls,
  the sum of the tokens they reported, the size of the last transcript.
\<close>

fun calls_of :: "charge \<Rightarrow> int" where
  "calls_of (ModelCall telemetry) = 1"
| "calls_of (TranscriptSaved messages) = 0"

fun tokens_of :: "charge \<Rightarrow> int" where
  "tokens_of (ModelCall telemetry) = (case mu_total_tokens (tm_usage telemetry) of None \<Rightarrow> 0 | Some n \<Rightarrow> n)"
| "tokens_of (TranscriptSaved messages) = 0"

fun bytes_after :: "charge \<Rightarrow> int \<Rightarrow> int" where
  "bytes_after (ModelCall telemetry) b = b"
| "bytes_after (TranscriptSaved messages) b = serializedTranscriptBytes messages"

definition spent :: "charge list \<Rightarrow> int \<times> int \<times> int" where
  "spent cs = (sum_list (map calls_of cs), wrap64 (sum_list (map tokens_of cs)), fold bytes_after cs 0)"

definition affordable :: "RunCostLimits \<Rightarrow> int \<times> int \<times> int \<Rightarrow> bool" where
  "affordable l = (\<lambda>(calls, sum_tokens, bytes).
     (rcl_MaxModelCalls l \<le> 0 \<or> calls \<le> rcl_MaxModelCalls l) \<and>
     (rcl_MaxTotalTokens l \<le> 0 \<or> sum_tokens \<le> rcl_MaxTotalTokens l) \<and>
     (rcl_MaxTranscriptBytes l \<le> 0 \<or> bytes \<le> rcl_MaxTranscriptBytes l))"

text \<open>The error names a limit that is set and exceeded, its amount and its maximum.\<close>

definition reports_excess :: "RunCostLimits \<Rightarrow> int \<times> int \<times> int \<Rightarrow> RunCostLimitError \<Rightarrow> bool" where
  "reports_excess l = (\<lambda>(calls, sum_tokens, bytes) x. \<exists>limit amount maximum.
     (limit, amount, maximum) \<in> {(''model_calls'', calls, rcl_MaxModelCalls l),
       (''total_tokens'', sum_tokens, rcl_MaxTotalTokens l),
       (''transcript_bytes'', bytes, rcl_MaxTranscriptBytes l)} \<and>
     0 < maximum \<and> maximum < amount \<and>
     x = \<lparr>rce_Limit = limit, rce_Current = itoa amount, rce_Max = itoa maximum, rce_LimitType = limit\<rparr>)"

text \<open>The counters of the active run agree with the books, as far as a limit looks at them.\<close>

definition keeps_books :: "RunCostLimits \<Rightarrow> activeRun \<Rightarrow> charge list \<Rightarrow> bool" where
  "keeps_books l a cs \<longleftrightarrow> (case spent cs of (calls, sum_tokens, bytes) \<Rightarrow>
     ac_modelCalls a = calls \<and> ac_totalTokens a = sum_tokens \<and>
     (rcl_MaxTranscriptBytes l \<le> 0 \<or> ac_transcriptBytes a = bytes))"

lemma spent_snoc:
  "spent (cs @ [c]) = (case spent cs of (calls, sum_tokens, bytes) \<Rightarrow>
     (calls + calls_of c, wrap64 (sum_tokens + tokens_of c), bytes_after c bytes))"
  by (simp add: spent_def wrap64_def mod_simps algebra_simps)

lemma cost_verdict:
  assumes "keeps_books l a cs"
  shows "case costLimitError l (exceed l a) (ac_modelCalls a) (ac_totalTokens a) (ac_transcriptBytes a) of
    None \<Rightarrow> affordable l (spent cs)
  | Some x \<Rightarrow> reports_excess l (spent cs) x"
  using assms
  by (auto simp: keeps_books_def costLimitError_def exceed_def affordable_def reports_excess_def Let_def
    split: prod.splits)

lemma wrap64_idem [simp]: "wrap64 (wrap64 n) = wrap64 n"
  by (simp add: wrap64_def)

lemma books_of_call:
  "keeps_books l a past \<Longrightarrow>
   keeps_books l (updateCost 1 (tokens_of (ModelCall t)) (ac_transcriptBytes a) a) (past @ [ModelCall t])"
  by (auto simp: keeps_books_def spent_snoc updateCost_def split: prod.splits)

lemma books_of_transcript:
  "keeps_books l a past \<Longrightarrow>
   keeps_books l (a\<lparr>ac_transcriptBytes := serializedTranscriptBytes messages\<rparr>) (past @ [TranscriptSaved messages])"
proof -
  obtain calls sums bytes where past: "spent past = (calls, sums, bytes)" by (cases "spent past")
  then have "wrap64 sums = sums" by (auto simp: spent_def)
  then show "keeps_books l a past \<Longrightarrow> ?thesis" by (auto simp: keeps_books_def spent_snoc past)
qed

lemma h_then_done: "h_then m h_done = m"
  by (rule ext) (auto simp: h_then_def h_done_def split: prod.splits sum.splits)

lemma charge_one:
  assumes "cost_limits_Enabled (hs_costLimits h)" and active: "hw_active w (ag_id run) = Some a"
    and books: "keeps_books (hs_costLimits h) a past" and within: "affordable (hs_costLimits h) (spent past)"
  shows "case charge_all h run [c] w of
    (Inr _, w') \<Rightarrow> affordable (hs_costLimits h) (spent (past @ [c])) \<and>
      (\<exists>a'. hw_active w' (ag_id run) = Some a' \<and> keeps_books (hs_costLimits h) a' (past @ [c]))
  | (Inl e, _) \<Rightarrow> \<exists>x. e = CostLimitExceeded x \<and> reports_excess (hs_costLimits h) (spent (past @ [c])) x"
proof -
  let ?l = "hs_costLimits h"
  have checked: ?thesis
    if books': "keeps_books ?l a' (past @ [c])" and active': "hw_active w' (ag_id run) = Some a'"
      and step: "charge_all h run [c] w = h_check (map_option CostLimitExceeded (costLimitError ?l (exceed ?l a')
        (ac_modelCalls a') (ac_totalTokens a') (ac_transcriptBytes a'))) w'" for a' w'
    unfolding step using cost_verdict [OF books'] books' active'
    by (cases "costLimitError ?l (exceed ?l a') (ac_modelCalls a') (ac_totalTokens a') (ac_transcriptBytes a')")
      (simp_all add: h_check_def)
  show ?thesis
  proof (cases c)
    case (ModelCall t)
    show ?thesis
      by (rule checked [where a' = "updateCost 1 (tokens_of c) (ac_transcriptBytes a) a"
            and w' = "h_active (ag_id run) (\<lambda>a. updateCost 1 (tokens_of c) (ac_transcriptBytes a) a) w"])
        (use books_of_call [OF books, of t] assms(1) active in
          \<open>simp_all add: ModelCall recordRunCost_def Let_def h_active_def h_then_done\<close>)
  next
    case (TranscriptSaved messages)
    show ?thesis
    proof (cases "rcl_MaxTranscriptBytes ?l \<le> 0")
      case True
      obtain calls sums bytes where past: "spent past = (calls, sums, bytes)" by (cases "spent past")
      have "wrap64 sums = sums" using past by (auto simp: spent_def)
      with True active books within show ?thesis
        by (auto simp: TranscriptSaved recordTranscriptCost_def h_then_def h_done_def keeps_books_def spent_snoc past
          affordable_def)
    next
      case False
      show ?thesis
        by (rule checked [where a' = "a\<lparr>ac_transcriptBytes := serializedTranscriptBytes messages\<rparr>"
              and w' = "h_active (ag_id run) (\<lambda>a. a\<lparr>ac_transcriptBytes := serializedTranscriptBytes messages\<rparr>) w"])
          (use books_of_transcript [OF books, of messages] False active in
            \<open>simp_all add: TranscriptSaved recordTranscriptCost_def Let_def h_active_def h_then_done\<close>)
    qed
  qed
qed

lemma charge_all_Cons: "charge_all h run (c # cs) = h_then (charge_all h run [c]) (\<lambda>_. charge_all h run cs)"
  by (cases c) (auto simp: h_then_def h_done_def fun_eq_iff split: prod.splits sum.splits)

lemma charges_from:
  assumes "cost_limits_Enabled (hs_costLimits h)"
  shows "hw_active w (ag_id run) = Some a \<Longrightarrow> keeps_books (hs_costLimits h) a past \<Longrightarrow>
    affordable (hs_costLimits h) (spent past) \<Longrightarrow>
    (case charge_all h run cs w of
       (Inr _, w') \<Rightarrow> (\<forall>n \<le> length cs. affordable (hs_costLimits h) (spent (past @ take n cs)))
     | (Inl e, w') \<Rightarrow> \<exists>n < length cs. (\<forall>m \<le> n. affordable (hs_costLimits h) (spent (past @ take m cs))) \<and>
         (\<exists>x. e = CostLimitExceeded x \<and> reports_excess (hs_costLimits h) (spent (past @ take (Suc n) cs)) x))"
proof (induction cs arbitrary: w a past)
  case Nil
  then show ?case by (simp add: h_done_def)
next
  case (Cons c cs)
  note one = charge_one [OF assms Cons.prems, of c]
  obtain r w1 where w1: "charge_all h run [c] w = (r, w1)" by force
  show ?case
  proof (cases r)
    case (Inl e)
    with one w1 Cons.prems(3) show ?thesis
      by (auto simp: charge_all_Cons [of h run c cs] h_then_def intro!: exI [of _ 0])
  next
    case (Inr u)
    with one w1 obtain a' where a': "hw_active w1 (ag_id run) = Some a'"
      "keeps_books (hs_costLimits h) a' (past @ [c])" "affordable (hs_costLimits h) (spent (past @ [c]))" by auto
    have upto: "\<forall>m \<le> Suc n. affordable (hs_costLimits h) (spent (past @ take m (c # cs)))"
      if "\<forall>m \<le> n. affordable (hs_costLimits h) (spent ((past @ [c]) @ take m cs))" for n
      using that Cons.prems(3) by (auto simp: take_Cons' split: nat.splits)
    have all: "charge_all h run (c # cs) w = charge_all h run cs w1"
      by (simp add: charge_all_Cons [of h run c cs] h_then_def w1 Inr)
    obtain q w2 where q: "charge_all h run cs w1 = (q, w2)" by force
    show ?thesis
    proof (cases q)
      case (Inl e)
      with Cons.IH [OF a'] q obtain n x where n: "n < length cs"
        "\<forall>m \<le> n. affordable (hs_costLimits h) (spent ((past @ [c]) @ take m cs))"
        "e = CostLimitExceeded x" "reports_excess (hs_costLimits h) (spent ((past @ [c]) @ take (Suc n) cs)) x"
        by auto
      with upto [OF n(2)] show ?thesis unfolding all q Inl
        by (auto intro!: exI [of _ "Suc n"])
    next
      case (Inr v)
      with Cons.IH [OF a'] q upto [of "length cs"] show ?thesis unfolding all q Inr by auto
    qed
  qed
qed

text \<open>
  C27. A run is charged with any sequence of model calls and transcripts. As long as the charges
  are accepted, the model calls, tokens and bytes spent are within every limit that is set; the
  first charge that exceeds a limit, and no earlier one, stops the run, with an error that names
  a limit really exceeded, the amount spent and the maximum.
\<close>

theorem run_stays_within_limits:
  assumes "cost_limits_Enabled (hs_costLimits h)"
    and "hw_active w (ag_id run) = Some (new_activeRun ctx)"
  shows "case charge_all h run cs w of
    (Inr _, w') \<Rightarrow> (\<forall>n \<le> length cs. affordable (hs_costLimits h) (spent (take n cs)))
  | (Inl e, w') \<Rightarrow> \<exists>n < length cs. (\<forall>m \<le> n. affordable (hs_costLimits h) (spent (take m cs))) \<and>
      (\<exists>x. e = CostLimitExceeded x \<and> reports_excess (hs_costLimits h) (spent (take (Suc n) cs)) x)"
proof -
  have "keeps_books (hs_costLimits h) (new_activeRun ctx) []" "affordable (hs_costLimits h) (spent [])"
    by (auto simp: keeps_books_def affordable_def spent_def new_activeRun_def wrap64_def)
  from charges_from [OF assms this, of cs, unfolded append_Nil] show ?thesis .
qed

subsection \<open>A harness to try the properties on\<close>

text \<open>Nothing answers: the model is unreachable, every tool fails. No plan exists yet.\<close>

definition sample_harness :: "(agent_memory, string \<Rightarrow> Plan list, unit) harness" where
  "sample_harness = \<lparr>hs_runs = sample_service, hs_loop = NewLoop ''You test web applications.'' 3,
     hs_plans = Some memory_repo, hs_now = int,
     hs_exploration = \<lparr>gc_MaxExplorePageCalls = 3, gc_MaxExploreFlowCalls = 3,
       gc_MaxRunExplorePageCalls = 8, gc_MaxRunExploreFlowCalls = 8,
       gc_MaxRepeatedExplorePageSignatureCalls = 2, gc_MaxRepeatedExploreFlowSignatureCalls = 2,
       gc_MaxRunWallTime = 0, gc_ExploreReserve = 0\<rparr>,
     hs_costLimits = \<lparr>rcl_MaxModelCalls = 40, rcl_MaxTotalTokens = 3000000, rcl_MaxTranscriptBytes = 2000000\<rparr>,
     hs_perTurnTranscriptCompaction = True, hs_unicode = (\<lambda>_. False),
     hs_model = (\<lambda>sink messages. h_stop (ModelFailure ''connection refused'' False)),
     hs_tools = (\<lambda>call w. (Inl \<lparr>xe_text = ''no browser'', xe_canceled = False\<rparr>, w)),
     hs_text = (\<lambda>e. ''failed'')\<rparr>"

definition sample_world :: "(agent_memory, string \<Rightarrow> Plan list, unit) harness_world" where
  "sample_world = \<lparr>hw_sys = started, hw_plans = NewMemoryRepository, hw_ticks = 0, hw_active = (\<lambda>_. None),
     hw_contexts = 0, hw_cancelled = {}, hw_rest = ()\<rparr>"

definition sample_turn :: "(agent_memory, string \<Rightarrow> Plan list, unit) turn_state" where
  "sample_turn = \<lparr>tn_world = sample_world, tn_run = sample_run,
     tn_call = \<lparr>cc_logical_call_id = ''call_1'', cc_step_id = ''step_1'', cc_state = zero_PipelineState,
       cc_cache_identity = []\<rparr>\<rparr>"

theorem refused_calls_are_not_executed_witness:
  "handle_call (sample_harness\<lparr>hs_tools := (\<lambda>call w. (Inr \<lparr>to_content = ''{}'', to_artifact = None,
      to_pending = None\<rparr>, w))\<rparr>) \<lparr>mt_id = ''t1'', mt_name = ''get_report'', mt_arguments = ''{}''\<rparr> sample_turn =
   handle_call sample_harness \<lparr>mt_id = ''t1'', mt_name = ''get_report'', mt_arguments = ''{}''\<rparr> sample_turn"
proof (rule refused_calls_are_not_executed)
  have "plan_authorizes sample_harness (tn_run sample_turn)
      \<lparr>mt_id = ''t1'', mt_name = ''get_report'', mt_arguments = ''{}''\<rparr> (hw_plans (tn_world sample_turn)) \<noteq> None"
    by code_simp
  then show "plan_authorizes sample_harness (tn_run sample_turn)
      \<lparr>mt_id = ''t1'', mt_name = ''get_report'', mt_arguments = ''{}''\<rparr> (hw_plans (tn_world sample_turn)) \<noteq> None \<or>
    refused_by_policy sample_harness (tn_run sample_turn)
      \<lparr>mt_id = ''t1'', mt_name = ''get_report'', mt_arguments = ''{}''\<rparr> (tn_world sample_turn)" ..
qed

text \<open>With one call allowed, the second one stops the run.\<close>

definition one_call :: "(agent_memory, string \<Rightarrow> Plan list, unit) harness" where
  "one_call = sample_harness\<lparr>hs_costLimits :=
     \<lparr>rcl_MaxModelCalls = 1, rcl_MaxTotalTokens = 0, rcl_MaxTranscriptBytes = 0\<rparr>\<rparr>"

definition one_call_world :: "(agent_memory, string \<Rightarrow> Plan list, unit) harness_world" where
  "one_call_world = sample_world\<lparr>hw_active := [ag_id sample_run \<mapsto> new_activeRun 0]\<rparr>"

theorem run_stays_within_limits_witness:
  "\<forall>t. case charge_all one_call sample_run [ModelCall t, ModelCall t] one_call_world of
    (Inr _, w') \<Rightarrow> False
  | (Inl e, w') \<Rightarrow> \<exists>n < length [ModelCall t, ModelCall t].
      (\<forall>m \<le> n. affordable (hs_costLimits one_call) (spent (take m [ModelCall t, ModelCall t]))) \<and>
      (\<exists>x. e = CostLimitExceeded x \<and>
        reports_excess (hs_costLimits one_call) (spent (take (Suc n) [ModelCall t, ModelCall t])) x)"
proof
  fix t
  have limits: "cost_limits_Enabled (hs_costLimits one_call)"
    by (simp add: one_call_def cost_limits_Enabled_def)
  have active: "hw_active one_call_world (ag_id sample_run) = Some (new_activeRun 0)"
    by (simp add: one_call_world_def)
  have "\<exists>e w. charge_all one_call sample_run [ModelCall t, ModelCall t] one_call_world = (Inl e, w)"
    by (simp add: one_call_def one_call_world_def h_then_def recordRunCost_def cost_limits_Enabled_def Let_def
      h_active_def h_check_def costLimitError_def exceed_def updateCost_def new_activeRun_def
      sample_world_def split_beta)
  then obtain e w where stopped: "charge_all one_call sample_run [ModelCall t, ModelCall t] one_call_world = (Inl e, w)"
    by blast
  from run_stays_within_limits [OF limits active, of "[ModelCall t, ModelCall t]", unfolded stopped prod.case sum.case]
  show "case charge_all one_call sample_run [ModelCall t, ModelCall t] one_call_world of
      (Inr _, w') \<Rightarrow> False
    | (Inl e, w') \<Rightarrow> \<exists>n < length [ModelCall t, ModelCall t].
        (\<forall>m \<le> n. affordable (hs_costLimits one_call) (spent (take m [ModelCall t, ModelCall t]))) \<and>
        (\<exists>x. e = CostLimitExceeded x \<and>
          reports_excess (hs_costLimits one_call) (spent (take (Suc n) [ModelCall t, ModelCall t])) x)"
    unfolding stopped prod.case sum.case .
qed

end
