(* ===== verification/HarnessEnds.thy ===== *)
theory HarnessEnds
  imports HarnessProperties
begin

section \<open>How runs end and resume\<close>

subsection \<open>After an error of the loop\<close>

lemma view_of_current: "current_run s run_id = Some r \<Longrightarrow> memory_view (sy_repo s) run_id = Some (r, event_log s run_id)"
  by (simp add: view_current)

lemma record_event_memory:
  assumes "sv_repository svc = agent_memory_repo" and "sys_ok agent_memory_inv s"
    and "current_run s (ag_id run) = Some r"
  shows "\<exists>x s'. record_events svc run [event] s = (x, s') \<and> sys_ok agent_memory_inv s' \<and>
    current_run s' (ag_id run) = Some r"
proof -
  from agent_mem.appendEvent_effect [OF assms(1,2) view_of_current [OF assms(3)], of event]
  obtain x s' where a: "appendEvent svc run event s = (x, s')" "sys_ok agent_memory_inv s'"
    and v: "memory_view (sy_repo s') = (if ag_status r = RunStatusCancelled then memory_view (sy_repo s)
      else (memory_view (sy_repo s))(ag_id run \<mapsto>
        (r, event_log s (ag_id run) @ [numbered (event_log s (ag_id run)) (stamped (sv_now svc (sy_ticks s)) run event)])))"
    by blast
  from v have "memory_view (sy_repo s') (ag_id run) = (if ag_status r = RunStatusCancelled
      then memory_view (sy_repo s) (ag_id run) else Some
        (r, event_log s (ag_id run) @ [numbered (event_log s (ag_id run)) (stamped (sv_now svc (sy_ticks s)) run event)]))"
    by simp
  with assms(3) have "\<exists>es. memory_view (sy_repo s') (ag_id run) = Some (r, es)"
    by (simp add: view_of_current split: if_splits)
  then have "current_run s' (ag_id run) = Some r" by (auto simp: view_current)
  with a show ?thesis
    by (cases x) (auto simp: RecordEvent_def and_then_def done_with_def)
qed

lemma ignored_plan_calls:
  assumes "sv_repository (hs_runs h) = agent_memory_repo" and "sys_ok agent_memory_inv (hw_sys w)"
    and "current_run (hw_sys w) (ag_id run) = Some r"
  shows "sys_ok agent_memory_inv (hw_sys (mark_plan_failed h run w)) \<and>
    current_run (hw_sys (mark_plan_failed h run w)) (ag_id run) = Some r"
proof (cases "hs_plans h")
  case None
  with assms show ?thesis by (simp add: mark_plan_failed_def)
next
  case (Some repo)
  define w1 where "w1 = h_ignore (h_then (h_clock h) (\<lambda>now. h_plans PlanError (MarkFailed repo now (ag_id run)))) w"
  have sys: "hw_sys w1 = hw_sys w"
    by (auto simp: w1_def h_ignore_def h_then_def h_clock_def h_plans_def split: prod.splits option.splits)
  have "sys_ok agent_memory_inv (hw_sys (h_ignore (recordTaskPlanState h run [] []) w1)) \<and>
      current_run (hw_sys (h_ignore (recordTaskPlanState h run [] []) w1)) (ag_id run) = Some r"
  proof (cases "plan_of_run (hs_plans h) (hw_plans w1) (ag_id run)")
    case (Inl e)
    with assms sys show ?thesis by (simp add: h_ignore_def recordTaskPlanState_def)
  next
    case (Inr found)
    let ?event = "\<lambda>plan. (new_event EventTaskPlanUpdated)\<lparr>ev_step_id := [], ev_tool_call_id := [],
      ev_payload := Some (plan_payload plan)\<rparr>"
    have "\<exists>x s'. record_events (hs_runs h) run [?event plan] (hw_sys w1) = (x, s') \<and>
        sys_ok agent_memory_inv s' \<and> current_run s' (ag_id run) = Some r" for plan
      by (rule record_event_memory) (use assms sys in simp_all)
    note recorded = this
    show ?thesis
    proof (cases found)
      case None
      with Inr assms sys show ?thesis by (simp add: h_ignore_def recordTaskPlanState_def)
    next
      case (Some plan)
      from recorded [of plan] obtain x s' where
        "record_events (hs_runs h) run [?event plan] (hw_sys w1) = (x, s')"
        "sys_ok agent_memory_inv s'" "current_run s' (ag_id run) = Some r" by blast
      with Inr Some sys show ?thesis
        by (cases x) (simp_all add: h_ignore_def recordTaskPlanState_def h_runs_def)
    qed
  qed
  with Some show ?thesis by (simp add: mark_plan_failed_def w1_def)
qed

text \<open>
  C19. When the loop of a run ends with an error, the run does not stay as it was: a cancelled run
  is returned as it is and without the error; an error that comes from a cancellation leaves
  the stored run to whoever cancelled; after any other error the stored run has failed and
  holds the transcript of the loop.
\<close>

theorem failed_loop_settles_run:
  assumes "sv_repository (hs_runs h) = agent_memory_repo" and "sys_ok agent_memory_inv (hw_sys w)"
    and "current_run (hw_sys w) (ag_id run) = Some r"
  shows "\<exists>result err w' r'. after_error h run e w = ((result, err), w') \<and>
    current_run (hw_sys w') (ag_id run) = Some r' \<and>
    (if ag_status r = RunStatusCancelled then r' = r \<and> result = r \<and> err = None
     else if loop_cancels e then r' = r \<and> result = r \<and> err = Some e
     else result = r' \<and> ag_status r' = RunStatusFailed \<and> ag_transcript r' = ag_transcript run \<and>
       err = Some e)"
proof -
  have got: "h_runs (GetRun (hs_runs h) (ag_id run)) w = (Inr r, w)"
    using h_runs_Inr [of "GetRun (hs_runs h) (ag_id run)" w r "hw_sys w"] GetRun_memory [OF assms] by simp
  consider "ag_status r = RunStatusCancelled" | "ag_status r \<noteq> RunStatusCancelled" "loop_cancels e"
    | "ag_status r \<noteq> RunStatusCancelled" "\<not> loop_cancels e" by blast
  then show ?thesis
  proof cases
    case 3
    let ?w1 = "mark_plan_failed h run w"
    from ignored_plan_calls [OF assms]
    have ok: "sys_ok agent_memory_inv (hw_sys ?w1)" and cur: "current_run (hw_sys ?w1) (ag_id run) = Some r"
      by simp_all
    let ?f = "finished_run RunStatusFailed (sv_now (hs_runs h) (sy_ticks (hw_sys ?w1))) run"
    from agent_mem.finish_effect(2) [OF assms(1) ok view_of_current [OF cur] 3(1), of RunStatusFailed]
    obtain s' ev where f: "FailRun (hs_runs h) run (Some (loop_text h e)) (hw_sys ?w1) = (Inr ?f, s')"
      and v: "memory_view (sy_repo s') = (memory_view (sy_repo (hw_sys ?w1)))(ag_id run \<mapsto> (?f, event_log (hw_sys ?w1) (ag_id run) @ [ev]))"
      unfolding FailRun_def by (metis RunStatus.distinct(19))
    have "memory_view (sy_repo s') (ag_id run) = Some (?f, event_log (hw_sys ?w1) (ag_id run) @ [ev])"
      using v by simp
    then have "current_run s' (ag_id run) = Some ?f" by (simp add: view_current)
    with got 3 h_runs_Inr [of "FailRun (hs_runs h) run (Some (loop_text h e))" ?w1 ?f s', OF f] show ?thesis
      by (simp add: after_error_def fail_run_def finished_run_def)
  qed (use got assms(3) in \<open>simp_all add: after_error_def\<close>)
qed

subsection \<open>Resuming with an approval that fails\<close>

definition refuses_approval ::
  "('s, 'p, 't) harness \<Rightarrow> AgentRun \<Rightarrow> ('s, 'p, 't) harness_world \<Rightarrow> bool" where
  "refuses_approval h r w \<longleftrightarrow>
     (case hs_plans h of None \<Rightarrow> False
      | Some repo \<Rightarrow> (case ag_latest_generation_id r of None \<Rightarrow> True
        | Some g \<Rightarrow> fst (Approve repo (hs_now h (hw_ticks w)) (ag_id r) g (hw_plans w)) \<noteq> None))"

lemma approval_fails:
  assumes "refuses_approval h run w"
  shows "\<exists>e w'. approve_generation h run tool w = (Inl e, w') \<and> hw_sys w' = hw_sys w \<and> hw_active w' = hw_active w"
  using assms
  by (auto simp: refuses_approval_def approve_generation_def h_stop_def h_then_def h_clock_def h_plans_def
    split: option.splits prod.splits)

lemma resume_not_waiting:
  assumes "sv_repository (hs_runs h) = agent_memory_repo" and "sys_ok agent_memory_inv (hw_sys w)"
    and "current_run (hw_sys w) run_id = Some r" and "ag_status r \<noteq> RunStatusWaitingUser"
  shows "resume_run h run_id tool request w = (Inl (RunError ErrRunNotWaitingForUser), w)"
proof -
  have v: "memory_view (sy_repo (hw_sys w)) run_id = Some (r, event_log (hw_sys w) run_id)"
    by (rule view_of_current [OF assms(3)])
  have i: "ag_id r = run_id" using agent_mem.view_id [OF assms(2) v] by blast
  have c: "current_run (hw_sys w) (ag_id r) = Some r" using assms(3) i by simp
  from pendingToolTraceIdentity_memory [OF assms(1,2) c, of tool]
  obtain pending where p: "pendingToolTraceIdentity (hs_runs h) r tool (hw_sys w) = (Inr pending, hw_sys w)"
    by blast
  note g = h_runs_Inr [of "GetRun (hs_runs h) run_id" w, OF GetRun_memory [OF assms(1-3)]]
  note q = h_runs_Inr [of "pendingToolTraceIdentity (hs_runs h) r tool" w, OF p]
  note f = h_runs_Inl [of "ResumeToolCall (hs_runs h) run_id tool request" w,
    OF agent_mem.resume_refused(1) [OF assms(1,2) v assms(4)]]
  show ?thesis by (simp add: resume_run_def h_then_def g q f)
qed

text \<open>
  C20. A finding. When the user approves a generation and the approval fails (there is none, or the
  plan refuses it), resuming returns the error, but the stored run is left running: its
  transcript has no answer to the question, nobody continues it, and resuming it again fails
  for every call and answer. \<open>Resume\<close> lets the agent service set the run to running
  before it checks the approval.
\<close>

theorem failed_approval_strands_run:
  assumes "sv_repository (hs_runs h) = agent_memory_repo" and "sys_ok agent_memory_inv (hw_sys w)"
    and "current_run (hw_sys w) run_id = Some r" and "ag_status r = RunStatusWaitingUser"
    and "ag_pending_tool_call_id r = Some tool" and "ag_pending_step_id r = Some step"
    and "approves request" and "refuses_approval h r w"
  shows "\<exists>e w' now. resume_run h run_id tool request w = (Inl e, w') \<and>
    current_run (hw_sys w') run_id = Some (finished_run RunStatusRunning now r) \<and>
    hw_active w' = hw_active w \<and>
    resume_run h run_id any_tool any_answer w' = (Inl (RunError ErrRunNotWaitingForUser), w')"
proof -
  have v: "memory_view (sy_repo (hw_sys w)) run_id = Some (r, event_log (hw_sys w) run_id)"
    by (rule view_of_current [OF assms(3)])
  have i: "ag_id r = run_id" using agent_mem.view_id [OF assms(2) v] by blast
  have c: "current_run (hw_sys w) (ag_id r) = Some r" using assms(3) i by simp
  from pendingToolTraceIdentity_memory [OF assms(1,2) c, of tool]
  obtain pending where p: "pendingToolTraceIdentity (hs_runs h) r tool (hw_sys w) = (Inr pending, hw_sys w)"
    by blast
  obtain now s where res: "ResumeToolCall (hs_runs h) run_id tool request (hw_sys w) =
      (Inr (finished_run RunStatusRunning now r), s)" and ok: "sys_ok agent_memory_inv s"
    and vs: "\<exists>es. memory_view (sy_repo s) run_id = Some (finished_run RunStatusRunning now r, es)"
    using agent_mem.resume_effect [OF assms(1,2) v assms(4-6), of request] by fastforce
  let ?r = "finished_run RunStatusRunning now r"
  from vs have cur: "current_run s run_id = Some ?r" by (auto simp: view_current)
  note g = h_runs_Inr [of "GetRun (hs_runs h) run_id" w, OF GetRun_memory [OF assms(1-3)]]
  note q = h_runs_Inr [of "pendingToolTraceIdentity (hs_runs h) r tool" w, OF p]
  note f = h_runs_Inr [of "ResumeToolCall (hs_runs h) run_id tool request" w, OF res]
  let ?answered = "add_message (resume_message tool request) ?r"
  have "refuses_approval h ?answered (w\<lparr>hw_sys := s\<rparr>)"
    using assms(8) by (simp add: refuses_approval_def finished_run_def add_message_def split: option.splits)
  from approval_fails [OF this, of tool] obtain e w' where
    w': "approve_generation h ?answered tool (w\<lparr>hw_sys := s\<rparr>) = (Inl e, w')" "hw_sys w' = s"
    "hw_active w' = hw_active w" by auto
  have "resume_run h run_id tool request w = (Inl e, w')"
    using w'(1) assms(7) by (simp add: resume_run_def h_then_def h_if_def g q f Let_def)
  moreover have "resume_run h run_id any_tool any_answer w' = (Inl (RunError ErrRunNotWaitingForUser), w')"
    by (rule resume_not_waiting [OF assms(1), where r = ?r]) (use w' ok cur in \<open>simp_all add: finished_run_def\<close>)
  ultimately show ?thesis using w' cur by blast
qed

subsection \<open>Tried out\<close>

lemma sample_parts [simp]:
  "sv_repository (hs_runs sample_harness) = agent_memory_repo" "hw_sys sample_world = started"
  "hs_runs sample_harness = sample_service" "ag_id sample_run = ''run_0''"
  by (simp_all add: sample_harness_def sample_world_def sample_service_def sample_run_def)

theorem failed_loop_settles_run_witness:
  "\<exists>result w' r'. after_error sample_harness sample_run (TurnsExceeded 3 []) sample_world = ((result, Some (TurnsExceeded 3 [])), w') \<and>
    current_run (hw_sys w') ''run_0'' = Some r' \<and> ag_status r' = RunStatusFailed"
proof -
  have "ag_status sample_run \<noteq> RunStatusCancelled" "\<not> loop_cancels (TurnsExceeded 3 [])" by (simp_all add: sample_run_def)
  moreover have "current_run (hw_sys sample_world) (ag_id sample_run) = Some sample_run"
    using started_run by simp
  moreover have "sys_ok agent_memory_inv (hw_sys sample_world)" using started_ok by simp
  ultimately show ?thesis
    using sample_parts(1) failed_loop_settles_run [of sample_harness sample_world sample_run sample_run "TurnsExceeded 3 []"] by auto
qed

definition asked :: "agent_memory agent_sys" where
  "asked = snd (RequestUserInputForCall sample_service ''run_0'' ''t1'' ''st1'' sample_questions started)"

definition approval :: ResumeToolCallRequest where
  "approval = \<lparr>rt_answers = Some [(''approve_dsl'', JBool True)], rt_next_step = []\<rparr>"

lemma asked_ok: "sys_ok agent_memory_inv asked"
proof -
  have "validateQuestions sample_questions = None" by code_simp
  then show ?thesis
    using agent_mem.ask_effect [OF sample_repository started_ok view_of_current [OF started_run],
      of sample_questions "''t1''" "''st1''"] by (auto simp: asked_def sample_run_def)
qed

theorem failed_approval_strands_run_witness:
  "\<exists>e w' now. resume_run sample_harness ''run_0'' ''t1'' approval (sample_world\<lparr>hw_sys := asked\<rparr>) = (Inl e, w') \<and>
    current_run (hw_sys w') ''run_0'' = Some (sample_run\<lparr>ag_updated_at := now\<rparr>) \<and>
    resume_run sample_harness ''run_0'' ''t1'' approval w' = (Inl (RunError ErrRunNotWaitingForUser), w')"
proof -
  let ?w = "waiting_run 3 ''t1'' ''st1'' sample_run"
  have r: "current_run (hw_sys (sample_world\<lparr>hw_sys := asked\<rparr>)) ''run_0'' = Some ?w"
    unfolding asked_def by code_simp
  have w: "ag_status ?w = RunStatusWaitingUser" "ag_pending_tool_call_id ?w = Some ''t1''"
    "ag_pending_step_id ?w = Some ''st1''"
    by (simp_all add: waiting_run_def)
  have a: "approves approval" by code_simp
  have f: "refuses_approval sample_harness ?w (sample_world\<lparr>hw_sys := asked\<rparr>)"
    by (simp add: refuses_approval_def sample_harness_def waiting_run_def sample_run_def)
  have "finished_run RunStatusRunning now ?w = sample_run\<lparr>ag_updated_at := now\<rparr>" for now
    by (simp add: finished_run_def waiting_run_def sample_run_def)
  with sample_parts failed_approval_strands_run [OF sample_parts(1) _ r w a f, of "''t1''" approval] asked_ok
  show ?thesis by auto
qed

end
