(* ===== verification/HarnessAsking.thy ===== *)
theory HarnessAsking
  imports HarnessEnds
begin

section \<open>A question to the user, and the calls after it\<close>

text \<open>
  A call that asks the user goes through, step by step, on a repository in memory: it is proposed,
  authorised, executed, and the run is saved and set to wait. What the run knows then is what
  resuming starts from.
\<close>

subsection \<open>Actions that go through\<close>

definition live_run :: "string \<Rightarrow> AgentRun \<Rightarrow> agent_memory agent_sys \<Rightarrow> bool" where
  "live_run run_id r s \<longleftrightarrow> sys_ok agent_memory_inv s \<and> current_run s run_id = Some r \<and> ag_status r = RunStatusRunning"

lemma live_run_view:
  "live_run run_id r s \<longleftrightarrow> sys_ok agent_memory_inv s \<and>
     memory_view (sy_repo s) run_id = Some (r, event_log s run_id) \<and> ag_status r = RunStatusRunning"
  by (simp add: live_run_def view_current)

lemma live_append:
  assumes "sv_repository svc = agent_memory_repo" and "live_run (ag_id run) r s"
  shows "\<exists>e s'. appendEvent svc run event s = (Inr e, s') \<and> live_run (ag_id run) r s'"
proof -
  from assms(2) have ok: "sys_ok agent_memory_inv s"
    and v: "memory_view (sy_repo s) (ag_id run) = Some (r, event_log s (ag_id run))"
    and running: "ag_status r = RunStatusRunning" by (simp_all add: live_run_view)
  let ?es = "event_log s (ag_id run)"
  from agent_mem.appendEvent_effect [OF assms(1) ok v, of event] running
  obtain s' where a: "appendEvent svc run event s = (Inr (numbered ?es (stamped (sv_now svc (sy_ticks s)) run event)), s')"
    and "sys_ok agent_memory_inv s'"
    and v': "memory_view (sy_repo s') = (memory_view (sy_repo s))(ag_id run \<mapsto>
      (r, ?es @ [numbered ?es (stamped (sv_now svc (sy_ticks s)) run event)]))"
    by auto
  moreover from v' have "current_run s' (ag_id run) = Some r"
    using view_current [of s' "ag_id run" r "?es @ [numbered ?es (stamped (sv_now svc (sy_ticks s)) run event)]"]
    by simp
  ultimately show ?thesis using running by (auto simp: live_run_def)
qed

lemma live_records:
  assumes "sv_repository svc = agent_memory_repo" and "live_run (ag_id run) r s"
  shows "\<exists>s'. record_events svc run events s = (Inr (), s') \<and> live_run (ag_id run) r s'"
  using assms(2)
proof (induction events arbitrary: s)
  case Nil
  then show ?case by (simp add: done_with_def)
next
  case (Cons event events)
  from live_append [OF assms(1) Cons.prems, of event] obtain e s1 where
    "appendEvent svc run event s = (Inr e, s1)" "live_run (ag_id run) r s1" by blast
  with Cons.IH [of s1] show ?case by (auto simp: RecordEvent_def and_then_def)
qed

definition traceable :: "ModelTool \<Rightarrow> toolTraceIdentity \<Rightarrow> bool" where
  "traceable call identity \<longleftrightarrow> \<not> blank (mt_name call) \<and> trace_validSHA256 (ti_state_epoch identity) \<and>
     trace_validSHA256 (ti_signature identity) \<and> 1 \<le> ti_attempt identity \<and> ti_lineage identity = [] \<and>
     (case ti_plan identity of None \<Rightarrow> True | Some plan \<Rightarrow> \<not> plan_ref_invalid plan)"

lemma live_trace:
  assumes "sv_repository svc = agent_memory_repo" and "live_run (ag_id run) r s"
    and "traceable call identity" and "validToolTraceStatus status"
  shows "\<exists>s'. recordPipelineToolTrace svc run step call identity status reason s = (Inr (), s') \<and>
    live_run (ag_id run) r s'"
proof -
  have "ti_state_epoch identity \<noteq> []" using assms(3) by (auto simp: traceable_def trace_validSHA256_def)
  moreover have "validatePipelineTrace ((tool_trace_payload call identity status reason)
      \<lparr>ptp_schema_version := PipelineTraceSchemaV1\<rparr>) = None"
    using assms(3,4) by (auto simp: validatePipelineTrace_def tool_trace_payload_def traceable_def
      zero_PipelineTracePayload_def PipelineTraceToolCall_def PipelineTraceModelRequest_def split: option.splits)
  moreover obtain e s' where "appendEvent svc run ((new_event EventPipelineTrace)\<lparr>ev_step_id := step,
      ev_tool_call_id := mt_id call, ev_payload := Some (trace_members
        ((tool_trace_payload call identity status reason)\<lparr>ptp_schema_version := PipelineTraceSchemaV1\<rparr>))\<rparr>) s =
        (Inr e, s')" "live_run (ag_id run) r s'"
    using live_append [OF assms(1,2)] by blast
  moreover have "ptp_state_epoch (tool_trace_payload call identity status reason) = ti_state_epoch identity"
    by (simp add: tool_trace_payload_def)
  ultimately show ?thesis
    by (intro exI [of _ s']) (simp add: recordPipelineToolTrace_def RecordPipelineTrace_def Let_def and_then_def done_with_def)
qed

text \<open>An action of a turn that succeeds and leaves all but the log of the run alone.\<close>

definition goes_through :: "((agent_memory, 'p, 't) turn_state, 'a) hact \<Rightarrow> AgentRun \<Rightarrow> (agent_memory, 'p, 't) turn_state
    \<Rightarrow> 'a \<Rightarrow> (agent_memory, 'p, 't) turn_state \<Rightarrow> bool" where
  "goes_through m r s x s' \<longleftrightarrow> m s = (Inr x, s') \<and> tn_run s' = tn_run s \<and>
     hw_plans (tn_world s') = hw_plans (tn_world s) \<and> hw_ticks (tn_world s') = hw_ticks (tn_world s) \<and>
     live_run (ag_id (tn_run s)) r (hw_sys (tn_world s'))"

lemma goes_through_runs:
  assumes "m (tn_run s) (hw_sys (tn_world s)) = (Inr x, sys)" and "live_run (ag_id (tn_run s)) r sys"
  shows "goes_through (with_run (\<lambda>run. on_world (h_runs (m run)))) r s x
    (s\<lparr>tn_world := (tn_world s)\<lparr>hw_sys := sys\<rparr>\<rparr>)"
  using assms by (simp add: goes_through_def with_run_def on_world_def h_runs_def)

lemma goes_through_trace:
  assumes "sv_repository (hs_runs h) = agent_memory_repo" and "live_run (ag_id (tn_run s)) r (hw_sys (tn_world s))"
    and "traceable call identity" and "validToolTraceStatus status"
  obtains s' where "goes_through (trace_call h step call identity status reason) r s () s'"
  using live_trace [OF assms] goes_through_runs
    [of "\<lambda>run. recordPipelineToolTrace (hs_runs h) run step call identity status reason" s "()" _ r]
  unfolding trace_call_def by blast

lemma valid_sha256_hex: "trace_validSHA256 (sha256_hex x)"
proof -
  have "is_hex c" if "is_lower_hex c" for c
    using that by (auto simp: is_hex_def is_lower_hex_def Let_def)
  then show ?thesis by (auto simp: trace_validSHA256_def list_all_iff dest: sha256_hex_alphabet)
qed

lemma traceable_identity:
  assumes "\<not> blank (mt_name call)" and "case plan of None \<Rightarrow> True | Some p \<Rightarrow> \<not> plan_ref_invalid (the (pipelinePlanRef plan))"
  shows "traceable call (tool_trace_identity run call plan events)"
  using assms by (auto simp: traceable_def tool_trace_identity_def Let_def pipelineStateEpoch_def
    normalizedToolCallSignature_def valid_sha256_hex pipelinePlanRef_def split: option.splits)

text \<open>A plan, if there is one, that its traces can name.\<close>

definition nameable_plan :: "(agent_memory, 'p, 't) harness \<Rightarrow> (agent_memory, 'p, 't) turn_state \<Rightarrow> bool" where
  "nameable_plan h s \<longleftrightarrow>
     (case plan_of_run (hs_plans h) (hw_plans (tn_world s)) (ag_id (tn_run s)) of
        Inl _ \<Rightarrow> False
      | Inr None \<Rightarrow> True
      | Inr (Some p) \<Rightarrow> \<not> plan_ref_invalid (the (pipelinePlanRef (Some p))))"

lemma goes_through_propose:
  assumes repo: "sv_repository (hs_runs h) = agent_memory_repo"
    and live: "live_run (ag_id (tn_run s)) r (hw_sys (tn_world s))"
    and name: "\<not> blank (mt_name call)" and plan: "nameable_plan h s"
  obtains step identity s' where "goes_through (propose_call h call) r s (step, identity) s'"
    and "traceable call identity"
proof -
  let ?run = "tn_run s"
  let ?svc = "hs_runs h"
  define step where "step = sv_newID ?svc (sy_drawn (hw_sys (tn_world s))) ''step''"
  define sys0 where "sys0 = (hw_sys (tn_world s))\<lparr>sy_drawn := Suc (sy_drawn (hw_sys (tn_world s)))\<rparr>"
  define s0 where "s0 = s\<lparr>tn_world := (tn_world s)\<lparr>hw_sys := sys0\<rparr>\<rparr>"
  have id0: "on_world (h_runs (new_id ?svc ''step'')) s = (Inr step, s0)"
    by (simp add: on_world_def h_runs_def new_id_def step_def s0_def sys0_def)
  have live0: "live_run (ag_id ?run) r sys0" using live by (simp add: live_run_def sys0_def sys_ok_def current_run_def)
  from plan obtain p where p: "currentPipelineState (hs_plans h) (hw_plans (tn_world s)) ?run = Inr (pipeline_state ?run p, p)"
    and valid: "case p of None \<Rightarrow> True | Some q \<Rightarrow> \<not> plan_ref_invalid (the (pipelinePlanRef p))"
    by (auto simp: nameable_plan_def currentPipelineState_def split: sum.splits option.splits)
  from ListEvents_memory [OF repo, of sys0 "ag_id ?run" r] live0 obtain events where
    events: "ListEvents ?svc (ag_id ?run) 0 sys0 = (Inr events, sys0)" by (auto simp: live_run_def)
  let ?identity = "tool_trace_identity ?run call p events"
  have identity: "identify_call h call s0 = (Inr ?identity, s0)"
    using p events by (simp add: identify_call_def with_run_def on_world_def h_runs_def s0_def
      newToolTraceIdentity_def and_then_def done_with_def)
  have traceable: "traceable call ?identity" by (rule traceable_identity [OF name valid])
  from goes_through_trace [OF repo _ traceable, of s0 r "''proposed''" step "[]"] live0
  obtain s1 where s1: "goes_through (trace_call h step call ?identity ''proposed'' []) r s0 () s1"
    by (auto simp: s0_def validToolTraceStatus_def)
  then have live1: "live_run (ag_id (tn_run s1)) r (hw_sys (tn_world s1))" by (simp add: goes_through_def s0_def)
  from live_records [OF repo live1, of "[tool_event EventToolStarted step call [(''tool'', JStr (mt_name call))],
      tool_event EventToolArgsDelta step call [(''arguments'', JStr (mt_arguments call))]]"]
  obtain sys2 where "recordToolStart ?svc (tn_run s1) step call (hw_sys (tn_world s1)) = (Inr (), sys2)"
    and live2: "live_run (ag_id (tn_run s1)) r sys2" by (auto simp: recordToolStart_def)
  from goes_through_runs [of "\<lambda>run. recordToolStart ?svc run step call" s1, OF this]
  obtain s2 where s2: "goes_through (with_run (\<lambda>run. on_world (h_runs (recordToolStart ?svc run step call)))) r s1 () s2"
    by blast
  have "goes_through (propose_call h call) r s (step, ?identity) s2"
    using s1 s2 by (simp add: goes_through_def propose_call_def h_then_def id0 identity h_done_def) (simp add: s0_def)
  then show thesis using traceable that by blast
qed

subsection \<open>The question\<close>

lemma save_live:
  assumes "sv_repository svc = agent_memory_repo" and "live_run (ag_id run) r s"
    and "ag_status run = RunStatusRunning"
  shows "\<exists>now s'. SaveRun svc run s = (Inr (), s') \<and> live_run (ag_id run) (run\<lparr>ag_updated_at := now\<rparr>) s'"
proof -
  let ?now = "sv_now svc (sy_ticks s)"
  let ?s = "s\<lparr>sy_ticks := Suc (sy_ticks s)\<rparr>"
  have "sys_ok agent_memory_inv ?s" and v: "memory_view (sy_repo ?s) (ag_id (run\<lparr>ag_updated_at := ?now\<rparr>)) = Some (r, event_log s (ag_id run))"
    using assms(2) by (simp_all add: live_run_view sys_ok_def)
  from agent_mem.save_effect [OF this] assms(2) obtain s' where
    "storing (ar_save agent_memory_repo (run\<lparr>ag_updated_at := ?now\<rparr>)) ?s = (Inr (), s')"
    "sys_ok agent_memory_inv s'"
    "memory_view (sy_repo s') = (memory_view (sy_repo s))(ag_id run \<mapsto> (run\<lparr>ag_updated_at := ?now\<rparr>, event_log s (ag_id run)))"
    by (auto simp: live_run_def)
  moreover from this have "current_run s' (ag_id run) = Some (run\<lparr>ag_updated_at := ?now\<rparr>)"
    using view_current [of s' "ag_id run" "run\<lparr>ag_updated_at := ?now\<rparr>" "event_log s (ag_id run)"] by simp
  ultimately show ?thesis using assms(1,3)
    by (intro exI [of _ ?now] exI [of _ s']) (simp add: SaveRun_def and_then_def clock_now_def live_run_def)
qed

lemma ask_user_asks:
  assumes repo: "sv_repository (hs_runs h) = agent_memory_repo"
    and live: "live_run (ag_id (tn_run s)) r (hw_sys (tn_world s))" and run: "ag_status (tn_run s) = RunStatusRunning"
    and trace: "traceable call identity"
    and payload: "unmarshal dec_AskUserRequest None payload = Some questions"
    and questions: "validateQuestions questions = None"
  shows "\<exists>s' now. ask_user h step call identity payload s = (Inr False, s') \<and>
    tn_run s' = waiting_run now (mt_id call) step (tn_run s) \<and>
    sys_ok agent_memory_inv (hw_sys (tn_world s')) \<and>
    current_run (hw_sys (tn_world s')) (ag_id (tn_run s)) = Some (tn_run s')"
proof -
  let ?svc = "hs_runs h"
  from goes_through_trace [OF repo live trace, of "''pending''" step "''user_input_required''"]
  obtain s1 where s1: "goes_through (trace_call h step call identity ''pending'' ''user_input_required'') r s () s1"
    by (auto simp: validToolTraceStatus_def)
  then have live1: "live_run (ag_id (tn_run s)) r (hw_sys (tn_world s1))" and same: "tn_run s1 = tn_run s"
    by (simp_all add: goes_through_def)
  from save_live [OF repo live1 run] obtain now sys2 where
    saved: "SaveRun ?svc (tn_run s) (hw_sys (tn_world s1)) = (Inr (), sys2)"
    and live2: "live_run (ag_id (tn_run s)) ((tn_run s)\<lparr>ag_updated_at := now\<rparr>) sys2" by blast
  let ?r = "(tn_run s)\<lparr>ag_updated_at := now\<rparr>"
  from live2 have "sys_ok agent_memory_inv sys2"
    "memory_view (sy_repo sys2) (ag_id (tn_run s)) = Some (?r, event_log sys2 (ag_id (tn_run s)))"
    "ag_status ?r = RunStatusRunning" by (simp_all add: live_run_view)
  from agent_mem.ask_effect [OF repo this questions, of "mt_id call" step] obtain later e sys3 where
    asked: "RequestUserInputForCall ?svc (ag_id (tn_run s)) (mt_id call) step questions sys2 =
      (Inr (waiting_run later (mt_id call) step ?r, e), sys3)"
    and ok3: "sys_ok agent_memory_inv sys3"
    and v3: "memory_view (sy_repo sys3) = (memory_view (sy_repo sys2))(ag_id (tn_run s) \<mapsto>
      (waiting_run later (mt_id call) step ?r, event_log sys2 (ag_id (tn_run s)) @ [e]))" by blast
  have w: "waiting_run later (mt_id call) step ?r = waiting_run later (mt_id call) step (tn_run s)"
    by (simp add: waiting_run_def)
  have cur: "current_run sys3 (ag_id (tn_run s)) = Some (waiting_run later (mt_id call) step (tn_run s))"
    using v3 view_current [of sys3 "ag_id (tn_run s)" "waiting_run later (mt_id call) step ?r"
      "event_log sys2 (ag_id (tn_run s)) @ [e]"] by (simp add: w)
  let ?s' = "s1\<lparr>tn_world := (tn_world s1)\<lparr>hw_sys := sys3\<rparr>, tn_run := waiting_run later (mt_id call) step (tn_run s)\<rparr>"
  have "ask_user h step call identity payload s = (Inr False, ?s')"
    using s1 saved asked payload same
    by (simp add: ask_user_def goes_through_def h_then_def h_done_def with_run_def on_world_def h_runs_def
      assign_run_def and_then_def done_with_def w)
  with ok3 cur show ?thesis by (intro exI [of _ ?s'] exI [of _ later]) simp
qed

lemma handle_call_asks:
  assumes repo: "sv_repository (hs_runs h) = agent_memory_repo"
    and live: "live_run (ag_id (tn_run s)) r (hw_sys (tn_world s))" and run: "ag_status (tn_run s) = RunStatusRunning"
    and name: "\<not> blank (mt_name call)" and plan: "nameable_plan h s"
    and authorized: "plan_authorizes h (tn_run s) call (hw_plans (tn_world s)) = None"
    and gate: "\<not> refused_by_policy h (tn_run s) call (tn_world s)"
    and tool: "\<And>w. \<exists>result w'. hs_tools h (call_of (tn_run s) call) w = (Inr result, w') \<and>
      to_pending result = Some payload \<and> hw_sys w' = hw_sys w"
    and payload: "unmarshal dec_AskUserRequest None payload = Some questions"
    and questions: "validateQuestions questions = None"
  shows "\<exists>s' step now. handle_call h call s = (Inr False, s') \<and>
    tn_run s' = waiting_run now (mt_id call) step (tn_run s) \<and>
    sys_ok agent_memory_inv (hw_sys (tn_world s')) \<and>
    current_run (hw_sys (tn_world s')) (ag_id (tn_run s)) = Some (tn_run s')"
proof -
  from goes_through_propose [OF repo live name plan] obtain step identity s1 where
    s1: "goes_through (propose_call h call) r s (step, identity) s1" and trace: "traceable call identity" by blast
  define s2 where "s2 = s1\<lparr>tn_world := (tn_world s1)\<lparr>hw_ticks := Suc (hw_ticks (tn_world s1))\<rparr>\<rparr>"
  have same1: "tn_run s1 = tn_run s" "hw_plans (tn_world s1) = hw_plans (tn_world s)"
    "hw_ticks (tn_world s1) = hw_ticks (tn_world s)" and live1: "live_run (ag_id (tn_run s)) r (hw_sys (tn_world s1))"
    using s1 by (simp_all add: goes_through_def)
  have allowed: "with_run (\<lambda>run. on_world (authorize_call h run call)) s1 = (Inr None, s2)"
    using authorized gate same1
    by (auto simp: with_run_def on_world_def authorize_call_def refused_by_policy_def h_then_def h_clock_def
      h_done_def s2_def split: sum.splits)
  have live2: "live_run (ag_id (tn_run s2)) r (hw_sys (tn_world s2))" and same2: "tn_run s2 = tn_run s"
    using live1 same1 by (simp_all add: s2_def)
  from goes_through_trace [OF repo live2 trace, of "''authorized''" step "[]"]
  obtain s3 where s3: "goes_through (trace_call h step call identity ''authorized'' []) r s2 () s3"
    by (auto simp: validToolTraceStatus_def)
  then have live3: "live_run (ag_id (tn_run s3)) r (hw_sys (tn_world s3))" and same3: "tn_run s3 = tn_run s"
    by (simp_all add: goes_through_def same2)
  from goes_through_trace [OF repo live3 trace, of "''running''" step "[]"]
  obtain s4 where s4: "goes_through (trace_call h step call identity ''running'' []) r s3 () s4"
    by (auto simp: validToolTraceStatus_def)
  then have live4: "live_run (ag_id (tn_run s4)) r (hw_sys (tn_world s4))" and same4: "tn_run s4 = tn_run s"
    by (simp_all add: goes_through_def same3)
  from tool [of "tn_world s4"] obtain result w where
    w: "hs_tools h (call_of (tn_run s) call) (tn_world s4) = (Inr result, w)"
    "to_pending result = Some payload" "hw_sys w = hw_sys (tn_world s4)" by blast
  define s5 where "s5 = s4\<lparr>tn_world := w\<rparr>"
  have executed: "execute_tool h call s4 = (Inr (Inr result), s5)"
    using w same4 by (simp add: execute_tool_def with_run_def on_world_def s5_def)
  have live5: "live_run (ag_id (tn_run s5)) r (hw_sys (tn_world s5))" and run5: "ag_status (tn_run s5) = RunStatusRunning"
    and same5: "tn_run s5 = tn_run s"
    using live4 run w same4 by (simp_all add: s5_def)
  have "handle_call h call s = ask_user h step call identity payload s5"
    using s1 allowed s3 s4 executed w(2)
    by (simp add: handle_call_def run_tool_def goes_through_def h_then_def)
  with ask_user_asks [OF repo live5 run5 trace payload questions, of step] same5 show ?thesis by auto
qed

lemma resumed_transcript:
  assumes "sv_repository (hs_runs h) = agent_memory_repo" and "sys_ok agent_memory_inv (hw_sys w)"
    and "current_run (hw_sys w) run_id = Some r" and "ag_status r = RunStatusWaitingUser"
    and "ag_pending_tool_call_id r = Some tool" and "ag_pending_step_id r = Some step"
    and "resume_run h run_id tool request w = (Inr run, w')"
  shows "ag_transcript run = ag_transcript r @ [resume_message tool request]"
proof -
  have v: "memory_view (sy_repo (hw_sys w)) run_id = Some (r, event_log (hw_sys w) run_id)"
    by (rule view_of_current [OF assms(3)])
  have i: "ag_id r = run_id" using agent_mem.view_id [OF assms(2) v] by blast
  have c: "current_run (hw_sys w) (ag_id r) = Some r" using assms(3) i by simp
  from pendingToolTraceIdentity_memory [OF assms(1,2) c, of tool]
  obtain pending where p: "pendingToolTraceIdentity (hs_runs h) r tool (hw_sys w) = (Inr pending, hw_sys w)"
    by blast
  obtain now s where res: "ResumeToolCall (hs_runs h) run_id tool request (hw_sys w) =
      (Inr (finished_run RunStatusRunning now r), s)"
    using agent_mem.resume_effect [OF assms(1,2) v assms(4-6), of request] by fastforce
  note g = h_runs_Inr [of "GetRun (hs_runs h) run_id" w, OF GetRun_memory [OF assms(1-3)]]
  note q = h_runs_Inr [of "pendingToolTraceIdentity (hs_runs h) r tool" w, OF p]
  note f = h_runs_Inr [of "ResumeToolCall (hs_runs h) run_id tool request" w, OF res]
  show ?thesis using assms(7)
    by (auto simp: resume_run_def h_then_def g q f Let_def finished_run_def
      split: prod.splits sum.splits if_splits)
qed

text \<open>
  C15. A finding. An authorised call whose tool asks the user ends the turn at once, whatever calls
  of the same response are left (\<open>later\<close>): the stored run waits for the answer to this one call,
  and the transcript it waits with, and the one it is resumed with, whatever the answer, hold no
  message for a later call; resuming adds the answer to this call and nothing else.
\<close>

theorem question_leaves_calls_open:
  assumes "sv_repository (hs_runs h) = agent_memory_repo"
    and "sys_ok agent_memory_inv (hw_sys (tn_world s))"
    and "current_run (hw_sys (tn_world s)) (ag_id (tn_run s)) = Some r"
    and "ag_status r = RunStatusRunning" and "ag_status (tn_run s) = RunStatusRunning"
    and "\<not> blank (mt_name call)" and "nameable_plan h s"
    and "plan_authorizes h (tn_run s) call (hw_plans (tn_world s)) = None"
    and "\<not> refused_by_policy h (tn_run s) call (tn_world s)"
    and "\<And>w. \<exists>result w'. hs_tools h (call_of (tn_run s) call) w = (Inr result, w') \<and>
      to_pending result = Some payload \<and> hw_sys w' = hw_sys w"
    and "unmarshal dec_AskUserRequest None payload = Some questions"
    and "validateQuestions questions = None"
  shows "\<exists>s'. handle_calls h (call # later) s = (Inr False, s') \<and>
    current_run (hw_sys (tn_world s')) (ag_id (tn_run s)) = Some (tn_run s') \<and>
    ag_status (tn_run s') = RunStatusWaitingUser \<and>
    ag_pending_tool_call_id (tn_run s') = Some (mt_id call) \<and>
    ag_transcript (tn_run s') = ag_transcript (tn_run s) \<and>
    (\<forall>request. case resume_run h (ag_id (tn_run s)) (mt_id call) request (tn_world s') of
       (Inr run, _) \<Rightarrow> ag_transcript run = ag_transcript (tn_run s) @ [resume_message (mt_id call) request]
     | _ \<Rightarrow> True)"
proof -
  have "live_run (ag_id (tn_run s)) r (hw_sys (tn_world s))" using assms(2-4) by (simp add: live_run_def)
  from handle_call_asks [OF assms(1) this assms(5-12)] obtain s' step now where
    s': "handle_call h call s = (Inr False, s')" "tn_run s' = waiting_run now (mt_id call) step (tn_run s)"
    "sys_ok agent_memory_inv (hw_sys (tn_world s'))"
    "current_run (hw_sys (tn_world s')) (ag_id (tn_run s)) = Some (tn_run s')" by blast
  have waits: "ag_status (tn_run s') = RunStatusWaitingUser" "ag_pending_tool_call_id (tn_run s') = Some (mt_id call)"
    "ag_pending_step_id (tn_run s') = Some step" "ag_transcript (tn_run s') = ag_transcript (tn_run s)"
    by (simp_all add: s'(2) waiting_run_def)
  from resumed_transcript [OF assms(1) s'(3,4) waits(1-3)] s' waits show ?thesis
    by (intro exI [of _ s']) (auto simp: h_then_def h_done_def split: prod.split sum.split)
qed

subsection \<open>Tried out\<close>

definition question_payload :: json where
  "question_payload = JObj [(''questions'', JArr [JObj [(''id'', JStr ''q1''),
     (''question'', JStr ''Which page?''), (''type'', JStr ''text''), (''required'', JBool True)]])]"

definition asking_harness :: "(agent_memory, string \<Rightarrow> Plan list, unit) harness" where
  "asking_harness = sample_harness\<lparr>hs_plans := None, hs_tools := (\<lambda>call w. (Inr \<lparr>to_content = [],
     to_artifact = None, to_pending = Some (Some question_payload)\<rparr>, w))\<rparr>"

definition question_call :: ModelTool where
  "question_call = \<lparr>mt_id = ''t1'', mt_name = ''ask_user_question'', mt_arguments = ''{}''\<rparr>"

theorem question_leaves_calls_open_witness:
  "\<exists>s'. handle_calls asking_harness [question_call, question_call\<lparr>mt_id := ''t2''\<rparr>] sample_turn = (Inr False, s') \<and>
    ag_status (tn_run s') = RunStatusWaitingUser \<and> ag_pending_tool_call_id (tn_run s') = Some ''t1'' \<and>
    ag_transcript (tn_run s') = ag_transcript sample_run"
proof -
  have "case unmarshal dec_AskUserRequest None (Some question_payload) of None \<Rightarrow> False
      | Some questions \<Rightarrow> validateQuestions questions = None"
    by code_simp
  then obtain questions where q: "unmarshal dec_AskUserRequest None (Some question_payload) = Some questions"
    "validateQuestions questions = None" by (auto split: option.splits)
  have allowed: "plan_authorizes asking_harness (tn_run sample_turn) question_call (hw_plans (tn_world sample_turn)) = None"
    "nameable_plan asking_harness sample_turn"
    by (simp_all add: plan_authorizes_def nameable_plan_def plan_of_run_def asking_harness_def)
  have gate: "\<not> refused_by_policy asking_harness (tn_run sample_turn) question_call (tn_world sample_turn)"
    by code_simp
  have tool: "\<exists>result w'. hs_tools asking_harness (call_of (tn_run sample_turn) question_call) w = (Inr result, w') \<and>
      to_pending result = Some (Some question_payload) \<and> hw_sys w' = hw_sys w" for w
    by (simp add: asking_harness_def)
  have name: "\<not> blank (mt_name question_call)" by code_simp
  have run: "ag_status (tn_run sample_turn) = RunStatusRunning"
    "current_run (hw_sys (tn_world sample_turn)) (ag_id (tn_run sample_turn)) = Some sample_run"
    "sys_ok agent_memory_inv (hw_sys (tn_world sample_turn))"
    using started_run started_ok by (simp_all add: sample_turn_def sample_run_def)
  have repo: "sv_repository (hs_runs asking_harness) = agent_memory_repo"
    by (simp add: asking_harness_def sample_repository)
  have status: "ag_status sample_run = RunStatusRunning" by (simp add: sample_run_def)
  from question_leaves_calls_open [OF repo run(3,2) status run(1) name allowed(2,1) gate tool q,
    of "[question_call\<lparr>mt_id := ''t2''\<rparr>]"]
  show ?thesis by (auto simp: question_call_def sample_turn_def)
qed

end
