(* ===== verification/ToolRegistry.thy ===== *)
theory ToolRegistry
  imports Harness
begin

section \<open>Tools: the registry and the simple tools (internal/tools)\<close>

text \<open>
  The registry the harness executes tools through, and the tools that need no client: the
  question to the user and the task plan. A tool acts on the world of the harness. What an
  error says is a parameter of the harness; here it is a constructor.
\<close>

subsection \<open>The registry (tool.go)\<close>

record ToolDefinition =
  td_name :: string
  td_description :: string
  td_input_schema :: string

datatype tool_failure =
    ToolNotFound string
  | ToolArgumentsInvalid string
  | ArgumentsUndecodable string
  | QuestionsCount
  | QuestionIncomplete
  | QuestionDuplicate string
  | QuestionOptions string
  | PlanServiceUnavailable
  | RunInputUnavailable
  | PlanServiceFailed plan_error
  | NilMapWrite                        \<comment> \<open>a Go panic: assignment to an entry of a nil map\<close>
  | QueryStepsInvalid
  | QueryStepInvalid nat
  | QueryActionsInvalid nat
  | QueryActionInvalid nat nat
  | ResolvedCandidateForbidden
  | ActionLocatorOrRef nat nat
  | HydrationUnavailable
  | RefActionIncomplete
  | RefUndecodable string
  | RefInvalid string contract_error
  | ResolveFailed string tool_error
  | ResolvedOtherSource string
  | ResolvedInvalid string contract_error
  | StepReferencesMultiple string
  | ClientFailed tool_error
  | ResultUndecodable
  | GenerationIdRequired
  | GenerationNotApproved
  | BatchIdRequired
  | ReportWithoutStatus
  | WaitCanceled

fun failure_canceled :: "tool_failure \<Rightarrow> bool" where
  "failure_canceled (ClientFailed e) = xe_canceled e"
| "failure_canceled (ResolveFailed _ e) = xe_canceled e"
| "failure_canceled WaitCanceled = True"
| "failure_canceled _ = False"

type_synonym 'w tool_exec = "tool_call \<Rightarrow> 'w \<Rightarrow> (tool_failure + ToolResult) \<times> 'w"

record 'w tool_handler =
  th_definition :: ToolDefinition
  th_execute :: "'w tool_exec"

type_synonym 'w tool_registry = "(string \<times> 'w tool_handler) list"

datatype registry_error =
    HandlerRequired
  | ToolNameRequired
  | InputSchemaInvalid string
  | AlreadyRegistered string

definition Register ::
  "'w tool_handler option \<Rightarrow> 'w tool_registry \<Rightarrow> registry_error + 'w tool_registry" where
  "Register handler handlers =
     (case handler of
        None \<Rightarrow> Inl HandlerRequired
      | Some h \<Rightarrow>
        let d = th_definition h in
        if td_name d = [] then Inl ToolNameRequired
        else if parse_json (td_input_schema d) = None then Inl (InputSchemaInvalid (td_name d))
        else if map_of handlers (td_name d) \<noteq> None then Inl (AlreadyRegistered (td_name d))
        else Inr (assoc_put (td_name d) h handlers))"

fun register_all ::
  "'w tool_handler option list \<Rightarrow> 'w tool_registry \<Rightarrow> registry_error + 'w tool_registry" where
  "register_all [] handlers = Inr handlers"
| "register_all (h # hs) handlers =
     (case Register h handlers of Inl e \<Rightarrow> Inl e | Inr handlers' \<Rightarrow> register_all hs handlers')"

definition NewRegistry :: "'w tool_handler option list \<Rightarrow> registry_error + 'w tool_registry" where
  "NewRegistry hs = register_all hs []"

definition registry_Get :: "'w tool_registry \<Rightarrow> string \<Rightarrow> tool_failure + 'w tool_handler" where
  "registry_Get handlers name =
     (case map_of handlers name of None \<Rightarrow> Inl (ToolNotFound name) | Some h \<Rightarrow> Inr h)"

definition registry_Execute :: "'w tool_registry \<Rightarrow> 'w tool_exec" where
  "registry_Execute handlers call w =
     (case registry_Get handlers (tc_name call) of
        Inl e \<Rightarrow> (Inl e, w)
      | Inr h \<Rightarrow>
        if parse_json (tc_arguments call) = None then (Inl (ToolArgumentsInvalid (tc_name call)), w)
        else th_execute h call w)"

text \<open>The map of handlers has distinct names, so the order of the result is determined.\<close>

definition registry_Definitions :: "'w tool_registry \<Rightarrow> ToolDefinition list" where
  "registry_Definitions handlers = sort_key td_name (map (th_definition \<circ> snd) handlers)"

text \<open>The tools of a harness; \<open>wording\<close> is the text of an error.\<close>

definition tools_of_registry ::
  "(tool_failure \<Rightarrow> string) \<Rightarrow> 'w tool_registry \<Rightarrow> tool_call \<Rightarrow> 'w \<Rightarrow> (tool_error + ToolResult) \<times> 'w" where
  "tools_of_registry wording handlers call w =
     (case registry_Execute handlers call w of
        (Inl e, w') \<Rightarrow> (Inl \<lparr>xe_text = wording e, xe_canceled = failure_canceled e\<rparr>, w')
      | (Inr r, w') \<Rightarrow> (Inr r, w'))"

definition plain_result :: "string \<Rightarrow> ToolResult" where
  "plain_result content = \<lparr>to_content = content, to_artifact = None, to_pending = None\<rparr>"

subsection \<open>Asking the user (ask_user.go)\<close>

record askUserOption =
  ao_value :: string
  ao_label :: string

record askUserQuestion =
  aq_id :: string
  aq_prompt :: string
  aq_type :: string
  aq_options :: "askUserOption list"

definition dec_askUserOption :: "askUserOption decoder" where
  "dec_askUserOption = dec_struct
     [(''value'', fld dec_string ao_value ao_value_update),
      (''label'', fld dec_string ao_label ao_label_update)]"

definition dec_askUserQuestion :: "askUserQuestion decoder" where
  "dec_askUserQuestion = dec_struct
     [(''id'', fld dec_string aq_id aq_id_update),
      (''question'', fld dec_string aq_prompt aq_prompt_update),
      (''type'', fld dec_string aq_type aq_type_update),
      (''options'', fld (dec_list dec_askUserOption \<lparr>ao_value = [], ao_label = []\<rparr>)
        aq_options aq_options_update)]"

definition zero_askUserQuestion :: askUserQuestion where
  "zero_askUserQuestion = \<lparr>aq_id = [], aq_prompt = [], aq_type = [], aq_options = []\<rparr>"

text \<open>\<open>askUserRequest\<close> has one field, the questions.\<close>

definition dec_askUserRequest :: "askUserQuestion list decoder" where
  "dec_askUserRequest = dec_struct [(''questions'', dec_list dec_askUserQuestion zero_askUserQuestion)]"

definition enc_askUserOption :: "askUserOption \<Rightarrow> json" where
  "enc_askUserOption o' = JObj [(''value'', JStr (ao_value o')), (''label'', JStr (ao_label o'))]"

definition enc_askUserQuestion :: "askUserQuestion \<Rightarrow> json" where
  "enc_askUserQuestion q = JObj (
     [(''id'', JStr (aq_id q)), (''question'', JStr (aq_prompt q)), (''type'', JStr (aq_type q))] @
     omit_empty_list ''options'' enc_askUserOption (aq_options q))"

definition enc_askUserRequest :: "askUserQuestion list \<Rightarrow> json" where
  "enc_askUserRequest qs = JObj [(''questions'', JArr (map enc_askUserQuestion qs))]"

fun check_asked :: "string list \<Rightarrow> askUserQuestion list \<Rightarrow> tool_failure option" where
  "check_asked seen [] = None"
| "check_asked seen (q # qs) =
     (if blank (aq_id q) \<or> blank (aq_prompt q) then Some QuestionIncomplete
      else if aq_id q \<in> set seen then Some (QuestionDuplicate (aq_id q))
      else if aq_type q = ''single_select'' \<and> length (aq_options q) < 2
      then Some (QuestionOptions (aq_id q))
      else check_asked (aq_id q # seen) qs)"

definition validateAskUserQuestions :: "askUserQuestion list \<Rightarrow> tool_failure option" where
  "validateAskUserQuestions qs =
     (if qs = [] \<or> 3 < length qs then Some QuestionsCount else check_asked [] qs)"

definition AskUserTool_Execute :: "'w tool_exec" where
  "AskUserTool_Execute call w =
     (case unmarshal dec_askUserRequest [] (parse_json (tc_arguments call)) of
        None \<Rightarrow> (Inl (ArgumentsUndecodable ''ask_user_question''), w)
      | Some qs \<Rightarrow>
        (case validateAskUserQuestions qs of
           Some e \<Rightarrow> (Inl e, w)
         | None \<Rightarrow> (Inr \<lparr>to_content = [], to_artifact = None,
             to_pending = Some (parse_json (render (enc_askUserRequest qs)))\<rparr>, w)))"

subsection \<open>The task plan (task_plan.go)\<close>

definition dec_StepDefinition :: "StepDefinition decoder" where
  "dec_StepDefinition = dec_struct
     [(''id'', fld dec_string sdf_id sdf_id_update),
      (''intent'', fld dec_string sdf_intent sdf_intent_update),
      (''action'', fld dec_string sdf_action sdf_action_update),
      (''target'', fld dec_string sdf_target sdf_target_update),
      (''value'', fld dec_string sdf_value sdf_value_update),
      (''trigger'', fld dec_string sdf_trigger sdf_trigger_update),
      (''context_key'', fld dec_string sdf_context_key sdf_context_key_update),
      (''timeout_ms'', fld dec_int sdf_timeout_ms sdf_timeout_ms_update),
      (''expected_occurrences'', fld dec_int sdf_expected_occurrences sdf_expected_occurrences_update),
      (''idempotency'', fld dec_string sdf_idempotency sdf_idempotency_update),
      (''side_effect'', fld dec_string sdf_side_effect sdf_side_effect_update),
      (''preconditions'', fld (dec_list dec_string []) sdf_preconditions sdf_preconditions_update),
      (''completion_conditions'',
        fld (dec_list dec_string []) sdf_completion_conditions sdf_completion_conditions_update)]"

definition zero_StepDefinition :: StepDefinition where
  "zero_StepDefinition = \<lparr>sdf_id = [], sdf_intent = [], sdf_action = [], sdf_target = [],
     sdf_value = [], sdf_trigger = [], sdf_context_key = [], sdf_timeout_ms = 0,
     sdf_expected_occurrences = 0, sdf_idempotency = [], sdf_side_effect = [],
     sdf_preconditions = [], sdf_completion_conditions = []\<rparr>"

definition dec_Definition :: "Definition decoder" where
  "dec_Definition = dec_struct
     [(''goal'', fld dec_string df_goal df_goal_update),
      (''max_side_effect'', fld dec_string df_max_side_effect df_max_side_effect_update),
      (''forbidden_actions'',
        fld (dec_slice dec_string []) df_forbidden_actions df_forbidden_actions_update),
      (''steps'', fld (dec_list dec_StepDefinition zero_StepDefinition) df_steps df_steps_update)]"

definition zero_Definition :: Definition where
  "zero_Definition = \<lparr>df_goal = [], df_max_side_effect = [], df_forbidden_actions = None, df_steps = []\<rparr>"

definition enc_EvidenceRef :: "EvidenceRef \<Rightarrow> json" where
  "enc_EvidenceRef x = JObj [(''tool'', JStr (er_tool x)), (''event_seq'', JInt (er_event_seq x)),
     (''content_sha256'', JStr (er_content_sha256 x))]"

definition enc_Step :: "Step \<Rightarrow> json" where
  "enc_Step s = JObj (
     [(''id'', JStr (st_id s)), (''position'', JInt (st_position s)),
      (''intent'', JStr (st_intent s)), (''action'', JStr (st_action s))] @
     omit_empty_string ''target'' (st_target s) @
     omit_empty_string ''value'' (st_value s) @
     omit_empty_string ''trigger'' (st_trigger s) @
     omit_empty_string ''context_key'' (st_context_key s) @
     omit_zero_int ''timeout_ms'' (st_timeout_ms s) @
     [(''expected_occurrences'', JInt (st_expected_occurrences s)),
      (''idempotency'', JStr (st_idempotency s)), (''side_effect'', JStr (st_side_effect s)),
      (''preconditions'', enc_strings (st_preconditions s)),
      (''completion_conditions'', enc_strings (st_completion_conditions s)),
      (''status'', JStr (step_status_text (st_status s))),
      (''grounding_attempts'', JInt (st_grounding_attempts s)),
      (''evidence'', JArr (map enc_EvidenceRef (st_evidence s)))] @
     omit_nil ''target_binding'' enc_TargetBinding (st_target_binding s))"

text \<open>The members of a map are written in the order of their names.\<close>

definition plan_content :: "Plan \<Rightarrow> string" where
  "plan_content plan = render (JObj
     [(''binding'', enc_Binding (Plan_Binding plan)), (''plan_id'', JStr (pl_id plan)),
      (''plan_sha256'', JStr (pl_plan_sha256 plan)),
      (''schema_version'', JStr (pl_schema_version plan)),
      (''status'', JStr (plan_status_text (pl_status plan))),
      (''steps'', JArr (map enc_Step (pl_steps plan))), (''version'', JInt (pl_version plan))])"

text \<open>The goal of the plan is the input of the run, whatever the model writes.\<close>

definition SetTaskPlanTool_Execute ::
  "'p plan_repo option \<Rightarrow> (nat \<Rightarrow> go_time) \<Rightarrow> ('s, 'p, 't) harness_world tool_exec" where
  "SetTaskPlanTool_Execute plans now call w =
     (case plans of
        None \<Rightarrow> (Inl PlanServiceUnavailable, w)
      | Some repo \<Rightarrow>
        (case unmarshal dec_Definition zero_Definition (parse_json (tc_arguments call)) of
           None \<Rightarrow> (Inl (ArgumentsUndecodable ''set_task_plan''), w)
         | Some d \<Rightarrow>
           if tc_run_input call = [] then (Inl RunInputUnavailable, w)
           else
             (case CreateVersion repo (now (hw_ticks w)) \<lparr>rq_run_id = tc_run_id call,
                 rq_actor_user_id = tc_actor_user_id call, rq_project_id = tc_project_id call,
                 rq_definition = d\<lparr>df_goal := tc_run_input call\<rparr>\<rparr> (hw_plans w) of
                (r, p) \<Rightarrow>
                let w' = w\<lparr>hw_plans := p, hw_ticks := Suc (hw_ticks w)\<rparr> in
                (case r of
                   Inl e \<Rightarrow> (Inl (PlanServiceFailed e), w')
                 | Inr plan \<Rightarrow> (Inr \<lparr>to_content = plan_content plan,
                     to_artifact = Some \<lparr>af_type = ''task_plan'', af_id = pl_id plan\<rparr>,
                     to_pending = None\<rparr>, w')))))"

end
