(* ===== verification/BrowserTools.thy ===== *)
theory BrowserTools
  imports ToolRegistry
begin

section \<open>Tools of the browser (internal/tools/browser.go)\<close>

text \<open>
  The tools that let the browser worker explore. The control plane adds the id of the probe to
  the arguments, replaces every reference to a candidate by the candidate itself, resolved from
  what the run has observed and authorised by the task plan, and hands the arguments to the
  worker. The worker and the reader of observations are parameters.
\<close>

subsection \<open>Parameters\<close>

text \<open>Capability, actor, project, conversation, arguments.\<close>

type_synonym 'w browser_client =
  "string \<Rightarrow> int \<Rightarrow> int \<Rightarrow> string \<Rightarrow> string \<Rightarrow> 'w \<Rightarrow> (tool_error + string) \<times> 'w"

text \<open>Run, action, reference.\<close>

type_synonym 'w candidate_resolver =
  "string \<Rightarrow> string \<Rightarrow> CandidateRef \<Rightarrow> 'w \<Rightarrow> (tool_error + TrustedResolvedCandidate) \<times> 'w"

record ('s, 'p, 't) browser_tool =
  bt_name :: string
  bt_client :: "('s, 'p, 't) harness_world browser_client"
  bt_candidates :: "('s, 'p, 't) harness_world candidate_resolver option"
  bt_plans :: "'p plan_repo option"

subsection \<open>Candidates\<close>

definition enc_CandidateRef :: "CandidateRef \<Rightarrow> json" where
  "enc_CandidateRef r = JObj
     [(''schema_version'', JStr (cr_schema_version r)),
      (''source_event_seq'', JInt (cr_source_event_seq r)), (''probe_id'', JStr (cr_probe_id r)),
      (''observation_id'', JStr (cr_observation_id r)), (''candidate_id'', JStr (cr_candidate_id r))]"

definition enc_TrustedResolvedCandidate :: "TrustedResolvedCandidate \<Rightarrow> json" where
  "enc_TrustedResolvedCandidate c = JObj
     [(''source'', enc_CandidateRef (rc_source c)), (''page_state_id'', JStr (rc_page_state_id c)),
      (''page_state_sha256'', JStr (rc_page_state_sha256 c)),
      (''element_ref'', JStr (rc_element_ref c)), (''locator'', enc_LocatorSpec (rc_locator c)),
      (''context_path'', enc_ContextPath (rc_context_path c)),
      (''provenance'', JStr (rc_provenance c))]"

text \<open>The value is encoded, read back without unknown members and validated.\<close>

definition strict_CandidateRef :: "CandidateRef decoder" where
  "strict_CandidateRef = dec_struct_strict
     [(''schema_version'', fld dec_string cr_schema_version cr_schema_version_update),
      (''source_event_seq'', fld dec_int cr_source_event_seq cr_source_event_seq_update),
      (''probe_id'', fld dec_string cr_probe_id cr_probe_id_update),
      (''observation_id'', fld dec_string cr_observation_id cr_observation_id_update),
      (''candidate_id'', fld dec_string cr_candidate_id cr_candidate_id_update)]"

definition decodeCandidateRef :: "string \<Rightarrow> json \<Rightarrow> tool_failure + CandidateRef" where
  "decodeCandidateRef step value =
     (case strict_CandidateRef value zero_CandidateRef of
        None \<Rightarrow> Inl (RefUndecodable step)
      | Some ref \<Rightarrow>
        (case CandidateRef_Validate ref of Some e \<Rightarrow> Inl (RefInvalid step e) | None \<Rightarrow> Inr ref))"

record candidateHydration =
  ch_step :: nat
  ch_action :: nat
  ch_plan_step_id :: string
  ch_action_name :: string
  ch_ref :: CandidateRef
  ch_resolved :: TrustedResolvedCandidate

definition has_member :: "(string \<times> json) list \<Rightarrow> string \<Rightarrow> bool" where
  "has_member m k \<longleftrightarrow> map_of m k \<noteq> None"

text \<open>A member that is present and not \<open>null\<close>.\<close>

definition has_value :: "(string \<times> json) list \<Rightarrow> string \<Rightarrow> bool" where
  "has_value m k \<longleftrightarrow> any_get m k \<noteq> JNull"

text \<open>The body of the loop over the actions for an action with a reference.\<close>

definition resolve_action ::
  "('s, 'p, 't) browser_tool \<Rightarrow> string \<Rightarrow> nat \<Rightarrow> nat \<Rightarrow> (string \<times> json) list
   \<Rightarrow> ('s, 'p, 't) harness_world \<Rightarrow> (tool_failure + candidateHydration) \<times> ('s, 'p, 't) harness_world" where
  "resolve_action t run_id i j action w =
     (case (bt_candidates t, bt_plans t) of
        (Some resolve, Some _) \<Rightarrow>
          let step = any_string (any_get action ''plan_step_id'');
              name = any_string (any_get action ''action'') in
          if step = [] \<or> name = [] then (Inl RefActionIncomplete, w)
          else (case decodeCandidateRef step (any_get action ''candidate_ref'') of
            Inl e \<Rightarrow> (Inl e, w)
          | Inr ref \<Rightarrow>
            (case resolve run_id name ref w of
               (Inl e, w') \<Rightarrow> (Inl (ResolveFailed step e), w')
             | (Inr resolved, w') \<Rightarrow>
               if rc_source resolved \<noteq> ref then (Inl (ResolvedOtherSource step), w')
               else (case TrustedResolvedCandidate_Validate resolved of
                 Some e \<Rightarrow> (Inl (ResolvedInvalid step e), w')
               | None \<Rightarrow> (Inr \<lparr>ch_step = i, ch_action = j, ch_plan_step_id = step,
                   ch_action_name = name, ch_ref = ref, ch_resolved = resolved\<rparr>, w'))))
      | _ \<Rightarrow> (Inl HydrationUnavailable, w))"

text \<open>An action as the worker receives it: \<open>None\<close> when nothing is to be hydrated.\<close>

definition hydrate_check ::
  "('s, 'p, 't) browser_tool \<Rightarrow> string \<Rightarrow> nat \<Rightarrow> nat \<Rightarrow> json
   \<Rightarrow> ('s, 'p, 't) harness_world \<Rightarrow> (tool_failure + candidateHydration option) \<times> ('s, 'p, 't) harness_world" where
  "hydrate_check t run_id i j raw w =
     (if \<not> is_map raw then (Inl (QueryActionInvalid i j), w)
      else
        let action = object_members raw in
        if has_member action ''resolved_candidate'' then (Inl ResolvedCandidateForbidden, w)
        else if has_value action ''locator'' = has_value action ''candidate_ref''
        then (Inl (ActionLocatorOrRef i j), w)
        else if \<not> has_value action ''candidate_ref'' then (Inr None, w)
        else (case resolve_action t run_id i j action w of
          (Inl e, w') \<Rightarrow> (Inl e, w') | (Inr x, w') \<Rightarrow> (Inr (Some x), w')))"

fun hydrate_actions ::
  "('s, 'p, 't) browser_tool \<Rightarrow> string \<Rightarrow> nat \<Rightarrow> nat \<Rightarrow> json list
   \<Rightarrow> ('s, 'p, 't) harness_world \<Rightarrow> (tool_failure + candidateHydration list) \<times> ('s, 'p, 't) harness_world" where
  "hydrate_actions t run_id i j [] w = (Inr [], w)"
| "hydrate_actions t run_id i j (a # as) w =
     (case hydrate_check t run_id i j a w of
        (Inl e, w') \<Rightarrow> (Inl e, w')
      | (Inr x, w') \<Rightarrow>
        (case hydrate_actions t run_id i (Suc j) as w' of
           (Inl e, w'') \<Rightarrow> (Inl e, w'')
         | (Inr xs, w'') \<Rightarrow> (Inr (case x of None \<Rightarrow> xs | Some h \<Rightarrow> h # xs), w'')))"

definition hydrate_step ::
  "('s, 'p, 't) browser_tool \<Rightarrow> string \<Rightarrow> nat \<Rightarrow> json
   \<Rightarrow> ('s, 'p, 't) harness_world \<Rightarrow> (tool_failure + candidateHydration list) \<times> ('s, 'p, 't) harness_world" where
  "hydrate_step t run_id i raw w =
     (if \<not> is_map raw then (Inl (QueryStepInvalid i), w)
      else (case map_of (object_members raw) ''actions'' of
          None \<Rightarrow> (Inr [], w)
        | Some (JArr actions) \<Rightarrow> hydrate_actions t run_id i 0 actions w
        | Some _ \<Rightarrow> (Inl (QueryActionsInvalid i), w)))"

fun hydrate_steps ::
  "('s, 'p, 't) browser_tool \<Rightarrow> string \<Rightarrow> nat \<Rightarrow> json list
   \<Rightarrow> ('s, 'p, 't) harness_world \<Rightarrow> (tool_failure + candidateHydration list) \<times> ('s, 'p, 't) harness_world" where
  "hydrate_steps t run_id i [] w = (Inr [], w)"
| "hydrate_steps t run_id i (s # ss) w =
     (case hydrate_step t run_id i s w of
        (Inl e, w') \<Rightarrow> (Inl e, w')
      | (Inr xs, w') \<Rightarrow>
        (case hydrate_steps t run_id (Suc i) ss w' of
           (Inl e, w'') \<Rightarrow> (Inl e, w'')
         | (Inr ys, w'') \<Rightarrow> (Inr (xs @ ys), w'')))"

fun one_candidate_per_step :: "(string \<times> CandidateRef) list \<Rightarrow> candidateHydration list \<Rightarrow> tool_failure option" where
  "one_candidate_per_step seen [] = None"
| "one_candidate_per_step seen (h # hs) =
     (case map_of seen (ch_plan_step_id h) of
        Some ref \<Rightarrow>
          if ref \<noteq> ch_ref h then Some (StepReferencesMultiple (ch_plan_step_id h))
          else one_candidate_per_step (assoc_put (ch_plan_step_id h) (ch_ref h) seen) hs
      | None \<Rightarrow> one_candidate_per_step (assoc_put (ch_plan_step_id h) (ch_ref h) seen) hs)"

definition authorization_of :: "candidateHydration \<Rightarrow> ResolvedCandidateAuthorization" where
  "authorization_of h = \<lparr>ra_plan_step_id = ch_plan_step_id h, ra_action = ch_action_name h,
     ra_candidate = ch_resolved h\<rparr>"

subsection \<open>Rewriting the payload\<close>

text \<open>A map is kept with its names in order.\<close>

definition put_member :: "string \<Rightarrow> json \<Rightarrow> (string \<times> json) list \<Rightarrow> (string \<times> json) list" where
  "put_member k v m = sort_key fst (assoc_put k v m)"

definition change_member :: "string \<Rightarrow> (json \<Rightarrow> json) \<Rightarrow> json \<Rightarrow> json" where
  "change_member k f j = (case j of
     JObj m \<Rightarrow> (case map_of m k of None \<Rightarrow> j | Some v \<Rightarrow> JObj (put_member k (f v) m)) | _ \<Rightarrow> j)"

definition change_item :: "nat \<Rightarrow> (json \<Rightarrow> json) \<Rightarrow> json \<Rightarrow> json" where
  "change_item i f j = (case j of
     JArr js \<Rightarrow> if i < length js then JArr (js[i := f (js ! i)]) else j | _ \<Rightarrow> j)"

definition hydrated_action :: "TrustedResolvedCandidate \<Rightarrow> json \<Rightarrow> json" where
  "hydrated_action resolved action = JObj (put_member ''resolved_candidate''
     (enc_TrustedResolvedCandidate resolved)
     (filter (\<lambda>p. fst p \<noteq> ''candidate_ref'') (object_members action)))"

definition hydrate_at :: "candidateHydration \<Rightarrow> json \<Rightarrow> json" where
  "hydrate_at h = change_member ''steps'' (change_item (ch_step h)
     (change_member ''actions'' (change_item (ch_action h) (hydrated_action (ch_resolved h)))))"

text \<open>The payload is rewritten in place, and only after every candidate was authorised.\<close>

definition hydrateCandidateReferences ::
  "('s, 'p, 't) browser_tool \<Rightarrow> string \<Rightarrow> (string \<times> json) list
   \<Rightarrow> ('s, 'p, 't) harness_world \<Rightarrow> (tool_failure + (string \<times> json) list) \<times> ('s, 'p, 't) harness_world" where
  "hydrateCandidateReferences t run_id payload w =
     (case any_get payload ''steps'' of
        JArr steps \<Rightarrow>
          (case hydrate_steps t run_id 0 steps w of
             (Inl e, w') \<Rightarrow> (Inl e, w')
           | (Inr hs, w') \<Rightarrow>
             if hs = [] then (Inr payload, w')
             else (case one_candidate_per_step [] hs of
                 Some e \<Rightarrow> (Inl e, w')
               | None \<Rightarrow>
                 (case bt_plans t of
                    None \<Rightarrow> (Inl HydrationUnavailable, w')
                  | Some repo \<Rightarrow>
                    (case AuthorizeResolvedCandidates repo (hw_plans w') run_id (map authorization_of hs) of
                       Some e \<Rightarrow> (Inl (PlanServiceFailed e), w')
                     | None \<Rightarrow> (Inr (object_members (fold hydrate_at hs (JObj payload))), w')))))
      | _ \<Rightarrow> (Inl QueryStepsInvalid, w))"

subsection \<open>Executing\<close>

definition browserProbeID :: "tool_call \<Rightarrow> string" where
  "browserProbeID call = ''probe_'' @ take 24 (sha256_hex
     (tc_run_id call @ [char_of (0 :: nat)] @ tc_tool_call_id call @ [char_of (0 :: nat)] @ tc_name call))"

definition put_default :: "string \<Rightarrow> json \<Rightarrow> (string \<times> json) list \<Rightarrow> (string \<times> json) list" where
  "put_default k v m = (if has_member m k then m else put_member k v m)"

text \<open>The arguments for the worker and the version of the observation.\<close>

definition exploration_arguments ::
  "('s, 'p, 't) browser_tool \<Rightarrow> tool_call \<Rightarrow> ('s, 'p, 't) harness_world
   \<Rightarrow> (tool_failure + string \<times> string) \<times> ('s, 'p, 't) harness_world" where
  "exploration_arguments t call w =
     (case parse_json (tc_arguments call) of
        Some (JObj raw) \<Rightarrow>
          let payload = put_member ''probe_id'' (JStr (browserProbeID call))
                (filter (\<lambda>p. fst p \<noteq> ''plan_step_ids'') (object_members (anyval (JObj raw))));
              payload = (if bt_name t = ''explore_flow''
                then put_default ''schema_version'' (JStr GroundingQueryV1) payload else payload) in
          (case (if bt_name t = ''explore_flow'' \<and>
                any_get payload ''schema_version'' = JStr GroundingQueryV2
              then hydrateCandidateReferences t (tc_run_id call) payload w else (Inr payload, w)) of
             (Inl e, w') \<Rightarrow> (Inl e, w')
           | (Inr payload, w') \<Rightarrow>
             let payload = put_default ''observation_schema_version'' (JStr ''v2'') payload in
             (Inr (render (JObj payload), any_string (any_get payload ''observation_schema_version'')), w'))
      | Some JNull \<Rightarrow> (Inl NilMapWrite, w)
      | _ \<Rightarrow> (Inl (ArgumentsUndecodable (bt_name t)), w))"

definition without_nodes :: "(string \<times> json) list \<Rightarrow> (string \<times> json) list" where
  "without_nodes m = (if has_member m ''observation_v2''
     then filter (\<lambda>p. fst p \<noteq> ''a11y_nodes'') m else m)"

definition compact_page :: "json \<Rightarrow> json" where
  "compact_page j = (case j of JObj m \<Rightarrow> JObj (without_nodes m) | _ \<Rightarrow> j)"

definition compact_pages :: "json \<Rightarrow> json" where
  "compact_pages j = (case j of JArr pages \<Rightarrow> JArr (map compact_page pages) | _ \<Rightarrow> j)"

text \<open>A \<open>null\<close> is read as the \<open>nil\<close> map and written as \<open>null\<close>.\<close>

definition compactV2ExplorationResult :: "string \<Rightarrow> string option" where
  "compactV2ExplorationResult raw =
     (case parse_json raw of
        Some (JObj ms) \<Rightarrow> Some (render (change_member ''pages'' compact_pages
          (JObj (without_nodes (object_members (anyval (JObj ms)))))))
      | Some JNull \<Rightarrow> Some ''null''
      | _ \<Rightarrow> None)"

definition BrowserTool_Execute ::
  "('s, 'p, 't) browser_tool \<Rightarrow> ('s, 'p, 't) harness_world tool_exec" where
  "BrowserTool_Execute t call w =
     (case (if IsExplorationTool (bt_name t) then exploration_arguments t call w
         else (Inr (tc_arguments call, []), w)) of
        (Inl e, w') \<Rightarrow> (Inl e, w')
      | (Inr (arguments, version), w') \<Rightarrow>
        (case bt_client t (bt_name t) (tc_actor_user_id call) (tc_project_id call)
            (tc_conversation_id call) arguments w' of
           (Inl e, w'') \<Rightarrow> (Inl (ClientFailed e), w'')
         | (Inr content, w'') \<Rightarrow>
           if version = ''v2'' then
             (case compactV2ExplorationResult content of
                None \<Rightarrow> (Inl ResultUndecodable, w'')
              | Some text' \<Rightarrow> (Inr (plain_result text'), w''))
           else (Inr (plain_result content), w'')))"

end
