(* ===== verification/BrowserProperties.thy ===== *)
theory BrowserProperties
  imports BrowserTools
begin

section \<open>Properties of the browser tools\<close>

subsection \<open>What the worker reads\<close>

text \<open>
  The worker finds the members of a document by their exact names and ignores the others. The
  actions of a flow: the list of all action objects.
\<close>

definition flow_actions :: "(string \<times> json) list \<Rightarrow> (string \<times> json) list list" where
  "flow_actions payload = concat (map (\<lambda>step.
     map object_members (array_items (any_get (object_members step) ''actions'')))
     (array_items (any_get payload ''steps'')))"

definition worker_actions :: "string \<Rightarrow> (string \<times> string) list" where
  "worker_actions text' = map (\<lambda>m. (any_string (any_get m ''plan_step_id''), any_string (any_get m ''action'')))
     (flow_actions (case parse_json text' of Some j \<Rightarrow> object_members j | None \<Rightarrow> []))"

subsection \<open>Two readers of one document\<close>

definition doubled_action :: "string \<Rightarrow> string \<Rightarrow> json" where
  "doubled_action step_id name = JObj
     [(''plan_step_ids'', JArr [JStr step_id]),
      (''steps'', JArr [JObj [(''actions'', JArr [JObj
        [(''plan_step_id'', JStr step_id), (''action'', JStr name),
         (''locator'', JObj [(''kind'', JStr ''role''), (''role'', JStr ''button'')]),
         (''ACTION'', JStr ''wait_for'')]])]])]"

lemma parse_doubled: "parse_json (render (doubled_action i a)) = Some (doubled_action i a)"
  by (rule parse_render) (simp_all add: doubled_action_def maxNestingDepth_def)

lemma fold_ACTION:
  "EqualFold ''plan_step_id'' ''ACTION'' = False" "EqualFold ''action'' ''ACTION'' = True"
  "EqualFold ''locator'' ''ACTION'' = False" "EqualFold ''candidate_ref'' ''ACTION'' = False"
  "EqualFold ''value'' ''ACTION'' = False" "EqualFold ''condition'' ''ACTION'' = False"
  by code_simp+

lemma owners_doubled:
  "unmarshal dec_ProbeFlowRequest \<lparr>pf_schema_version = [], pf_steps = []\<rparr> (Some (doubled_action i a)) =
     Some \<lparr>pf_schema_version = [], pf_steps = [\<lparr>pg_description = [], pg_actions =
       [\<lparr>pa_plan_step_id = i, pa_action = ''wait_for'',
         pa_locator = JObj [(''kind'', JStr ''role''), (''role'', JStr ''button'')],
         pa_candidate_ref = None, pa_value = [], pa_condition = \<lparr>pc_type = [], pc_expected = []\<rparr>\<rparr>]\<rparr>]\<rparr>"
  by (simp add: doubled_action_def dec_ProbeFlowRequest_def dec_ProbeGroup_def dec_ProbeAction_def
    zero_ProbeAction_def decode_simps go_string_simps map_members_def assoc_put_def fold_ACTION)

lemma ids_doubled: "planStepIDs (Some (doubled_action i a)) = Inr [i]"
  by (simp add: planStepIDs_def doubled_action_def decode_simps go_string_simps)

lemma normal_wait: "normalize ''wait_for'' = ''wait_for''" "normalize ''click'' = ''click''"
  "EqualFold [] ''value_equals'' = False" "requiresTargetBinding ''click''"
  by code_simp+

lemma forwarded_doubled:
  assumes "bt_name t = ''explore_flow''" and "tc_arguments call = render (doubled_action i a)"
  shows "exploration_arguments t call w = (Inr (render (JObj
    [(''observation_schema_version'', JStr ''v2''), (''probe_id'', JStr (browserProbeID call)),
     (''schema_version'', JStr GroundingQueryV1),
     (''steps'', JArr [JObj [(''actions'', JArr [JObj
        [(''ACTION'', JStr ''wait_for''), (''action'', JStr a),
         (''locator'', JObj [(''kind'', JStr ''role''), (''role'', JStr ''button'')]),
         (''plan_step_id'', JStr i)]])]])]), ''v2''), w)"
proof -
  have "GroundingQueryV1 \<noteq> GroundingQueryV2" by (simp add: GroundingQueryV1_def GroundingQueryV2_def)
  moreover have "parse_json (tc_arguments call) = Some (doubled_action i a)"
    using assms(2) parse_doubled by simp
  ultimately show ?thesis
    using assms(1)
    by (simp add: exploration_arguments_def doubled_action_def object_members_def map_members_def
      put_member_def put_default_def has_member_def assoc_put_def any_get_def any_string_def Let_def)
qed

text \<open>
  C6. A finding. The plan service reads an action with the rules of Go, where a later member
  \<open>ACTION\<close> overwrites \<open>action\<close>; the worker reads the exact name. A flow whose only
  action is a click for the worker is authorised as waiting: on whatever step the click is
  planned, one with an external side effect included, the exploration performs it.
\<close>

theorem probe_barrier_can_be_bypassed:
  assumes "repo_current repo (hw_plans w) (tc_run_id call) = Inr plan"
    and "pl_status plan = StatusGrounding" and "contiguousPendingSteps plan [st_id s] = Inr [s]"
    and "stepByID (pl_steps plan) (st_id s) = Some s" and "st_action s = ''click''" and "st_id s \<noteq> []"
    and "\<not> forbidden (slice_items (pl_forbidden_actions plan)) ''wait_for  ''"
    and "bt_name t = ''explore_flow''" and "tc_arguments call = render (doubled_action (st_id s) ''click'')"
  shows "Authorize repo (hw_plans w) (tc_run_id call) ''explore_flow'' (parse_json (tc_arguments call)) = None \<and>
    (\<exists>text'. exploration_arguments t call w = (Inr (text', ''v2''), w) \<and>
      worker_actions text' = [(st_id s, ''click'')])"
proof (rule conjI)
  have "probeActionOwner plan [s] [] [] \<lparr>pa_plan_step_id = st_id s, pa_action = ''wait_for'',
      pa_locator = JObj [(''kind'', JStr ''role''), (''role'', JStr ''button'')],
      pa_candidate_ref = None, pa_value = [], pa_condition = \<lparr>pc_type = [], pc_expected = []\<rparr>\<rparr> \<in>
      {Inr None, Inr (Some (st_id s))}"
    using assms(4-7)
    by (auto simp: probeActionOwner_def Let_def probe_value_def candidate_ref_error_def probeActionMatches_def
      probeValueMatches_def normal_wait stepByID_def)
  then have "\<exists>owners. mapProbeActionOwners plan [s] (Some (doubled_action (st_id s) ''click'')) = Inr owners"
    by (auto simp: mapProbeActionOwners_def owners_doubled)
  then show "Authorize repo (hw_plans w) (tc_run_id call) ''explore_flow'' (parse_json (tc_arguments call)) = None"
    using assms(1-3,9)
    by (auto simp: Authorize_def authorize_plan_def authorizeExploration_def parse_doubled ids_doubled)
  let ?doc = "JObj
    [(''observation_schema_version'', JStr ''v2''), (''probe_id'', JStr (browserProbeID call)),
     (''schema_version'', JStr GroundingQueryV1),
     (''steps'', JArr [JObj [(''actions'', JArr [JObj
        [(''ACTION'', JStr ''wait_for''), (''action'', JStr ''click''),
         (''locator'', JObj [(''kind'', JStr ''role''), (''role'', JStr ''button'')]),
         (''plan_step_id'', JStr (st_id s))]])]])]"
  have "parse_json (render ?doc) = Some ?doc" by (rule parse_render) (simp_all add: maxNestingDepth_def)
  then have "worker_actions (render ?doc) = [(st_id s, ''click'')]"
    by (simp add: worker_actions_def flow_actions_def object_members_def array_items_def any_get_def any_string_def)
  with forwarded_doubled [OF assms(8,9)]
  show "\<exists>text'. exploration_arguments t call w = (Inr (text', ''v2''), w) \<and>
      worker_actions text' = [(st_id s, ''click'')]" by blast
qed

text \<open>A plan whose pending click has an external side effect.\<close>

definition payment_step :: Step where
  "payment_step = sample_click\<lparr>st_intent := ''Place the order'', st_target := ''Pay'',
     st_idempotency := ''non_idempotent'', st_side_effect := SideEffectExternal\<rparr>"

definition payment_plan :: Plan where
  "payment_plan = sample_plan\<lparr>pl_max_side_effect := SideEffectExternal,
     pl_steps := [sample_step, payment_step, sample_wait]\<rparr>"

theorem probe_barrier_can_be_bypassed_witness:
  "\<forall>w call t. let plans = NewMemoryRepository(''run_1'' := [payment_plan]);
     w' = w\<lparr>hw_plans := plans\<rparr>; t' = t\<lparr>bt_name := ''explore_flow''\<rparr>;
     call' = call\<lparr>tc_run_id := ''run_1'', tc_arguments := render (doubled_action ''s2'' ''click'')\<rparr> in
     Authorize memory_repo plans ''run_1'' ''explore_flow'' (parse_json (tc_arguments call')) = None \<and>
     (\<exists>text'. exploration_arguments t' call' w' = (Inr (text', ''v2''), w') \<and>
       worker_actions text' = [(''s2'', ''click'')])"
proof -
  have "repo_current memory_repo (NewMemoryRepository(''run_1'' := [payment_plan])) ''run_1'' = Inr payment_plan"
    "pl_status payment_plan = StatusGrounding"
    "contiguousPendingSteps payment_plan [st_id payment_step] = Inr [payment_step]"
    "stepByID (pl_steps payment_plan) (st_id payment_step) = Some payment_step"
    "st_action payment_step = ''click''" "st_id payment_step \<noteq> []" "st_id payment_step = ''s2''"
    "\<not> forbidden (slice_items (pl_forbidden_actions payment_plan)) ''wait_for  ''"
    by code_simp+
  note facts = this
  show ?thesis
    unfolding Let_def facts(7) [symmetric]
  proof (intro allI, goal_cases)
    case (1 w call t)
    let ?plans = "NewMemoryRepository(''run_1'' := [payment_plan])"
    show ?case
      using probe_barrier_can_be_bypassed [OF _ facts(2-6,8), of memory_repo "w\<lparr>hw_plans := ?plans\<rparr>"
        "call\<lparr>tc_run_id := ''run_1'', tc_arguments := render (doubled_action (st_id payment_step) ''click'')\<rparr>"
        "t\<lparr>bt_name := ''explore_flow''\<rparr>"] facts(1)
      by simp
  qed
qed

end
