(* ===== verification/Spec2Isabelle.thy ===== *)
theory Spec2Isabelle
  imports ContractProperties PlanCompiler PlanProperties DslProperties AgentProperties PolicyProperties AgentLoop
    SummaryProperties SummaryOrder HarnessAsking BrowserProperties
begin

text \<open>
  The control plane of an agent that tests web applications, written in Go
  (backend-go/internal). A user asks a language model for a test; the model drives tools
  (explore a page, explore a flow, generate a test case in the DSL, execute it, read the
  report); the control plane keeps a task plan per agent run, decides which tool may be called
  when, binds every plan step to a page element that was really observed, and compiles the
  plan into an executable case. The development models this core and proves what it promises.

  \<^bold>\<open>Theories and code.\<close>

  \<^item> \<open>Prelude\<close>, \<open>GoStrings\<close>, \<open>Sha256\<close>, \<open>Json\<close>, \<open>GoTime\<close>: the parts of the Go standard
    library the code rests on. Association lists for Go maps; \<open>strings\<close> (TrimSpace, Fields,
    ToLower, Contains, EqualFold, ...); SHA-256 computed on words; JSON values, decoding into
    typed values with Go's rules (case-insensitive member names, the last duplicate wins,
    \<open>null\<close> leaves a value unchanged, unknown members skipped or, with
    \<open>DisallowUnknownFields\<close>, refused), encoding in declaration order with \<open>omitempty\<close>; the
    time stamps of plan ids.
  \<^item> \<open>BrowserContract\<close>, \<open>ObservationValidation\<close>, \<open>ContractProperties\<close>: package
    browsercontract (types.go, observation_validation.go), the contract with the browser
    worker: locators, candidates, evidence of resolved targets, sealed target bindings, the
    strict validation of observations.
  \<^item> \<open>PlanTypes\<close>: taskplan/types.go, the data model of plans, their JSON form and errors.
  \<^item> \<open>PlanDefinition\<close>: validation and normalisation of a submitted definition, its semantic
    hash, what a revision carries over (taskplan/service.go).
  \<^item> \<open>PlanRepository\<close>: the interface Repository as the locale \<open>plan_repository\<close>, and
    taskplan/memory_repository.go as its interpretation.
  \<^item> \<open>PlanConditions\<close>: taskplan/condition.go, the reading of condition texts; the five
    regular expressions are matched by functions on their languages.
  \<^item> \<open>PlanGrounding\<close>, \<open>GroundingLaws\<close>: the window of an exploration, the owners of probe
    actions, evidence and target bindings read from a result (taskplan/service.go).
  \<^item> \<open>PlanCompiler\<close>: taskplan/compiler.go and the case checks of service.go.
  \<^item> \<open>PlanService\<close>: the operations of taskplan.Service on any repository.
  \<^item> \<open>PlanLifecycle\<close>, \<open>PlanMachine\<close>, \<open>PlanProperties\<close>: the specification of one run as an
    abstract state machine (\<open>plan_step\<close>), the invariant \<open>plan_ok\<close>, the proof that the service
    refines the machine on every repository that satisfies the locale, and the properties of
    all reachable states.
  \<^item> \<open>AgentRuns\<close>, \<open>AgentRunLaws\<close>: agentservice/types.go, repository.go, memory_repository.go:
    runs, their event log, the interface Repository with its laws as the locale
    \<open>agent_repository\<close>, the repository in memory as its interpretation.
  \<^item> \<open>EventBroker\<close>: agentservice/broker.go, the channels that wake the readers of a run.
  \<^item> \<open>AgentService\<close>, \<open>AgentServiceLaws\<close>: the operations of agentservice.Service as sequences
    of single calls, and what every interleaving of such calls keeps.
  \<^item> \<open>EventStream\<close>, \<open>AgentProperties\<close>: streamEvents of transport/http/handler.go as a state
    machine that runs beside all other goroutines, and the properties of runs and streams.
  \<^item> \<open>JsonText\<close>: the parser of encoding/json, from text to document, and that it reads back what
    json.Marshal writes.
  \<^item> \<open>ToolSummary\<close>, \<open>ToolSummaryEncoding\<close>, \<open>ExploreResult\<close>: the structs of agent/tool_result.go with
    their decoders and encoders: summaries, and exploration results as the tools return them.
  \<^item> \<open>SummaryText\<close>, \<open>SummaryBuild\<close>, \<open>SummaryPages\<close>, \<open>SummaryObservation\<close>,
    \<open>CapabilitySummary\<close>: how a result becomes a summary (BuildModelToolSummary up to the
    bounding): texts cut at characters, deduplication, the nodes kept with their ancestors,
    merging of pages, the structured observation, the summaries of the other tools.
  \<^item> \<open>SummaryBound\<close>, \<open>TranscriptBudget\<close>: encodeBoundedSummary with its loop of omissions,
    and CompactExplorationTranscript.
  \<^item> \<open>SummarySize\<close>, \<open>SummaryLaws\<close>, \<open>SummarySelection\<close>, \<open>SummaryProperties\<close>,
    \<open>SummaryOrder\<close>: lengths of JSON texts and the fixed point of the stated size, what
    shortening keeps, the ancestors of a node, which lists do not depend on the order of a map,
    and the properties of summaries.
  \<^item> \<open>HarnessPolicy\<close>, \<open>PolicyProperties\<close>: harness/policy.go, the gate in front of every tool
    call, and the budgets it enforces.
  \<^item> \<open>AgentLoop\<close>: agent/loop.go, the loop around the model, with its turn budget.
  \<^item> \<open>PipelineTrace\<close>, \<open>TraceLog\<close>, \<open>ModelTelemetry\<close>, \<open>ToolTrace\<close>: the traces of tool calls and
    model requests in the log (agentservice/pipeline_trace.go, harness/pipeline_trace.go, the
    telemetry of agent/types.go and RecordModelTelemetry of agentservice/service.go).
  \<^item> \<open>HarnessWorld\<close>, \<open>HarnessRecords\<close>, \<open>HarnessTurn\<close>, \<open>Harness\<close>: harness/harness.go, which
    puts plan service, agent service, policy, loop and tools together: its state and cost fuses,
    what it writes to log and transcript, the handler of one turn, and the operations Start,
    Continue, Resume, CancelOwned.
  \<^item> \<open>HarnessLaws\<close>, \<open>HarnessProperties\<close>, \<open>HarnessEnds\<close>: what every part of the turn handler keeps
    of the run, and the properties of turns, of the ends of runs and of their resumption.
  \<^item> \<open>ToolRegistry\<close>, \<open>BrowserTools\<close>: the registry of the tools and the tools that ask the user,
    set the task plan and explore pages and flows (tools/tool.go, ask_user.go, task_plan.go,
    browser.go); \<open>BrowserProperties\<close>: the two readers of one flow.
  \<^item> \<open>GoUrl\<close>, \<open>DslRules\<close>, \<open>DslCanonical\<close>, \<open>DslValidation\<close>: the validation of test cases
    (dsl/store.go, action_ir.go, research_v2.go) in its three profiles and two phases, with the
    canonical form of a case; \<open>GoUrl\<close> is the parser of addresses the checks use (net/url).
  \<^item> \<open>DslStore\<close>: the store of generations (dsl/store.go). Its database is a record of four
    statements, the locale \<open>generation_database\<close> what the store relies on, a table with the checks
    of dbschema/schema.sql its interpretation.
  \<^item> \<open>DslLaws\<close>, \<open>DslV2Laws\<close>, \<open>DslV1Laws\<close>, \<open>DslV1Cases\<close>, \<open>DslV1Fixed\<close>, \<open>DslTyped\<close>,
    \<open>DslProperties\<close>: documents in normal form, canonical forms as fixed points of the validation
    profile by profile, the shape and the targets of validated cases, and the properties of
    cases and generations.

  \<^bold>\<open>How the state corresponds.\<close> A plan is the record \<open>Plan\<close> with the fields of the Go
  struct; the memory repository is a function from run ids to the list of versions, oldest
  first. An operation of the service takes the repository (a record of its three methods), the
  time of the call and the state, and returns the error or result with the new state. A run of
  the system is a trace of accepted events (\<open>service_trace\<close>); a tool call is one event in
  which the authorisation and the recording of its result both succeed, as the harness
  performs them. Between \<open>GetCurrent\<close> and \<open>Save\<close> of one operation no other operation of the
  same run interferes: the harness handles one tool call of a run at a time.

  An agent run and its log are what a repository shows of them (\<open>memory_view\<close>); the service is
  a function on the state of the repository, the broker, the clock and the generator of ids
  (\<open>agent_sys\<close>). Here operations do interfere: \<open>sys_step\<close> is one call of the repository, one
  publication or one reading of the clock, every operation is a sequence of these
  (\<open>operations_are_calls\<close>), and the properties of runs hold after any such sequence.
  \<open>world_step\<close> adds one handler of a stream, with its own steps, and the publications that
  are still owed after an append. Channels live in a store addressed by subscription ids. The
  policy reads the transcript of the run as the code does, from texts; the clock, the model,
  the turn handler and the turn budget are arguments of the loop. The harness supplies them: its
  world (\<open>harness_world\<close>) holds the agent service, the repository of plans, the table of active
  runs, and a component of any type for what else the tools and the model act on. The client of
  the model is a function that is given the sink of the telemetry; the tools are a function on the world: what
  other goroutines do to a run while a turn is handled, its cancellation for example, happens
  during these calls. The context of a goroutine is a number, a cancelled one is in a set.

  \<^bold>\<open>Conventions.\<close> Errors are values of a sum; an error datatype has one constructor per
  message of the source, with its parameters. Texts are lists of characters over which the
  string functions act as Go's do on ASCII text; characters beyond are opaque. A raw JSON
  message is its parsed content (\<open>None\<close> for text that is not JSON) beside, where it is hashed,
  its text. Numbers in JSON are integers or decimal fractions; a JSON number enters an int
  field only when it is an integer of 64 bits. Slices that may be nil are options. Maps that
  are iterated in Go's random order are listed in the order of insertion; where the order could
  be seen, the summaries, a relation (\<open>sorts_to\<close>) or an argument (the starts of \<open>climb_all\<close>)
  stands for every order, and the properties say what does not depend on it. The length of a
  text that is stored as an int wraps at 64 bits. Where the
  source adds in 64 bits (the expected number of steps of a case) the sum wraps and indexing
  beyond the case is an error of its own, the panic of the source. Sending
  on a closed channel, the other panic, is an error too. Counters and subscription ids are
  unbounded, numbers in JSON are not rounded to float64, texts are valid UTF-8. The wording
  of error messages from outside the harness is a parameter (\<open>hs_text\<close>); the conversion of a
  float beyond 64 bits gives the smallest number, as on amd64; a text that was cut inside a
  character is written with the replacement character. Every function terminates, since the loops run over the plan, the case, the transcript or the JSON value,
  but for the agent loop, which is an option-valued function with a theorem on when it returns.

  \<^bold>\<open>Not modelled.\<close> The repositories in PostgreSQL (SQL text), the HTTP transport beside the
  event stream, the clients of the model and of the browser worker, configuration, command
  lines, migration; the control plane behind the execution tools; the texts of the prompts; the research
  projections, which read events and change no plan; the stores of cases, projects, corrections, executions and
  planning. The other languages of the repository (the browser worker and the frontend) are
  beyond the Go code this is about.
\<close>

end
